(* ===== verification/Prelude.thy ===== *)
theory Prelude
  imports Complex_Main "HOL-Library.Word" "HOL-Library.AList" "HOL-Library.Multiset"
begin

text \<open>
  Shared vocabulary of the development: Go's fixed-width integers and byte slices, the
  result type of a fallible Go function (a value, a returned error or a runtime panic),
  bounds-checked slicing, little- and big-endian integers as encoding/binary writes them,
  and Go maps as association lists with distinct keys.  The collections
  \<open>codec_simps\<close> (slices and integer codecs) and \<open>gomap_simps\<close> (map updates) carry
  the component proofs.
\<close>

unbundle bit_operations_syntax

named_theorems codec_simps \<open>slicing and integer codecs\<close>
named_theorems gomap_simps \<open>lookup, update and delete on Go maps\<close>

section \<open>Machine integers and byte slices\<close>

type_synonym byte = "8 word"
type_synonym bytes = "byte list"
type_synonym u16 = "16 word"
type_synonym u32 = "32 word"
type_synonym u64 = "64 word"

text \<open>A Go string is an immutable byte sequence; literals are written as ASCII text.\<close>

definition lit :: "string \<Rightarrow> bytes" where
  "lit s = map of_char s"

lemma length_lit [simp]: "length (lit s) = length s"
  by (simp add: lit_def)

section \<open>Results: values, returned errors, run-time panics\<close>

datatype err =
    ErrPacketTooShort
  | ErrUnsupportedVersion byte
  | ErrChecksumMismatch
  | ErrTooManyPeers
  | ErrOther bytes

datatype 'a res = Ok 'a | Err err | Panic

fun bind_res :: "'a res \<Rightarrow> ('a \<Rightarrow> 'b res) \<Rightarrow> 'b res" where
  "bind_res (Ok x) f = f x"
| "bind_res (Err e) f = Err e"
| "bind_res Panic f = Panic"

lemma bind_res_cong [fundef_cong]:
  "r = r' \<Longrightarrow> (\<And>x. r' = Ok x \<Longrightarrow> f x = g x) \<Longrightarrow> bind_res r f = bind_res r' g"
  by (cases r') auto

lemma bind_res_Ok_iff: "bind_res r f = Ok y \<longleftrightarrow> (\<exists>x. r = Ok x \<and> f x = Ok y)"
  by (cases r) auto

lemma bind_res_no_panic:
  "r \<noteq> Panic \<Longrightarrow> (\<And>x. r = Ok x \<Longrightarrow> f x \<noteq> Panic) \<Longrightarrow> bind_res r f \<noteq> Panic"
  by (cases r) auto

text \<open>A guard that returns an error, as in \<open>if cond { return nil, err }\<close>.\<close>

definition guard_err :: "bool \<Rightarrow> err \<Rightarrow> 'a res \<Rightarrow> 'a res" where
  "guard_err c e r = (if c then Err e else r)"

lemma guard_err_False [simp]: "guard_err False e r = r"
  and guard_err_True [simp]: "guard_err True e r = Err e"
  by (simp_all add: guard_err_def)

lemma guard_err_Ok_iff: "guard_err c e r = Ok x \<longleftrightarrow> \<not> c \<and> r = Ok x"
  by (simp add: guard_err_def)

lemma guard_err_no_panic: "(\<not> c \<Longrightarrow> r \<noteq> Panic) \<Longrightarrow> guard_err c e r \<noteq> Panic"
  by (simp add: guard_err_def)

section \<open>Slices\<close>

text \<open>\<open>data[i:j]\<close> panics unless \<open>i \<le> j \<le> len(data)\<close>; \<open>data[i]\<close> unless \<open>i < len(data)\<close>.\<close>

definition slice :: "'a list \<Rightarrow> nat \<Rightarrow> nat \<Rightarrow> 'a list res" where
  "slice xs i j = (if i \<le> j \<and> j \<le> length xs then Ok (take (j - i) (drop i xs)) else Panic)"

definition idx :: "'a list \<Rightarrow> nat \<Rightarrow> 'a res" where
  "idx xs i = (if i < length xs then Ok (xs ! i) else Panic)"

lemma slice_ok [codec_simps]:
  "i \<le> j \<Longrightarrow> j \<le> length xs \<Longrightarrow> slice xs i j = Ok (take (j - i) (drop i xs))"
  by (simp add: slice_def)

lemma idx_ok [codec_simps]: "i < length xs \<Longrightarrow> idx xs i = Ok (xs ! i)"
  by (simp add: idx_def)

lemma slice_no_err [simp]: "slice xs i j \<noteq> Err e"
  by (simp add: slice_def)

lemma idx_no_err [simp]: "idx xs i \<noteq> Err e"
  by (simp add: idx_def)

lemma slice_Ok_iff: "slice xs i j = Ok ys \<longleftrightarrow> i \<le> j \<and> j \<le> length xs \<and> ys = take (j - i) (drop i xs)"
  by (auto simp: slice_def)

lemma slice_Ok_length: "slice xs i j = Ok ys \<Longrightarrow> length ys = j - i"
  by (auto simp: slice_def split: if_splits)

section \<open>Integer codecs (encoding/binary)\<close>

definition put16 :: "u16 \<Rightarrow> bytes" where
  "put16 v = [ucast v, ucast (drop_bit 8 v)]"

definition put32 :: "u32 \<Rightarrow> bytes" where
  "put32 v = [ucast v, ucast (drop_bit 8 v), ucast (drop_bit 16 v), ucast (drop_bit 24 v)]"

definition put64 :: "u64 \<Rightarrow> bytes" where
  "put64 v = map (\<lambda>i. ucast (drop_bit (8 * i) v)) [0..<8]"

definition put16be :: "u16 \<Rightarrow> bytes" where
  "put16be v = [ucast (drop_bit 8 v), ucast v]"

definition le_word :: "bytes \<Rightarrow> 'a::len word" where
  "le_word bs = foldr (\<lambda>b acc. ucast b OR push_bit 8 acc) bs 0"

text \<open>\<open>binary.LittleEndian.Uint16(data[off:])\<close> and its 32- and 64-bit siblings.\<close>

definition get16 :: "bytes \<Rightarrow> nat \<Rightarrow> u16 res" where
  "get16 data off = bind_res (slice data off (off + 2)) (\<lambda>bs. Ok (le_word bs))"

definition get32 :: "bytes \<Rightarrow> nat \<Rightarrow> u32 res" where
  "get32 data off = bind_res (slice data off (off + 4)) (\<lambda>bs. Ok (le_word bs))"

definition get64 :: "bytes \<Rightarrow> nat \<Rightarrow> u64 res" where
  "get64 data off = bind_res (slice data off (off + 8)) (\<lambda>bs. Ok (le_word bs))"

lemma length_put16 [simp]: "length (put16 a) = 2"
  and length_put32 [simp]: "length (put32 b) = 4"
  and length_put64 [simp]: "length (put64 c) = 8"
  and length_put16be [simp]: "length (put16be d) = 2"
  by (simp_all add: put16_def put32_def put64_def put16be_def)

lemma bit_le_word:
  "bit (le_word bs :: 'a::len word) n \<longleftrightarrow>
     n < LENGTH('a) \<and> n div 8 < length bs \<and> bit (bs ! (n div 8)) (n mod 8)"
proof (induction bs arbitrary: n)
  case Nil
  then show ?case by (simp add: le_word_def)
next
  case (Cons b bs)
  have step: "le_word (b # bs) = (ucast b OR push_bit 8 (le_word bs) :: 'a word)"
    by (simp add: le_word_def)
  show ?case
  proof (cases "n < 8")
    case True
    then show ?thesis by (auto simp: step bit_simps)
  next
    case False
    then have n: "n div 8 = Suc ((n - 8) div 8)" "n mod 8 = (n - 8) mod 8"
      by (simp_all add: le_div_geq le_mod_geq)
    show ?thesis
      using False Cons.IH[of "n - 8"] by (auto simp: step bit_simps n dest: bit_imp_le_length)
  qed
qed

lemma le_word_split_bytes:
  assumes "LENGTH('a::len) = 8 * k"
  shows "le_word (map (\<lambda>i. ucast (drop_bit (8 * i) (v :: 'a word))) [0..<k]) = v"
proof (rule bit_word_eqI)
  fix n assume "n < LENGTH('a)"
  moreover from this assms have "n div 8 < k" by (simp add: less_mult_imp_div_less)
  moreover have "8 * (n div 8) + n mod 8 = n" by simp
  ultimately show "bit (le_word (map (\<lambda>i. ucast (drop_bit (8 * i) v)) [0..<k]) :: 'a word) n = bit v n"
    by (simp add: bit_le_word bit_simps)
qed

lemma le_word_put16 [simp]: "le_word (put16 v) = v"
  using le_word_split_bytes[of 2 v] by (simp add: put16_def upt_rec numeral_2_eq_2)

lemma le_word_put32 [simp]: "le_word (put32 v) = v"
  using le_word_split_bytes[of 4 v] by (simp add: put32_def upt_rec)

lemma le_word_put64 [simp]: "le_word (put64 v) = v"
  using le_word_split_bytes[of 8 v] by (simp add: put64_def)

lemma put32_le_word: "length bs = 4 \<Longrightarrow> put32 (le_word bs) = bs"
proof -
  assume l: "length bs = 4"
  have "put32 (le_word bs) ! i = bs ! i" if "i < 4" for i
  proof (rule bit_word_eqI)
    fix n :: nat assume n: "n < LENGTH(8)"
    have "put32 (le_word bs) = map (\<lambda>i. ucast (drop_bit (8 * i) (le_word bs :: u32))) [0..<4]"
      by (simp add: put32_def upt_rec)
    then show "bit (put32 (le_word bs) ! i) n = bit (bs ! i) n"
      using n that l by (auto simp: bit_le_word bit_simps)
  qed
  then show ?thesis using l by (intro nth_equalityI) auto
qed

lemma take_put16 [simp]: "take 2 (put16 v @ xs) = put16 v" "drop 2 (put16 v @ xs) = xs"
  by (simp_all add: put16_def numeral_2_eq_2)

lemma get16_ok [codec_simps]:
  "off + 2 \<le> length data \<Longrightarrow> get16 data off = Ok (le_word (take 2 (drop off data)))"
  by (simp add: get16_def slice_def)

lemma get32_ok [codec_simps]:
  "off + 4 \<le> length data \<Longrightarrow> get32 data off = Ok (le_word (take 4 (drop off data)))"
  by (simp add: get32_def slice_def)

lemma get64_ok [codec_simps]:
  "off + 8 \<le> length data \<Longrightarrow> get64 data off = Ok (le_word (take 8 (drop off data)))"
  by (simp add: get64_def slice_def)

text \<open>\<open>uint16(len(xs))\<close> truncates; below 65536 nothing is lost.\<close>

lemma unat_len16 [simp]: "n < 65536 \<Longrightarrow> unat (of_nat n :: u16) = n"
  by (simp add: unat_of_nat take_bit_nat_eq_self)

lemma unat_u16_less: "unat (v :: u16) < 65536"
  using unsigned_less[of v, where ?'a = nat] by simp

section \<open>Go maps\<close>

text \<open>
  A Go map is an association list with distinct keys; \<open>map_of\<close> looks up,
  \<open>AList.update\<close> stores, \<open>AList.delete\<close> deletes and the length counts the entries.
  The order of the list carries no meaning: every loop over a map takes the order in
  which the run time visits the keys as an argument (\<open>range_map\<close>).
\<close>

abbreviation mkeys :: "('k \<times> 'v) list \<Rightarrow> 'k list" where
  "mkeys m \<equiv> map fst m"

abbreviation mget :: "('k \<times> 'v) list \<Rightarrow> 'k \<Rightarrow> 'v option" where
  "mget m k \<equiv> map_of m k"

definition mput :: "'k \<Rightarrow> 'v \<Rightarrow> ('k \<times> 'v) list \<Rightarrow> ('k \<times> 'v) list" where
  "mput k v m = AList.update k v m"

definition mdel :: "'k \<Rightarrow> ('k \<times> 'v) list \<Rightarrow> ('k \<times> 'v) list" where
  "mdel k m = AList.delete k m"

definition mget0 :: "('k \<times> int) list \<Rightarrow> 'k \<Rightarrow> int" where
  "mget0 m k = (case mget m k of None \<Rightarrow> 0 | Some v \<Rightarrow> v)"

declare map_of_eq_Some_iff [simp del] Some_eq_map_of_iff [simp del]

lemma mget_mput [simp, gomap_simps]: "mget (mput k v m) k' = (if k = k' then Some v else mget m k')"
  by (simp add: mput_def update_conv')

lemma mget_mdel [simp, gomap_simps]: "mget (mdel k m) k' = (if k = k' then None else mget m k')"
  by (simp add: mdel_def delete_conv')

lemma distinct_mput [simp]: "distinct (mkeys m) \<Longrightarrow> distinct (mkeys (mput k v m))"
  by (simp add: mput_def distinct_update)

lemma distinct_mdel [simp]: "distinct (mkeys m) \<Longrightarrow> distinct (mkeys (mdel k m))"
  by (simp add: mdel_def distinct_delete)

lemma keys_mput [simp]: "fst ` set (mput k v m) = insert k (fst ` set m)"
proof -
  have "dom (mget (mput k v m)) = insert k (dom (mget m))" by auto
  then show ?thesis unfolding dom_map_of_conv_image_fst .
qed

lemma keys_mdel [simp]: "fst ` set (mdel k m) = fst ` set m - {k}"
proof -
  have "dom (mget (mdel k m)) = dom (mget m) - {k}" by (auto split: if_splits)
  then show ?thesis unfolding dom_map_of_conv_image_fst .
qed

lemma length_distinct_mkeys: "distinct (mkeys m) \<Longrightarrow> length m = card (fst ` set m)"
  by (metis distinct_card length_map set_map)

lemma length_mput:
  assumes "distinct (mkeys m)"
  shows "length (mput k v m) = (if k \<in> fst ` set m then length m else Suc (length m))"
proof -
  have "length (mput k v m) = card (insert k (fst ` set m))"
    using assms length_distinct_mkeys[of "mput k v m"] by simp
  then show ?thesis
    using assms length_distinct_mkeys[of m] by (simp add: card_insert_if)
qed

lemma length_mdel_le: "length (mdel k m) \<le> length m"
  by (simp add: mdel_def length_delete_le)

lemma mget_None_iff: "mget m k = None \<longleftrightarrow> k \<notin> fst ` set m"
  by (simp add: map_of_eq_None_iff)

lemma mget_in_set: "mget m k = Some v \<Longrightarrow> (k, v) \<in> set m"
  by (rule map_of_SomeD)

lemma in_set_mget: "distinct (mkeys m) \<Longrightarrow> (k, v) \<in> set m \<Longrightarrow> mget m k = Some v"
  by (simp add: map_of_eq_Some_iff)

lemma mget_in_keys: "mget m k = Some v \<Longrightarrow> k \<in> fst ` set m"
  by (metis mget_None_iff option.distinct(1))

text \<open>Iteration: the run time picks an order of the keys, here the function \<open>ord\<close>.\<close>

definition order_ok :: "('k list \<Rightarrow> 'k list) \<Rightarrow> bool" where
  "order_ok ord \<longleftrightarrow> (\<forall>ks. mset (ord ks) = mset ks)"

definition range_map :: "('k list \<Rightarrow> 'k list) \<Rightarrow> ('k \<times> 'v) list \<Rightarrow> ('k \<times> 'v) list" where
  "range_map ord m = List.map_filter (\<lambda>k. map_option (Pair k) (mget m k)) (ord (mkeys m))"

lemma order_ok_id [simp]: "order_ok id" "order_ok (\<lambda>ks. ks)"
  by (simp_all add: order_ok_def)

lemma set_order: "order_ok ord \<Longrightarrow> set (ord ks) = set ks"
  by (metis order_ok_def set_mset_mset)

lemma range_map_mem:
  assumes "order_ok ord"
  shows "(k, v) \<in> set (range_map ord m) \<longleftrightarrow> mget m k = Some v"
proof -
  have "k \<in> set (ord (mkeys m))" if "mget m k = Some v"
    using assms mget_in_keys[OF that] by (simp add: set_order)
  then show ?thesis
    by (auto simp: range_map_def map_filter_def image_iff)
qed

lemma range_map_sub: "(k, v) \<in> set (range_map ord m) \<Longrightarrow> mget m k = Some v"
  by (auto simp: range_map_def map_filter_def)

lemma mset_range_map:
  assumes "order_ok ord" "distinct (mkeys m)"
  shows "mset (range_map ord m) = mset m"
proof -
  have d: "distinct (ord (mkeys m))"
    using assms by (metis distinct_count_atmost_1 order_ok_def set_order)
  then have "distinct (range_map ord m)"
    unfolding range_map_def map_filter_def
    by (auto simp: distinct_map inj_on_def)
  moreover have "distinct m"
    using assms(2) by (simp add: distinct_map)
  moreover have "set (range_map ord m) = set m"
    using assms by (auto simp: range_map_mem dest: mget_in_set intro: in_set_mget)
  ultimately show ?thesis
    by (simp add: set_eq_iff_mset_eq_distinct)
qed

section \<open>Ring buffers\<close>

text \<open>
  A buffer of \<open>N\<close> cells written at \<open>pos mod N\<close> holds the last \<open>N\<close> elements of the
  history \<open>h\<close> of everything that was ever written.
\<close>

definition ring_ok :: "nat \<Rightarrow> 'a list \<Rightarrow> nat \<Rightarrow> 'a list \<Rightarrow> bool" where
  "ring_ok N buf pos h \<longleftrightarrow> length buf = N \<and> pos = length h \<and>
     (\<forall>i < length h. length h \<le> i + N \<longrightarrow> buf ! (i mod N) = h ! i)"

definition lastn :: "nat \<Rightarrow> 'a list \<Rightarrow> 'a list" where
  "lastn n xs = drop (length xs - n) xs"

lemma length_lastn [simp]: "length (lastn n xs) = min n (length xs)"
  by (simp add: lastn_def min_def)

lemma ring_push:
  assumes "0 < N" "ring_ok N buf pos h"
  shows "ring_ok N (buf[pos mod N := x]) (Suc pos) (h @ [x])"
proof -
  have "i mod N \<noteq> length h mod N" if "i < length h" "Suc (length h) \<le> i + N" for i
  proof
    assume "i mod N = length h mod N"
    then have "N dvd length h - i" using that(1) mod_eq_dvd_iff_nat[of i "length h" N] by simp
    then have "N \<le> length h - i" using that(1) by (intro dvd_imp_le) auto
    with that show False by simp
  qed
  note ne = this
  have "buf[pos mod N := x] ! (i mod N) = (h @ [x]) ! i"
    if "i < Suc (length h)" "Suc (length h) \<le> i + N" for i
  proof (cases "i = length h")
    case True
    with assms show ?thesis by (simp add: ring_ok_def)
  next
    case False
    with that have "i < length h" by simp
    with ne[OF this that(2)] that assms show ?thesis by (simp add: ring_ok_def nth_append)
  qed
  with assms show ?thesis by (simp add: ring_ok_def)
qed

lemma ring_read:
  assumes "0 < N" "ring_ok N buf pos h"
  shows "map (\<lambda>i. buf ! (((if N < pos then pos mod N else 0) + i) mod N)) [0..<min N pos] = lastn N h"
proof (rule nth_equalityI)
  show "length (map (\<lambda>i. buf ! (((if N < pos then pos mod N else 0) + i) mod N)) [0..<min N pos]) =
      length (lastn N h)"
    using assms by (simp add: ring_ok_def)
next
  fix i assume "i < length (map (\<lambda>i. buf ! (((if N < pos then pos mod N else 0) + i) mod N)) [0..<min N pos])"
  then have i: "i < min N pos" by simp
  have l: "pos = length h" using assms by (simp add: ring_ok_def)
  have "((if N < pos then pos mod N else 0) + i) mod N = (pos - N + i) mod N"
  proof (cases "N < pos")
    case True
    have "(pos - N + i) mod N = (pos - N + i + N) mod N" by (rule mod_add_self2[symmetric])
    also have "pos - N + i + N = pos + i" using True by simp
    finally show ?thesis using True by (simp add: mod_add_left_eq)
  qed simp
  moreover have "buf ! ((pos - N + i) mod N) = h ! (pos - N + i)"
    using assms i l by (auto simp: ring_ok_def)
  ultimately show "map (\<lambda>i. buf ! (((if N < pos then pos mod N else 0) + i) mod N)) [0..<min N pos] ! i =
      lastn N h ! i"
    using i l by (simp add: lastn_def)
qed

end
