(* ===== verification/GoNet.thy ===== *)
theory GoNet
  imports Prelude
begin

text \<open>
  Addresses: the part of Go's package net the program uses (net.IP, net.IPMask, net.IPNet,
  net.UDPAddr, their text forms and the parsers SplitHostPort, Atoi and ParseIP), and the
  map keys and the relay-target test of src/internal/netutil.  A net.IP is a byte slice of
  length 4 or 16, the empty list being nil.  The IPv6 zone of a UDPAddr is not kept: the
  program never reads it.
\<close>

section \<open>net.IP\<close>

type_synonym ip = bytes
type_synonym ipkey = bytes

abbreviation v4prefix :: bytes where
  "v4prefix \<equiv> replicate 10 0 @ [255, 255]"

definition IPv4 :: "byte \<Rightarrow> byte \<Rightarrow> byte \<Rightarrow> byte \<Rightarrow> ip" where
  "IPv4 a b c d = v4prefix @ [a, b, c, d]"

definition To4 :: "ip \<Rightarrow> ip option" where
  "To4 i = (if length i = 4 then Some i
            else if length i = 16 \<and> take 12 i = v4prefix then Some (drop 12 i) else None)"

definition To16 :: "ip \<Rightarrow> ip option" where
  "To16 i = (if length i = 4 then Some (v4prefix @ i) else if length i = 16 then Some i else None)"

text \<open>\<open>IP.Equal\<close> identifies an IPv4 address with its IPv6-mapped form.\<close>

definition ip_equal :: "ip \<Rightarrow> ip \<Rightarrow> bool" where
  "ip_equal x y \<longleftrightarrow>
     (if length x = length y then x = y
      else if length x = 4 \<and> length y = 16 then take 12 y = v4prefix \<and> x = drop 12 y
      else if length x = 16 \<and> length y = 4 then take 12 x = v4prefix \<and> drop 12 x = y
      else False)"

record IPNet =
  IPNet_IP :: ip
  IPNet_Mask :: bytes

text \<open>\<open>networkNumberAndMask\<close> and \<open>IPNet.Contains\<close>.\<close>

definition networkNumberAndMask :: "IPNet \<Rightarrow> (bytes \<times> bytes) option" where
  "networkNumberAndMask n =
     (let i = (case To4 (IPNet_IP n) of Some x \<Rightarrow> Some x
               | None \<Rightarrow> if length (IPNet_IP n) = 16 then Some (IPNet_IP n) else None);
          m = IPNet_Mask n
      in case i of None \<Rightarrow> None
         | Some x \<Rightarrow>
             if length m = 4 then (if length x \<noteq> 4 then None else Some (x, m))
             else if length m = 16 then
               (if length x = 4 then Some (x, drop 12 m) else Some (x, m))
             else None)"

definition IPNet_Contains :: "IPNet \<Rightarrow> ip \<Rightarrow> bool" where
  "IPNet_Contains n i =
     (case networkNumberAndMask n of None \<Rightarrow> False
      | Some (nn, m) \<Rightarrow>
          (let x = (case To4 i of Some y \<Rightarrow> y | None \<Rightarrow> i)
           in length x = length nn \<and>
              list_all (\<lambda>j. (nn ! j) AND (m ! j) = (x ! j) AND (m ! j)) [0..<length x]))"

lemma To4_length: "To4 i = Some x \<Longrightarrow> length x = 4"
  by (auto simp: To4_def split: if_splits)

lemma To4_4 [simp]: "length i = 4 \<Longrightarrow> To4 i = Some i"
  by (simp add: To4_def)

lemma To4_IPv4 [simp]: "To4 (IPv4 a b c d) = Some [a, b, c, d]"
  by (simp add: To4_def IPv4_def)

lemma To4_mapped [simp]: "length x = 4 \<Longrightarrow> To4 (v4prefix @ x) = Some x"
  by (simp add: To4_def)

section \<open>Keys (netutil)\<close>

text \<open>\<open>copy(k[:], ip)\<close> into a zeroed array of \<open>n\<close> bytes.\<close>

definition copy_into :: "nat \<Rightarrow> bytes \<Rightarrow> bytes" where
  "copy_into n xs = take n xs @ replicate (n - length xs) 0"

lemma length_copy_into [simp]: "length (copy_into n xs) = n"
  by (simp add: copy_into_def)

lemma copy_into_id [simp]: "length xs = n \<Longrightarrow> copy_into n xs = xs"
  by (simp add: copy_into_def)

definition IPKey :: "ip \<Rightarrow> ipkey" where
  "IPKey i = (if length i = 4 then v4prefix @ i else copy_into 16 i)"

definition IPKey4 :: "bytes \<Rightarrow> ipkey" where
  "IPKey4 i = v4prefix @ i"

record UDPAddr =
  UDP_IP :: ip
  UDP_Port :: int

record RateKey =
  RK_IP :: ipkey
  RK_Port :: u16

definition AddrToRateKey :: "UDPAddr \<Rightarrow> RateKey" where
  "AddrToRateKey a =
     \<lparr> RK_IP = (if length (UDP_IP a) = 4 then v4prefix @ UDP_IP a else copy_into 16 (UDP_IP a)),
       RK_Port = of_int (UDP_Port a) \<rparr>"

lemma length_IPKey [simp]: "length (IPKey i) = 16"
  by (simp add: IPKey_def)

lemma IPKey_IPKey4: "length i = 4 \<Longrightarrow> IPKey i = IPKey4 i"
  by (simp add: IPKey_def IPKey4_def)

lemma IPKey4_inject [simp]: "IPKey4 i = IPKey4 j \<longleftrightarrow> i = j"
  by (simp add: IPKey4_def)

lemma IPKey_inj4: "length i = 4 \<Longrightarrow> length j = 4 \<Longrightarrow> IPKey i = IPKey j \<longleftrightarrow> i = j"
  by (simp add: IPKey_IPKey4)

lemma IPKey_mapped [simp]: "length i = 4 \<Longrightarrow> IPKey (v4prefix @ i) = IPKey4 i"
  by (simp add: IPKey_def IPKey4_def)

lemma mapped_eq: "take 12 i = v4prefix \<Longrightarrow> replicate 10 0 @ 255 # 255 # drop 12 i = i"
  using append_take_drop_id[of 12 i] by simp

lemma IPKey_To4: "To4 i = Some x \<Longrightarrow> IPKey i = IPKey4 x"
  by (auto simp: To4_def IPKey_def IPKey4_def mapped_eq split: if_splits)

text \<open>On addresses of a legal length two addresses share a key exactly when they are equal.\<close>

lemma IPKey_eq_iff:
  assumes "length i \<in> {4, 16}" "length j \<in> {4, 16}"
  shows "IPKey i = IPKey j \<longleftrightarrow> ip_equal i j"
  using assms
  by (auto simp: IPKey_def ip_equal_def mapped_eq)

lemma AddrToRateKey_IP: "RK_IP (AddrToRateKey a) = IPKey (UDP_IP a)"
  by (simp add: AddrToRateKey_def IPKey_def)

section \<open>Relay targets (netutil/broadcast.go)\<close>

definition IsRelayTargetRaw :: "bytes \<Rightarrow> IPNet option \<Rightarrow> bool" where
  "IsRelayTargetRaw dst subnet =
     (if dst = [255, 255, 255, 255] then True
      else if (case subnet of None \<Rightarrow> False
               | Some n \<Rightarrow>
                   (case To4 (IPNet_IP n) of None \<Rightarrow> False
                    | Some s \<Rightarrow> dst = map2 (\<lambda>x m. x OR NOT m) s (take 4 (IPNet_Mask n))))
        then True
      else 224 \<le> dst ! 0 \<and> dst ! 0 \<le> 239)"

section \<open>Decimal and hexadecimal text\<close>

fun dec :: "nat \<Rightarrow> bytes" where
  "dec n = (if n < 10 then [of_nat (48 + n)] else dec (n div 10) @ [of_nat (48 + n mod 10)])"

declare dec.simps [simp del]

text \<open>\<open>strconv.AppendInt(buf, v, 10)\<close>.\<close>

definition itoa :: "int \<Rightarrow> bytes" where
  "itoa v = (if v < 0 then 45 # dec (nat (- v)) else dec (nat v))"

definition is_digit :: "byte \<Rightarrow> bool" where
  "is_digit c \<longleftrightarrow> 48 \<le> c \<and> c \<le> 57"

definition digit_val :: "byte \<Rightarrow> nat" where
  "digit_val c = unat c - 48"

fun undec :: "nat \<Rightarrow> bytes \<Rightarrow> nat option" where
  "undec acc [] = Some acc"
| "undec acc (c # cs) = (if is_digit c then undec (10 * acc + digit_val c) cs else None)"

text \<open>\<open>strconv.Atoi\<close>: an optional sign, at least one digit, and an int64 range check.\<close>

definition atoi :: "bytes \<Rightarrow> int option" where
  "atoi s =
     (let neg = (s \<noteq> [] \<and> hd s = 45);
          ds = (if s \<noteq> [] \<and> (hd s = 43 \<or> hd s = 45) then tl s else s)
      in if ds = [] then None
         else case undec 0 ds of None \<Rightarrow> None
              | Some n \<Rightarrow>
                  (let v = (if neg then - int n else int n)
                   in if - (2 ^ 63) \<le> v \<and> v < 2 ^ 63 then Some v else None))"

lemma of_nat_digit:
  assumes "n < 10"
  shows "is_digit (of_nat (48 + n))" "digit_val (of_nat (48 + n)) = n"
  using assms
  by (simp_all add: is_digit_def digit_val_def word_le_nat_alt unat_of_nat take_bit_nat_eq_self
        del: of_nat_add)

lemma undec_append:
  "undec acc (xs @ ys) = (case undec acc xs of None \<Rightarrow> None | Some a \<Rightarrow> undec a ys)"
  by (induction xs arbitrary: acc) auto

lemma undec_dec [simp]: "undec 0 (dec n) = Some n"
proof (induction n rule: dec.induct)
  case (1 n)
  show ?case
  proof (cases "n < 10")
    case True
    then show ?thesis by (simp add: dec.simps of_nat_digit del: of_nat_add)
  next
    case False
    then show ?thesis
      using 1 of_nat_digit[of "n mod 10"]
      by (simp add: dec.simps[of n] undec_append del: of_nat_add)
  qed
qed

lemma dec_nonempty [simp]: "dec n \<noteq> []"
  by (simp add: dec.simps)

lemma dec_digits: "c \<in> set (dec n) \<Longrightarrow> is_digit c"
proof (induction n rule: dec.induct)
  case (1 n)
  then show ?case
    using of_nat_digit(1)[of n] of_nat_digit(1)[of "n mod 10"]
    by (subst (asm) (2) dec.simps) (auto split: if_splits simp del: of_nat_add)
qed

lemma hd_dec_digit: "is_digit (hd (dec n))"
  by (rule dec_digits[of _ n]) simp

lemma atoi_itoa: "0 \<le> v \<Longrightarrow> v < 2 ^ 63 \<Longrightarrow> atoi (itoa v) = Some v"
  using hd_dec_digit[of "nat v"]
  by (auto simp: atoi_def itoa_def Let_def is_digit_def)

section \<open>Runes (unicode/utf8)\<close>

text \<open>The width of the first rune; an invalid or cut-off sequence counts as one byte.\<close>

definition rune_width :: "bytes \<Rightarrow> nat" where
  "rune_width s =
     (let b0 = s ! 0;
          cont = (\<lambda>i l h. i < length s \<and> l \<le> s ! i \<and> s ! i \<le> h)
      in if 0xC2 \<le> b0 \<and> b0 \<le> 0xDF then (if cont 1 0x80 0xBF then 2 else 1)
         else if 0xE0 \<le> b0 \<and> b0 \<le> 0xEF then
           (if cont 1 (if b0 = 0xE0 then 0xA0 else 0x80) (if b0 = 0xED then 0x9F else 0xBF) \<and>
               cont 2 0x80 0xBF then 3 else 1)
         else if 0xF0 \<le> b0 \<and> b0 \<le> 0xF4 then
           (if cont 1 (if b0 = 0xF0 then 0x90 else 0x80) (if b0 = 0xF4 then 0x8F else 0xBF) \<and>
               cont 2 0x80 0xBF \<and> cont 3 0x80 0xBF then 4 else 1)
         else 1)"

lemma rune_width_pos: "0 < rune_width s"
  by (simp add: rune_width_def Let_def)

function RuneCount :: "bytes \<Rightarrow> nat" where
  "RuneCount s = (if s = [] then 0 else 1 + RuneCount (drop (rune_width s) s))"
  by auto
termination
  by (relation "measure length") (auto simp: rune_width_pos)

declare RuneCount.simps [simp del]

section \<open>Masks\<close>

text \<open>\<open>IPMask.Size\<close>: (ones, bits), or (0, 0) if the mask is not canonical.\<close>

definition mask_bits :: "bytes \<Rightarrow> bool list" where
  "mask_bits m = concat (map (\<lambda>b. map (bit b) (rev [0..<8])) m)"

definition Mask_Size :: "bytes \<Rightarrow> nat \<times> nat" where
  "Mask_Size m =
     (let bs = mask_bits m; n = length (takeWhile id bs)
      in if list_all Not (drop n bs) then (n, 8 * length m) else (0, 0))"

section \<open>Text forms of addresses\<close>

definition ip4_text :: "bytes \<Rightarrow> bytes" where
  "ip4_text i = dec (unat (i ! 0)) @ [46] @ dec (unat (i ! 1)) @ [46] @
                dec (unat (i ! 2)) @ [46] @ dec (unat (i ! 3))"

fun hex :: "nat \<Rightarrow> bytes" where
  "hex n = (if n < 16 then [of_nat (if n < 10 then 48 + n else 87 + n)]
            else hex (n div 16) @ hex (n mod 16))"

declare hex.simps [simp del]

definition groups16 :: "bytes \<Rightarrow> nat list" where
  "groups16 i = map (\<lambda>k. 256 * unat (i ! (2 * k)) + unat (i ! (2 * k + 1))) [0..<8]"

definition zero_run :: "nat list \<Rightarrow> nat \<Rightarrow> nat" where
  "zero_run gs k = length (takeWhile (\<lambda>g. g = 0) (drop k gs))"

text \<open>The first longest run of at least two zero groups, as (start, length).\<close>

definition best_run :: "nat list \<Rightarrow> (nat \<times> nat) option" where
  "best_run gs = fold (\<lambda>k best. let l = zero_run gs k in
       if 2 \<le> l \<and> (case best of None \<Rightarrow> True | Some (_, bl) \<Rightarrow> bl < l) then Some (k, l) else best)
     [0..<length gs] None"

fun join_colon :: "bytes list \<Rightarrow> bytes" where
  "join_colon [] = []"
| "join_colon [x] = x"
| "join_colon (x # y # xs) = x @ [58] @ join_colon (y # xs)"

definition ip6_text :: "bytes \<Rightarrow> bytes" where
  "ip6_text i =
     (let gs = groups16 i; hx = map hex gs in
      case best_run gs of None \<Rightarrow> join_colon hx
      | Some (k, l) \<Rightarrow> join_colon (take k hx) @ [58, 58] @ join_colon (drop (k + l) hx))"

definition ip_string :: "ip \<Rightarrow> bytes" where
  "ip_string i =
     (if i = [] then lit ''<nil>''
      else case To4 i of Some x \<Rightarrow> ip4_text x
           | None \<Rightarrow> if length i = 16 then ip6_text i
                     else 63 # concat (map (\<lambda>b. hex (unat b div 16) @ hex (unat b mod 16)) i))"

definition JoinHostPort :: "bytes \<Rightarrow> bytes \<Rightarrow> bytes" where
  "JoinHostPort host port =
     (if 58 \<in> set host then [91] @ host @ [93, 58] @ port else host @ [58] @ port)"

definition udp_string :: "UDPAddr \<Rightarrow> bytes" where
  "udp_string a = JoinHostPort (if UDP_IP a = [] then [] else ip_string (UDP_IP a)) (itoa (UDP_Port a))"

section \<open>Parsing addresses\<close>

text \<open>\<open>net.SplitHostPort\<close>; None is its error.\<close>

definition index_of :: "byte \<Rightarrow> bytes \<Rightarrow> nat option" where
  "index_of c s = (let n = length (takeWhile (\<lambda>x. x \<noteq> c) s) in if n < length s then Some n else None)"

definition last_index_of :: "byte \<Rightarrow> bytes \<Rightarrow> nat option" where
  "last_index_of c s = map_option (\<lambda>n. length s - 1 - n) (index_of c (rev s))"

definition SplitHostPort :: "bytes \<Rightarrow> (bytes \<times> bytes) option" where
  "SplitHostPort hp =
     (case last_index_of 58 hp of None \<Rightarrow> None
      | Some i \<Rightarrow>
          (let host_jk =
             (if hd hp = 91 then
                (case index_of 93 hp of None \<Rightarrow> None
                 | Some e \<Rightarrow> if e + 1 = i then Some (take (e - 1) (drop 1 hp), 1, e + 1) else None)
              else if 58 \<in> set (take i hp) then None else Some (take i hp, 0, 0))
           in case host_jk of None \<Rightarrow> None
              | Some (host, j, k) \<Rightarrow>
                  if 91 \<in> set (drop j hp) then None
                  else if 93 \<in> set (drop k hp) then None
                  else Some (host, drop (i + 1) hp)))"

text \<open>\<open>netip.parseIPv4Fields\<close>: completed octets, value and digit count of the current one.\<close>

fun parseIPv4Fields :: "bytes \<Rightarrow> nat \<Rightarrow> nat \<Rightarrow> bytes \<Rightarrow> bytes option" where
  "parseIPv4Fields fs val digLen [] =
     (if length fs < 3 then None else Some (fs @ [of_nat val]))"
| "parseIPv4Fields fs val digLen (c # cs) =
     (if is_digit c then
        (if digLen = 1 \<and> val = 0 then None
         else if 255 < 10 * val + digit_val c then None
         else parseIPv4Fields fs (10 * val + digit_val c) (digLen + 1) cs)
      else if c = 46 then
        (if digLen = 0 \<or> cs = [] then None
         else if length fs = 3 then None
         else parseIPv4Fields (fs @ [of_nat val]) 0 0 cs)
      else None)"

definition hex_val :: "byte \<Rightarrow> nat option" where
  "hex_val c = (if 48 \<le> c \<and> c \<le> 57 then Some (unat c - 48)
                else if 97 \<le> c \<and> c \<le> 102 then Some (unat c - 87)
                else if 65 \<le> c \<and> c \<le> 70 then Some (unat c - 55) else None)"

text \<open>
  One pass of the loop of \<open>netip.parseIPv6\<close> per call: \<open>acc\<close> are the bytes parsed so
  far, \<open>ell\<close> the position of the ellipsis.  The fuel bounds the passes; 8 groups fill
  the address, so 8 passes are enough.
\<close>

definition hex_group :: "bytes \<Rightarrow> bytes" where
  "hex_group s = takeWhile (\<lambda>c. hex_val c \<noteq> None) s"

definition group_val :: "bytes \<Rightarrow> nat" where
  "group_val s = foldl (\<lambda>a c. 16 * a + the (hex_val c)) 0 s"

definition finish6 :: "bytes \<Rightarrow> nat option \<Rightarrow> bytes \<Rightarrow> bytes option" where
  "finish6 acc ell s =
     (if s \<noteq> [] then None
      else if length acc < 16 then
        (case ell of None \<Rightarrow> None
         | Some e \<Rightarrow> Some (take e acc @ replicate (16 - length acc) 0 @ drop e acc))
      else if ell \<noteq> None then None else Some acc)"

fun parse6 :: "nat \<Rightarrow> bytes \<Rightarrow> nat option \<Rightarrow> bytes \<Rightarrow> bytes option" where
  "parse6 0 acc ell s = finish6 acc ell s"
| "parse6 (Suc f) acc ell s =
     (if 16 \<le> length acc then finish6 acc ell s
      else
        (let g = hex_group s; rest = drop (length g) s in
         if g = [] \<or> 4 < length g then None
         else if rest \<noteq> [] \<and> hd rest = 46 then
           (if ell = None \<and> length acc \<noteq> 12 then None
            else if 16 < length acc + 4 then None
            else case parseIPv4Fields [] 0 0 s of None \<Rightarrow> None
                 | Some q \<Rightarrow> finish6 (acc @ q) ell [])
         else
           (let acc' = acc @ [of_nat (group_val g div 256), of_nat (group_val g mod 256)] in
            if rest = [] then finish6 acc' ell []
            else if hd rest \<noteq> 58 then None
            else if length rest = 1 then None
            else
              (let s' = tl rest in
               if hd s' = 58 then
                 (if ell \<noteq> None then None
                  else if tl s' = [] then finish6 acc' (Some (length acc')) []
                  else parse6 f acc' (Some (length acc')) (tl s'))
               else parse6 f acc' ell s'))))"

text \<open>\<open>net.ParseIP\<close> refuses an address with a zone, so a percent sign means None.\<close>

definition parseIPv6 :: "bytes \<Rightarrow> bytes option" where
  "parseIPv6 s =
     (if 37 \<in> set s then None
      else if 2 \<le> length s \<and> take 2 s = [58, 58] then
        (if length s = 2 then Some (replicate 16 0) else parse6 8 [] (Some 0) (drop 2 s))
      else parse6 8 [] None s)"

definition ParseIP :: "bytes \<Rightarrow> ip option" where
  "ParseIP s =
     (case filter (\<lambda>c. c = 46 \<or> c = 58 \<or> c = 37) s of
        [] \<Rightarrow> None
      | c # _ \<Rightarrow> if c = 46 then map_option ((@) v4prefix) (parseIPv4Fields [] 0 0 s)
                 else if c = 58 then parseIPv6 s else None)"

text \<open>Printing and parsing are inverse on IPv4 addresses.\<close>

lemma parse4_dec:
  assumes "n < 256"
  shows "parseIPv4Fields fs 0 0 (dec n @ rest) = parseIPv4Fields fs n (length (dec n)) rest"
proof -
  consider "n < 10" | "10 \<le> n" "n < 100" | "100 \<le> n" "n < 1000" using assms by linarith
  then show ?thesis
  proof cases
    case 1
    then show ?thesis using assms by (simp add: dec.simps of_nat_digit del: of_nat_add)
  next
    case 2
    then have "n div 10 < 10" "0 < n div 10" by auto
    with 2 assms show ?thesis
      by (simp add: dec.simps[of n] dec.simps[of "n div 10"] of_nat_digit del: of_nat_add)
  next
    case 3
    then have q: "n div 100 < 10" "0 < n div 100" "n div 10 \<ge> 10" "n div 10 div 10 = n div 100"
      by (auto simp: div_mult2_eq[symmetric])
    have "10 * (n div 100) + n div 10 mod 10 = n div 10"
      using q(4) by (metis mult_div_mod_eq)
    moreover have "0 < n div 10" "n div 10 \<le> 255" using 3 assms by auto
    ultimately show ?thesis
      using q 3 assms
      by (simp add: dec.simps[of n] dec.simps[of "n div 10"] dec.simps[of "n div 100"]
          of_nat_digit del: of_nat_add)
  qed
qed

lemma unat_byte_less [simp]: "unat (b :: byte) < 256"
  using unsigned_less[of b, where ?'a = nat] by simp

lemma digits_not_special:
  "46 \<notin> set (dec n)" "58 \<notin> set (dec n)" "37 \<notin> set (dec n)" "91 \<notin> set (dec n)" "93 \<notin> set (dec n)"
  using dec_digits[of 46 n] dec_digits[of 58 n] dec_digits[of 37 n] dec_digits[of 91 n]
    dec_digits[of 93 n]
  by (auto simp: is_digit_def)

lemma filter_dec_special: "filter (\<lambda>c. c = 46 \<or> c = 58 \<or> c = 37) (dec n) = []"
  using digits_not_special[of n] by (auto simp: filter_empty_conv)

lemma ParseIP_ip4_text:
  assumes "length i = 4"
  shows "ParseIP (ip4_text i) = Some (v4prefix @ i)"
proof -
  from assms obtain a b c d where i: "i = [a, b, c, d]"
    by (auto simp: numeral_eq_Suc length_Suc_conv)
  have "length (dec n) \<noteq> 0" for n by simp
  then show ?thesis
    by (simp add: ParseIP_def i ip4_text_def filter_dec_special parse4_dec is_digit_def)
       (simp add: parse4_dec[of _ _ "[]", simplified])
qed

lemma last_index_of_append:
  assumes "c \<notin> set ys"
  shows "last_index_of c (xs @ c # ys) = Some (length xs)"
proof -
  have all: "takeWhile (\<lambda>x. x \<noteq> c) (rev ys) = rev ys"
    using assms by (auto simp: takeWhile_eq_all_conv)
  show ?thesis by (simp add: last_index_of_def index_of_def takeWhile_tail all Let_def)
qed

lemma SplitHostPort_plain:
  assumes "58 \<notin> set h" "91 \<notin> set h" "93 \<notin> set h" "58 \<notin> set p" "91 \<notin> set p" "93 \<notin> set p"
  shows "SplitHostPort (h @ [58] @ p) = Some (h, p)"
proof -
  have "hd (h @ 58 # p) \<noteq> 91" using assms by (cases h) auto
  then show ?thesis
    using assms by (simp add: SplitHostPort_def last_index_of_append Let_def)
qed

end
