(* ===== verification/Framing.thy ===== *)
theory Framing
  imports GoNet
begin

text \<open>
  The packet frame of src/internal/protocol/protocol.go: version byte, type byte, payload
  and a CRC-32 (IEEE) trailer, with the version rules of the handshake.  crc32.ChecksumIEEE
  is the standard library's reflected CRC, written out bit by bit.
\<close>

section \<open>Constants\<close>

definition ProtocolVersion :: byte where "ProtocolVersion = 1"
definition AppVersion :: u16 where "AppVersion = 0x0110"
definition MinTokenVersion :: u16 where "MinTokenVersion = 0x0107"
definition MinClientTokenVersion :: u16 where "MinClientTokenVersion = 0x0107"

abbreviation HeaderLen :: nat where "HeaderLen \<equiv> 2"
abbreviation ChecksumLen :: nat where "ChecksumLen \<equiv> 4"

definition MaxPacketLen :: nat where "MaxPacketLen = HeaderLen + 1500 + ChecksumLen"

definition TypeRegister :: byte where "TypeRegister = 0x01"
definition TypeAssignIP :: byte where "TypeAssignIP = 0x02"
definition TypePeerInfo :: byte where "TypePeerInfo = 0x03"
definition TypePeerRequest :: byte where "TypePeerRequest = 0x04"
definition TypeHolePunch :: byte where "TypeHolePunch = 0x05"
definition TypeData :: byte where "TypeData = 0x06"
definition TypeKeepAlive :: byte where "TypeKeepAlive = 0x07"
definition TypeAuthChallenge :: byte where "TypeAuthChallenge = 0x08"
definition TypeAuthResponse :: byte where "TypeAuthResponse = 0x09"
definition TypeKick :: byte where "TypeKick = 0x0A"
definition TypeDisconnect :: byte where "TypeDisconnect = 0x0B"
definition TypePing :: byte where "TypePing = 0x0C"
definition TypePong :: byte where "TypePong = 0x0D"
definition TypeNATProbe :: byte where "TypeNATProbe = 0x0E"
definition TypeNATResponse :: byte where "TypeNATResponse = 0x0F"
definition TypeRebind :: byte where "TypeRebind = 0x10"
definition TypeRebindAck :: byte where "TypeRebindAck = 0x11"

lemmas type_defs = TypeRegister_def TypeAssignIP_def TypePeerInfo_def TypePeerRequest_def
  TypeHolePunch_def TypeData_def TypeKeepAlive_def TypeAuthChallenge_def TypeAuthResponse_def
  TypeKick_def TypeDisconnect_def TypePing_def TypePong_def TypeNATProbe_def
  TypeNATResponse_def TypeRebind_def TypeRebindAck_def

section \<open>CRC-32\<close>

definition crc_bit :: "u32 \<Rightarrow> u32" where
  "crc_bit c = (if bit c 0 then drop_bit 1 c XOR 0xEDB88320 else drop_bit 1 c)"

definition crc_byte :: "u32 \<Rightarrow> byte \<Rightarrow> u32" where
  "crc_byte c b = (crc_bit ^^ 8) (c XOR ucast b)"

definition ChecksumIEEE :: "bytes \<Rightarrow> u32" where
  "ChecksumIEEE bs = NOT (foldl crc_byte 0xFFFFFFFF bs)"

section \<open>Encoding and decoding\<close>

record Message =
  MsgType :: byte
  MsgPayload :: bytes

definition Encode :: "byte \<Rightarrow> bytes \<Rightarrow> bytes" where
  "Encode typ payload = [ProtocolVersion, typ] @ payload"

definition AppendChecksum :: "bytes \<Rightarrow> bytes" where
  "AppendChecksum packet = packet @ put32 (ChecksumIEEE packet)"

definition VerifyChecksum :: "bytes \<Rightarrow> bytes res" where
  "VerifyChecksum data =
     guard_err (length data < HeaderLen + ChecksumLen) ErrPacketTooShort
     (bind_res (slice data 0 (length data - ChecksumLen)) (\<lambda>body.
      bind_res (get32 data (length data - ChecksumLen)) (\<lambda>checksum.
      guard_err (ChecksumIEEE body \<noteq> checksum) ErrChecksumMismatch (Ok body))))"

definition Decode :: "bytes \<Rightarrow> Message res" where
  "Decode data =
     guard_err (length data < HeaderLen) ErrPacketTooShort
     (bind_res (idx data 0) (\<lambda>v.
      guard_err (v \<noteq> ProtocolVersion) (ErrUnsupportedVersion v)
      (bind_res (slice data HeaderLen (length data)) (\<lambda>payload.
       bind_res (idx data 1) (\<lambda>t.
       Ok \<lparr> MsgType = t, MsgPayload = payload \<rparr>)))))"

definition DecodeChecked :: "bytes \<Rightarrow> Message res" where
  "DecodeChecked data = bind_res (VerifyChecksum data) Decode"

definition EncodeChecked :: "byte \<Rightarrow> bytes \<Rightarrow> bytes" where
  "EncodeChecked typ payload =
     (let buf = [ProtocolVersion, typ] @ payload in buf @ put32 (ChecksumIEEE buf))"

definition AppendEncodeChecked :: "bytes \<Rightarrow> byte \<Rightarrow> bytes \<Rightarrow> bytes" where
  "AppendEncodeChecked dst typ payload =
     (let start = length dst;
          dst1 = dst @ [ProtocolVersion, typ] @ payload;
          crc = ChecksumIEEE (drop start dst1)
      in dst1 @ [ucast crc, ucast (drop_bit 8 crc), ucast (drop_bit 16 crc), ucast (drop_bit 24 crc)])"

section \<open>Version compatibility\<close>

definition VersionMajor :: "u16 \<Rightarrow> u16" where
  "VersionMajor v = drop_bit 8 v"

definition VersionMinor :: "u16 \<Rightarrow> u16" where
  "VersionMinor v = v AND 0xFF"

definition IsCompatible :: "u16 \<Rightarrow> u16 \<Rightarrow> bool" where
  "IsCompatible clientVer serverVer =
     (if clientVer = 0 \<or> serverVer = 0 then True
      else if VersionMajor clientVer \<noteq> VersionMajor serverVer then False
      else VersionMinor clientVer \<le> VersionMinor serverVer)"

section \<open>Frame lemmas\<close>

lemma EncodeChecked_AppendChecksum: "EncodeChecked typ p = AppendChecksum (Encode typ p)"
  by (simp add: EncodeChecked_def AppendChecksum_def Encode_def)

lemma AppendEncodeChecked_eq: "AppendEncodeChecked dst typ p = dst @ EncodeChecked typ p"
  by (simp add: AppendEncodeChecked_def EncodeChecked_def Let_def put32_def)

lemma VerifyChecksum_AppendChecksum:
  "2 \<le> length p \<Longrightarrow> VerifyChecksum (AppendChecksum p) = Ok p"
  by (simp add: VerifyChecksum_def AppendChecksum_def codec_simps)

lemma Decode_Encode: "Decode (Encode typ p) = Ok \<lparr> MsgType = typ, MsgPayload = p \<rparr>"
  by (simp add: Decode_def Encode_def codec_simps)

lemma VerifyChecksum_no_panic: "VerifyChecksum d \<noteq> Panic"
  by (auto simp: VerifyChecksum_def codec_simps guard_err_def)

lemma Decode_no_panic: "Decode d \<noteq> Panic"
  by (auto simp: Decode_def idx_def slice_def guard_err_def)

text \<open>What is accepted is exactly what the encoder writes: the frame has one encoding.\<close>

lemma VerifyChecksum_Ok_iff:
  "VerifyChecksum d = Ok b \<longleftrightarrow> d = AppendChecksum b \<and> 2 \<le> length b"
proof
  assume a: "VerifyChecksum d = Ok b"
  then have l: "6 \<le> length d" and b: "b = take (length d - 4) d"
    and c: "le_word (drop (length d - 4) d) = ChecksumIEEE b"
    by (auto simp: VerifyChecksum_def guard_err_def codec_simps split: if_splits)
  have "put32 (le_word (drop (length d - 4) d)) = drop (length d - 4) d"
    using l by (intro put32_le_word) simp
  then show "d = AppendChecksum b \<and> 2 \<le> length b"
    using l b c by (simp add: AppendChecksum_def)
next
  assume "d = AppendChecksum b \<and> 2 \<le> length b"
  then show "VerifyChecksum d = Ok b" by (simp add: VerifyChecksum_AppendChecksum)
qed

lemma Decode_Ok_iff: "Decode d = Ok m \<longleftrightarrow> d = Encode (MsgType m) (MsgPayload m)"
proof
  assume a: "Decode d = Ok m"
  then obtain v t p where "d = v # t # p"
    by (cases d; cases "tl d") (auto simp: Decode_def)
  with a show "d = Encode (MsgType m) (MsgPayload m)"
    by (auto simp: Decode_def Encode_def guard_err_def codec_simps split: if_splits)
next
  assume "d = Encode (MsgType m) (MsgPayload m)"
  then show "Decode d = Ok m" by (simp add: Decode_Encode)
qed

section \<open>Properties\<close>

text \<open>
  C17: The checked decoder accepts a packet exactly when it is the encoding of some type and
  payload; in particular decode after encode returns what was sent, no other byte
  string decodes to that message, and no input makes the decoder panic.
\<close>

theorem DecodeChecked_iff:
  "(DecodeChecked d = Ok m \<longleftrightarrow> d = EncodeChecked (MsgType m) (MsgPayload m)) \<and>
   DecodeChecked d \<noteq> Panic"
proof
  show "DecodeChecked d = Ok m \<longleftrightarrow> d = EncodeChecked (MsgType m) (MsgPayload m)"
    by (auto simp: DecodeChecked_def bind_res_Ok_iff VerifyChecksum_Ok_iff Decode_Ok_iff
        EncodeChecked_AppendChecksum Encode_def)
  show "DecodeChecked d \<noteq> Panic"
    unfolding DecodeChecked_def
    by (intro bind_res_no_panic VerifyChecksum_no_panic Decode_no_panic)
qed

end
