(* ===== verification/Messages.thy ===== *)
theory Messages
  imports Framing
begin

text \<open>
  The payloads of src/internal/protocol: one record per payload struct, one definition per
  Marshal and Unmarshal function.  An Unmarshal function indexes its input with the
  bounds-checked \<open>slice\<close>, \<open>idx\<close> and \<open>get16\<close> of the prelude, so that an index out of range
  would show as Panic.  A marshaller that returns nil gives the empty list.
\<close>

section \<open>Register, AssignIP, Kick, Ping (messages.go)\<close>

record RegisterPayload =
  Reg_RoomID :: bytes
  Reg_Username :: bytes
  Reg_Version :: u16

definition Register_Marshal :: "RegisterPayload \<Rightarrow> bytes" where
  "Register_Marshal r =
     put16 (of_nat (length (Reg_RoomID r))) @ Reg_RoomID r @
     put16 (of_nat (length (Reg_Username r))) @ Reg_Username r @ put16 (Reg_Version r)"

definition UnmarshalRegister :: "bytes \<Rightarrow> RegisterPayload res" where
  "UnmarshalRegister data =
     guard_err (length data < 4) ErrPacketTooShort
     (bind_res (get16 data 0) (\<lambda>rl. let roomLen = unat rl; off = 2 in
      guard_err (length data < off + roomLen + 2) ErrPacketTooShort
      (bind_res (slice data off (off + roomLen)) (\<lambda>roomID. let off = off + roomLen in
       bind_res (get16 data off) (\<lambda>ul. let userLen = unat ul; off = off + 2 in
       guard_err (length data < off + userLen) ErrPacketTooShort
       (bind_res (slice data off (off + userLen)) (\<lambda>username. let off = off + userLen in
        bind_res (if off + 2 \<le> length data then get16 data off else Ok 0) (\<lambda>ver.
        Ok \<lparr> Reg_RoomID = roomID, Reg_Username = username, Reg_Version = ver \<rparr>))))))))"

type_synonym token = bytes

abbreviation zero_token :: token where
  "zero_token \<equiv> replicate 16 0"

record AssignIPPayload =
  Asg_VirtualIP :: ip
  Asg_SubnetMask :: bytes
  Asg_ServerIP :: ip
  Asg_Version :: u16
  Asg_SessionToken :: token

definition AssignIP_Marshal :: "AssignIPPayload \<Rightarrow> bytes" where
  "AssignIP_Marshal a =
     (case (To4 (Asg_VirtualIP a), To4 (Asg_SubnetMask a), To4 (Asg_ServerIP a)) of
        (Some vip, Some msk, Some srv) \<Rightarrow>
          vip @ msk @ srv @ put16 (Asg_Version a) @ Asg_SessionToken a
      | _ \<Rightarrow> [])"

definition UnmarshalAssignIP :: "bytes \<Rightarrow> AssignIPPayload res" where
  "UnmarshalAssignIP data =
     guard_err (length data < 12) ErrPacketTooShort
     (bind_res (slice data 0 4) (\<lambda>vip.
      bind_res (slice data 4 8) (\<lambda>msk.
      bind_res (slice data 8 12) (\<lambda>srv.
      bind_res (if 14 \<le> length data then get16 data 12 else Ok 0) (\<lambda>ver.
      bind_res (if 30 \<le> length data then slice data 14 30 else Ok zero_token) (\<lambda>tok.
      Ok \<lparr> Asg_VirtualIP = vip, Asg_SubnetMask = msk, Asg_ServerIP = srv,
           Asg_Version = ver, Asg_SessionToken = tok \<rparr>))))))"

type_synonym KickCode = byte

definition KickCodeNone :: KickCode where "KickCodeNone = 0"
definition KickCodeWrongPassword :: KickCode where "KickCodeWrongPassword = 1"
definition KickCodeVersionMismatch :: KickCode where "KickCodeVersionMismatch = 2"
definition KickCodeShutdown :: KickCode where "KickCodeShutdown = 3"

record KickPayload =
  Kick_Reason :: bytes
  Kick_Code :: KickCode

definition Kick_Marshal :: "KickPayload \<Rightarrow> bytes" where
  "Kick_Marshal k = put16 (of_nat (length (Kick_Reason k))) @ Kick_Reason k @ [Kick_Code k]"

definition UnmarshalKick :: "bytes \<Rightarrow> KickPayload res" where
  "UnmarshalKick data =
     guard_err (length data < 2) ErrPacketTooShort
     (bind_res (get16 data 0) (\<lambda>rl. let reasonLen = unat rl in
      guard_err (length data < 2 + reasonLen) ErrPacketTooShort
      (bind_res (slice data 2 (2 + reasonLen)) (\<lambda>reason.
       bind_res (if 2 + reasonLen + 1 \<le> length data then idx data (2 + reasonLen)
                 else Ok KickCodeNone) (\<lambda>code.
       Ok \<lparr> Kick_Reason = reason, Kick_Code = code \<rparr>)))))"

record PingPayload =
  Ping_Timestamp :: u64

definition Ping_Marshal :: "PingPayload \<Rightarrow> bytes" where
  "Ping_Marshal p = put64 (Ping_Timestamp p)"

definition UnmarshalPing :: "bytes \<Rightarrow> PingPayload res" where
  "UnmarshalPing data =
     guard_err (length data < 8) ErrPacketTooShort
     (bind_res (get64 data 0) (\<lambda>t. Ok \<lparr> Ping_Timestamp = t \<rparr>))"

section \<open>Authentication payloads (messages_auth.go)\<close>

record AuthChallengePayload =
  Ch_Challenge :: bytes
  Ch_ClientAddr :: bytes

definition AuthChallenge_Marshal :: "AuthChallengePayload \<Rightarrow> bytes" where
  "AuthChallenge_Marshal a =
     put16 (of_nat (length (Ch_Challenge a))) @ Ch_Challenge a @
     put16 (of_nat (length (Ch_ClientAddr a))) @ Ch_ClientAddr a"

definition UnmarshalAuthChallenge :: "bytes \<Rightarrow> AuthChallengePayload res" where
  "UnmarshalAuthChallenge data =
     guard_err (length data < 2) ErrPacketTooShort
     (bind_res (get16 data 0) (\<lambda>cl. let clen = unat cl in
      guard_err (length data < 2 + clen + 2) ErrPacketTooShort
      (bind_res (slice data 2 (2 + clen)) (\<lambda>challenge. let off = 2 + clen in
       bind_res (get16 data off) (\<lambda>al. let addrLen = unat al in
       guard_err (length data < off + 2 + addrLen) ErrPacketTooShort
       (bind_res (slice data (off + 2) (off + 2 + addrLen)) (\<lambda>clientAddr.
        Ok \<lparr> Ch_Challenge = challenge, Ch_ClientAddr = clientAddr \<rparr>)))))))"

record AuthResponsePayload =
  Rsp_RoomID :: bytes
  Rsp_Username :: bytes
  Rsp_HMAC :: bytes

definition AuthResponse_Marshal :: "AuthResponsePayload \<Rightarrow> bytes" where
  "AuthResponse_Marshal a =
     put16 (of_nat (length (Rsp_RoomID a))) @ Rsp_RoomID a @
     put16 (of_nat (length (Rsp_Username a))) @ Rsp_Username a @
     put16 (of_nat (length (Rsp_HMAC a))) @ Rsp_HMAC a"

definition UnmarshalAuthResponse :: "bytes \<Rightarrow> AuthResponsePayload res" where
  "UnmarshalAuthResponse data =
     guard_err (length data < 4) ErrPacketTooShort
     (bind_res (get16 data 0) (\<lambda>rl. let roomLen = unat rl; off = 2 in
      guard_err (length data < off + roomLen + 2) ErrPacketTooShort
      (bind_res (slice data off (off + roomLen)) (\<lambda>roomID. let off = off + roomLen in
       bind_res (get16 data off) (\<lambda>ul. let userLen = unat ul; off = off + 2 in
       guard_err (length data < off + userLen + 2) ErrPacketTooShort
       (bind_res (slice data off (off + userLen)) (\<lambda>username. let off = off + userLen in
        bind_res (get16 data off) (\<lambda>hl. let hmacLen = unat hl; off = off + 2 in
        guard_err (length data < off + hmacLen \<or> hmacLen < 32) ErrPacketTooShort
        (bind_res (slice data off (off + hmacLen)) (\<lambda>hmacVal.
         Ok \<lparr> Rsp_RoomID = roomID, Rsp_Username = username, Rsp_HMAC = hmacVal \<rparr>))))))))))"

section \<open>Rebind (messages_rebind.go)\<close>

record RebindPayload =
  Rb_VirtualIP :: ip
  Rb_HMAC :: bytes

definition Rebind_Marshal :: "RebindPayload \<Rightarrow> bytes" where
  "Rebind_Marshal r =
     (case To4 (Rb_VirtualIP r) of None \<Rightarrow> []
      | Some vip \<Rightarrow> vip @ put16 (of_nat (length (Rb_HMAC r))) @ Rb_HMAC r)"

definition UnmarshalRebind :: "bytes \<Rightarrow> RebindPayload res" where
  "UnmarshalRebind data =
     guard_err (length data < 6) ErrPacketTooShort
     (bind_res (slice data 0 4) (\<lambda>vip.
      bind_res (get16 data 4) (\<lambda>hl. let hmacLen = unat hl in
      guard_err (length data < 6 + hmacLen) ErrPacketTooShort
      (bind_res (if 0 < hmacLen then slice data 6 (6 + hmacLen) else Ok []) (\<lambda>h.
       Ok \<lparr> Rb_VirtualIP = vip, Rb_HMAC = h \<rparr>)))))"

record RebindAckPayload =
  Ack_Success :: bool

definition RebindAck_Marshal :: "RebindAckPayload \<Rightarrow> bytes" where
  "RebindAck_Marshal a = (if Ack_Success a then [1] else [0])"

definition UnmarshalRebindAck :: "bytes \<Rightarrow> RebindAckPayload res" where
  "UnmarshalRebindAck data =
     guard_err (length data < 1) ErrPacketTooShort
     (bind_res (idx data 0) (\<lambda>b. Ok \<lparr> Ack_Success = (b = 1) \<rparr>))"

section \<open>Relayed data (messages_data.go)\<close>

definition DataFlagHasToken :: byte where "DataFlagHasToken = 0x02"
definition DataFormatVersion :: byte where "DataFormatVersion = 0x01"

abbreviation DataHeaderLen :: nat where "DataHeaderLen \<equiv> 10"
abbreviation DataTokenLen :: nat where "DataTokenLen \<equiv> 16"

definition has_token :: "byte \<Rightarrow> bool" where
  "has_token f \<longleftrightarrow> f AND DataFlagHasToken \<noteq> 0"

text \<open>(flags, token offset, new format)\<close>

definition ParseDataHeader :: "bytes \<Rightarrow> byte \<times> nat \<times> bool" where
  "ParseDataHeader data =
     (if length data \<le> 8 then (0, 0, False)
      else if data ! 8 = DataFormatVersion then
        (if 9 < length data then (data ! 9, DataHeaderLen, True) else (0, DataHeaderLen, True))
      else (data ! 8, 9, False))"

definition dataOffset :: "bytes \<Rightarrow> nat" where
  "dataOffset data =
     (if 8 < length data \<and> data ! 8 = DataFormatVersion then
        DataHeaderLen + (if 9 < length data \<and> has_token (data ! 9) then DataTokenLen else 0)
      else 8)"

record DataPayload =
  DP_SrcIP :: ip
  DP_DstIP :: ip
  DP_FormatVer :: byte
  DP_Flags :: byte
  DP_Token :: token
  DP_Data :: bytes

definition Data_Marshal :: "DataPayload \<Rightarrow> bytes" where
  "Data_Marshal d =
     (case (To4 (DP_SrcIP d), To4 (DP_DstIP d)) of
        (Some src, Some dst) \<Rightarrow>
          src @ dst @ [DataFormatVersion, DP_Flags d] @
          (if has_token (DP_Flags d) then DP_Token d else []) @ DP_Data d
      | _ \<Rightarrow> [])"

definition Data_MarshalSize :: "DataPayload \<Rightarrow> nat" where
  "Data_MarshalSize d =
     DataHeaderLen + length (DP_Data d) + (if has_token (DP_Flags d) then DataTokenLen else 0)"

text \<open>\<open>copy(buf[off:], src)\<close>: panics if \<open>off\<close> is beyond the buffer, else overwrites a prefix.\<close>

definition copy_at :: "bytes \<Rightarrow> nat \<Rightarrow> bytes \<Rightarrow> bytes res" where
  "copy_at buf off src =
     (if length buf < off then Panic
      else Ok (take off buf @ take (length buf - off) src @ drop (off + length src) buf))"

text \<open>\<open>MarshalTo\<close> returns the number of bytes written and the buffer.\<close>

definition Data_MarshalTo :: "DataPayload \<Rightarrow> bytes \<Rightarrow> (nat \<times> bytes) res" where
  "Data_MarshalTo d dst =
     (case (To4 (DP_SrcIP d), To4 (DP_DstIP d)) of
        (Some src, Some dstIP) \<Rightarrow>
          if length dst < DataHeaderLen then Ok (0, dst)
          else
            bind_res (copy_at dst 0 (src @ dstIP @ [DataFormatVersion, DP_Flags d])) (\<lambda>b1.
            bind_res (if has_token (DP_Flags d)
                      then bind_res (copy_at b1 DataHeaderLen (DP_Token d))
                             (\<lambda>b. Ok (DataHeaderLen + DataTokenLen, b))
                      else Ok (DataHeaderLen, b1)) (\<lambda>(off, b2).
            bind_res (copy_at b2 off (DP_Data d)) (\<lambda>b3.
            Ok (off + min (length b2 - off) (length (DP_Data d)), b3))))
      | _ \<Rightarrow> Ok (0, dst))"

definition UnmarshalData :: "bytes \<Rightarrow> DataPayload res" where
  "UnmarshalData data =
     guard_err (length data < 8) ErrPacketTooShort
     (bind_res (slice data 0 4) (\<lambda>src.
      bind_res (slice data 4 8) (\<lambda>dst. let off = dataOffset data in
      guard_err (length data < off) ErrPacketTooShort
      (bind_res (if off \<noteq> 8 then idx data 9 else Ok 0) (\<lambda>flags.
       bind_res (if off \<noteq> 8 then idx data 8 else Ok 0) (\<lambda>fv.
       bind_res (if has_token flags \<and> DataHeaderLen + DataTokenLen \<le> length data
                 then slice data DataHeaderLen (DataHeaderLen + DataTokenLen)
                 else Ok zero_token) (\<lambda>tok.
       bind_res (slice data off (length data)) (\<lambda>pktData.
       Ok \<lparr> DP_SrcIP = src, DP_DstIP = dst, DP_FormatVer = fv, DP_Flags = flags,
            DP_Token = tok, DP_Data = pktData \<rparr>))))))))"

text \<open>
  The pooled variant works on a recycled object.  Its slices keep the backing arrays of
  earlier packets: \<open>Pool_SrcBuf\<close>, \<open>Pool_DstBuf\<close> and \<open>Pool_DataBuf\<close> are those arrays, up to
  their capacity.
\<close>

record PooledPayload =
  Pool_SrcBuf :: bytes
  Pool_DstBuf :: bytes
  Pool_DataBuf :: bytes
  Pool_FormatVer :: byte
  Pool_Flags :: byte
  Pool_Token :: token

definition newPooled :: PooledPayload where
  "newPooled = \<lparr> Pool_SrcBuf = replicate 4 0, Pool_DstBuf = replicate 4 0, Pool_DataBuf = [],
     Pool_FormatVer = 0, Pool_Flags = 0, Pool_Token = zero_token \<rparr>"

definition PutDataPayload :: "PooledPayload \<Rightarrow> PooledPayload" where
  "PutDataPayload p = p\<lparr> Pool_FormatVer := 0, Pool_Flags := 0, Pool_Token := zero_token \<rparr>"

text \<open>\<open>if cap(b) < n { make } else { b[:n] }\<close>\<close>

definition reslice :: "bytes \<Rightarrow> nat \<Rightarrow> bytes" where
  "reslice buf n = (if length buf < n then replicate n 0 else take n buf)"

definition UnmarshalDataPooled :: "PooledPayload \<Rightarrow> bytes \<Rightarrow> DataPayload res" where
  "UnmarshalDataPooled dp data =
     guard_err (length data < 8) ErrPacketTooShort
     (bind_res (slice data 0 4) (\<lambda>s4.
      bind_res (slice data 4 8) (\<lambda>d4.
      bind_res (copy_at (reslice (Pool_SrcBuf dp) 4) 0 s4) (\<lambda>src.
      bind_res (copy_at (reslice (Pool_DstBuf dp) 4) 0 d4) (\<lambda>dst. let off = dataOffset data in
      guard_err (length data < off) ErrPacketTooShort
      (bind_res (if off \<noteq> 8 then idx data 9 else Ok 0) (\<lambda>flags.
       bind_res (if off \<noteq> 8 then idx data 8 else Ok 0) (\<lambda>fv.
       bind_res (if has_token flags \<and> DataHeaderLen + DataTokenLen \<le> length data
                 then slice data DataHeaderLen (DataHeaderLen + DataTokenLen)
                 else Ok (Pool_Token dp)) (\<lambda>tok.
       bind_res (slice data off (length data)) (\<lambda>rawData.
       bind_res (copy_at (reslice (Pool_DataBuf dp) (length rawData)) 0 rawData) (\<lambda>pktData.
       Ok \<lparr> DP_SrcIP = src, DP_DstIP = dst, DP_FormatVer = fv, DP_Flags = flags,
            DP_Token = tok, DP_Data = pktData \<rparr>)))))))))))"

section \<open>NAT probing (messages_nat.go)\<close>

type_synonym NATType = byte

definition NATTypeUnknown :: NATType where "NATTypeUnknown = 0"
definition NATTypeFullCone :: NATType where "NATTypeFullCone = 1"
definition NATTypeRestrictedCone :: NATType where "NATTypeRestrictedCone = 2"
definition NATTypePortRestricted :: NATType where "NATTypePortRestricted = 3"
definition NATTypeSymmetric :: NATType where "NATTypeSymmetric = 4"
definition NATTypeNoNAT :: NATType where "NATTypeNoNAT = 5"

record NATProbePayload =
  Probe_ID :: byte

definition NATProbe_Marshal :: "NATProbePayload \<Rightarrow> bytes" where
  "NATProbe_Marshal p = [Probe_ID p]"

definition UnmarshalNATProbe :: "bytes \<Rightarrow> NATProbePayload res" where
  "UnmarshalNATProbe data =
     guard_err (length data < 1) ErrPacketTooShort
     (bind_res (idx data 0) (\<lambda>b. Ok \<lparr> Probe_ID = b \<rparr>))"

definition AddrStrLen :: "UDPAddr \<Rightarrow> nat" where
  "AddrStrLen a =
     (case To4 (UDP_IP a) of
        Some _ \<Rightarrow>
          (let p = UDP_Port a in
           4 + 3 + 1 + (if 10 \<le> p then 1 else 0) + (if 100 \<le> p then 1 else 0) +
           (if 1000 \<le> p then 1 else 0) + (if 10000 \<le> p then 1 else 0))
      | None \<Rightarrow> length (udp_string a))"

definition AppendAddrStr :: "bytes \<Rightarrow> UDPAddr \<Rightarrow> bytes" where
  "AppendAddrStr buf a =
     (case To4 (UDP_IP a) of
        Some ip4 \<Rightarrow>
          buf @ itoa (uint (ip4 ! 0)) @ [46] @ itoa (uint (ip4 ! 1)) @ [46] @
          itoa (uint (ip4 ! 2)) @ [46] @ itoa (uint (ip4 ! 3)) @ [58] @ itoa (UDP_Port a)
      | None \<Rightarrow> buf @ [91] @ ip_string (UDP_IP a) @ [93, 58] @ itoa (UDP_Port a))"

definition addrBytes :: "UDPAddr option \<Rightarrow> bytes" where
  "addrBytes a = (case a of None \<Rightarrow> [] | Some x \<Rightarrow> AppendAddrStr [] x)"

text \<open>\<open>resolve\<close> is net.ResolveUDPAddr, which may ask the system's name service.\<close>

definition parseAddrBytes :: "(bytes \<Rightarrow> UDPAddr option) \<Rightarrow> bytes \<Rightarrow> UDPAddr option" where
  "parseAddrBytes resolve data = (if data = [] then None else resolve data)"

record NATResponsePayload =
  NR_ProbeID :: byte
  NR_NATType :: NATType
  NR_ObservedAddr :: "UDPAddr option"
  NR_AltAddr :: "UDPAddr option"

definition NATResponse_Marshal :: "NATResponsePayload \<Rightarrow> bytes" where
  "NATResponse_Marshal r =
     (let observed = addrBytes (NR_ObservedAddr r); alt = addrBytes (NR_AltAddr r) in
      [NR_ProbeID r, NR_NATType r] @ put16 (of_nat (length observed)) @ observed @
      put16 (of_nat (length alt)) @ alt)"

definition UnmarshalNATResponse ::
    "(bytes \<Rightarrow> UDPAddr option) \<Rightarrow> bytes \<Rightarrow> NATResponsePayload res" where
  "UnmarshalNATResponse resolve data =
     guard_err (length data < 4) ErrPacketTooShort
     (bind_res (idx data 0) (\<lambda>pid.
      bind_res (idx data 1) (\<lambda>nt.
      bind_res (get16 data 2) (\<lambda>al. let addrLen = unat al; off = 4 in
      guard_err (length data < off + addrLen + 2) ErrPacketTooShort
      (bind_res (slice data off (off + addrLen)) (\<lambda>ob. let off = off + addrLen in
       bind_res (get16 data off) (\<lambda>ll. let altLen = unat ll; off = off + 2 in
       guard_err (length data < off + altLen) ErrPacketTooShort
       (bind_res (slice data off (off + altLen)) (\<lambda>ab.
        Ok \<lparr> NR_ProbeID = pid, NR_NATType = nt, NR_ObservedAddr = parseAddrBytes resolve ob,
             NR_AltAddr = (if 0 < altLen then parseAddrBytes resolve ab else None) \<rparr>)))))))))"

section \<open>Peer lists (messages_peer.go)\<close>

record PeerInfoEntry =
  PE_VirtualIP :: ip
  PE_PublicAddr :: "UDPAddr option"
  PE_Username :: bytes
  PE_NATType :: NATType

type_synonym PeerInfoPayload = "PeerInfoEntry list"

definition marshal_entry :: "PeerInfoEntry \<Rightarrow> bytes" where
  "marshal_entry e =
     (let a = (case PE_PublicAddr e of None \<Rightarrow> [] | Some x \<Rightarrow> AppendAddrStr [] x) in
      (case To4 (PE_VirtualIP e) of None \<Rightarrow> [] | Some v \<Rightarrow> v) @
      put16 (of_nat (length a)) @ a @
      put16 (of_nat (length (PE_Username e))) @ PE_Username e)"

definition PeerInfo_valid :: "PeerInfoPayload \<Rightarrow> PeerInfoPayload" where
  "PeerInfo_valid ps = filter (\<lambda>e. To4 (PE_VirtualIP e) \<noteq> None) ps"

definition PeerInfo_Marshal :: "PeerInfoPayload \<Rightarrow> bytes" where
  "PeerInfo_Marshal ps =
     (let valid = PeerInfo_valid ps; hasNATInfo = list_ex (\<lambda>e. PE_NATType e \<noteq> 0) valid in
      put16 (of_nat (length valid)) @ concat (map marshal_entry valid) @
      (if hasNATInfo then map PE_NATType valid else []))"

text \<open>
  The filter of \<open>Marshal\<close> runs in place over the caller's slice: this is what the
  slice holds afterwards.
\<close>

definition PeerInfo_Marshal_peers :: "PeerInfoPayload \<Rightarrow> PeerInfoPayload" where
  "PeerInfo_Marshal_peers ps = PeerInfo_valid ps @ drop (length (PeerInfo_valid ps)) ps"

definition parse_peer_addr :: "bytes \<Rightarrow> UDPAddr option" where
  "parse_peer_addr addrStr =
     (if addrStr = [] then None
      else case SplitHostPort addrStr of None \<Rightarrow> None
           | Some (host, portStr) \<Rightarrow>
               (case atoi portStr of None \<Rightarrow> None
                | Some port \<Rightarrow>
                    (case ParseIP host of None \<Rightarrow> None
                     | Some i \<Rightarrow> Some \<lparr> UDP_IP = i, UDP_Port = port \<rparr>)))"

text \<open>The loop over \<open>count\<close> entries: the peers and the offset behind them.\<close>

fun unmarshal_peers :: "nat \<Rightarrow> bytes \<Rightarrow> nat \<Rightarrow> (PeerInfoPayload \<times> nat) res" where
  "unmarshal_peers 0 data off = Ok ([], off)"
| "unmarshal_peers (Suc n) data off =
     guard_err (length data < off + 4 + 2) ErrPacketTooShort
     (bind_res (slice data off (off + 4)) (\<lambda>vip. let off = off + 4 in
      bind_res (get16 data off) (\<lambda>al. let addrLen = unat al; off = off + 2 in
      guard_err (length data < off + addrLen + 2) ErrPacketTooShort
      (bind_res (slice data off (off + addrLen)) (\<lambda>addrStr. let off = off + addrLen in
       bind_res (get16 data off) (\<lambda>ul. let userLen = unat ul; off = off + 2 in
       guard_err (length data < off + userLen) ErrPacketTooShort
       (bind_res (slice data off (off + userLen)) (\<lambda>username. let off = off + userLen in
        bind_res (unmarshal_peers n data off) (\<lambda>(ps, off).
        Ok (\<lparr> PE_VirtualIP = vip, PE_PublicAddr = parse_peer_addr addrStr,
              PE_Username = username, PE_NATType = 0 \<rparr> # ps, off))))))))))"

definition set_nat_types :: "PeerInfoPayload \<Rightarrow> bytes \<Rightarrow> PeerInfoPayload" where
  "set_nat_types ps nats =
     map2 (\<lambda>p t. p\<lparr> PE_NATType := t \<rparr>) (take (length nats) ps) (take (length ps) nats) @
     drop (length nats) ps"

definition UnmarshalPeerInfo :: "bytes \<Rightarrow> PeerInfoPayload res" where
  "UnmarshalPeerInfo data =
     guard_err (length data < 2) ErrPacketTooShort
     (bind_res (get16 data 0) (\<lambda>c. let count = unat c in
      guard_err (256 < count) ErrTooManyPeers
      (bind_res (unmarshal_peers count data 2) (\<lambda>(ps, off).
       bind_res (slice data off (length data)) (\<lambda>nats.
       Ok (set_nat_types ps nats))))))"

section \<open>Lemmas\<close>

lemma codec_take_drop [codec_simps]:
  "take 2 (put16 v) = put16 v" "drop 2 (put16 v) = []" "take 8 (put64 w) = put64 w"
  by simp_all

lemmas unmarshal_simps = guard_err_def Let_def codec_simps

lemma Register_roundtrip_lemma:
  assumes "length (Reg_RoomID r) < 65536" "length (Reg_Username r) < 65536"
  shows "UnmarshalRegister (Register_Marshal r) = Ok r"
  using assms by (simp add: UnmarshalRegister_def Register_Marshal_def unmarshal_simps)

lemma AuthResponse_roundtrip_lemma:
  assumes "length (Rsp_RoomID r) < 65536" "length (Rsp_Username r) < 65536"
    "length (Rsp_HMAC r) < 65536" "32 \<le> length (Rsp_HMAC r)"
  shows "UnmarshalAuthResponse (AuthResponse_Marshal r) = Ok r"
  using assms by (simp add: UnmarshalAuthResponse_def AuthResponse_Marshal_def unmarshal_simps)

lemma UnmarshalAuthResponse_no_panic: "UnmarshalAuthResponse d \<noteq> Panic"
  unfolding UnmarshalAuthResponse_def Let_def
  by (intro guard_err_no_panic bind_res_no_panic) (auto simp: codec_simps)


lemma UnmarshalData_no_panic: "UnmarshalData d \<noteq> Panic"
  unfolding UnmarshalData_def Let_def
  by (intro guard_err_no_panic bind_res_no_panic)
     (auto simp: codec_simps dataOffset_def split: if_splits)

lemma UnmarshalDataPooled_eq:
  "Pool_Token dp = zero_token \<Longrightarrow> UnmarshalDataPooled dp data = UnmarshalData data"
  by (auto simp: UnmarshalDataPooled_def UnmarshalData_def unmarshal_simps copy_at_def reslice_def
      cong: if_cong)

lemma Data_roundtrip_lemma:
  assumes "length (DP_SrcIP d) = 4" "length (DP_DstIP d) = 4" "length (DP_Token d) = 16"
    "DP_FormatVer d = DataFormatVersion" "has_token (DP_Flags d) \<or> DP_Token d = zero_token"
  shows "UnmarshalData (Data_Marshal d) = Ok d"
  using assms
  by (auto simp: UnmarshalData_def Data_Marshal_def unmarshal_simps dataOffset_def
      nth_append cong: if_cong)

lemma Data_MarshalTo_lemma:
  assumes "length (DP_SrcIP d) = 4" "length (DP_DstIP d) = 4" "length (DP_Token d) = 16"
    "Data_MarshalSize d \<le> length dst"
  shows "Data_MarshalTo d dst =
    Ok (Data_MarshalSize d, Data_Marshal d @ drop (Data_MarshalSize d) dst)"
  using assms
  by (auto simp: Data_MarshalTo_def Data_Marshal_def Data_MarshalSize_def copy_at_def min_def
      drop_Cons' ac_simps split: if_splits)

subsection \<open>Peer addresses and peer lists\<close>

lemma length_dec_le: "n < 10 ^ Suc k \<Longrightarrow> length (dec n) \<le> Suc k"
proof (induction k arbitrary: n)
  case 0
  then show ?case by (subst dec.simps) simp
next
  case (Suc k)
  then have "n div 10 < 10 ^ Suc k" by (simp add: div_less_iff_less_mult)
  then have "length (dec (n div 10)) \<le> Suc k" by (rule Suc.IH)
  then show ?case by (subst dec.simps) simp
qed

lemma itoa_byte: "itoa (uint (b :: byte)) = dec (unat b)"
  by (simp add: itoa_def)

lemma AppendAddrStr_ip4:
  "To4 (UDP_IP a) = Some x \<Longrightarrow> AppendAddrStr buf a = buf @ ip4_text x @ [58] @ itoa (UDP_Port a)"
  by (simp add: AppendAddrStr_def ip4_text_def itoa_byte)

lemma length_ip4_text: "length (ip4_text x) \<le> 15"
proof -
  have "length (dec (unat (b :: byte))) \<le> 3" for b
    using length_dec_le[of "unat b" 2] unat_byte_less[of b] by simp
  from this[of "x ! 0"] this[of "x ! 1"] this[of "x ! 2"] this[of "x ! 3"]
  show ?thesis by (simp add: ip4_text_def)
qed

lemma ip4_text_no_special:
  "58 \<notin> set (ip4_text x)" "91 \<notin> set (ip4_text x)" "93 \<notin> set (ip4_text x)"
  using digits_not_special by (auto simp: ip4_text_def)

definition v4_addr :: "UDPAddr \<Rightarrow> bool" where
  "v4_addr a \<longleftrightarrow> length (UDP_IP a) = 16 \<and> take 12 (UDP_IP a) = v4prefix \<and>
                 0 \<le> UDP_Port a \<and> UDP_Port a < 65536"

lemma parse_peer_addr_AppendAddrStr:
  assumes "v4_addr a"
  shows "parse_peer_addr (AppendAddrStr [] a) = Some a"
    and "length (AppendAddrStr [] a) \<le> 21"
proof -
  from assms have t: "To4 (UDP_IP a) = Some (drop 12 (UDP_IP a))" by (simp add: v4_addr_def To4_def)
  have s: "SplitHostPort (ip4_text x @ 58 # itoa (UDP_Port a)) = Some (ip4_text x, itoa (UDP_Port a))" for x
    using SplitHostPort_plain[of "ip4_text x" "itoa (UDP_Port a)"] ip4_text_no_special assms
      digits_not_special[of "nat (UDP_Port a)"]
    by (simp add: itoa_def v4_addr_def)
  show "parse_peer_addr (AppendAddrStr [] a) = Some a"
    using assms
    by (simp add: AppendAddrStr_ip4[OF t] parse_peer_addr_def s ParseIP_ip4_text atoi_itoa
        v4_addr_def mapped_eq)
  have "length (itoa (UDP_Port a)) \<le> 5"
    using assms length_dec_le[of "nat (UDP_Port a)" 4] by (simp add: itoa_def v4_addr_def nat_less_iff)
  then show "length (AppendAddrStr [] a) \<le> 21"
    using length_ip4_text[of "drop 12 (UDP_IP a)"] by (simp add: AppendAddrStr_ip4[OF t])
qed

definition sendable_entry :: "PeerInfoEntry \<Rightarrow> bool" where
  "sendable_entry e \<longleftrightarrow> length (PE_VirtualIP e) = 4 \<and> length (PE_Username e) < 65536 \<and>
     (case PE_PublicAddr e of None \<Rightarrow> True | Some a \<Rightarrow> v4_addr a)"

lemma unmarshal_one_peer:
  assumes "sendable_entry e"
  shows "unmarshal_peers (Suc n) (pre @ marshal_entry e @ post) (length pre) =
    bind_res (unmarshal_peers n ((pre @ marshal_entry e) @ post) (length (pre @ marshal_entry e)))
      (\<lambda>(ps, off). Ok (e\<lparr> PE_NATType := 0 \<rparr> # ps, off))"
proof -
  let ?a = "case PE_PublicAddr e of None \<Rightarrow> [] | Some x \<Rightarrow> AppendAddrStr [] x"
  have a: "length ?a < 65536" "parse_peer_addr ?a = PE_PublicAddr e"
    using assms parse_peer_addr_AppendAddrStr[of "the (PE_PublicAddr e)"]
    by (cases "PE_PublicAddr e"; simp add: sendable_entry_def parse_peer_addr_def[of "[]"])+
  obtain A where A: "A = ?a" by simp
  have m: "marshal_entry e = PE_VirtualIP e @ put16 (of_nat (length A)) @ A @
      put16 (of_nat (length (PE_Username e))) @ PE_Username e"
    using assms by (simp add: marshal_entry_def sendable_entry_def A Let_def)
  have e: "e\<lparr> PE_NATType := 0 \<rparr> = \<lparr> PE_VirtualIP = PE_VirtualIP e,
      PE_PublicAddr = PE_PublicAddr e, PE_Username = PE_Username e, PE_NATType = 0 \<rparr>"
    by simp
  show ?thesis
    using assms a unfolding A[symmetric] e
    by (simp add: m unmarshal_simps sendable_entry_def ac_simps)
qed

lemma unmarshal_peers_marshal:
  "list_all sendable_entry ps \<Longrightarrow>
   unmarshal_peers (length ps) (pre @ concat (map marshal_entry ps) @ post) (length pre) =
     Ok (map (\<lambda>e. e\<lparr> PE_NATType := 0 \<rparr>) ps, length (pre @ concat (map marshal_entry ps)))"
proof (induction ps arbitrary: pre)
  case Nil
  then show ?case by simp
next
  case (Cons e ps)
  from Cons.IH[of "pre @ marshal_entry e"] Cons.prems
  show ?case
    using unmarshal_one_peer[of e "length ps" pre "concat (map marshal_entry ps) @ post"]
    by (simp del: unmarshal_peers.simps)
qed

lemma unmarshal_peers_off:
  "unmarshal_peers n data off = Ok (ps, off') \<Longrightarrow> off \<le> length data \<Longrightarrow>
   off' \<le> length data \<and> length ps = n"
proof (induction n arbitrary: off ps)
  case 0
  then show ?case by simp
next
  case (Suc n)
  from Suc.prems(1) Suc.IH show ?case
    by (force simp: guard_err_Ok_iff bind_res_Ok_iff Let_def slice_Ok_iff)
qed

lemma unmarshal_peers_no_panic: "unmarshal_peers n data off \<noteq> Panic"
proof (induction n arbitrary: off)
  case (Suc n)
  show ?case
    unfolding unmarshal_peers.simps Let_def
    by (intro guard_err_no_panic bind_res_no_panic) (auto simp: codec_simps Suc.IH)
qed simp

lemma UnmarshalPeerInfo_no_panic: "UnmarshalPeerInfo d \<noteq> Panic"
  unfolding UnmarshalPeerInfo_def Let_def
  by (intro guard_err_no_panic bind_res_no_panic)
     (auto simp: codec_simps unmarshal_peers_no_panic dest!: unmarshal_peers_off)

lemma set_nat_types_all:
  "set_nat_types (map (\<lambda>e. e\<lparr> PE_NATType := 0 \<rparr>) ps) (map PE_NATType ps) = ps"
  by (induction ps) (auto simp: set_nat_types_def)

lemma set_nat_types_none: "set_nat_types ps [] = ps"
  by (simp add: set_nat_types_def)

lemma PeerInfo_roundtrip_lemma:
  assumes "list_all sendable_entry ps" "length ps \<le> 256"
  shows "UnmarshalPeerInfo (PeerInfo_Marshal ps) = Ok ps"
proof -
  have v: "PeerInfo_valid ps = ps"
    using assms(1) unfolding PeerInfo_valid_def
    by (auto simp: filter_id_conv list_all_iff sendable_entry_def)
  have z: "map (\<lambda>e. e\<lparr> PE_NATType := 0 \<rparr>) ps = ps" if "\<not> list_ex (\<lambda>e. PE_NATType e \<noteq> 0) ps"
    using that by (induction ps) auto
  define post where "post = (if list_ex (\<lambda>e. PE_NATType e \<noteq> 0) ps then map PE_NATType ps else [])"
  have m: "PeerInfo_Marshal ps =
      put16 (of_nat (length ps)) @ concat (map marshal_entry ps) @ post"
    by (simp add: PeerInfo_Marshal_def v post_def Let_def)
  have u: "unmarshal_peers (length ps) (PeerInfo_Marshal ps) 2 =
      Ok (map (\<lambda>e. e\<lparr> PE_NATType := 0 \<rparr>) ps, 2 + length (concat (map marshal_entry ps)))"
    using unmarshal_peers_marshal[OF assms(1), of "put16 (of_nat (length ps))" post] by (simp add: m)
  have "UnmarshalPeerInfo (PeerInfo_Marshal ps) =
      Ok (set_nat_types (map (\<lambda>e. e\<lparr> PE_NATType := 0 \<rparr>) ps) post)"
    using assms(2) u unfolding UnmarshalPeerInfo_def by (simp add: unmarshal_simps m)
  then show ?thesis
    by (auto simp: post_def set_nat_types_all set_nat_types_none z split: if_splits)
qed

section \<open>Disconnect reasons (errors.go)\<close>

datatype DisconnectReason =
    ReasonUnknown
  | ReasonWrongPassword
  | ReasonVersionMismatch
  | ReasonRoomFull
  | ReasonServerShutdown
  | ReasonKickGeneric

record DisconnectError =
  DE_Reason :: DisconnectReason
  DE_Message :: bytes
  DE_Code :: KickCode

definition IsFatal :: "DisconnectError \<Rightarrow> bool" where
  "IsFatal e \<longleftrightarrow> DE_Reason e = ReasonWrongPassword \<or> DE_Reason e = ReasonVersionMismatch"

definition lower :: "byte \<Rightarrow> byte" where
  "lower c = (if 65 \<le> c \<and> c \<le> 90 then c + 32 else c)"

text \<open>The inner loop at one start position, and the outer loop over positions.\<close>

fun match_at :: "bytes \<Rightarrow> bytes \<Rightarrow> bool" where
  "match_at s [] = True"
| "match_at [] (k # ks) = False"
| "match_at (c # s) (k # ks) = (lower c = lower k \<and> match_at s ks)"

fun contains_from :: "bytes \<Rightarrow> bytes \<Rightarrow> bool" where
  "contains_from [] sub = match_at [] sub"
| "contains_from (c # s) sub = (match_at (c # s) sub \<or> contains_from s sub)"

definition containsIgnoreCase :: "bytes \<Rightarrow> bytes \<Rightarrow> bool" where
  "containsIgnoreCase s sub = contains_from s sub"

text \<open>The Chinese keywords are their UTF-8 bytes.\<close>

definition fatalKeywords :: "bytes list" where
  "fatalKeywords = [lit ''password'',
     [0xe5, 0xaf, 0x86, 0xe7, 0xa0, 0x81, 0xe9, 0x94, 0x99, 0xe8, 0xaf, 0xaf],
     lit ''wrong password'']"

definition versionKeywords :: "bytes list" where
  "versionKeywords = [lit ''version'',
     [0xe7, 0x89, 0x88, 0xe6, 0x9c, 0xac, 0xe4, 0xb8, 0x8d, 0xe5, 0x85, 0xbc, 0xe5, 0xae, 0xb9],
     lit ''incompatible'']"

definition fullKeywords :: "bytes list" where
  "fullKeywords = [lit ''room full'',
     [0xe6, 0x88, 0xbf, 0xe9, 0x97, 0xb4, 0xe5, 0xb7, 0xb2, 0xe6, 0xbb, 0xa1]]"

definition shutdownKeywords :: "bytes list" where
  "shutdownKeywords = [lit ''shutdown'', [0xe5, 0x85, 0xb3, 0xe9, 0x97, 0xad]]"

definition classifyKickMessage :: "bytes \<Rightarrow> DisconnectReason" where
  "classifyKickMessage msg =
     (if list_ex (containsIgnoreCase msg) fatalKeywords then ReasonWrongPassword
      else if list_ex (containsIgnoreCase msg) versionKeywords then ReasonVersionMismatch
      else if list_ex (containsIgnoreCase msg) fullKeywords then ReasonRoomFull
      else if list_ex (containsIgnoreCase msg) shutdownKeywords then ReasonServerShutdown
      else ReasonUnknown)"

definition NewDisconnectError :: "KickPayload \<Rightarrow> DisconnectError" where
  "NewDisconnectError kick =
     (let reason =
        (if Kick_Code kick = KickCodeWrongPassword then ReasonWrongPassword
         else if Kick_Code kick = KickCodeVersionMismatch then ReasonVersionMismatch
         else if Kick_Code kick = KickCodeShutdown then ReasonServerShutdown
         else if Kick_Code kick = KickCodeNone then classifyKickMessage (Kick_Reason kick)
         else ReasonKickGeneric)
      in \<lparr> DE_Reason = reason, DE_Message = Kick_Reason kick, DE_Code = Kick_Code kick \<rparr>)"

definition FormatVersion :: "u16 \<Rightarrow> bytes" where
  "FormatVersion v = lit ''v'' @ dec (unat (VersionMajor v)) @ [46] @ dec (unat (VersionMinor v))"

text \<open>The search is the case-insensitive substring test.\<close>

lemma match_at_iff: "match_at s sub \<longleftrightarrow> (\<exists>r. map lower s = map lower sub @ r)"
  by (induction s sub rule: match_at.induct) auto

lemma infix_Cons_iff:
  "(\<exists>l r. x # xs = l @ z @ r) \<longleftrightarrow> (\<exists>r. x # xs = z @ r) \<or> (\<exists>l r. xs = l @ z @ r)"
proof
  assume "\<exists>l r. x # xs = l @ z @ r"
  then obtain l r where "x # xs = l @ z @ r" by blast
  then show "(\<exists>r. x # xs = z @ r) \<or> (\<exists>l r. xs = l @ z @ r)" by (cases l) auto
next
  assume "(\<exists>r. x # xs = z @ r) \<or> (\<exists>l r. xs = l @ z @ r)"
  then show "\<exists>l r. x # xs = l @ z @ r"
    by (metis append_Cons append_Nil)
qed

lemma containsIgnoreCase_iff:
  "containsIgnoreCase s sub \<longleftrightarrow> (\<exists>l r. map lower s = l @ map lower sub @ r)"
proof (induction s)
  case Nil
  then show ?case by (cases sub) (auto simp: containsIgnoreCase_def)
next
  case (Cons c s)
  then show ?case
    using match_at_iff[of "c # s" sub] by (simp add: containsIgnoreCase_def infix_Cons_iff)
qed

section \<open>Totality of the decoders\<close>

lemma simple_decoders_no_panic:
  "UnmarshalRegister d \<noteq> Panic" "UnmarshalAssignIP d \<noteq> Panic" "UnmarshalKick d \<noteq> Panic"
  "UnmarshalPing d \<noteq> Panic" "UnmarshalAuthChallenge d \<noteq> Panic" "UnmarshalRebind d \<noteq> Panic"
  "UnmarshalRebindAck d \<noteq> Panic" "UnmarshalNATProbe d \<noteq> Panic"
  unfolding UnmarshalRegister_def UnmarshalAssignIP_def UnmarshalKick_def UnmarshalPing_def
    UnmarshalAuthChallenge_def UnmarshalRebind_def UnmarshalRebindAck_def UnmarshalNATProbe_def
    Let_def
  by (intro guard_err_no_panic bind_res_no_panic; auto simp: codec_simps)+

lemma UnmarshalNATResponse_no_panic: "UnmarshalNATResponse resolve d \<noteq> Panic"
  unfolding UnmarshalNATResponse_def Let_def
  by (intro guard_err_no_panic bind_res_no_panic) (auto simp: codec_simps idx_def)

lemma UnmarshalDataPooled_no_panic: "UnmarshalDataPooled dp d \<noteq> Panic"
  unfolding UnmarshalDataPooled_def Let_def
  by (intro guard_err_no_panic bind_res_no_panic)
     (auto simp: codec_simps dataOffset_def copy_at_def split: if_splits)

section \<open>Properties\<close>

text \<open>
  C18: No payload decoder panics, whatever bytes arrive: every slice and index of every
  Unmarshal function stays in range behind its length checks.
\<close>

theorem unmarshal_never_panics:
  "UnmarshalRegister d \<noteq> Panic \<and> UnmarshalAssignIP d \<noteq> Panic \<and> UnmarshalKick d \<noteq> Panic \<and>
   UnmarshalPing d \<noteq> Panic \<and> UnmarshalAuthChallenge d \<noteq> Panic \<and>
   UnmarshalAuthResponse d \<noteq> Panic \<and> UnmarshalRebind d \<noteq> Panic \<and>
   UnmarshalRebindAck d \<noteq> Panic \<and> UnmarshalNATProbe d \<noteq> Panic \<and>
   UnmarshalNATResponse resolve d \<noteq> Panic \<and> UnmarshalData d \<noteq> Panic \<and>
   UnmarshalDataPooled dp d \<noteq> Panic \<and> UnmarshalPeerInfo d \<noteq> Panic"
  by (intro conjI simple_decoders_no_panic UnmarshalAuthResponse_no_panic UnmarshalData_no_panic
      UnmarshalNATResponse_no_panic UnmarshalDataPooled_no_panic UnmarshalPeerInfo_no_panic)

text \<open>
  The handshake messages survive the wire: a registration, an authentication response
  and an address assignment are decoded to exactly what was encoded, for strings shorter
  than 64 KiB, 4-byte addresses, a 16-byte token and an HMAC of at least 32 bytes.
\<close>

theorem handshake_roundtrip:
  assumes "length (Reg_RoomID r) < 65536" "length (Reg_Username r) < 65536"
    and "length (Rsp_RoomID a) < 65536" "length (Rsp_Username a) < 65536"
    and "32 \<le> length (Rsp_HMAC a)" "length (Rsp_HMAC a) < 65536"
    and "length (Asg_VirtualIP p) = 4" "length (Asg_SubnetMask p) = 4"
    and "length (Asg_ServerIP p) = 4" "length (Asg_SessionToken p) = 16"
    and "length (Ch_Challenge c) < 65536" "length (Ch_ClientAddr c) < 65536"
  shows "UnmarshalRegister (Register_Marshal r) = Ok r \<and>
    UnmarshalAuthResponse (AuthResponse_Marshal a) = Ok a \<and>
    UnmarshalAssignIP (AssignIP_Marshal p) = Ok p \<and>
    UnmarshalAuthChallenge (AuthChallenge_Marshal c) = Ok c"
proof (intro conjI)
  show "UnmarshalRegister (Register_Marshal r) = Ok r"
    using assms by (intro Register_roundtrip_lemma)
  show "UnmarshalAuthResponse (AuthResponse_Marshal a) = Ok a"
    using assms by (intro AuthResponse_roundtrip_lemma)
  show "UnmarshalAssignIP (AssignIP_Marshal p) = Ok p"
    using assms by (simp add: UnmarshalAssignIP_def AssignIP_Marshal_def unmarshal_simps)
  show "UnmarshalAuthChallenge (AuthChallenge_Marshal c) = Ok c"
    using assms by (simp add: UnmarshalAuthChallenge_def AuthChallenge_Marshal_def unmarshal_simps)
qed

theorem handshake_roundtrip_witness:
  "UnmarshalRegister (Register_Marshal
     \<lparr> Reg_RoomID = lit ''lan'', Reg_Username = lit ''bob'', Reg_Version = AppVersion \<rparr>) =
   Ok \<lparr> Reg_RoomID = lit ''lan'', Reg_Username = lit ''bob'', Reg_Version = AppVersion \<rparr>"
  using handshake_roundtrip[of
      "\<lparr> Reg_RoomID = lit ''lan'', Reg_Username = lit ''bob'', Reg_Version = AppVersion \<rparr>"
      "\<lparr> Rsp_RoomID = lit ''lan'', Rsp_Username = lit ''bob'', Rsp_HMAC = replicate 32 7 \<rparr>"
      "\<lparr> Asg_VirtualIP = [10, 10, 0, 2], Asg_SubnetMask = [255, 255, 255, 0],
         Asg_ServerIP = [10, 10, 0, 1], Asg_Version = AppVersion, Asg_SessionToken = replicate 16 9 \<rparr>"
      "\<lparr> Ch_Challenge = replicate 16 5, Ch_ClientAddr = lit ''1.2.3.4:5'' \<rparr>"]
  by simp

text \<open>
  A peer list is decoded to exactly the entries that were encoded, NAT types included,
  for up to 256 entries with IPv4 virtual addresses and absent or IPv4 public endpoints:
  the decimal address text and its parser are inverse, and the optional trailing NAT
  section never shifts an entry.
\<close>

theorem PeerInfo_roundtrip:
  assumes "list_all sendable_entry ps" "length ps \<le> 256"
  shows "UnmarshalPeerInfo (PeerInfo_Marshal ps) = Ok ps"
  using assms by (rule PeerInfo_roundtrip_lemma)

definition sample_peers :: PeerInfoPayload where
  "sample_peers =
     [\<lparr> PE_VirtualIP = [10, 10, 0, 2],
        PE_PublicAddr = Some \<lparr> UDP_IP = IPv4 203 0 113 9, UDP_Port = 4700 \<rparr>,
        PE_Username = lit ''ann'', PE_NATType = 0 \<rparr>,
      \<lparr> PE_VirtualIP = [10, 10, 0, 3], PE_PublicAddr = None,
        PE_Username = lit ''bob'', PE_NATType = 4 \<rparr>]"

theorem PeerInfo_roundtrip_witness:
  "UnmarshalPeerInfo (PeerInfo_Marshal sample_peers) = Ok sample_peers"
  using PeerInfo_roundtrip[of sample_peers]
  by (simp add: sample_peers_def sendable_entry_def v4_addr_def IPv4_def)

text \<open>
  C19: A relayed packet survives the wire, with or without a session token; the
  allocation-free writer \<open>MarshalTo\<close> puts exactly the bytes of \<open>Marshal\<close> in front of
  a large enough buffer; and the pooled decoder agrees with the allocating one
  on every input, whatever bytes earlier packets left in the recycled buffers,
  provided the recycled token was cleared, as \<open>PutDataPayload\<close> does.
\<close>

theorem Data_codec_agreement:
  assumes "length (DP_SrcIP d) = 4" "length (DP_DstIP d) = 4" "length (DP_Token d) = 16"
    and "DP_FormatVer d = DataFormatVersion"
    and "has_token (DP_Flags d) \<or> DP_Token d = zero_token"
    and "Data_MarshalSize d \<le> length dst"
  shows "UnmarshalData (Data_Marshal d) = Ok d \<and>
    Data_MarshalTo d dst = Ok (Data_MarshalSize d, Data_Marshal d @ drop (Data_MarshalSize d) dst) \<and>
    UnmarshalDataPooled (PutDataPayload old) raw = UnmarshalData raw"
  using assms
  by (intro conjI Data_roundtrip_lemma Data_MarshalTo_lemma UnmarshalDataPooled_eq)
     (simp_all add: PutDataPayload_def)

definition sample_data :: DataPayload where
  "sample_data = \<lparr> DP_SrcIP = [10, 10, 0, 2], DP_DstIP = [10, 10, 0, 3],
     DP_FormatVer = DataFormatVersion, DP_Flags = DataFlagHasToken,
     DP_Token = replicate 16 7, DP_Data = [0x45, 0, 0, 20] \<rparr>"

theorem Data_codec_agreement_witness:
  "UnmarshalData (Data_Marshal sample_data) = Ok sample_data"
  using Data_codec_agreement[of sample_data "replicate 40 0"]
  by (simp add: sample_data_def Data_MarshalSize_def has_token_def DataFlagHasToken_def)

text \<open>
  The legacy kick classification: a kick without a code is fatal exactly when its text
  contains, ignoring ASCII case, one of the password or version keywords; a coded
  kick is fatal exactly for the wrong-password and version-mismatch codes.
\<close>

theorem NewDisconnectError_fatal:
  "IsFatal (NewDisconnectError k) \<longleftrightarrow>
     (if Kick_Code k = KickCodeNone
      then (\<exists>kw \<in> set (fatalKeywords @ versionKeywords). \<exists>l r.
              map lower (Kick_Reason k) = l @ map lower kw @ r)
      else Kick_Code k = KickCodeWrongPassword \<or> Kick_Code k = KickCodeVersionMismatch)"
  unfolding containsIgnoreCase_iff[symmetric]
  by (auto simp: IsFatal_def NewDisconnectError_def classifyKickMessage_def Let_def list_ex_iff
      KickCodeNone_def KickCodeWrongPassword_def KickCodeVersionMismatch_def KickCodeShutdown_def)

end
