(* ===== verification/ClientState.thy ===== *)
theory ClientState
  imports Messages
begin

text \<open>
  The server's record of a player (server/client.go): session token, authentication state
  and the ring buffer of ping results with its statistics.  Times and durations are
  nanoseconds; the zero time.Time is None.
\<close>

datatype authState = authNone | authChallengeSent

definition pingHistorySize :: nat where "pingHistorySize = 12"

record Client =
  Username :: bytes
  VirtualIP :: ip
  PublicAddr :: "UDPAddr option"
  C_NATType :: NATType
  lastSeen :: int
  RTT :: int
  SessionToken :: token
  pingHistory :: "int list"
  pingIdx :: nat
  pingSeq :: u32
  lastPingSent :: "int option"
  lastPingSeq :: u32
  auth :: authState
  challenge :: bytes
  challengeAt :: "int option"
  authRoomID :: bytes
  clientVersion :: u16

text \<open>The zero value of the struct, which composite literals start from.\<close>

definition zeroClient :: Client where
  "zeroClient = \<lparr> Username = [], VirtualIP = [], PublicAddr = None, C_NATType = 0, lastSeen = 0,
     RTT = 0, SessionToken = zero_token, pingHistory = replicate pingHistorySize 0, pingIdx = 0,
     pingSeq = 0, lastPingSent = None, lastPingSeq = 0, auth = authNone, challenge = [],
     challengeAt = None, authRoomID = [], clientVersion = 0 \<rparr>"

definition GetLastSeen :: "Client \<Rightarrow> int" where
  "GetLastSeen c = lastSeen c"

definition SetLastSeen :: "int \<Rightarrow> Client \<Rightarrow> Client" where
  "SetLastSeen t c = c\<lparr> lastSeen := t \<rparr>"

text \<open>\<open>rnd\<close> is what rand.Read delivers; None is its error.\<close>

definition GenerateSessionToken :: "token option \<Rightarrow> Client \<Rightarrow> Client option" where
  "GenerateSessionToken rnd c = map_option (\<lambda>t. c\<lparr> SessionToken := copy_into 16 t \<rparr>) rnd"

definition HasSessionToken :: "Client \<Rightarrow> bool" where
  "HasSessionToken c \<longleftrightarrow> SessionToken c \<noteq> zero_token"

definition ValidateSessionToken :: "bytes \<Rightarrow> Client \<Rightarrow> bool" where
  "ValidateSessionToken tok c \<longleftrightarrow> length tok = 16 \<and> SessionToken c = tok"

section \<open>Ping statistics\<close>

text \<open>\<open>c.pingHistory[c.pingIdx%pingHistorySize] = rtt; c.pingIdx++\<close>, as the ping loop and the pong handler do.\<close>

definition ping_push :: "int \<Rightarrow> Client \<Rightarrow> Client" where
  "ping_push rtt c =
     c\<lparr> pingHistory := (pingHistory c)[pingIdx c mod pingHistorySize := rtt], pingIdx := pingIdx c + 1 \<rparr>"

record ping_acc =
  received :: nat
  prevRTT :: int
  jitterSum :: int
  jitterCount :: nat

definition ping_visit :: "int \<Rightarrow> ping_acc \<Rightarrow> ping_acc" where
  "ping_visit rtt a =
     (if rtt = 0 then a
      else
        (let a1 = a\<lparr> received := received a + 1 \<rparr>;
             a2 = (if 0 < prevRTT a1 then
                     (let diff = rtt - prevRTT a1; diff = (if diff < 0 then - diff else diff)
                      in a1\<lparr> jitterSum := jitterSum a1 + diff, jitterCount := jitterCount a1 + 1 \<rparr>)
                   else a1)
         in a2\<lparr> prevRTT := rtt \<rparr>))"

definition ping_acc0 :: ping_acc where
  "ping_acc0 = \<lparr> received = 0, prevRTT = 0, jitterSum = 0, jitterCount = 0 \<rparr>"

text \<open>(loss rate, jitter); the float64 quotient is the exact one.\<close>

definition PingStats :: "Client \<Rightarrow> rat \<times> int" where
  "PingStats c =
     (let total = pingIdx c in
      if total = 0 then (0, 0)
      else
        (let n = (if pingHistorySize < total then pingHistorySize else total);
             start = (if pingHistorySize < total then total mod pingHistorySize else 0);
             a = fold (\<lambda>i. ping_visit (pingHistory c ! ((start + i) mod pingHistorySize))) [0..<n] ping_acc0
         in (1 - of_nat (received a) / of_nat n,
             if 0 < jitterCount a then jitterSum a div int (jitterCount a) else 0)))"

section \<open>Reference definition\<close>

text \<open>
  Over a list of results in the order they were recorded: the share of zeros, and the mean
  distance between consecutive non-zero results.
\<close>

definition stats_of :: "int list \<Rightarrow> rat \<times> int" where
  "stats_of h =
     (let good = filter (\<lambda>r. r \<noteq> 0) h; ds = map2 (\<lambda>x y. \<bar>y - x\<bar>) good (tl good)
      in (if h = [] then 0 else 1 - of_nat (length good) / of_nat (length h),
          if ds = [] then 0 else sum_list ds div int (length ds)))"

lemma ping_fold:
  assumes "list_all (\<lambda>r. 0 \<le> r) h"
  shows "let a = fold ping_visit h ping_acc0; good = filter (\<lambda>r. r \<noteq> 0) h;
           ds = map2 (\<lambda>x y. \<bar>y - x\<bar>) good (tl good)
         in received a = length good \<and> prevRTT a = (if good = [] then 0 else last good) \<and>
            jitterSum a = sum_list ds \<and> jitterCount a = length ds"
  using assms
proof (induction h rule: rev_induct)
  case Nil
  then show ?case by (simp add: ping_acc0_def)
next
  case (snoc r h)
  define good where "good = filter (\<lambda>r. r \<noteq> 0) h"
  have pos: "0 < last good" if "good \<noteq> []"
  proof -
    have "last good \<in> set good" using that by simp
    then show ?thesis using snoc.prems by (auto simp: good_def list_all_iff)
  qed
  have ds: "map2 (\<lambda>x y. \<bar>y - x\<bar>) (good @ [r]) (tl (good @ [r])) =
      (if good = [] then [] else map2 (\<lambda>x y. \<bar>y - x\<bar>) good (tl good) @ [\<bar>r - last good\<bar>])"
  proof (cases good rule: rev_cases)
    case (snoc g x)
    show ?thesis
    proof (cases g)
      case (Cons y ys)
      have "map2 (\<lambda>x y. \<bar>y - x\<bar>) (y # ys @ [x, r]) (ys @ [x, r]) =
          map2 (\<lambda>x y. \<bar>y - x\<bar>) (y # ys @ [x]) (ys @ [x]) @ [\<bar>r - x\<bar>]"
        using zip_append[of "y # ys" "ys @ [x]" "[x, r]" "[r]"] zip_append[of "y # ys" "ys @ [x]" "[x]" "[]"]
        by simp
      then show ?thesis by (simp add: snoc Cons)
    qed (simp add: snoc)
  qed simp
  from snoc ds pos show ?case
    by (simp add: ping_visit_def Let_def flip: good_def)
qed

section \<open>Properties\<close>

text \<open>
  The ping statistics shown for a player are those of the last twelve results in the
  order they were recorded, however often the ring buffer has wrapped: the loss
  rate is the share of missed pings among them and the jitter the mean difference of
  consecutive answered ones.  Recording a result keeps the buffer in step with the
  history.
\<close>

theorem PingStats_last_twelve:
  assumes "ring_ok pingHistorySize (pingHistory c) (pingIdx c) h" "list_all (\<lambda>r. 0 \<le> r) h"
  shows "PingStats c = stats_of (lastn 12 h) \<and>
    ring_ok pingHistorySize (pingHistory (ping_push rtt c)) (pingIdx (ping_push rtt c)) (h @ [rtt])"
proof
  have N: "0 < pingHistorySize" by (simp add: pingHistorySize_def)
  show "ring_ok pingHistorySize (pingHistory (ping_push rtt c)) (pingIdx (ping_push rtt c)) (h @ [rtt])"
    using ring_push[OF N assms(1), of rtt] by (simp add: ping_push_def)
  have l: "pingIdx c = length h" using assms(1) by (simp add: ring_ok_def)
  define vals where "vals = lastn 12 h"
  have r: "map (\<lambda>i. pingHistory c ! (((if pingHistorySize < pingIdx c then pingIdx c mod pingHistorySize else 0) + i)
      mod pingHistorySize)) [0..<min pingHistorySize (pingIdx c)] = vals"
    using ring_read[OF N assms(1)] by (simp add: vals_def pingHistorySize_def)
  have "fold (\<lambda>i. ping_visit (pingHistory c ! (((if pingHistorySize < pingIdx c then pingIdx c mod pingHistorySize else 0) + i)
      mod pingHistorySize))) [0..<min pingHistorySize (pingIdx c)] ping_acc0 = fold ping_visit vals ping_acc0"
    unfolding r[symmetric] fold_map comp_def ..
  moreover have "(if pingHistorySize < pingIdx c then pingHistorySize else pingIdx c) = min pingHistorySize (pingIdx c)"
    by (simp add: min_def)
  moreover have "length vals = min pingHistorySize (pingIdx c)"
    using l by (simp add: vals_def pingHistorySize_def)
  moreover have "list_all (\<lambda>r. 0 \<le> r) vals"
    using assms(2) by (auto simp: vals_def lastn_def list_all_iff dest: in_set_dropD)
  note f = ping_fold[OF this]
  moreover have "vals = [] \<longleftrightarrow> pingIdx c = 0"
    using l by (cases h) (simp_all add: vals_def lastn_def)
  ultimately show "PingStats c = stats_of (lastn 12 h)"
    unfolding PingStats_def stats_of_def vals_def[symmetric]
    by (auto simp: Let_def stats_of_def)
qed

theorem PingStats_last_twelve_witness:
  "PingStats (ping_push 30 (ping_push 0 (ping_push 10 zeroClient))) = stats_of (lastn 12 [10, 0, 30])"
proof -
  have N: "0 < pingHistorySize" by (simp add: pingHistorySize_def)
  have "ring_ok pingHistorySize (pingHistory zeroClient) (pingIdx zeroClient) []"
    by (simp add: ring_ok_def zeroClient_def pingHistorySize_def)
  note r = ring_push[OF N ring_push[OF N ring_push[OF N this, of 10], of 0], of 30]
  have "ring_ok pingHistorySize (pingHistory (ping_push 30 (ping_push 0 (ping_push 10 zeroClient))))
      (pingIdx (ping_push 30 (ping_push 0 (ping_push 10 zeroClient)))) [10, 0, 30]"
    using r by (simp add: ping_push_def)
  from PingStats_last_twelve[OF this] show ?thesis by simp
qed

end
