(* ===== verification/RateLimit.thy ===== *)
theory RateLimit
  imports GoNet
begin

text \<open>
  The server's limiters: the sharded per-address packet counter (server/ratelimit.go), the
  token bucket (tokenbucket.go) and the per-destination bandwidth limiter (bandwidth.go).
  Times are nanoseconds.  The float64 arithmetic of the bucket is exact rational
  arithmetic here: rounding of doubles is not modelled.  The locale \<open>window_counter\<close>
  states what a counter with a limit per time window promises; the sharded
  limiter and the room's registration limiter are its two instances.
\<close>

section \<open>Window counters\<close>

datatype 'k wevent = Hit 'k | Tick

fun run_window :: "('k \<Rightarrow> 's \<Rightarrow> bool \<times> 's) \<Rightarrow> ('s \<Rightarrow> 's) \<Rightarrow> 'k wevent list \<Rightarrow> 's \<Rightarrow> bool list" where
  "run_window hit tick [] s = []"
| "run_window hit tick (Hit k # es) s =
     (let (ok, s') = hit k s in ok # run_window hit tick es s')"
| "run_window hit tick (Tick # es) s = run_window hit tick es (tick s)"

text \<open>The specification: a hit is accepted while fewer than \<open>limit\<close> hits came in this window.\<close>

fun spec_window :: "int \<Rightarrow> 'k wevent list \<Rightarrow> ('k \<Rightarrow> int) \<Rightarrow> bool list" where
  "spec_window limit [] c = []"
| "spec_window limit (Hit k # es) c = (c k < limit) # spec_window limit es (c(k := c k + 1))"
| "spec_window limit (Tick # es) c = spec_window limit es (\<lambda>_. 0)"

locale window_counter =
  fixes hit :: "'k \<Rightarrow> 's \<Rightarrow> bool \<times> 's"
    and tick :: "'s \<Rightarrow> 's"
    and cnt :: "'s \<Rightarrow> 'k \<Rightarrow> int"
    and inv :: "'s \<Rightarrow> bool"
    and limit :: int
  assumes hit_ok: "inv s \<Longrightarrow> fst (hit k s) \<longleftrightarrow> cnt s k < limit"
    and hit_cnt: "inv s \<Longrightarrow> cnt (snd (hit k s)) = (cnt s)(k := cnt s k + 1)"
    and hit_inv: "inv s \<Longrightarrow> inv (snd (hit k s))"
    and tick_cnt: "inv s \<Longrightarrow> cnt (tick s) = (\<lambda>_. 0)"
    and tick_inv: "inv s \<Longrightarrow> inv (tick s)"
begin

lemma run_refines_spec: "inv s \<Longrightarrow> run_window hit tick es s = spec_window limit es (cnt s)"
proof (induction es arbitrary: s)
  case (Cons e es)
  show ?case
  proof (cases e)
    case (Hit k)
    with Cons show ?thesis
      using hit_ok[of s k] hit_cnt[of s k] hit_inv[of s k] by (cases "hit k s") (simp add: fun_upd_def)
  next
    case Tick
    with Cons show ?thesis by (simp add: tick_cnt tick_inv)
  qed
qed simp

end

text \<open>Accepted hits of one key within a window: the first \<open>limit\<close> of them.\<close>

definition accepted :: "'k \<Rightarrow> 'k list \<Rightarrow> bool list \<Rightarrow> nat" where
  "accepted k ks oks = length (filter (\<lambda>(x, ok). x = k \<and> ok) (zip ks oks))"

lemma spec_window_accepted:
  "0 \<le> c k \<Longrightarrow>
   int (accepted k ks (spec_window limit (map Hit ks) c)) =
     min (int (count_list ks k)) (max 0 (limit - c k))"
proof (induction ks arbitrary: c)
  case (Cons x ks)
  from Cons.prems Cons.IH[of "c(x := c x + 1)"] show ?case
    by (auto simp: accepted_def fun_upd_def)
qed (simp add: accepted_def)

section \<open>Packet rate limiting (ratelimit.go)\<close>

definition rateLimit :: int where "rateLimit = 500"
definition rateShardCount :: nat where "rateShardCount = 16"

record rateShard =
  buf0 :: "(RateKey \<times> int) list"
  buf1 :: "(RateKey \<times> int) list"

type_synonym rateShardsArray = "rateShard list"

definition newRateShardsArray :: rateShardsArray where
  "newRateShardsArray = replicate rateShardCount \<lparr> buf0 = [], buf1 = [] \<rparr>"

definition fnv1a :: "bytes \<Rightarrow> u32" where
  "fnv1a bs = foldl (\<lambda>h b. (h XOR ucast b) * 16777619) 2166136261 bs"

definition shard :: "RateKey \<Rightarrow> nat" where
  "shard key = unat (fnv1a (RK_IP key) mod of_nat rateShardCount)"

definition shard_hit :: "RateKey \<Rightarrow> rateShard \<Rightarrow> bool \<times> rateShard" where
  "shard_hit key sh =
     (let b = mput key (mget0 (buf0 sh) key + 1) (buf0 sh)
      in (mget0 b key \<le> rateLimit, sh\<lparr> buf0 := b \<rparr>))"

definition checkRate_key :: "RateKey \<Rightarrow> rateShardsArray \<Rightarrow> bool \<times> rateShardsArray" where
  "checkRate_key key shs =
     (let i = shard key; (ok, sh) = shard_hit key (shs ! i) in (ok, shs[i := sh]))"

definition checkRate :: "UDPAddr \<Rightarrow> rateShardsArray \<Rightarrow> bool \<times> rateShardsArray" where
  "checkRate addr shs = checkRate_key (AddrToRateKey addr) shs"

text \<open>One tick of \<open>rateLimitLoop\<close>: swap the buffers of every shard and clear the stale one.\<close>

definition rate_tick :: "rateShardsArray \<Rightarrow> rateShardsArray" where
  "rate_tick shs = map (\<lambda>sh. \<lparr> buf0 = buf1 sh, buf1 = [] \<rparr>) shs"

definition shards_inv :: "rateShardsArray \<Rightarrow> bool" where
  "shards_inv shs \<longleftrightarrow> length shs = rateShardCount \<and> list_all (\<lambda>sh. buf1 sh = []) shs"

definition rate_count :: "rateShardsArray \<Rightarrow> RateKey \<Rightarrow> int" where
  "rate_count shs key = mget0 (buf0 (shs ! shard key)) key"

lemma shard_less: "shard key < rateShardCount"
proof -
  have "fnv1a (RK_IP key) mod of_nat rateShardCount < (of_nat rateShardCount :: u32)"
    by (rule word_mod_less_divisor) (simp add: rateShardCount_def)
  then show ?thesis
    unfolding shard_def by (simp add: word_less_nat_alt rateShardCount_def)
qed

lemma mget0_mput [simp]: "mget0 (mput k v m) k' = (if k = k' then v else mget0 m k')"
  by (simp add: mget0_def)

interpretation rate: window_counter checkRate_key rate_tick rate_count shards_inv rateLimit
proof
  fix s k assume i: "shards_inv s"
  then have l: "shard j < length s" for j using shard_less[of j] by (simp add: shards_inv_def)
  show "fst (checkRate_key k s) \<longleftrightarrow> rate_count s k < rateLimit"
    by (auto simp: checkRate_key_def shard_hit_def rate_count_def Let_def)
  show "rate_count (snd (checkRate_key k s)) = (rate_count s)(k := rate_count s k + 1)"
    using l by (auto simp: checkRate_key_def shard_hit_def rate_count_def Let_def nth_list_update fun_eq_iff)
  show "shards_inv (snd (checkRate_key k s))"
    using i l by (auto simp: checkRate_key_def shard_hit_def shards_inv_def Let_def list_all_length
        nth_list_update)
  show "rate_count (rate_tick s) = (\<lambda>_. 0)"
    using i l by (auto simp: rate_count_def rate_tick_def shards_inv_def list_all_length mget0_def)
  show "shards_inv (rate_tick s)"
    using i by (auto simp: shards_inv_def rate_tick_def list_all_iff)
qed

section \<open>Token bucket (tokenbucket.go)\<close>

record tokenBucket =
  tokens :: rat
  maxBurst :: rat
  rate :: rat
  lastTime :: int

definition newTokenBucket :: "rat \<Rightarrow> rat \<Rightarrow> int \<Rightarrow> tokenBucket" where
  "newTokenBucket r b now = \<lparr> tokens = b, maxBurst = b, rate = r, lastTime = now \<rparr>"

definition refill :: "int \<Rightarrow> tokenBucket \<Rightarrow> tokenBucket" where
  "refill now b =
     (let elapsed0 = of_int (now - lastTime b) / 1000000000;
          elapsed = (if elapsed0 < 0 then 0 else elapsed0);
          t = tokens b + rate b * elapsed
      in b\<lparr> lastTime := now, tokens := (if maxBurst b < t then maxBurst b else t) \<rparr>)"

definition bucket_Allow :: "int \<Rightarrow> nat \<Rightarrow> tokenBucket \<Rightarrow> bool \<times> tokenBucket" where
  "bucket_Allow now n b0 =
     (let b = refill now b0 in
      if of_nat n \<le> tokens b then (True, b\<lparr> tokens := tokens b - of_nat n \<rparr>) else (False, b))"

definition LastUsed :: "tokenBucket \<Rightarrow> int" where
  "LastUsed b = lastTime b"

section \<open>Bandwidth limiter (bandwidth.go)\<close>

definition defaultBandwidthLimit :: int where
  "defaultBandwidthLimit = 50 * 1024 * 1024 div 8"

definition bandwidthBurst :: int where
  "bandwidthBurst = 512 * 1024"

record BandwidthLimiter =
  BL_limit :: int
  BL_burst :: int
  BL_buckets :: "(RateKey \<times> tokenBucket) list"

definition NewBandwidthLimiter :: "int \<Rightarrow> BandwidthLimiter" where
  "NewBandwidthLimiter lb =
     \<lparr> BL_limit = (if lb \<le> 0 then defaultBandwidthLimit else lb),
       BL_burst = bandwidthBurst, BL_buckets = [] \<rparr>"

text \<open>A nil limiter is None.\<close>

definition BL_Enabled :: "BandwidthLimiter option \<Rightarrow> bool" where
  "BL_Enabled bl \<longleftrightarrow> (case bl of None \<Rightarrow> False | Some b \<Rightarrow> 0 < BL_limit b)"

definition getBucket :: "int \<Rightarrow> UDPAddr \<Rightarrow> BandwidthLimiter \<Rightarrow> tokenBucket \<times> BandwidthLimiter" where
  "getBucket now dest bl =
     (let key = AddrToRateKey dest in
      case mget (BL_buckets bl) key of
        Some b \<Rightarrow> (b, bl)
      | None \<Rightarrow>
          (let b = newTokenBucket (of_int (BL_limit bl)) (of_int (BL_burst bl)) now
           in (b, bl\<lparr> BL_buckets := mput key b (BL_buckets bl) \<rparr>)))"

definition BL_Allow ::
    "int \<Rightarrow> UDPAddr \<Rightarrow> nat \<Rightarrow> BandwidthLimiter option \<Rightarrow> bool \<times> BandwidthLimiter option" where
  "BL_Allow now dest sz bl =
     (if \<not> BL_Enabled bl then (True, bl)
      else
        (let (b, l) = getBucket now dest (the bl);
             (ok, b') = bucket_Allow now sz b
         in (ok, Some (l\<lparr> BL_buckets := mput (AddrToRateKey dest) b' (BL_buckets l) \<rparr>))))"

definition BL_Remove :: "UDPAddr \<Rightarrow> BandwidthLimiter option \<Rightarrow> BandwidthLimiter option" where
  "BL_Remove dest bl =
     (if \<not> BL_Enabled bl then bl
      else map_option (\<lambda>l. l\<lparr> BL_buckets := mdel (AddrToRateKey dest) (BL_buckets l) \<rparr>) bl)"

definition BL_Cleanup :: "int \<Rightarrow> int \<Rightarrow> BandwidthLimiter option \<Rightarrow> BandwidthLimiter option" where
  "BL_Cleanup now stale bl =
     (if \<not> BL_Enabled bl then bl
      else
        (let cutoff = now - stale in
         map_option (\<lambda>l. l\<lparr> BL_buckets :=
           filter (\<lambda>(k, b). \<not> LastUsed b < cutoff) (BL_buckets l) \<rparr>) bl))"

definition BL_Count :: "BandwidthLimiter option \<Rightarrow> nat" where
  "BL_Count bl = (if \<not> BL_Enabled bl then 0 else length (BL_buckets (the bl)))"

section \<open>Lemmas on the bucket\<close>

definition bucket_ok :: "tokenBucket \<Rightarrow> bool" where
  "bucket_ok b \<longleftrightarrow> 0 \<le> tokens b \<and> tokens b \<le> maxBurst b \<and> 0 \<le> rate b"

lemma refill_bounds:
  assumes "bucket_ok b" "lastTime b \<le> now"
  shows "bucket_ok (refill now b)" "tokens b \<le> tokens (refill now b)"
    "tokens (refill now b) \<le> tokens b + rate b * (of_int (now - lastTime b) / 1000000000)"
    "lastTime (refill now b) = now" "rate (refill now b) = rate b" "maxBurst (refill now b) = maxBurst b"
proof -
  have "0 \<le> rate b * (of_int (now - lastTime b) / 1000000000)"
    using assms by (simp add: bucket_ok_def)
  then show "bucket_ok (refill now b)" "tokens b \<le> tokens (refill now b)"
    "tokens (refill now b) \<le> tokens b + rate b * (of_int (now - lastTime b) / 1000000000)"
    "lastTime (refill now b) = now" "rate (refill now b) = rate b" "maxBurst (refill now b) = maxBurst b"
    using assms by (auto simp: refill_def Let_def bucket_ok_def)
qed

lemma bucket_Allow_step:
  assumes "bucket_ok b" "lastTime b \<le> now" "bucket_Allow now n b = (ok, b')"
  shows "bucket_ok b'" "lastTime b' = now" "rate b' = rate b" "maxBurst b' = maxBurst b"
    "tokens b' + (if ok then of_nat n else 0) \<le>
       tokens b + rate b * (of_int (now - lastTime b) / 1000000000)"
  using assms refill_bounds[OF assms(1,2)]
  by (auto simp: bucket_Allow_def Let_def bucket_ok_def split: if_splits)

text \<open>A run of requests (time, size) against one bucket: the bytes admitted and the bucket after.\<close>

fun bucket_run :: "(int \<times> nat) list \<Rightarrow> tokenBucket \<Rightarrow> nat \<times> tokenBucket" where
  "bucket_run [] b = (0, b)"
| "bucket_run ((now, n) # rs) b =
     (let (ok, b') = bucket_Allow now n b; (m, b'') = bucket_run rs b'
      in ((if ok then n else 0) + m, b''))"

lemma bucket_run_bound:
  assumes "bucket_ok b" "sorted (lastTime b # map fst rs)" "bucket_run rs b = (m, b')"
  shows "bucket_ok b' \<and> rate b' = rate b \<and> maxBurst b' = maxBurst b \<and> lastTime b \<le> lastTime b' \<and>
    tokens b' + of_nat m \<le> tokens b + rate b * (of_int (lastTime b' - lastTime b) / 1000000000)"
  using assms
proof (induction rs arbitrary: b m b')
  case (Cons r rs)
  obtain now n where r: "r = (now, n)" by (cases r)
  obtain ok b1 where a: "bucket_Allow now n b = (ok, b1)" by (cases "bucket_Allow now n b")
  obtain m1 b2 where t: "bucket_run rs b1 = (m1, b2)" by (cases "bucket_run rs b1")
  have le: "lastTime b \<le> now" using Cons.prems(2) by (simp add: r)
  note s = bucket_Allow_step[OF Cons.prems(1) le a]
  have "sorted (lastTime b1 # map fst rs)" using Cons.prems(2) by (simp add: s r)
  note ih = Cons.IH[OF s(1) this t]
  have "rate b * (of_int (now - lastTime b) / 1000000000) + rate b * (of_int (lastTime b2 - now) / 1000000000)
      = rate b * (of_int (lastTime b2 - lastTime b) / 1000000000)"
    by (simp add: field_simps)
  with ih s le Cons.prems(3) a t show ?case by (auto simp: r split: if_splits)
qed auto

lemma bucket_run_lastTime:
  "bucket_run rs b = (m, b') \<Longrightarrow> lastTime b' = (if rs = [] then lastTime b else fst (last rs))"
proof (induction rs b arbitrary: m rule: bucket_run.induct)
  case (2 now n rs b)
  then show ?case
    by (auto simp: bucket_Allow_def refill_def Let_def split: prod.splits if_splits)
qed simp

section \<open>Runs of the limiter\<close>

text \<open>The bytes a run of requests (time, destination, size) admits towards one key.\<close>

fun bl_admitted :: "RateKey \<Rightarrow> (int \<times> UDPAddr \<times> nat) list \<Rightarrow> BandwidthLimiter option \<Rightarrow> nat" where
  "bl_admitted k [] bl = 0"
| "bl_admitted k ((now, dest, n) # rs) bl =
     (let (ok, bl') = BL_Allow now dest n bl
      in (if ok \<and> AddrToRateKey dest = k then n else 0) + bl_admitted k rs bl')"

definition requests_for :: "RateKey \<Rightarrow> (int \<times> UDPAddr \<times> nat) list \<Rightarrow> (int \<times> nat) list" where
  "requests_for k rs = map (\<lambda>(t, d, n). (t, n)) (filter (\<lambda>(t, d, n). AddrToRateKey d = k) rs)"

text \<open>
  Only the bucket of the destination changes, and a new bucket is full: the run on one key is
  the run of that key's requests on its own bucket.
\<close>

lemma BL_Allow_buckets:
  assumes "0 < BL_limit bl" "BL_Allow now dest n (Some bl) = (ok, bl')"
  obtains l b where "bl' = Some l" "BL_limit l = BL_limit bl" "BL_burst l = BL_burst bl"
    "(ok, b) = bucket_Allow now n
       (case mget (BL_buckets bl) (AddrToRateKey dest) of Some b \<Rightarrow> b
        | None \<Rightarrow> newTokenBucket (of_int (BL_limit bl)) (of_int (BL_burst bl)) now)"
    "\<And>k. mget (BL_buckets l) k =
       (if AddrToRateKey dest = k then Some b else mget (BL_buckets bl) k)"
  using assms
  by (auto simp: BL_Allow_def BL_Enabled_def getBucket_def Let_def split: option.splits prod.splits)

lemma bl_admitted_bucket:
  assumes "0 < BL_limit bl" "mget (BL_buckets bl) k = Some b"
  shows "bl_admitted k rs (Some bl) = fst (bucket_run (requests_for k rs) b)"
  using assms
proof (induction rs arbitrary: bl b)
  case (Cons r rs)
  obtain now dest n where r: "r = (now, dest, n)" by (cases r)
  obtain ok bl' where a: "BL_Allow now dest n (Some bl) = (ok, bl')" by (cases "BL_Allow now dest n (Some bl)")
  from BL_Allow_buckets[OF Cons.prems(1) a] obtain l b' where
    l: "bl' = Some l" "BL_limit l = BL_limit bl"
    and b': "(ok, b') = bucket_Allow now n (case mget (BL_buckets bl) (AddrToRateKey dest) of Some b \<Rightarrow> b
        | None \<Rightarrow> newTokenBucket (of_int (BL_limit bl)) (of_int (BL_burst bl)) now)"
    and m: "\<And>k. mget (BL_buckets l) k = (if AddrToRateKey dest = k then Some b' else mget (BL_buckets bl) k)"
    by metis
  have "bl_admitted k rs (Some l) =
      fst (bucket_run (requests_for k rs) (if AddrToRateKey dest = k then b' else b))"
    using Cons.prems m[of k] l by (intro Cons.IH) auto
  with a l b' Cons.prems show ?case
    by (auto simp: r requests_for_def split: prod.splits)
qed (simp add: requests_for_def)

lemma bl_admitted_new:
  assumes "0 < BL_limit bl" "mget (BL_buckets bl) k = None"
  shows "bl_admitted k rs (Some bl) =
    (case requests_for k rs of [] \<Rightarrow> 0
     | (t, n) # qs \<Rightarrow> fst (bucket_run ((t, n) # qs)
         (newTokenBucket (of_int (BL_limit bl)) (of_int (BL_burst bl)) t)))"
  using assms
proof (induction rs arbitrary: bl)
  case (Cons r rs)
  obtain now dest n where r: "r = (now, dest, n)" by (cases r)
  obtain ok bl' where a: "BL_Allow now dest n (Some bl) = (ok, bl')" by (cases "BL_Allow now dest n (Some bl)")
  from BL_Allow_buckets[OF Cons.prems(1) a] obtain l b' where
    l: "bl' = Some l" "BL_limit l = BL_limit bl" "BL_burst l = BL_burst bl"
    and b': "(ok, b') = bucket_Allow now n (case mget (BL_buckets bl) (AddrToRateKey dest) of Some b \<Rightarrow> b
        | None \<Rightarrow> newTokenBucket (of_int (BL_limit bl)) (of_int (BL_burst bl)) now)"
    and m: "\<And>k. mget (BL_buckets l) k = (if AddrToRateKey dest = k then Some b' else mget (BL_buckets bl) k)"
    by metis
  show ?case
  proof (cases "AddrToRateKey dest = k")
    case True
    then have "bl_admitted k rs (Some l) = fst (bucket_run (requests_for k rs) b')"
      using Cons.prems(1) m[of k] l by (intro bl_admitted_bucket) auto
    with True a l b' Cons.prems(2) show ?thesis
      by (auto simp: r requests_for_def split: prod.splits)
  next
    case False
    with Cons.prems m[of k] l have "0 < BL_limit l" "mget (BL_buckets l) k = None" by simp_all
    from Cons.IH[OF this] False a l show ?thesis
      by (simp add: r requests_for_def flip: l(2,3) split: list.split)
  qed
qed (simp add: requests_for_def)

section \<open>Properties\<close>

text \<open>
  C20: The sharded, double-buffered packet limiter is the simple one: over any sequence of
  packets and one-second ticks, starting from the new array, it accepts a packet
  exactly when fewer than 500 packets from that address came since the last tick,
  whichever shards the addresses hash to; so of the packets of a window the first
  500 of each address are accepted.
\<close>

theorem checkRate_refines_window_spec:
  "run_window checkRate_key rate_tick es newRateShardsArray = spec_window rateLimit es (\<lambda>_. 0) \<and>
   accepted k ks (run_window checkRate_key rate_tick (map Hit ks) newRateShardsArray) =
     min (count_list ks k) 500"
proof -
  have i: "shards_inv newRateShardsArray" and c: "rate_count newRateShardsArray = (\<lambda>_. 0)"
    using shard_less
    by (auto simp: shards_inv_def newRateShardsArray_def list_all_iff rate_count_def mget0_def)
  note r = rate.run_refines_spec[OF i, unfolded c]
  have "int (accepted k ks (spec_window rateLimit (map Hit ks) (\<lambda>_. 0))) = min (int (count_list ks k)) 500"
    using spec_window_accepted[of "\<lambda>_. 0" k ks rateLimit] by (simp add: rateLimit_def)
  then show ?thesis using r by (simp add: nat_int_comparison(1))
qed

text \<open>
  C21: The bandwidth limiter bounds what one destination receives: over any interleaving of
  requests to any destinations at non-decreasing times between \<open>t0\<close> and \<open>t1\<close>, the bytes
  admitted to a destination without a bucket are at most the burst of 512 KiB
  plus the limit times the elapsed seconds, whatever the other destinations do.
\<close>

theorem bandwidth_per_destination:
  assumes "0 < BL_limit bl" "0 \<le> BL_burst bl" "mget (BL_buckets bl) k = None"
    and "sorted (map fst rs)" "list_all (\<lambda>r. t0 \<le> fst r \<and> fst r \<le> t1) rs" "t0 \<le> t1"
  shows "of_nat (bl_admitted k rs (Some bl)) \<le>
    (of_int (BL_burst bl) + of_int (BL_limit bl) * (of_int (t1 - t0) / 1000000000) :: rat)"
proof (cases "requests_for k rs")
  case Nil
  then show ?thesis using assms bl_admitted_new[OF assms(1,3), of rs] by simp
next
  case (Cons q qs)
  obtain t n where q: "q = (t, n)" by (cases q)
  let ?b = "newTokenBucket (of_int (BL_limit bl)) (of_int (BL_burst bl)) t"
  obtain m b' where run: "bucket_run (q # qs) ?b = (m, b')" by (cases "bucket_run (q # qs) ?b")
  have m: "map fst (requests_for k rs) = map fst (filter (\<lambda>(t, d, n). AddrToRateKey d = k) rs)"
    by (auto simp: requests_for_def)
  have srt: "sorted (map fst (q # qs))"
    using sorted_filter[OF assms(4)] by (simp add: m flip: Cons)
  have "set (map fst (q # qs)) \<subseteq> set (map fst rs)" by (auto simp: m simp flip: Cons)
  then have rng: "\<forall>x \<in> set (map fst (q # qs)). t0 \<le> x \<and> x \<le> t1"
    using assms(5) by (fastforce simp: list_all_iff)
  have "bucket_ok ?b" using assms by (simp add: bucket_ok_def newTokenBucket_def)
  moreover have "sorted (lastTime ?b # map fst (q # qs))"
    using srt by (auto simp: newTokenBucket_def q)
  ultimately have bnd: "tokens b' + of_nat m \<le>
      of_int (BL_burst bl) + of_int (BL_limit bl) * (of_int (lastTime b' - t) / 1000000000)"
      and ok: "0 \<le> tokens b'"
    using bucket_run_bound[OF _ _ run] by (auto simp: newTokenBucket_def bucket_ok_def)
  have "lastTime b' \<in> set (map fst (q # qs))"
    using bucket_run_lastTime[OF run] by (metis last_in_set last_map list.discI list.set_map image_eqI)
  then have "lastTime b' - t \<le> t1 - t0" using rng by (auto simp: q)
  then have "of_int (BL_limit bl) * (of_int (lastTime b' - t) / 1000000000) \<le>
      (of_int (BL_limit bl) * (of_int (t1 - t0) / 1000000000) :: rat)"
    using assms(1) by (intro mult_left_mono divide_right_mono) (simp_all del: of_int_diff)
  then show ?thesis
    using bnd ok run bl_admitted_new[OF assms(1,3), of rs] by (simp add: Cons q)
qed

theorem bandwidth_per_destination_witness:
  "of_nat (bl_admitted \<lparr> RK_IP = IPKey4 [1, 2, 3, 4], RK_Port = 7 \<rparr>
      [(0, \<lparr> UDP_IP = [1, 2, 3, 4], UDP_Port = 7 \<rparr>, 1400), (9, \<lparr> UDP_IP = [1, 2, 3, 5], UDP_Port = 7 \<rparr>, 900)]
      (Some (NewBandwidthLimiter 1000))) \<le>
   (of_int (512 * 1024) + 1000 * (of_int (9 - 0) / 1000000000) :: rat)"
  using bandwidth_per_destination[of "NewBandwidthLimiter 1000"
      "\<lparr> RK_IP = IPKey4 [1, 2, 3, 4], RK_Port = 7 \<rparr>"
      "[(0, \<lparr> UDP_IP = [1, 2, 3, 4], UDP_Port = 7 \<rparr>, 1400), (9, \<lparr> UDP_IP = [1, 2, 3, 5], UDP_Port = 7 \<rparr>, 900)]"
      0 9]
  by (simp add: NewBandwidthLimiter_def bandwidthBurst_def)

end
