(* ===== verification/SendQueue.thy ===== *)
theory SendQueue
  imports RateLimit
begin

text \<open>
  The outbound queue of server/sendqueue.go.  A Go channel is a list with a capacity; the
  select of \<open>run\<close> is the step relation \<open>run_step\<close>, one rule per ready case, each a whole
  pass of the loop.  A blocking high-priority send is modelled at the moment it ends: it
  has found room, or its 50 ms have passed with the channel full.  What the process hands
  to the network (through the UDP socket or, for a bridged client, the TCP connection)
  is the list \<open>SQ_out\<close>, oldest first.
\<close>

section \<open>State\<close>

datatype sendPriority = priorityLow | priorityHigh

record sendEntry =
  SE_data :: bytes
  SE_addr :: UDPAddr
  SE_priority :: sendPriority

definition batchBufSize :: nat where "batchBufSize = 64"
definition broadcastChSize :: nat where "broadcastChSize = 4096"

datatype route = ViaTCP | ViaUDP

type_synonym written = "route \<times> bytes \<times> UDPAddr"

record sendQueue =
  SQ_ch :: "sendEntry list"
  SQ_broadcastCh :: "sendEntry list"
  SQ_maxSize :: nat
  SQ_tcpWrite :: "(UDPAddr \<Rightarrow> bytes \<Rightarrow> bool) option"
  SQ_stopCh :: bool
  SQ_drained :: bool
  SQ_out :: "written list"

definition newSendQueue :: "nat \<Rightarrow> (UDPAddr \<Rightarrow> bytes \<Rightarrow> bool) option \<Rightarrow> sendQueue" where
  "newSendQueue maxSize tcpWrite =
     \<lparr> SQ_ch = [], SQ_broadcastCh = [], SQ_maxSize = maxSize, SQ_tcpWrite = tcpWrite,
       SQ_stopCh = False, SQ_drained = False, SQ_out = [] \<rparr>"

section \<open>Operations\<close>

definition writeUDP :: "bytes \<Rightarrow> UDPAddr \<Rightarrow> sendQueue \<Rightarrow> sendQueue" where
  "writeUDP data addr sq =
     (let via = (case SQ_tcpWrite sq of None \<Rightarrow> ViaUDP
                 | Some w \<Rightarrow> if w addr data then ViaTCP else ViaUDP)
      in sq\<lparr> SQ_out := SQ_out sq @ [(via, data, addr)] \<rparr>)"

definition write_entry :: "sendEntry \<Rightarrow> sendQueue \<Rightarrow> sendQueue" where
  "write_entry e sq = writeUDP (SE_data e) (SE_addr e) sq"

definition write_all :: "sendEntry list \<Rightarrow> sendQueue \<Rightarrow> sendQueue" where
  "write_all es sq = fold write_entry es sq"

definition sq_send :: "bytes \<Rightarrow> UDPAddr \<Rightarrow> sendPriority \<Rightarrow> sendQueue \<Rightarrow> bool \<times> sendQueue" where
  "sq_send data addr prio sq =
     (let e = \<lparr> SE_data = data, SE_addr = addr, SE_priority = prio \<rparr> in
      if length (SQ_ch sq) < SQ_maxSize sq then (True, sq\<lparr> SQ_ch := SQ_ch sq @ [e] \<rparr>)
      else (False, sq))"

definition sendBroadcast :: "bytes \<Rightarrow> UDPAddr \<Rightarrow> sendQueue \<Rightarrow> bool \<times> sendQueue" where
  "sendBroadcast data addr sq =
     (let e = \<lparr> SE_data = data, SE_addr = addr, SE_priority = priorityLow \<rparr> in
      if length (SQ_broadcastCh sq) < broadcastChSize
      then (True, sq\<lparr> SQ_broadcastCh := SQ_broadcastCh sq @ [e] \<rparr>)
      else (True, writeUDP data addr sq))"

subsection \<open>The loop of run\<close>

definition run_broadcast :: "sendQueue \<Rightarrow> sendQueue" where
  "run_broadcast sq =
     (case SQ_broadcastCh sq of [] \<Rightarrow> sq
      | e # es \<Rightarrow>
          write_all (take batchBufSize es)
            (write_entry e (sq\<lparr> SQ_broadcastCh := drop batchBufSize es \<rparr>)))"

text \<open>
  \<open>DrainHigh\<close>: \<open>n\<close> high-priority packets are batched, \<open>d\<close> low-priority ones deferred; gives
  the low packets written at once, the batch, the deferred packets and the rest of the
  channel.
\<close>

fun drain_high :: "nat \<Rightarrow> nat \<Rightarrow> sendEntry list \<Rightarrow>
    sendEntry list \<times> sendEntry list \<times> sendEntry list \<times> sendEntry list" where
  "drain_high n d [] = ([], [], [], [])"
| "drain_high n d (e # es) =
     (if n < batchBufSize then
        (if SE_priority e \<noteq> priorityHigh then
           (if d < batchBufSize then
              (let (now, batch, low, rest) = drain_high n (d + 1) es in (now, batch, e # low, rest))
            else
              (let (now, batch, low, rest) = drain_high n d es in (e # now, batch, low, rest)))
         else
           (let (now, batch, low, rest) = drain_high (n + 1) d es in (now, e # batch, low, rest)))
      else ([], [], [], e # es))"

fun drain_low :: "nat \<Rightarrow> sendEntry list \<Rightarrow> sendEntry list \<times> sendEntry list \<times> sendEntry list" where
  "drain_low n [] = ([], [], [])"
| "drain_low n (e # es) =
     (if n < batchBufSize then
        (if SE_priority e \<noteq> priorityLow then
           (let (now, batch, rest) = drain_low n es in (e # now, batch, rest))
         else
           (let (now, batch, rest) = drain_low (n + 1) es in (now, e # batch, rest)))
      else ([], [], e # es))"

definition run_main :: "sendQueue \<Rightarrow> sendQueue" where
  "run_main sq =
     (case SQ_ch sq of [] \<Rightarrow> sq
      | e # es \<Rightarrow>
          if SE_priority e = priorityHigh then
            (let (now, batch, low, rest) = drain_high 0 0 es in
             write_all low (write_all batch (write_all now (write_entry e (sq\<lparr> SQ_ch := rest \<rparr>)))))
          else
            (let (now, batch, rest) = drain_low 1 es in
             write_all (e # batch) (write_all now (sq\<lparr> SQ_ch := rest \<rparr>))))"

definition drainMain :: "sendQueue \<Rightarrow> sendQueue" where
  "drainMain sq = write_all (SQ_ch sq) (sq\<lparr> SQ_ch := [] \<rparr>)"

definition drainBroadcast :: "sendQueue \<Rightarrow> sendQueue" where
  "drainBroadcast sq = write_all (SQ_broadcastCh sq) (sq\<lparr> SQ_broadcastCh := [] \<rparr>)"

definition drain :: "sendQueue \<Rightarrow> sendQueue" where
  "drain sq = drainBroadcast (drainMain sq)"

definition pending :: "sendQueue \<Rightarrow> nat" where
  "pending sq = length (SQ_ch sq) + length (SQ_broadcastCh sq)"

definition sq_Stop :: "sendQueue \<Rightarrow> sendQueue" where
  "sq_Stop sq = sq\<lparr> SQ_stopCh := True \<rparr>"

text \<open>
  One pass of \<open>run\<close>: any ready case may be taken.  Cancelling the context and closing the
  stop channel both end in \<open>drain\<close>, after which the drained channel is closed.
\<close>

inductive run_step :: "sendQueue \<Rightarrow> sendQueue \<Rightarrow> bool" where
  broadcast: "\<not> SQ_drained sq \<Longrightarrow> SQ_broadcastCh sq \<noteq> [] \<Longrightarrow> run_step sq (run_broadcast sq)"
| main: "\<not> SQ_drained sq \<Longrightarrow> SQ_ch sq \<noteq> [] \<Longrightarrow> run_step sq (run_main sq)"
| stop: "\<not> SQ_drained sq \<Longrightarrow> run_step sq ((drain sq)\<lparr> SQ_drained := True \<rparr>)"

inductive_cases run_stepE: "run_step sq sq'"

section \<open>Rate-limited queue\<close>

record rateLimitedQueue =
  RLQ_sq :: sendQueue
  RLQ_limiter :: "BandwidthLimiter option"

definition newRateLimitedQueue ::
    "BandwidthLimiter option \<Rightarrow> (UDPAddr \<Rightarrow> bytes \<Rightarrow> bool) option \<Rightarrow> rateLimitedQueue" where
  "newRateLimitedQueue limiter tcpWrite =
     \<lparr> RLQ_sq = newSendQueue 8192 tcpWrite, RLQ_limiter = limiter \<rparr>"

definition rlq_send ::
    "int \<Rightarrow> bytes \<Rightarrow> UDPAddr \<Rightarrow> sendPriority \<Rightarrow> rateLimitedQueue \<Rightarrow> bool \<times> rateLimitedQueue" where
  "rlq_send now data addr prio q =
     (if prio = priorityHigh \<or> RLQ_limiter q = None then
        (let (ok, sq) = sq_send data addr prio (RLQ_sq q) in (ok, q\<lparr> RLQ_sq := sq \<rparr>))
      else
        (let (allowed, l) = BL_Allow now addr (length data) (RLQ_limiter q) in
         if allowed then
           (let (ok, sq) = sq_send data addr prio (RLQ_sq q)
            in (ok, q\<lparr> RLQ_sq := sq, RLQ_limiter := l \<rparr>))
         else (False, q\<lparr> RLQ_limiter := l \<rparr>)))"

definition sendBypass :: "bytes \<Rightarrow> UDPAddr \<Rightarrow> rateLimitedQueue \<Rightarrow> bool \<times> rateLimitedQueue" where
  "sendBypass data addr q =
     (let (ok, sq) = sendBroadcast data addr (RLQ_sq q) in (ok, q\<lparr> RLQ_sq := sq \<rparr>))"

section \<open>Conservation\<close>

type_synonym packet = "bytes \<times> UDPAddr"

definition pkt :: "sendEntry \<Rightarrow> packet" where
  "pkt e = (SE_data e, SE_addr e)"

definition written_pkts :: "sendQueue \<Rightarrow> packet list" where
  "written_pkts sq = map snd (SQ_out sq)"

definition queued_pkts :: "sendQueue \<Rightarrow> packet multiset" where
  "queued_pkts sq = mset (map pkt (SQ_ch sq)) + mset (map pkt (SQ_broadcastCh sq))"

lemma write_entry_simps [simp]:
  "SQ_ch (write_entry e sq) = SQ_ch sq" "SQ_broadcastCh (write_entry e sq) = SQ_broadcastCh sq"
  "SQ_drained (write_entry e sq) = SQ_drained sq" "SQ_maxSize (write_entry e sq) = SQ_maxSize sq"
  "written_pkts (write_entry e sq) = written_pkts sq @ [pkt e]"
  by (simp_all add: write_entry_def writeUDP_def written_pkts_def pkt_def Let_def)

lemma write_all_simps [simp]:
  "SQ_ch (write_all es sq) = SQ_ch sq" "SQ_broadcastCh (write_all es sq) = SQ_broadcastCh sq"
  "SQ_drained (write_all es sq) = SQ_drained sq" "SQ_maxSize (write_all es sq) = SQ_maxSize sq"
  "written_pkts (write_all es sq) = written_pkts sq @ map pkt es"
  by (induction es arbitrary: sq) (simp_all add: write_all_def)

lemma written_update [simp]:
  "written_pkts (sq\<lparr> SQ_ch := xs \<rparr>) = written_pkts sq"
  "written_pkts (sq\<lparr> SQ_broadcastCh := xs \<rparr>) = written_pkts sq"
  "written_pkts (sq\<lparr> SQ_drained := b \<rparr>) = written_pkts sq"
  "written_pkts (sq\<lparr> SQ_stopCh := b \<rparr>) = written_pkts sq"
  by (simp_all add: written_pkts_def)

text \<open>The passes split the channel: nothing is lost, and high-priority packets keep their order.\<close>

lemma drain_high_split:
  "drain_high n d es = (now, batch, low, rest) \<Longrightarrow>
   mset es = mset now + mset batch + mset low + mset rest \<and>
   list_all (\<lambda>e. SE_priority e = priorityHigh) batch \<and>
   list_all (\<lambda>e. SE_priority e = priorityLow) now \<and>
   list_all (\<lambda>e. SE_priority e = priorityLow) low \<and>
   filter (\<lambda>e. SE_priority e = priorityHigh) es =
     batch @ filter (\<lambda>e. SE_priority e = priorityHigh) rest"
proof (induction n d es arbitrary: now batch low rest rule: drain_high.induct)
  case (2 n d e es)
  then show ?case
    by (auto split: if_splits prod.splits) (metis sendPriority.exhaust)+
qed simp

lemma drain_low_split:
  "drain_low n es = (now, batch, rest) \<Longrightarrow>
   mset es = mset now + mset batch + mset rest \<and>
   list_all (\<lambda>e. SE_priority e = priorityHigh) now \<and>
   list_all (\<lambda>e. SE_priority e = priorityLow) batch \<and>
   filter (\<lambda>e. SE_priority e = priorityHigh) es = now @ filter (\<lambda>e. SE_priority e = priorityHigh) rest \<and>
   filter (\<lambda>e. SE_priority e = priorityLow) es = batch @ filter (\<lambda>e. SE_priority e = priorityLow) rest"
proof (induction n es arbitrary: now batch rest rule: drain_low.induct)
  case (2 n e es)
  then show ?case
    by (auto split: if_splits prod.splits) (metis sendPriority.exhaust)+
qed simp

lemma run_broadcast_conserves:
  "queued_pkts (run_broadcast sq) + mset (written_pkts (run_broadcast sq)) =
   queued_pkts sq + mset (written_pkts sq)"
proof (cases "SQ_broadcastCh sq")
  case (Cons e es)
  have "mset (map pkt es) = mset (map pkt (take batchBufSize es)) + mset (map pkt (drop batchBufSize es))"
    by (metis append_take_drop_id map_append mset_append)
  with Cons show ?thesis by (simp add: run_broadcast_def queued_pkts_def)
qed (simp add: run_broadcast_def)

lemma run_main_conserves:
  "queued_pkts (run_main sq) + mset (written_pkts (run_main sq)) =
   queued_pkts sq + mset (written_pkts sq)"
proof (cases "SQ_ch sq")
  case (Cons e es)
  show ?thesis
  proof (cases "SE_priority e = priorityHigh")
    case True
    obtain now batch low rest where d: "drain_high 0 0 es = (now, batch, low, rest)"
      by (cases "drain_high 0 0 es")
    then have "mset es = mset now + mset batch + mset low + mset rest"
      using drain_high_split by blast
    with Cons True d show ?thesis by (simp add: run_main_def queued_pkts_def ac_simps)
  next
    case False
    obtain now batch rest where d: "drain_low 1 es = (now, batch, rest)"
      by (cases "drain_low 1 es")
    then have "mset es = mset now + mset batch + mset rest"
      using drain_low_split by blast
    with Cons False d show ?thesis by (simp add: run_main_def queued_pkts_def ac_simps)
  qed
qed (simp add: run_main_def)

lemma drain_props:
  "SQ_ch (drain sq) = []" "SQ_broadcastCh (drain sq) = []"
  "written_pkts (drain sq) = written_pkts sq @ map pkt (SQ_ch sq) @ map pkt (SQ_broadcastCh sq)"
  by (simp_all add: drain_def drainMain_def drainBroadcast_def)

lemma written_grows:
  "\<exists>ws. written_pkts (run_broadcast sq) = written_pkts sq @ ws"
  "\<exists>ws. written_pkts (run_main sq) = written_pkts sq @ ws"
  by (auto simp: run_broadcast_def run_main_def Let_def split: list.split prod.split)

section \<open>The interface of a conserving queue\<close>

text \<open>
  A worker that moves packets from a queue to the wire: no step loses, duplicates or
  recalls a packet, and flushing empties the queue.
\<close>

locale conserving_worker =
  fixes step :: "'q \<Rightarrow> 'q \<Rightarrow> bool"
    and flush :: "'q \<Rightarrow> 'q"
    and waiting :: "'q \<Rightarrow> 'p multiset"
    and sent :: "'q \<Rightarrow> 'p list"
  assumes step_conserves: "step q q' \<Longrightarrow> waiting q' + mset (sent q') = waiting q + mset (sent q)"
    and step_appends: "step q q' \<Longrightarrow> \<exists>ws. sent q' = sent q @ ws"
    and flush_conserves: "waiting (flush q) + mset (sent (flush q)) = waiting q + mset (sent q)"
    and flush_empties: "waiting (flush q) = {#}"
    and flush_appends: "\<exists>ws. sent (flush q) = sent q @ ws"
begin

lemma steps_conserve: "step\<^sup>*\<^sup>* q q' \<Longrightarrow> waiting q' + mset (sent q') = waiting q + mset (sent q)"
  by (induction rule: rtranclp_induct) (auto simp: step_conserves)

lemma steps_append: "step\<^sup>*\<^sup>* q q' \<Longrightarrow> \<exists>ws. sent q' = sent q @ ws"
  by (induction rule: rtranclp_induct) (auto dest: step_appends)

lemma sent_exactly_once:
  assumes "step\<^sup>*\<^sup>* q q'"
  shows "\<exists>ws. sent (flush q') = sent q @ ws \<and> mset ws = waiting q"
proof -
  from steps_append[OF assms] flush_appends[of q'] obtain ws where
    ws: "sent (flush q') = sent q @ ws" by fastforce
  have "mset (sent (flush q')) = waiting q + mset (sent q)"
    using flush_conserves[of q'] flush_empties[of q'] steps_conserve[OF assms] by simp
  with ws show ?thesis by auto
qed

end

interpretation sq: conserving_worker run_step drain queued_pkts written_pkts
proof
  fix q q' assume "run_step q q'"
  then show "queued_pkts q' + mset (written_pkts q') = queued_pkts q + mset (written_pkts q)"
    by (elim run_stepE)
       (simp_all add: run_broadcast_conserves run_main_conserves queued_pkts_def[of "_\<lparr> SQ_drained := _ \<rparr>"]
          queued_pkts_def[of q] drain_props)
next
  fix q q' assume "run_step q q'"
  then show "\<exists>ws. written_pkts q' = written_pkts q @ ws"
    by (elim run_stepE) (auto simp: drain_props intro: written_grows)
qed (simp_all add: queued_pkts_def drain_props)

lemma sq_send_effect:
  "sq_send data addr prio sq =
     (if length (SQ_ch sq) < SQ_maxSize sq
      then (True, sq\<lparr> SQ_ch := SQ_ch sq @ [\<lparr> SE_data = data, SE_addr = addr, SE_priority = prio \<rparr>] \<rparr>)
      else (False, sq))"
  by (simp add: sq_send_def)

section \<open>Properties\<close>

text \<open>
  C14: Nothing that was accepted is lost or sent twice: after any passes of the sending loop
  and the final drain, exactly the packets that were queued have been written, each as
  often as it was queued, after what had been written before; and a drained queue is
  empty.  Accepting a packet adds exactly that packet to the queue.
\<close>

theorem queued_packets_sent_exactly_once:
  assumes "run_step\<^sup>*\<^sup>* q q'"
  shows "\<exists>ws. written_pkts (drain q') = written_pkts q @ ws \<and> mset ws = queued_pkts q \<and>
    pending (drain q') = 0 \<and>
    queued_pkts (snd (sq_send data addr prio q)) =
      queued_pkts q + (if fst (sq_send data addr prio q) then {#(data, addr)#} else {#})"
proof -
  have "queued_pkts (snd (sq_send data addr prio q)) =
      queued_pkts q + (if fst (sq_send data addr prio q) then {#(data, addr)#} else {#})"
    by (simp add: sq_send_effect queued_pkts_def pkt_def)
  with sq.sent_exactly_once[OF assms] show ?thesis by (auto simp: pending_def drain_props)
qed

definition sample_queue :: sendQueue where
  "sample_queue =
     (newSendQueue 8 None)\<lparr> SQ_ch :=
        [\<lparr> SE_data = [1], SE_addr = \<lparr> UDP_IP = [1, 2, 3, 4], UDP_Port = 5 \<rparr>, SE_priority = priorityLow \<rparr>,
         \<lparr> SE_data = [2], SE_addr = \<lparr> UDP_IP = [1, 2, 3, 4], UDP_Port = 5 \<rparr>, SE_priority = priorityHigh \<rparr>] \<rparr>"

theorem queued_packets_sent_exactly_once_witness:
  "\<exists>ws. written_pkts (drain (run_main sample_queue)) = written_pkts sample_queue @ ws \<and>
    mset ws = queued_pkts sample_queue"
proof -
  have "run_step sample_queue (run_main sample_queue)"
    by (rule run_step.main) (simp_all add: sample_queue_def newSendQueue_def)
  then show ?thesis
    using queued_packets_sent_exactly_once[of sample_queue "run_main sample_queue" "[]"
        "\<lparr> UDP_IP = [], UDP_Port = 0 \<rparr>" priorityLow]
    by blast
qed

text \<open>
  Control traffic is sent first and in order: a pass that starts with a high-priority
  packet writes the high-priority packets it takes in the order of the channel, and
  every low-priority packet it takes that fits the deferral buffer of 64 comes after all of
  them; a pass that starts with a low-priority packet writes the high-priority
  packets it meets before the low-priority batch.
\<close>

theorem run_main_priority:
  assumes "SQ_ch sq = e # es"
  shows "\<exists>ovf high low rest.
    SQ_ch (run_main sq) = rest \<and>
    mset (e # es) = mset ovf + mset high + mset low + mset rest \<and>
    list_all (\<lambda>x. SE_priority x = priorityHigh) high \<and>
    list_all (\<lambda>x. SE_priority x = priorityLow) (ovf @ low) \<and>
    filter (\<lambda>x. SE_priority x = priorityHigh) (e # es) =
      high @ filter (\<lambda>x. SE_priority x = priorityHigh) rest \<and>
    (if SE_priority e = priorityHigh
     then written_pkts (run_main sq) =
       written_pkts sq @ map pkt [hd high] @ map pkt ovf @ map pkt (tl high) @ map pkt low
     else ovf = [] \<and> written_pkts (run_main sq) = written_pkts sq @ map pkt high @ map pkt low)"
proof (cases "SE_priority e = priorityHigh")
  case True
  obtain now batch low rest where d: "drain_high 0 0 es = (now, batch, low, rest)"
    by (cases "drain_high 0 0 es")
  with True assms drain_high_split[OF d] show ?thesis
    by (intro exI[of _ now] exI[of _ "e # batch"] exI[of _ low] exI[of _ rest])
       (simp add: run_main_def)
next
  case False
  obtain now batch rest where d: "drain_low 1 es = (now, batch, rest)"
    by (cases "drain_low 1 es")
  have "SE_priority e = priorityLow" using False by (cases "SE_priority e") auto
  with False assms drain_low_split[OF d] d show ?thesis
    by (intro exI[of _ "[]"] exI[of _ now] exI[of _ "e # batch"] exI[of _ rest])
       (simp add: run_main_def)
qed

theorem run_main_priority_witness:
  "written_pkts (run_main sample_queue) = written_pkts sample_queue @
     [([2], \<lparr> UDP_IP = [1, 2, 3, 4], UDP_Port = 5 \<rparr>), ([1], \<lparr> UDP_IP = [1, 2, 3, 4], UDP_Port = 5 \<rparr>)]"
proof -
  let ?a = "\<lparr> UDP_IP = [1, 2, 3, 4], UDP_Port = 5 \<rparr>"
  have "SQ_ch sample_queue =
      \<lparr> SE_data = [1], SE_addr = ?a, SE_priority = priorityLow \<rparr> #
      [\<lparr> SE_data = [2], SE_addr = ?a, SE_priority = priorityHigh \<rparr>]"
    by (simp add: sample_queue_def)
  from run_main_priority[OF this] show ?thesis
    by (simp add: sample_queue_def run_main_def batchBufSize_def pkt_def)
qed

end
