(* ===== verification/IPPool.thy ===== *)
theory IPPool
  imports GoNet
begin

text \<open>
  The virtual-address allocator of a room (markIPUsed, markIPFree and nextAvailableIP of
  server/room.go): four 64-bit words, one bit per last octet.  The locale \<open>allocator\<close>
  states what the room relies on, and the bitmap is its instance.
\<close>

declare upt_rec_numeral [simp del]

section \<open>The bitmap\<close>

type_synonym bitmap = "u64 list"

definition bm_mark :: "byte \<Rightarrow> bitmap \<Rightarrow> bitmap" where
  "bm_mark octet bm =
     (let i = unat octet div 64
      in bm[i := (bm ! i) OR push_bit (unat octet mod 64) 1])"

definition bm_clear :: "byte \<Rightarrow> bitmap \<Rightarrow> bitmap" where
  "bm_clear octet bm =
     (let i = unat octet div 64
      in bm[i := (bm ! i) AND NOT (push_bit (unat octet mod 64) 1)])"

definition TrailingZeros64 :: "u64 \<Rightarrow> nat" where
  "TrailingZeros64 x = length (takeWhile (\<lambda>n. \<not> bit x n) [0..<64])"

lemma and_pred_less: "(x :: u64) \<noteq> 0 \<Longrightarrow> unat (x AND (x - 1)) < unat x"
proof -
  assume "x \<noteq> 0"
  then have "unat (x - 1) < unat x" by (simp add: unat_minus_one unat_gt_0)
  moreover have "unat (x AND (x - 1)) \<le> unat (x - 1)"
    using word_and_le1[of x "x - 1"] by (simp add: word_le_nat_alt)
  ultimately show ?thesis by simp
qed

text \<open>The inner loop over the free bits of word \<open>i\<close>, lowest first.\<close>

function free_scan :: "nat \<Rightarrow> u64 \<Rightarrow> nat option" where
  "free_scan i free =
     (if free = 0 then None
      else
        (let octet = i * 64 + TrailingZeros64 free in
         if 2 \<le> octet \<and> octet < 255 then Some octet
         else free_scan i (free AND (free - 1))))"
  by auto
termination
  by (relation "measure (\<lambda>(i, free). unat free)") (auto simp: and_pred_less)

fun bm_next_from :: "nat \<Rightarrow> u64 list \<Rightarrow> nat option" where
  "bm_next_from i [] = None"
| "bm_next_from i (w # ws) =
     (if w = NOT 0 then bm_next_from (i + 1) ws
      else case free_scan i (NOT w) of Some o' \<Rightarrow> Some o' | None \<Rightarrow> bm_next_from (i + 1) ws)"

definition bm_next :: "bitmap \<Rightarrow> nat option" where
  "bm_next bm = bm_next_from 0 bm"

definition bm_used :: "bitmap \<Rightarrow> nat \<Rightarrow> bool" where
  "bm_used bm n \<longleftrightarrow> bit (bm ! (n div 64)) (n mod 64)"

section \<open>Bit lemmas\<close>

lemma clear_lowest:
  fixes x :: u64
  assumes "bit x k" "\<And>j. j < k \<Longrightarrow> \<not> bit x j"
  shows "x AND (x - 1) = unset_bit k x"
proof -
  define a where "a = unset_bit k x"
  have d1: "a AND push_bit k 1 = 0"
    by (rule bit_word_eqI) (auto simp: a_def bit_simps)
  have d2: "a AND mask k = 0"
    by (rule bit_word_eqI) (use assms in \<open>auto simp: a_def bit_simps\<close>)
  have x: "x = a OR push_bit k 1"
    by (rule bit_word_eqI) (use assms in \<open>auto simp: a_def bit_simps\<close>)
  also have "\<dots> = a + push_bit k 1" using d1 by (simp add: disjunctive_add_eq_or)
  finally have "x - 1 = a + mask k" by (simp add: mask_eq_exp_minus_1)
  also have "\<dots> = a OR mask k" using d2 by (simp add: disjunctive_add_eq_or)
  finally have y: "x - 1 = a OR mask k" .
  have "x AND (x - 1) = a"
    unfolding y by (subst x, rule bit_word_eqI) (use assms in \<open>auto simp: a_def bit_simps\<close>)
  then show ?thesis by (simp add: a_def)
qed

definition set_bits_of :: "u64 \<Rightarrow> nat list" where
  "set_bits_of x = filter (bit x) [0..<64]"

lemma TrailingZeros64_props:
  assumes "x \<noteq> 0"
  shows "TrailingZeros64 x < 64" "bit x (TrailingZeros64 x)"
    "\<And>j. j < TrailingZeros64 x \<Longrightarrow> \<not> bit x j"
proof -
  from assms obtain n where n: "bit x n" by (auto simp: bit_eq_iff)
  then have n64: "n < 64" using bit_imp_le_length[OF n] by simp
  let ?t = "takeWhile (\<lambda>n. \<not> bit x n) [0..<64]"
  have "length ?t < 64"
  proof -
    have d: "dropWhile (\<lambda>n. \<not> bit x n) [0..<64] \<noteq> []" using n n64 by (auto simp: dropWhile_eq_Nil_conv)
    have "length ?t + length (dropWhile (\<lambda>n. \<not> bit x n) [0..<64]) = 64"
      by (metis length_append length_upt minus_nat.diff_0 takeWhile_dropWhile_id)
    then show ?thesis using d by (metis length_greater_0_conv less_add_same_cancel1)
  qed
  then show lt: "TrailingZeros64 x < 64" by (simp add: TrailingZeros64_def)
  then show "bit x (TrailingZeros64 x)"
    using nth_length_takeWhile[of "\<lambda>n. \<not> bit x n" "[0..<64]"] by (simp add: TrailingZeros64_def)
  show "\<not> bit x j" if "j < TrailingZeros64 x" for j
    using takeWhile_nth[of j "\<lambda>n. \<not> bit x n" "[0..<64]"] that lt
      set_takeWhileD[OF nth_mem, of j "\<lambda>n. \<not> bit x n" "[0..<64]"]
    by (simp add: TrailingZeros64_def)
qed

lemma set_bits_of_rec:
  assumes "x \<noteq> 0"
  shows "set_bits_of x = TrailingZeros64 x # set_bits_of (x AND (x - 1))"
proof -
  let ?k = "TrailingZeros64 x"
  note k = TrailingZeros64_props[OF assms]
  have u: "[0..<64] = [0..<?k] @ ?k # [Suc ?k..<64]"
    using k(1) upt_add_eq_append[of 0 ?k "64 - ?k"] by (simp add: upt_conv_Cons)
  have c: "bit (x AND (x - 1)) j \<longleftrightarrow> bit x j \<and> j \<noteq> ?k" if "j < 64" for j
    using clear_lowest[OF k(2,3)] that by (simp add: bit_simps) blast
  have "filter (bit x) [0..<?k] = []" "filter (bit (x AND (x - 1))) [0..<?k] = []"
    using k(1,3) c by (auto simp: filter_empty_conv)
  moreover have "filter (bit x) [Suc ?k..<64] = filter (bit (x AND (x - 1))) [Suc ?k..<64]"
    by (rule filter_cong) (auto simp: c)
  moreover have "\<not> bit (x AND (x - 1)) ?k" using c[OF k(1)] by simp
  ultimately show ?thesis using k(2) unfolding set_bits_of_def by (subst (1 2) u) simp
qed

lemma set_bits_of_0 [simp]: "set_bits_of 0 = []"
  by (simp add: set_bits_of_def)

definition assignable :: "nat \<Rightarrow> bool" where
  "assignable n \<longleftrightarrow> 2 \<le> n \<and> n < 255"

declare free_scan.simps [simp del]

lemma free_scan_find: "free_scan i x = find assignable (map (\<lambda>b. i * 64 + b) (set_bits_of x))"
proof (induction i x rule: free_scan.induct)
  case (1 i x)
  show ?case
  proof (cases "x = 0")
    case False
    with 1 show ?thesis
      by (subst free_scan.simps, subst set_bits_of_rec) (auto simp: assignable_def[of "_ + _"] Let_def)
  qed (simp add: free_scan.simps[of i 0])
qed

lemma find_append: "find P (xs @ ys) = (case find P xs of None \<Rightarrow> find P ys | Some x \<Rightarrow> Some x)"
  by (induction xs) auto

lemma find_map_filter: "find P (map f (filter Q xs)) = map_option f (find (\<lambda>x. Q x \<and> P (f x)) xs)"
  by (induction xs) auto

lemma set_bits_of_NOT: "set_bits_of (NOT w) = filter (\<lambda>n. \<not> bit w n) [0..<64]"
  unfolding set_bits_of_def by (rule filter_cong) (auto simp: bit_simps)

lemma bm_next_from_find:
  "bm_next_from i ws =
     find assignable
       (concat (map (\<lambda>j. map (\<lambda>b. (i + j) * 64 + b) (filter (\<lambda>n. \<not> bit (ws ! j) n) [0..<64])) [0..<length ws]))"
proof (induction ws arbitrary: i)
  case (Cons w ws)
  have full: "filter (\<lambda>n. \<not> bit w n) [0..<64] = []" if "w = NOT 0"
    using that by (auto simp: filter_empty_conv bit_simps)
  have u: "[0..<length (w # ws)] = 0 # map Suc [0..<length ws]"
    by (simp only: length_Cons map_Suc_upt) (simp add: upt_conv_Cons del: upt_Suc)
  show ?case
    unfolding u using full Cons[of "i + 1"]
    by (auto simp: find_append free_scan_find set_bits_of_NOT comp_def ac_simps split: option.splits)
qed simp

text \<open>The octets in ascending order, word by word.\<close>

lemma octets_by_word:
  assumes "length ws = 4"
  shows "concat (map (\<lambda>j. map (\<lambda>b. j * 64 + b) (filter (\<lambda>n. \<not> bit (ws ! j) n) [0..<64])) [0..<4]) =
    filter (\<lambda>n. \<not> bm_used ws n) [0..<256]"
proof -
  have f: "map (\<lambda>b. j * 64 + b) (filter (\<lambda>n. \<not> bit (ws ! j) n) [0..<64]) =
      filter (\<lambda>n. \<not> bm_used ws n) [j * 64..<j * 64 + 64]" for j
  proof -
    have "[j * 64..<j * 64 + 64] = map (\<lambda>b. j * 64 + b) [0..<64]"
      by (rule nth_equalityI) auto
    then show ?thesis
      by (auto simp: filter_map comp_def bm_used_def intro!: arg_cong[of _ _ "map _"] filter_cong)
  qed
  have "[0..<256] = [0..<64] @ [64..<128] @ [128..<192] @ [192..<256]"
    using upt_add_eq_append[of 0 64 192] upt_add_eq_append[of 64 128 128]
      upt_add_eq_append[of 128 192 64] by simp
  moreover have "[0..<4] = [0, 1, 2, 3 :: nat]" by (simp add: upt_rec)
  ultimately show ?thesis using f[of 0] f[of 1] f[of 2] f[of 3] by (simp add: map_idI)
qed

lemma bm_next_find:
  "length bm = 4 \<Longrightarrow> bm_next bm = find (\<lambda>n. assignable n \<and> \<not> bm_used bm n) [0..<256]"
  using find_map_filter[of assignable id "\<lambda>n. \<not> bm_used bm n" "[0..<256]"]
  by (simp add: bm_next_def bm_next_from_find octets_by_word[symmetric] option.map_id conj_commute)

lemma bm_used_mark:
  "length bm = 4 \<Longrightarrow> n < 256 \<Longrightarrow> bm_used (bm_mark b bm) n \<longleftrightarrow> bm_used bm n \<or> n = unat b"
proof -
  assume l: "length bm = 4" "n < 256"
  have "n = unat b \<longleftrightarrow> n div 64 = unat b div 64 \<and> n mod 64 = unat b mod 64"
    by (metis div_mult_mod_eq)
  moreover have "unat b div 64 < 4" using unat_byte_less[of b] by (simp add: less_mult_imp_div_less)
  ultimately show ?thesis
    using l by (auto simp: bm_used_def bm_mark_def Let_def nth_list_update bit_simps)
qed

lemma bm_used_clear:
  "length bm = 4 \<Longrightarrow> n < 256 \<Longrightarrow> bm_used (bm_clear b bm) n \<longleftrightarrow> bm_used bm n \<and> n \<noteq> unat b"
proof -
  assume l: "length bm = 4" "n < 256"
  have "n = unat b \<longleftrightarrow> n div 64 = unat b div 64 \<and> n mod 64 = unat b mod 64"
    by (metis div_mult_mod_eq)
  moreover have "unat b div 64 < 4" using unat_byte_less[of b] by (simp add: less_mult_imp_div_less)
  moreover have "n mod 64 < 64" by simp
  ultimately show ?thesis
    using l by (auto simp: bm_used_def bm_clear_def Let_def nth_list_update bit_simps)
qed

lemma length_bm_mark [simp]: "length (bm_mark b bm) = length bm"
  and length_bm_clear [simp]: "length (bm_clear b bm) = length bm"
  by (simp_all add: bm_mark_def bm_clear_def Let_def)

section \<open>The allocator interface\<close>

locale allocator =
  fixes inv :: "'s \<Rightarrow> bool"
    and used :: "'s \<Rightarrow> nat set"
    and mark :: "byte \<Rightarrow> 's \<Rightarrow> 's"
    and clear :: "byte \<Rightarrow> 's \<Rightarrow> 's"
    and nxt :: "'s \<Rightarrow> nat option"
  assumes inv_mark: "inv s \<Longrightarrow> inv (mark b s)"
    and inv_clear: "inv s \<Longrightarrow> inv (clear b s)"
    and used_mark: "inv s \<Longrightarrow> used (mark b s) = insert (unat b) (used s)"
    and used_clear: "inv s \<Longrightarrow> used (clear b s) = used s - {unat b}"
    and nxt_Some: "inv s \<Longrightarrow> nxt s = Some n \<Longrightarrow>
       assignable n \<and> n \<notin> used s \<and> (\<forall>m. assignable m \<and> m \<notin> used s \<longrightarrow> n \<le> m)"
    and nxt_None: "inv s \<Longrightarrow> nxt s = None \<longleftrightarrow> {n. assignable n} \<subseteq> used s"
begin

lemma nxt_byte: "inv s \<Longrightarrow> nxt s = Some n \<Longrightarrow> unat (of_nat n :: byte) = n"
  using nxt_Some[of s n] by (simp add: assignable_def unat_of_nat take_bit_nat_eq_self)

text \<open>Taking the next address and giving it back restores the set of addresses in use.\<close>

lemma take_release:
  "inv s \<Longrightarrow> nxt s = Some n \<Longrightarrow> used (clear (of_nat n) (mark (of_nat n) s)) = used s"
  using nxt_Some[of s n] nxt_byte[of s n] by (auto simp: used_clear used_mark inv_mark)

text \<open>The allocator fails only when all 253 player addresses are taken.\<close>

lemma exhausted_iff: "inv s \<Longrightarrow> nxt s = None \<longleftrightarrow> card (used s \<inter> {n. assignable n}) = 253"
proof -
  assume i: "inv s"
  have c: "{n. assignable n} = {2..<255}" by (auto simp: assignable_def)
  have "{n. assignable n} \<subseteq> used s \<longleftrightarrow> card (used s \<inter> {n. assignable n}) = 253"
  proof
    assume "card (used s \<inter> {n. assignable n}) = 253"
    then have "used s \<inter> {n. assignable n} = {n. assignable n}"
      by (intro card_subset_eq) (auto simp: c)
    then show "{n. assignable n} \<subseteq> used s" by blast
  next
    assume "{n. assignable n} \<subseteq> used s"
    then have "used s \<inter> {n. assignable n} = {n. assignable n}" by blast
    then show "card (used s \<inter> {n. assignable n}) = 253" by (simp add: c)
  qed
  with nxt_None[OF i] show ?thesis by simp
qed

end

definition bm_inv :: "bitmap \<Rightarrow> bool" where
  "bm_inv bm \<longleftrightarrow> length bm = 4"

definition bm_set :: "bitmap \<Rightarrow> nat set" where
  "bm_set bm = {n. n < 256 \<and> bm_used bm n}"

interpretation pool: allocator bm_inv bm_set bm_mark bm_clear bm_next
proof
  fix s b assume i: "bm_inv s"
  then have l: "length s = 4" by (simp add: bm_inv_def)
  show "bm_inv (bm_mark b s)" "bm_inv (bm_clear b s)" using i by (simp_all add: bm_inv_def)
  show "bm_set (bm_mark b s) = insert (unat b) (bm_set s)"
    using unat_byte_less[of b] by (auto simp: bm_set_def bm_used_mark[OF l])
  show "bm_set (bm_clear b s) = bm_set s - {unat b}"
    by (auto simp: bm_set_def bm_used_clear[OF l])
  show "bm_next s = None \<longleftrightarrow> {n. assignable n} \<subseteq> bm_set s"
    by (auto simp: bm_next_find[OF l] find_None_iff bm_set_def assignable_def)
  show "assignable n \<and> n \<notin> bm_set s \<and> (\<forall>m. assignable m \<and> m \<notin> bm_set s \<longrightarrow> n \<le> m)"
    if "bm_next s = Some n" for n
  proof -
    from that obtain i where i: "i < 256" "assignable i" "\<not> bm_used s i" "n = i"
        "\<forall>j<i. \<not> (assignable j \<and> \<not> bm_used s j)"
      by (auto simp: bm_next_find[OF l] find_Some_iff)
    then show ?thesis
      by (auto simp: bm_set_def assignable_def not_less[symmetric])
  qed
qed

end
