(* ===== verification/Auth.thy ===== *)
theory Auth
  imports GoNet
begin

text \<open>
  src/internal/auth: key derivation, challenge-response HMAC and the password strength
  check.  SHA-256 and HMAC (crypto/sha256, crypto/hmac) and HKDF are written out, so that
  the functions are executable; the theorems only use the length of a digest.
\<close>

section \<open>SHA-256\<close>

text \<open>The round constants and the initial state, in decimal.\<close>

definition sha_K :: "u32 list" where
  "sha_K =
    [1116352408, 1899447441, 3049323471, 3921009573, 961987163, 1508970993, 2453635748, 2870763221,
     3624381080, 310598401, 607225278, 1426881987, 1925078388, 2162078206, 2614888103, 3248222580,
     3835390401, 4022224774, 264347078, 604807628, 770255983, 1249150122, 1555081692, 1996064986,
     2554220882, 2821834349, 2952996808, 3210313671, 3336571891, 3584528711, 113926993, 338241895,
     666307205, 773529912, 1294757372, 1396182291, 1695183700, 1986661051, 2177026350, 2456956037,
     2730485921, 2820302411, 3259730800, 3345764771, 3516065817, 3600352804, 4094571909, 275423344,
     430227734, 506948616, 659060556, 883997877, 958139571, 1322822218, 1537002063, 1747873779,
     1955562222, 2024104815, 2227730452, 2361852424, 2428436474, 2756734187, 3204031479, 3329325298]"

definition sha_H0 :: "u32 list" where
  "sha_H0 =
    [1779033703, 3144134277, 1013904242, 2773480762,
     1359893119, 2600822924, 528734635, 1541459225]"

definition rotr :: "nat \<Rightarrow> u32 \<Rightarrow> u32" where
  "rotr n x = drop_bit n x OR push_bit (32 - n) x"

definition be32 :: "bytes \<Rightarrow> u32" where
  "be32 bs = le_word (rev bs)"

definition put32be :: "u32 \<Rightarrow> bytes" where
  "put32be v = rev (put32 v)"

text \<open>The message schedule is kept newest first; round \<open>t\<close> takes its 16th, 15th, 7th and 2nd word.\<close>

definition sched_step :: "u32 list \<Rightarrow> u32 list" where
  "sched_step ws =
     (let s0 = (let x = ws ! 14 in rotr 7 x XOR rotr 18 x XOR drop_bit 3 x);
          s1 = (let x = ws ! 1 in rotr 17 x XOR rotr 19 x XOR drop_bit 10 x)
      in (ws ! 15 + s0 + ws ! 6 + s1) # ws)"

definition schedule :: "bytes \<Rightarrow> u32 list" where
  "schedule block =
     rev ((sched_step ^^ 48) (rev (map (\<lambda>i. be32 (take 4 (drop (4 * i) block))) [0..<16])))"

type_synonym sha_state = "u32 list"

definition sha_round :: "sha_state \<Rightarrow> u32 \<times> u32 \<Rightarrow> sha_state" where
  "sha_round st kw = (case (st, kw) of
     ([a, b, c, d, e, f, g, h], (k, w)) \<Rightarrow>
       (let s1 = rotr 6 e XOR rotr 11 e XOR rotr 25 e;
            ch = (e AND f) XOR (NOT e AND g);
            t1 = h + s1 + ch + k + w;
            s0 = rotr 2 a XOR rotr 13 a XOR rotr 22 a;
            maj = (a AND b) XOR (a AND c) XOR (b AND c);
            t2 = s0 + maj
        in [t1 + t2, a, b, c, d + t1, e, f, g])
   | _ \<Rightarrow> st)"

definition compress :: "sha_state \<Rightarrow> bytes \<Rightarrow> sha_state" where
  "compress st block = map2 (+) st (foldl sha_round st (zip sha_K (schedule block)))"

definition sha_pad :: "bytes \<Rightarrow> bytes" where
  "sha_pad m =
     (let n = length m; z = (119 - n mod 64) mod 64
      in m @ [128] @ replicate z 0 @ rev (put64 (of_nat (8 * n))))"

fun sha_blocks :: "nat \<Rightarrow> sha_state \<Rightarrow> bytes \<Rightarrow> sha_state" where
  "sha_blocks 0 st m = st"
| "sha_blocks (Suc k) st m = sha_blocks k (compress st (take 64 m)) (drop 64 m)"

definition sha256 :: "bytes \<Rightarrow> bytes" where
  "sha256 m =
     (let p = sha_pad m
      in concat (map put32be (sha_blocks (length p div 64) sha_H0 p)))"

definition hmac_block :: "bytes \<Rightarrow> bytes" where
  "hmac_block key = copy_into 64 (if 64 < length key then sha256 key else key)"

definition hmac_sha256 :: "bytes \<Rightarrow> bytes \<Rightarrow> bytes" where
  "hmac_sha256 key msg =
     (let k = hmac_block key
      in sha256 (map (\<lambda>b. b XOR 0x5c) k @ sha256 (map (\<lambda>b. b XOR 0x36) k @ msg)))"

text \<open>
  \<open>hkdf.New(sha256.New, secret, nil, info)\<close> read for \<open>KeySize\<close> = 32 bytes: extraction with the
  all-zero salt, then the first block of the expansion.
\<close>

definition hkdf32 :: "bytes \<Rightarrow> bytes \<Rightarrow> bytes" where
  "hkdf32 secret info = hmac_sha256 (hmac_sha256 (replicate 32 0) secret) (info @ [1])"

section \<open>Challenge-response (auth.go)\<close>

abbreviation KeySize :: nat where "KeySize \<equiv> 32"
abbreviation ChallengeSize :: nat where "ChallengeSize \<equiv> 16"
abbreviation HMACSize :: nat where "HMACSize \<equiv> 32"

text \<open>Nil is the empty list.\<close>

definition DeriveKey :: "bytes \<Rightarrow> bytes \<Rightarrow> bytes" where
  "DeriveKey password roomID =
     (if password = [] then [] else hkdf32 password (lit ''GameTunnel:'' @ roomID))"

text \<open>\<open>rnd\<close> is what rand.Read delivers for \<open>ChallengeSize\<close> bytes; None is its error.\<close>

definition GenerateChallenge :: "bytes option \<Rightarrow> bytes option" where
  "GenerateChallenge rnd = map_option (copy_into ChallengeSize) rnd"

definition hmac_message :: "bytes \<Rightarrow> bytes \<Rightarrow> bytes \<Rightarrow> bytes \<Rightarrow> bytes" where
  "hmac_message challenge roomID username addrStr =
     challenge @ put16be (of_nat (length roomID)) @ roomID @
     put16be (of_nat (length username)) @ username @
     put16be (of_nat (length addrStr)) @ addrStr"

definition ComputeHMAC :: "bytes \<Rightarrow> bytes \<Rightarrow> bytes \<Rightarrow> bytes \<Rightarrow> UDPAddr option \<Rightarrow> bytes" where
  "ComputeHMAC key challenge roomID username remoteAddr =
     (if key = [] then []
      else if 65535 < length roomID \<or> 65535 < length username then []
      else case remoteAddr of
          None \<Rightarrow> hmac_sha256 key (hmac_message challenge roomID username [])
        | Some a \<Rightarrow>
            if 65535 < length (udp_string a) then []
            else hmac_sha256 key (hmac_message challenge roomID username (udp_string a)))"

definition VerifyHMAC ::
    "bytes \<Rightarrow> bytes \<Rightarrow> bytes \<Rightarrow> bytes \<Rightarrow> bytes \<Rightarrow> UDPAddr option \<Rightarrow> bool" where
  "VerifyHMAC key clientHMAC challenge roomID username remoteAddr =
     (if key = [] \<or> clientHMAC = [] then False
      else clientHMAC = ComputeHMAC key challenge roomID username remoteAddr)"

section \<open>Password strength (password.go)\<close>

text \<open>
  \<open>strings.ToLower\<close> as far as a comparison with the weak words can see it: ASCII letters, and
  U+0130 (bytes C4 B0), which lowers to i.  The only other letter that lowers to ASCII is the
  Kelvin sign, which becomes k and occurs in no weak word.
\<close>

fun lower_text :: "bytes \<Rightarrow> bytes" where
  "lower_text [] = []"
| "lower_text (c # cs) =
     (if c = 0xC4 \<and> cs \<noteq> [] \<and> hd cs = 0xB0 then 0x69 # lower_text (tl cs)
      else (if 65 \<le> c \<and> c \<le> 90 then c + 32 else c) # lower_text cs)"

definition weak_words :: "bytes list" where
  "weak_words = map lit [''1234'', ''password'', ''admin'', ''test'', ''abc'', ''1111'', ''pass'',
     ''root'', ''default'']"

datatype warning = WarnVeryShort | WarnShort | WarnCommon
datatype strength = StrengthNone | StrengthWeak | StrengthModerate | StrengthStrong

definition CheckPasswordStrength :: "bytes \<Rightarrow> strength \<times> warning list" where
  "CheckPasswordStrength password =
     (if password = [] then (StrengthNone, [])
      else
        (let w1 = (if length password < 4 then [WarnVeryShort]
                   else if length password < 8 then [WarnShort] else []);
             isWeakWord = (lower_text password \<in> set weak_words);
             ws = w1 @ (if isWeakWord then [WarnCommon] else []);
             level = (if 12 \<le> length password \<and> \<not> isWeakWord \<and> ws = [] then StrengthStrong
                      else if 8 \<le> length password \<and> \<not> isWeakWord then StrengthModerate
                      else StrengthWeak)
         in (level, ws)))"

section \<open>Lemmas\<close>

lemma length_compress [simp]: "length st = 8 \<Longrightarrow> length (compress st b) = 8"
proof -
  assume l: "length st = 8"
  have "length (sha_round s kw) = length s" if "length s = 8" for s kw
    using that by (auto simp: sha_round_def Let_def split: list.splits prod.splits)
  then have "length (foldl sha_round st xs) = 8" for xs
    using l by (induction xs arbitrary: st) auto
  then show ?thesis using l by (simp add: compress_def)
qed

lemma length_sha_blocks: "length st = 8 \<Longrightarrow> length (sha_blocks k st m) = 8"
  by (induction k st m rule: sha_blocks.induct) auto

lemma length_sha256 [simp]: "length (sha256 m) = 32"
proof -
  have "length (concat (map put32be st)) = 4 * length st" for st
    by (induction st) (auto simp: put32be_def)
  then show ?thesis
    using length_sha_blocks[of sha_H0] by (simp add: sha256_def Let_def sha_H0_def)
qed

lemma length_hmac [simp]: "length (hmac_sha256 k m) = 32"
  by (simp add: hmac_sha256_def Let_def)

lemma hmac_nonempty [simp]: "hmac_sha256 k m \<noteq> []"
  using length_hmac[of k m] by force

lemma put16be_inj: "put16be v = put16be w \<longleftrightarrow> v = w"
proof
  assume "put16be v = put16be w"
  then have "put16 v = put16 w" by (simp add: put16be_def put16_def)
  then show "v = w" by (metis le_word_put16)
qed simp

lemma of_nat_u16_inj: "m < 65536 \<Longrightarrow> n < 65536 \<Longrightarrow> (of_nat m :: u16) = of_nat n \<longleftrightarrow> m = n"
  by (metis unat_len16)

section \<open>Properties\<close>

text \<open>
  The bytes fed to the HMAC determine every field: two challenges of the same length with
  room, user and address texts below 64 KiB give the same message only if all four fields
  agree, so a response cannot be reused for another room, user or address.
\<close>

theorem hmac_message_injective:
  assumes "length c = length c'" "length r < 65536" "length r' < 65536"
    "length u < 65536" "length u' < 65536" "length a < 65536" "length a' < 65536"
  shows "hmac_message c r u a = hmac_message c' r' u' a' \<longleftrightarrow> c = c' \<and> r = r' \<and> u = u' \<and> a = a'"
  using assms by (auto simp: hmac_message_def put16be_inj of_nat_u16_inj cong: conj_cong)

theorem hmac_message_injective_witness:
  "hmac_message (replicate 16 1) (lit ''ab'') (lit ''c'') [] \<noteq>
   hmac_message (replicate 16 1) (lit ''a'') (lit ''bc'') []"
  using hmac_message_injective[of "replicate 16 1" "replicate 16 1" "lit ''ab''" "lit ''a''"
      "lit ''c''" "lit ''bc''" "[]" "[]"]
  by (simp add: lit_def)

text \<open>
  A room with a password accepts a response exactly when it is the 32-byte HMAC of the
  message built from the stored challenge, the room, the user and the registered
  address under the room's key; the response of an honest client is accepted, and
  nothing is accepted when the room has no password.
\<close>

theorem VerifyHMAC_exact:
  assumes "password \<noteq> []" "length room < 65536" "length user < 65536"
    "length (udp_string a) < 65536"
  shows "(VerifyHMAC (DeriveKey password room) h c room user (Some a) \<longleftrightarrow>
            h = hmac_sha256 (DeriveKey password room) (hmac_message c room user (udp_string a))) \<and>
    VerifyHMAC (DeriveKey password room) (ComputeHMAC (DeriveKey password room) c room user (Some a))
      c room user (Some a) \<and>
    length (ComputeHMAC (DeriveKey password room) c room user (Some a)) = HMACSize \<and>
    \<not> VerifyHMAC (DeriveKey [] room) h c room user (Some a)"
proof -
  have "DeriveKey password room \<noteq> []" using assms(1) by (simp add: DeriveKey_def hkdf32_def)
  then show ?thesis
    using assms hmac_nonempty[of "DeriveKey password room" "hmac_message c room user (udp_string a)"]
    by (auto simp: VerifyHMAC_def ComputeHMAC_def DeriveKey_def[of "[]"] simp del: hmac_nonempty)
qed

theorem VerifyHMAC_exact_witness:
  "VerifyHMAC (DeriveKey (lit ''secret'') (lit ''lan''))
     (ComputeHMAC (DeriveKey (lit ''secret'') (lit ''lan'')) (replicate 16 3) (lit ''lan'') (lit ''bob'')
        (Some \<lparr> UDP_IP = [], UDP_Port = 9 \<rparr>))
     (replicate 16 3) (lit ''lan'') (lit ''bob'') (Some \<lparr> UDP_IP = [], UDP_Port = 9 \<rparr>)"
  using VerifyHMAC_exact[of "lit ''secret''" "lit ''lan''" "lit ''bob''"
      "\<lparr> UDP_IP = [], UDP_Port = 9 \<rparr>" "[]" "replicate 16 3"]
  by (simp add: lit_def udp_string_def JoinHostPort_def itoa_def dec.simps)

end
