(* ===== verification/Room.thy ===== *)
theory Room
  imports ClientState SendQueue IPPool Auth
begin

text \<open>
  The state of a room (server/room.go) and its shared operations: the address bitmap, the
  registration limiter, sending, kicks, address assignment and the peer list.  Players
  are heap cells: the maps \<open>clients\<close> (by virtual address) and \<open>addrMap\<close> (by
  endpoint) hold references, so that both see an update.  A handler runs as one atomic
  step under the room's mutex, at one time; \<open>go\<close> statements run at its end.  The
  outbound queue with its bandwidth limiter is shared with the server and threaded through.
\<close>

section \<open>State\<close>

type_synonym cref = nat
type_synonym connIPKey = bytes

text \<open>The localized texts of package i18n that reach the wire.\<close>

record Strings =
  KickVersionMismatch :: "u16 \<Rightarrow> u16 \<Rightarrow> bytes"
  KickInvalidName :: bytes
  KickInvalidRoom :: bytes
  KickRateLimit :: bytes
  KickIPLimit :: bytes
  KickRoomFull :: bytes
  KickDuplicateName :: bytes
  KickIPExhausted :: bytes
  KickServerBusy :: bytes
  KickInternalError :: bytes
  KickAuthAbnormal :: bytes
  KickAuthTimeout :: bytes
  KickWrongPassword :: bytes

text \<open>
  What a step takes from its surroundings: the clock, the orders in which the run time visits
  the two maps, the next random token and challenge (None if rand.Read fails) and the texts.
\<close>

record Env =
  E_now :: int
  E_ordC :: "ipkey list \<Rightarrow> ipkey list"
  E_ordA :: "RateKey list \<Rightarrow> RateKey list"
  E_token :: "bytes option"
  E_challenge :: "bytes option"
  E_t :: Strings

definition env_ok :: "Env \<Rightarrow> bool" where
  "env_ok env \<longleftrightarrow> order_ok (E_ordC env) \<and> order_ok (E_ordA env)"

abbreviation second :: int where "second \<equiv> 1000000000"

definition maxUsernameLen :: nat where "maxUsernameLen = 32"
definition maxRoomIDLen :: nat where "maxRoomIDLen = 32"
definition peerInfoCacheTTL :: int where "peerInfoCacheTTL = 50000000"
definition pingInterval :: int where "pingInterval = 5 * second"
definition sendErrorLogInterval :: int where "sendErrorLogInterval = 60 * second"
definition roomIdleTimeout :: int where "roomIdleTimeout = 300 * second"

record Room =
  R_roomID :: bytes
  R_roomPass :: bytes
  R_subnet :: IPNet
  R_serverIP :: ip
  R_maxPlayers :: int
  R_bwLimiter :: bool
  R_clients :: "(ipkey \<times> cref) list"
  R_addrMap :: "(RateKey \<times> cref) list"
  R_heap :: "cref \<Rightarrow> Client"
  R_next :: cref
  R_ipBitmap :: bitmap
  R_authKeys :: "(bytes \<times> bytes) list"
  R_pendingAuth :: int
  R_maxPending :: int
  R_regBuf0 :: "(connIPKey \<times> int) list"
  R_regBuf1 :: "(connIPKey \<times> int) list"
  R_done :: bool
  R_maxRegPerIP :: int
  R_ipConnCount :: "(connIPKey \<times> int) list"
  R_maxPerIP :: int
  R_peerInfoDirty :: bool
  R_peerInfoEncoded :: "bytes option"
  R_peerInfoCachedAt :: int
  R_totalRegistrations :: u64
  R_authFailures :: u64
  R_peakPlayers :: u32
  R_totalPacketsRelay :: u64
  R_totalPacketsDropped :: u64
  R_totalKicks :: u64
  R_sendErrors :: u64
  R_lastSendErrorLog :: "int option"
  R_sendErrorCountSinceLog :: u64
  R_onDirty :: bool
  R_persistDirty :: bool
  R_createdAt :: int
  R_lastActivity :: int
  R_verbose :: bool

text \<open>
  \<open>R_bwLimiter\<close> tells whether the room has the limiter, which is the one of the shared queue.
  \<open>R_onDirty\<close> tells whether the callback is set; the flag it sets is \<open>R_persistDirty\<close>.
\<close>

type_synonym rst = "Room \<times> rateLimitedQueue"

definition addrToConnIPKey :: "UDPAddr \<Rightarrow> connIPKey" where
  "addrToConnIPKey a = copy_into 16 (case To16 (UDP_IP a) of Some x \<Rightarrow> x | None \<Rightarrow> [])"

definition client_at :: "Room \<Rightarrow> cref \<Rightarrow> Client" where
  "client_at r c = R_heap r c"

definition upd_client :: "cref \<Rightarrow> (Client \<Rightarrow> Client) \<Rightarrow> Room \<Rightarrow> Room" where
  "upd_client c f r = r\<lparr> R_heap := (R_heap r)(c := f (R_heap r c)) \<rparr>"

definition new_client :: "Client \<Rightarrow> Room \<Rightarrow> cref \<times> Room" where
  "new_client cl r =
     (R_next r, r\<lparr> R_heap := (R_heap r)(R_next r := cl), R_next := Suc (R_next r) \<rparr>)"

text \<open>Loops over the two maps, in the order the run time picks.\<close>

definition range_clients :: "Env \<Rightarrow> Room \<Rightarrow> (ipkey \<times> cref) list" where
  "range_clients env r = range_map (E_ordC env) (R_clients r)"

definition range_addrMap :: "Env \<Rightarrow> Room \<Rightarrow> (RateKey \<times> cref) list" where
  "range_addrMap env r = range_map (E_ordA env) (R_addrMap r)"

section \<open>Address bitmap\<close>

definition markIPUsed :: "ip \<Rightarrow> Room \<Rightarrow> Room" where
  "markIPUsed i r =
     (case To4 i of None \<Rightarrow> r | Some ip4 \<Rightarrow> r\<lparr> R_ipBitmap := bm_mark (ip4 ! 3) (R_ipBitmap r) \<rparr>)"

definition markIPFree :: "ip \<Rightarrow> Room \<Rightarrow> Room" where
  "markIPFree i r =
     (case To4 i of None \<Rightarrow> r | Some ip4 \<Rightarrow> r\<lparr> R_ipBitmap := bm_clear (ip4 ! 3) (R_ipBitmap r) \<rparr>)"

text \<open>Nil is None.  The subnet of a room is an IPv4 one; a nil base is never indexed.\<close>

definition nextAvailableIP :: "Room \<Rightarrow> ip option" where
  "nextAvailableIP r =
     (case (To4 (IPNet_IP (R_subnet r)), bm_next (R_ipBitmap r)) of
        (Some base, Some octet) \<Rightarrow> Some (IPv4 (base ! 0) (base ! 1) (base ! 2) (of_nat octet))
      | _ \<Rightarrow> None)"

section \<open>Creation\<close>

record RoomConfig =
  RC_RoomID :: bytes
  RC_RoomPass :: bytes
  RC_Subnet :: IPNet
  RC_MaxPlayers :: int
  RC_MaxPerIP :: int
  RC_BWLimiter :: bool
  RC_Verbose :: bool

definition NewRoom :: "int \<Rightarrow> RoomConfig \<Rightarrow> Room option" where
  "NewRoom now cfg =
     (let (ones, bits) = Mask_Size (IPNet_Mask (RC_Subnet cfg)) in
      if bits \<noteq> 32 \<or> ones \<noteq> 24 then None
      else
        (let serverIP = (copy_into 4 (case To4 (IPNet_IP (RC_Subnet cfg)) of Some x \<Rightarrow> x | None \<Rightarrow> []))[3 := 1];
             r = \<lparr> R_roomID = RC_RoomID cfg, R_roomPass = RC_RoomPass cfg, R_subnet = RC_Subnet cfg,
                   R_serverIP = serverIP, R_maxPlayers = RC_MaxPlayers cfg,
                   R_bwLimiter = RC_BWLimiter cfg, R_clients = [], R_addrMap = [],
                   R_heap = (\<lambda>_. zeroClient), R_next = 0, R_ipBitmap = replicate 4 0,
                   R_authKeys = [], R_pendingAuth = 0, R_maxPending = min (RC_MaxPlayers cfg * 3) 512,
                   R_regBuf0 = [], R_regBuf1 = [], R_done = False, R_maxRegPerIP = 5,
                   R_ipConnCount = [], R_maxPerIP = (if RC_MaxPerIP cfg \<le> 0 then 3 else RC_MaxPerIP cfg),
                   R_peerInfoDirty = False, R_peerInfoEncoded = None, R_peerInfoCachedAt = 0,
                   R_totalRegistrations = 0, R_authFailures = 0, R_peakPlayers = 0,
                   R_totalPacketsRelay = 0, R_totalPacketsDropped = 0, R_totalKicks = 0,
                   R_sendErrors = 0, R_lastSendErrorLog = None, R_sendErrorCountSinceLog = 0,
                   R_onDirty = False, R_persistDirty = False, R_createdAt = now,
                   R_lastActivity = now, R_verbose = RC_Verbose cfg \<rparr>
         in Some (markIPUsed (IPv4 (serverIP ! 0) (serverIP ! 1) (serverIP ! 2) 255)
                   (markIPUsed serverIP
                     (markIPUsed (IPv4 (serverIP ! 0) (serverIP ! 1) (serverIP ! 2) 0) r)))))"

section \<open>Registration rate limiting\<close>

definition reg_hit :: "int \<Rightarrow> connIPKey \<Rightarrow> (connIPKey \<times> int) list \<times> (connIPKey \<times> int) list \<Rightarrow>
    bool \<times> (connIPKey \<times> int) list \<times> (connIPKey \<times> int) list" where
  "reg_hit maxReg key bufs =
     (let b = mput key (mget0 (fst bufs) key + 1) (fst bufs)
      in (mget0 b key \<le> maxReg, b, snd bufs))"

definition checkRegRate :: "UDPAddr \<Rightarrow> Room \<Rightarrow> bool \<times> Room" where
  "checkRegRate addr r =
     (let (ok, b0, b1) = reg_hit (R_maxRegPerIP r) (addrToConnIPKey addr) (R_regBuf0 r, R_regBuf1 r)
      in (ok, r\<lparr> R_regBuf0 := b0, R_regBuf1 := b1 \<rparr>))"

definition reg_swap :: "(connIPKey \<times> int) list \<times> (connIPKey \<times> int) list \<Rightarrow>
    (connIPKey \<times> int) list \<times> (connIPKey \<times> int) list" where
  "reg_swap bufs = (snd bufs, [])"

text \<open>One tick of \<open>regRateLimitLoop\<close>: swap the buffers, then clear the stale one.\<close>

definition reg_tick :: "Room \<Rightarrow> Room" where
  "reg_tick r =
     (if R_done r then r
      else let (b0, b1) = reg_swap (R_regBuf0 r, R_regBuf1 r) in r\<lparr> R_regBuf0 := b0, R_regBuf1 := b1 \<rparr>)"

definition Room_Stop :: "Room \<Rightarrow> Room" where
  "Room_Stop r = r\<lparr> R_done := True \<rparr>"

text \<open>The registration limiter is a window counter like the packet limiter.\<close>

interpretation reg: window_counter "reg_hit m" reg_swap "\<lambda>bufs. mget0 (fst bufs)" "\<lambda>bufs. snd bufs = []" m
  for m
  by unfold_locales (auto simp: reg_hit_def reg_swap_def Let_def mget0_def fun_eq_iff)

section \<open>Sending\<close>

definition logSendError :: "Env \<Rightarrow> Room \<Rightarrow> Room" where
  "logSendError env r0 =
     (let r = r0\<lparr> R_sendErrorCountSinceLog := R_sendErrorCountSinceLog r0 + 1 \<rparr> in
      if (case R_lastSendErrorLog r of None \<Rightarrow> False
          | Some t \<Rightarrow> E_now env - t < sendErrorLogInterval) then r
      else
        (let cnt = R_sendErrorCountSinceLog r; r1 = r\<lparr> R_sendErrorCountSinceLog := 0 \<rparr>
         in if 0 < sint cnt then r1\<lparr> R_lastSendErrorLog := Some (E_now env) \<rparr> else r1))"

definition note_send :: "Env \<Rightarrow> bool \<Rightarrow> Room \<Rightarrow> Room" where
  "note_send env ok r =
     (if ok then r else logSendError env (r\<lparr> R_sendErrors := R_sendErrors r + 1 \<rparr>))"

definition sendChecked :: "Env \<Rightarrow> byte \<Rightarrow> bytes \<Rightarrow> UDPAddr \<Rightarrow> rst \<Rightarrow> rst" where
  "sendChecked env typ payload to st =
     (let (r, q) = st; (ok, q') = rlq_send (E_now env) (EncodeChecked typ payload) to priorityHigh q
      in (note_send env ok r, q'))"

definition sendCheckedRaw :: "Env \<Rightarrow> bytes \<Rightarrow> UDPAddr \<Rightarrow> rst \<Rightarrow> rst" where
  "sendCheckedRaw env data to st =
     (let (r, q) = st; (ok, q') = rlq_send (E_now env) data to priorityLow q
      in (note_send env ok r, q'))"

definition sendCheckedRawBypass :: "bytes \<Rightarrow> UDPAddr \<Rightarrow> rst \<Rightarrow> rst" where
  "sendCheckedRawBypass data to st = (let (r, q) = st in (r, snd (sendBypass data to q)))"

definition sendKickCode :: "Env \<Rightarrow> UDPAddr \<Rightarrow> KickCode \<Rightarrow> bytes \<Rightarrow> rst \<Rightarrow> rst" where
  "sendKickCode env to code reason st =
     (let (r, q) = sendChecked env TypeKick (Kick_Marshal \<lparr> Kick_Reason = reason, Kick_Code = code \<rparr>) to st
      in (r\<lparr> R_totalKicks := R_totalKicks r + 1 \<rparr>, q))"

definition sendKick :: "Env \<Rightarrow> UDPAddr \<Rightarrow> bytes \<Rightarrow> rst \<Rightarrow> rst" where
  "sendKick env to reason st = sendKickCode env to KickCodeNone reason st"

definition sendAssignIP :: "Env \<Rightarrow> ip \<Rightarrow> UDPAddr \<Rightarrow> rst \<Rightarrow> rst" where
  "sendAssignIP env vip to st =
     (let r = fst st;
          tok = (case mget (R_clients r) (IPKey vip) of None \<Rightarrow> zero_token
                 | Some c \<Rightarrow> SessionToken (R_heap r c));
          data = AssignIP_Marshal \<lparr> Asg_VirtualIP = vip, Asg_SubnetMask = IPNet_Mask (R_subnet r),
             Asg_ServerIP = R_serverIP r, Asg_Version = AppVersion, Asg_SessionToken = tok \<rparr>
      in if data \<noteq> [] then sendChecked env TypeAssignIP data to st else st)"

definition markDirty :: "Room \<Rightarrow> Room" where
  "markDirty r = (if R_onDirty r then r\<lparr> R_persistDirty := True \<rparr> else r)"

definition ClientCount :: "Room \<Rightarrow> nat" where
  "ClientCount r = length (R_clients r)"

definition public_addrs :: "Room \<Rightarrow> (ipkey \<times> cref) list \<Rightarrow> UDPAddr list" where
  "public_addrs r kcs = List.map_filter (\<lambda>(k, c). PublicAddr (R_heap r c)) kcs"

definition notifyShutdown :: "Env \<Rightarrow> rst \<Rightarrow> rst" where
  "notifyShutdown env st =
     (let targets = public_addrs (fst st) (range_clients env (fst st));
          payload = Kick_Marshal \<lparr> Kick_Reason = lit ''server shutdown'', Kick_Code = KickCodeShutdown \<rparr>
      in if targets = [] then st
         else fold (\<lambda>a. sendChecked env TypeKick payload a) targets st)"

definition decrementIPConnCount :: "connIPKey \<Rightarrow> Room \<Rightarrow> Room" where
  "decrementIPConnCount key r =
     (case mget (R_ipConnCount r) key of
        Some n \<Rightarrow>
          if 1 < n then r\<lparr> R_ipConnCount := mput key (n - 1) (R_ipConnCount r) \<rparr>
          else r\<lparr> R_ipConnCount := mdel key (R_ipConnCount r) \<rparr>
      | None \<Rightarrow> r\<lparr> R_ipConnCount := mdel key (R_ipConnCount r) \<rparr>)"

definition decrement_for :: "Client \<Rightarrow> Room \<Rightarrow> Room" where
  "decrement_for c r =
     (case PublicAddr c of None \<Rightarrow> r | Some a \<Rightarrow> decrementIPConnCount (addrToConnIPKey a) r)"

definition decrement_pending :: "Room \<Rightarrow> Room" where
  "decrement_pending r =
     (if 0 < R_pendingAuth r then r\<lparr> R_pendingAuth := R_pendingAuth r - 1 \<rparr> else r)"

section \<open>Peer list (room_relay.go)\<close>

definition peer_entry :: "Client \<Rightarrow> PeerInfoEntry" where
  "peer_entry c = \<lparr> PE_VirtualIP = VirtualIP c, PE_PublicAddr = PublicAddr c,
     PE_Username = Username c, PE_NATType = C_NATType c \<rparr>"

definition getEncodedPeerInfo :: "Env \<Rightarrow> Room \<Rightarrow> bytes \<times> Room" where
  "getEncodedPeerInfo env r =
     (if R_peerInfoEncoded r \<noteq> None \<and> E_now env - R_peerInfoCachedAt r < peerInfoCacheTTL
      then (the (R_peerInfoEncoded r), r)
      else
        (let peers = map (\<lambda>(k, c). peer_entry (R_heap r c)) (range_clients env r);
             encoded = EncodeChecked TypePeerInfo (PeerInfo_Marshal peers)
         in (encoded, r\<lparr> R_peerInfoEncoded := Some encoded, R_peerInfoCachedAt := E_now env \<rparr>)))"

definition sendPeerInfoToClient :: "Env \<Rightarrow> UDPAddr \<Rightarrow> rst \<Rightarrow> rst" where
  "sendPeerInfoToClient env target st =
     (let (encoded, r) = getEncodedPeerInfo env (fst st)
      in sendCheckedRaw env encoded target (r, snd st))"

definition sendPeerInfoBroadcast :: "Env \<Rightarrow> rst \<Rightarrow> rst" where
  "sendPeerInfoBroadcast env st =
     (if R_clients (fst st) = [] then st
      else
        (let targets = public_addrs (fst st) (range_clients env (fst st));
             (encoded, r) = getEncodedPeerInfo env (fst st)
         in fold (sendCheckedRawBypass encoded) targets (r, snd st)))"

definition invalidatePeerInfoCache :: "Room \<Rightarrow> Room" where
  "invalidatePeerInfoCache r = r\<lparr> R_peerInfoDirty := True, R_peerInfoEncoded := None \<rparr>"

text \<open>The common end of a successful join.\<close>

definition announce_join :: "Env \<Rightarrow> ip \<Rightarrow> UDPAddr \<Rightarrow> rst \<Rightarrow> rst" where
  "announce_join env vip from st =
     (let st1 = sendPeerInfoToClient env from (sendAssignIP env vip from st);
          st2 = (markDirty (invalidatePeerInfoCache (fst st1)), snd st1)
      in sendPeerInfoBroadcast env st2)"

end
