(* ===== verification/RoomAuth.thy ===== *)
theory RoomAuth
  imports Room
begin

text \<open>
  Registration and authentication of players (server/room_auth.go), with the part of
  room_status.go that re-attaches a restored player.
\<close>

section \<open>Keys and counters\<close>

definition getAuthKey :: "bytes \<Rightarrow> Room \<Rightarrow> bytes \<times> Room" where
  "getAuthKey roomID r =
     (case mget (R_authKeys r) roomID of
        Some k \<Rightarrow> (k, r)
      | None \<Rightarrow>
          (let key = DeriveKey (R_roomPass r) roomID
           in (key, if key \<noteq> [] then r\<lparr> R_authKeys := mput roomID key (R_authKeys r) \<rparr> else r)))"

definition cleanupPendingAuth :: "RateKey \<Rightarrow> RateKey \<Rightarrow> bool \<Rightarrow> cref \<Rightarrow> Room \<Rightarrow> Room" where
  "cleanupPendingAuth fromKey oldKey foundByScan c r =
     (let deleteKey = (if foundByScan then oldKey else fromKey);
          r1 = r\<lparr> R_addrMap := mdel deleteKey (R_addrMap r) \<rparr>
      in decrement_for (R_heap r c) (decrement_pending r1))"

datatype checkResult = checkOK | checkRoomFull | checkDuplicate

definition checkCapacityAndDuplicate :: "bytes \<Rightarrow> bytes \<Rightarrow> Room \<Rightarrow> checkResult" where
  "checkCapacityAndDuplicate username roomID r =
     (if R_maxPlayers r \<le> int (length (R_clients r)) then checkRoomFull
      else if list_ex (\<lambda>(k, c). auth (R_heap r c) \<noteq> authChallengeSent \<and>
                  authRoomID (R_heap r c) = roomID \<and> Username (R_heap r c) = username) (R_clients r)
      then checkDuplicate
      else checkOK)"

section \<open>Restored players (room_status.go)\<close>

definition resolveRestoredClient ::
    "Env \<Rightarrow> bytes \<Rightarrow> bytes \<Rightarrow> UDPAddr \<Rightarrow> Room \<Rightarrow> cref option \<times> Room" where
  "resolveRestoredClient env username roomID from r =
     (let clientIP = addrToConnIPKey from; ipCount = mget0 (R_ipConnCount r) clientIP in
      if R_maxPerIP r \<le> ipCount then (None, r)
      else
        (let r1 = r\<lparr> R_ipConnCount := mput clientIP (ipCount + 1) (R_ipConnCount r) \<rparr> in
         case find (\<lambda>(k, c). Username (R_heap r c) = username \<and> authRoomID (R_heap r c) = roomID \<and>
                     PublicAddr (R_heap r c) = None \<and> auth (R_heap r c) = authNone)
                (range_clients env r) of
           Some (k, c) \<Rightarrow>
             (let r2 = upd_client c (\<lambda>cl. SetLastSeen (E_now env) (cl\<lparr> PublicAddr := Some from \<rparr>)) r1
              in (Some c, r2\<lparr> R_addrMap := mput (AddrToRateKey from) c (R_addrMap r2) \<rparr>))
         | None \<Rightarrow> (None, decrementIPConnCount clientIP r1)))"

section \<open>Creating players\<close>

text \<open>The virtual address, or None on failure.\<close>

definition doRegisterClient ::
    "Env \<Rightarrow> RegisterPayload \<Rightarrow> UDPAddr \<Rightarrow> Room \<Rightarrow> ip option \<times> Room" where
  "doRegisterClient env rg from r =
     (case nextAvailableIP r of
        None \<Rightarrow> (None, r)
      | Some vip \<Rightarrow>
          (let r1 = markIPUsed vip r;
               c0 = zeroClient\<lparr> Username := Reg_Username rg, VirtualIP := vip, PublicAddr := Some from,
                      auth := authNone, authRoomID := Reg_RoomID rg, clientVersion := Reg_Version rg \<rparr>
           in case GenerateSessionToken (E_token env) c0 of
                None \<Rightarrow> (None, markIPFree vip r1)
              | Some c1 \<Rightarrow>
                  (let (c, r2) = new_client (SetLastSeen (E_now env) c1) r1;
                       r3 = r2\<lparr> R_clients := mput (IPKey vip) c (R_clients r2),
                                R_addrMap := mput (AddrToRateKey from) c (R_addrMap r2),
                                R_lastActivity := E_now env,
                                R_totalRegistrations := R_totalRegistrations r2 + 1 \<rparr>;
                       cur = (of_nat (length (R_clients r3)) :: u32)
                   in (Some vip, if R_peakPlayers r3 < cur then r3\<lparr> R_peakPlayers := cur \<rparr> else r3))))"

definition doSendAuthChallenge ::
    "Env \<Rightarrow> RegisterPayload \<Rightarrow> UDPAddr \<Rightarrow> Room \<Rightarrow> bytes option \<times> Room" where
  "doSendAuthChallenge env rg from r =
     (case GenerateChallenge (E_challenge env) of
        None \<Rightarrow> (None, r)
      | Some ch \<Rightarrow>
          (let cl = SetLastSeen (E_now env)
                      (zeroClient\<lparr> Username := Reg_Username rg, PublicAddr := Some from,
                         auth := authChallengeSent, challenge := ch, challengeAt := Some (E_now env),
                         authRoomID := Reg_RoomID rg, clientVersion := Reg_Version rg \<rparr>);
               (c, r1) = new_client cl r
           in (Some ch, r1\<lparr> R_addrMap := mput (AddrToRateKey from) c (R_addrMap r1),
                            R_pendingAuth := R_pendingAuth r1 + 1 \<rparr>)))"

section \<open>Register\<close>

text \<open>Under the lock: a stale challenge from this endpoint is dropped first.\<close>

definition drop_stale_pending :: "RateKey \<Rightarrow> Room \<Rightarrow> Room" where
  "drop_stale_pending fromKey r =
     (case mget (R_addrMap r) fromKey of
        Some c \<Rightarrow>
          if auth (R_heap r c) = authChallengeSent then
            (let r1 = decrement_for (R_heap r c) r
             in decrement_pending (r1\<lparr> R_addrMap := mdel fromKey (R_addrMap r1) \<rparr>))
          else r
      | None \<Rightarrow> r)"

text \<open>
  The part of \<open>handleRegister\<close> for an endpoint the room does not know: the per-address limit,
  capacity and duplicate names, then registration at once or a challenge.
\<close>

definition handleRegister_new :: "Env \<Rightarrow> RegisterPayload \<Rightarrow> UDPAddr \<Rightarrow> rst \<Rightarrow> rst" where
  "handleRegister_new env rg from st =
     (let t = E_t env; (r, q) = st;
          clientIP = addrToConnIPKey from; ipCount = mget0 (R_ipConnCount r) clientIP in
      if R_maxPerIP r \<le> ipCount then sendKick env from (KickIPLimit t) st
      else
        (let r1 = r\<lparr> R_ipConnCount := mput clientIP (ipCount + 1) (R_ipConnCount r) \<rparr> in
         case checkCapacityAndDuplicate (Reg_Username rg) (Reg_RoomID rg) r1 of
           checkRoomFull \<Rightarrow>
             sendKick env from (KickRoomFull t) (decrementIPConnCount clientIP r1, q)
         | checkDuplicate \<Rightarrow>
             sendKick env from (KickDuplicateName t) (decrementIPConnCount clientIP r1, q)
         | checkOK \<Rightarrow>
             (if R_roomPass r1 = [] then
                (let (vip, r2) = doRegisterClient env rg from r1 in
                 case vip of
                   None \<Rightarrow> sendKick env from (KickIPExhausted t) (r2, q)
                 | Some v \<Rightarrow> announce_join env v from (r2, q))
              else if R_maxPending r1 \<le> R_pendingAuth r1 then
                sendKick env from (KickServerBusy t) (decrementIPConnCount clientIP r1, q)
              else
                (let (ch, r2) = doSendAuthChallenge env rg from r1 in
                 case ch of
                   None \<Rightarrow> sendKick env from (KickInternalError t) (decrementIPConnCount clientIP r2, q)
                 | Some c \<Rightarrow>
                     sendChecked env TypeAuthChallenge
                       (AuthChallenge_Marshal \<lparr> Ch_Challenge = c, Ch_ClientAddr = udp_string from \<rparr>)
                       from (r2, q)))))"

definition handleRegister :: "Env \<Rightarrow> bytes \<Rightarrow> UDPAddr \<Rightarrow> rst \<Rightarrow> rst" where
  "handleRegister env payload from st =
     (case UnmarshalRegister payload of
        Ok rg \<Rightarrow>
          (let t = E_t env; (r0, q) = st in
           if \<not> IsCompatible (Reg_Version rg) AppVersion then
             sendKickCode env from KickCodeVersionMismatch
               (KickVersionMismatch t (Reg_Version rg) AppVersion) st
           else if RuneCount (Reg_Username rg) = 0 \<or> maxUsernameLen < RuneCount (Reg_Username rg) then
             sendKick env from (KickInvalidName t) st
           else if length (Reg_RoomID rg) = 0 \<or> maxRoomIDLen < length (Reg_RoomID rg) then
             sendKick env from (KickInvalidRoom t) st
           else
             (let (rateOK, r1) = checkRegRate from r0 in
              if \<not> rateOK then sendKick env from (KickRateLimit t) (r1, q)
              else
                (let fromKey = AddrToRateKey from; r2 = drop_stale_pending fromKey r1 in
                 case mget (R_addrMap r2) fromKey of
                   Some c \<Rightarrow>
                     (let r3 = upd_client c (\<lambda>cl. (SetLastSeen (E_now env) cl)\<lparr> clientVersion := Reg_Version rg \<rparr>) r2;
                          selfIP = VirtualIP (R_heap r3 c)
                      in sendPeerInfoToClient env from (sendAssignIP env selfIP from (r3, q)))
                 | None \<Rightarrow>
                     (let (restored, r3) = resolveRestoredClient env (Reg_Username rg) (Reg_RoomID rg) from r2 in
                      case restored of
                        Some c \<Rightarrow> announce_join env (VirtualIP (R_heap r3 c)) from (r3, q)
                      | None \<Rightarrow> handleRegister_new env rg from (r3, q)))))
      | _ \<Rightarrow> st)"

section \<open>Authentication response\<close>

text \<open>
  The pending player a response belongs to: the one at its endpoint or, if that is not
  pending, the first pending one with the same room and user name.  Gives the player found
  (pending or not), the key it was found under and whether the scan found it.
\<close>

definition find_pending ::
    "Env \<Rightarrow> AuthResponsePayload \<Rightarrow> RateKey \<Rightarrow> Room \<Rightarrow> (cref option \<times> RateKey \<times> bool)" where
  "find_pending env resp fromKey r =
     (let c = mget (R_addrMap r) fromKey in
      if (case c of None \<Rightarrow> True | Some x \<Rightarrow> auth (R_heap r x) \<noteq> authChallengeSent) then
        (case find (\<lambda>(k, x). auth (R_heap r x) = authChallengeSent \<and>
                      authRoomID (R_heap r x) = Rsp_RoomID resp \<and>
                      Username (R_heap r x) = Rsp_Username resp) (range_addrMap env r) of
           Some (k, x) \<Rightarrow> (Some x, k, True)
         | None \<Rightarrow> (c, fromKey, False))
      else (c, fromKey, False))"

definition challenge_expired :: "Env \<Rightarrow> Client \<Rightarrow> bool" where
  "challenge_expired env c \<longleftrightarrow>
     (case challengeAt c of None \<Rightarrow> True | Some t \<Rightarrow> 15 * second < E_now env - t)"

text \<open>The pending entry is taken out; if the scan found the player, it moves to the new endpoint.\<close>

definition take_pending :: "RateKey \<Rightarrow> Room \<Rightarrow> Room" where
  "take_pending deleteKey r = decrement_pending (r\<lparr> R_addrMap := mdel deleteKey (R_addrMap r) \<rparr>)"

definition rehome_pending :: "bool \<Rightarrow> UDPAddr \<Rightarrow> cref \<Rightarrow> Room \<Rightarrow> Room" where
  "rehome_pending foundByScan from c r =
     (if foundByScan then
        (let x = upd_client c (\<lambda>cl. cl\<lparr> PublicAddr := Some from \<rparr>) r
         in x\<lparr> R_addrMap := mput (AddrToRateKey from) c (R_addrMap x) \<rparr>)
      else r)"

text \<open>After the HMAC has been verified: capacity, the address maps, registration.\<close>

definition admit_verified ::
    "Env \<Rightarrow> AuthResponsePayload \<Rightarrow> UDPAddr \<Rightarrow> cref \<Rightarrow> RateKey \<Rightarrow> bool \<Rightarrow> rst \<Rightarrow> rst" where
  "admit_verified env resp from c oldKey foundByScan st =
     (let t = E_t env; (r, q) = st; fromKey = AddrToRateKey from in
      case checkCapacityAndDuplicate (Rsp_Username resp) (Rsp_RoomID resp) r of
        checkRoomFull \<Rightarrow> sendKick env from (KickRoomFull t) (decrement_for (R_heap r c) r, q)
      | checkDuplicate \<Rightarrow> sendKick env from (KickDuplicateName t) (decrement_for (R_heap r c) r, q)
      | checkOK \<Rightarrow>
          (let deleteKey = (if foundByScan then oldKey else fromKey);
               r2 = rehome_pending foundByScan from c (take_pending deleteKey r);
               cl = R_heap r2 c;
               rg = \<lparr> Reg_RoomID = authRoomID cl, Reg_Username = Username cl, Reg_Version = clientVersion cl \<rparr>;
               (vip, r3) = doRegisterClient env rg from r2
           in case vip of
                None \<Rightarrow> sendKick env from (KickIPExhausted t) (r3, q)
              | Some v \<Rightarrow> announce_join env v from (r3, q)))"

definition handleAuthResponse :: "Env \<Rightarrow> bytes \<Rightarrow> UDPAddr \<Rightarrow> rst \<Rightarrow> rst" where
  "handleAuthResponse env payload from st =
     (case UnmarshalAuthResponse payload of
        Ok resp \<Rightarrow>
          if length (Rsp_HMAC resp) \<noteq> HMACSize then st
          else
            (let t = E_t env; (r, q) = st; fromKey = AddrToRateKey from;
                 (found, oldKey, foundByScan) = find_pending env resp fromKey r in
             case found of
               None \<Rightarrow> sendKick env from (KickAuthAbnormal t) st
             | Some c \<Rightarrow>
                 (let cl = R_heap r c; drop = cleanupPendingAuth fromKey oldKey foundByScan c in
                  if auth cl \<noteq> authChallengeSent then
                    sendKick env from (KickAuthAbnormal t) (drop r, q)
                  else if challenge_expired env cl then
                    sendKick env from (KickAuthTimeout t) (drop r, q)
                  else
                    (let (key, r1) = getAuthKey (authRoomID cl) r in
                     if key = [] then sendKick env from (KickInternalError t) (drop r1, q)
                     else if \<not> VerifyHMAC key (Rsp_HMAC resp) (challenge cl) (Rsp_RoomID resp)
                                (Rsp_Username resp) (PublicAddr cl) then
                       (let r2 = drop r1
                        in sendKickCode env from KickCodeWrongPassword (KickWrongPassword t)
                             (r2\<lparr> R_authFailures := R_authFailures r2 + 1 \<rparr>, q))
                     else admit_verified env resp from c oldKey foundByScan (r1, q))))
      | _ \<Rightarrow> st)"

end
