(* ===== verification/RoomRelay.thy ===== *)
theory RoomRelay
  imports Room
begin

text \<open>
  Relaying between players (server/room_relay.go): the check of the sender, the choice of
  the targets, forwarding, hole punching and peer requests.
\<close>

definition tcpBridgeAddr :: ip where "tcpBridgeAddr = IPv4 127 0 0 254"

section \<open>Token check\<close>

text \<open>
  The test both \<open>handleRelay\<close> and \<open>tryMigrateAddrMap\<close> make of a packet against a player: a
  token that is present must be the player's; a packet without the token flag passes.
\<close>

definition token_ok :: "bytes \<Rightarrow> Client \<Rightarrow> bool" where
  "token_ok payload c =
     (if MinTokenVersion \<le> clientVersion c \<and> HasSessionToken c then
        (if length payload \<le> 8 then False
         else
           (let (flags, tokenOff, isNew) = ParseDataHeader payload in
            if has_token flags then
              (if length payload < tokenOff + DataTokenLen then False
               else ValidateSessionToken (take DataTokenLen (drop tokenOff payload)) c)
            else True))
      else True)"

definition tryMigrateAddrMap :: "Env \<Rightarrow> UDPAddr \<Rightarrow> bytes \<Rightarrow> bytes \<Rightarrow> Room \<Rightarrow> cref option \<times> Room" where
  "tryMigrateAddrMap env from srcIP payload r =
     (case mget (R_clients r) (IPKey srcIP) of
        None \<Rightarrow> (None, r)
      | Some c \<Rightarrow>
          if \<not> token_ok payload (R_heap r c) then (None, r)
          else
            (case mget (R_addrMap r) (AddrToRateKey from) of
               Some e \<Rightarrow> (Some e, r)
             | None \<Rightarrow>
                 (let am = (case PublicAddr (R_heap r c) of None \<Rightarrow> R_addrMap r
                            | Some a \<Rightarrow> mdel (AddrToRateKey a) (R_addrMap r));
                      r1 = upd_client c (\<lambda>cl. SetLastSeen (E_now env) (cl\<lparr> PublicAddr := Some from \<rparr>)) r
                  in (Some c, r1\<lparr> R_addrMap := mput (AddrToRateKey from) c am \<rparr>))))"

section \<open>Targets and forwarding\<close>

definition relay_targets :: "Env \<Rightarrow> Room \<Rightarrow> cref \<Rightarrow> bytes \<Rightarrow> UDPAddr list" where
  "relay_targets env r sender dstIP =
     (if IsRelayTargetRaw dstIP (Some (R_subnet r)) then
        public_addrs r (filter (\<lambda>(k, c). c \<noteq> sender) (range_clients env r))
      else
        (case mget (R_clients r) (IPKey4 dstIP) of
           None \<Rightarrow> []
         | Some c \<Rightarrow> (case PublicAddr (R_heap r c) of None \<Rightarrow> [] | Some a \<Rightarrow> [a])))"

definition relay_encode :: "Room \<Rightarrow> bytes \<Rightarrow> bytes" where
  "relay_encode r payload =
     (if R_roomPass r \<noteq> [] then Encode TypeData payload else EncodeChecked TypeData payload)"

text \<open>The unicast branch: the room's own bandwidth check, skipped for bridged clients, then the queue.\<close>

definition forward_unicast :: "Env \<Rightarrow> bytes \<Rightarrow> UDPAddr \<Rightarrow> rst \<Rightarrow> rst" where
  "forward_unicast env encoded addr st =
     (let (r, q) = st in
      if \<not> R_bwLimiter r \<or> ip_equal (UDP_IP addr) tcpBridgeAddr then sendCheckedRaw env encoded addr st
      else
        (let (ok, l) = BL_Allow (E_now env) addr (length encoded) (RLQ_limiter q);
             q' = q\<lparr> RLQ_limiter := l \<rparr>
         in if ok then sendCheckedRaw env encoded addr (r, q') else (r, q')))"

text \<open>The sender: the player at the endpoint, or one that a migration attaches to it.\<close>

definition relay_sender :: "Env \<Rightarrow> bytes \<Rightarrow> UDPAddr \<Rightarrow> Room \<Rightarrow> cref option \<times> Room" where
  "relay_sender env payload from r =
     (case mget (R_addrMap r) (AddrToRateKey from) of
        Some c \<Rightarrow> (Some c, r)
      | None \<Rightarrow> tryMigrateAddrMap env from (take 4 payload) payload r)"

text \<open>Encode once, then send to every target.\<close>

definition relay_forward :: "Env \<Rightarrow> bytes \<Rightarrow> UDPAddr list \<Rightarrow> rst \<Rightarrow> rst" where
  "relay_forward env payload targets st =
     (let r = fst st; encoded = relay_encode r payload;
          isBroadcast = IsRelayTargetRaw (take 4 (drop 4 payload)) (Some (R_subnet r));
          st1 = (if isBroadcast then fold (sendCheckedRawBypass encoded) targets st
                 else fold (forward_unicast env encoded) targets st)
      in ((fst st1)\<lparr> R_totalPacketsRelay := R_totalPacketsRelay (fst st1) + 1 \<rparr>, snd st1))"

definition handleRelay :: "Env \<Rightarrow> bytes \<Rightarrow> UDPAddr \<Rightarrow> rst \<Rightarrow> rst" where
  "handleRelay env payload from st =
     (if length payload < 8 then st
      else
        (let (sender, r) = relay_sender env payload from (fst st); q = snd st;
             srcIP = take 4 payload; dstIP = take 4 (drop 4 payload)
         in case sender of
              None \<Rightarrow> (r, q)
            | Some s \<Rightarrow>
                if To4 (VirtualIP (R_heap r s)) \<noteq> Some srcIP then (r, q)
                else if \<not> token_ok payload (R_heap r s) then (r, q)
                else
                  (let targets = relay_targets env r s dstIP in
                   if targets = [] then (r, q) else relay_forward env payload targets (r, q))))"

section \<open>Hole punching and peer requests\<close>

definition handleHolePunch :: "Env \<Rightarrow> bytes \<Rightarrow> UDPAddr \<Rightarrow> rst \<Rightarrow> rst" where
  "handleHolePunch env payload from st =
     (if length payload < 4 then st
      else
        (let r = fst st; dstIP = take 4 payload in
         case (mget (R_addrMap r) (AddrToRateKey from), mget (R_clients r) (IPKey4 dstIP)) of
           (Some src, Some dst) \<Rightarrow>
             (case PublicAddr (R_heap r dst) of
                None \<Rightarrow> st
              | Some dstAddr \<Rightarrow>
                  if VirtualIP (R_heap r src) = [] then st
                  else
                    (let vip4 = (case To4 (VirtualIP (R_heap r src)) of Some v \<Rightarrow> v | None \<Rightarrow> []);
                         punchData = AppendAddrStr vip4 from
                     in sendChecked env TypeHolePunch punchData dstAddr st))
         | _ \<Rightarrow> st))"

definition handlePeerRequest :: "Env \<Rightarrow> UDPAddr \<Rightarrow> rst \<Rightarrow> rst" where
  "handlePeerRequest env from st =
     (case mget (R_addrMap (fst st)) (AddrToRateKey from) of
        None \<Rightarrow> st
      | Some c \<Rightarrow> sendPeerInfoToClient env from st)"

end
