(* ===== verification/RoomLife.thy ===== *)
theory RoomLife
  imports RoomAuth RoomRelay
begin

text \<open>
  Keepalives, leaving, removal of silent players (server/room_lifecycle.go), pings and the
  periodic peer list (room_ping.go), and the room's dispatcher HandlePacket.
\<close>

section \<open>Keepalive and leaving\<close>

definition handleKeepAliveWithPayload :: "Env \<Rightarrow> bytes \<Rightarrow> UDPAddr \<Rightarrow> rst \<Rightarrow> rst" where
  "handleKeepAliveWithPayload env payload from st =
     (let (r, q) = st in
      case mget (R_addrMap r) (AddrToRateKey from) of
        None \<Rightarrow> st
      | Some c \<Rightarrow>
          (upd_client c (\<lambda>cl.
             let cl1 = SetLastSeen (E_now env) cl
             in if 1 \<le> length payload then cl1\<lparr> C_NATType := payload ! 0 \<rparr> else cl1) r, q))"

definition handleDisconnect :: "Env \<Rightarrow> UDPAddr \<Rightarrow> rst \<Rightarrow> rst" where
  "handleDisconnect env from st =
     (let (r, q) = st; fromKey = AddrToRateKey from in
      case mget (R_addrMap r) fromKey of
        None \<Rightarrow> st
      | Some c \<Rightarrow>
          (let cl = R_heap r c;
               r0 = r\<lparr> R_lastActivity := E_now env \<rparr>;
               r1 = (if auth cl = authChallengeSent then decrement_for cl (decrement_pending r0)
                     else
                       (let x = markIPFree (VirtualIP cl) r0
                        in decrement_for cl (x\<lparr> R_clients := mdel (IPKey (VirtualIP cl)) (R_clients x) \<rparr>)));
               r2 = r1\<lparr> R_addrMap := mdel fromKey (R_addrMap r1) \<rparr>;
               q1 = (if R_bwLimiter r2 then q\<lparr> RLQ_limiter := BL_Remove from (RLQ_limiter q) \<rparr> else q)
           in (markDirty (invalidatePeerInfoCache r2), q1)))"

section \<open>Removal of silent players\<close>

definition stale_client :: "Env \<Rightarrow> Room \<Rightarrow> cref \<Rightarrow> bool" where
  "stale_client env r c \<longleftrightarrow> 30 * second < E_now env - GetLastSeen (R_heap r c)"

definition stale_auth :: "Env \<Rightarrow> Room \<Rightarrow> cref \<Rightarrow> bool" where
  "stale_auth env r c \<longleftrightarrow> auth (R_heap r c) = authChallengeSent \<and>
     (case challengeAt (R_heap r c) of None \<Rightarrow> True | Some t \<Rightarrow> 30 * second < E_now env - t)"

text \<open>
  The two passes under the write lock, with their re-checks.  The endpoint keys of the first
  scan are those of the second: nothing runs in between in this model.
\<close>

definition remove_stale_client :: "Env \<Rightarrow> ipkey \<times> cref \<Rightarrow> Room \<times> bool \<Rightarrow> Room \<times> bool" where
  "remove_stale_client env kc rb =
     (let (k, c) = kc; (r, changed) = rb in
      if mget (R_clients r) k = Some c \<and> stale_client env r c then
        (let cl = R_heap r c; r1 = markIPFree (VirtualIP cl) r;
             r2 = r1\<lparr> R_clients := mdel k (R_clients r1) \<rparr>;
             r3 = (case PublicAddr cl of None \<Rightarrow> r2
                   | Some a \<Rightarrow> decrementIPConnCount (addrToConnIPKey a)
                                 (r2\<lparr> R_addrMap := mdel (AddrToRateKey a) (R_addrMap r2) \<rparr>))
         in (r3, True))
      else (r, changed))"

definition remove_stale_auth :: "RateKey \<times> cref \<Rightarrow> Room \<Rightarrow> Room" where
  "remove_stale_auth kc r =
     (let (k, c) = kc in
      if mget (R_addrMap r) k = Some c then
        decrement_for (R_heap r c) (decrement_pending (r\<lparr> R_addrMap := mdel k (R_addrMap r) \<rparr>))
      else r)"

definition CleanupStale :: "Env \<Rightarrow> Room \<Rightarrow> bool \<times> Room" where
  "CleanupStale env r =
     (let staleClients = filter (\<lambda>(k, c). stale_client env r c) (range_clients env r);
          staleAuths = filter (\<lambda>(k, c). stale_auth env r c) (range_addrMap env r)
      in if staleClients = [] \<and> staleAuths = [] then (False, r)
         else
           (let (r1, changed) = fold (remove_stale_client env) staleClients (r, False);
                r2 = fold remove_stale_auth staleAuths r1
            in (changed, if changed then markDirty r2 else r2)))"

section \<open>Pings and the peer-list ticker (room_ping.go)\<close>

definition peerInfo_tick :: "Env \<Rightarrow> rst \<Rightarrow> rst" where
  "peerInfo_tick env st =
     (if R_peerInfoDirty (fst st)
      then sendPeerInfoBroadcast env ((fst st)\<lparr> R_peerInfoDirty := False \<rparr>, snd st)
      else st)"

definition mark_missed :: "Env \<Rightarrow> ipkey \<times> cref \<Rightarrow> Room \<Rightarrow> Room" where
  "mark_missed env kc r =
     (case lastPingSent (R_heap r (snd kc)) of
        None \<Rightarrow> r
      | Some t \<Rightarrow> if 2 * pingInterval < E_now env - t then upd_client (snd kc) (ping_push 0) r else r)"

definition send_ping :: "Env \<Rightarrow> bytes \<Rightarrow> ipkey \<times> cref \<Rightarrow> rst \<Rightarrow> rst" where
  "send_ping env encoded kc st =
     (let (r, q) = st; c = snd kc in
      case PublicAddr (R_heap r c) of
        None \<Rightarrow> st
      | Some a \<Rightarrow>
          sendCheckedRaw env encoded a
            (upd_client c (\<lambda>cl. cl\<lparr> pingSeq := pingSeq cl + 1, lastPingSent := Some (E_now env),
                                   lastPingSeq := pingSeq cl + 1 \<rparr>) r, q))"

definition ping_tick :: "Env \<Rightarrow> rst \<Rightarrow> rst" where
  "ping_tick env st =
     (if R_clients (fst st) = [] then st
      else
        (let kcs = range_clients env (fst st);
             r1 = fold (mark_missed env) kcs (fst st);
             encoded = EncodeChecked TypePing (Ping_Marshal \<lparr> Ping_Timestamp = of_int (E_now env) \<rparr>)
         in fold (send_ping env encoded) kcs (r1, snd st)))"

text \<open>\<open>time.Since\<close> saturates where this subtraction does not; both are out of the accepted range then.\<close>

definition handlePong :: "Env \<Rightarrow> bytes \<Rightarrow> UDPAddr \<Rightarrow> rst \<Rightarrow> rst" where
  "handlePong env payload from st =
     (case UnmarshalPing payload of
        Ok ping \<Rightarrow>
          (let (r, q) = st; rtt = E_now env - sint (Ping_Timestamp ping) in
           if rtt < 0 \<or> 10 * second < rtt then st
           else
             (case mget (R_addrMap r) (AddrToRateKey from) of
                None \<Rightarrow> st
              | Some c \<Rightarrow> (upd_client c (\<lambda>cl. ping_push rtt (cl\<lparr> RTT := rtt \<rparr>)) r, q)))
      | _ \<Rightarrow> st)"

section \<open>Address migration on request\<close>

text \<open>
  The room's part of \<open>handleRebind\<close> (keepalive_server.go): the player under \<open>vipKey\<close> moves from
  its old endpoint to the new one, if it is still there.
\<close>

definition rebind_update :: "Env \<Rightarrow> ipkey \<Rightarrow> cref \<Rightarrow> UDPAddr option \<Rightarrow> UDPAddr \<Rightarrow> Room \<Rightarrow> Room" where
  "rebind_update env vipKey c oldAddr from r =
     (let am = (case oldAddr of None \<Rightarrow> R_addrMap r | Some a \<Rightarrow> mdel (AddrToRateKey a) (R_addrMap r));
          r1 = upd_client c (\<lambda>cl. SetLastSeen (E_now env) (cl\<lparr> PublicAddr := Some from \<rparr>)) r
      in r1\<lparr> R_addrMap := mput (AddrToRateKey from) c am, R_lastActivity := E_now env \<rparr>)"

section \<open>Dispatch\<close>

definition HandlePacket :: "Env \<Rightarrow> byte \<Rightarrow> bytes \<Rightarrow> UDPAddr \<Rightarrow> rst \<Rightarrow> rst" where
  "HandlePacket env msgType payload from st =
     (if msgType = TypeRegister then handleRegister env payload from st
      else if msgType = TypeAuthResponse then handleAuthResponse env payload from st
      else if msgType = TypeKeepAlive then handleKeepAliveWithPayload env payload from st
      else if msgType = TypePeerRequest then handlePeerRequest env from st
      else if msgType = TypeData then handleRelay env payload from st
      else if msgType = TypeHolePunch then handleHolePunch env payload from st
      else if msgType = TypeDisconnect then handleDisconnect env from st
      else if msgType = TypePong then handlePong env payload from st
      else st)"

end
