(* ===== verification/RoomInv.thy ===== *)
theory RoomInv
  imports RoomLife
begin

text \<open>
  The invariant of a room and its preservation by every operation: the address bitmap
  agrees with the player map, every endpoint entry leads to a player with that
  endpoint, admitted players are in the player map under their own address, and the
  counters stay within their bounds.
\<close>

section \<open>The invariant\<close>

definition vip_at :: "Room \<Rightarrow> nat \<Rightarrow> ip" where
  "vip_at r n = (let b = the (To4 (IPNet_IP (R_subnet r))) in IPv4 (b ! 0) (b ! 1) (b ! 2) (of_nat n))"

definition clients_wf :: "Room \<Rightarrow> bool" where
  "clients_wf r \<longleftrightarrow> distinct (mkeys (R_clients r)) \<and>
     (\<forall>k c. mget (R_clients r) k = Some c \<longrightarrow>
        c < R_next r \<and> auth (R_heap r c) = authNone \<and> k = IPKey (VirtualIP (R_heap r c)) \<and>
        (\<exists>n. assignable n \<and> VirtualIP (R_heap r c) = vip_at r n))"

definition bitmap_wf :: "Room \<Rightarrow> bool" where
  "bitmap_wf r \<longleftrightarrow> bm_inv (R_ipBitmap r) \<and> {0, 1, 255} \<subseteq> bm_set (R_ipBitmap r) \<and>
     (\<forall>n. assignable n \<longrightarrow>
        (n \<in> bm_set (R_ipBitmap r) \<longleftrightarrow> mget (R_clients r) (IPKey (vip_at r n)) \<noteq> None))"

definition addr_wf :: "Room \<Rightarrow> bool" where
  "addr_wf r \<longleftrightarrow> distinct (mkeys (R_addrMap r)) \<and>
     (\<forall>k c. mget (R_addrMap r) k = Some c \<longrightarrow>
        c < R_next r \<and> (\<exists>a. PublicAddr (R_heap r c) = Some a \<and> k = AddrToRateKey a) \<and>
        (auth (R_heap r c) = authNone \<longrightarrow>
           mget (R_clients r) (IPKey (VirtualIP (R_heap r c))) = Some c) \<and>
        (auth (R_heap r c) = authChallengeSent \<longrightarrow> VirtualIP (R_heap r c) = []))"

definition count_wf :: "Room \<Rightarrow> bool" where
  "count_wf r \<longleftrightarrow> 0 \<le> R_pendingAuth r \<and> R_pendingAuth r \<le> max 0 (R_maxPending r) \<and>
     1 \<le> R_maxPerIP r \<and> distinct (mkeys (R_ipConnCount r)) \<and>
     (\<forall>k n. mget (R_ipConnCount r) k = Some n \<longrightarrow> 1 \<le> n \<and> n \<le> R_maxPerIP r)"

definition keys_wf :: "Room \<Rightarrow> bool" where
  "keys_wf r \<longleftrightarrow> (\<forall>i k. mget (R_authKeys r) i = Some k \<longrightarrow> k = DeriveKey (R_roomPass r) i)"

definition room_wf :: "Room \<Rightarrow> bool" where
  "room_wf r \<longleftrightarrow> To4 (IPNet_IP (R_subnet r)) \<noteq> None \<and> clients_wf r \<and> bitmap_wf r \<and> addr_wf r \<and>
     count_wf r \<and> keys_wf r"

section \<open>What the invariant depends on\<close>

text \<open>Everything but caches, statistics, flags and times.\<close>

definition core :: "Room \<Rightarrow> _" where
  "core r = (R_subnet r, R_maxPlayers r, R_clients r, R_addrMap r, R_heap r, R_next r,
     R_ipBitmap r, R_pendingAuth r, R_maxPending r, R_ipConnCount r, R_maxPerIP r, R_roomPass r,
     R_authKeys r)"

lemma core_fields:
  assumes "core r = core r'"
  shows "R_subnet r = R_subnet r'" "R_maxPlayers r = R_maxPlayers r'" "R_clients r = R_clients r'"
    "R_addrMap r = R_addrMap r'" "R_heap r = R_heap r'" "R_next r = R_next r'"
    "R_ipBitmap r = R_ipBitmap r'" "R_pendingAuth r = R_pendingAuth r'"
    "R_maxPending r = R_maxPending r'" "R_ipConnCount r = R_ipConnCount r'"
    "R_maxPerIP r = R_maxPerIP r'" "R_roomPass r = R_roomPass r'" "R_authKeys r = R_authKeys r'"
  using assms by (simp_all add: core_def)

lemma room_wf_core:
  assumes "core r = core r'"
  shows "room_wf r = room_wf r'"
  unfolding room_wf_def clients_wf_def bitmap_wf_def addr_wf_def count_wf_def keys_wf_def vip_at_def
    core_fields[OF assms] ..

named_theorems core_simps \<open>operations that leave the core of a room alone\<close>

lemma core_updates [core_simps]:
  "core (r\<lparr> R_regBuf0 := b0, R_regBuf1 := b1 \<rparr>) = core r"
  "core (r\<lparr> R_lastActivity := t \<rparr>) = core r"
  "core (r\<lparr> R_peerInfoDirty := d \<rparr>) = core r"
  "core (r\<lparr> R_authFailures := f \<rparr>) = core r"
  "core (r\<lparr> R_totalPacketsRelay := f \<rparr>) = core r"
  "core (r\<lparr> R_totalKicks := f \<rparr>) = core r"
  "core (r\<lparr> R_done := dn \<rparr>) = core r"
  by (simp_all add: core_def)

lemma core_note_send [core_simps]: "core (note_send env ok r) = core r"
  by (simp add: note_send_def logSendError_def core_def Let_def)

lemma core_sendChecked [core_simps]: "core (fst (sendChecked env t p a st)) = core (fst st)"
  by (simp add: sendChecked_def core_note_send split: prod.split)

lemma core_sendCheckedRaw [core_simps]: "core (fst (sendCheckedRaw env d a st)) = core (fst st)"
  by (simp add: sendCheckedRaw_def core_note_send split: prod.split)

lemma core_sendBypass [core_simps]: "core (fst (sendCheckedRawBypass d a st)) = core (fst st)"
  by (simp add: sendCheckedRawBypass_def split: prod.split)

lemma core_sendKickCode [core_simps]: "core (fst (sendKickCode env a c s st)) = core (fst st)"
  by (simp add: sendKickCode_def case_prod_beta core_updates core_sendChecked)

lemma core_sendKick [core_simps]: "core (fst (sendKick env a s st)) = core (fst st)"
  by (simp add: sendKick_def core_sendKickCode)

lemma core_sendAssignIP [core_simps]: "core (fst (sendAssignIP env v a st)) = core (fst st)"
  by (simp add: sendAssignIP_def core_sendChecked Let_def)

lemma core_fold:
  "(\<And>x st. core (fst (f x st)) = core (fst st)) \<Longrightarrow> core (fst (fold f xs st)) = core (fst st)"
  by (induction xs arbitrary: st) simp_all

lemma core_getEncodedPeerInfo [core_simps]: "core (snd (getEncodedPeerInfo env r)) = core r"
  by (simp add: getEncodedPeerInfo_def core_def Let_def)

lemma core_sendPeerInfoToClient [core_simps]:
  "core (fst (sendPeerInfoToClient env a st)) = core (fst st)"
  using core_getEncodedPeerInfo[of env "fst st"]
  by (simp add: sendPeerInfoToClient_def core_sendCheckedRaw split: prod.split) (metis snd_conv)

lemma core_sendPeerInfoBroadcast [core_simps]:
  "core (fst (sendPeerInfoBroadcast env st)) = core (fst st)"
  using core_getEncodedPeerInfo[of env "fst st"] core_fold[of "sendCheckedRawBypass _"]
  by (simp add: sendPeerInfoBroadcast_def core_sendBypass Let_def split: prod.split) (metis snd_conv)

lemma core_flags [core_simps]:
  "core (markDirty r) = core r" "core (invalidatePeerInfoCache r) = core r"
  by (simp_all add: markDirty_def invalidatePeerInfoCache_def core_def)

lemma core_announce_join [core_simps]: "core (fst (announce_join env v a st)) = core (fst st)"
  by (simp add: announce_join_def Let_def core_simps)

lemma core_checkRegRate [core_simps]: "core (snd (checkRegRate a r)) = core r"
  by (simp add: checkRegRate_def core_def Let_def split: prod.split)

lemma core_forward_unicast [core_simps]: "core (fst (forward_unicast env d a st)) = core (fst st)"
  by (auto simp: forward_unicast_def Let_def core_simps split: prod.split)

lemma core_notifyShutdown [core_simps]: "core (fst (notifyShutdown env st)) = core (fst st)"
  by (auto simp: notifyShutdown_def Let_def intro!: core_fold core_sendChecked)

lemma core_reg_tick [core_simps]: "core (reg_tick r) = core r" "core (Room_Stop r) = core r"
  by (simp_all add: reg_tick_def reg_swap_def Room_Stop_def core_def)

lemma core_handleHolePunch [core_simps]: "core (fst (handleHolePunch env p a st)) = core (fst st)"
  by (auto simp: handleHolePunch_def Let_def core_simps split: option.split)

lemma core_handlePeerRequest [core_simps]: "core (fst (handlePeerRequest env a st)) = core (fst st)"
  by (auto simp: handlePeerRequest_def core_simps split: option.split)

lemma core_peerInfo_tick [core_simps]: "core (fst (peerInfo_tick env st)) = core (fst st)"
  by (simp add: peerInfo_tick_def core_simps)

section \<open>Elementary updates\<close>

lemma vip_at_To4 [simp]:
  "To4 (vip_at r n) = Some [the (To4 (IPNet_IP (R_subnet r))) ! 0, the (To4 (IPNet_IP (R_subnet r))) ! 1,
     the (To4 (IPNet_IP (R_subnet r))) ! 2, of_nat n]"
  by (simp add: vip_at_def Let_def)

lemma IPKey_vip_at: "IPKey (vip_at r n) = IPKey4 [the (To4 (IPNet_IP (R_subnet r))) ! 0,
    the (To4 (IPNet_IP (R_subnet r))) ! 1, the (To4 (IPNet_IP (R_subnet r))) ! 2, of_nat n]"
  by (rule IPKey_To4) simp

lemma assignable_of_nat: "assignable n \<Longrightarrow> unat (of_nat n :: byte) = n"
  by (simp add: assignable_def unat_of_nat take_bit_nat_eq_self)

lemma IPKey_vip_at_inj:
  assumes "assignable m" "assignable n"
  shows "IPKey (vip_at r m) = IPKey (vip_at r n) \<longleftrightarrow> m = n"
proof
  assume "IPKey (vip_at r m) = IPKey (vip_at r n)"
  then have "(of_nat m :: byte) = of_nat n" unfolding IPKey_vip_at IPKey4_inject by blast
  then show "m = n" using assignable_of_nat[OF assms(1)] assignable_of_nat[OF assms(2)] by metis
qed simp

text \<open>An update of a player that keeps its addresses and its state.\<close>

lemma wf_upd_client:
  assumes "room_wf r"
    and "\<And>cl. VirtualIP (f cl) = VirtualIP cl" "\<And>cl. PublicAddr (f cl) = PublicAddr cl"
      "\<And>cl. auth (f cl) = auth cl"
  shows "room_wf (upd_client c f r)"
proof -
  have "VirtualIP (R_heap (upd_client c f r) x) = VirtualIP (R_heap r x)"
    "PublicAddr (R_heap (upd_client c f r) x) = PublicAddr (R_heap r x)"
    "auth (R_heap (upd_client c f r) x) = auth (R_heap r x)" for x
    using assms(2-4) by (simp_all add: upd_client_def)
  then show ?thesis
    using assms(1)
    unfolding room_wf_def clients_wf_def bitmap_wf_def addr_wf_def count_wf_def keys_wf_def vip_at_def
    by (simp add: upd_client_def)
qed

lemma wf_del_addr:
  assumes "room_wf r"
  shows "room_wf (r\<lparr> R_addrMap := mdel k (R_addrMap r) \<rparr>)"
proof -
  have "addr_wf (r\<lparr> R_addrMap := mdel k (R_addrMap r) \<rparr>)"
    using assms by (auto simp: room_wf_def addr_wf_def split: if_splits)
  with assms show ?thesis
    by (simp add: room_wf_def clients_wf_def bitmap_wf_def count_wf_def keys_wf_def vip_at_def)
qed

lemma wf_count_only:
  assumes "room_wf r" "count_wf r'"
    "R_subnet r' = R_subnet r" "R_clients r' = R_clients r" "R_addrMap r' = R_addrMap r"
    "R_heap r' = R_heap r" "R_next r' = R_next r" "R_ipBitmap r' = R_ipBitmap r"
    "R_authKeys r' = R_authKeys r" "R_roomPass r' = R_roomPass r"
  shows "room_wf r'"
  using assms
  unfolding room_wf_def clients_wf_def bitmap_wf_def addr_wf_def keys_wf_def vip_at_def by simp

lemma decrementIPConnCount_fields [simp]:
  "R_subnet (decrementIPConnCount k r) = R_subnet r" "R_clients (decrementIPConnCount k r) = R_clients r"
  "R_addrMap (decrementIPConnCount k r) = R_addrMap r" "R_heap (decrementIPConnCount k r) = R_heap r"
  "R_next (decrementIPConnCount k r) = R_next r" "R_ipBitmap (decrementIPConnCount k r) = R_ipBitmap r"
  "R_pendingAuth (decrementIPConnCount k r) = R_pendingAuth r"
  "R_maxPending (decrementIPConnCount k r) = R_maxPending r"
  "R_maxPerIP (decrementIPConnCount k r) = R_maxPerIP r"
  "R_maxPlayers (decrementIPConnCount k r) = R_maxPlayers r"
  "R_roomPass (decrementIPConnCount k r) = R_roomPass r" "R_authKeys (decrementIPConnCount k r) = R_authKeys r"
  by (simp_all add: decrementIPConnCount_def split: option.split)

lemma decrement_for_fields [simp]:
  "R_subnet (decrement_for c r) = R_subnet r" "R_clients (decrement_for c r) = R_clients r"
  "R_addrMap (decrement_for c r) = R_addrMap r" "R_heap (decrement_for c r) = R_heap r"
  "R_next (decrement_for c r) = R_next r" "R_ipBitmap (decrement_for c r) = R_ipBitmap r"
  "R_pendingAuth (decrement_for c r) = R_pendingAuth r" "R_maxPending (decrement_for c r) = R_maxPending r"
  "R_maxPerIP (decrement_for c r) = R_maxPerIP r" "R_maxPlayers (decrement_for c r) = R_maxPlayers r"
  "R_roomPass (decrement_for c r) = R_roomPass r" "R_authKeys (decrement_for c r) = R_authKeys r"
  by (simp_all add: decrement_for_def split: option.split)

lemma decrement_pending_fields [simp]:
  "R_subnet (decrement_pending r) = R_subnet r" "R_clients (decrement_pending r) = R_clients r"
  "R_addrMap (decrement_pending r) = R_addrMap r" "R_heap (decrement_pending r) = R_heap r"
  "R_next (decrement_pending r) = R_next r" "R_ipBitmap (decrement_pending r) = R_ipBitmap r"
  "R_ipConnCount (decrement_pending r) = R_ipConnCount r"
  "R_maxPending (decrement_pending r) = R_maxPending r" "R_maxPerIP (decrement_pending r) = R_maxPerIP r"
  "R_maxPlayers (decrement_pending r) = R_maxPlayers r" "R_roomPass (decrement_pending r) = R_roomPass r" "R_authKeys (decrement_pending r) = R_authKeys r"
  by (simp_all add: decrement_pending_def)

lemma count_decrementIPConnCount: "count_wf r \<Longrightarrow> count_wf (decrementIPConnCount k r)"
proof (cases "mget (R_ipConnCount r) k")
  case (Some n)
  assume w: "count_wf r"
  then have "1 \<le> n \<and> n \<le> R_maxPerIP r" "1 \<le> R_maxPerIP r" using Some unfolding count_wf_def by blast+
  then have "1 \<le> n" "n - 1 \<le> R_maxPerIP r" "1 \<le> R_maxPerIP r" by simp_all
  with w Some show "count_wf (decrementIPConnCount k r)"
    by (auto simp: count_wf_def decrementIPConnCount_def split: if_splits)
qed (auto simp: count_wf_def decrementIPConnCount_def split: if_splits)

lemma wf_decrementIPConnCount: "room_wf r \<Longrightarrow> room_wf (decrementIPConnCount k r)"
  by (rule wf_count_only[of r]) (simp_all add: room_wf_def count_decrementIPConnCount)

lemma wf_decrement_for: "room_wf r \<Longrightarrow> room_wf (decrement_for c r)"
  by (simp add: decrement_for_def wf_decrementIPConnCount split: option.split)

lemma wf_decrement_pending: "room_wf r \<Longrightarrow> room_wf (decrement_pending r)"
  by (rule wf_count_only[of r]) (simp_all add: room_wf_def count_wf_def decrement_pending_def)

lemma wf_inc_ip:
  assumes "room_wf r" "mget0 (R_ipConnCount r) k < R_maxPerIP r"
  shows "room_wf (r\<lparr> R_ipConnCount := mput k (mget0 (R_ipConnCount r) k + 1) (R_ipConnCount r) \<rparr>)"
proof -
  have "0 \<le> mget0 (R_ipConnCount r) k"
    using assms(1) by (force simp: mget0_def room_wf_def count_wf_def split: option.split)
  then have "count_wf (r\<lparr> R_ipConnCount := mput k (mget0 (R_ipConnCount r) k + 1) (R_ipConnCount r) \<rparr>)"
    using assms by (auto simp: room_wf_def count_wf_def split: if_splits)
  from wf_count_only[OF assms(1) this] show ?thesis by simp
qed

section \<open>Endpoints\<close>

text \<open>By the invariant a player occurs in the endpoint map at most once, under its own endpoint.\<close>

lemma addr_key_unique:
  "room_wf r \<Longrightarrow> mget (R_addrMap r) k = Some c \<Longrightarrow>
   \<exists>a. PublicAddr (R_heap r c) = Some a \<and> k = AddrToRateKey a"
  by (auto simp: room_wf_def addr_wf_def)

text \<open>
  Moving a player to a new endpoint: its old entry is gone, it is either pending or in the
  player map, and the new entry points to it.
\<close>

lemma wf_move:
  assumes wf: "room_wf r" and lt: "c < R_next r"
    and am: "distinct (mkeys am)" "\<And>k x. mget am k = Some x \<Longrightarrow> x \<noteq> c \<and> mget (R_addrMap r) k = Some x"
    and reg: "auth (R_heap r c) = authNone \<longrightarrow> mget (R_clients r) (IPKey (VirtualIP (R_heap r c))) = Some c"
      "auth (R_heap r c) = authChallengeSent \<longrightarrow> VirtualIP (R_heap r c) = []"
    and f: "\<And>cl. VirtualIP (f cl) = VirtualIP cl" "\<And>cl. auth (f cl) = auth cl"
      "\<And>cl. PublicAddr (f cl) = Some a"
  shows "room_wf ((upd_client c f r)\<lparr> R_addrMap := mput (AddrToRateKey a) c am \<rparr>)"
proof -
  let ?r = "(upd_client c f r)\<lparr> R_addrMap := mput (AddrToRateKey a) c am \<rparr>"
  have h: "VirtualIP (R_heap ?r x) = VirtualIP (R_heap r x)" "auth (R_heap ?r x) = auth (R_heap r x)"
    "PublicAddr (R_heap ?r x) = (if x = c then Some a else PublicAddr (R_heap r x))" for x
    using f by (simp_all add: upd_client_def)
  have s: "R_clients ?r = R_clients r" "R_next ?r = R_next r" "R_subnet ?r = R_subnet r"
    "R_ipBitmap ?r = R_ipBitmap r" "vip_at ?r = vip_at r" "R_pendingAuth ?r = R_pendingAuth r"
    "R_maxPending ?r = R_maxPending r" "R_ipConnCount ?r = R_ipConnCount r" "R_maxPerIP ?r = R_maxPerIP r"
    "R_addrMap ?r = mput (AddrToRateKey a) c am" "R_authKeys ?r = R_authKeys r" "R_roomPass ?r = R_roomPass r"
    by (simp_all add: upd_client_def vip_at_def fun_eq_iff)
  have "addr_wf ?r"
    unfolding addr_wf_def h s
  proof (intro conjI allI impI)
    show "distinct (mkeys (mput (AddrToRateKey a) c am))" using am(1) by simp
    fix k x assume m: "mget (mput (AddrToRateKey a) c am) k = Some x"
    show "x < R_next r"
      using m am(2) wf lt by (force simp: room_wf_def addr_wf_def split: if_splits)
    show "\<exists>y. (if x = c then Some a else PublicAddr (R_heap r x)) = Some y \<and> k = AddrToRateKey y"
      using m am(2)[of k x] addr_key_unique[OF wf, of k x] by (auto split: if_splits)
    show "mget (R_clients r) (IPKey (VirtualIP (R_heap r x))) = Some x"
      if "auth (R_heap r x) = authNone"
      using that m reg am(2)[of k x] wf by (auto simp: room_wf_def addr_wf_def split: if_splits)
    show "VirtualIP (R_heap r x) = []" if "auth (R_heap r x) = authChallengeSent"
      using that m reg am(2)[of k x] wf by (auto simp: room_wf_def addr_wf_def split: if_splits)
  qed
  then show ?thesis
    using wf unfolding room_wf_def clients_wf_def bitmap_wf_def count_wf_def keys_wf_def h s by blast
qed

text \<open>Dropping the entry under the player's endpoint drops every entry of the player.\<close>

lemma del_own_entry:
  assumes "room_wf r" "case PublicAddr (R_heap r c) of None \<Rightarrow> am = R_addrMap r
      | Some a \<Rightarrow> am = mdel (AddrToRateKey a) (R_addrMap r)"
  shows "distinct (mkeys am)" "mget am k = Some x \<Longrightarrow> x \<noteq> c \<and> mget (R_addrMap r) k = Some x"
proof -
  show "distinct (mkeys am)"
    using assms by (auto simp: room_wf_def addr_wf_def split: option.splits)
  assume m: "mget am k = Some x"
  then show "x \<noteq> c \<and> mget (R_addrMap r) k = Some x"
    using assms addr_key_unique[OF assms(1), of k x] by (auto split: option.splits if_splits)
qed

section \<open>Joining\<close>

lemma wf_pending:
  assumes "room_wf r" "R_pendingAuth r < R_maxPending r"
    and "doSendAuthChallenge env rg a r = (ch, r')"
  shows "room_wf r'"
proof (cases "E_challenge env")
  case None
  with assms show ?thesis by (simp add: doSendAuthChallenge_def GenerateChallenge_def)
next
  case (Some x)
  define cl where "cl = SetLastSeen (E_now env)
    (zeroClient\<lparr> Username := Reg_Username rg, PublicAddr := Some a, auth := authChallengeSent,
       challenge := copy_into 16 x, challengeAt := Some (E_now env), authRoomID := Reg_RoomID rg,
       clientVersion := Reg_Version rg \<rparr>)"
  have cl: "auth cl = authChallengeSent" "PublicAddr cl = Some a" "VirtualIP cl = []"
    by (simp_all add: cl_def SetLastSeen_def zeroClient_def)
  have r': "r' = r\<lparr> R_heap := (R_heap r)(R_next r := cl), R_next := Suc (R_next r),
      R_addrMap := mput (AddrToRateKey a) (R_next r) (R_addrMap r), R_pendingAuth := R_pendingAuth r + 1 \<rparr>"
    using assms(3) Some by (simp add: doSendAuthChallenge_def GenerateChallenge_def new_client_def cl_def Let_def)
  have wf: "clients_wf r" "bitmap_wf r" "addr_wf r" "count_wf r" "To4 (IPNet_IP (R_subnet r)) \<noteq> None"
    "keys_wf r"
    using assms(1) by (auto simp: room_wf_def)
  have v: "vip_at r' = vip_at r" by (simp add: r' vip_at_def fun_eq_iff)
  have "clients_wf r'" using wf(1) unfolding clients_wf_def v by (force simp: r')
  moreover have "bitmap_wf r'" using wf(2) unfolding bitmap_wf_def v by (simp add: r')
  moreover have "addr_wf r'" using wf(3) cl unfolding addr_wf_def by (force simp: r' split: if_splits)
  moreover have "count_wf r'" using wf(4) assms(2) by (simp add: r' count_wf_def)
  moreover have "keys_wf r'" using wf(6) by (simp add: r' keys_wf_def)
  ultimately show ?thesis using wf(5) by (simp add: room_wf_def r')
qed

lemma nextAvailableIP_vip:
  "nextAvailableIP r = Some v \<Longrightarrow> \<exists>n. bm_next (R_ipBitmap r) = Some n \<and> v = vip_at r n"
  by (auto simp: nextAvailableIP_def vip_at_def Let_def split: option.splits)

lemma bitmap_mark_clear:
  assumes "bm_inv bm" "bm_next bm = Some n"
  shows "bm_set (bm_clear (of_nat n) (bm_mark (of_nat n) bm)) = bm_set bm"
  using pool.take_release[OF assms] .

lemma wf_mark_free:
  assumes "room_wf r" "bm_next (R_ipBitmap r) = Some n"
  shows "room_wf (markIPFree (vip_at r n) (markIPUsed (vip_at r n) r))"
proof -
  let ?r = "markIPFree (vip_at r n) (markIPUsed (vip_at r n) r)"
  have bm: "bm_inv (R_ipBitmap r)" using assms(1) by (simp add: room_wf_def bitmap_wf_def)
  have f: "?r = r\<lparr> R_ipBitmap := bm_clear (of_nat n) (bm_mark (of_nat n) (R_ipBitmap r)) \<rparr>"
    by (simp add: markIPUsed_def markIPFree_def)
  have v: "vip_at ?r = vip_at r" unfolding f by (simp add: vip_at_def fun_eq_iff)
  have "bitmap_wf ?r"
    using assms(1) bm bitmap_mark_clear[OF bm assms(2)] unfolding bitmap_wf_def v
    by (simp add: f room_wf_def bitmap_wf_def pool.inv_mark pool.inv_clear)
  with assms(1) show ?thesis
    unfolding room_wf_def clients_wf_def addr_wf_def count_wf_def keys_wf_def v by (simp add: f)
qed

text \<open>A new player: a fresh cell with the free address, entered in both maps.\<close>

lemma wf_add_client:
  assumes wf: "room_wf r" and n: "bm_next (R_ipBitmap r) = Some n"
    and cl: "VirtualIP cl = vip_at r n" "PublicAddr cl = Some a" "auth cl = authNone"
    and r': "core r' = core (r\<lparr> R_ipBitmap := bm_mark (of_nat n) (R_ipBitmap r),
      R_heap := (R_heap r)(R_next r := cl), R_next := Suc (R_next r),
      R_clients := mput (IPKey (vip_at r n)) (R_next r) (R_clients r),
      R_addrMap := mput (AddrToRateKey a) (R_next r) (R_addrMap r) \<rparr>)"
  shows "room_wf r'"
proof -
  let ?r = "r\<lparr> R_ipBitmap := bm_mark (of_nat n) (R_ipBitmap r),
      R_heap := (R_heap r)(R_next r := cl), R_next := Suc (R_next r),
      R_clients := mput (IPKey (vip_at r n)) (R_next r) (R_clients r),
      R_addrMap := mput (AddrToRateKey a) (R_next r) (R_addrMap r) \<rparr>"
  have w: "clients_wf r" "bitmap_wf r" "addr_wf r" "count_wf r" "To4 (IPNet_IP (R_subnet r)) \<noteq> None"
    "keys_wf r"
    using wf by (auto simp: room_wf_def)
  have bm: "bm_inv (R_ipBitmap r)" using w(2) by (simp add: bitmap_wf_def)
  note nx = pool.nxt_Some[OF bm n] pool.nxt_byte[OF bm n]
  have free: "mget (R_clients r) (IPKey (vip_at r n)) = None"
    using w(2) nx by (auto simp: bitmap_wf_def)
  have v: "vip_at ?r = vip_at r" by (simp add: vip_at_def fun_eq_iff)
  have "clients_wf ?r"
    using w(1) cl nx unfolding clients_wf_def v by (force split: if_splits)
  moreover have "bitmap_wf ?r"
    using w(2) bm nx IPKey_vip_at_inj[of n _ r] unfolding bitmap_wf_def v
    by (auto simp: pool.inv_mark pool.used_mark)
  moreover have "addr_wf ?r"
    unfolding addr_wf_def
  proof (intro conjI allI impI)
    show "distinct (mkeys (R_addrMap ?r))" using w(3) by (simp add: addr_wf_def)
    fix k c assume m: "mget (R_addrMap ?r) k = Some c"
    show "c < R_next ?r" using m w(3) by (force simp: addr_wf_def split: if_splits)
    show "\<exists>y. PublicAddr (R_heap ?r c) = Some y \<and> k = AddrToRateKey y"
      using m w(3) cl by (force simp: addr_wf_def split: if_splits)
    assume au: "auth (R_heap ?r c) = authNone"
    show "mget (R_clients ?r) (IPKey (VirtualIP (R_heap ?r c))) = Some c"
    proof (cases "c = R_next r")
      case True
      then show ?thesis using cl by simp
    next
      case False
      with m have "mget (R_addrMap r) k = Some c" by (auto split: if_splits)
      with w(3) au False have "mget (R_clients r) (IPKey (VirtualIP (R_heap r c))) = Some c"
        by (force simp: addr_wf_def)
      with free False show ?thesis by auto
    qed
  next
    fix k c assume m: "mget (R_addrMap ?r) k = Some c" "auth (R_heap ?r c) = authChallengeSent"
    then show "VirtualIP (R_heap ?r c) = []" using w(3) cl by (force simp: addr_wf_def split: if_splits)
  qed
  moreover have "count_wf ?r" "keys_wf ?r" using w(4,6) by (simp_all add: count_wf_def keys_wf_def)
  ultimately have "room_wf ?r" using w(5) by (simp add: room_wf_def)
  then show ?thesis using room_wf_core[OF r'] by simp
qed

lemma wf_doRegisterClient:
  assumes "room_wf r" "doRegisterClient env rg a r = (v, r')"
  shows "room_wf r'"
proof (cases "nextAvailableIP r")
  case None
  with assms show ?thesis by (simp add: doRegisterClient_def)
next
  case (Some vip)
  then obtain n where n: "bm_next (R_ipBitmap r) = Some n" "vip = vip_at r n"
    using nextAvailableIP_vip by blast
  show ?thesis
  proof (cases "E_token env")
    case None
    with Some assms n wf_mark_free[OF assms(1) n(1)] show ?thesis
      by (simp add: doRegisterClient_def GenerateSessionToken_def Let_def)
  next
    case (Some tok)
    define cl where "cl = SetLastSeen (E_now env)
      (zeroClient\<lparr> Username := Reg_Username rg, VirtualIP := vip, PublicAddr := Some a, auth := authNone,
         authRoomID := Reg_RoomID rg, clientVersion := Reg_Version rg, SessionToken := copy_into 16 tok \<rparr>)"
    have c: "VirtualIP cl = vip_at r n" "PublicAddr cl = Some a" "auth cl = authNone"
      by (simp_all add: cl_def SetLastSeen_def n)
    show ?thesis
      using assms(2) Some \<open>nextAvailableIP r = Some vip\<close> n
      by (intro wf_add_client[OF assms(1) n(1) c])
         (auto simp: doRegisterClient_def GenerateSessionToken_def new_client_def markIPUsed_def
            cl_def core_def Let_def split: if_splits)
  qed
qed

section \<open>Leaving\<close>

text \<open>Removing a player from the player map and the bitmap, once no endpoint entry leads to it.\<close>

lemma wf_remove_client:
  assumes wf: "room_wf r" and m: "mget (R_clients r) k = Some c"
    and am: "distinct (mkeys am)" "\<And>k' x. mget am k' = Some x \<Longrightarrow> x \<noteq> c \<and> mget (R_addrMap r) k' = Some x"
  shows "room_wf ((markIPFree (VirtualIP (R_heap r c)) r)\<lparr> R_clients := mdel k (R_clients r), R_addrMap := am \<rparr>)"
proof -
  have w: "clients_wf r" "bitmap_wf r" "addr_wf r" "count_wf r" "To4 (IPNet_IP (R_subnet r)) \<noteq> None"
    "keys_wf r"
    using wf by (auto simp: room_wf_def)
  obtain n where n: "assignable n" "VirtualIP (R_heap r c) = vip_at r n" "k = IPKey (vip_at r n)"
    using w(1) m by (force simp: clients_wf_def)
  define r' where f: "r' = r\<lparr> R_ipBitmap := bm_clear (of_nat n) (R_ipBitmap r),
      R_clients := mdel k (R_clients r), R_addrMap := am \<rparr>"
  have r': "(markIPFree (VirtualIP (R_heap r c)) r)\<lparr> R_clients := mdel k (R_clients r), R_addrMap := am \<rparr> = r'"
    by (simp add: f n(2) markIPFree_def)
  have v: "vip_at r' = vip_at r" by (simp add: f vip_at_def fun_eq_iff)
  have bm: "bm_inv (R_ipBitmap r)" using w(2) by (simp add: bitmap_wf_def)
  have "clients_wf r'" using w(1) unfolding clients_wf_def v by (force simp: f split: if_splits)
  moreover have "bitmap_wf r'"
    using w(2) bm n(1) IPKey_vip_at_inj[OF n(1), of _ r] assignable_of_nat[OF n(1)]
    unfolding bitmap_wf_def v
    by (auto simp: f n(3) pool.inv_clear pool.used_clear assignable_def)
  moreover have "addr_wf r'"
    unfolding addr_wf_def
  proof (intro conjI allI impI)
    show "distinct (mkeys (R_addrMap r'))" using am(1) by (simp add: f)
    fix k' x assume m': "mget (R_addrMap r') k' = Some x"
    then have o: "x \<noteq> c" "mget (R_addrMap r) k' = Some x" using am(2) by (auto simp: f)
    show "x < R_next r'" using o w(3) by (force simp: f addr_wf_def)
    show "\<exists>y. PublicAddr (R_heap r' x) = Some y \<and> k' = AddrToRateKey y"
      using o w(3) by (force simp: f addr_wf_def)
    assume au: "auth (R_heap r' x) = authNone"
    then have x: "mget (R_clients r) (IPKey (VirtualIP (R_heap r x))) = Some x"
      using o w(3) by (force simp: f addr_wf_def)
    then show "mget (R_clients r') (IPKey (VirtualIP (R_heap r' x))) = Some x"
      using m o(1) by (auto simp: f)
  next
    fix k' x assume "mget (R_addrMap r') k' = Some x" "auth (R_heap r' x) = authChallengeSent"
    then show "VirtualIP (R_heap r' x) = []" using am(2)[of k' x] w(3) by (force simp: f addr_wf_def)
  qed
  moreover have "count_wf r'" "keys_wf r'" using w(4,6) by (simp_all add: f count_wf_def keys_wf_def)
  ultimately have "room_wf r'" using w(5) by (simp add: room_wf_def f)
  then show ?thesis unfolding r' .
qed

section \<open>Handlers\<close>

lemma wf_cleanupPendingAuth: "room_wf r \<Longrightarrow> room_wf (cleanupPendingAuth fk ok s c r)"
  by (simp add: cleanupPendingAuth_def Let_def wf_decrement_for wf_decrement_pending wf_del_addr)

lemma wf_drop_stale_pending: "room_wf r \<Longrightarrow> room_wf (drop_stale_pending k r)"
  using wf_del_addr[OF wf_decrement_for[of r]]
  by (auto simp: drop_stale_pending_def Let_def wf_decrement_pending split: option.split)

lemma range_clients_sub: "(k, c) \<in> set (range_clients env r) \<Longrightarrow> mget (R_clients r) k = Some c"
  by (simp add: range_clients_def range_map_sub)

lemma range_addrMap_sub: "(k, c) \<in> set (range_addrMap env r) \<Longrightarrow> mget (R_addrMap r) k = Some c"
  by (simp add: range_addrMap_def range_map_sub)

lemma client_in_map:
  "room_wf r \<Longrightarrow> mget (R_clients r) k = Some c \<Longrightarrow>
   c < R_next r \<and> auth (R_heap r c) = authNone \<and> mget (R_clients r) (IPKey (VirtualIP (R_heap r c))) = Some c"
  by (auto simp: room_wf_def clients_wf_def)

lemma find_SomeD: "find P xs = Some x \<Longrightarrow> P x \<and> x \<in> set xs"
  by (auto simp: find_Some_iff)

lemma wf_move_client:
  assumes "room_wf r" "mget (R_clients r) k = Some c"
    and "case PublicAddr (R_heap r c) of None \<Rightarrow> am = R_addrMap r
      | Some a' \<Rightarrow> am = mdel (AddrToRateKey a') (R_addrMap r)"
    and "\<And>cl. VirtualIP (f cl) = VirtualIP cl" "\<And>cl. auth (f cl) = auth cl"
      "\<And>cl. PublicAddr (f cl) = Some a"
  shows "room_wf ((upd_client c f r)\<lparr> R_addrMap := mput (AddrToRateKey a) c am \<rparr>)"
  using client_in_map[OF assms(1,2)] del_own_entry[OF assms(1,3)] assms(4-6)
  by (intro wf_move[OF assms(1)]) auto

lemma wf_resolveRestoredClient:
  assumes "room_wf r" "resolveRestoredClient env u i a r = (c, r')"
  shows "room_wf r'"
proof (cases "R_maxPerIP r \<le> mget0 (R_ipConnCount r) (addrToConnIPKey a)")
  case True
  with assms show ?thesis by (simp add: resolveRestoredClient_def Let_def)
next
  case False
  define r1 where "r1 = r\<lparr> R_ipConnCount := mput (addrToConnIPKey a)
    (mget0 (R_ipConnCount r) (addrToConnIPKey a) + 1) (R_ipConnCount r) \<rparr>"
  have wf1: "room_wf r1" using wf_inc_ip[OF assms(1), of "addrToConnIPKey a"] False by (simp add: r1_def)
  let ?f = "find (\<lambda>(k, c). Username (R_heap r c) = u \<and> authRoomID (R_heap r c) = i \<and>
     PublicAddr (R_heap r c) = None \<and> auth (R_heap r c) = authNone) (range_clients env r)"
  show ?thesis
  proof (cases ?f)
    case None
    with assms(2) False wf_decrementIPConnCount[OF wf1] show ?thesis
      by (auto simp: resolveRestoredClient_def Let_def r1_def)
  next
    case (Some kc)
    obtain k x where kc: "kc = (k, x)" by (cases kc)
    from find_SomeD[OF Some] have x: "PublicAddr (R_heap r x) = None" "mget (R_clients r) k = Some x"
      by (auto simp: kc dest: range_clients_sub)
    have s: "R_heap r1 = R_heap r" "R_clients r1 = R_clients r" "R_addrMap r1 = R_addrMap r"
      by (simp_all add: r1_def)
    have "r' = (upd_client x (\<lambda>cl. SetLastSeen (E_now env) (cl\<lparr> PublicAddr := Some a \<rparr>)) r1)
        \<lparr> R_addrMap := mput (AddrToRateKey a) x (R_addrMap r1) \<rparr>"
      using assms(2) False Some
      by (auto simp: resolveRestoredClient_def Let_def r1_def kc upd_client_def)
    with x s wf_move_client[OF wf1, of k x "R_addrMap r1"
        "\<lambda>cl. SetLastSeen (E_now env) (cl\<lparr> PublicAddr := Some a \<rparr>)" a]
    show ?thesis by (simp add: SetLastSeen_def)
  qed
qed

lemma wf_kick: "room_wf r \<Longrightarrow> room_wf (fst (sendKick env a s (r, q)))"
  "room_wf r \<Longrightarrow> room_wf (fst (sendKickCode env a c s (r, q)))"
  "room_wf r \<Longrightarrow> room_wf (fst (sendChecked env t p a (r, q)))"
  "room_wf r \<Longrightarrow> room_wf (fst (announce_join env v a (r, q)))"
  using room_wf_core[OF core_sendKick[of env a s "(r, q)"]]
    room_wf_core[OF core_sendKickCode[of env a c s "(r, q)"]]
    room_wf_core[OF core_sendChecked[of env t p a "(r, q)"]]
    room_wf_core[OF core_announce_join[of env v a "(r, q)"]]
  by simp_all

lemma wf_handleRegister_new:
  assumes "room_wf (fst st)"
  shows "room_wf (fst (handleRegister_new env rg a st))"
proof -
  obtain r q where st: "st = (r, q)" by (cases st)
  let ?k = "addrToConnIPKey a"
  define r1 where "r1 = r\<lparr> R_ipConnCount := mput ?k (mget0 (R_ipConnCount r) ?k + 1) (R_ipConnCount r) \<rparr>"
  show ?thesis
  proof (cases "R_maxPerIP r \<le> mget0 (R_ipConnCount r) ?k")
    case True
    with assms show ?thesis by (simp add: handleRegister_new_def st Let_def wf_kick)
  next
    case False
    have wf1: "room_wf r1" using wf_inc_ip[of r ?k] assms False by (simp add: r1_def st)
    have reg: "room_wf r'" if "doRegisterClient env rg a r1 = (v, r')" for v r'
      using wf_doRegisterClient[OF wf1 that] .
    have chal: "room_wf r'" if "doSendAuthChallenge env rg a r1 = (v, r')" "\<not> R_maxPending r1 \<le> R_pendingAuth r1" for v r'
      using wf_pending[OF wf1 _ that(1)] that(2) by simp
    show ?thesis
      using False wf1
      by (auto simp: handleRegister_new_def st Let_def wf_kick wf_decrementIPConnCount reg chal
          simp flip: r1_def split: checkResult.split prod.split option.split)
  qed
qed

lemma wf_handleRegister:
  assumes "room_wf (fst st)"
  shows "room_wf (fst (handleRegister env p a st))"
proof (cases "UnmarshalRegister p")
  case (Ok rg)
  obtain r0 q where st: "st = (r0, q)" by (cases st)
  obtain rateOK r1 where c: "checkRegRate a r0 = (rateOK, r1)" by (cases "checkRegRate a r0")
  have wf1: "room_wf r1"
    using assms c core_checkRegRate[of a r0] room_wf_core[of r1 r0] by (simp add: st)
  define r2 where "r2 = drop_stale_pending (AddrToRateKey a) r1"
  have wf2: "room_wf r2" using wf1 by (simp add: r2_def wf_drop_stale_pending)
  have re: "room_wf (fst (sendPeerInfoToClient env a (sendAssignIP env v a
      (upd_client x (\<lambda>cl. (SetLastSeen (E_now env) cl)\<lparr> clientVersion := w \<rparr>) r2, q))))" for v x w
  proof -
    have "room_wf (upd_client x (\<lambda>cl. (SetLastSeen (E_now env) cl)\<lparr> clientVersion := w \<rparr>) r2)"
      by (rule wf_upd_client[OF wf2]) (simp_all add: SetLastSeen_def)
    then show ?thesis
      by (subst room_wf_core[of _ "upd_client x (\<lambda>cl. (SetLastSeen (E_now env) cl)\<lparr> clientVersion := w \<rparr>) r2"])
         (simp_all add: core_simps)
  qed
  obtain res r3 where rs: "resolveRestoredClient env (Reg_Username rg) (Reg_RoomID rg) a r2 = (res, r3)"
    by (cases "resolveRestoredClient env (Reg_Username rg) (Reg_RoomID rg) a r2")
  have wf3: "room_wf r3" using wf_resolveRestoredClient[OF wf2 rs] .
  have wf4: "room_wf (fst (handleRegister_new env rg a (r3, q)))" using wf3 by (intro wf_handleRegister_new) simp
  show ?thesis
    using assms wf1 wf3 wf4
    by (auto simp: handleRegister_def Ok st c rs re wf_kick Let_def simp flip: r2_def split: option.split)
qed (use assms in \<open>simp_all add: handleRegister_def\<close>)

lemma find_pending_props:
  assumes "find_pending env resp fk r = (Some c, ok, scan)"
  shows "mget (R_addrMap r) (if scan then ok else fk) = Some c"
  using assms
  by (auto simp: find_pending_def Let_def split: if_splits option.splits
      dest!: find_SomeD dest: range_addrMap_sub)

lemma wf_admit_verified:
  assumes "room_wf r" "mget (R_addrMap r) (if scan then ok else AddrToRateKey a) = Some c"
  shows "room_wf (fst (admit_verified env resp a c ok scan (r, q)))"
proof -
  let ?k = "if scan then ok else AddrToRateKey a"
  define r1 where "r1 = take_pending ?k r"
  have wf1: "room_wf r1" using assms(1) by (simp add: r1_def take_pending_def wf_decrement_pending wf_del_addr)
  have f1: "R_heap r1 = R_heap r" "R_clients r1 = R_clients r" "R_next r1 = R_next r"
    "R_addrMap r1 = mdel ?k (R_addrMap r)" by (simp_all add: r1_def take_pending_def)
  define r2 where "r2 = rehome_pending scan a c r1"
  have wf2: "room_wf r2"
  proof (cases scan)
    case True
    have "c < R_next r" and reg: "auth (R_heap r c) = authNone \<longrightarrow>
        mget (R_clients r) (IPKey (VirtualIP (R_heap r c))) = Some c"
        "auth (R_heap r c) = authChallengeSent \<longrightarrow> VirtualIP (R_heap r c) = []"
      using assms by (auto simp: room_wf_def addr_wf_def)
    moreover have "x \<noteq> c \<and> mget (R_addrMap r1) k = Some x" if "mget (R_addrMap r1) k = Some x" for k x
      using that addr_key_unique[OF assms(1) assms(2)] addr_key_unique[OF assms(1), of k x]
      by (auto simp: f1 True split: if_splits)
    ultimately have "room_wf ((upd_client c (\<lambda>cl. cl\<lparr> PublicAddr := Some a \<rparr>) r1)
        \<lparr> R_addrMap := mput (AddrToRateKey a) c (R_addrMap r1) \<rparr>)"
      using wf1 by (intro wf_move) (auto simp: f1 room_wf_def addr_wf_def)
    with True show ?thesis by (simp add: r2_def rehome_pending_def Let_def upd_client_def)
  qed (simp add: r2_def rehome_pending_def wf1)
  have reg: "room_wf r'" if "doRegisterClient env rg a r2 = (v, r')" for rg v r'
    using wf_doRegisterClient[OF wf2 that] .
  show ?thesis
    using assms(1)
    unfolding admit_verified_def Let_def prod.case r1_def[symmetric] r2_def[symmetric]
    by (auto simp: wf_kick wf_decrement_for reg split: checkResult.split prod.split option.split)
qed

lemma wf_getAuthKey:
  assumes "room_wf r" "getAuthKey i r = (key, r1)"
  shows "room_wf r1" "key = DeriveKey (R_roomPass r) i" "R_addrMap r1 = R_addrMap r" "R_heap r1 = R_heap r"
    "R_clients r1 = R_clients r" "R_maxPlayers r1 = R_maxPlayers r"
proof -
  have k: "keys_wf r" using assms(1) by (simp add: room_wf_def)
  then show "key = DeriveKey (R_roomPass r) i" "R_addrMap r1 = R_addrMap r" "R_heap r1 = R_heap r"
    "R_clients r1 = R_clients r" "R_maxPlayers r1 = R_maxPlayers r"
    using assms(2) by (auto simp: getAuthKey_def keys_wf_def Let_def split: option.splits if_splits)
  show "room_wf r1"
    using assms k
    by (auto simp: getAuthKey_def Let_def room_wf_def clients_wf_def bitmap_wf_def addr_wf_def count_wf_def
        keys_wf_def vip_at_def split: option.splits if_splits)
qed

lemma wf_handleAuthResponse:
  assumes "room_wf (fst st)"
  shows "room_wf (fst (handleAuthResponse env p a st))"
proof (cases "UnmarshalAuthResponse p")
  case (Ok resp)
  obtain r q where st: "st = (r, q)" by (cases st)
  obtain found ok scan where f: "find_pending env resp (AddrToRateKey a) r = (found, ok, scan)"
    by (cases "find_pending env resp (AddrToRateKey a) r")
  have wf: "room_wf r" using assms st by simp
  show ?thesis
  proof (cases found)
    case None
    with wf show ?thesis by (simp add: handleAuthResponse_def Ok st f wf_kick Let_def)
  next
    case (Some c)
    obtain key r1 where g: "getAuthKey (authRoomID (R_heap r c)) r = (key, r1)"
      by (cases "getAuthKey (authRoomID (R_heap r c)) r")
    note wf1 = wf_getAuthKey(1)[OF wf g] and fl = wf_getAuthKey(2-)[OF wf g]
    have m: "mget (R_addrMap r1) (if scan then ok else AddrToRateKey a) = Some c"
      using find_pending_props[of env resp "AddrToRateKey a" r c ok scan] f Some fl by simp
    have "room_wf (r'\<lparr> R_authFailures := n \<rparr>)" if "room_wf r'" for r' n
      using that room_wf_core[OF core_updates(4)] by simp
    then show ?thesis
      using wf wf1 wf_admit_verified[OF wf1 m]
      by (auto simp: handleAuthResponse_def Ok st f Some g wf_kick wf_cleanupPendingAuth Let_def)
  qed
qed (use assms in \<open>simp_all add: handleAuthResponse_def\<close>)

lemma wf_tryMigrateAddrMap:
  assumes "room_wf r" "tryMigrateAddrMap env a src p r = (s, r')"
  shows "room_wf r'"
proof (cases "mget (R_clients r) (IPKey src)")
  case (Some c)
  define am where "am = (case PublicAddr (R_heap r c) of None \<Rightarrow> R_addrMap r
    | Some x \<Rightarrow> mdel (AddrToRateKey x) (R_addrMap r))"
  have "room_wf ((upd_client c (\<lambda>cl. SetLastSeen (E_now env) (cl\<lparr> PublicAddr := Some a \<rparr>)) r)
      \<lparr> R_addrMap := mput (AddrToRateKey a) c am \<rparr>)"
    by (rule wf_move_client[OF assms(1) Some]) (auto simp: am_def SetLastSeen_def split: option.split)
  with assms Some show ?thesis
    by (auto simp: tryMigrateAddrMap_def Let_def am_def split: if_splits option.splits)
qed (use assms in \<open>simp add: tryMigrateAddrMap_def\<close>)

lemma core_relay_forward [core_simps]: "core (fst (relay_forward env p ts st)) = core (fst st)"
  by (simp add: relay_forward_def Let_def core_updates core_fold core_sendBypass core_forward_unicast)

lemma wf_relay_sender:
  "room_wf r \<Longrightarrow> relay_sender env p a r = (s, r') \<Longrightarrow> room_wf r'"
  by (auto simp: relay_sender_def wf_tryMigrateAddrMap split: option.splits)

lemma wf_handleRelay:
  assumes "room_wf (fst st)"
  shows "room_wf (fst (handleRelay env p a st))"
proof -
  obtain s r where sr: "relay_sender env p a (fst st) = (s, r)" by (cases "relay_sender env p a (fst st)")
  have wf: "room_wf r" using wf_relay_sender[OF assms sr] .
  have "room_wf (fst (relay_forward env p ts (r, q)))" for ts q
    using room_wf_core[OF core_relay_forward[of env p ts "(r, q)"]] wf by simp
  with assms wf show ?thesis
    by (auto simp: handleRelay_def sr Let_def split: option.split)
qed

lemma wf_handleKeepAlive:
  "room_wf (fst st) \<Longrightarrow> room_wf (fst (handleKeepAliveWithPayload env p a st))"
  by (auto simp: handleKeepAliveWithPayload_def case_prod_beta SetLastSeen_def Let_def
      intro!: wf_upd_client split: option.split)

lemma wf_handlePong: "room_wf (fst st) \<Longrightarrow> room_wf (fst (handlePong env p a st))"
  by (auto simp: handlePong_def case_prod_beta Let_def ping_push_def
      intro!: wf_upd_client split: option.split res.split)

lemma wf_handleDisconnect:
  assumes "room_wf (fst st)"
  shows "room_wf (fst (handleDisconnect env a st))"
proof -
  obtain r q where st: "st = (r, q)" by (cases st)
  have wf: "room_wf r" using assms by (simp add: st)
  show ?thesis
  proof (cases "mget (R_addrMap r) (AddrToRateKey a)")
    case (Some c)
    let ?cl = "R_heap r c"
    have la: "room_wf (r\<lparr> R_lastActivity := t \<rparr>)" for t
      using wf room_wf_core[OF core_updates(2)] by simp
    have del: "mget (mdel (AddrToRateKey a) (R_addrMap r)) k = Some x \<Longrightarrow>
        x \<noteq> c \<and> mget (R_addrMap r) k = Some x" for k x
      using addr_key_unique[OF wf Some] addr_key_unique[OF wf, of k x] by (auto split: if_splits)
    have d: "distinct (mkeys (mdel (AddrToRateKey a) (R_addrMap r)))"
      using wf by (simp add: room_wf_def addr_wf_def)
    show ?thesis
    proof (cases "auth ?cl = authChallengeSent")
      case True
      let ?r1 = "decrement_for ?cl (decrement_pending (r\<lparr> R_lastActivity := E_now env \<rparr>))"
      have "room_wf (?r1\<lparr> R_addrMap := mdel (AddrToRateKey a) (R_addrMap ?r1) \<rparr>)"
        by (intro wf_del_addr wf_decrement_for wf_decrement_pending la)
      then show ?thesis
        using Some True
        by (subst room_wf_core[of _ "?r1\<lparr> R_addrMap := mdel (AddrToRateKey a) (R_addrMap ?r1) \<rparr>"])
           (simp_all add: handleDisconnect_def st Let_def core_simps)
    next
      case False
      then have "auth ?cl = authNone" by (cases "auth ?cl") auto
      then have m: "mget (R_clients r) (IPKey (VirtualIP ?cl)) = Some c"
        using wf Some by (auto simp: room_wf_def addr_wf_def)
      note w = wf_decrement_for[OF wf_remove_client[OF wf m d del], of ?cl]
      show ?thesis
        using Some False w
        by (subst room_wf_core[OF _, of _ "decrement_for ?cl ((markIPFree (VirtualIP ?cl) r)
              \<lparr> R_clients := mdel (IPKey (VirtualIP ?cl)) (R_clients r), R_addrMap := mdel (AddrToRateKey a) (R_addrMap r) \<rparr>)"])
           (simp_all add: handleDisconnect_def st Let_def core_simps, simp add: core_def
             decrement_for_def decrementIPConnCount_def markIPFree_def split: option.split)
    qed
  qed (use wf in \<open>simp add: handleDisconnect_def st\<close>)
qed

lemma wf_remove_stale_client:
  assumes "room_wf (fst rb)"
  shows "room_wf (fst (remove_stale_client env kc rb))"
proof -
  obtain k c r ch where x: "kc = (k, c)" "rb = (r, ch)" by (cases kc, cases rb)
  have wf: "room_wf r" using assms by (simp add: x)
  show ?thesis
  proof (cases "mget (R_clients r) k = Some c \<and> stale_client env r c")
    case True
    define am where "am = (case PublicAddr (R_heap r c) of None \<Rightarrow> R_addrMap r
      | Some a \<Rightarrow> mdel (AddrToRateKey a) (R_addrMap r))"
    have "case PublicAddr (R_heap r c) of None \<Rightarrow> am = R_addrMap r
      | Some a \<Rightarrow> am = mdel (AddrToRateKey a) (R_addrMap r)" by (simp add: am_def split: option.split)
    note o = del_own_entry[OF wf this]
    note w = wf_remove_client[OF wf conjunct1[OF True] o]
    show ?thesis
    proof (cases "PublicAddr (R_heap r c)")
      case None
      then have "(markIPFree (VirtualIP (R_heap r c)) r)\<lparr> R_clients := mdel k (R_clients r), R_addrMap := am \<rparr> =
          (markIPFree (VirtualIP (R_heap r c)) r)\<lparr> R_clients := mdel k (R_clients r) \<rparr>"
        by (simp add: am_def markIPFree_def split: option.split)
      with w None True show ?thesis
        by (simp add: remove_stale_client_def x Let_def) (simp add: markIPFree_def split: option.splits)
    next
      case (Some a)
      from wf_decrementIPConnCount[OF w, of "addrToConnIPKey a"] Some True show ?thesis
        by (simp add: remove_stale_client_def x Let_def am_def) (simp add: markIPFree_def split: option.splits)
    qed
  qed (use wf in \<open>auto simp: remove_stale_client_def x\<close>)
qed

lemma wf_remove_stale_auth: "room_wf r \<Longrightarrow> room_wf (remove_stale_auth kc r)"
  by (auto simp: remove_stale_auth_def wf_decrement_for wf_decrement_pending wf_del_addr split: prod.split)

lemma wf_fold: "(\<And>x s. P s \<Longrightarrow> P (f x s)) \<Longrightarrow> P s \<Longrightarrow> P (fold f xs s)"
  by (induction xs arbitrary: s) auto

lemma wf_CleanupStale:
  assumes "room_wf r"
  shows "room_wf (snd (CleanupStale env r))"
proof -
  have 1: "room_wf (fst (fold (remove_stale_client env) xs (r, False)))" for xs
    using wf_fold[of "\<lambda>rb. room_wf (fst rb)" "remove_stale_client env" "(r, False)" xs] assms
      wf_remove_stale_client by simp
  have 2: "room_wf (fold remove_stale_auth ys (fst (fold (remove_stale_client env) xs (r, False))))" for xs ys
    using wf_fold[of room_wf remove_stale_auth, OF wf_remove_stale_auth 1] by simp
  have "room_wf (markDirty x) = room_wf x" for x by (rule room_wf_core) (simp add: core_flags)
  with assms 2 show ?thesis by (simp add: CleanupStale_def Let_def case_prod_beta)
qed

lemma wf_ping_tick:
  assumes "room_wf (fst st)"
  shows "room_wf (fst (ping_tick env st))"
proof -
  have 1: "room_wf (mark_missed env kc r)" if "room_wf r" for kc r
    using that by (auto simp: mark_missed_def ping_push_def intro!: wf_upd_client split: option.split)
  have 2: "room_wf (fst (send_ping env e kc x))" if "room_wf (fst x)" for e kc x
  proof (cases "PublicAddr (R_heap (fst x) (snd kc))")
    case (Some a)
    have "room_wf (upd_client (snd kc) (\<lambda>cl. cl\<lparr> pingSeq := pingSeq cl + 1, lastPingSent := Some (E_now env),
        lastPingSeq := pingSeq cl + 1 \<rparr>) (fst x))"
      by (rule wf_upd_client[OF that]) simp_all
    with Some show ?thesis
      by (simp add: send_ping_def case_prod_beta Let_def) (subst room_wf_core[OF core_sendCheckedRaw], simp)
  qed (use that in \<open>simp add: send_ping_def case_prod_beta\<close>)
  show ?thesis
    using assms wf_fold[of room_wf "mark_missed env", OF 1] 
      wf_fold[of "\<lambda>x. room_wf (fst x)" "send_ping env _", OF 2]
    by (simp add: ping_tick_def Let_def)
qed

lemma wf_lastActivity: "room_wf (r\<lparr> R_lastActivity := t \<rparr>) = room_wf r"
  by (rule room_wf_core) (simp add: core_updates)

lemma wf_rebind_update:
  assumes "room_wf r" "mget (R_clients r) k = Some c"
  shows "room_wf (rebind_update env k c (PublicAddr (R_heap r c)) a r)"
proof -
  define am where "am = (case PublicAddr (R_heap r c) of None \<Rightarrow> R_addrMap r
    | Some x \<Rightarrow> mdel (AddrToRateKey x) (R_addrMap r))"
  have "room_wf ((upd_client c (\<lambda>cl. SetLastSeen (E_now env) (cl\<lparr> PublicAddr := Some a \<rparr>)) r)
      \<lparr> R_addrMap := mput (AddrToRateKey a) c am \<rparr>)"
    by (rule wf_move_client[OF assms]) (auto simp: am_def SetLastSeen_def split: option.split)
  then show ?thesis by (simp add: rebind_update_def Let_def am_def wf_lastActivity)
qed

lemma wf_HandlePacket:
  assumes "room_wf (fst st)"
  shows "room_wf (fst (HandlePacket env t p a st))"
  using assms room_wf_core[OF core_handlePeerRequest[of env a st]]
    room_wf_core[OF core_handleHolePunch[of env p a st]]
  by (simp add: HandlePacket_def wf_handleRegister wf_handleAuthResponse wf_handleKeepAlive
      wf_handleRelay wf_handleDisconnect wf_handlePong)

section \<open>A new room\<close>

lemma mask24_IPv4: "Mask_Size m = (24, 32) \<Longrightarrow> length m = 4"
  by (auto simp: Mask_Size_def Let_def split: if_splits)

lemma bm_set_empty: "bm_set (replicate 4 0) = {}"
  by (auto simp: bm_set_def bm_used_def nth_replicate less_mult_imp_div_less)

lemma NewRoom_bitmap:
  assumes "NewRoom now cfg = Some r"
  shows "bm_inv (R_ipBitmap r)" "bm_set (R_ipBitmap r) = {0, 1, 255}"
proof -
  define s where "s = (copy_into 4 (case To4 (IPNet_IP (RC_Subnet cfg)) of Some x \<Rightarrow> x | None \<Rightarrow> []))[3 := 1]"
  have l: "length s = 4" by (simp add: s_def)
  then have t: "To4 s = Some s" "s ! 3 = 1" by (simp_all add: s_def)
  have b: "R_ipBitmap r = bm_mark 255 (bm_mark 1 (bm_mark 0 (replicate 4 0)))"
    using assms t
    by (auto simp: NewRoom_def Let_def markIPUsed_def simp flip: s_def split: if_splits prod.splits)
  have i: "bm_inv (replicate 4 0)" by (simp add: bm_inv_def)
  show "bm_inv (R_ipBitmap r)" using i by (simp add: b pool.inv_mark)
  show "bm_set (R_ipBitmap r) = {0, 1, 255}"
    using i by (auto simp: b pool.inv_mark pool.used_mark bm_set_empty)
qed

lemma NewRoom_fields:
  assumes "NewRoom now cfg = Some r"
  shows "R_authKeys r = []" "R_subnet r = RC_Subnet cfg" "R_clients r = []" "R_addrMap r = []" "R_ipConnCount r = []"
    "R_pendingAuth r = 0" "R_maxPerIP r = (if RC_MaxPerIP cfg \<le> 0 then 3 else RC_MaxPerIP cfg)"
    "R_maxPlayers r = RC_MaxPlayers cfg" "R_roomPass r = RC_RoomPass cfg"
  using assms
  by (auto simp: NewRoom_def Let_def markIPUsed_def split: if_splits prod.splits option.splits)

lemma wf_NewRoom:
  assumes "NewRoom now cfg = Some r" "To4 (IPNet_IP (RC_Subnet cfg)) \<noteq> None"
  shows "room_wf r"
  using NewRoom_fields[OF assms(1)] NewRoom_bitmap[OF assms(1)] assms(2)
  by (auto simp: room_wf_def clients_wf_def bitmap_wf_def addr_wf_def count_wf_def keys_wf_def assignable_def)

section \<open>Runs of a room\<close>

text \<open>
  What can happen to a room: packets, the periodic tasks, a verified address migration and
  shutdown.  Times and iteration orders are those of the environment of each step.
\<close>

inductive room_step :: "rst \<Rightarrow> rst \<Rightarrow> bool" where
  packet: "env_ok env \<Longrightarrow> room_step st (HandlePacket env t p a st)"
| cleanup: "env_ok env \<Longrightarrow> room_step (r, q) (snd (CleanupStale env r), q)"
| invalidate: "room_step (r, q) (invalidatePeerInfoCache r, q)"
| regtick: "room_step (r, q) (reg_tick r, q)"
| peerinfo: "env_ok env \<Longrightarrow> room_step st (peerInfo_tick env st)"
| ping: "env_ok env \<Longrightarrow> room_step st (ping_tick env st)"
| rebind: "mget (R_clients r) k = Some c \<Longrightarrow>
    room_step (r, q) (rebind_update env k c (PublicAddr (R_heap r c)) a r, q)"
| shutdown: "env_ok env \<Longrightarrow> room_step st (notifyShutdown env st)"
| stop: "room_step (r, q) (Room_Stop r, q)"
| queue: "room_step (r, q) (r, q')"

lemma wf_room_step: "room_step st st' \<Longrightarrow> room_wf (fst st) \<Longrightarrow> room_wf (fst st')"
proof (induction rule: room_step.induct)
  case (peerinfo env st)
  then show ?case using room_wf_core[OF core_peerInfo_tick[of env st]] by simp
next
  case (shutdown env st)
  then show ?case using room_wf_core[OF core_notifyShutdown[of env st]] by simp
next
  case (regtick r q)
  then show ?case using room_wf_core[OF core_reg_tick(1)[of r]] by simp
next
  case (stop r q)
  then show ?case using room_wf_core[OF core_reg_tick(2)[of r]] by simp
next
  case (invalidate r q)
  then show ?case using room_wf_core[OF core_flags(2)[of r]] by simp
qed (simp_all add: wf_HandlePacket wf_CleanupStale wf_ping_tick wf_rebind_update)

end
