(* ===== verification/RoomProps.thy ===== *)
theory RoomProps
  imports RoomInv
begin

text \<open>
  What a room guarantees: the invariant along every run, its capacity, who is admitted and
  how, what is relayed to whom, and which players the periodic cleanup removes.
\<close>

section \<open>The player map under each operation\<close>

lemma clients_core: "core r = core r' \<Longrightarrow> R_clients r = R_clients r'"
  by (rule core_fields)

lemma clients_sends [simp]:
  "R_clients (fst (sendKick env a s st)) = R_clients (fst st)"
  "R_clients (fst (sendKickCode env a c s st)) = R_clients (fst st)"
  "R_clients (fst (sendChecked env t p a st)) = R_clients (fst st)"
  "R_clients (fst (sendCheckedRaw env p a st)) = R_clients (fst st)"
  "R_clients (fst (announce_join env v a st)) = R_clients (fst st)"
  "R_clients (fst (sendPeerInfoToClient env a st)) = R_clients (fst st)"
  "R_clients (fst (sendAssignIP env v a st)) = R_clients (fst st)"
  "R_clients (fst (relay_forward env p ts st)) = R_clients (fst st)"
  by (rule clients_core, simp add: core_simps)+

lemma clients_simps [simp]:
  "R_clients (upd_client x f r) = R_clients r"
  "R_clients (cleanupPendingAuth fk k s x r) = R_clients r"
  "R_clients (drop_stale_pending k r) = R_clients r"
  "R_clients (take_pending k r) = R_clients r"
  "R_clients (rehome_pending b a x r) = R_clients r"
  "R_clients (markIPFree i r) = R_clients r"
  "R_clients (markIPUsed i r) = R_clients r"
  "R_clients (markDirty r) = R_clients r"
  "R_clients (invalidatePeerInfoCache r) = R_clients r"
  by (simp_all add: upd_client_def cleanupPendingAuth_def drop_stale_pending_def take_pending_def
      rehome_pending_def markIPFree_def markIPUsed_def markDirty_def invalidatePeerInfoCache_def Let_def
      split: option.split)

lemma clients_resolveRestored:
  "resolveRestoredClient env u i a r = (c, r') \<Longrightarrow> R_clients r' = R_clients r"
  by (auto simp: resolveRestoredClient_def Let_def split: if_splits option.splits)

lemma clients_doSendAuthChallenge:
  "doSendAuthChallenge env rg a r = (c, r') \<Longrightarrow> R_clients r' = R_clients r"
  by (auto simp: doSendAuthChallenge_def new_client_def Let_def split: option.splits)

lemma clients_doRegisterClient:
  assumes "doRegisterClient env rg a r = (v, r')"
  shows "(case v of None \<Rightarrow> R_clients r' = R_clients r
     | Some vip \<Rightarrow> nextAvailableIP r = Some vip \<and> R_clients r' = mput (IPKey vip) (R_next r) (R_clients r))"
  using assms
  by (auto simp: doRegisterClient_def new_client_def markIPUsed_def Let_def
      split: option.splits if_splits)

lemma clients_checkRegRate: "checkRegRate a r = (ok, r') \<Longrightarrow> R_clients r' = R_clients r"
  using clients_core[OF core_checkRegRate[of a r]] by simp

lemma checkOK_capacity:
  "checkCapacityAndDuplicate u i r = checkOK \<Longrightarrow> int (length (R_clients r)) < R_maxPlayers r"
  by (auto simp: checkCapacityAndDuplicate_def split: if_splits)

text \<open>Either the player map is unchanged or one player was added, below the capacity.\<close>

definition joined :: "Room \<Rightarrow> Room \<Rightarrow> bool" where
  "joined r r' \<longleftrightarrow> int (length (R_clients r)) < R_maxPlayers r \<and>
     (\<exists>k c. R_clients r' = mput k c (R_clients r))"

lemma clients_handleRegister_new:
  "R_clients (fst (handleRegister_new env rg a (r, q))) = R_clients r \<or>
   R_roomPass r = [] \<and> joined r (fst (handleRegister_new env rg a (r, q)))"
proof -
  let ?k = "addrToConnIPKey a"
  define r1 where "r1 = r\<lparr> R_ipConnCount := mput ?k (mget0 (R_ipConnCount r) ?k + 1) (R_ipConnCount r) \<rparr>"
  have f: "R_clients r1 = R_clients r" "R_maxPlayers r1 = R_maxPlayers r" "R_roomPass r1 = R_roomPass r"
    by (simp_all add: r1_def)
  obtain v r2 where g: "doRegisterClient env rg a r1 = (v, r2)" by (cases "doRegisterClient env rg a r1")
  obtain ch r3 where c: "doSendAuthChallenge env rg a r1 = (ch, r3)" by (cases "doSendAuthChallenge env rg a r1")
  note g' = clients_doRegisterClient[OF g] and c' = clients_doSendAuthChallenge[OF c]
  show ?thesis
    using g' c' f checkOK_capacity[of "Reg_Username rg" "Reg_RoomID rg" r1]
    unfolding handleRegister_new_def Let_def prod.case r1_def[symmetric] g c
    by (auto simp: joined_def split: checkResult.split option.split) blast+
qed

lemma maxPlayers_pre:
  "checkRegRate a r = (ok, r') \<Longrightarrow> R_maxPlayers r' = R_maxPlayers r \<and> R_roomPass r' = R_roomPass r"
  "R_maxPlayers (drop_stale_pending k r) = R_maxPlayers r"
  "R_roomPass (drop_stale_pending k r) = R_roomPass r"
  "resolveRestoredClient env u i a r = (c, r') \<Longrightarrow> R_maxPlayers r' = R_maxPlayers r \<and> R_roomPass r' = R_roomPass r"
  by (auto simp: checkRegRate_def drop_stale_pending_def resolveRestoredClient_def upd_client_def Let_def
      split: option.splits if_splits prod.splits)

lemma clients_handleRegister:
  "R_clients (fst (handleRegister env p a st)) = R_clients (fst st) \<or>
   R_roomPass (fst st) = [] \<and> joined (fst st) (fst (handleRegister env p a st))"
proof (cases "UnmarshalRegister p")
  case (Ok rg)
  obtain r0 q where st: "st = (r0, q)" by (cases st)
  obtain rateOK r1 where c: "checkRegRate a r0 = (rateOK, r1)" by (cases "checkRegRate a r0")
  define r2 where "r2 = drop_stale_pending (AddrToRateKey a) r1"
  obtain res r3 where rs: "resolveRestoredClient env (Reg_Username rg) (Reg_RoomID rg) a r2 = (res, r3)"
    by (cases "resolveRestoredClient env (Reg_Username rg) (Reg_RoomID rg) a r2")
  have f: "R_clients r1 = R_clients r0" "R_clients r2 = R_clients r0" "R_clients r3 = R_clients r0"
    using clients_checkRegRate[OF c] clients_resolveRestored[OF rs] by (simp_all add: r2_def)
  have g: "R_maxPlayers r3 = R_maxPlayers r0" "R_roomPass r3 = R_roomPass r0"
    using maxPlayers_pre(1)[OF c] maxPlayers_pre(4)[OF rs] by (simp_all add: r2_def maxPlayers_pre)
  show ?thesis
    using clients_handleRegister_new[of env rg a r3 q] f g
    unfolding handleRegister_def Ok res.case st Let_def prod.case c r2_def[symmetric] rs
    by (auto simp: joined_def split: option.split)
qed (simp_all add: handleRegister_def)

text \<open>What the response of an admitted player must have satisfied.\<close>

definition verified_response :: "Env \<Rightarrow> bytes \<Rightarrow> UDPAddr \<Rightarrow> Room \<Rightarrow> bool" where
  "verified_response env p a r \<longleftrightarrow>
     (\<exists>resp k c. UnmarshalAuthResponse p = Ok resp \<and> mget (R_addrMap r) k = Some c \<and>
        auth (R_heap r c) = authChallengeSent \<and> \<not> challenge_expired env (R_heap r c) \<and>
        VerifyHMAC (DeriveKey (R_roomPass r) (authRoomID (R_heap r c))) (Rsp_HMAC resp)
          (challenge (R_heap r c)) (Rsp_RoomID resp) (Rsp_Username resp) (PublicAddr (R_heap r c)))"

lemma clients_admit_verified:
  "R_clients (fst (admit_verified env resp a c ok scan (r, q))) = R_clients r \<or>
   joined r (fst (admit_verified env resp a c ok scan (r, q)))"
proof -
  define r2 where "r2 = rehome_pending scan a c (take_pending (if scan then ok else AddrToRateKey a) r)"
  define rg where "rg = \<lparr> Reg_RoomID = authRoomID (R_heap r2 c), Reg_Username = Username (R_heap r2 c),
      Reg_Version = clientVersion (R_heap r2 c) \<rparr>"
  obtain v r3 where g: "doRegisterClient env rg a r2 = (v, r3)" by (cases "doRegisterClient env rg a r2")
  have f: "R_clients r2 = R_clients r" by (simp add: r2_def)
  show ?thesis
    using clients_doRegisterClient[OF g] f checkOK_capacity[of "Rsp_Username resp" "Rsp_RoomID resp" r]
    unfolding admit_verified_def Let_def prod.case r2_def[symmetric] rg_def[symmetric] g
    by (auto simp: joined_def split: checkResult.split option.split) blast+
qed

lemma clients_handleAuthResponse:
  assumes "room_wf (fst st)"
  shows "R_clients (fst (handleAuthResponse env p a st)) = R_clients (fst st) \<or>
    joined (fst st) (fst (handleAuthResponse env p a st)) \<and> verified_response env p a (fst st)"
proof (cases "UnmarshalAuthResponse p")
  case (Ok resp)
  obtain r q where st: "st = (r, q)" by (cases st)
  obtain found ok scan where f: "find_pending env resp (AddrToRateKey a) r = (found, ok, scan)"
    by (cases "find_pending env resp (AddrToRateKey a) r")
  show ?thesis
  proof (cases found)
    case None
    then show ?thesis by (simp add: handleAuthResponse_def Ok st f Let_def)
  next
    case (Some c)
    obtain key r1 where g: "getAuthKey (authRoomID (R_heap r c)) r = (key, r1)"
      by (cases "getAuthKey (authRoomID (R_heap r c)) r")
    note w = wf_getAuthKey[OF _ g] 
    have wf: "room_wf r" using assms by (simp add: st)
    have m: "mget (R_addrMap r) (if scan then ok else AddrToRateKey a) = Some c"
      using find_pending_props[of env resp "AddrToRateKey a" r c ok scan] f Some by simp
    have v: "verified_response env p a r"
      if "auth (R_heap r c) = authChallengeSent" "\<not> challenge_expired env (R_heap r c)"
        "VerifyHMAC key (Rsp_HMAC resp) (challenge (R_heap r c)) (Rsp_RoomID resp) (Rsp_Username resp)
           (PublicAddr (R_heap r c))"
      using that m w(2)[OF wf] Ok unfolding verified_response_def by blast
    show ?thesis
      using clients_admit_verified[of env resp a c ok scan r1 q] v w(5,6)[OF wf]
      by (auto simp: handleAuthResponse_def Ok st f Some g Let_def joined_def)
  qed
qed (simp_all add: handleAuthResponse_def)

lemma clients_handleRelay: "R_clients (fst (handleRelay env p a st)) = R_clients (fst st)"
proof -
  obtain s r where sr: "relay_sender env p a (fst st) = (s, r)" by (cases "relay_sender env p a (fst st)")
  then have "R_clients r = R_clients (fst st)"
    by (auto simp: relay_sender_def tryMigrateAddrMap_def Let_def split: option.splits if_splits)
  with sr show ?thesis by (auto simp: handleRelay_def Let_def split: option.split)
qed

lemma clients_others [simp]:
  "R_clients (fst (handleKeepAliveWithPayload env p a st)) = R_clients (fst st)"
  "R_clients (fst (handlePong env p a st)) = R_clients (fst st)"
  "R_clients (fst (handlePeerRequest env a st)) = R_clients (fst st)"
  "R_clients (fst (handleHolePunch env p a st)) = R_clients (fst st)"
  using clients_core[OF core_handlePeerRequest] clients_core[OF core_handleHolePunch]
  by (auto simp: handleKeepAliveWithPayload_def handlePong_def case_prod_beta Let_def
      split: option.split res.split)

lemma clients_handleDisconnect:
  "\<exists>k. R_clients (fst (handleDisconnect env a st)) = mdel k (R_clients (fst st)) \<or>
       R_clients (fst (handleDisconnect env a st)) = R_clients (fst st)"
  by (auto simp: handleDisconnect_def case_prod_beta Let_def split: option.split)

text \<open>A packet adds at most one player, below the capacity, and in a room with a password only by a verified response.\<close>

lemma clients_HandlePacket:
  assumes "room_wf (fst st)"
  shows "(\<exists>k. R_clients (fst (HandlePacket env t p a st)) = mdel k (R_clients (fst st))) \<or>
    R_clients (fst (HandlePacket env t p a st)) = R_clients (fst st) \<or>
    joined (fst st) (fst (HandlePacket env t p a st)) \<and>
      (t = TypeRegister \<and> R_roomPass (fst st) = [] \<or>
       t = TypeAuthResponse \<and> verified_response env p a (fst st))"
  using clients_handleRegister[of env p a st] clients_handleAuthResponse[OF assms, of env p a]
    clients_handleDisconnect[of env a st]
  by (auto simp: HandlePacket_def clients_handleRelay)

section \<open>Capacity\<close>

lemma length_mput_le: "length (mput k v m) \<le> Suc (length m)"
  by (induction m) (auto simp: mput_def)

lemma clients_removals:
  "length (R_clients (fst (fold (remove_stale_client env) xs rb))) \<le> length (R_clients (fst rb))"
proof (induction xs arbitrary: rb)
  case (Cons x xs)
  have "length (R_clients (fst (remove_stale_client env x rb))) \<le> length (R_clients (fst rb))"
    by (auto simp: remove_stale_client_def Let_def length_mdel_le split: prod.split option.split)
  with Cons[of "remove_stale_client env x rb"] show ?case by simp
qed simp

lemma clients_remove_auths: "R_clients (fold remove_stale_auth ys r) = R_clients r"
  by (induction ys arbitrary: r) (auto simp: remove_stale_auth_def split: prod.split)

lemma clients_CleanupStale: "length (R_clients (snd (CleanupStale env r))) \<le> length (R_clients r)"
  using clients_removals[of env _ "(r, False)"]
  by (simp add: CleanupStale_def Let_def case_prod_beta clients_remove_auths)

lemma clients_ping_tick: "R_clients (fst (ping_tick env st)) = R_clients (fst st)"
proof -
  have "R_clients (fold (mark_missed env) xs r) = R_clients r" for xs r
    by (induction xs arbitrary: r) (auto simp: mark_missed_def split: option.split)
  moreover have "R_clients (fst (fold (send_ping env e) xs x)) = R_clients (fst x)" for e xs x
    by (induction xs arbitrary: x) (auto simp: send_ping_def case_prod_beta Let_def split: option.split)
  ultimately show ?thesis by (simp add: ping_tick_def Let_def)
qed

section \<open>The configuration of a room never changes\<close>

definition fixed :: "Room \<Rightarrow> _" where
  "fixed r = (R_roomID r, R_roomPass r, R_subnet r, R_serverIP r, R_maxPlayers r, R_maxPending r, R_maxPerIP r)"

lemma fixed_fields:
  assumes "fixed r = fixed r'"
  shows "R_roomPass r = R_roomPass r'" "R_subnet r = R_subnet r'" "R_maxPlayers r = R_maxPlayers r'"
    "R_maxPending r = R_maxPending r'" "R_maxPerIP r = R_maxPerIP r'"
  using assms by (simp_all add: fixed_def)

lemma fixed_small [simp]:
  "fixed (upd_client x f r) = fixed r" "fixed (decrementIPConnCount k r) = fixed r"
  "fixed (decrement_for cl r) = fixed r" "fixed (decrement_pending r) = fixed r"
  "fixed (markIPUsed i r) = fixed r" "fixed (markIPFree i r) = fixed r"
  "fixed (note_send env ok r) = fixed r" "fixed (markDirty r) = fixed r"
  "fixed (invalidatePeerInfoCache r) = fixed r" "fixed (reg_tick r) = fixed r" "fixed (Room_Stop r) = fixed r"
  "fixed (r\<lparr> R_clients := cs \<rparr>) = fixed r" "fixed (r\<lparr> R_addrMap := am \<rparr>) = fixed r"
  "fixed (r\<lparr> R_lastActivity := t \<rparr>) = fixed r" "fixed (r\<lparr> R_ipConnCount := ic \<rparr>) = fixed r"
  "fixed (r\<lparr> R_peerInfoDirty := d \<rparr>) = fixed r" "fixed (r\<lparr> R_totalKicks := n \<rparr>) = fixed r"
  "fixed (r\<lparr> R_authFailures := n \<rparr>) = fixed r" "fixed (r\<lparr> R_totalPacketsRelay := n \<rparr>) = fixed r"
  "fixed (snd (getAuthKey rid r)) = fixed r" "fixed (snd (checkRegRate ad r)) = fixed r"
  "fixed (snd (getEncodedPeerInfo env r)) = fixed r" "fixed (snd (new_client cl r)) = fixed r"
  by (simp_all add: fixed_def upd_client_def decrementIPConnCount_def decrement_for_def
      decrement_pending_def markIPUsed_def markIPFree_def note_send_def logSendError_def markDirty_def
      invalidatePeerInfoCache_def reg_tick_def Room_Stop_def getAuthKey_def checkRegRate_def
      getEncodedPeerInfo_def new_client_def Let_def split: option.split prod.split)

lemma fixed_sends [simp]:
  "fixed (fst (sendChecked env t p a st)) = fixed (fst st)"
  "fixed (fst (sendCheckedRaw env d a st)) = fixed (fst st)"
  "fixed (fst (sendCheckedRawBypass d a st)) = fixed (fst st)"
  by (simp_all add: sendChecked_def sendCheckedRaw_def sendCheckedRawBypass_def case_prod_beta)

lemma fixed_fold:
  "(\<And>x st. fixed (fst (f x st)) = fixed (fst st)) \<Longrightarrow> fixed (fst (fold f xs st)) = fixed (fst st)"
  by (induction xs arbitrary: st) simp_all

lemma fixed_sends2 [simp]:
  "fixed (fst (sendKickCode env a c s st)) = fixed (fst st)"
  "fixed (fst (sendKick env a s st)) = fixed (fst st)"
  "fixed (fst (sendAssignIP env v a st)) = fixed (fst st)"
  "fixed (fst (sendPeerInfoToClient env a st)) = fixed (fst st)"
  "fixed (fst (sendPeerInfoBroadcast env st)) = fixed (fst st)"
  "fixed (fst (notifyShutdown env st)) = fixed (fst st)"
  "fixed (fst (forward_unicast env d a st)) = fixed (fst st)"
  by (simp_all add: sendKickCode_def sendKick_def sendAssignIP_def sendPeerInfoToClient_def
      sendPeerInfoBroadcast_def notifyShutdown_def forward_unicast_def case_prod_beta Let_def fixed_fold)

lemma fixed_announce [simp]: "fixed (fst (announce_join env v a st)) = fixed (fst st)"
  by (simp add: announce_join_def Let_def)

lemma fixed_register:
  "fixed (snd (doRegisterClient env rg a r)) = fixed r"
  "fixed (snd (doSendAuthChallenge env rg a r)) = fixed r"
  "fixed (snd (resolveRestoredClient env u i a r)) = fixed r"
  "fixed (drop_stale_pending k r) = fixed r" "fixed (take_pending k r) = fixed r"
  "fixed (rehome_pending b a c r) = fixed r" "fixed (cleanupPendingAuth fk ok s c r) = fixed r"
proof -
  show "fixed (snd (doRegisterClient env rg a r)) = fixed r"
    by (auto simp: doRegisterClient_def Let_def new_client_def fixed_def markIPUsed_def markIPFree_def
        split: option.split)
  show "fixed (snd (doSendAuthChallenge env rg a r)) = fixed r"
    by (auto simp: doSendAuthChallenge_def Let_def new_client_def fixed_def split: option.split)
qed (auto simp: resolveRestoredClient_def drop_stale_pending_def take_pending_def rehome_pending_def
    cleanupPendingAuth_def Let_def split: option.split)

lemma fixed_handleRegister_new: "fixed (fst (handleRegister_new env rg a st)) = fixed (fst st)"
proof -
  obtain r q where st: "st = (r, q)" by (cases st)
  let ?k = "addrToConnIPKey a"
  define r1 where "r1 = r\<lparr> R_ipConnCount := mput ?k (mget0 (R_ipConnCount r) ?k + 1) (R_ipConnCount r) \<rparr>"
  have f: "fixed r1 = fixed r" by (simp add: r1_def)
  obtain v r2 where g: "doRegisterClient env rg a r1 = (v, r2)" by (cases "doRegisterClient env rg a r1")
  obtain ch r3 where c: "doSendAuthChallenge env rg a r1 = (ch, r3)" by (cases "doSendAuthChallenge env rg a r1")
  have "fixed r2 = fixed r" "fixed r3 = fixed r"
    using fixed_register(1,2)[of env rg a r1] f by (simp_all add: g c)
  then show ?thesis
    using f unfolding handleRegister_new_def st Let_def prod.case r1_def[symmetric] g c
    by (auto split: checkResult.split option.split)
qed

lemma fixed_handleRegister: "fixed (fst (handleRegister env p a st)) = fixed (fst st)"
proof (cases "UnmarshalRegister p")
  case (Ok rg)
  obtain r0 q where st: "st = (r0, q)" by (cases st)
  obtain rateOK r1 where c: "checkRegRate a r0 = (rateOK, r1)" by (cases "checkRegRate a r0")
  define r2 where "r2 = drop_stale_pending (AddrToRateKey a) r1"
  obtain res r3 where rs: "resolveRestoredClient env (Reg_Username rg) (Reg_RoomID rg) a r2 = (res, r3)"
    by (cases "resolveRestoredClient env (Reg_Username rg) (Reg_RoomID rg) a r2")
  have f1: "fixed r1 = fixed r0" using fixed_small(21)[of a r0] by (simp add: c)
  have f2: "fixed r2 = fixed r0" using f1 by (simp add: r2_def fixed_register(4))
  have f3: "fixed r3 = fixed r0"
    using f2 fixed_register(3)[of env "Reg_Username rg" "Reg_RoomID rg" a r2] by (simp add: rs)
  from f1 f2 f3 show ?thesis
    unfolding handleRegister_def Ok res.case st Let_def prod.case c r2_def[symmetric] rs
    by (auto simp: fixed_handleRegister_new split: option.split)
qed (simp_all add: handleRegister_def)

lemma fixed_admit_verified: "fixed (fst (admit_verified env resp a c ok scan (r, q))) = fixed r"
proof -
  define r2 where "r2 = rehome_pending scan a c (take_pending (if scan then ok else AddrToRateKey a) r)"
  define rg where "rg = \<lparr> Reg_RoomID = authRoomID (R_heap r2 c), Reg_Username = Username (R_heap r2 c),
      Reg_Version = clientVersion (R_heap r2 c) \<rparr>"
  obtain v r3 where g: "doRegisterClient env rg a r2 = (v, r3)" by (cases "doRegisterClient env rg a r2")
  have "fixed r2 = fixed r" by (simp add: r2_def fixed_register(5,6))
  then have "fixed r3 = fixed r" using fixed_register(1)[of env rg a r2] by (simp add: g)
  then show ?thesis
    unfolding admit_verified_def Let_def prod.case r2_def[symmetric] rg_def[symmetric] g
    by (auto split: checkResult.split option.split)
qed

lemma fixed_handleAuthResponse: "fixed (fst (handleAuthResponse env p a st)) = fixed (fst st)"
proof (cases "UnmarshalAuthResponse p")
  case (Ok resp)
  obtain r q where st: "st = (r, q)" by (cases st)
  obtain found ok scan where f: "find_pending env resp (AddrToRateKey a) r = (found, ok, scan)"
    by (cases "find_pending env resp (AddrToRateKey a) r")
  show ?thesis
  proof (cases found)
    case (Some c)
    obtain key r1 where g: "getAuthKey (authRoomID (R_heap r c)) r = (key, r1)"
      by (cases "getAuthKey (authRoomID (R_heap r c)) r")
    have "fixed r1 = fixed r" using fixed_small(20)[of "authRoomID (R_heap r c)" r] by (simp add: g)
    then show ?thesis
      by (auto simp: handleAuthResponse_def Ok st f Some g Let_def fixed_admit_verified fixed_register)
  qed (simp add: handleAuthResponse_def Ok st f Let_def)
qed (simp_all add: handleAuthResponse_def)

lemma fixed_handleRelay: "fixed (fst (handleRelay env p a st)) = fixed (fst st)"
proof -
  obtain s r where sr: "relay_sender env p a (fst st) = (s, r)" by (cases "relay_sender env p a (fst st)")
  then have "fixed r = fixed (fst st)"
    by (auto simp: relay_sender_def tryMigrateAddrMap_def Let_def split: option.splits if_splits)
  moreover have "fixed (fst (relay_forward env p ts x)) = fixed (fst x)" for ts x
    by (simp add: relay_forward_def Let_def fixed_fold)
  ultimately show ?thesis using sr by (auto simp: handleRelay_def Let_def split: option.split)
qed

lemma fixed_HandlePacket: "fixed (fst (HandlePacket env t p a st)) = fixed (fst st)"
proof -
  have "fixed (fst (handleDisconnect env a st)) = fixed (fst st)"
    by (auto simp: handleDisconnect_def case_prod_beta Let_def split: option.split)
  moreover have "fixed (fst (handleKeepAliveWithPayload env p a st)) = fixed (fst st)"
    "fixed (fst (handlePong env p a st)) = fixed (fst st)"
    "fixed (fst (handlePeerRequest env a st)) = fixed (fst st)"
    "fixed (fst (handleHolePunch env p a st)) = fixed (fst st)"
    by (auto simp: handleKeepAliveWithPayload_def handlePong_def handlePeerRequest_def handleHolePunch_def
        case_prod_beta Let_def split: option.split res.split)
  ultimately show ?thesis
    by (simp add: HandlePacket_def fixed_handleRegister fixed_handleAuthResponse fixed_handleRelay)
qed

lemma fixed_CleanupStale: "fixed (snd (CleanupStale env r)) = fixed r"
proof -
  have "fixed (fst (fold (remove_stale_client env) xs rb)) = fixed (fst rb)" for xs rb
    by (induction xs arbitrary: rb) (auto simp: remove_stale_client_def Let_def split: prod.split option.split)
  moreover have "fixed (fold remove_stale_auth ys x) = fixed x" for ys x
    by (induction ys arbitrary: x) (auto simp: remove_stale_auth_def split: prod.split)
  ultimately show ?thesis by (simp add: CleanupStale_def Let_def case_prod_beta)
qed

lemma fixed_ping_tick: "fixed (fst (ping_tick env st)) = fixed (fst st)"
proof -
  have "fixed (fold (mark_missed env) xs r) = fixed r" for xs r
    by (induction xs arbitrary: r) (auto simp: mark_missed_def split: option.split)
  moreover have "fixed (fst (fold (send_ping env e) xs x)) = fixed (fst x)" for e xs x
    by (induction xs arbitrary: x) (auto simp: send_ping_def case_prod_beta Let_def split: option.split)
  ultimately show ?thesis by (simp add: ping_tick_def Let_def)
qed

lemma fixed_room_step: "room_step st st' \<Longrightarrow> fixed (fst st') = fixed (fst st)"
proof (induction rule: room_step.induct)
  case (peerinfo env st)
  then show ?case by (simp add: peerInfo_tick_def)
qed (simp_all add: fixed_HandlePacket fixed_CleanupStale fixed_ping_tick rebind_update_def Let_def)

section \<open>Runs\<close>

lemma capacity_step:
  assumes "room_step st st'" "room_wf (fst st)"
  shows "int (length (R_clients (fst st'))) \<le>
    max (int (length (R_clients (fst st)))) (R_maxPlayers (fst st))"
  using assms
proof (induction rule: room_step.induct)
  case (packet env st t p a)
  from clients_HandlePacket[OF packet(2), of env t p a] consider
    k where "R_clients (fst (HandlePacket env t p a st)) = mdel k (R_clients (fst st))"
  | "R_clients (fst (HandlePacket env t p a st)) = R_clients (fst st)"
  | k c where "int (length (R_clients (fst st))) < R_maxPlayers (fst st)"
      "R_clients (fst (HandlePacket env t p a st)) = mput k c (R_clients (fst st))"
    by (auto simp: joined_def)
  then show ?case
  proof cases
    case 1
    then show ?thesis using length_mdel_le[of k "R_clients (fst st)"] by simp
  next
    case 3
    then show ?thesis using length_mput_le[of k c "R_clients (fst st)"] by simp
  qed simp
next
  case (cleanup env r q)
  then show ?case using clients_CleanupStale[of env r] by simp
next
  case (peerinfo env st)
  then show ?case using clients_core[OF core_peerInfo_tick[of env st]] by simp
next
  case (shutdown env st)
  then show ?case using clients_core[OF core_notifyShutdown[of env st]] by simp
next
  case (regtick r q)
  then show ?case using clients_core[OF core_reg_tick(1)[of r]] by simp
next
  case (stop r q)
  then show ?case using clients_core[OF core_reg_tick(2)[of r]] by simp
qed (simp_all add: clients_ping_tick rebind_update_def Let_def)

lemma run_invariant:
  assumes "room_step\<^sup>*\<^sup>* st st'" "room_wf (fst st)"
  shows "room_wf (fst st') \<and> fixed (fst st') = fixed (fst st) \<and>
    int (length (R_clients (fst st'))) \<le> max (int (length (R_clients (fst st)))) (R_maxPlayers (fst st))"
  using assms
proof (induction rule: rtranclp_induct)
  case (step y z)
  then have y: "room_wf (fst y)" "fixed (fst y) = fixed (fst st)" by simp_all
  from capacity_step[OF step(2) y(1)] wf_room_step[OF step(2) y(1)] fixed_room_step[OF step(2)] step y
  show ?case using fixed_fields(3)[OF y(2)] by simp
qed simp

end
