(* ===== verification/RoomGuarantees.thy ===== *)
theory RoomGuarantees
  imports RoomProps
begin

text \<open>
  What a room guarantees: its invariant along every run, who is admitted and how, which
  address a player gets, what is relayed to whom and which players the cleanup removes.
  The samples are a small open room, a room with a password and the environment the
  concrete instances run in.
\<close>

section \<open>Samples\<close>

definition sample_strings :: Strings where
  "sample_strings = \<lparr> KickVersionMismatch = (\<lambda>c s. []), KickInvalidName = [], KickInvalidRoom = [],
     KickRateLimit = [], KickIPLimit = [], KickRoomFull = [], KickDuplicateName = [],
     KickIPExhausted = [], KickServerBusy = [], KickInternalError = [], KickAuthAbnormal = [],
     KickAuthTimeout = [], KickWrongPassword = [] \<rparr>"

definition sample_env :: Env where
  "sample_env = \<lparr> E_now = 1000, E_ordC = id, E_ordA = id, E_token = Some (replicate 16 7),
     E_challenge = Some (replicate 16 9), E_t = sample_strings \<rparr>"

definition sample_cfg :: RoomConfig where
  "sample_cfg = \<lparr> RC_RoomID = lit ''lan'', RC_RoomPass = [],
     RC_Subnet = \<lparr> IPNet_IP = [10, 10, 0, 0], IPNet_Mask = [255, 255, 255, 0] \<rparr>,
     RC_MaxPlayers = 8, RC_MaxPerIP = 3, RC_BWLimiter = False, RC_Verbose = False \<rparr>"

definition sample_room :: Room where
  "sample_room = the (NewRoom 0 sample_cfg)"

definition locked_cfg :: RoomConfig where
  "locked_cfg = sample_cfg\<lparr> RC_RoomPass := lit ''secret'' \<rparr>"

definition locked_room :: Room where
  "locked_room = the (NewRoom 0 locked_cfg)"

definition sample_rlq :: rateLimitedQueue where
  "sample_rlq = newRateLimitedQueue None None"

definition sample_addr :: UDPAddr where
  "sample_addr = \<lparr> UDP_IP = [1, 2, 3, 4], UDP_Port = 40 \<rparr>"

definition sample_reg :: RegisterPayload where
  "sample_reg = \<lparr> Reg_RoomID = lit ''lan'', Reg_Username = lit ''bob'', Reg_Version = AppVersion \<rparr>"

lemma sample_env_ok [simp]: "env_ok sample_env"
  by (simp add: env_ok_def sample_env_def)

lemma sample_env_simps [simp]:
  "E_now sample_env = 1000" "E_token sample_env = Some (replicate 16 7)"
  "E_challenge sample_env = Some (replicate 16 9)" "E_ordC sample_env = id" "E_ordA sample_env = id"
  by (simp_all add: sample_env_def)

lemma sample_NewRoom: "NewRoom 0 sample_cfg = Some sample_room"
  and locked_NewRoom: "NewRoom 0 locked_cfg = Some locked_room"
proof -
  have "Mask_Size [255, 255, 255, 0] = (24, 32)" by code_simp
  then show "NewRoom 0 sample_cfg = Some sample_room" "NewRoom 0 locked_cfg = Some locked_room"
    by (simp_all add: sample_room_def locked_room_def NewRoom_def sample_cfg_def locked_cfg_def Let_def)
qed

lemma sample_subnet:
  "To4 (IPNet_IP (RC_Subnet sample_cfg)) \<noteq> None" "To4 (IPNet_IP (RC_Subnet locked_cfg)) \<noteq> None"
  by (simp_all add: sample_cfg_def locked_cfg_def To4_def)

lemma sample_room_wf [simp]: "room_wf sample_room" "room_wf locked_room"
  using wf_NewRoom[OF sample_NewRoom sample_subnet(1)] wf_NewRoom[OF locked_NewRoom sample_subnet(2)] .

lemma NewRoom_limits:
  assumes "NewRoom now cfg = Some r"
  shows "R_regBuf0 r = []" "R_regBuf1 r = []" "\<not> R_done r" "R_maxRegPerIP r = 5"
    "R_maxPending r = min (RC_MaxPlayers cfg * 3) 512" "R_next r = 0"
  using assms
  by (auto simp: NewRoom_def Let_def markIPUsed_def split: if_splits prod.splits option.splits)

section \<open>Invariant and capacity\<close>

text \<open>
  C1: Along every run of a room from its creation, over packets of any kind from any endpoint,
  cleanup, pings, migrations and shutdown: the number of players never exceeds the
  configured maximum, every player has an address of the room's subnet between .2 and .254
  with no two players on one address, an address is marked in the bitmap exactly when a
  player has it, and every endpoint entry leads to a player whose endpoint it is.  The two counters
  that the room compares with its limits, for unfinished authentications and for connections per source
  address, stay within the limits; that says nothing of the numbers they are to count, below which
  they can fall.
\<close>

theorem room_run_safe:
  assumes "NewRoom now cfg = Some r0" "To4 (IPNet_IP (RC_Subnet cfg)) \<noteq> None"
    "room_step\<^sup>*\<^sup>* (r0, q0) (r, q)"
  shows "int (ClientCount r) \<le> max 0 (RC_MaxPlayers cfg) \<and>
    0 \<le> R_pendingAuth r \<and> R_pendingAuth r \<le> max 0 (min (RC_MaxPlayers cfg * 3) 512) \<and>
    (\<forall>k n. mget (R_ipConnCount r) k = Some n \<longrightarrow>
       n \<le> (if RC_MaxPerIP cfg \<le> 0 then 3 else RC_MaxPerIP cfg)) \<and>
    (\<forall>k c. mget (R_clients r) k = Some c \<longrightarrow>
       (\<exists>n. 2 \<le> n \<and> n < 255 \<and> VirtualIP (R_heap r c) = vip_at r n) \<and>
       (\<forall>k' c'. mget (R_clients r) k' = Some c' \<and> VirtualIP (R_heap r c') = VirtualIP (R_heap r c) \<longrightarrow> c' = c)) \<and>
    (\<forall>n. 2 \<le> n \<and> n < 255 \<longrightarrow>
       (bm_used (R_ipBitmap r) n \<longleftrightarrow> mget (R_clients r) (IPKey (vip_at r n)) \<noteq> None)) \<and>
    (\<forall>k c. mget (R_addrMap r) k = Some c \<longrightarrow> map_option AddrToRateKey (PublicAddr (R_heap r c)) = Some k)"
proof -
  note f = NewRoom_fields[OF assms(1)]
  have m: "R_maxPending r0 = min (RC_MaxPlayers cfg * 3) 512" by (rule NewRoom_limits(5)[OF assms(1)])
  have wf: "room_wf r" and fx: "fixed r = fixed r0"
    and cap: "int (length (R_clients r)) \<le> max 0 (RC_MaxPlayers cfg)"
    using run_invariant[OF assms(3)] wf_NewRoom[OF assms(1,2)] f by auto
  note g = fixed_fields[OF fx]
  have w: "clients_wf r" "bitmap_wf r" "addr_wf r" "count_wf r" using wf by (simp_all add: room_wf_def)
  show ?thesis
  proof (intro conjI)
    show "int (ClientCount r) \<le> max 0 (RC_MaxPlayers cfg)" using cap by (simp add: ClientCount_def)
    show "0 \<le> R_pendingAuth r" "R_pendingAuth r \<le> max 0 (min (RC_MaxPlayers cfg * 3) 512)"
      "\<forall>k n. mget (R_ipConnCount r) k = Some n \<longrightarrow> n \<le> (if RC_MaxPerIP cfg \<le> 0 then 3 else RC_MaxPerIP cfg)"
      using w(4) g m f by (auto simp: count_wf_def)
    show "\<forall>k c. mget (R_clients r) k = Some c \<longrightarrow>
       (\<exists>n. 2 \<le> n \<and> n < 255 \<and> VirtualIP (R_heap r c) = vip_at r n) \<and>
       (\<forall>k' c'. mget (R_clients r) k' = Some c' \<and> VirtualIP (R_heap r c') = VirtualIP (R_heap r c) \<longrightarrow> c' = c)"
      using w(1) unfolding clients_wf_def assignable_def by (metis option.inject)
    show "\<forall>n. 2 \<le> n \<and> n < 255 \<longrightarrow>
       (bm_used (R_ipBitmap r) n \<longleftrightarrow> mget (R_clients r) (IPKey (vip_at r n)) \<noteq> None)"
      using w(2) by (auto simp: bitmap_wf_def assignable_def bm_set_def)
    show "\<forall>k c. mget (R_addrMap r) k = Some c \<longrightarrow> map_option AddrToRateKey (PublicAddr (R_heap r c)) = Some k"
      using w(3) by (fastforce simp: addr_wf_def)
  qed
qed

theorem room_run_safe_witness:
  "int (ClientCount (fst (HandlePacket sample_env TypeRegister (Register_Marshal sample_reg) sample_addr
      (sample_room, sample_rlq)))) \<le> max 0 8"
proof -
  let ?st = "HandlePacket sample_env TypeRegister (Register_Marshal sample_reg) sample_addr (sample_room, sample_rlq)"
  have "room_step\<^sup>*\<^sup>* (sample_room, sample_rlq) (fst ?st, snd ?st)"
    using room_step.packet[OF sample_env_ok] by auto
  from room_run_safe[OF sample_NewRoom sample_subnet(1) this] show ?thesis by (simp add: sample_cfg_def)
qed

section \<open>Admission\<close>

text \<open>
  C2: In a room with a password a packet makes a new player only if it is an authentication
  response whose HMAC, under the key derived from that password, covers the challenge sent to
  a pending player that has not expired, and only below the room's capacity.
\<close>

theorem password_required:
  assumes "room_wf (fst st)" "R_roomPass (fst st) \<noteq> []"
    "mget (R_clients (fst st)) k = None"
    "mget (R_clients (fst (HandlePacket env t p a st))) k = Some c"
  shows "t = TypeAuthResponse \<and> verified_response env p a (fst st) \<and>
    int (ClientCount (fst st)) < R_maxPlayers (fst st)"
  using clients_HandlePacket[OF assms(1), of env t p a] assms(2-4)
  by (auto simp: joined_def ClientCount_def split: if_splits)

section \<open>Addresses\<close>

lemma next_address:
  assumes "room_wf r" "nextAvailableIP r = Some v"
  shows "\<exists>n. assignable n \<and> v = vip_at r n \<and> mget (R_clients r) (IPKey v) = None \<and>
    (\<forall>m. assignable m \<and> m < n \<longrightarrow> mget (R_clients r) (IPKey (vip_at r m)) \<noteq> None)"
proof -
  have b: "bitmap_wf r" "bm_inv (R_ipBitmap r)" using assms(1) by (simp_all add: room_wf_def bitmap_wf_def)
  from nextAvailableIP_vip[OF assms(2)] obtain n where
    n: "bm_next (R_ipBitmap r) = Some n" "v = vip_at r n" by blast
  note s = pool.nxt_Some[OF b(2) n(1)]
  have "mget (R_clients r) (IPKey (vip_at r m)) \<noteq> None \<longleftrightarrow> m \<in> bm_set (R_ipBitmap r)" if "assignable m" for m
    using b(1) that by (auto simp: bitmap_wf_def)
  with s n show ?thesis by (metis not_less)
qed

lemma addresses_exhausted:
  assumes "room_wf r" "nextAvailableIP r = None"
  shows "253 \<le> length (R_clients r)"
proof -
  have wf: "bitmap_wf r" "bm_inv (R_ipBitmap r)" "distinct (mkeys (R_clients r))"
      "To4 (IPNet_IP (R_subnet r)) \<noteq> None"
    using assms(1) by (simp_all add: room_wf_def bitmap_wf_def clients_wf_def)
  then have "bm_next (R_ipBitmap r) = None"
    using assms(2) by (auto simp: nextAvailableIP_def split: option.splits)
  then have all: "{n. assignable n} \<subseteq> bm_set (R_ipBitmap r)" using pool.nxt_None[OF wf(2)] by simp
  have "(\<lambda>n. IPKey (vip_at r n)) ` {n. assignable n} \<subseteq> fst ` set (R_clients r)"
  proof (rule image_subsetI)
    fix n assume "n \<in> {n. assignable n}"
    with all wf(1) show "IPKey (vip_at r n) \<in> fst ` set (R_clients r)"
      using mget_None_iff[of "R_clients r" "IPKey (vip_at r n)"] by (auto simp: bitmap_wf_def)
  qed
  then have "card ((\<lambda>n. IPKey (vip_at r n)) ` {n. assignable n}) \<le> length (R_clients r)"
    using length_distinct_mkeys[OF wf(3)] card_mono[OF finite_imageI[OF finite_set]] by metis
  moreover have "card ((\<lambda>n. IPKey (vip_at r n)) ` {n. assignable n}) = card {n. assignable n}"
    by (rule card_image) (auto simp: inj_on_def dest: IPKey_vip_at_inj)
  moreover have "{n. assignable n} = {2..<255}" by (auto simp: assignable_def)
  ultimately show ?thesis by simp
qed

lemma doRegisterClient_success:
  assumes "room_wf r" "nextAvailableIP r = Some v" "E_token env = Some tok"
  obtains r' where "doRegisterClient env rg a r = (Some v, r')"
    "R_clients r' = mput (IPKey v) (R_next r) (R_clients r)"
    "R_addrMap r' = mput (AddrToRateKey a) (R_next r) (R_addrMap r)"
    "R_heap r' = (R_heap r)(R_next r := SetLastSeen (E_now env) (zeroClient\<lparr> Username := Reg_Username rg,
       VirtualIP := v, PublicAddr := Some a, auth := authNone, authRoomID := Reg_RoomID rg,
       clientVersion := Reg_Version rg, SessionToken := copy_into 16 tok \<rparr>))"
    "R_subnet r' = R_subnet r"
proof -
  obtain r' where r': "doRegisterClient env rg a r = (Some v, r')"
    using assms(2,3)
    by (cases "doRegisterClient env rg a r")
       (auto simp: doRegisterClient_def GenerateSessionToken_def new_client_def Let_def)
  moreover have "R_clients r' = mput (IPKey v) (R_next r) (R_clients r)"
    "R_addrMap r' = mput (AddrToRateKey a) (R_next r) (R_addrMap r)"
    "R_heap r' = (R_heap r)(R_next r := SetLastSeen (E_now env) (zeroClient\<lparr> Username := Reg_Username rg,
       VirtualIP := v, PublicAddr := Some a, auth := authNone, authRoomID := Reg_RoomID rg,
       clientVersion := Reg_Version rg, SessionToken := copy_into 16 tok \<rparr>))"
    "R_subnet r' = R_subnet r"
    using r' assms(2,3)
    by (auto simp: doRegisterClient_def GenerateSessionToken_def new_client_def markIPUsed_def Let_def
        split: option.splits if_splits)
  ultimately show ?thesis by (rule that)
qed

text \<open>
  C16: The allocator hands out the lowest free address: the address offered belongs to no
  player and every lower player address does; it fails only when all 253 are taken.
\<close>

theorem nextAvailableIP_least:
  assumes "room_wf r"
  shows "case nextAvailableIP r of
      Some v \<Rightarrow> (\<exists>n. 2 \<le> n \<and> n < 255 \<and> v = vip_at r n \<and> mget (R_clients r) (IPKey v) = None \<and>
        (\<forall>m. 2 \<le> m \<and> m < n \<longrightarrow> mget (R_clients r) (IPKey (vip_at r m)) \<noteq> None))
    | None \<Rightarrow> 253 \<le> ClientCount r"
proof (cases "nextAvailableIP r")
  case (Some v)
  from next_address[OF assms Some] obtain n where
    n: "assignable n" "v = vip_at r n" "mget (R_clients r) (IPKey v) = None"
      "\<forall>m. assignable m \<and> m < n \<longrightarrow> mget (R_clients r) (IPKey (vip_at r m)) \<noteq> None" by blast
  then have "\<forall>m. 2 \<le> m \<and> m < n \<longrightarrow> mget (R_clients r) (IPKey (vip_at r m)) \<noteq> None"
    by (simp add: assignable_def)
  with n Some show ?thesis by (auto simp: assignable_def)
qed (simp add: ClientCount_def addresses_exhausted[OF assms])

theorem nextAvailableIP_least_witness:
  "case nextAvailableIP sample_room of
      Some v \<Rightarrow> (\<exists>n. 2 \<le> n \<and> n < 255 \<and> v = vip_at sample_room n \<and>
        mget (R_clients sample_room) (IPKey v) = None \<and>
        (\<forall>m. 2 \<le> m \<and> m < n \<longrightarrow> mget (R_clients sample_room) (IPKey (vip_at sample_room m)) \<noteq> None))
    | None \<Rightarrow> 253 \<le> ClientCount sample_room"
  by (rule nextAvailableIP_least[OF sample_room_wf(1)])

section \<open>Joining\<close>

text \<open>
  The conditions under which a registration is served: the values the handler validates, a
  new endpoint, no placeholder of that name, and room within the limits.
\<close>

definition admissible :: "RegisterPayload \<Rightarrow> UDPAddr \<Rightarrow> Room \<Rightarrow> bool" where
  "admissible rg a r \<longleftrightarrow>
     IsCompatible (Reg_Version rg) AppVersion \<and>
     0 < RuneCount (Reg_Username rg) \<and> RuneCount (Reg_Username rg) \<le> maxUsernameLen \<and>
     length (Reg_Username rg) < 65536 \<and>
     0 < length (Reg_RoomID rg) \<and> length (Reg_RoomID rg) \<le> maxRoomIDLen \<and>
     fst (checkRegRate a r) \<and> mget (R_addrMap r) (AddrToRateKey a) = None \<and>
     list_all (\<lambda>(k, c). PublicAddr (R_heap r c) \<noteq> None) (R_clients r) \<and>
     mget0 (R_ipConnCount r) (addrToConnIPKey a) < R_maxPerIP r \<and>
     checkCapacityAndDuplicate (Reg_Username rg) (Reg_RoomID rg) r = checkOK"

text \<open>Nothing but the two counters of the source address differs.\<close>

definition same_room :: "Room \<Rightarrow> Room \<Rightarrow> bool" where
  "same_room r r' \<longleftrightarrow> R_subnet r' = R_subnet r \<and> R_maxPlayers r' = R_maxPlayers r \<and>
     R_clients r' = R_clients r \<and> R_addrMap r' = R_addrMap r \<and> R_heap r' = R_heap r \<and>
     R_next r' = R_next r \<and> R_ipBitmap r' = R_ipBitmap r \<and> R_pendingAuth r' = R_pendingAuth r \<and>
     R_maxPending r' = R_maxPending r \<and> R_maxPerIP r' = R_maxPerIP r \<and> R_roomPass r' = R_roomPass r \<and>
     R_authKeys r' = R_authKeys r"

lemma same_room_check:
  "same_room r r' \<Longrightarrow> checkCapacityAndDuplicate u i r' = checkCapacityAndDuplicate u i r"
  "same_room r r' \<Longrightarrow> nextAvailableIP r' = nextAvailableIP r"
  by (simp_all add: same_room_def checkCapacityAndDuplicate_def nextAvailableIP_def)

lemma resolveRestored_none:
  assumes "room_wf r" "list_all (\<lambda>(k, c). PublicAddr (R_heap r c) \<noteq> None) (R_clients r)"
    "mget0 (R_ipConnCount r) (addrToConnIPKey a) < R_maxPerIP r"
  obtains r' where "resolveRestoredClient env u i a r = (None, r')" "same_room r r'" "room_wf r'"
    "mget0 (R_ipConnCount r') (addrToConnIPKey a) < R_maxPerIP r'"
proof -
  let ?k = "addrToConnIPKey a"
  define r1 where "r1 = r\<lparr> R_ipConnCount := mput ?k (mget0 (R_ipConnCount r) ?k + 1) (R_ipConnCount r) \<rparr>"
  have none: "find (\<lambda>(k, c). Username (R_heap r c) = u \<and> authRoomID (R_heap r c) = i \<and>
      PublicAddr (R_heap r c) = None \<and> auth (R_heap r c) = authNone) (range_clients env r) = None"
    using assms(2) range_clients_sub[of _ _ env r] mget_in_set[of "R_clients r"]
    by (fastforce simp: find_None_iff list_all_iff)
  have c: "1 \<le> R_maxPerIP r" using assms(1) by (simp add: room_wf_def count_wf_def)
  have eq: "resolveRestoredClient env u i a r = (None, decrementIPConnCount ?k r1)"
    using assms(3) none by (simp add: resolveRestoredClient_def Let_def r1_def)
  moreover have "same_room r (decrementIPConnCount ?k r1)" by (simp add: same_room_def r1_def)
  moreover have "room_wf (decrementIPConnCount ?k r1)"
    using wf_decrementIPConnCount[OF wf_inc_ip[OF assms(1,3)], folded r1_def] .
  moreover have "mget0 (R_ipConnCount (decrementIPConnCount ?k r1)) ?k < R_maxPerIP (decrementIPConnCount ?k r1)"
    using assms(3) c by (auto simp: r1_def decrementIPConnCount_def mget0_def)
  ultimately show ?thesis by (rule that)
qed

lemma admissible_register:
  assumes "room_wf r" "admissible rg a r"
  obtains r' where "handleRegister env (Register_Marshal rg) a (r, q) = handleRegister_new env rg a (r', q)"
    "same_room r r'" "room_wf r'" "mget0 (R_ipConnCount r') (addrToConnIPKey a) < R_maxPerIP r'"
proof -
  obtain r1 where c: "checkRegRate a r = (True, r1)"
    using assms(2) by (cases "checkRegRate a r") (auto simp: admissible_def)
  have s1: "same_room r r1" and i1: "R_ipConnCount r1 = R_ipConnCount r"
    using c core_fields[OF core_checkRegRate[of a r]] by (simp_all add: same_room_def)
  have w1: "room_wf r1" using assms(1) room_wf_core[OF core_checkRegRate[of a r]] c by simp
  have d: "drop_stale_pending (AddrToRateKey a) r1 = r1"
    using s1 assms(2) by (simp add: drop_stale_pending_def same_room_def admissible_def)
  have "list_all (\<lambda>(k, c). PublicAddr (R_heap r1 c) \<noteq> None) (R_clients r1)"
    "mget0 (R_ipConnCount r1) (addrToConnIPKey a) < R_maxPerIP r1"
    using assms(2) s1 i1 by (simp_all add: same_room_def admissible_def)
  then obtain r2 where r2: "resolveRestoredClient env (Reg_Username rg) (Reg_RoomID rg) a r1 = (None, r2)"
      "same_room r1 r2" "room_wf r2" "mget0 (R_ipConnCount r2) (addrToConnIPKey a) < R_maxPerIP r2"
    by (rule resolveRestored_none[OF w1])
  have u: "UnmarshalRegister (Register_Marshal rg) = Ok rg"
    using assms(2) by (intro Register_roundtrip_lemma) (auto simp: admissible_def maxRoomIDLen_def)
  have "handleRegister env (Register_Marshal rg) a (r, q) = handleRegister_new env rg a (r2, q)"
    using assms(2) s1
    by (simp add: handleRegister_def u c d r2(1) admissible_def same_room_def Let_def)
  moreover have "same_room r r2" using s1 r2(2) by (simp add: same_room_def)
  ultimately show ?thesis using r2(3,4) by (rule that)
qed

text \<open>The player a room holds at an endpoint after a successful join.\<close>

definition member :: "RegisterPayload \<Rightarrow> UDPAddr \<Rightarrow> ip \<Rightarrow> Room \<Rightarrow> bool" where
  "member rg a v r \<longleftrightarrow> (\<exists>c. mget (R_clients r) (IPKey v) = Some c \<and>
     mget (R_addrMap r) (AddrToRateKey a) = Some c \<and> VirtualIP (R_heap r c) = v \<and>
     PublicAddr (R_heap r c) = Some a \<and> Username (R_heap r c) = Reg_Username rg \<and>
     authRoomID (R_heap r c) = Reg_RoomID rg \<and> auth (R_heap r c) = authNone)"

lemma member_core: "core r = core r' \<Longrightarrow> member rg a v r = member rg a v r'"
  using core_fields[of r r'] by (simp add: member_def)

lemma doRegisterClient_member:
  assumes "room_wf r" "nextAvailableIP r = Some v" "E_token env = Some tok"
  obtains r' where "doRegisterClient env rg a r = (Some v, r')" "member rg a v r'"
  by (rule doRegisterClient_success[OF assms, of rg a]) (auto simp: member_def SetLastSeen_def)

text \<open>
  In a room without password a registration that passes the documented checks makes the
  player a member at once, with the lowest free address of the room, provided the room is
  configured for at most 253 players: the handler never runs out of addresses before it
  reports the room full.
\<close>

theorem open_room_join:
  assumes "room_wf r" "R_roomPass r = []" "admissible rg a r" "R_maxPlayers r \<le> 253"
    "E_token env = Some tok"
  shows "\<exists>n. 2 \<le> n \<and> n < 255 \<and>
    (\<forall>m. 2 \<le> m \<and> m < n \<longrightarrow> mget (R_clients r) (IPKey (vip_at r m)) \<noteq> None) \<and>
    mget (R_clients r) (IPKey (vip_at r n)) = None \<and>
    member rg a (vip_at r n) (fst (HandlePacket env TypeRegister (Register_Marshal rg) a (r, q)))"
proof -
  obtain r' where r': "handleRegister env (Register_Marshal rg) a (r, q) = handleRegister_new env rg a (r', q)"
      "same_room r r'" "room_wf r'" "mget0 (R_ipConnCount r') (addrToConnIPKey a) < R_maxPerIP r'"
    by (rule admissible_register[OF assms(1,3)])
  let ?k = "addrToConnIPKey a"
  define r1 where "r1 = r'\<lparr> R_ipConnCount := mput ?k (mget0 (R_ipConnCount r') ?k + 1) (R_ipConnCount r') \<rparr>"
  have s1: "same_room r r1" using r'(2) by (simp add: r1_def same_room_def)
  have w1: "room_wf r1" using wf_inc_ip[OF r'(3,4)] by (simp add: r1_def)
  have ok: "checkCapacityAndDuplicate (Reg_Username rg) (Reg_RoomID rg) r1 = checkOK"
    using assms(3) same_room_check(1)[OF s1] by (simp add: admissible_def)
  have "int (length (R_clients r)) < R_maxPlayers r"
    using assms(3) by (auto simp: admissible_def dest: checkOK_capacity)
  then obtain v where v: "nextAvailableIP r = Some v"
    using addresses_exhausted[OF assms(1)] assms(4) by (cases "nextAvailableIP r") auto
  with same_room_check(2)[OF s1] have v1: "nextAvailableIP r1 = Some v" by simp
  obtain r2 where r2: "doRegisterClient env rg a r1 = (Some v, r2)" "member rg a v r2"
    by (rule doRegisterClient_member[OF w1 v1 assms(5)])
  have "HandlePacket env TypeRegister (Register_Marshal rg) a (r, q) = announce_join env v a (r2, q)"
    using r'(1,4) ok r2(1) s1 assms(2)
    unfolding HandlePacket_def handleRegister_new_def Let_def prod.case r1_def[symmetric]
    by (simp add: same_room_def)
  moreover have "member rg a v (fst (announce_join env v a (r2, q)))"
    using r2(2) member_core[OF core_announce_join[of env v a "(r2, q)"]] by simp
  ultimately show ?thesis using next_address[OF assms(1) v] by (auto simp: assignable_def)
qed

lemma new_room_admits:
  assumes "NewRoom now cfg = Some r" "0 < RC_MaxPlayers cfg"
  shows "admissible sample_reg a r"
proof -
  have "IsCompatible AppVersion AppVersion" "RuneCount (lit ''bob'') = 3" by code_simp+
  moreover have "fst (checkRegRate a r)"
    using NewRoom_limits(1,4)[OF assms(1)] by (simp add: checkRegRate_def reg_hit_def Let_def mget0_def)
  ultimately show ?thesis
    using NewRoom_fields[OF assms(1)] assms(2)
    by (simp add: admissible_def sample_reg_def checkCapacityAndDuplicate_def
        maxUsernameLen_def maxRoomIDLen_def mget0_def)
qed

theorem open_room_join_witness:
  "\<exists>n. 2 \<le> n \<and> n < 255 \<and>
    (\<forall>m. 2 \<le> m \<and> m < n \<longrightarrow> mget (R_clients sample_room) (IPKey (vip_at sample_room m)) \<noteq> None) \<and>
    mget (R_clients sample_room) (IPKey (vip_at sample_room n)) = None \<and>
    member sample_reg sample_addr (vip_at sample_room n)
      (fst (HandlePacket sample_env TypeRegister (Register_Marshal sample_reg) sample_addr
        (sample_room, sample_rlq)))"
  using NewRoom_fields[OF sample_NewRoom] new_room_admits[OF sample_NewRoom]
  by (intro open_room_join[where tok = "replicate 16 7"]) (simp_all add: sample_cfg_def)

section \<open>Joining with a password\<close>

lemma register_sends_challenge:
  assumes "room_wf r" "R_roomPass r \<noteq> []" "admissible rg a r" "R_pendingAuth r < R_maxPending r"
    "E_challenge env = Some ch" "length ch = ChallengeSize"
    "r1 = fst (HandlePacket env TypeRegister (Register_Marshal rg) a (r, q))"
  shows "R_clients r1 = R_clients r" "R_roomPass r1 = R_roomPass r" "R_maxPlayers r1 = R_maxPlayers r"
    "mget (R_addrMap r1) (AddrToRateKey a) = Some (R_next r)"
    "\<And>c. c < R_next r \<Longrightarrow> R_heap r1 c = R_heap r c"
    "R_heap r1 (R_next r) = SetLastSeen (E_now env) (zeroClient\<lparr> Username := Reg_Username rg,
       PublicAddr := Some a, auth := authChallengeSent, challenge := ch, challengeAt := Some (E_now env),
       authRoomID := Reg_RoomID rg, clientVersion := Reg_Version rg \<rparr>)"
    "room_wf r1"
proof -
  obtain r' where r': "handleRegister env (Register_Marshal rg) a (r, q) = handleRegister_new env rg a (r', q)"
      "same_room r r'" "room_wf r'" "mget0 (R_ipConnCount r') (addrToConnIPKey a) < R_maxPerIP r'"
    by (rule admissible_register[OF assms(1,3)])
  let ?k = "addrToConnIPKey a"
  define x where "x = r'\<lparr> R_ipConnCount := mput ?k (mget0 (R_ipConnCount r') ?k + 1) (R_ipConnCount r') \<rparr>"
  have s: "same_room r x" using r'(2) by (simp add: x_def same_room_def)
  have ok: "checkCapacityAndDuplicate (Reg_Username rg) (Reg_RoomID rg) x = checkOK"
    using assms(3) same_room_check(1)[OF s] by (simp add: admissible_def)
  obtain y where y: "doSendAuthChallenge env rg a x = (Some ch, y)"
    using assms(5,6) by (auto simp: doSendAuthChallenge_def GenerateChallenge_def new_client_def
        copy_into_def Let_def split: option.split)
  have "core r1 = core y"
    using r'(1,4) ok y s assms(2,4) core_sendChecked
    unfolding assms(7) HandlePacket_def handleRegister_new_def Let_def prod.case x_def[symmetric]
    by (simp add: same_room_def)
  note f = core_fields[OF this]
  show "R_clients r1 = R_clients r" "R_roomPass r1 = R_roomPass r" "R_maxPlayers r1 = R_maxPlayers r"
    "mget (R_addrMap r1) (AddrToRateKey a) = Some (R_next r)"
    "\<And>c. c < R_next r \<Longrightarrow> R_heap r1 c = R_heap r c"
    "R_heap r1 (R_next r) = SetLastSeen (E_now env) (zeroClient\<lparr> Username := Reg_Username rg,
       PublicAddr := Some a, auth := authChallengeSent, challenge := ch, challengeAt := Some (E_now env),
       authRoomID := Reg_RoomID rg, clientVersion := Reg_Version rg \<rparr>)"
    using y s assms(5,6) unfolding f
    by (auto simp: doSendAuthChallenge_def GenerateChallenge_def new_client_def copy_into_def same_room_def
        Let_def split: option.splits)
  show "room_wf r1" using wf_HandlePacket[of "(r, q)"] assms(1,7) by simp
qed

text \<open>The response a client with the right password computes (register.go).\<close>

definition honest_response :: "bytes \<Rightarrow> bytes \<Rightarrow> bytes \<Rightarrow> bytes \<Rightarrow> UDPAddr \<Rightarrow> AuthResponsePayload" where
  "honest_response pass ch room user a =
     \<lparr> Rsp_RoomID = room, Rsp_Username = user,
       Rsp_HMAC = ComputeHMAC (DeriveKey pass room) ch room user (Some a) \<rparr>"

lemma honest_verifies:
  assumes "pass \<noteq> []" "length room < 65536" "length user < 65536" "length (udp_string a) < 65536"
  shows "DeriveKey pass room \<noteq> []"
    "length (ComputeHMAC (DeriveKey pass room) ch room user (Some a)) = HMACSize"
    "VerifyHMAC (DeriveKey pass room) (ComputeHMAC (DeriveKey pass room) ch room user (Some a)) ch room user (Some a)"
proof -
  show k: "DeriveKey pass room \<noteq> []" using assms(1) by (simp add: DeriveKey_def hkdf32_def)
  show l: "length (ComputeHMAC (DeriveKey pass room) ch room user (Some a)) = HMACSize"
    using k assms by (simp add: ComputeHMAC_def)
  then have "ComputeHMAC (DeriveKey pass room) ch room user (Some a) \<noteq> []" by (metis list.size(3) zero_neq_numeral)
  with k show "VerifyHMAC (DeriveKey pass room) (ComputeHMAC (DeriveKey pass room) ch room user (Some a)) ch room user (Some a)"
    by (simp add: VerifyHMAC_def)
qed

lemma admit_verified_member:
  assumes "room_wf r" "mget (R_addrMap r) (AddrToRateKey a) = Some c"
    "checkCapacityAndDuplicate (Rsp_Username resp) (Rsp_RoomID resp) r = checkOK"
    "R_maxPlayers r \<le> 253" "E_token env = Some tok"
    "rg = \<lparr> Reg_RoomID = authRoomID (R_heap r c), Reg_Username = Username (R_heap r c),
       Reg_Version = clientVersion (R_heap r c) \<rparr>"
  shows "\<exists>v. nextAvailableIP r = Some v \<and>
    member rg a v (fst (admit_verified env resp a c (AddrToRateKey a) False (r, q)))"
proof -
  define x where "x = take_pending (AddrToRateKey a) r"
  have w: "room_wf x" using assms(1) by (simp add: x_def take_pending_def wf_decrement_pending wf_del_addr)
  have f: "R_heap x = R_heap r" "nextAvailableIP x = nextAvailableIP r"
    by (simp_all add: x_def take_pending_def nextAvailableIP_def)
  obtain v where v: "nextAvailableIP r = Some v"
    using addresses_exhausted[OF assms(1)] checkOK_capacity[OF assms(3)] assms(4)
    by (cases "nextAvailableIP r") auto
  with f have vx: "nextAvailableIP x = Some v" by simp
  obtain y where y: "doRegisterClient env rg a x = (Some v, y)" "member rg a v y"
    by (rule doRegisterClient_member[OF w vx assms(5)])
  have "admit_verified env resp a c (AddrToRateKey a) False (r, q) = announce_join env v a (y, q)"
    using assms(3,6) y(1) f
    by (simp add: admit_verified_def rehome_pending_def Let_def flip: x_def)
  moreover have "member rg a v (fst (announce_join env v a (y, q)))"
    using y(2) member_core[OF core_announce_join[of env v a "(y, q)"]] by simp
  ultimately show ?thesis using v by simp
qed

lemma honest_response_member:
  assumes wf: "room_wf r" and pass: "R_roomPass r \<noteq> []"
    and c: "mget (R_addrMap r) (AddrToRateKey a) = Some c" "cl = R_heap r c" "auth cl = authChallengeSent"
      "PublicAddr cl = Some a" "\<not> challenge_expired env cl"
    and ok: "checkCapacityAndDuplicate (Username cl) (authRoomID cl) r = checkOK" "R_maxPlayers r \<le> 253"
      "E_token env = Some tok"
    and len: "length (authRoomID cl) < 65536" "length (Username cl) < 65536" "length (udp_string a) < 65536"
  shows "\<exists>v. nextAvailableIP r = Some v \<and>
    member \<lparr> Reg_RoomID = authRoomID cl, Reg_Username = Username cl, Reg_Version = clientVersion cl \<rparr> a v
     (fst (HandlePacket env TypeAuthResponse (AuthResponse_Marshal
        (honest_response (R_roomPass r) (challenge cl) (authRoomID cl) (Username cl) a)) a (r, q)))"
proof -
  define resp where "resp = honest_response (R_roomPass r) (challenge cl) (authRoomID cl) (Username cl) a"
  note h = honest_verifies[OF pass len]
  have u: "UnmarshalAuthResponse (AuthResponse_Marshal resp) = Ok resp"
    using h(2) len by (intro AuthResponse_roundtrip_lemma) (simp_all add: resp_def honest_response_def)
  obtain key r1 where g: "getAuthKey (authRoomID cl) r = (key, r1)" by (cases "getAuthKey (authRoomID cl) r")
  note w = wf_getAuthKey[OF wf g]
  have b: "nextAvailableIP r1 = nextAvailableIP r"
    using g by (auto simp: getAuthKey_def nextAvailableIP_def Let_def split: option.splits if_splits)
  have p: "find_pending env resp (AddrToRateKey a) r = (Some c, AddrToRateKey a, False)"
    using c by (simp add: find_pending_def)
  have "HandlePacket env TypeAuthResponse (AuthResponse_Marshal resp) a (r, q) =
      admit_verified env resp a c (AddrToRateKey a) False (r1, q)"
    using c g h w(2) p u
    by (simp add: HandlePacket_def handleAuthResponse_def Let_def resp_def honest_response_def
        TypeAuthResponse_def TypeRegister_def)
  moreover have "checkCapacityAndDuplicate (Rsp_Username resp) (Rsp_RoomID resp) r1 = checkOK"
    using ok(1) w by (simp add: checkCapacityAndDuplicate_def resp_def honest_response_def split: if_splits)
  ultimately show ?thesis
    using admit_verified_member[OF w(1), of a c resp env tok] c w ok b by (simp add: resp_def)
qed

lemma challenge_then_response:
  assumes "room_wf r" "R_roomPass r \<noteq> []" "admissible rg a r" "R_pendingAuth r < R_maxPending r"
    "R_maxPlayers r \<le> 253" "E_challenge env = Some ch" "length ch = ChallengeSize"
    "E_token env' = Some tok" "E_now env' - E_now env \<le> 15 * second" "length (udp_string a) < 65536"
    "st1 = HandlePacket env TypeRegister (Register_Marshal rg) a (r, q)"
    "st2 = HandlePacket env' TypeAuthResponse (AuthResponse_Marshal
       (honest_response (R_roomPass r) ch (Reg_RoomID rg) (Reg_Username rg) a)) a st1"
  shows "\<exists>v. nextAvailableIP (fst st1) = Some v \<and> member rg a v (fst st2)"
proof -
  note s = register_sends_challenge[OF assms(1-4,6,7), of "fst st1" q]
  have e: "fst st1 = fst (HandlePacket env TypeRegister (Register_Marshal rg) a (r, q))"
    using assms(11) by simp
  note s = s[OF e]
  define cl where "cl = R_heap (fst st1) (R_next r)"
  note cl = s(6)[folded cl_def]
  have old: "c < R_next r" if "(k, c) \<in> set (R_clients r)" for k c
    using assms(1) in_set_mget[OF _ that] unfolding room_wf_def clients_wf_def by blast
  have "checkCapacityAndDuplicate (Reg_Username rg) (Reg_RoomID rg) (fst st1) =
      checkCapacityAndDuplicate (Reg_Username rg) (Reg_RoomID rg) r"
    using s(1,3,5) old by (auto simp: checkCapacityAndDuplicate_def list_ex_iff)
  then have ok: "checkCapacityAndDuplicate (Username cl) (authRoomID cl) (fst st1) = checkOK"
    using assms(3) cl by (simp add: admissible_def SetLastSeen_def)
  have "\<not> challenge_expired env' cl" using assms(9) cl by (simp add: challenge_expired_def SetLastSeen_def)
  moreover have "auth cl = authChallengeSent" "PublicAddr cl = Some a" using cl by (simp_all add: SetLastSeen_def)
  moreover have "length (authRoomID cl) < 65536" "length (Username cl) < 65536"
    using cl assms(3) by (simp_all add: admissible_def SetLastSeen_def maxRoomIDLen_def)
  moreover have "R_roomPass (fst st1) \<noteq> []" "R_maxPlayers (fst st1) \<le> 253" using assms(2,5) s(2,3) by simp_all
  ultimately have "\<exists>v. nextAvailableIP (fst st1) = Some v \<and>
     member \<lparr> Reg_RoomID = authRoomID cl, Reg_Username = Username cl, Reg_Version = clientVersion cl \<rparr> a v
      (fst (HandlePacket env' TypeAuthResponse (AuthResponse_Marshal
        (honest_response (R_roomPass (fst st1)) (challenge cl) (authRoomID cl) (Username cl) a)) a
        (fst st1, snd st1)))"
    using honest_response_member[OF s(7) _ s(4) cl_def] ok assms(8,10) by blast
  then show ?thesis unfolding assms(12) using cl s(2) by (simp add: SetLastSeen_def member_def)
qed


text \<open>
  A client that knows the password joins: in a room with a password, a registration that
  passes the checks draws a challenge, and the response computed from that challenge with the
  room's password, arriving from the same endpoint within 15 seconds, makes the client a
  member with the lowest free address.
\<close>

theorem password_room_join:
  assumes "room_wf r" "R_roomPass r \<noteq> []" "admissible rg a r" "R_pendingAuth r < R_maxPending r"
    "R_maxPlayers r \<le> 253" "E_challenge env = Some ch" "length ch = ChallengeSize"
    "E_token env' = Some tok" "E_now env' - E_now env \<le> 15 * second" "length (udp_string a) < 65536"
    "st1 = HandlePacket env TypeRegister (Register_Marshal rg) a (r, q)"
    "st2 = HandlePacket env' TypeAuthResponse (AuthResponse_Marshal
       (honest_response (R_roomPass r) ch (Reg_RoomID rg) (Reg_Username rg) a)) a st1"
  shows "\<exists>v. nextAvailableIP (fst st1) = Some v \<and> member rg a v (fst st2)"
  using assms by (rule challenge_then_response)

text \<open>The two packets of a join with password, on the sample room.\<close>

definition locked_st1 :: rst where
  "locked_st1 = HandlePacket sample_env TypeRegister (Register_Marshal sample_reg) sample_addr
     (locked_room, sample_rlq)"

definition locked_response :: bytes where
  "locked_response = AuthResponse_Marshal (honest_response (lit ''secret'') (replicate 16 9)
     (lit ''lan'') (lit ''bob'') sample_addr)"

lemma locked_facts:
  "R_roomPass locked_room = lit ''secret''" "R_maxPlayers locked_room = 8"
  "R_pendingAuth locked_room < R_maxPending locked_room" "admissible sample_reg a locked_room"
  "length (udp_string sample_addr) < 65536" "R_roomPass locked_room \<noteq> []"
proof -
  show pw: "R_roomPass locked_room = lit ''secret''" "R_maxPlayers locked_room = 8"
    "R_pendingAuth locked_room < R_maxPending locked_room" "admissible sample_reg a locked_room"
    using NewRoom_fields[OF locked_NewRoom] NewRoom_limits[OF locked_NewRoom] new_room_admits[OF locked_NewRoom]
    by (simp_all add: locked_cfg_def sample_cfg_def)
  have "udp_string sample_addr = lit ''1.2.3.4:40''" by code_simp
  then show "length (udp_string sample_addr) < 65536" by simp
  show "R_roomPass locked_room \<noteq> []" by (simp add: pw lit_def)
qed

theorem password_room_join_witness:
  "\<exists>v. nextAvailableIP (fst locked_st1) = Some v \<and>
    member sample_reg sample_addr v (fst (HandlePacket sample_env TypeAuthResponse locked_response sample_addr locked_st1))"
  using password_room_join[OF sample_room_wf(2) locked_facts(6,4,3) _ _ _ _ _ locked_facts(5) refl refl,
      of sample_env "replicate 16 9" sample_env "replicate 16 7" sample_rlq]
  by (simp add: locked_facts(1,2) locked_st1_def locked_response_def)
     (simp add: sample_reg_def)


theorem password_required_witness:
  "verified_response sample_env locked_response sample_addr (fst locked_st1)"
proof -
  let ?st2 = "HandlePacket sample_env TypeAuthResponse locked_response sample_addr locked_st1"
  have wf: "room_wf (fst locked_st1)" by (simp add: locked_st1_def wf_HandlePacket)
  have "\<exists>v. nextAvailableIP (fst locked_st1) = Some v \<and> member sample_reg sample_addr v (fst ?st2)"
    using challenge_then_response[OF sample_room_wf(2) locked_facts(6,4,3) _ _ _ _ _ locked_facts(5) refl refl,
        of sample_env "replicate 16 9" sample_env "replicate 16 7" sample_rlq]
    by (simp add: locked_facts(1,2) locked_st1_def locked_response_def) (simp add: sample_reg_def)
  then obtain v where v: "nextAvailableIP (fst locked_st1) = Some v" "member sample_reg sample_addr v (fst ?st2)"
    by blast
  have "mget (R_clients (fst locked_st1)) (IPKey v) = None" using next_address[OF wf v(1)] by blast
  moreover obtain c where "mget (R_clients (fst ?st2)) (IPKey v) = Some c" using v(2) by (auto simp: member_def)
  moreover have "R_roomPass (fst locked_st1) \<noteq> []"
    using register_sends_challenge(2)[OF sample_room_wf(2) locked_facts(6,4,3) sample_env_simps(3) _ refl,
        of sample_addr sample_rlq] locked_facts(6) by (simp add: locked_st1_def)
  ultimately show ?thesis using password_required[OF wf] by blast
qed

end
