(* ===== verification/RelayGuarantees.thy ===== *)
theory RelayGuarantees
  imports RoomGuarantees
begin

text \<open>
  What a data packet sets in motion (handleRelay): a broadcast reaches every other player
  exactly once, a unicast at most its destination, nothing is forwarded for a sender that
  is not a player under the source address it claims, and nobody else's traffic changes.
\<close>

section \<open>Packets a queue has taken on\<close>

definition taken_on :: "rateLimitedQueue \<Rightarrow> packet multiset" where
  "taken_on q = queued_pkts (RLQ_sq q) + mset (written_pkts (RLQ_sq q))"

lemma taken_on_limiter [simp]: "taken_on (q\<lparr> RLQ_limiter := l \<rparr>) = taken_on q"
  by (simp add: taken_on_def)

lemma taken_on_sendBypass: "taken_on (snd (sendBypass d a q)) = add_mset (d, a) (taken_on q)"
  by (simp add: taken_on_def sendBypass_def sendBroadcast_def queued_pkts_def pkt_def writeUDP_def
      written_pkts_def Let_def)

lemma taken_on_sq_send:
  "taken_on (q\<lparr> RLQ_sq := snd (sq_send d a pr (RLQ_sq q)) \<rparr>) =
     (if fst (sq_send d a pr (RLQ_sq q)) then add_mset (d, a) (taken_on q) else taken_on q)"
  by (simp add: taken_on_def sq_send_def queued_pkts_def pkt_def Let_def)

lemma taken_on_rlq_send:
  "taken_on (snd (rlq_send t d a pr q)) =
     (if fst (rlq_send t d a pr q) then add_mset (d, a) (taken_on q) else taken_on q)"
  using taken_on_sq_send[where d = d and a = a and pr = pr and q = q] taken_on_limiter[where q = "q\<lparr> RLQ_sq := snd (sq_send d a pr (RLQ_sq q)) \<rparr>"]
  by (auto simp: rlq_send_def Let_def case_prod_beta)

lemma taken_on_sendCheckedRaw:
  "taken_on (snd (sendCheckedRaw env d a st)) \<in> {taken_on (snd st), add_mset (d, a) (taken_on (snd st))}"
  by (simp add: sendCheckedRaw_def case_prod_beta taken_on_rlq_send)

lemma taken_on_forward_unicast:
  "taken_on (snd (forward_unicast env d a st)) \<in> {taken_on (snd st), add_mset (d, a) (taken_on (snd st))}"
proof -
  let ?l = "snd (BL_Allow (E_now env) a (length d) (RLQ_limiter (snd st)))"
  show ?thesis
    using taken_on_sendCheckedRaw[of env d a st]
      taken_on_sendCheckedRaw[of env d a "(fst st, (snd st)\<lparr> RLQ_limiter := ?l \<rparr>)"]
    by (auto simp: forward_unicast_def Let_def case_prod_beta)
qed

lemma taken_on_broadcast:
  "taken_on (snd (fold (sendCheckedRawBypass d) as st)) = mset (map (Pair d) as) + taken_on (snd st)"
proof (induction as arbitrary: st)
  case (Cons a as)
  have "taken_on (snd (sendCheckedRawBypass d a st)) = add_mset (d, a) (taken_on (snd st))"
    by (simp add: sendCheckedRawBypass_def taken_on_sendBypass case_prod_beta)
  then show ?case by (simp add: Cons)
qed simp

section \<open>The sender\<close>

lemma relay_sender_frame:
  assumes "relay_sender env p a r = (s, r')"
  shows "R_clients r' = R_clients r" "R_subnet r' = R_subnet r" "R_roomPass r' = R_roomPass r"
  using assms
  by (auto simp: relay_sender_def tryMigrateAddrMap_def upd_client_def Let_def split: option.splits if_splits)

text \<open>An endpoint the room knows is its own sender, and a migrated one becomes it.\<close>

lemma relay_sender_entry:
  assumes "relay_sender env p a r = (Some s, r')"
  shows "mget (R_addrMap r') (AddrToRateKey a) = Some s"
  using assms
  by (auto simp: relay_sender_def tryMigrateAddrMap_def upd_client_def Let_def split: option.splits if_splits)

lemma To4_Nil [simp]: "To4 [] = None"
  by (simp add: To4_def)

lemma relay_sender_player:
  assumes "room_wf r" "relay_sender env p a r = (Some s, r')" "To4 (VirtualIP (R_heap r' s)) = Some src"
  shows "mget (R_clients r') (IPKey (VirtualIP (R_heap r' s))) = Some s \<and> auth (R_heap r' s) = authNone \<and>
    map_option AddrToRateKey (PublicAddr (R_heap r' s)) = Some (AddrToRateKey a)"
proof -
  have "room_wf r'" using wf_relay_sender[OF assms(1,2)] .
  then have w: "addr_wf r'" by (simp add: room_wf_def)
  note e = relay_sender_entry[OF assms(2)]
  have "auth (R_heap r' s) = authNone"
    using w e assms(3) by (cases "auth (R_heap r' s)") (auto simp: addr_wf_def)
  with w e show ?thesis by (fastforce simp: addr_wf_def)
qed

lemma taken_on_relay_forward_unicast:
  assumes "\<not> IsRelayTargetRaw (take 4 (drop 4 p)) (Some (R_subnet r))"
  shows "taken_on (snd (relay_forward env p [t] (r, q))) \<in>
    {taken_on q, add_mset (relay_encode r p, t) (taken_on q)}"
  using taken_on_forward_unicast[of env "relay_encode r p" t "(r, q)"] assms
  by (simp add: relay_forward_def Let_def)

lemma HandlePacket_data: "HandlePacket env TypeData p a st = handleRelay env p a st"
  by (simp add: HandlePacket_def TypeData_def TypeRegister_def TypeAuthResponse_def TypeKeepAlive_def
      TypePeerRequest_def)

lemma forward_unicast_delivers:
  assumes "RLQ_limiter q = None" "length (SQ_ch (RLQ_sq q)) < SQ_maxSize (RLQ_sq q)"
  shows "taken_on (snd (forward_unicast env d t (r, q))) = add_mset (d, t) (taken_on q)"
proof -
  have "taken_on (snd (sendCheckedRaw env d t (r, x))) = add_mset (d, t) (taken_on x)"
    if "RLQ_limiter x = None" "RLQ_sq x = RLQ_sq q" for x
  proof -
    have "fst (rlq_send (E_now env) d t priorityLow x)"
      using assms(2) that by (simp add: rlq_send_def sq_send_def Let_def)
    then show ?thesis by (simp add: sendCheckedRaw_def case_prod_beta taken_on_rlq_send)
  qed
  moreover have "BL_Allow (E_now env) t (length d) (RLQ_limiter q) = (True, None)"
    using assms(1) by (simp add: BL_Allow_def BL_Enabled_def)
  ultimately show ?thesis using assms(1) by (simp add: forward_unicast_def Let_def)
qed

lemma broadcast_taken_on:
  assumes "room_wf r" "env_ok env" "8 \<le> length p" "mget (R_addrMap r) (AddrToRateKey a) = Some s"
    "To4 (VirtualIP (R_heap r s)) = Some (take 4 p)" "token_ok p (R_heap r s)"
    "IsRelayTargetRaw (take 4 (drop 4 p)) (Some (R_subnet r))"
  shows "taken_on (snd (HandlePacket env TypeData p a (r, q))) =
    mset (map (Pair (relay_encode r p))
      (public_addrs r (filter (\<lambda>(k, c). c \<noteq> s) (R_clients r)))) + taken_on q"
proof -
  define ts where "ts = relay_targets env r s (take 4 (drop 4 p))"
  have "distinct (mkeys (R_clients r))" using assms(1) by (simp add: room_wf_def clients_wf_def)
  then have m: "mset (range_clients env r) = mset (R_clients r)"
    using assms(2) by (simp add: range_clients_def env_ok_def mset_range_map)
  have pub: "mset (public_addrs r xs) = mset (public_addrs r ys)" if "mset xs = mset ys" for xs ys
    using that unfolding public_addrs_def map_filter_def
    by (metis (no_types, lifting) mset_filter mset_map)
  have t: "mset ts = mset (public_addrs r (filter (\<lambda>(k, c). c \<noteq> s) (R_clients r)))"
    using assms(7) m by (simp add: ts_def relay_targets_def pub)
  have sender: "relay_sender env p a r = (Some s, r)" using assms(4) by (simp add: relay_sender_def)
  have "handleRelay env p a (r, q) = (if ts = [] then (r, q) else relay_forward env p ts (r, q))"
    using assms(3,5,6) sender by (simp add: handleRelay_def Let_def ts_def)
  then have "taken_on (snd (handleRelay env p a (r, q))) = mset (map (Pair (relay_encode r p)) ts) + taken_on q"
    using assms(7) taken_on_broadcast[of "relay_encode r p" ts "(r, q)"]
    by (simp add: relay_forward_def Let_def)
  also have "\<dots> = mset (map (Pair (relay_encode r p)) (public_addrs r (filter (\<lambda>(k, c). c \<noteq> s) (R_clients r)))) + taken_on q"
    using t by (metis mset_map)
  finally show ?thesis by (simp add: HandlePacket_data)
qed


section \<open>A room with two players\<close>

definition addr2 :: UDPAddr where
  "addr2 = \<lparr> UDP_IP = [1, 2, 3, 5], UDP_Port = 41 \<rparr>"

definition room1 :: Room where
  "room1 = snd (doRegisterClient sample_env sample_reg sample_addr sample_room)"

definition room2 :: Room where
  "room2 = snd (doRegisterClient sample_env (sample_reg\<lparr> Reg_Username := lit ''ann'' \<rparr>) addr2 room1)"

lemma vip_at_subnet: "R_subnet r = R_subnet r' \<Longrightarrow> vip_at r = vip_at r'"
  by (simp add: vip_at_def fun_eq_iff)

lemma first_address:
  assumes "room_wf r" "R_clients r = []"
  shows "nextAvailableIP r = Some (vip_at r 2)"
proof (cases "nextAvailableIP r")
  case None
  then show ?thesis using addresses_exhausted[OF assms(1)] assms(2) by simp
next
  case (Some v)
  from next_address[OF assms(1) this] obtain n where
    n: "assignable n" "v = vip_at r n" "\<forall>m. assignable m \<and> m < n \<longrightarrow> mget (R_clients r) (IPKey (vip_at r m)) \<noteq> None"
    by blast
  from n(3)[rule_format, of 2] assms(2) have "\<not> 2 < n" by (auto simp: assignable_def)
  with n(1) have "n = 2" by (simp add: assignable_def)
  with n Some show ?thesis by simp
qed

lemma second_address:
  assumes "room_wf r" "R_clients r = [(IPKey (vip_at r 2), c)]"
  shows "nextAvailableIP r = Some (vip_at r 3)"
proof (cases "nextAvailableIP r")
  case None
  then show ?thesis using addresses_exhausted[OF assms(1)] assms(2) by simp
next
  case (Some v)
  from next_address[OF assms(1) this] obtain n where
    n: "assignable n" "v = vip_at r n" "mget (R_clients r) (IPKey v) = None"
      "\<forall>m. assignable m \<and> m < n \<longrightarrow> mget (R_clients r) (IPKey (vip_at r m)) \<noteq> None"
    by blast
  have "n \<noteq> 2" using n(2,3) assms(2) by (auto split: if_splits)
  moreover have "\<not> 3 < n"
    using n(4)[rule_format, of 3] assms(2) IPKey_vip_at_inj[of 3 2 r] by (auto simp: assignable_def split: if_splits)
  ultimately have "n = 3" using n(1) by (simp add: assignable_def)
  with n Some show ?thesis by simp
qed

definition player :: "bytes \<Rightarrow> ip \<Rightarrow> UDPAddr \<Rightarrow> Client" where
  "player name v a = SetLastSeen 1000 (zeroClient\<lparr> Username := name, VirtualIP := v, PublicAddr := Some a,
     auth := authNone, authRoomID := lit ''lan'', clientVersion := AppVersion,
     SessionToken := replicate 16 7 \<rparr>)"

abbreviation vip2 :: ip where "vip2 \<equiv> IPv4 10 10 0 2"
abbreviation vip3 :: ip where "vip3 \<equiv> IPv4 10 10 0 3"

lemma room2_state:
  "room_wf room2" "R_clients room2 = [(IPKey vip2, 0), (IPKey vip3, 1)]"
  "R_addrMap room2 = [(AddrToRateKey sample_addr, 0), (AddrToRateKey addr2, 1)]"
  "R_heap room2 0 = player (lit ''bob'') vip2 sample_addr" "R_heap room2 1 = player (lit ''ann'') vip3 addr2"
  "R_subnet room2 = RC_Subnet sample_cfg"
proof -
  note f = NewRoom_fields[OF sample_NewRoom] NewRoom_limits(6)[OF sample_NewRoom]
  have v: "vip_at r 2 = vip2" "vip_at r 3 = vip3" if "R_subnet r = RC_Subnet sample_cfg" for r
    using that by (simp_all add: vip_at_def sample_cfg_def To4_def Let_def)
  note n1 = first_address[OF sample_room_wf(1) f(3), unfolded v(1)[OF f(2)]]
  obtain r1 where r1: "doRegisterClient sample_env sample_reg sample_addr sample_room = (Some vip2, r1)"
      "R_clients r1 = mput (IPKey vip2) (R_next sample_room) (R_clients sample_room)"
      "R_addrMap r1 = mput (AddrToRateKey sample_addr) (R_next sample_room) (R_addrMap sample_room)"
      "R_heap r1 = (R_heap sample_room)(R_next sample_room := player (lit ''bob'') vip2 sample_addr)"
      "R_subnet r1 = R_subnet sample_room"
    by (rule doRegisterClient_success[OF sample_room_wf(1) n1 sample_env_simps(2), of sample_reg sample_addr])
       (simp add: player_def sample_reg_def)
  have e1: "room1 = r1" and w1: "room_wf r1" and s1: "R_subnet r1 = RC_Subnet sample_cfg"
    using r1(1,5) f(2) wf_doRegisterClient[OF sample_room_wf(1) r1(1)] by (simp_all add: room1_def)
  have next1: "R_next r1 = 1"
    using r1(1) n1 f(10) by (auto simp: doRegisterClient_def GenerateSessionToken_def new_client_def markIPUsed_def
        Let_def split: option.splits)
  have c1: "R_clients r1 = [(IPKey (vip_at r1 2), 0)]" using r1(2) f by (simp add: v(1)[OF s1] mput_def)
  note n2 = second_address[OF w1 c1, unfolded v(2)[OF s1]]
  obtain r2 where r2: "doRegisterClient sample_env (sample_reg\<lparr> Reg_Username := lit ''ann'' \<rparr>) addr2 r1 = (Some vip3, r2)"
      "R_clients r2 = mput (IPKey vip3) (R_next r1) (R_clients r1)"
      "R_addrMap r2 = mput (AddrToRateKey addr2) (R_next r1) (R_addrMap r1)"
      "R_heap r2 = (R_heap r1)(R_next r1 := player (lit ''ann'') vip3 addr2)"
      "R_subnet r2 = R_subnet r1"
    by (rule doRegisterClient_success[OF w1 n2 sample_env_simps(2),
          of "sample_reg\<lparr> Reg_Username := lit ''ann'' \<rparr>" addr2])
       (simp add: player_def sample_reg_def)
  have e2: "room2 = r2" using r2(1) by (simp add: room2_def e1)
  have ne: "IPKey vip2 \<noteq> IPKey vip3" "AddrToRateKey sample_addr \<noteq> AddrToRateKey addr2"
    by (simp_all add: IPKey_def IPv4_def copy_into_def AddrToRateKey_def sample_addr_def addr2_def)
  show "room_wf room2" using wf_doRegisterClient[OF w1 r2(1)] by (simp add: e2)
  show "R_clients room2 = [(IPKey vip2, 0), (IPKey vip3, 1)]"
    "R_addrMap room2 = [(AddrToRateKey sample_addr, 0), (AddrToRateKey addr2, 1)]"
    "R_heap room2 0 = player (lit ''bob'') vip2 sample_addr" "R_heap room2 1 = player (lit ''ann'') vip3 addr2"
    "R_subnet room2 = RC_Subnet sample_cfg"
    using r1 r2 f next1 s1 ne by (simp_all add: e2 mput_def)
qed

text \<open>Whatever a room sends for a data packet is the packet, encoded again.\<close>

lemma fold_unicast_new:
  "\<exists>M. taken_on (snd (fold (forward_unicast env d) ts st)) = M + taken_on (snd st) \<and> (\<forall>x\<in>#M. fst x = d)"
proof (induction ts arbitrary: st)
  case (Cons t ts)
  obtain M where M: "taken_on (snd (fold (forward_unicast env d) ts (forward_unicast env d t st))) =
      M + taken_on (snd (forward_unicast env d t st))" "\<forall>x\<in>#M. fst x = d"
    using Cons.IH by blast
  show ?case
  proof (cases "taken_on (snd (forward_unicast env d t st)) = taken_on (snd st)")
    case False
    then have "taken_on (snd (forward_unicast env d t st)) = {#(d, t)#} + taken_on (snd st)"
      using taken_on_forward_unicast[of env d t st] by auto
    then show ?thesis using M by (intro exI[of _ "M + {#(d, t)#}"]) auto
  qed (use M in auto)
qed simp

lemma relay_new:
  assumes "(e, to) \<in># taken_on (snd (HandlePacket env TypeData p a (r, q))) - taken_on q"
  shows "e = relay_encode r p"
proof -
  obtain s r1 where sr: "relay_sender env p a r = (s, r1)" by (cases "relay_sender env p a r")
  have enc: "relay_encode r1 p = relay_encode r p" using relay_sender_frame(3)[OF sr] by (simp add: relay_encode_def)
  have "\<exists>M. taken_on (snd (relay_forward env p ts (r1, q))) = M + taken_on q \<and> (\<forall>x\<in>#M. fst x = relay_encode r1 p)" for ts
    using fold_unicast_new[of env "relay_encode r1 p" ts "(r1, q)"]
    by (auto simp: relay_forward_def Let_def taken_on_broadcast)
  note fw = this[of "relay_targets env r1 (the s) (take 4 (drop 4 p))"]
  have "\<exists>M. taken_on (snd (HandlePacket env TypeData p a (r, q))) = M + taken_on q \<and> (\<forall>x\<in>#M. fst x = relay_encode r1 p)"
    using fw by (auto simp: HandlePacket_data handleRelay_def Let_def sr split: option.split)
  then show ?thesis using assms enc by fastforce
qed

section \<open>Properties\<close>

text \<open>
  C6: A player's broadcast reaches every other player exactly once and nobody else: the queue
  takes on one copy per other player with a known endpoint and loses nothing it
  held, whatever the order in which the player map is visited, and the sender gets no copy.
\<close>

theorem broadcast_reaches_all_others:
  assumes "room_wf r" "env_ok env" "8 \<le> length p" "mget (R_addrMap r) (AddrToRateKey a) = Some s"
    "To4 (VirtualIP (R_heap r s)) = Some (take 4 p)" "token_ok p (R_heap r s)"
    "IsRelayTargetRaw (take 4 (drop 4 p)) (Some (R_subnet r))"
  shows "taken_on (snd (HandlePacket env TypeData p a (r, q))) =
    mset (map (Pair (relay_encode r p))
      (public_addrs r (filter (\<lambda>(k, c). c \<noteq> s) (R_clients r)))) + taken_on q"
  using assms by (rule broadcast_taken_on)

text \<open>
  C31: A player's unicast goes to at most one endpoint, that of the player with the destination
  address: to no one if there is no such player or its endpoint is unknown, and
  otherwise it is queued once or, by the bandwidth limit or a full queue, dropped; without
  a limiter and with room in the queue it is not dropped.
\<close>

theorem unicast_reaches_destination_only:
  assumes "8 \<le> length p" "mget (R_addrMap r) (AddrToRateKey a) = Some s"
    "To4 (VirtualIP (R_heap r s)) = Some (take 4 p)" "token_ok p (R_heap r s)"
    "\<not> IsRelayTargetRaw (take 4 (drop 4 p)) (Some (R_subnet r))"
    "q' = snd (HandlePacket env TypeData p a (r, q))"
  shows "case Option.bind (mget (R_clients r) (IPKey4 (take 4 (drop 4 p)))) (\<lambda>c. PublicAddr (R_heap r c)) of
      None \<Rightarrow> taken_on q' = taken_on q
    | Some t \<Rightarrow> (taken_on q' = taken_on q \<or> taken_on q' = add_mset (relay_encode r p, t) (taken_on q)) \<and>
        (RLQ_limiter q = None \<and> length (SQ_ch (RLQ_sq q)) < SQ_maxSize (RLQ_sq q) \<longrightarrow>
           taken_on q' = add_mset (relay_encode r p, t) (taken_on q))"
proof -
  define ts where "ts = relay_targets env r s (take 4 (drop 4 p))"
  have ts: "ts = (case Option.bind (mget (R_clients r) (IPKey4 (take 4 (drop 4 p))))
      (\<lambda>c. PublicAddr (R_heap r c)) of None \<Rightarrow> [] | Some t \<Rightarrow> [t])"
    using assms(5) by (simp add: ts_def relay_targets_def split: option.split)
  have "relay_sender env p a r = (Some s, r)" using assms(2) by (simp add: relay_sender_def)
  then have "handleRelay env p a (r, q) = (if ts = [] then (r, q) else relay_forward env p ts (r, q))"
    using assms(1,3,4) by (simp add: handleRelay_def Let_def ts_def)
  then have q': "q' = (if ts = [] then q else snd (relay_forward env p ts (r, q)))"
    using assms(6) by (simp add: HandlePacket_data)
  have u: "snd (relay_forward env p [t] (r, q)) = snd (forward_unicast env (relay_encode r p) t (r, q))" for t
    using assms(5) by (simp add: relay_forward_def Let_def)
  show ?thesis
    using taken_on_forward_unicast[of env "relay_encode r p" _ "(r, q)"] forward_unicast_delivers
    by (auto simp: q' ts u split: option.split)
qed

text \<open>
  The sender of a packet in the state before it: a player at the packet's endpoint, or one that is moved to
  an endpoint where no one was.
\<close>

lemma relay_sender_before:
  assumes "room_wf r" "relay_sender env p a r = (Some s, r')" "To4 (VirtualIP (R_heap r' s)) = Some (take 4 p)" "token_ok p (R_heap r' s)"
  shows "mget (R_clients r) (IPKey (take 4 p)) = Some s" "To4 (VirtualIP (R_heap r s)) = Some (take 4 p)" "auth (R_heap r s) = authNone"
    "token_ok p (R_heap r s)"
    "mget (R_addrMap r) (AddrToRateKey a) = Some s \<or>
     mget (R_addrMap r) (AddrToRateKey a) = None \<and> mget (R_addrMap r') (AddrToRateKey a) = Some s \<and> PublicAddr (R_heap r' s) = Some a"
proof -
  have "mget (R_clients r) (IPKey (take 4 p)) = Some s \<and> To4 (VirtualIP (R_heap r s)) = Some (take 4 p) \<and> auth (R_heap r s) = authNone \<and>
    token_ok p (R_heap r s) \<and> (mget (R_addrMap r) (AddrToRateKey a) = Some s \<or>
     mget (R_addrMap r) (AddrToRateKey a) = None \<and> mget (R_addrMap r') (AddrToRateKey a) = Some s \<and> PublicAddr (R_heap r' s) = Some a)"
  proof (cases "mget (R_addrMap r) (AddrToRateKey a)")
    case (Some c)
    then have e: "s = c" "r' = r" using assms(2) by (simp_all add: relay_sender_def)
    have "IPKey (VirtualIP (R_heap r c)) = IPKey (take 4 p)"
      using IPKey_To4 IPKey_IPKey4[OF To4_length] assms(3) by (simp add: e)
    then show ?thesis using relay_sender_player[OF assms(1-3)] assms(3,4) Some by (auto simp: e)
  next
    case None
    then have m: "mget (R_clients r) (IPKey (take 4 p)) = Some s" "token_ok p (R_heap r s)"
        "VirtualIP (R_heap r' s) = VirtualIP (R_heap r s)" "PublicAddr (R_heap r' s) = Some a" "mget (R_addrMap r') (AddrToRateKey a) = Some s"
      using assms(2)
      by (auto simp: relay_sender_def tryMigrateAddrMap_def Let_def upd_client_def SetLastSeen_def split: option.splits if_splits)
    moreover have "auth (R_heap r s) = authNone" using assms(1) m(1) by (auto simp: room_wf_def clients_wf_def)
    ultimately show ?thesis using None assms(3) by simp
  qed
  then show "mget (R_clients r) (IPKey (take 4 p)) = Some s" "To4 (VirtualIP (R_heap r s)) = Some (take 4 p)" "auth (R_heap r s) = authNone"
    "token_ok p (R_heap r s)"
    "mget (R_addrMap r) (AddrToRateKey a) = Some s \<or>
     mget (R_addrMap r) (AddrToRateKey a) = None \<and> mget (R_addrMap r') (AddrToRateKey a) = Some s \<and> PublicAddr (R_heap r' s) = Some a"
    by blast+
qed

text \<open>
  C7: Nothing is forwarded under an address that is not a player's: if a data packet makes the
  room send anything, then before the packet its source address was the virtual address of an admitted player, and the packet
  came from that player's endpoint, or from an endpoint where the room had no one, to which
  the player is moved.  If the player has a session token (and a version that uses it), the packet is longer than its two
  addresses and a token in it is the player's; a packet that does not set the token flag passes.
\<close>

theorem relay_only_for_players:
  assumes "room_wf r" "st' = HandlePacket env TypeData p a (r, q)" "taken_on (snd st') \<noteq> taken_on q"
  shows "\<exists>s. mget (R_clients r) (IPKey (take 4 p)) = Some s \<and> To4 (VirtualIP (R_heap r s)) = Some (take 4 p) \<and>
    auth (R_heap r s) = authNone \<and>
    (mget (R_addrMap r) (AddrToRateKey a) = Some s \<or>
     mget (R_addrMap r) (AddrToRateKey a) = None \<and> mget (R_addrMap (fst st')) (AddrToRateKey a) = Some s \<and>
       PublicAddr (R_heap (fst st') s) = Some a) \<and>
    (MinTokenVersion \<le> clientVersion (R_heap r s) \<and> HasSessionToken (R_heap r s) \<longrightarrow> 8 < length p \<and>
      (case ParseDataHeader p of (flags, off, new) \<Rightarrow>
         has_token flags \<longrightarrow> ValidateSessionToken (take DataTokenLen (drop off p)) (R_heap r s)))"
proof -
  obtain sender r1 where sr: "relay_sender env p a r = (sender, r1)"
    by (cases "relay_sender env p a r")
  have st': "st' = handleRelay env p a (r, q)" using assms(2) by (simp add: HandlePacket_data)
  with assms(3) sr obtain s where s: "sender = Some s" "To4 (VirtualIP (R_heap r1 s)) = Some (take 4 p)"
      "token_ok p (R_heap r1 s)"
      "st' = relay_forward env p (relay_targets env r1 s (take 4 (drop 4 p))) (r1, q)"
    by (auto simp: handleRelay_def Let_def split: if_splits option.splits)
  note b = relay_sender_before[OF assms(1) sr[unfolded s(1)] s(2,3)]
  have c: "core (fst st') = core r1" using s(4) core_relay_forward by simp
  have "MinTokenVersion \<le> clientVersion (R_heap r s) \<and> HasSessionToken (R_heap r s) \<longrightarrow> 8 < length p \<and>
      (case ParseDataHeader p of (flags, off, new) \<Rightarrow>
         has_token flags \<longrightarrow> ValidateSessionToken (take DataTokenLen (drop off p)) (R_heap r s))"
    using b(4) by (auto simp: token_ok_def split: if_splits)
  then show ?thesis using b(1-3,5) core_fields(4,5)[OF c] by auto
qed

text \<open>Bob's packets: a broadcast and a unicast to ann, both with his session token.\<close>

definition bob_packet :: "bytes \<Rightarrow> bytes" where
  "bob_packet dst = [10, 10, 0, 2] @ dst @ [DataFormatVersion, DataFlagHasToken] @ replicate 16 7 @ [42]"

lemma bob_packet_facts:
  assumes "length dst = 4"
  shows "8 \<le> length (bob_packet dst)" "take 4 (bob_packet dst) = [10, 10, 0, 2]"
    "take 4 (drop 4 (bob_packet dst)) = dst" "token_ok (bob_packet dst) (R_heap room2 0)"
    "mget (R_addrMap room2) (AddrToRateKey sample_addr) = Some 0"
    "To4 (VirtualIP (R_heap room2 0)) = Some (take 4 (bob_packet dst))"
proof -
  from assms obtain w x y z where d: "dst = [w, x, y, z]"
    by (auto simp: numeral_eq_Suc length_Suc_conv)
  show "8 \<le> length (bob_packet dst)" "take 4 (bob_packet dst) = [10, 10, 0, 2]"
    "take 4 (drop 4 (bob_packet dst)) = dst"
    by (simp_all add: bob_packet_def d)
  show "mget (R_addrMap room2) (AddrToRateKey sample_addr) = Some 0" by (simp add: room2_state)
  show "To4 (VirtualIP (R_heap room2 0)) = Some (take 4 (bob_packet dst))"
    by (simp add: room2_state player_def SetLastSeen_def bob_packet_def)
  have p: "ParseDataHeader (bob_packet dst) = (DataFlagHasToken, DataHeaderLen, True)"
    by (simp add: ParseDataHeader_def bob_packet_def d)
  have t: "has_token DataFlagHasToken" by code_simp
  show "token_ok (bob_packet dst) (R_heap room2 0)"
    unfolding token_ok_def p
    by (simp add: t ValidateSessionToken_def room2_state player_def SetLastSeen_def bob_packet_def d)
qed


lemma broadcast_target: "IsRelayTargetRaw [255, 255, 255, 255] n"
  by (simp add: IsRelayTargetRaw_def)

lemma room2_ann: "PublicAddr (R_heap room2 (Suc 0)) = Some addr2"
  using room2_state(5) by (simp add: player_def SetLastSeen_def)

lemma bob_others: "public_addrs room2 (filter (\<lambda>(k, c). c \<noteq> 0) (R_clients room2)) = [addr2]"
  by (simp add: room2_state public_addrs_def map_filter_def room2_ann)

theorem broadcast_reaches_all_others_witness:
  "taken_on (snd (HandlePacket sample_env TypeData (bob_packet [255, 255, 255, 255]) sample_addr (room2, sample_rlq))) =
   add_mset (relay_encode room2 (bob_packet [255, 255, 255, 255]), addr2) (taken_on sample_rlq)"
proof -
  have l: "length [255, 255, 255, 255 :: byte] = 4" by simp
  note b = bob_packet_facts[OF l]
  have t: "IsRelayTargetRaw (take 4 (drop 4 (bob_packet [255, 255, 255, 255]))) (Some (R_subnet room2))"
    using broadcast_target b(3) by simp
  from broadcast_reaches_all_others[OF room2_state(1) sample_env_ok b(1,5,6,4) t, of sample_rlq]
  show ?thesis unfolding bob_others by simp
qed

theorem unicast_reaches_destination_only_witness:
  "taken_on (snd (HandlePacket sample_env TypeData (bob_packet [10, 10, 0, 3]) sample_addr (room2, sample_rlq))) =
   add_mset (relay_encode room2 (bob_packet [10, 10, 0, 3]), addr2) (taken_on sample_rlq)"
proof -
  have l: "length [10, 10, 0, 3 :: byte] = 4" by simp
  note b = bob_packet_facts[OF l]
  have t: "\<not> IsRelayTargetRaw (take 4 (drop 4 (bob_packet [10, 10, 0, 3]))) (Some (R_subnet room2))"
    unfolding b(3) by (simp add: room2_state sample_cfg_def) code_simp
  have d: "mget (R_clients room2) (IPKey4 [10, 10, 0, 3]) = Some 1"
    by (simp add: room2_state IPKey_def IPKey4_def IPv4_def)
  have q: "RLQ_limiter sample_rlq = None" "length (SQ_ch (RLQ_sq sample_rlq)) < SQ_maxSize (RLQ_sq sample_rlq)"
    by (simp_all add: sample_rlq_def newRateLimitedQueue_def newSendQueue_def)
  from unicast_reaches_destination_only[OF b(1,5,6,4) t refl, of sample_env sample_rlq] q
  show ?thesis by (simp add: b(3) d room2_ann)
qed

theorem relay_only_for_players_witness:
  "\<exists>s. mget (R_clients room2) (IPKey [10, 10, 0, 2]) = Some s \<and> mget (R_addrMap room2) (AddrToRateKey sample_addr) = Some s"
proof -
  have l: "length [255, 255, 255, 255 :: byte] = 4" by simp
  note b = bob_packet_facts[OF l]
  have t: "IsRelayTargetRaw (take 4 (drop 4 (bob_packet [255, 255, 255, 255]))) (Some (R_subnet room2))"
    using broadcast_target b(3) by simp
  have "taken_on (snd (HandlePacket sample_env TypeData (bob_packet [255, 255, 255, 255]) sample_addr
      (room2, sample_rlq))) \<noteq> taken_on sample_rlq"
    using broadcast_taken_on[OF room2_state(1) sample_env_ok b(1,5,6,4) t, of sample_rlq]
    unfolding bob_others by simp
  from relay_only_for_players[OF room2_state(1) refl this] show ?thesis using b(5) by (auto simp: b(2))
qed

end
