(* ===== verification/LifeGuarantees.thy ===== *)
theory LifeGuarantees
  imports RelayGuarantees
begin

text \<open>
  The periodic cleanup removes exactly the silent players, the registration limiter is the
  window counter it is meant to be, and two ways around the room's checks: a data packet
  without token moves a player to another endpoint, and a player restored after a restart
  is re-attached without the password.
\<close>

section \<open>Cleanup\<close>

definition removed_by :: "Env \<Rightarrow> Room \<Rightarrow> (ipkey \<times> cref) list \<Rightarrow> ipkey \<Rightarrow> cref \<Rightarrow> bool" where
  "removed_by env r xs k c \<longleftrightarrow> (k, c) \<in> set xs \<and> mget (R_clients r) k = Some c \<and> stale_client env r c"

lemma removed_by_Nil [simp]: "removed_by env r [] = (\<lambda>_ _. False)"
  by (simp add: removed_by_def fun_eq_iff)

lemma remove_stale_client_step:
  "R_heap (fst (remove_stale_client env (k, c) (r, ch))) = R_heap r"
  "R_clients (fst (remove_stale_client env (k, c) (r, ch))) =
     (if mget (R_clients r) k = Some c \<and> stale_client env r c then mdel k (R_clients r) else R_clients r)"
  "R_addrMap (fst (remove_stale_client env (k, c) (r, ch))) =
     (case PublicAddr (R_heap r c) of
        Some a \<Rightarrow> if mget (R_clients r) k = Some c \<and> stale_client env r c
                   then mdel (AddrToRateKey a) (R_addrMap r) else R_addrMap r
      | None \<Rightarrow> R_addrMap r)"
  "snd (remove_stale_client env (k, c) (r, ch)) \<longleftrightarrow>
     ch \<or> mget (R_clients r) k = Some c \<and> stale_client env r c"
  by (auto simp: remove_stale_client_def markIPFree_def Let_def split: option.split)

lemma stale_client_heap: "R_heap r' = R_heap r \<Longrightarrow> stale_client env r' c = stale_client env r c"
  by (simp add: stale_client_def)

definition freed_endpoint :: "Env \<Rightarrow> Room \<Rightarrow> (ipkey \<times> cref) list \<Rightarrow> RateKey \<Rightarrow> bool" where
  "freed_endpoint env r xs k \<longleftrightarrow>
     (\<exists>k' c'. removed_by env r xs k' c' \<and> map_option AddrToRateKey (PublicAddr (R_heap r c')) = Some k)"

lemma removals_effect:
  assumes "fold (remove_stale_client env) xs (r, ch) = (r', ch')"
  shows "R_heap r' = R_heap r \<and>
    (\<forall>k. mget (R_clients r') k = (if \<exists>c. removed_by env r xs k c then None else mget (R_clients r) k)) \<and>
    (ch' \<longleftrightarrow> ch \<or> (\<exists>k c. removed_by env r xs k c)) \<and>
    (\<forall>k. mget (R_addrMap r') k = (if freed_endpoint env r xs k then None else mget (R_addrMap r) k))"
  using assms
proof (induction xs arbitrary: r ch)
  case (Cons x xs)
  obtain k0 c0 where x: "x = (k0, c0)" by (cases x)
  obtain r1 ch1 where s: "remove_stale_client env (k0, c0) (r, ch) = (r1, ch1)"
    by (cases "remove_stale_client env (k0, c0) (r, ch)")
  note e = remove_stale_client_step[of env k0 c0 r ch, unfolded s fst_conv snd_conv]
  have "fold (remove_stale_client env) xs (r1, ch1) = (r', ch')" using Cons.prems s x by simp
  note ih = Cons.IH[OF this]
  have rb: "removed_by env r (x # xs) k c \<longleftrightarrow>
      removed_by env r1 xs k c \<or> (k, c) = (k0, c0) \<and> mget (R_clients r) k0 = Some c0 \<and> stale_client env r c0" for k c
    using e(1,2) stale_client_heap[OF e(1)] by (auto simp: removed_by_def x)
  show ?case
  proof (intro conjI allI impI)
    show "R_heap r' = R_heap r" using ih e(1) by simp
    show "mget (R_clients r') k =
        (if \<exists>c. removed_by env r (x # xs) k c then None else mget (R_clients r) k)" for k
      using ih e(2) by (auto simp: rb split: if_splits)
    show "ch' \<longleftrightarrow> ch \<or> (\<exists>k c. removed_by env r (x # xs) k c)" using ih e(4) by (auto simp: rb)
    have "freed_endpoint env r (x # xs) k \<longleftrightarrow> freed_endpoint env r1 xs k \<or> mget (R_clients r) k0 = Some c0 \<and> stale_client env r c0 \<and>
        map_option AddrToRateKey (PublicAddr (R_heap r c0)) = Some k" for k
      unfolding freed_endpoint_def rb e(1) by auto
    then show "mget (R_addrMap r') k = (if freed_endpoint env r (x # xs) k then None else mget (R_addrMap r) k)" for k
      using ih e(3) by (auto split: option.splits if_splits)
  qed
qed (simp add: freed_endpoint_def)

lemma auth_removals_effect:
  "R_heap (fold remove_stale_auth ys r) = R_heap r \<and> R_clients (fold remove_stale_auth ys r) = R_clients r \<and>
   (\<forall>k. mget (R_addrMap (fold remove_stale_auth ys r)) k =
      (if \<exists>c. (k, c) \<in> set ys \<and> mget (R_addrMap r) k = Some c then None else mget (R_addrMap r) k))"
proof (induction ys arbitrary: r)
  case (Cons y ys)
  obtain k c where y: "y = (k, c)" by (cases y)
  have "R_heap (remove_stale_auth y r) = R_heap r" "R_clients (remove_stale_auth y r) = R_clients r"
    "R_addrMap (remove_stale_auth y r) = (if mget (R_addrMap r) k = Some c then mdel k (R_addrMap r) else R_addrMap r)"
    by (simp_all add: remove_stale_auth_def y)
  with Cons[of "remove_stale_auth y r"] show ?case by (auto simp: y)
qed simp

lemma CleanupStale_effect:
  assumes "env_ok env" "CleanupStale env r = (changed, r')"
  shows "R_heap r' = R_heap r" and
    "mget (R_clients r') k = (case mget (R_clients r) k of None \<Rightarrow> None
       | Some c \<Rightarrow> if stale_client env r c then None else Some c)" and
    "changed \<longleftrightarrow> (\<exists>k c. mget (R_clients r) k = Some c \<and> stale_client env r c)" and
    "mget (R_addrMap r') k' = (case mget (R_addrMap r) k' of None \<Rightarrow> None
       | Some c \<Rightarrow> if stale_auth env r c \<or> (\<exists>k'' c''. mget (R_clients r) k'' = Some c'' \<and> stale_client env r c'' \<and>
            map_option AddrToRateKey (PublicAddr (R_heap r c'')) = Some k') then None else Some c)"
proof -
  let ?xs = "filter (\<lambda>(k, c). stale_client env r c) (range_clients env r)"
  let ?ys = "filter (\<lambda>(k, c). stale_auth env r c) (range_addrMap env r)"
  obtain r1 ch where f: "fold (remove_stale_client env) ?xs (r, False) = (r1, ch)"
    by (cases "fold (remove_stale_client env) ?xs (r, False)")
  note e1 = removals_effect[OF f] and e2 = auth_removals_effect[of ?ys r1]
  have xs: "removed_by env r ?xs k c \<longleftrightarrow> mget (R_clients r) k = Some c \<and> stale_client env r c" for k c
    using assms(1) by (auto simp: removed_by_def range_clients_def range_map_mem env_ok_def)
  have ys: "(k, c) \<in> set ?ys \<longleftrightarrow> mget (R_addrMap r) k = Some c \<and> stale_auth env r c" for k c
    using assms(1) by (auto simp: range_addrMap_def range_map_mem env_ok_def)
  have core': "R_heap r' = R_heap (fold remove_stale_auth ?ys r1)" "changed = ch"
    "R_clients r' = R_clients (fold remove_stale_auth ?ys r1)"
    "R_addrMap r' = R_addrMap (fold remove_stale_auth ?ys r1)"
    using assms(2) f by (auto simp: CleanupStale_def Let_def markDirty_def split: if_splits)
  show "R_heap r' = R_heap r" using core' e1 e2 by simp
  show "changed \<longleftrightarrow> (\<exists>k c. mget (R_clients r) k = Some c \<and> stale_client env r c)"
    using core' e1 by (simp add: xs)
  show "mget (R_clients r') k = (case mget (R_clients r) k of None \<Rightarrow> None
       | Some c \<Rightarrow> if stale_client env r c then None else Some c)"
    using core' e1 e2 by (auto simp: xs split: option.split)
  have fe: "freed_endpoint env r ?xs k' \<longleftrightarrow> (\<exists>k'' c''. mget (R_clients r) k'' = Some c'' \<and> stale_client env r c'' \<and>
      map_option AddrToRateKey (PublicAddr (R_heap r c'')) = Some k')"
    unfolding freed_endpoint_def xs by blast
  have a1: "mget (R_addrMap r1) k' = (if freed_endpoint env r ?xs k' then None else mget (R_addrMap r) k')" using e1 by blast
  have a2: "mget (R_addrMap r') k' = (if \<exists>c. (k', c) \<in> set ?ys \<and> mget (R_addrMap r1) k' = Some c then None else mget (R_addrMap r1) k')"
    unfolding core'(4) using e2 by blast
  show "mget (R_addrMap r') k' = (case mget (R_addrMap r) k' of None \<Rightarrow> None
       | Some c \<Rightarrow> if stale_auth env r c \<or> (\<exists>k'' c''. mget (R_clients r) k'' = Some c'' \<and> stale_client env r c'' \<and>
            map_option AddrToRateKey (PublicAddr (R_heap r c'')) = Some k') then None else Some c)"
    unfolding a2 a1 ys fe by (cases "mget (R_addrMap r) k'") (simp_all, blast)
qed

text \<open>
  C15: The periodic cleanup removes exactly what is stale, whatever the order in which it meets it: a player
  stays exactly if it was heard of within the last 30 seconds; an endpoint entry stays exactly if it
  is neither that of an authentication whose challenge is older than 30 seconds (or was never sent) nor the endpoint
  of a removed player; an address of the pool is in use afterwards exactly if one of the remaining players
  has it; and the result tells whether a player was removed.
\<close>

theorem CleanupStale_removes_exactly:
  assumes "room_wf r" "env_ok env" "CleanupStale env r = (changed, r')"
  shows "(\<forall>k. mget (R_clients r') k = (case mget (R_clients r) k of None \<Rightarrow> None
       | Some c \<Rightarrow> if 30 * second < E_now env - GetLastSeen (R_heap r c) then None else Some c)) \<and>
    (changed \<longleftrightarrow> (\<exists>k c. mget (R_clients r) k = Some c \<and> 30 * second < E_now env - GetLastSeen (R_heap r c))) \<and>
    (\<forall>k. mget (R_addrMap r') k = (case mget (R_addrMap r) k of None \<Rightarrow> None
       | Some c \<Rightarrow> if auth (R_heap r c) = authChallengeSent \<and>
              (case challengeAt (R_heap r c) of None \<Rightarrow> True | Some t \<Rightarrow> 30 * second < E_now env - t) \<or>
            (\<exists>k' c'. mget (R_clients r) k' = Some c' \<and> 30 * second < E_now env - GetLastSeen (R_heap r c') \<and>
               map_option AddrToRateKey (PublicAddr (R_heap r c')) = Some k) then None else Some c)) \<and>
    (\<forall>n. 2 \<le> n \<and> n < 255 \<longrightarrow> (bm_used (R_ipBitmap r') n \<longleftrightarrow>
       (\<exists>c. mget (R_clients r) (IPKey (vip_at r n)) = Some c \<and> \<not> 30 * second < E_now env - GetLastSeen (R_heap r c))))"
proof (intro conjI allI impI)
  note e = CleanupStale_effect[OF assms(2,3), unfolded stale_client_def stale_auth_def]
  show "mget (R_clients r') k = (case mget (R_clients r) k of None \<Rightarrow> None
       | Some c \<Rightarrow> if 30 * second < E_now env - GetLastSeen (R_heap r c) then None else Some c)" for k
    by (rule e(2))
  show "changed \<longleftrightarrow> (\<exists>k c. mget (R_clients r) k = Some c \<and> 30 * second < E_now env - GetLastSeen (R_heap r c))"
    by (rule e(3))
  show "mget (R_addrMap r') k = (case mget (R_addrMap r) k of None \<Rightarrow> None
       | Some c \<Rightarrow> if auth (R_heap r c) = authChallengeSent \<and>
              (case challengeAt (R_heap r c) of None \<Rightarrow> True | Some t \<Rightarrow> 30 * second < E_now env - t) \<or>
            (\<exists>k' c'. mget (R_clients r) k' = Some c' \<and> 30 * second < E_now env - GetLastSeen (R_heap r c') \<and>
               map_option AddrToRateKey (PublicAddr (R_heap r c')) = Some k) then None else Some c)" for k
    by (rule e(4))
next
  fix n :: nat
  assume h: "2 \<le> n \<and> n < 255"
  have f: "vip_at r' n = vip_at r n"
    using fixed_CleanupStale[of env r] fixed_fields(2)[of r' r] assms(3) vip_at_subnet[of r' r] by simp
  have "room_wf r'" using wf_CleanupStale[OF assms(1), of env] assms(3) by simp
  then have "bm_used (R_ipBitmap r') n \<longleftrightarrow> mget (R_clients r') (IPKey (vip_at r n)) \<noteq> None"
    using h f by (auto simp: room_wf_def bitmap_wf_def assignable_def bm_set_def)
  also have "\<dots> \<longleftrightarrow> (\<exists>c. mget (R_clients r) (IPKey (vip_at r n)) = Some c \<and> \<not> 30 * second < E_now env - GetLastSeen (R_heap r c))"
    using CleanupStale_effect(2)[OF assms(2,3), of "IPKey (vip_at r n)"] by (auto simp: stale_client_def split: option.splits)
  finally show "bm_used (R_ipBitmap r') n \<longleftrightarrow>
      (\<exists>c. mget (R_clients r) (IPKey (vip_at r n)) = Some c \<and> \<not> 30 * second < E_now env - GetLastSeen (R_heap r c))" .
qed

definition late_env :: Env where
  "late_env = sample_env\<lparr> E_now := 31 * second + 1000 \<rparr>"

theorem CleanupStale_removes_exactly_witness:
  "R_clients (snd (CleanupStale late_env room2)) = [] \<and> fst (CleanupStale late_env room2)"
proof -
  have "env_ok late_env" by (simp add: late_env_def env_ok_def)
  note t = CleanupStale_removes_exactly[OF room2_state(1) this, of "fst (CleanupStale late_env room2)"
      "snd (CleanupStale late_env room2)"]
  have s: "30 * second < E_now late_env - GetLastSeen (R_heap room2 c)" if "c = 0 \<or> c = 1" for c
    using that room2_state(4,5) by (auto simp: late_env_def GetLastSeen_def player_def SetLastSeen_def)
  have all: "c = 0 \<or> c = 1" if "mget (R_clients room2) k = Some c" for k c
    using that by (auto simp: room2_state split: if_splits)
  have "mget (R_clients (snd (CleanupStale late_env room2))) k = None" for k
    using t s all by (auto split: option.split)
  then have "R_clients (snd (CleanupStale late_env room2)) = []"
    by (metis list.set_intros(1) mget_None_iff image_eqI neq_Nil_conv)
  moreover have "mget (R_clients room2) (IPKey vip2) = Some 0" by (simp add: room2_state)
  ultimately show ?thesis using t s[of 0] by (metis prod.collapse)
qed


section \<open>Registration limit\<close>

lemma run_checkRegRate:
  "\<not> R_done r \<Longrightarrow> run_window checkRegRate reg_tick es r =
     run_window (reg_hit (R_maxRegPerIP r)) reg_swap (map (map_wevent addrToConnIPKey) es) (R_regBuf0 r, R_regBuf1 r)"
proof (induction es arbitrary: r)
  case (Cons e es)
  then show ?case
    by (cases e) (auto simp: checkRegRate_def reg_tick_def reg_hit_def reg_swap_def Let_def)
qed simp

text \<open>
  Registrations are limited to five per source address and window: the double-buffered
  limiter of a new room accepts and rejects exactly as a counter per address that is reset
  at every tick.
\<close>

theorem registration_limit_refines_spec:
  assumes "NewRoom now cfg = Some r"
  shows "run_window checkRegRate reg_tick es r =
    spec_window 5 (map (map_wevent addrToConnIPKey) es) (\<lambda>_. 0)"
proof -
  note l = NewRoom_limits[OF assms]
  have "mget0 ([] :: (connIPKey \<times> int) list) = (\<lambda>_. 0)" by (simp add: mget0_def fun_eq_iff)
  then show ?thesis
    using run_checkRegRate[OF l(3), of es] reg.run_refines_spec[of "([], [])" 5] by (simp add: l)
qed

theorem registration_limit_refines_spec_witness:
  "run_window checkRegRate reg_tick (replicate 6 (Hit sample_addr) @ [Tick, Hit sample_addr]) sample_room =
   [True, True, True, True, True, False, True]"
  by (subst registration_limit_refines_spec[OF sample_NewRoom]) (simp add: numeral_eq_Suc)

section \<open>Ways around the checks\<close>

text \<open>
  C22: A data packet needs no session token to take over a player's address: if it comes from
  an endpoint the room does not know, names a player's virtual address as its source and
  does not set the token flag, the player is moved to the sender's endpoint and its old
  endpoint is forgotten.
\<close>

theorem migration_without_token:
  assumes "8 < length p" "mget (R_addrMap r) (AddrToRateKey a) = None"
    "mget (R_clients r) (IPKey (take 4 p)) = Some c" "\<not> has_token (fst (ParseDataHeader p))"
    "r' = fst (HandlePacket env TypeData p a (r, q))"
  shows "mget (R_addrMap r') (AddrToRateKey a) = Some c \<and> PublicAddr (R_heap r' c) = Some a \<and>
    (\<forall>b. PublicAddr (R_heap r c) = Some b \<and> AddrToRateKey b \<noteq> AddrToRateKey a \<longrightarrow>
       mget (R_addrMap r') (AddrToRateKey b) = None)"
proof -
  have ok: "token_ok p (R_heap r c)"
    using assms(1,4) by (auto simp: token_ok_def case_prod_beta)
  obtain r1 where r1: "relay_sender env p a r = (Some c, r1)"
    "R_addrMap r1 = mput (AddrToRateKey a) c (case PublicAddr (R_heap r c) of None \<Rightarrow> R_addrMap r
        | Some b \<Rightarrow> mdel (AddrToRateKey b) (R_addrMap r))"
    "PublicAddr (R_heap r1 c) = Some a"
    using assms(2,3) ok
    by (simp add: relay_sender_def tryMigrateAddrMap_def upd_client_def SetLastSeen_def Let_def)
  have "core r' = core r1"
    using assms(1,5) r1(1) core_relay_forward
    by (auto simp: HandlePacket_data handleRelay_def Let_def split: option.splits)
  with core_fields(4,5)[OF this] r1 show ?thesis by simp
qed

definition strange_addr :: UDPAddr where
  "strange_addr = \<lparr> UDP_IP = [9, 9, 9, 9], UDP_Port = 1 \<rparr>"

definition forged_packet :: bytes where
  "forged_packet = [10, 10, 0, 2, 10, 10, 0, 3, DataFormatVersion, 0, 42]"

theorem migration_without_token_witness:
  "mget (R_addrMap (fst (HandlePacket sample_env TypeData forged_packet strange_addr (room2, sample_rlq))))
     (AddrToRateKey strange_addr) = Some 0"
proof -
  have "8 < length forged_packet" by (simp add: forged_packet_def)
  moreover have "mget (R_addrMap room2) (AddrToRateKey strange_addr) = None"
    by (simp add: room2_state AddrToRateKey_def strange_addr_def sample_addr_def addr2_def)
  moreover have "mget (R_clients room2) (IPKey (take 4 forged_packet)) = Some 0"
    by (simp add: room2_state forged_packet_def IPKey_def IPv4_def copy_into_def)
  moreover have "\<not> has_token (fst (ParseDataHeader forged_packet))" by code_simp
  ultimately show ?thesis using migration_without_token[OF _ _ _ _ refl] by blast
qed

text \<open>
  After a restart a player is re-attached on its name alone: a registration with the user
  and room name of a placeholder restored from disk takes over the placeholder's address
  without a challenge, whatever the room's password.
\<close>

theorem restored_player_needs_no_password:
  assumes "UnmarshalRegister p = Ok rg" "IsCompatible (Reg_Version rg) AppVersion"
    "0 < RuneCount (Reg_Username rg)" "RuneCount (Reg_Username rg) \<le> maxUsernameLen"
    "0 < length (Reg_RoomID rg)" "length (Reg_RoomID rg) \<le> maxRoomIDLen"
    "fst (checkRegRate a r)" "mget (R_addrMap r) (AddrToRateKey a) = None"
    "mget0 (R_ipConnCount r) (addrToConnIPKey a) < R_maxPerIP r"
    "env_ok env" "mget (R_clients r) k = Some c" "Username (R_heap r c) = Reg_Username rg"
    "authRoomID (R_heap r c) = Reg_RoomID rg" "PublicAddr (R_heap r c) = None" "auth (R_heap r c) = authNone"
    "r' = fst (HandlePacket env TypeRegister p a (r, q))"
  shows "\<exists>k c. mget (R_clients r') k = Some c \<and> mget (R_addrMap r') (AddrToRateKey a) = Some c \<and>
    PublicAddr (R_heap r' c) = Some a \<and> Username (R_heap r' c) = Reg_Username rg"
proof -
  obtain r1 where c1: "checkRegRate a r = (True, r1)" using assms(7) by (cases "checkRegRate a r") auto
  note f1 = core_fields[OF core_checkRegRate[of a r], unfolded c1 snd_conv]
  have d: "drop_stale_pending (AddrToRateKey a) r1 = r1" using assms(8) f1 by (simp add: drop_stale_pending_def)
  let ?P = "\<lambda>(k, c). Username (R_heap r1 c) = Reg_Username rg \<and> authRoomID (R_heap r1 c) = Reg_RoomID rg \<and>
      PublicAddr (R_heap r1 c) = None \<and> auth (R_heap r1 c) = authNone"
  have "(k, c) \<in> set (range_clients env r1)"
    using assms(10,11) f1 by (simp add: range_clients_def range_map_mem env_ok_def)
  moreover have "?P (k, c)" using assms(12-15) f1 by simp
  ultimately have "find ?P (range_clients env r1) \<noteq> None" unfolding find_None_iff by blast
  then obtain k' c' where fd: "find ?P (range_clients env r1) = Some (k', c')" by force
  then have p: "?P (k', c')" "mget (R_clients r) k' = Some c'"
    using find_SomeD[OF fd] range_clients_sub[of k' c' env r1] f1 by auto
  obtain r2 where r2: "resolveRestoredClient env (Reg_Username rg) (Reg_RoomID rg) a r1 = (Some c', r2)"
      "R_clients r2 = R_clients r" "mget (R_addrMap r2) (AddrToRateKey a) = Some c'"
      "PublicAddr (R_heap r2 c') = Some a" "Username (R_heap r2 c') = Reg_Username rg"
    using assms(9) f1 fd p by (simp add: resolveRestoredClient_def upd_client_def SetLastSeen_def Let_def)
  have "HandlePacket env TypeRegister p a (r, q) = announce_join env (VirtualIP (R_heap r2 c')) a (r2, q)"
    using assms(1-6,8) c1 d r2(1) f1 by (simp add: HandlePacket_def handleRegister_def Let_def)
  then have "core r' = core r2" using assms(16) core_announce_join by simp
  with core_fields(3-5)[OF this] r2 p(2) show ?thesis by auto
qed


definition restored_room :: Room where
  "restored_room = locked_room\<lparr> R_clients := [(IPKey vip2, 0)],
     R_heap := (\<lambda>_. zeroClient\<lparr> Username := lit ''bob'', VirtualIP := vip2, authRoomID := lit ''lan'' \<rparr>) \<rparr>"

theorem restored_player_needs_no_password_witness:
  "\<exists>c. mget (R_addrMap (fst (HandlePacket sample_env TypeRegister (Register_Marshal sample_reg) sample_addr
      (restored_room, sample_rlq)))) (AddrToRateKey sample_addr) = Some c"
proof -
  note f = NewRoom_fields[OF locked_NewRoom] NewRoom_limits[OF locked_NewRoom]
  have n: "IsCompatible AppVersion AppVersion" "RuneCount (lit ''bob'') = 3" by code_simp+
  have u: "UnmarshalRegister (Register_Marshal sample_reg) = Ok sample_reg"
    by (rule Register_roundtrip_lemma) (simp_all add: sample_reg_def)
  have rate: "fst (checkRegRate sample_addr restored_room)"
    using f by (simp add: restored_room_def checkRegRate_def reg_hit_def Let_def mget0_def)
  have r: "mget (R_addrMap restored_room) (AddrToRateKey sample_addr) = None"
    "mget0 (R_ipConnCount restored_room) (addrToConnIPKey sample_addr) < R_maxPerIP restored_room"
    using f by (simp_all add: restored_room_def mget0_def locked_cfg_def sample_cfg_def)
  have c: "mget (R_clients restored_room) (IPKey vip2) = Some 0"
    "Username (R_heap restored_room 0) = Reg_Username sample_reg" "PublicAddr (R_heap restored_room 0) = None"
    "authRoomID (R_heap restored_room 0) = Reg_RoomID sample_reg" "auth (R_heap restored_room 0) = authNone"
    by (simp_all add: restored_room_def sample_reg_def zeroClient_def)
  show ?thesis
    using restored_player_needs_no_password[OF u _ _ _ _ _ rate r sample_env_ok c(1,2,4,3,5) refl] n
    by (simp add: sample_reg_def maxUsernameLen_def maxRoomIDLen_def) blast
qed

section \<open>The counter of unfinished authentications\<close>

definition pending_entries :: "Room \<Rightarrow> RateKey set" where
  "pending_entries r = {k. \<exists>d. mget (R_addrMap r) k = Some d \<and> auth (R_heap r d) = authChallengeSent}"

text \<open>
  C34: The limit on unfinished authentications is not a limit on their number: an authentication response from an admitted
  player that belongs to no unfinished authentication takes one off the counter, although every
  unfinished authentication stays; the player stays too, but the room forgets its endpoint.
\<close>

theorem response_uncounts_pending:
  assumes "UnmarshalAuthResponse p = Ok resp" "length (Rsp_HMAC resp) = HMACSize"
    "mget (R_addrMap r) (AddrToRateKey a) = Some c" "auth (R_heap r c) = authNone"
    "\<forall>k d. mget (R_addrMap r) k = Some d \<and> auth (R_heap r d) = authChallengeSent \<longrightarrow>
       (authRoomID (R_heap r d), Username (R_heap r d)) \<noteq> (Rsp_RoomID resp, Rsp_Username resp)"
    "0 < R_pendingAuth r" "r' = fst (HandlePacket env TypeAuthResponse p a (r, q))"
  shows "R_pendingAuth r' = R_pendingAuth r - 1 \<and> pending_entries r' = pending_entries r \<and> R_clients r' = R_clients r \<and>
    mget (R_addrMap r') (AddrToRateKey a) = None"
proof -
  have "find (\<lambda>(k, x). auth (R_heap r x) = authChallengeSent \<and> authRoomID (R_heap r x) = Rsp_RoomID resp \<and>
      Username (R_heap r x) = Rsp_Username resp) (range_addrMap env r) = None"
    using assms(5) range_addrMap_sub[of _ _ env r] by (force simp: find_None_iff)
  then have f: "find_pending env resp (AddrToRateKey a) r = (Some c, AddrToRateKey a, False)"
    using assms(3,4) by (simp add: find_pending_def)
  define x where "x = cleanupPendingAuth (AddrToRateKey a) (AddrToRateKey a) False c r"
  have "core r' = core x"
    using assms(1,2,4,7) f core_sendKick
    by (simp add: HandlePacket_def handleAuthResponse_def type_defs Let_def x_def)
  note e = core_fields[OF this]
  have "R_pendingAuth x = R_pendingAuth r - 1" "R_heap x = R_heap r" "R_clients x = R_clients r" "R_addrMap x = mdel (AddrToRateKey a) (R_addrMap r)"
    using assms(6) by (simp_all add: x_def cleanupPendingAuth_def decrement_pending_def)
  then show ?thesis unfolding pending_entries_def e using assms(3,4) by auto
qed

text \<open>Ann and Bob are in the room, Carl has been sent his challenge, and Bob answers it for no one.\<close>

definition carl_room :: Room where
  "carl_room = snd (doSendAuthChallenge sample_env (sample_reg\<lparr> Reg_Username := lit ''carl'' \<rparr>) strange_addr room2)"

definition stray_response :: AuthResponsePayload where
  "stray_response = \<lparr> Rsp_RoomID = lit ''r'', Rsp_Username = lit ''nobody'', Rsp_HMAC = replicate 32 0 \<rparr>"

lemma carl_room_state:
  "R_addrMap carl_room = R_addrMap room2 @ [(AddrToRateKey strange_addr, R_next room2)]" "R_pendingAuth carl_room = R_pendingAuth room2 + 1"
  "R_heap carl_room 0 = R_heap room2 0" "R_heap carl_room 1 = R_heap room2 1" "auth (R_heap carl_room (R_next room2)) = authChallengeSent"
  "Username (R_heap carl_room (R_next room2)) = lit ''carl''" "0 \<le> R_pendingAuth room2"
proof -
  have ne: "IPKey vip2 \<noteq> IPKey vip3" by (simp add: IPKey_def IPv4_def copy_into_def)
  have "mget (R_clients room2) (IPKey vip3) = Some 1" using ne by (simp add: room2_state(2))
  then have "1 < R_next room2" using room2_state(1) unfolding room_wf_def clients_wf_def by blast
  then have n: "0 < R_next room2" "1 < R_next room2" "0 \<le> R_pendingAuth room2"
    using room2_state(1) by (simp_all add: room_wf_def count_wf_def)
  have k: "AddrToRateKey strange_addr \<noteq> AddrToRateKey sample_addr" "AddrToRateKey strange_addr \<noteq> AddrToRateKey addr2"
    by (simp_all add: AddrToRateKey_def strange_addr_def sample_addr_def addr2_def)
  have g: "GenerateChallenge (Some (replicate 16 9)) = Some (replicate 16 9)" by code_simp
  show "R_addrMap carl_room = R_addrMap room2 @ [(AddrToRateKey strange_addr, R_next room2)]" "R_pendingAuth carl_room = R_pendingAuth room2 + 1"
    "R_heap carl_room 0 = R_heap room2 0" "R_heap carl_room 1 = R_heap room2 1" "auth (R_heap carl_room (R_next room2)) = authChallengeSent"
    "Username (R_heap carl_room (R_next room2)) = lit ''carl''" "0 \<le> R_pendingAuth room2"
    using n k room2_state(3)
    by (simp_all add: carl_room_def doSendAuthChallenge_def sample_env_def g new_client_def mput_def SetLastSeen_def Let_def)
qed

theorem response_uncounts_pending_witness:
  "\<exists>r'. r' = fst (HandlePacket sample_env TypeAuthResponse (AuthResponse_Marshal stray_response) sample_addr (carl_room, sample_rlq)) \<and>
     R_pendingAuth r' = R_pendingAuth carl_room - 1 \<and> pending_entries r' = {AddrToRateKey strange_addr}"
proof -
  note c = carl_room_state
  have u: "UnmarshalAuthResponse (AuthResponse_Marshal stray_response) = Ok stray_response"
    by (rule AuthResponse_roundtrip_lemma) (simp_all add: stray_response_def lit_def)
  have k: "AddrToRateKey strange_addr \<noteq> AddrToRateKey sample_addr" "AddrToRateKey strange_addr \<noteq> AddrToRateKey addr2"
    by (simp_all add: AddrToRateKey_def strange_addr_def sample_addr_def addr2_def)
  have s: "AddrToRateKey sample_addr \<noteq> AddrToRateKey addr2" by (simp add: AddrToRateKey_def sample_addr_def addr2_def)
  have e: "mget (R_addrMap carl_room) = [AddrToRateKey sample_addr \<mapsto> 0, AddrToRateKey addr2 \<mapsto> 1, AddrToRateKey strange_addr \<mapsto> R_next room2]"
    using k s by (auto simp: c(1) room2_state(3) fun_eq_iff)
  have a: "auth (R_heap carl_room 0) = authNone" "auth (R_heap carl_room 1) = authNone"
    using c(3,4) room2_state(4,5) by (simp_all add: player_def SetLastSeen_def)
  have "pending_entries carl_room = {AddrToRateKey strange_addr}" using a c(5) k by (auto simp: pending_entries_def e)
  moreover have m: "mget (R_addrMap carl_room) (AddrToRateKey sample_addr) = Some 0" using k s by (simp add: e)
  have h: "length (Rsp_HMAC stray_response) = HMACSize" by (simp add: stray_response_def)
  have o: "\<forall>k d. mget (R_addrMap carl_room) k = Some d \<and> auth (R_heap carl_room d) = authChallengeSent \<longrightarrow>
      (authRoomID (R_heap carl_room d), Username (R_heap carl_room d)) \<noteq> (Rsp_RoomID stray_response, Rsp_Username stray_response)"
    using a c(6) by (auto simp: e stray_response_def lit_def split: if_splits)
  have z: "0 < R_pendingAuth carl_room" using c(2,7) by simp
  note t = response_uncounts_pending[OF u h m a(1) o z refl, of sample_env sample_rlq]
  ultimately show ?thesis using t by simp
qed

end
