(* ===== verification/Server.thy ===== *)
theory Server
  imports LifeGuarantees
begin

text \<open>
  The server above the rooms (server/server.go, keepalive_server.go, subnet.go): reception and
  the worker queue, dispatch, routing between rooms, address migration, NAT probes,
  periodic cleanup, subnet allocation and shutdown.  Rooms are heap cells, because the
  routing table \<open>addrToRoom\<close> can still hold a room that is no longer listed.
\<close>

section \<open>State\<close>

type_synonym rref = nat

record Server =
  S_queue :: rateLimitedQueue
  S_multiRoom :: bool
  S_rooms :: "(bytes \<times> rref) list"
  S_heap :: "rref \<Rightarrow> Room"
  S_next :: rref
  S_addrToRoom :: "(RateKey \<times> rref) list"
  S_maxRooms :: int
  S_defaultRoom :: "rref option"
  S_baseSubnet :: "IPNet option"
  S_roomPass :: bytes
  S_cachedEncrypted :: bool
  S_localSubnets :: "IPNet list"
  S_rateShards :: rateShardsArray
  S_pktCh :: "(bytes \<times> UDPAddr) list"
  S_chanBuf :: nat
  S_totalPacketsDropped :: u64
  S_sendErrors :: u64
  S_verbose :: bool

text \<open>The orders of the server's own maps, beside those of the rooms.\<close>

record SEnv =
  V_env :: Env
  V_ordR :: "bytes list \<Rightarrow> bytes list"
  V_ordS :: "RateKey list \<Rightarrow> RateKey list"

definition senv_ok :: "SEnv \<Rightarrow> bool" where
  "senv_ok ev \<longleftrightarrow> env_ok (V_env ev) \<and> order_ok (V_ordR ev) \<and> order_ok (V_ordS ev)"

record Config =
  Cfg_Subnet :: IPNet
  Cfg_MaxPlayers :: int
  Cfg_RoomPass :: bytes
  Cfg_MaxPerIP :: int
  Cfg_MultiRoom :: bool
  Cfg_BandwidthLimit :: int
  Cfg_MaxRooms :: int
  Cfg_Verbose :: bool

definition defaultMaxRooms :: int where "defaultMaxRooms = 64"

definition default_id :: bytes where "default_id = lit ''default''"

text \<open>Running a room operation: the room's cell and the shared queue change.\<close>

definition with_room :: "rref \<Rightarrow> (rst \<Rightarrow> rst) \<Rightarrow> Server \<Rightarrow> Server" where
  "with_room rr f s =
     (let (r, q) = f (S_heap s rr, S_queue s)
      in s\<lparr> S_heap := (S_heap s)(rr := r), S_queue := q \<rparr>)"

definition on_room :: "rref \<Rightarrow> (Room \<Rightarrow> Room) \<Rightarrow> Server \<Rightarrow> Server" where
  "on_room rr f s = s\<lparr> S_heap := (S_heap s)(rr := f (S_heap s rr)) \<rparr>"

definition new_room :: "Room \<Rightarrow> Server \<Rightarrow> rref \<times> Server" where
  "new_room r s = (S_next s, s\<lparr> S_heap := (S_heap s)(S_next s := r), S_next := Suc (S_next s) \<rparr>)"

definition range_rooms :: "SEnv \<Rightarrow> Server \<Rightarrow> (bytes \<times> rref) list" where
  "range_rooms ev s = range_map (V_ordR ev) (S_rooms s)"

section \<open>Creation\<close>

text \<open>The zero value of a room; no reference leads to it.\<close>

definition zeroRoom :: Room where
  "zeroRoom = \<lparr> R_roomID = [], R_roomPass = [], R_subnet = \<lparr> IPNet_IP = [], IPNet_Mask = [] \<rparr>,
     R_serverIP = [], R_maxPlayers = 0, R_bwLimiter = False, R_clients = [], R_addrMap = [],
     R_heap = (\<lambda>_. zeroClient), R_next = 0, R_ipBitmap = [], R_authKeys = [], R_pendingAuth = 0,
     R_maxPending = 0, R_regBuf0 = [], R_regBuf1 = [], R_done = False, R_maxRegPerIP = 0,
     R_ipConnCount = [], R_maxPerIP = 0, R_peerInfoDirty = False, R_peerInfoEncoded = None,
     R_peerInfoCachedAt = 0, R_totalRegistrations = 0, R_authFailures = 0, R_peakPlayers = 0,
     R_totalPacketsRelay = 0, R_totalPacketsDropped = 0, R_totalKicks = 0, R_sendErrors = 0,
     R_lastSendErrorLog = None, R_sendErrorCountSinceLog = 0, R_onDirty = False,
     R_persistDirty = False, R_createdAt = 0, R_lastActivity = 0, R_verbose = False \<rparr>"

text \<open>
  New after the socket is open and before the saved state is loaded.  \<open>locals\<close> are the subnets of
  the local interfaces and \<open>tcpWrite\<close> the bridge to TCP clients; None is the error for a subnet
  that is not a /24.
\<close>

definition server0 :: "IPNet list \<Rightarrow> (UDPAddr \<Rightarrow> bytes \<Rightarrow> bool) option \<Rightarrow> Config \<Rightarrow> Server" where
  "server0 locals tcpWrite cfg =
     (let maxRooms = (if Cfg_MaxRooms cfg \<le> 0 \<and> Cfg_MultiRoom cfg then defaultMaxRooms else Cfg_MaxRooms cfg);
          chanBuf = (if Cfg_MaxPlayers cfg * 128 < 8192 then 8192 else Cfg_MaxPlayers cfg * 128)
      in \<lparr> S_queue = newRateLimitedQueue (Some (NewBandwidthLimiter (Cfg_BandwidthLimit cfg))) tcpWrite,
           S_multiRoom = Cfg_MultiRoom cfg, S_rooms = [], S_heap = (\<lambda>_. zeroRoom), S_next = 0,
           S_addrToRoom = [], S_maxRooms = maxRooms, S_defaultRoom = None, S_baseSubnet = None,
           S_roomPass = Cfg_RoomPass cfg, S_cachedEncrypted = (Cfg_RoomPass cfg \<noteq> []),
           S_localSubnets = locals, S_rateShards = newRateShardsArray, S_pktCh = [],
           S_chanBuf = nat chanBuf, S_totalPacketsDropped = 0, S_sendErrors = 0,
           S_verbose = Cfg_Verbose cfg \<rparr>)"

definition default_cfg :: "Config \<Rightarrow> RoomConfig" where
  "default_cfg cfg = \<lparr> RC_RoomID = default_id, RC_RoomPass = Cfg_RoomPass cfg, RC_Subnet = Cfg_Subnet cfg,
     RC_MaxPlayers = Cfg_MaxPlayers cfg, RC_MaxPerIP = (if Cfg_MaxPerIP cfg \<le> 0 then 3 else Cfg_MaxPerIP cfg),
     RC_BWLimiter = True, RC_Verbose = Cfg_Verbose cfg \<rparr>"

definition newServer :: "int \<Rightarrow> IPNet list \<Rightarrow> (UDPAddr \<Rightarrow> bytes \<Rightarrow> bool) option \<Rightarrow> Config \<Rightarrow> Server option" where
  "newServer now locals tcpWrite cfg =
     (let (ones, bits) = Mask_Size (IPNet_Mask (Cfg_Subnet cfg)); s = server0 locals tcpWrite cfg in
      if bits \<noteq> 32 \<or> ones \<noteq> 24 then None
      else if Cfg_MultiRoom cfg then Some (s\<lparr> S_baseSubnet := Some (Cfg_Subnet cfg) \<rparr>)
      else
        (case NewRoom now (default_cfg cfg) of
           None \<Rightarrow> None
         | Some r \<Rightarrow>
             (let (rr, s1) = new_room (r\<lparr> R_onDirty := True \<rparr>) s
              in Some (s1\<lparr> S_defaultRoom := Some rr, S_rooms := mput default_id rr (S_rooms s1) \<rparr>))))"

lemma server0_simps [simp]:
  "S_multiRoom (server0 l w cfg) = Cfg_MultiRoom cfg" "S_rooms (server0 l w cfg) = []"
  "S_next (server0 l w cfg) = 0" "S_addrToRoom (server0 l w cfg) = []" "S_defaultRoom (server0 l w cfg) = None"
  "S_roomPass (server0 l w cfg) = Cfg_RoomPass cfg" "S_localSubnets (server0 l w cfg) = l"
  "S_cachedEncrypted (server0 l w cfg) \<longleftrightarrow> Cfg_RoomPass cfg \<noteq> []" "S_pktCh (server0 l w cfg) = []"
  "S_maxRooms (server0 l w cfg) =
     (if Cfg_MaxRooms cfg \<le> 0 \<and> Cfg_MultiRoom cfg then defaultMaxRooms else Cfg_MaxRooms cfg)"
  by (simp_all add: server0_def Let_def)

section \<open>Sending\<close>

definition srv_sendChecked :: "SEnv \<Rightarrow> byte \<Rightarrow> bytes \<Rightarrow> UDPAddr \<Rightarrow> Server \<Rightarrow> Server" where
  "srv_sendChecked ev typ payload to s =
     (let (ok, q) = rlq_send (E_now (V_env ev)) (EncodeChecked typ payload) to priorityHigh (S_queue s)
      in s\<lparr> S_queue := q, S_sendErrors := (if ok then S_sendErrors s else S_sendErrors s + 1) \<rparr>)"

definition srv_sendKickCode :: "SEnv \<Rightarrow> UDPAddr \<Rightarrow> KickCode \<Rightarrow> bytes \<Rightarrow> Server \<Rightarrow> Server" where
  "srv_sendKickCode ev to code reason s =
     srv_sendChecked ev TypeKick (Kick_Marshal \<lparr> Kick_Reason = reason, Kick_Code = code \<rparr>) to s"

definition srv_sendKick :: "SEnv \<Rightarrow> UDPAddr \<Rightarrow> bytes \<Rightarrow> Server \<Rightarrow> Server" where
  "srv_sendKick ev to reason s = srv_sendKickCode ev to KickCodeNone reason s"

section \<open>Subnets (subnet.go)\<close>

definition subnetOverlapsAny :: "IPNet \<Rightarrow> IPNet list \<Rightarrow> bool" where
  "subnetOverlapsAny candidate others =
     list_ex (\<lambda>n. ip_equal (IPNet_IP candidate) (IPNet_IP n) \<or> IPNet_Contains candidate (IPNet_IP n) \<or>
                   IPNet_Contains n (IPNet_IP candidate)) others"

text \<open>The third octet of a room's subnet; every room has an IPv4 subnet.\<close>

definition third_octet :: "Room \<Rightarrow> nat" where
  "third_octet r = (case To4 (IPNet_IP (R_subnet r)) of Some b \<Rightarrow> unat (b ! 2) | None \<Rightarrow> 0)"

definition subnet_at :: "bytes \<Rightarrow> nat \<Rightarrow> IPNet" where
  "subnet_at base n = \<lparr> IPNet_IP = IPv4 (base ! 0) (base ! 1) (of_nat n) 0, IPNet_Mask = [255, 255, 255, 0] \<rparr>"

definition base_ip :: "Server \<Rightarrow> ip option" where
  "base_ip s = (case S_defaultRoom s of
       Some rr \<Rightarrow> To4 (IPNet_IP (R_subnet (S_heap s rr)))
     | None \<Rightarrow> (case S_baseSubnet s of Some n \<Rightarrow> To4 (IPNet_IP n) | None \<Rightarrow> None))"

definition allocateSubnet :: "Server \<Rightarrow> IPNet option" where
  "allocateSubnet s =
     (case base_ip s of None \<Rightarrow> None
      | Some base \<Rightarrow>
          (let maxIdx = fold (\<lambda>(k, rr) m. max m (third_octet (S_heap s rr))) (S_rooms s) (max 1 (unat (base ! 2)))
           in map_option (subnet_at base)
                (find (\<lambda>n. \<not> subnetOverlapsAny (subnet_at base n) (S_localSubnets s)) [maxIdx + 1..<255])))"

section \<open>Pre-registration handlers (keepalive_server.go)\<close>

definition handleNATProbe :: "SEnv \<Rightarrow> bytes \<Rightarrow> UDPAddr \<Rightarrow> Server \<Rightarrow> Server" where
  "handleNATProbe ev payload from s =
     (case UnmarshalNATProbe payload of
        Ok probe \<Rightarrow>
          srv_sendChecked ev TypeNATResponse
            (NATResponse_Marshal \<lparr> NR_ProbeID = Probe_ID probe, NR_NATType = NATTypeUnknown,
               NR_ObservedAddr = Some from, NR_AltAddr = None \<rparr>) from s
      | _ \<Rightarrow> s)"

definition sendRebindAck :: "SEnv \<Rightarrow> UDPAddr \<Rightarrow> bool \<Rightarrow> Server \<Rightarrow> Server" where
  "sendRebindAck ev to success s =
     srv_sendChecked ev TypeRebindAck (RebindAck_Marshal \<lparr> Ack_Success = success \<rparr>) to s"

text \<open>The room that has a player under the address, and the player.\<close>

definition find_vip :: "SEnv \<Rightarrow> ipkey \<Rightarrow> Server \<Rightarrow> (rref \<times> cref) option" where
  "find_vip ev vipKey s =
     (case find (\<lambda>(k, rr). mget (R_clients (S_heap s rr)) vipKey \<noteq> None) (range_rooms ev s) of
        None \<Rightarrow> None
      | Some (k, rr) \<Rightarrow> map_option (Pair rr) (mget (R_clients (S_heap s rr)) vipKey))"

text \<open>The proof a migration needs: the HMAC over the virtual address, or recent activity.\<close>

definition rebind_authorized :: "SEnv \<Rightarrow> RebindPayload \<Rightarrow> Room \<Rightarrow> Client \<Rightarrow> bool" where
  "rebind_authorized ev req r c =
     (if R_roomPass r \<noteq> [] then
        Rb_HMAC req \<noteq> [] \<and>
        (let key = DeriveKey (R_roomPass r) (authRoomID c) in
         key \<noteq> [] \<and>
         Rb_HMAC req = ComputeHMAC key [] (authRoomID c) (Username c)
           (Some \<lparr> UDP_IP = Rb_VirtualIP req, UDP_Port = 0 \<rparr>))
      else \<not> 30 * second < E_now (V_env ev) - GetLastSeen c)"

definition handleRebind :: "SEnv \<Rightarrow> bytes \<Rightarrow> UDPAddr \<Rightarrow> Server \<Rightarrow> Server" where
  "handleRebind ev payload from s =
     (case UnmarshalRebind payload of
        Ok req \<Rightarrow>
          if To4 (Rb_VirtualIP req) = None then sendRebindAck ev from False s
          else
            (let vipKey = IPKey (Rb_VirtualIP req) in
             case find_vip ev vipKey s of
               None \<Rightarrow> sendRebindAck ev from False s
             | Some (rr, c) \<Rightarrow>
                 (let cl = R_heap (S_heap s rr) c; oldAddr = PublicAddr cl in
                  if \<not> rebind_authorized ev req (S_heap s rr) cl then sendRebindAck ev from False s
                  else
                    (let s1 = on_room rr (rebind_update (V_env ev) vipKey c oldAddr from) s;
                         s2 = (if S_multiRoom s1 then
                                 (let m = (case oldAddr of None \<Rightarrow> S_addrToRoom s1
                                           | Some a \<Rightarrow> mdel (AddrToRateKey a) (S_addrToRoom s1))
                                  in s1\<lparr> S_addrToRoom := mput (AddrToRateKey from) rr m \<rparr>)
                               else s1)
                     in with_room rr (sendPeerInfoToClient (V_env ev) from) (sendRebindAck ev from True s2))))
      | _ \<Rightarrow> s)"

section \<open>Routing between rooms\<close>

text \<open>Find the room of a registration or create it; the kick text if that fails.\<close>

definition find_or_create_room :: "SEnv \<Rightarrow> bytes \<Rightarrow> Server \<Rightarrow> (bytes + rref) \<times> Server" where
  "find_or_create_room ev roomID s =
     (case mget (S_rooms s) roomID of
        Some rr \<Rightarrow> (Inr rr, s)
      | None \<Rightarrow>
          if 0 < S_maxRooms s \<and> S_maxRooms s \<le> int (length (S_rooms s)) then
            (Inl (lit ''server room limit reached''), s)
          else
            (case allocateSubnet s of
               None \<Rightarrow> (Inl (lit ''no available subnets for new room''), s)
             | Some subnet \<Rightarrow>
                 (case NewRoom (E_now (V_env ev)) \<lparr> RC_RoomID = roomID, RC_RoomPass = S_roomPass s,
                         RC_Subnet = subnet, RC_MaxPlayers = 254, RC_MaxPerIP = 3,
                         RC_BWLimiter = True, RC_Verbose = S_verbose s \<rparr> of
                    None \<Rightarrow> (Inl (lit ''failed to create room''), s)
                  | Some r \<Rightarrow>
                      (let (rr, s1) = new_room r s
                       in (Inr rr, s1\<lparr> S_rooms := mput roomID rr (S_rooms s1) \<rparr>)))))"

definition handleRegisterMultiRoom :: "SEnv \<Rightarrow> bytes \<Rightarrow> UDPAddr \<Rightarrow> Server \<Rightarrow> Server" where
  "handleRegisterMultiRoom ev payload from s =
     (case UnmarshalRegister payload of
        Ok rg \<Rightarrow>
          if length (Reg_RoomID rg) = 0 \<or> maxRoomIDLen < length (Reg_RoomID rg) then
            srv_sendKick ev from (KickInvalidRoom (E_t (V_env ev))) s
          else
            (case find_or_create_room ev (Reg_RoomID rg) s of
               (Inl reason, s1) \<Rightarrow> srv_sendKick ev from reason s1
             | (Inr rr, s1) \<Rightarrow>
                 (let s2 = with_room rr (HandlePacket (V_env ev) TypeRegister payload from) s1;
                      fromKey = AddrToRateKey from
                  in if mget (R_addrMap (S_heap s2 rr)) fromKey \<noteq> None
                     then s2\<lparr> S_addrToRoom := mput fromKey rr (S_addrToRoom s2) \<rparr> else s2))
      | _ \<Rightarrow> s)"

definition handlePacketMultiRoom :: "SEnv \<Rightarrow> Message \<Rightarrow> UDPAddr \<Rightarrow> Server \<Rightarrow> Server" where
  "handlePacketMultiRoom ev msg from s =
     (if MsgType msg = TypeRegister then handleRegisterMultiRoom ev (MsgPayload msg) from s
      else
        (case mget (S_addrToRoom s) (AddrToRateKey from) of
           None \<Rightarrow> s
         | Some rr \<Rightarrow>
             if R_done (S_heap s rr) then s
             else with_room rr (HandlePacket (V_env ev) (MsgType msg) (MsgPayload msg) from) s))"

section \<open>Dispatch\<close>

definition pre_auth :: "byte \<Rightarrow> bool" where
  "pre_auth t \<longleftrightarrow> t = TypeRegister \<or> t = TypeNATProbe \<or> t = TypeAuthResponse \<or> t = TypeRebind"

definition dispatch :: "SEnv \<Rightarrow> Message \<Rightarrow> UDPAddr \<Rightarrow> Server \<Rightarrow> Server" where
  "dispatch ev msg from s =
     (if MsgType msg = TypeNATProbe then handleNATProbe ev (MsgPayload msg) from s
      else if MsgType msg = TypeRebind then handleRebind ev (MsgPayload msg) from s
      else if S_multiRoom s then handlePacketMultiRoom ev msg from s
      else (case S_defaultRoom s of None \<Rightarrow> s
            | Some rr \<Rightarrow> with_room rr (HandlePacket (V_env ev) (MsgType msg) (MsgPayload msg) from) s))"

definition version_mismatch_text :: bytes where
  "version_mismatch_text = lit ''Protocol version mismatch: server='' @ dec (unat ProtocolVersion) @
     lit '', please update your client''"

definition handlePacket :: "SEnv \<Rightarrow> bytes \<Rightarrow> UDPAddr \<Rightarrow> Server \<Rightarrow> Server" where
  "handlePacket ev data from s =
     (if S_cachedEncrypted s then
        (case Decode data of
           Ok msg \<Rightarrow>
             if pre_auth (MsgType msg) \<and> (case VerifyChecksum data of Ok b \<Rightarrow> False | _ \<Rightarrow> True) then s
             else dispatch ev msg from s
         | _ \<Rightarrow> s)
      else
        (case DecodeChecked data of
           Ok msg \<Rightarrow> dispatch ev msg from s
         | Err (ErrUnsupportedVersion v) \<Rightarrow>
             srv_sendKickCode ev from KickCodeVersionMismatch version_mismatch_text s
         | _ \<Rightarrow> s))"

section \<open>Reception\<close>

text \<open>One datagram read by \<open>Run\<close>, or one frame a TCP bridge delivers.\<close>

definition receive :: "bytes \<Rightarrow> UDPAddr \<Rightarrow> Server \<Rightarrow> Server" where
  "receive data from s =
     (if length data < HeaderLen + ChecksumLen then s
      else
        (let (ok, shs) = checkRate from (S_rateShards s); s1 = s\<lparr> S_rateShards := shs \<rparr> in
         if \<not> ok then s1\<lparr> S_totalPacketsDropped := S_totalPacketsDropped s1 + 1 \<rparr>
         else if length (S_pktCh s1) < S_chanBuf s1 then s1\<lparr> S_pktCh := S_pktCh s1 @ [(data, from)] \<rparr>
         else s1\<lparr> S_totalPacketsDropped := S_totalPacketsDropped s1 + 1 \<rparr>))"

definition worker :: "SEnv \<Rightarrow> Server \<Rightarrow> Server" where
  "worker ev s =
     (case S_pktCh s of [] \<Rightarrow> s
      | (data, from) # jobs \<Rightarrow> handlePacket ev data from (s\<lparr> S_pktCh := jobs \<rparr>))"

section \<open>Periodic work\<close>

definition cleanupStaleClients :: "SEnv \<Rightarrow> Server \<Rightarrow> Server" where
  "cleanupStaleClients ev s =
     fold (\<lambda>(k, rr). on_room rr (\<lambda>r.
       let (changed, r1) = CleanupStale (V_env ev) r
       in if changed then invalidatePeerInfoCache r1 else r1)) (range_rooms ev s) s"

definition stale_route :: "Server \<Rightarrow> RateKey \<times> rref \<Rightarrow> bool" where
  "stale_route s e \<longleftrightarrow> mget (R_addrMap (S_heap s (snd e))) (fst e) = None"

definition cleanupStaleAddrToRoom :: "SEnv \<Rightarrow> Server \<Rightarrow> Server" where
  "cleanupStaleAddrToRoom ev s =
     (let stale = map fst (filter (stale_route s) (range_map (V_ordS ev) (S_addrToRoom s))) in
      s\<lparr> S_addrToRoom := fold (\<lambda>k m.
            case mget m k of
              None \<Rightarrow> m
            | Some rr \<Rightarrow> if stale_route s (k, rr) then mdel k m else m) stale (S_addrToRoom s) \<rparr>)"

definition idle_room :: "SEnv \<Rightarrow> bytes \<Rightarrow> Room \<Rightarrow> bool" where
  "idle_room ev roomID r \<longleftrightarrow> roomID \<noteq> default_id \<and> ClientCount r = 0 \<and>
     roomIdleTimeout < E_now (V_env ev) - R_lastActivity r"

definition cleanupIdleRooms :: "SEnv \<Rightarrow> Server \<Rightarrow> Server" where
  "cleanupIdleRooms ev s =
     fold (\<lambda>(k, rr) s1.
       if idle_room ev k (S_heap s1 rr)
       then (on_room rr Room_Stop s1)\<lparr> S_rooms := mdel k (S_rooms s1) \<rparr> else s1) (range_rooms ev s) s"

text \<open>One tick of \<open>keepaliveLoop\<close>.\<close>

definition keepalive_tick :: "SEnv \<Rightarrow> Server \<Rightarrow> Server" where
  "keepalive_tick ev s =
     (let s1 = cleanupStaleClients ev s
      in if S_multiRoom s1 then cleanupIdleRooms ev (cleanupStaleAddrToRoom ev s1) else s1)"

definition bw_cleanup_tick :: "SEnv \<Rightarrow> Server \<Rightarrow> Server" where
  "bw_cleanup_tick ev s =
     s\<lparr> S_queue := (S_queue s)\<lparr> RLQ_limiter :=
          BL_Cleanup (E_now (V_env ev)) (300 * second) (RLQ_limiter (S_queue s)) \<rparr> \<rparr>"

text \<open>
  \<open>Stop\<close> and \<open>WaitDrain\<close>: the sending loop drains and ends, unless it has ended before; then nothing is
  written any more.
\<close>

definition stop_queue :: "sendQueue \<Rightarrow> sendQueue" where
  "stop_queue sq = (let q = sq_Stop sq in if SQ_drained q then q else (drain q)\<lparr> SQ_drained := True \<rparr>)"

text \<open>The part of \<open>Close\<close> that concerns the clients: notify them all, drain the queue, stop the rooms.\<close>

definition Close :: "SEnv \<Rightarrow> Server \<Rightarrow> Server" where
  "Close ev s =
     (let s1 = fold (\<lambda>(k, rr). with_room rr (notifyShutdown (V_env ev))) (range_rooms ev s) s;
          q = (S_queue s1)\<lparr> RLQ_sq := stop_queue (RLQ_sq (S_queue s1)) \<rparr>;
          s2 = s1\<lparr> S_queue := q \<rparr>
      in fold (\<lambda>(k, rr). on_room rr Room_Stop) (range_rooms ev s2) s2)"

end
