(* ===== verification/ServerInv.thy ===== *)
theory ServerInv
  imports Server
begin

text \<open>
  The invariant of the server: every room keeps its own invariant and capacity, the rooms of
  the table have different /24 subnets under one prefix and the server's password, and
  their number is limited.  It is kept by every event.
\<close>

section \<open>Rooms within a server\<close>

definition room_ok :: "Room \<Rightarrow> bool" where
  "room_ok r \<longleftrightarrow> room_wf r \<and> int (length (R_clients r)) \<le> max 0 (R_maxPlayers r)"

definition room_keeps :: "Room \<Rightarrow> Room \<Rightarrow> bool" where
  "room_keeps r r' \<longleftrightarrow> fixed r' = fixed r \<and> (room_ok r \<longrightarrow> room_ok r')"

lemma fixed_steps: "room_step\<^sup>*\<^sup>* st st' \<Longrightarrow> fixed (fst st') = fixed (fst st)"
  by (induction rule: rtranclp_induct) (simp_all add: fixed_room_step)

lemma keeps_steps: "room_step\<^sup>*\<^sup>* (r, q) (r', q') \<Longrightarrow> room_keeps r r'"
proof -
  assume s: "room_step\<^sup>*\<^sup>* (r, q) (r', q')"
  from fixed_steps[OF this] have f: "fixed r' = fixed r" by simp
  moreover have "room_ok r'" if "room_ok r"
    using run_invariant[OF s] that fixed_fields(3)[OF f] by (auto simp: room_ok_def)
  ultimately show ?thesis by (simp add: room_keeps_def)
qed

lemma keeps_step: "room_step (r, q) st' \<Longrightarrow> room_keeps r (fst st')"
  by (rule keeps_steps[of r q "fst st'" "snd st'"]) auto

lemma keeps_core: "core r' = core r \<Longrightarrow> fixed r' = fixed r \<Longrightarrow> room_keeps r r'"
  using core_fields[of r' r] room_wf_core[of r' r] by (simp add: room_keeps_def room_ok_def)

lemma keeps_trans: "room_keeps r r' \<Longrightarrow> room_keeps r' r'' \<Longrightarrow> room_keeps r r''"
  by (simp add: room_keeps_def)

lemma keeps_refl: "room_keeps r r"
  by (simp add: room_keeps_def)

lemma third_octet_fixed: "fixed r' = fixed r \<Longrightarrow> third_octet r' = third_octet r"
  using fixed_fields(2)[of r' r] by (simp add: third_octet_def)

section \<open>The invariant\<close>

definition prefix_of :: "Room \<Rightarrow> bytes \<Rightarrow> bool" where
  "prefix_of r base \<longleftrightarrow> (\<exists>b. To4 (IPNet_IP (R_subnet r)) = Some b \<and> b ! 0 = base ! 0 \<and> b ! 1 = base ! 1)"

definition rooms_wf :: "Server \<Rightarrow> bool" where
  "rooms_wf s \<longleftrightarrow> distinct (mkeys (S_rooms s)) \<and>
     (\<forall>k rr. mget (S_rooms s) k = Some rr \<longrightarrow> rr < S_next s) \<and>
     (\<forall>k k' rr rr'. mget (S_rooms s) k = Some rr \<and> mget (S_rooms s) k' = Some rr' \<and> k \<noteq> k' \<longrightarrow>
        third_octet (S_heap s rr) \<noteq> third_octet (S_heap s rr')) \<and>
     (0 < S_maxRooms s \<and> S_multiRoom s \<longrightarrow> int (length (S_rooms s)) \<le> S_maxRooms s)"

definition heap_wf :: "Server \<Rightarrow> bool" where
  "heap_wf s \<longleftrightarrow> (\<exists>base. base_ip s = Some base \<and>
     (\<forall>rr < S_next s. room_ok (S_heap s rr) \<and> prefix_of (S_heap s rr) base \<and>
        R_roomPass (S_heap s rr) = S_roomPass s)) \<and>
     (\<forall>k rr. mget (S_addrToRoom s) k = Some rr \<longrightarrow> rr < S_next s) \<and>
     (\<forall>rr. S_defaultRoom s = Some rr \<longrightarrow> rr < S_next s)"

definition server_wf :: "Server \<Rightarrow> bool" where
  "server_wf s \<longleftrightarrow> rooms_wf s \<and> heap_wf s"

text \<open>What the invariant reads.\<close>

definition score :: "Server \<Rightarrow> _" where
  "score s = (S_multiRoom s, S_rooms s, S_heap s, S_next s, S_addrToRoom s, S_maxRooms s,
     S_defaultRoom s, S_baseSubnet s, S_roomPass s)"

lemma score_fields:
  assumes "score s = score s'"
  shows "S_multiRoom s = S_multiRoom s'" "S_rooms s = S_rooms s'" "S_heap s = S_heap s'"
    "S_next s = S_next s'" "S_addrToRoom s = S_addrToRoom s'" "S_maxRooms s = S_maxRooms s'"
    "S_defaultRoom s = S_defaultRoom s'" "S_baseSubnet s = S_baseSubnet s'" "S_roomPass s = S_roomPass s'"
  using assms by (simp_all add: score_def)

lemma server_wf_score:
  assumes "score s = score s'"
  shows "server_wf s = server_wf s'"
  unfolding server_wf_def rooms_wf_def heap_wf_def base_ip_def score_fields[OF assms] ..

named_theorems score_simps \<open>operations that leave rooms and routing alone\<close>

lemma score_updates [score_simps]:
  "score (s\<lparr> S_queue := q \<rparr>) = score s" "score (s\<lparr> S_pktCh := ch \<rparr>) = score s"
  "score (s\<lparr> S_rateShards := sh \<rparr>) = score s" "score (s\<lparr> S_totalPacketsDropped := n \<rparr>) = score s"
  by (simp_all add: score_def)

lemma score_sends [score_simps]:
  "score (srv_sendChecked ev t p a s) = score s" "score (srv_sendKickCode ev a c x s) = score s"
  "score (srv_sendKick ev a x s) = score s" "score (sendRebindAck ev a b s) = score s"
  by (simp_all add: srv_sendChecked_def srv_sendKickCode_def srv_sendKick_def sendRebindAck_def score_def
      case_prod_beta)

lemma score_handleNATProbe [score_simps]: "score (handleNATProbe ev p a s) = score s"
  by (simp add: handleNATProbe_def score_simps split: res.split)

lemma score_receive [score_simps]: "score (receive d a s) = score s"
  by (auto simp: receive_def Let_def score_simps split: prod.split)

section \<open>Room updates\<close>

lemma base_ip_upd:
  assumes "fixed r' = fixed (S_heap s rr)"
  shows "base_ip (s\<lparr> S_heap := (S_heap s)(rr := r') \<rparr>) = base_ip s"
  using fixed_fields(2)[OF assms] by (auto simp: base_ip_def split: option.split)

lemma wf_room_update:
  assumes "server_wf s" "room_keeps (S_heap s rr) r'"
  shows "server_wf (s\<lparr> S_heap := (S_heap s)(rr := r') \<rparr>)"
proof -
  have f: "fixed r' = fixed (S_heap s rr)" using assms(2) by (simp add: room_keeps_def)
  have t: "third_octet (((S_heap s)(rr := r')) x) = third_octet (S_heap s x)" for x
    using third_octet_fixed[OF f] by simp
  have p: "prefix_of (((S_heap s)(rr := r')) x) b = prefix_of (S_heap s x) b" for x b
    using fixed_fields(2)[OF f] by (simp add: prefix_of_def)
  have w: "R_roomPass (((S_heap s)(rr := r')) x) = R_roomPass (S_heap s x)" for x
    using fixed_fields(1)[OF f] by simp
  have o: "room_ok (((S_heap s)(rr := r')) x)" if "room_ok (S_heap s x)" for x
    using assms(2) that by (cases "x = rr") (simp_all add: room_keeps_def)
  show ?thesis
    using assms(1) o base_ip_upd[OF f]
    by (simp add: server_wf_def rooms_wf_def heap_wf_def t p w del: fun_upd_apply) blast
qed

lemma wf_with_room:
  assumes "server_wf s" "room_keeps (S_heap s rr) (fst (f (S_heap s rr, S_queue s)))"
  shows "server_wf (with_room rr f s)"
proof -
  have "score (with_room rr f s) = score (s\<lparr> S_heap := (S_heap s)(rr := fst (f (S_heap s rr, S_queue s))) \<rparr>)"
    by (simp add: with_room_def score_def case_prod_beta)
  from server_wf_score[OF this] wf_room_update[OF assms] show ?thesis by simp
qed

lemma wf_on_room: "server_wf s \<Longrightarrow> room_keeps (S_heap s rr) (f (S_heap s rr)) \<Longrightarrow> server_wf (on_room rr f s)"
  by (simp add: on_room_def wf_room_update)

lemma keeps_HandlePacket: "env_ok env \<Longrightarrow> room_keeps (fst st) (fst (HandlePacket env t p a st))"
  using keeps_step[of "fst st" "snd st"] room_step.packet by simp

lemma keeps_sendPeerInfo: "room_keeps (fst st) (fst (sendPeerInfoToClient env a st))"
  by (rule keeps_core) (simp_all add: core_simps)

lemma wf_with_packet:
  "senv_ok ev \<Longrightarrow> server_wf s \<Longrightarrow> server_wf (with_room rr (HandlePacket (V_env ev) t p a) s)"
  using keeps_HandlePacket[of "V_env ev" "(S_heap s rr, S_queue s)"]
  by (intro wf_with_room) (simp_all add: senv_ok_def)

lemma wf_addrToRoom:
  assumes "server_wf s" "\<And>k rr. mget m k = Some rr \<Longrightarrow> rr < S_next s"
  shows "server_wf (s\<lparr> S_addrToRoom := m \<rparr>)"
  using assms by (simp add: server_wf_def rooms_wf_def heap_wf_def base_ip_def cong: option.case_cong)


section \<open>New rooms\<close>

lemma fold_max_ge:
  "(m :: nat) \<le> fold (\<lambda>(k, rr) m. max m (f rr)) xs m"
  "(k, rr) \<in> set xs \<Longrightarrow> f rr \<le> fold (\<lambda>(k, rr) m. max m (f rr)) xs m"
proof -
  have le: "(m :: nat) \<le> fold (\<lambda>(k, rr) m. max m (f rr)) xs m" for m xs
  proof (induction xs arbitrary: m)
    case (Cons x xs)
    obtain k rr where x: "x = (k, rr)" by (cases x)
    have "m \<le> max m (f rr)" by simp
    also have "\<dots> \<le> fold (\<lambda>(k, rr) m. max m (f rr)) xs (max m (f rr))" by (rule Cons)
    finally show ?case by (simp add: x)
  qed simp
  then show "m \<le> fold (\<lambda>(k, rr) m. max m (f rr)) xs m" .
  show "f rr \<le> fold (\<lambda>(k, rr) m. max m (f rr)) xs m" if "(k, rr) \<in> set xs"
    using that
  proof (induction xs arbitrary: m)
    case (Cons x xs)
    show ?case
    proof (cases "x = (k, rr)")
      case True
      have "f rr \<le> max m (f rr)" by simp
      also have "\<dots> \<le> fold (\<lambda>(k, rr) m. max m (f rr)) xs (max m (f rr))" by (rule le)
      finally show ?thesis by (simp add: True)
    next
      case False
      with Cons show ?thesis by simp
    qed
  qed simp
qed

lemma allocateSubnet_Some:
  assumes "allocateSubnet s = Some n"
  obtains base i where "base_ip s = Some base" "n = subnet_at base i" "2 \<le> i" "i < 255"
    "unat (base ! 2) < i" "\<And>k rr. mget (S_rooms s) k = Some rr \<Longrightarrow> third_octet (S_heap s rr) < i"
    "\<not> subnetOverlapsAny n (S_localSubnets s)"
proof -
  from assms obtain base where b: "base_ip s = Some base" by (auto simp: allocateSubnet_def split: option.splits)
  let ?m = "fold (\<lambda>(k, rr) m. max m (third_octet (S_heap s rr))) (S_rooms s) (max 1 (unat (base ! 2)))"
  from assms b obtain i where i: "find (\<lambda>n. \<not> subnetOverlapsAny (subnet_at base n) (S_localSubnets s)) [?m + 1..<255] = Some i"
      "n = subnet_at base i" by (auto simp: allocateSubnet_def Let_def)
  from find_SomeD[OF i(1)] have i': "?m < i" "i < 255" "\<not> subnetOverlapsAny n (S_localSubnets s)"
    using i(2) by auto
  have "max 1 (unat (base ! 2)) \<le> ?m" by (rule fold_max_ge)
  then have "2 \<le> i" "unat (base ! 2) < i" using i'(1) by auto
  moreover have "third_octet (S_heap s rr) < i" if "mget (S_rooms s) k = Some rr" for k rr
    using fold_max_ge(2)[OF mget_in_set[OF that], of "\<lambda>rr. third_octet (S_heap s rr)" "max 1 (unat (base ! 2))"] i'(1)
    by simp
  ultimately show ?thesis using that b i(2) i'(2,3) by blast
qed

lemma subnet_at_To4: "To4 (IPNet_IP (subnet_at base i)) = Some [base ! 0, base ! 1, of_nat i, 0]"
  by (simp add: subnet_at_def)

lemma mask24: "Mask_Size [255, 255, 255, 0] = (24, 32)"
  by code_simp

lemma NewRoom_subnet_at:
  assumes "RC_Subnet cfg = subnet_at base i" "i < 256"
  obtains r where "NewRoom now cfg = Some r" "room_ok r" "prefix_of r base" "third_octet r = i"
    "R_roomPass r = RC_RoomPass cfg"
proof -
  have m: "Mask_Size (IPNet_Mask (RC_Subnet cfg)) = (24, 32)"
    using assms(1) mask24 by (simp add: subnet_at_def)
  obtain r where r: "NewRoom now cfg = Some r" using m by (auto simp: NewRoom_def Let_def)
  note f = NewRoom_fields[OF r]
  have t: "To4 (IPNet_IP (R_subnet r)) = Some [base ! 0, base ! 1, of_nat i, 0]"
    using f(2) assms(1) subnet_at_To4 by simp
  have "room_ok r" using wf_NewRoom[OF r] t f by (simp add: room_ok_def)
  moreover have "unat (of_nat i :: byte) = i" using assms(2) by (simp add: unat_of_nat take_bit_nat_eq_self)
  ultimately show ?thesis using that[OF r] t f(9) by (simp add: prefix_of_def third_octet_def)
qed

definition auto_cfg :: "bytes \<Rightarrow> IPNet \<Rightarrow> Server \<Rightarrow> RoomConfig" where
  "auto_cfg roomID n s = \<lparr> RC_RoomID = roomID, RC_RoomPass = S_roomPass s, RC_Subnet = n,
     RC_MaxPlayers = 254, RC_MaxPerIP = 3, RC_BWLimiter = True, RC_Verbose = S_verbose s \<rparr>"

lemma find_or_create_cases:
  assumes "find_or_create_room ev roomID s = (x, s')"
  obtains "s' = s" "\<And>rr. x = Inr rr \<Longrightarrow> mget (S_rooms s) roomID = Some rr"
  | n r where "mget (S_rooms s) roomID = None" "\<not> (0 < S_maxRooms s \<and> S_maxRooms s \<le> int (length (S_rooms s)))"
      "allocateSubnet s = Some n" "NewRoom (E_now (V_env ev)) (auto_cfg roomID n s) = Some r"
      "x = Inr (S_next s)" "s' = s\<lparr> S_heap := (S_heap s)(S_next s := r), S_next := Suc (S_next s),
         S_rooms := mput roomID (S_next s) (S_rooms s) \<rparr>"
proof (cases "mget (S_rooms s) roomID")
  case (Some rr)
  then have "s' = s" "x = Inr rr" using assms by (simp_all add: find_or_create_room_def)
  then show ?thesis using that(1) Some by simp
next
  case None
  show ?thesis
  proof (cases "0 < S_maxRooms s \<and> S_maxRooms s \<le> int (length (S_rooms s))")
    case True
    then have "s' = s" "x = Inl (lit ''server room limit reached'')"
      using assms None by (simp_all add: find_or_create_room_def)
    then show ?thesis using that(1) by simp
  next
    case False
    note d = assms[unfolded find_or_create_room_def None option.case if_not_P[OF False], folded auto_cfg_def]
    show ?thesis
    proof (cases "allocateSubnet s")
      case None
      then have "s' = s" "x = Inl (lit ''no available subnets for new room'')" using d by simp_all
      then show ?thesis using that(1) by simp
    next
      case (Some n)
      show ?thesis
      proof (cases "NewRoom (E_now (V_env ev)) (auto_cfg roomID n s)")
        case None
        then have "s' = s" "x = Inl (lit ''failed to create room'')" using d Some by simp_all
        then show ?thesis using that(1) by simp
      next
        case r: (Some r)
        show ?thesis
          using d Some r that(2)[OF None False Some r] by (simp add: new_room_def)
      qed
    qed
  qed
qed

lemma add_room_octets:
  assumes "rooms_wf s" "\<And>k rr. mget (S_rooms s) k = Some rr \<Longrightarrow> third_octet (S_heap s rr) < third_octet r"
    and s': "s' = s\<lparr> S_heap := (S_heap s)(S_next s := r), S_next := Suc (S_next s), S_rooms := mput roomID (S_next s) (S_rooms s) \<rparr>"
    and kk: "mget (S_rooms s') k = Some q" "mget (S_rooms s') k' = Some q'" "k \<noteq> k'"
  shows "third_octet (S_heap s' q) \<noteq> third_octet (S_heap s' q')"
proof -
  have old: "S_heap s' q = S_heap s q" "third_octet (S_heap s' q) < third_octet r" if m: "mget (S_rooms s) k = Some q" for k q
  proof -
    have "q < S_next s" using assms(1) m unfolding rooms_wf_def by blast
    then show "S_heap s' q = S_heap s q" by (simp add: s')
    then show "third_octet (S_heap s' q) < third_octet r" using assms(2)[OF m] by simp
  qed
  have new: "third_octet (S_heap s' (S_next s)) = third_octet r" by (simp add: s')
  consider "k = roomID" "k' \<noteq> roomID" | "k \<noteq> roomID" "k' = roomID" | "k \<noteq> roomID" "k' \<noteq> roomID"
    using kk(3) by blast
  then show ?thesis
  proof cases
    case 1
    then have "q = S_next s" "mget (S_rooms s) k' = Some q'" using kk by (auto simp: s')
    with new old(2) show ?thesis by (metis less_irrefl)
  next
    case 2
    then have "q' = S_next s" "mget (S_rooms s) k = Some q" using kk by (auto simp: s')
    with new old(2) show ?thesis by (metis less_irrefl)
  next
    case 3
    then have m: "mget (S_rooms s) k = Some q" "mget (S_rooms s) k' = Some q'" using kk by (auto simp: s')
    then show ?thesis using assms(1) kk(3) old(1)[OF m(1)] old(1)[OF m(2)] unfolding rooms_wf_def by metis
  qed
qed

lemma add_room_rooms_wf:
  assumes "rooms_wf s" "\<And>k rr. mget (S_rooms s) k = Some rr \<Longrightarrow> third_octet (S_heap s rr) < third_octet r"
    "mget (S_rooms s) roomID = None" "\<not> (0 < S_maxRooms s \<and> S_maxRooms s \<le> int (length (S_rooms s)))"
    and s': "s' = s\<lparr> S_heap := (S_heap s)(S_next s := r), S_next := Suc (S_next s), S_rooms := mput roomID (S_next s) (S_rooms s) \<rparr>"
  shows "rooms_wf s'"
  unfolding rooms_wf_def
proof (intro conjI allI impI)
  show "distinct (mkeys (S_rooms s'))" using assms(1) by (simp add: rooms_wf_def s')
  show "rr < S_next s'" if "mget (S_rooms s') k = Some rr" for k rr
    using that assms(1) by (auto simp: rooms_wf_def less_Suc_eq s' split: if_splits)
  show "third_octet (S_heap s' q) \<noteq> third_octet (S_heap s' q')"
    if "mget (S_rooms s') k = Some q \<and> mget (S_rooms s') k' = Some q' \<and> k \<noteq> k'" for k k' q q'
    by (rule add_room_octets[OF assms(1) _ s']) (use assms(2) that in auto)
  have k: "roomID \<notin> fst ` set (S_rooms s)" using assms(3) by (simp add: mget_None_iff)
  show "int (length (S_rooms s')) \<le> S_maxRooms s'" if "0 < S_maxRooms s' \<and> S_multiRoom s'"
    using that assms(1,4) k length_mput[of "S_rooms s" roomID "S_next s"] by (simp add: rooms_wf_def s')
qed

lemma wf_find_or_create_room:
  assumes "server_wf s" "find_or_create_room ev roomID s = (x, s')"
  shows "server_wf s' \<and> (\<forall>rr. x = Inr rr \<longrightarrow> rr < S_next s' \<and> mget (S_rooms s') roomID = Some rr)"
  using assms(2)
proof (cases rule: find_or_create_cases)
  case 1
  moreover have "\<forall>rr. x = Inr rr \<longrightarrow> rr < S_next s"
    using 1(2) assms(1) unfolding server_wf_def rooms_wf_def by blast
  ultimately show ?thesis using assms(1) by simp
next
  case (2 n r)
  from 2(3) obtain base i where a: "base_ip s = Some base" "n = subnet_at base i" "i < 255"
      "\<And>k rr. mget (S_rooms s) k = Some rr \<Longrightarrow> third_octet (S_heap s rr) < i"
    by (rule allocateSubnet_Some) blast
  have ok: "room_ok r" "prefix_of r base" "third_octet r = i" "R_roomPass r = S_roomPass s"
    using NewRoom_subnet_at[of "auto_cfg roomID n s" base i "E_now (V_env ev)"] 2(4) a(2,3)
    by (auto simp: auto_cfg_def)
  have w: "rooms_wf s" "heap_wf s" using assms(1) by (simp_all add: server_wf_def)
  have d: "rr < S_next s" if "S_defaultRoom s = Some rr" for rr using w(2) that by (simp add: heap_wf_def)
  have b: "base_ip s' = Some base" using a(1) d 2(6) by (auto simp: base_ip_def split: option.splits)
  have "rooms_wf s'" by (rule add_room_rooms_wf[OF w(1) _ 2(1,2,6)]) (simp add: a(4) ok(3))
  moreover have "heap_wf s'"
    using w(2) b ok a(1) 2(6) by (auto simp: heap_wf_def less_Suc_eq)
  ultimately show ?thesis using 2(5,6) by (simp add: server_wf_def)
qed


section \<open>Preservation\<close>

lemma wf_handleRegisterMultiRoom:
  assumes "senv_ok ev" "server_wf s"
  shows "server_wf (handleRegisterMultiRoom ev p a s)"
proof (cases "UnmarshalRegister p")
  case (Ok rg)
  obtain x s1 where f: "find_or_create_room ev (Reg_RoomID rg) s = (x, s1)"
    by (cases "find_or_create_room ev (Reg_RoomID rg) s")
  note w = wf_find_or_create_room[OF assms(2) f]
  show ?thesis
  proof (cases x)
    case (Inl t)
    then show ?thesis
      using w assms(2) server_wf_score[OF score_sends(3)] by (simp add: handleRegisterMultiRoom_def Ok f)
  next
    case (Inr rr)
    define s2 where "s2 = with_room rr (HandlePacket (V_env ev) TypeRegister p a) s1"
    have w2: "server_wf s2" using wf_with_packet[OF assms(1)] w by (simp add: s2_def)
    have n: "S_next s2 = S_next s1" "S_addrToRoom s2 = S_addrToRoom s1"
      by (simp_all add: s2_def with_room_def case_prod_beta)
    have "server_wf (s2\<lparr> S_addrToRoom := mput (AddrToRateKey a) rr (S_addrToRoom s2) \<rparr>)"
      using w2 w Inr n by (intro wf_addrToRoom) (auto simp: server_wf_def heap_wf_def split: if_splits)
    then show ?thesis
      using w2 assms(2) server_wf_score[OF score_sends(3)]
      by (simp add: handleRegisterMultiRoom_def Ok f Inr Let_def flip: s2_def)
  qed
qed (use assms in \<open>simp_all add: handleRegisterMultiRoom_def\<close>)

lemma wf_handlePacketMultiRoom:
  "senv_ok ev \<Longrightarrow> server_wf s \<Longrightarrow> server_wf (handlePacketMultiRoom ev m a s)"
  by (simp add: handlePacketMultiRoom_def wf_handleRegisterMultiRoom wf_with_packet split: option.split)

lemma find_vip_Some:
  assumes "find_vip ev k s = Some (rr, c)"
  shows "\<exists>i. mget (S_rooms s) i = Some rr" "mget (R_clients (S_heap s rr)) k = Some c"
proof -
  from assms obtain i where i: "find (\<lambda>(i, rr). mget (R_clients (S_heap s rr)) k \<noteq> None) (range_rooms ev s) = Some (i, rr)"
    "mget (R_clients (S_heap s rr)) k = Some c"
    by (auto simp: find_vip_def split: option.splits)
  from find_SomeD[OF i(1)] have "(i, rr) \<in> set (range_rooms ev s)" by simp
  then have "mget (S_rooms s) i = Some rr" unfolding range_rooms_def by (rule range_map_sub)
  then show "\<exists>i. mget (S_rooms s) i = Some rr" by blast
  show "mget (R_clients (S_heap s rr)) k = Some c" by (rule i(2))
qed

lemma wf_handleRebind:
  assumes "server_wf s"
  shows "server_wf (handleRebind ev p a s)"
proof (cases "UnmarshalRebind p")
  case (Ok req)
  have ack: "server_wf (sendRebindAck ev a b x) = server_wf x" for b x by (rule server_wf_score[OF score_sends(4)])
  show ?thesis
  proof (cases "find_vip ev (IPKey (Rb_VirtualIP req)) s")
    case None
    then show ?thesis using assms by (simp add: handleRebind_def Ok Let_def ack)
  next
    case (Some x)
    obtain rr c where x: "x = (rr, c)" by (cases x)
    let ?cl = "R_heap (S_heap s rr) c"
    note fv = find_vip_Some[OF Some[unfolded x]]
    have rr: "rr < S_next s" using fv(1) assms by (auto simp: server_wf_def rooms_wf_def)
    define s1 where "s1 = on_room rr (rebind_update (V_env ev) (IPKey (Rb_VirtualIP req)) c (PublicAddr ?cl) a) s"
    have w1: "server_wf s1"
      unfolding s1_def
      by (rule wf_on_room[OF assms]) (rule keeps_step[OF room_step.rebind[OF fv(2)], unfolded fst_conv])
    define m where "m = (case PublicAddr ?cl of None \<Rightarrow> S_addrToRoom s1
        | Some b \<Rightarrow> mdel (AddrToRateKey b) (S_addrToRoom s1))"
    have f1: "S_next s1 = S_next s" "S_addrToRoom s1 = S_addrToRoom s" by (simp_all add: s1_def on_room_def)
    have w2: "server_wf (s1\<lparr> S_addrToRoom := mput (AddrToRateKey a) rr m \<rparr>)"
      using w1 rr f1
      by (intro wf_addrToRoom) (auto simp: server_wf_def heap_wf_def m_def split: if_splits option.splits)
    have fin: "server_wf (with_room rr (sendPeerInfoToClient (V_env ev) a) y)" if "server_wf y" for y
      using that keeps_sendPeerInfo[of "(S_heap y rr, S_queue y)"] by (intro wf_with_room) simp_all
    show ?thesis
      using assms w1 w2
      by (simp add: handleRebind_def Ok Some x Let_def ack fin s1_def[symmetric] m_def[symmetric])
  qed
qed (use assms in \<open>simp_all add: handleRebind_def\<close>)

lemma wf_dispatch: "senv_ok ev \<Longrightarrow> server_wf s \<Longrightarrow> server_wf (dispatch ev m a s)"
  using server_wf_score[OF score_handleNATProbe]
  by (simp add: dispatch_def wf_handleRebind wf_handlePacketMultiRoom wf_with_packet split: option.split)

lemma wf_handlePacket: "senv_ok ev \<Longrightarrow> server_wf s \<Longrightarrow> server_wf (handlePacket ev d a s)"
  using server_wf_score[OF score_sends(2)]
  by (simp add: handlePacket_def wf_dispatch split: res.split err.split)

lemma wf_worker: "senv_ok ev \<Longrightarrow> server_wf s \<Longrightarrow> server_wf (worker ev s)"
  using server_wf_score[OF score_updates(2)]
  by (simp add: worker_def wf_handlePacket split: list.split)

lemma wf_cleanupStaleClients:
  assumes "senv_ok ev" "server_wf s"
  shows "server_wf (cleanupStaleClients ev s)"
  unfolding cleanupStaleClients_def
proof (rule wf_fold[where P = server_wf, OF _ assms(2)])
  fix x :: "bytes \<times> rref" and s assume w: "server_wf s"
  obtain k rr where x: "x = (k, rr)" by (cases x)
  let ?r = "S_heap s rr"
  have c: "room_keeps ?r (snd (CleanupStale (V_env ev) ?r))"
    using keeps_step[OF room_step.cleanup] assms(1) by (simp add: senv_ok_def)
  have i: "room_keeps r (invalidatePeerInfoCache r)" for r
    using keeps_step[OF room_step.invalidate] by simp
  have "room_keeps ?r (let (changed, r1) = CleanupStale (V_env ev) ?r
      in if changed then invalidatePeerInfoCache r1 else r1)"
    using c keeps_trans[OF c i] by (simp add: case_prod_beta)
  then show "server_wf ((case x of (k, rr) \<Rightarrow> on_room rr (\<lambda>r. let (changed, r1) = CleanupStale (V_env ev) r
      in if changed then invalidatePeerInfoCache r1 else r1)) s)"
    using wf_on_room[OF w] by (simp add: x)
qed

lemma wf_cleanupStaleAddrToRoom:
  assumes "server_wf s"
  shows "server_wf (cleanupStaleAddrToRoom ev s)"
proof -
  let ?f = "\<lambda>k m. case mget m k of None \<Rightarrow> m | Some rr \<Rightarrow> if stale_route s (k, rr) then mdel k m else m"
  have f1: "mget (?f x m) k = Some rr \<Longrightarrow> mget m k = Some rr" for x m k rr
    by (auto split: option.splits if_splits)
  have f2: "mget (fold ?f xs m) k = Some rr \<Longrightarrow> mget m k = Some rr" for xs m k rr
  proof (induction xs arbitrary: m)
    case (Cons x xs)
    from Cons.IH[of "?f x m"] Cons.prems have "mget (?f x m) k = Some rr" by simp
    then show ?case by (rule f1)
  qed simp
  have "rr < S_next s" if "mget (S_addrToRoom s) k = Some rr" for k rr
    using assms that unfolding server_wf_def heap_wf_def by blast
  then show ?thesis
    unfolding cleanupStaleAddrToRoom_def Let_def by (rule wf_addrToRoom[OF assms]) (rule f2)
qed

lemma wf_del_room:
  assumes "server_wf s"
  shows "server_wf (s\<lparr> S_rooms := mdel k (S_rooms s) \<rparr>)"
proof -
  have "rooms_wf (s\<lparr> S_rooms := mdel k (S_rooms s) \<rparr>)"
    using assms length_mdel_le[of k "S_rooms s"] by (auto simp: server_wf_def rooms_wf_def)
  moreover have "heap_wf (s\<lparr> S_rooms := mdel k (S_rooms s) \<rparr>)"
    using assms by (simp add: server_wf_def heap_wf_def base_ip_def cong: option.case_cong)
  ultimately show ?thesis by (simp add: server_wf_def)
qed

lemma keeps_Stop: "room_keeps r (Room_Stop r)"
  using keeps_step[OF room_step.stop] by simp

lemma wf_cleanupIdleRooms:
  assumes "server_wf s"
  shows "server_wf (cleanupIdleRooms ev s)"
  unfolding cleanupIdleRooms_def
proof (rule wf_fold[where P = server_wf, OF _ assms])
  fix x :: "bytes \<times> rref" and s assume w: "server_wf s"
  obtain k rr where x: "x = (k, rr)" by (cases x)
  have "server_wf ((on_room rr Room_Stop s)\<lparr> S_rooms := mdel k (S_rooms s) \<rparr>)"
    using wf_del_room[OF wf_on_room[OF w, of rr Room_Stop]] keeps_Stop by (simp add: on_room_def)
  with w show "server_wf ((case x of (k, rr) \<Rightarrow> \<lambda>s1. if idle_room ev k (S_heap s1 rr)
      then (on_room rr Room_Stop s1)\<lparr> S_rooms := mdel k (S_rooms s1) \<rparr> else s1) s)"
    by (simp add: x)
qed


lemma wf_keepalive_tick: "senv_ok ev \<Longrightarrow> server_wf s \<Longrightarrow> server_wf (keepalive_tick ev s)"
  by (simp add: keepalive_tick_def wf_cleanupStaleClients wf_cleanupStaleAddrToRoom wf_cleanupIdleRooms Let_def)

lemma wf_Close:
  assumes "senv_ok ev" "server_wf s"
  shows "server_wf (Close ev s)"
proof -
  define s1 where "s1 = fold (\<lambda>(k, rr). with_room rr (notifyShutdown (V_env ev))) (range_rooms ev s) s"
  have n: "server_wf (with_room rr (notifyShutdown (V_env ev)) x)" if "server_wf x" for rr x
    using that keeps_step[OF room_step.shutdown, of "V_env ev" "S_heap x rr" "S_queue x"] assms(1)
    by (intro wf_with_room) (simp_all add: senv_ok_def)
  have "server_wf s1" unfolding s1_def by (rule wf_fold[where P = server_wf, OF _ assms(2)]) (auto intro: n)
  then have w: "server_wf (s1\<lparr> S_queue := q \<rparr>)" for q using server_wf_score[OF score_updates(1)] by simp
  have o: "server_wf (on_room rr Room_Stop x)" if "server_wf x" for rr x
    using that keeps_Stop by (intro wf_on_room)
  show ?thesis
    unfolding Close_def Let_def s1_def[symmetric]
    by (rule wf_fold[where P = server_wf, OF _ w]) (auto intro: o)
qed

lemma newServer_cases:
  assumes "newServer now locals tw cfg = Some s"
  obtains "Cfg_MultiRoom cfg" "s = (server0 locals tw cfg)\<lparr> S_baseSubnet := Some (Cfg_Subnet cfg) \<rparr>"
  | r where "\<not> Cfg_MultiRoom cfg" "NewRoom now (default_cfg cfg) = Some r"
      "s = (server0 locals tw cfg)\<lparr> S_heap := (S_heap (server0 locals tw cfg))(0 := r\<lparr> R_onDirty := True \<rparr>),
         S_next := 1, S_defaultRoom := Some 0, S_rooms := [(default_id, 0)] \<rparr>"
  using assms
  by (auto simp: newServer_def new_room_def Let_def mput_def split: if_splits prod.splits option.splits)

lemma wf_newServer:
  assumes "newServer now locals tw cfg = Some s" "To4 (IPNet_IP (Cfg_Subnet cfg)) \<noteq> None"
  shows "server_wf s"
  using assms(1)
proof (cases rule: newServer_cases)
  case 1
  then show ?thesis using assms(2) by (auto simp: server_wf_def rooms_wf_def heap_wf_def base_ip_def)
next
  case (2 r)
  note f = NewRoom_fields[OF 2(2)]
  obtain b where b: "To4 (IPNet_IP (Cfg_Subnet cfg)) = Some b" using assms(2) by auto
  have "core (r\<lparr> R_onDirty := True \<rparr>) = core r" by (simp add: core_def)
  from room_wf_core[OF this] have "room_wf (r\<lparr> R_onDirty := True \<rparr>)"
    using wf_NewRoom[OF 2(2)] b by (simp add: default_cfg_def)
  then have "room_ok (S_heap s 0)" using f by (simp add: room_ok_def 2(3))
  then show ?thesis
    using f b 2(1)
    by (auto simp: server_wf_def rooms_wf_def heap_wf_def base_ip_def prefix_of_def 2(3) default_cfg_def split: if_splits)
qed

section \<open>Runs of the server\<close>

inductive server_step :: "Server \<Rightarrow> Server \<Rightarrow> bool" where
  receive: "server_step s (receive data a s)"
| work: "senv_ok ev \<Longrightarrow> server_step s (worker ev s)"
| keepalive: "senv_ok ev \<Longrightarrow> server_step s (keepalive_tick ev s)"
| peerinfo: "env_ok env \<Longrightarrow> rr < S_next s \<Longrightarrow> server_step s (with_room rr (peerInfo_tick env) s)"
| ping: "env_ok env \<Longrightarrow> rr < S_next s \<Longrightarrow> server_step s (with_room rr (ping_tick env) s)"
| regtick: "rr < S_next s \<Longrightarrow> server_step s (on_room rr reg_tick s)"
| rate: "server_step s (s\<lparr> S_rateShards := rate_tick (S_rateShards s) \<rparr>)"
| bandwidth: "server_step s (bw_cleanup_tick ev s)"
| send: "run_step (RLQ_sq (S_queue s)) sq \<Longrightarrow>
    server_step s (s\<lparr> S_queue := (S_queue s)\<lparr> RLQ_sq := sq \<rparr> \<rparr>)"
| close: "senv_ok ev \<Longrightarrow> server_step s (Close ev s)"

lemma wf_server_step: "server_step s s' \<Longrightarrow> server_wf s \<Longrightarrow> server_wf s'"
proof (induction rule: server_step.induct)
  case (peerinfo env rr s)
  then show ?case
    using keeps_step[OF room_step.peerinfo, of env "S_heap s rr" "S_queue s"] by (intro wf_with_room)
next
  case (ping env rr s)
  then show ?case
    using keeps_step[OF room_step.ping, of env "S_heap s rr" "S_queue s"] by (intro wf_with_room)
next
  case (regtick rr s)
  then show ?case
    using keeps_step[OF room_step.regtick, of "S_heap s rr" "S_queue s"] by (intro wf_on_room) simp_all
next
  case (receive s data a)
  then show ?case using server_wf_score[OF score_receive] by simp
next
  case (rate s)
  then show ?case using server_wf_score[OF score_updates(3)] by simp
next
  case (bandwidth s ev)
  then show ?case using server_wf_score[OF score_updates(1)] by (simp add: bw_cleanup_tick_def)
next
  case (send s sq)
  then show ?case using server_wf_score[OF score_updates(1)] by simp
qed (simp_all add: wf_worker wf_keepalive_tick wf_Close)

lemma wf_server_run: "server_step\<^sup>*\<^sup>* s s' \<Longrightarrow> server_wf s \<Longrightarrow> server_wf s'"
  by (induction rule: rtranclp_induct) (simp_all add: wf_server_step)

end
