(* ===== verification/ServerGuarantees.thy ===== *)
theory ServerGuarantees
  imports ServerInv
begin

text \<open>
  What the server guarantees across rooms: the invariant along every run with virtual
  addresses unique across rooms, isolation of rooms, integrity of packets, the proof a
  migration needs, fresh subnets and the removal of idle rooms.
\<close>

section \<open>Configuration\<close>

definition sconf :: "Server \<Rightarrow> _" where
  "sconf s = (S_multiRoom s, S_maxRooms s, S_roomPass s, S_cachedEncrypted s, S_defaultRoom s,
     S_baseSubnet s, S_localSubnets s)"

lemma sconf_updates [simp]:
  "sconf (s\<lparr> S_queue := q \<rparr>) = sconf s" "sconf (s\<lparr> S_pktCh := ch \<rparr>) = sconf s"
  "sconf (s\<lparr> S_rateShards := sh \<rparr>) = sconf s" "sconf (s\<lparr> S_totalPacketsDropped := n \<rparr>) = sconf s"
  "sconf (s\<lparr> S_addrToRoom := m \<rparr>) = sconf s" "sconf (s\<lparr> S_heap := h \<rparr>) = sconf s"
  "sconf (s\<lparr> S_rooms := rs \<rparr>) = sconf s" "sconf (with_room rr f s) = sconf s" "sconf (on_room rr g s) = sconf s"
  "sconf (s\<lparr> S_next := i \<rparr>) = sconf s"
  "sconf (srv_sendChecked ev t p a s) = sconf s"
  by (simp_all add: sconf_def with_room_def on_room_def srv_sendChecked_def case_prod_beta)

lemma sconf_sends [simp]:
  "sconf (srv_sendKickCode ev a c x s) = sconf s" "sconf (srv_sendKick ev a x s) = sconf s"
  "sconf (sendRebindAck ev a b s) = sconf s" "sconf (handleNATProbe ev p a s) = sconf s"
  by (simp_all add: srv_sendKickCode_def srv_sendKick_def sendRebindAck_def handleNATProbe_def split: res.split)

lemma sconf_fold: "(\<And>x s. sconf (f x s) = sconf s) \<Longrightarrow> sconf (fold f xs s) = sconf s"
  by (induction xs arbitrary: s) simp_all

lemma sconf_find_or_create: "find_or_create_room ev i s = (x, s') \<Longrightarrow> sconf s' = sconf s"
  by (erule find_or_create_cases) simp_all

lemma sconf_handlePacket: "sconf (handlePacket ev d a s) = sconf s"
proof -
  have m: "sconf (handleRegisterMultiRoom ev p a s) = sconf s" for p
    by (auto simp: handleRegisterMultiRoom_def Let_def dest: sconf_find_or_create
        split: res.split prod.split sum.split)
  have "sconf (handleRebind ev p a s) = sconf s" for p
    by (auto simp: handleRebind_def Let_def split: res.split option.split)
  with m have "sconf (dispatch ev msg a s) = sconf s" for msg
    by (auto simp: dispatch_def handlePacketMultiRoom_def split: option.split)
  then show ?thesis by (auto simp: handlePacket_def split: res.split err.split)
qed

lemma sconf_cleanup [simp]:
  "sconf (cleanupStaleClients ev s) = sconf s" "sconf (cleanupStaleAddrToRoom ev s) = sconf s"
  "sconf (cleanupIdleRooms ev s) = sconf s"
  unfolding cleanupStaleClients_def cleanupStaleAddrToRoom_def cleanupIdleRooms_def Let_def
  by (auto intro!: sconf_fold)

lemma sconf_Close [simp]: "sconf (Close ev s) = sconf s"
proof -
  define s1 where "s1 = fold (\<lambda>(k, rr). with_room rr (notifyShutdown (V_env ev))) (range_rooms ev s) s"
  have "sconf s1 = sconf s" unfolding s1_def by (rule sconf_fold) auto
  then show ?thesis
    unfolding Close_def Let_def s1_def[symmetric] by (subst sconf_fold) auto
qed

lemma sconf_step: "server_step s s' \<Longrightarrow> sconf s' = sconf s"
proof (induction rule: server_step.induct)
  case (receive s data a)
  then show ?case by (auto simp: receive_def Let_def split: prod.split)
qed (auto simp: worker_def sconf_handlePacket bw_cleanup_tick_def keepalive_tick_def Let_def split: list.split)

lemma sconf_run: "server_step\<^sup>*\<^sup>* s s' \<Longrightarrow> sconf s' = sconf s"
  by (induction rule: rtranclp_induct) (simp_all add: sconf_step)

section \<open>The invariant along runs\<close>

lemma client_key_octet:
  assumes "room_wf r" "mget (R_clients r) v = Some c" "To4 (IPNet_IP (R_subnet r)) = Some b"
  shows "\<exists>n. v = IPKey4 [b ! 0, b ! 1, b ! 2, of_nat n]"
proof -
  from assms obtain n where "v = IPKey (vip_at r n)" by (fastforce simp: room_wf_def clients_wf_def)
  then show ?thesis using assms(3) by (auto simp: IPKey_vip_at)
qed

lemma listed_room:
  assumes "server_wf s" "mget (S_rooms s) k = Some rr"
  shows "room_ok (S_heap s rr)" "R_roomPass (S_heap s rr) = S_roomPass s"
    "\<exists>b. To4 (IPNet_IP (R_subnet (S_heap s rr))) = Some b"
  using assms unfolding server_wf_def rooms_wf_def heap_wf_def prefix_of_def by blast+

lemma addresses_unique:
  assumes "server_wf s" "mget (S_rooms s) k = Some rr" "mget (S_rooms s) k' = Some rr'"
    "mget (R_clients (S_heap s rr)) v = Some c" "mget (R_clients (S_heap s rr')) v = Some c'"
  shows "k = k'"
proof (rule ccontr)
  assume ne: "k \<noteq> k'"
  obtain b b' where b: "To4 (IPNet_IP (R_subnet (S_heap s rr))) = Some b"
      "To4 (IPNet_IP (R_subnet (S_heap s rr'))) = Some b'"
    using listed_room(3)[OF assms(1,2)] listed_room(3)[OF assms(1,3)] by blast
  have w: "room_wf (S_heap s rr)" "room_wf (S_heap s rr')"
    using listed_room(1)[OF assms(1,2)] listed_room(1)[OF assms(1,3)] by (simp_all add: room_ok_def)
  from client_key_octet[OF w(1) assms(4) b(1)] client_key_octet[OF w(2) assms(5) b(2)]
  have "b ! 2 = b' ! 2" by (auto simp: IPKey4_inject)
  then have "third_octet (S_heap s rr) = third_octet (S_heap s rr')" using b by (simp add: third_octet_def)
  with assms(1-3) ne show False unfolding server_wf_def rooms_wf_def by blast
qed

lemma run_config:
  assumes "newServer now locals tw cfg = Some s0" "server_step\<^sup>*\<^sup>* s0 s"
  shows "S_roomPass s = Cfg_RoomPass cfg" "S_multiRoom s = Cfg_MultiRoom cfg"
    "S_maxRooms s = (if Cfg_MaxRooms cfg \<le> 0 \<and> Cfg_MultiRoom cfg then defaultMaxRooms else Cfg_MaxRooms cfg)"
proof -
  have "S_roomPass s0 = Cfg_RoomPass cfg" "S_multiRoom s0 = Cfg_MultiRoom cfg"
    "S_maxRooms s0 = (if Cfg_MaxRooms cfg \<le> 0 \<and> Cfg_MultiRoom cfg then defaultMaxRooms else Cfg_MaxRooms cfg)"
    using assms(1) by (cases rule: newServer_cases; simp)+
  then show "S_roomPass s = Cfg_RoomPass cfg" "S_multiRoom s = Cfg_MultiRoom cfg"
    "S_maxRooms s = (if Cfg_MaxRooms cfg \<le> 0 \<and> Cfg_MultiRoom cfg then defaultMaxRooms else Cfg_MaxRooms cfg)"
    using sconf_run[OF assms(2)] by (simp_all add: sconf_def)
qed

definition server_safe :: "Config \<Rightarrow> Server \<Rightarrow> bool" where
  "server_safe cfg s \<longleftrightarrow> (\<forall>k rr. mget (S_rooms s) k = Some rr \<longrightarrow> room_wf (S_heap s rr) \<and>
       int (ClientCount (S_heap s rr)) \<le> max 0 (R_maxPlayers (S_heap s rr)) \<and>
       R_roomPass (S_heap s rr) = Cfg_RoomPass cfg) \<and>
    (Cfg_MultiRoom cfg \<longrightarrow>
       int (length (S_rooms s)) \<le> (if Cfg_MaxRooms cfg \<le> 0 then defaultMaxRooms else Cfg_MaxRooms cfg)) \<and>
    (\<forall>k k' rr rr' v c c'. mget (S_rooms s) k = Some rr \<and> mget (S_rooms s) k' = Some rr' \<and>
       mget (R_clients (S_heap s rr)) v = Some c \<and> mget (R_clients (S_heap s rr')) v = Some c' \<longrightarrow> k = k')"

lemma server_runs_safe:
  assumes "newServer now locals tw cfg = Some s0" "To4 (IPNet_IP (Cfg_Subnet cfg)) \<noteq> None"
    "server_step\<^sup>*\<^sup>* s0 s"
  shows "server_safe cfg s"
proof -
  have wf: "server_wf s" using wf_server_run[OF assms(3)] wf_newServer[OF assms(1,2)] by simp
  note cf = run_config[OF assms(1,3)]
  have "0 < defaultMaxRooms" by (simp add: defaultMaxRooms_def)
  then have "Cfg_MultiRoom cfg \<longrightarrow>
      int (length (S_rooms s)) \<le> (if Cfg_MaxRooms cfg \<le> 0 then defaultMaxRooms else Cfg_MaxRooms cfg)"
    using wf cf by (auto simp: server_wf_def rooms_wf_def split: if_splits)
  moreover have "room_wf (S_heap s rr) \<and> int (ClientCount (S_heap s rr)) \<le> max 0 (R_maxPlayers (S_heap s rr)) \<and>
      R_roomPass (S_heap s rr) = Cfg_RoomPass cfg" if "mget (S_rooms s) k = Some rr" for k rr
    using listed_room[OF wf that] cf(1) by (simp add: room_ok_def ClientCount_def)
  ultimately show ?thesis using addresses_unique[OF wf] unfolding server_safe_def by blast
qed

text \<open>
  C23: Along every run of the server, over datagrams of any content from any endpoint, periodic
  work, sending and shutdown: every listed room keeps its invariant, its capacity and the
  server's password; the number of rooms stays within the configured limit; and no virtual
  address is in use in two rooms, so an address names at most one player.
\<close>

theorem server_run_safe:
  assumes "newServer now locals tw cfg = Some s0" "To4 (IPNet_IP (Cfg_Subnet cfg)) \<noteq> None"
    "server_step\<^sup>*\<^sup>* s0 s"
  shows "(\<forall>k rr. mget (S_rooms s) k = Some rr \<longrightarrow> room_wf (S_heap s rr) \<and>
       int (ClientCount (S_heap s rr)) \<le> max 0 (R_maxPlayers (S_heap s rr)) \<and>
       R_roomPass (S_heap s rr) = Cfg_RoomPass cfg) \<and>
    (Cfg_MultiRoom cfg \<longrightarrow>
       int (length (S_rooms s)) \<le> (if Cfg_MaxRooms cfg \<le> 0 then defaultMaxRooms else Cfg_MaxRooms cfg)) \<and>
    (\<forall>k k' rr rr' v c c'. mget (S_rooms s) k = Some rr \<and> mget (S_rooms s) k' = Some rr' \<and>
       mget (R_clients (S_heap s rr)) v = Some c \<and> mget (R_clients (S_heap s rr')) v = Some c' \<longrightarrow> k = k')"
  using server_runs_safe[OF assms] unfolding server_safe_def .

definition sample_scfg :: Config where
  "sample_scfg = \<lparr> Cfg_Subnet = \<lparr> IPNet_IP = [10, 10, 0, 0], IPNet_Mask = [255, 255, 255, 0] \<rparr>,
     Cfg_MaxPlayers = 8, Cfg_RoomPass = [], Cfg_MaxPerIP = 3, Cfg_MultiRoom = True,
     Cfg_BandwidthLimit = 0, Cfg_MaxRooms = 2, Cfg_Verbose = False \<rparr>"

definition sample_senv :: SEnv where
  "sample_senv = \<lparr> V_env = sample_env, V_ordR = id, V_ordS = id \<rparr>"

definition sample_server :: Server where
  "sample_server = (server0 [] None sample_scfg)\<lparr> S_baseSubnet := Some (Cfg_Subnet sample_scfg) \<rparr>"

lemma sample_newServer: "newServer 0 [] None sample_scfg = Some sample_server"
  using mask24 by (simp add: newServer_def sample_server_def sample_scfg_def)

lemma sample_senv_ok [simp]: "senv_ok sample_senv"
  by (simp add: senv_ok_def sample_senv_def)

lemma sample_server_wf: "server_wf sample_server"
  by (rule wf_newServer[OF sample_newServer]) (simp add: sample_scfg_def To4_def)

theorem server_run_safe_witness:
  "int (length (S_rooms (worker sample_senv (receive [1, 2, 3, 4, 5, 6] sample_addr sample_server)))) \<le> 2"
proof -
  have "server_step\<^sup>*\<^sup>* sample_server (worker sample_senv (receive [1, 2, 3, 4, 5, 6] sample_addr sample_server))"
    using server_step.receive server_step.work[OF sample_senv_ok] by (meson converse_rtranclp_into_rtranclp r_into_rtranclp)
  from server_run_safe[OF sample_newServer _ this] show ?thesis by (simp add: sample_scfg_def To4_def)
qed


section \<open>Integrity and isolation\<close>

lemma DecodeChecked_Ok: "DecodeChecked d = Ok m \<Longrightarrow> d = EncodeChecked (MsgType m) (MsgPayload m)"
  by (auto simp: DecodeChecked_def bind_res_Ok_iff VerifyChecksum_Ok_iff Decode_Ok_iff EncodeChecked_AppendChecksum)

text \<open>
  C24: Corrupted datagrams reach no room: on a server without password a datagram that is not
  the checked encoding of some message leaves all rooms and all routing as they are;
  at most a kick for a wrong protocol version is sent.
\<close>

theorem corrupted_packet_ignored:
  assumes "\<not> S_cachedEncrypted s" "\<nexists>t p. data = EncodeChecked t p"
  shows "S_heap (handlePacket ev data a s) = S_heap s \<and> S_rooms (handlePacket ev data a s) = S_rooms s \<and>
    S_addrToRoom (handlePacket ev data a s) = S_addrToRoom s"
proof (cases "DecodeChecked data")
  case (Ok m)
  then show ?thesis using DecodeChecked_Ok[OF Ok] assms(2) by blast
next
  case (Err e)
  then have "score (handlePacket ev data a s) = score s"
    using assms(1) by (cases e) (simp_all add: handlePacket_def score_simps)
  then show ?thesis using score_fields by blast
next
  case Panic
  then show ?thesis using assms(1) by (simp add: handlePacket_def)
qed

theorem corrupted_packet_ignored_witness:
  "S_heap (handlePacket sample_senv [1] sample_addr sample_server) = S_heap sample_server"
proof -
  have "\<not> S_cachedEncrypted sample_server" by (simp add: sample_server_def sample_scfg_def)
  moreover have "\<nexists>t p. [1] = EncodeChecked t p" by (auto simp: EncodeChecked_def Let_def)
  ultimately show ?thesis using corrupted_packet_ignored by blast
qed

lemma relay_new_packets:
  assumes "(d, t) \<in># taken_on (snd (HandlePacket env TypeData p a (r, q)))" "(d, t) \<notin># taken_on q"
  shows "\<exists>k c. mget (R_clients r) k = Some c \<and>
    PublicAddr (R_heap (fst (HandlePacket env TypeData p a (r, q))) c) = Some t"
proof -
  obtain s r1 where sr: "relay_sender env p a r = (s, r1)" by (cases "relay_sender env p a r")
  define ts where "ts = (case s of Some c \<Rightarrow> relay_targets env r1 c (take 4 (drop 4 p)) | None \<Rightarrow> [])"
  have "handleRelay env p a (r, q) = relay_forward env p ts (r1, q)"
    using assms sr by (auto simp: HandlePacket_data handleRelay_def Let_def ts_def split: if_splits option.splits)
  note h = this[folded HandlePacket_data]
  have core': "core (fst (HandlePacket env TypeData p a (r, q))) = core r1" unfolding h by (simp add: core_simps)
  have t: "t \<in> set ts"
  proof (cases "IsRelayTargetRaw (take 4 (drop 4 p)) (Some (R_subnet r1))")
    case True
    then show ?thesis
      using assms taken_on_broadcast[of "relay_encode r1 p" ts "(r1, q)"]
      by (auto simp: h relay_forward_def Let_def)
  next
    case False
    then have "ts = [] \<or> (\<exists>u. ts = [u])" by (auto simp: ts_def relay_targets_def split: option.splits)
    then show ?thesis
    proof
      assume "ts = []"
      with assms show ?thesis by (simp add: h relay_forward_def Let_def split: if_splits)
    next
      assume "\<exists>u. ts = [u]"
      then obtain u where u: "ts = [u]" by blast
      with assms taken_on_relay_forward_unicast[OF False, of env u q] show ?thesis by (auto simp: h)
    qed
  qed
  have "\<exists>k c. mget (R_clients r1) k = Some c \<and> PublicAddr (R_heap r1 c) = Some t"
    using t range_clients_sub
    by (auto simp: ts_def relay_targets_def public_addrs_def map_filter_def split: option.splits if_splits) blast+
  then show ?thesis using relay_sender_frame(1)[OF sr] core_fields(5)[OF core'] by auto
qed

text \<open>
  C25: Rooms are isolated: in multi-room mode a data packet changes at most the room its endpoint
  is routed to, and every packet it makes the server send goes to the endpoint of a
  player of that room; from an endpoint without route it changes nothing.
\<close>

theorem rooms_isolated:
  assumes "S_multiRoom s" "MsgType msg = TypeData" "s' = dispatch ev msg a s"
  shows "case mget (S_addrToRoom s) (AddrToRateKey a) of
      None \<Rightarrow> s' = s
    | Some rr \<Rightarrow> (\<forall>x. x \<noteq> rr \<longrightarrow> S_heap s' x = S_heap s x) \<and>
        (\<forall>d t. (d, t) \<in># taken_on (S_queue s') \<and> (d, t) \<notin># taken_on (S_queue s) \<longrightarrow>
           (\<exists>k c. mget (R_clients (S_heap s rr)) k = Some c \<and> PublicAddr (R_heap (S_heap s' rr) c) = Some t))"
proof (cases "mget (S_addrToRoom s) (AddrToRateKey a)")
  case None
  then show ?thesis
    using assms by (simp add: dispatch_def handlePacketMultiRoom_def type_defs)
next
  case (Some rr)
  let ?f = "HandlePacket (V_env ev) TypeData (MsgPayload msg) a"
  have s': "s' = (if R_done (S_heap s rr) then s else with_room rr ?f s)"
    using assms Some by (simp add: dispatch_def handlePacketMultiRoom_def type_defs)
  have w: "S_heap (with_room rr ?f s) = (S_heap s)(rr := fst (?f (S_heap s rr, S_queue s)))"
    "S_queue (with_room rr ?f s) = snd (?f (S_heap s rr, S_queue s))"
    by (simp_all add: with_room_def case_prod_beta)
  show ?thesis
    using relay_new_packets[where env = "V_env ev" and p = "MsgPayload msg" and a = a and r = "S_heap s rr" and q = "S_queue s"]
    by (auto simp: Some s' w)
qed

definition busy_server :: Server where
  "busy_server = sample_server\<lparr> S_rooms := [(lit ''lan'', 0)], S_heap := (\<lambda>_. room2), S_next := 1,
     S_addrToRoom := [(AddrToRateKey sample_addr, 0), (AddrToRateKey addr2, 0)] \<rparr>"

theorem rooms_isolated_witness:
  "S_heap (dispatch sample_senv \<lparr> MsgType = TypeData, MsgPayload = bob_packet [255, 255, 255, 255] \<rparr>
     sample_addr busy_server) 1 = room2"
proof -
  have "S_multiRoom busy_server" "mget (S_addrToRoom busy_server) (AddrToRateKey sample_addr) = Some 0"
    "S_heap busy_server 1 = room2"
    by (simp_all add: busy_server_def sample_server_def sample_scfg_def)
  then show ?thesis
    using rooms_isolated[OF _ _ refl, of busy_server
        "\<lparr> MsgType = TypeData, MsgPayload = bob_packet [255, 255, 255, 255] \<rparr>" sample_senv sample_addr] by simp
qed

section \<open>Migration\<close>

lemma handleRebind_cases:
  assumes "UnmarshalRebind p = Ok req" "find_vip ev (IPKey (Rb_VirtualIP req)) s = Some (rr, c)"
    "To4 (Rb_VirtualIP req) \<noteq> None" "rebind_authorized ev req (S_heap s rr) (R_heap (S_heap s rr) c)"
  shows "\<exists>r'. S_heap (handleRebind ev p a s) = (S_heap s)(rr := r') \<and>
    core r' = core (rebind_update (V_env ev) (IPKey (Rb_VirtualIP req)) c
      (PublicAddr (R_heap (S_heap s rr) c)) a (S_heap s rr))"
proof -
  let ?u = "rebind_update (V_env ev) (IPKey (Rb_VirtualIP req)) c (PublicAddr (R_heap (S_heap s rr) c)) a"
  obtain v where v4: "To4 (Rb_VirtualIP req) = Some v" using assms(3) by auto
  define s2 where "s2 = (if S_multiRoom (on_room rr ?u s) then
      (on_room rr ?u s)\<lparr> S_addrToRoom := mput (AddrToRateKey a) rr
        (case PublicAddr (R_heap (S_heap s rr) c) of None \<Rightarrow> S_addrToRoom (on_room rr ?u s)
         | Some b \<Rightarrow> mdel (AddrToRateKey b) (S_addrToRoom (on_room rr ?u s))) \<rparr> else on_room rr ?u s)"
  have h: "handleRebind ev p a s = with_room rr (sendPeerInfoToClient (V_env ev) a) (sendRebindAck ev a True s2)"
    using assms(1,2,4) v4 unfolding handleRebind_def Let_def by (simp add: s2_def)
  have s2: "S_heap (sendRebindAck ev a True s2) = (S_heap s)(rr := ?u (S_heap s rr))"
    by (simp add: s2_def sendRebindAck_def srv_sendChecked_def on_room_def case_prod_beta)
  show ?thesis
    unfolding h by (intro exI[of _ "fst (sendPeerInfoToClient (V_env ev) a (?u (S_heap s rr), S_queue (sendRebindAck ev a True s2)))"])
      (simp add: with_room_def case_prod_beta s2 core_simps)
qed

text \<open>
  C26: A migration needs proof: if a rebind request changes the endpoints of a room, then the
  requested address is that of a player of the room, the request carries the HMAC of that
  address under the room's key or, without a password, the player was seen in the last 30
  seconds, and afterwards exactly that player is at the new endpoint.
\<close>

theorem rebind_needs_proof:
  assumes "R_addrMap (S_heap (handleRebind ev p a s) rr) \<noteq> R_addrMap (S_heap s rr)"
  shows "\<exists>req c. UnmarshalRebind p = Ok req \<and>
    mget (R_clients (S_heap s rr)) (IPKey (Rb_VirtualIP req)) = Some c \<and>
    (if R_roomPass (S_heap s rr) \<noteq> [] then
       Rb_HMAC req = ComputeHMAC (DeriveKey (R_roomPass (S_heap s rr)) (authRoomID (R_heap (S_heap s rr) c))) []
         (authRoomID (R_heap (S_heap s rr) c)) (Username (R_heap (S_heap s rr) c))
         (Some \<lparr> UDP_IP = Rb_VirtualIP req, UDP_Port = 0 \<rparr>)
     else E_now (V_env ev) - GetLastSeen (R_heap (S_heap s rr) c) \<le> 30 * second) \<and>
    mget (R_addrMap (S_heap (handleRebind ev p a s) rr)) (AddrToRateKey a) = Some c"
proof (cases "UnmarshalRebind p")
  case (Ok req)
  show ?thesis
  proof (cases "find_vip ev (IPKey (Rb_VirtualIP req)) s")
    case None
    then show ?thesis
      using assms Ok by (auto simp: handleRebind_def sendRebindAck_def srv_sendChecked_def Let_def case_prod_beta split: if_splits)
  next
    case (Some x)
    obtain q c where x: "x = (q, c)" by (cases x)
    have au: "To4 (Rb_VirtualIP req) \<noteq> None" "rebind_authorized ev req (S_heap s q) (R_heap (S_heap s q) c)"
      using assms Ok Some x
      by (auto simp: handleRebind_def sendRebindAck_def srv_sendChecked_def Let_def case_prod_beta split: if_splits)
    from handleRebind_cases[OF Ok Some[unfolded x] au] obtain r' where
      r': "S_heap (handleRebind ev p a s) = (S_heap s)(q := r')"
        "core r' = core (rebind_update (V_env ev) (IPKey (Rb_VirtualIP req)) c
          (PublicAddr (R_heap (S_heap s q) c)) a (S_heap s q))" by blast
    have q: "q = rr" using assms r'(1) by (auto split: if_splits)
    have m: "mget (R_addrMap r') (AddrToRateKey a) = Some c"
      using core_fields(4)[OF r'(2)] by (simp add: rebind_update_def Let_def)
    show ?thesis
      using Ok find_vip_Some(2)[OF Some[unfolded x]] au(2) r'(1) m
      by (auto simp: q rebind_authorized_def Let_def split: if_splits)
  qed
qed (use assms in \<open>simp_all add: handleRebind_def\<close>)


text \<open>Bob moves to another endpoint of the open sample room.\<close>

definition bob_rebind :: bytes where
  "bob_rebind = Rebind_Marshal \<lparr> Rb_VirtualIP = [10, 10, 0, 2], Rb_HMAC = [] \<rparr>"

lemma bob_rebind_decodes: "UnmarshalRebind bob_rebind = Ok \<lparr> Rb_VirtualIP = [10, 10, 0, 2], Rb_HMAC = [] \<rparr>"
  by code_simp

lemma sample_senv_env: "V_env sample_senv = sample_env" by (simp add: sample_senv_def)

lemma room2_open: "R_roomPass room2 = []"
proof -
  have "R_roomPass sample_room = []"
    using NewRoom_fields(9)[OF sample_NewRoom] by (simp add: sample_cfg_def)
  then show ?thesis unfolding room2_def room1_def by (simp add: fixed_fields(1)[OF fixed_register(1)])
qed

theorem rebind_needs_proof_witness:
  "R_roomPass room2 = [] \<and> 1000 - GetLastSeen (R_heap room2 0) \<le> 30 * second \<and>
   mget (R_addrMap (S_heap (handleRebind sample_senv bob_rebind strange_addr busy_server) 0))
     (AddrToRateKey strange_addr) = Some 0"
proof -
  let ?req = "\<lparr> Rb_VirtualIP = [10, 10, 0, 2], Rb_HMAC = [] \<rparr>"
  let ?s' = "handleRebind sample_senv bob_rebind strange_addr busy_server"
  have pass: "R_roomPass room2 = []" by (rule room2_open)
  have seen: "GetLastSeen (R_heap room2 0) = 1000"
    by (simp add: room2_state GetLastSeen_def player_def SetLastSeen_def)
  have k: "IPKey [10, 10, 0, 2] = IPKey vip2" by (simp add: IPKey_def IPv4_def copy_into_def)
  have heap: "S_heap busy_server 0 = room2" by (simp add: busy_server_def)
  have vip: "find_vip sample_senv (IPKey [10, 10, 0, 2]) busy_server = Some (0, 0)"
    unfolding k
    by (simp add: find_vip_def range_rooms_def range_map_def map_filter_def busy_server_def sample_senv_def room2_state)
  have au: "rebind_authorized sample_senv ?req room2 (R_heap room2 0)"
    using pass seen by (simp add: rebind_authorized_def sample_senv_def)
  have "\<exists>r'. S_heap ?s' = (S_heap busy_server)(0 := r') \<and>
    core r' = core (rebind_update sample_env (IPKey [10, 10, 0, 2]) 0 (PublicAddr (R_heap room2 0)) strange_addr room2)"
    using handleRebind_cases[OF bob_rebind_decodes, of sample_senv busy_server 0 0 strange_addr] vip au
    unfolding heap RebindPayload.select_convs sample_senv_env by (simp add: To4_def)
  then obtain r' where r': "S_heap ?s' = (S_heap busy_server)(0 := r')"
      "core r' = core (rebind_update sample_env (IPKey [10, 10, 0, 2]) 0 (PublicAddr (R_heap room2 0)) strange_addr room2)"
    by blast
  have m: "mget (R_addrMap (S_heap ?s' 0)) (AddrToRateKey strange_addr) = Some 0"
    using core_fields(4)[OF r'(2)] by (simp add: r'(1) rebind_update_def Let_def)
  moreover have "mget (R_addrMap room2) (AddrToRateKey strange_addr) = None"
    by (simp add: room2_state AddrToRateKey_def strange_addr_def sample_addr_def addr2_def)
  ultimately have "R_addrMap (S_heap ?s' 0) \<noteq> R_addrMap (S_heap busy_server 0)" unfolding heap by force
  from rebind_needs_proof[OF this] show ?thesis
    using pass seen m by (simp add: heap)
qed

end
