(* ===== verification/Persist.thy ===== *)
theory Persist
  imports ServerGuarantees
begin

text \<open>
  Persistence of the default room (server/persist.go and \<open>SnapshotState\<close> of room_status.go): the
  snapshot, its way through the state file, and the reservation of addresses after a
  restart.  A file is modelled by the document \<open>json.Unmarshal\<close> reads from it; the
  one thing the JSON text changes is a string that is not valid UTF-8.
\<close>

section \<open>The document\<close>

definition stateVersion :: int where "stateVersion = 1"
definition reconnectGracePeriod :: int where "reconnectGracePeriod = 60 * second"

record ClientEntry =
  CE_Username :: bytes
  CE_VirtualIP :: bytes
  CE_LastSeen :: int

record RoomState =
  RS_Version :: int
  RS_Subnet :: bytes
  RS_UpdatedAt :: int
  RS_IPBitmap :: "u64 list"
  RS_Clients :: "(bytes \<times> ClientEntry) list"

text \<open>\<open>IPNet.String\<close>.\<close>

definition ipnet_string :: "IPNet \<Rightarrow> bytes" where
  "ipnet_string n =
     (case networkNumberAndMask n of
        None \<Rightarrow> lit ''<nil>''
      | Some (nn, m) \<Rightarrow>
          (let (ones, bits) = Mask_Size m in
           if (ones, bits) = (0, 0) then ip_string nn @ lit ''/'' @ concat (map (\<lambda>b. hex (unat b div 16) @ hex (unat b mod 16)) m)
           else ip_string nn @ lit ''/'' @ dec ones))"

text \<open>A string written to JSON and read back: every invalid byte becomes U+FFFD.\<close>

definition ascii_hd :: "bytes \<Rightarrow> bool" where
  "ascii_hd s \<longleftrightarrow> s ! 0 < 0x80"

function json_text :: "bytes \<Rightarrow> bytes" where
  "json_text s =
     (if s = [] then []
      else if ascii_hd s \<or> 1 < rune_width s then take (rune_width s) s @ json_text (drop (rune_width s) s)
      else [0xEF, 0xBF, 0xBD] @ json_text (drop 1 s))"
  by auto
termination
  by (relation "measure length") (auto simp: rune_width_pos)

declare json_text.simps [simp del]

definition valid_text :: "bytes \<Rightarrow> bool" where
  "valid_text s \<longleftrightarrow> json_text s = s"

definition json_entry :: "ClientEntry \<Rightarrow> ClientEntry" where
  "json_entry e = e\<lparr> CE_Username := json_text (CE_Username e), CE_VirtualIP := json_text (CE_VirtualIP e) \<rparr>"

definition json_state :: "RoomState \<Rightarrow> RoomState" where
  "json_state st = st\<lparr> RS_Subnet := json_text (RS_Subnet st),
     RS_Clients := map (\<lambda>(k, e). (json_text k, json_entry e)) (RS_Clients st) \<rparr>"

section \<open>Snapshot\<close>

definition client_entry :: "Client \<Rightarrow> ClientEntry" where
  "client_entry c = \<lparr> CE_Username = Username c, CE_VirtualIP = ip_string (VirtualIP c), CE_LastSeen = GetLastSeen c \<rparr>"

definition SnapshotState :: "Env \<Rightarrow> Room \<Rightarrow> RoomState" where
  "SnapshotState env r =
     \<lparr> RS_Version = stateVersion, RS_Subnet = ipnet_string (R_subnet r), RS_UpdatedAt = E_now env,
       RS_IPBitmap = R_ipBitmap r,
       RS_Clients = fold (\<lambda>(k, c) m.
          if auth (R_heap r c) = authChallengeSent then m
          else mput (ip_string (VirtualIP (R_heap r c))) (client_entry (R_heap r c)) m) (range_clients env r) [] \<rparr>"

section \<open>Files\<close>

datatype statefile = NoFile | Unreadable | Malformed | Document RoomState

record Store =
  P_srv :: Server
  P_stateDir :: bytes
  P_stateLoadedAt :: "int option"
  P_disk :: statefile
  P_tmp :: statefile

text \<open>The outcome of the file operations of a save.\<close>

datatype write_outcome = MkdirFails | WriteFails statefile | RenameFails | Written

definition saveState :: "Env \<Rightarrow> write_outcome \<Rightarrow> Store \<Rightarrow> Store" where
  "saveState env w p =
     (if P_stateDir p = [] then p
      else
        (case S_defaultRoom (P_srv p) of
           None \<Rightarrow> p
         | Some rr \<Rightarrow>
             (let doc = Document (json_state (SnapshotState env (S_heap (P_srv p) rr))) in
              case w of
                MkdirFails \<Rightarrow> p
              | WriteFails part \<Rightarrow> p\<lparr> P_tmp := part \<rparr>
              | RenameFails \<Rightarrow> p\<lparr> P_tmp := NoFile \<rparr>
              | Written \<Rightarrow> p\<lparr> P_disk := doc, P_tmp := NoFile \<rparr>)))"

text \<open>One tick of \<open>persistLoop\<close>: the flag is taken back before the write.\<close>

definition persist_tick :: "Env \<Rightarrow> write_outcome \<Rightarrow> Store \<Rightarrow> Store" where
  "persist_tick env w p =
     (if P_stateDir p = [] then p
      else
        (case S_defaultRoom (P_srv p) of
           None \<Rightarrow> p
         | Some rr \<Rightarrow>
             if R_persistDirty (S_heap (P_srv p) rr)
             then saveState env w (p\<lparr> P_srv := on_room rr (\<lambda>r. r\<lparr> R_persistDirty := False \<rparr>) (P_srv p) \<rparr>)
             else p))"

section \<open>Restoring\<close>

datatype load_error = ReadError | ParseError

text \<open>A placeholder for a player: its address is taken, its endpoint still unknown.\<close>

definition placeholder :: "ClientEntry \<Rightarrow> ip \<Rightarrow> Client" where
  "placeholder e i = SetLastSeen (CE_LastSeen e)
     (zeroClient\<lparr> Username := CE_Username e, VirtualIP := i, auth := authNone, authRoomID := default_id \<rparr>)"

definition restore_entry :: "int \<Rightarrow> RoomState \<Rightarrow> ClientEntry \<Rightarrow> Room \<Rightarrow> Room" where
  "restore_entry now st e r =
     (case ParseIP (CE_VirtualIP e) of
        None \<Rightarrow> r
      | Some i \<Rightarrow>
          (case To4 i of
             None \<Rightarrow> r
           | Some ip4 \<Rightarrow>
               if 30 * second < now - CE_LastSeen e \<and> reconnectGracePeriod < now - RS_UpdatedAt st then r
               else if \<not> IPNet_Contains (R_subnet r) i then r
               else if ip4 ! 3 < 2 \<or> ip4 ! 3 = 255 then r
               else if bm_used (R_ipBitmap r) (unat (ip4 ! 3)) then r
               else
                 (let (c, r1) = new_client (placeholder e i) (markIPUsed i r)
                  in r1\<lparr> R_clients := mput (IPKey i) c (R_clients r1) \<rparr>)))"

definition loadState :: "int \<Rightarrow> (bytes list \<Rightarrow> bytes list) \<Rightarrow> Store \<Rightarrow> load_error option \<times> Store" where
  "loadState now ord p =
     (if P_stateDir p = [] then (None, p)
      else
        (case S_defaultRoom (P_srv p) of
           None \<Rightarrow> (None, p)
         | Some rr \<Rightarrow>
             (case P_disk p of
                NoFile \<Rightarrow> (None, p)
              | Unreadable \<Rightarrow> (Some ReadError, p)
              | Malformed \<Rightarrow> (Some ParseError, p)
              | Document st \<Rightarrow>
                  if RS_Version st \<noteq> stateVersion then (None, p)
                  else if RS_Subnet st \<noteq> ipnet_string (R_subnet (S_heap (P_srv p) rr)) then (None, p)
                  else (None, p\<lparr> P_srv := on_room rr (fold (\<lambda>(k, e). restore_entry now st e)
                                   (range_map ord (RS_Clients st))) (P_srv p),
                                 P_stateLoadedAt := Some now \<rparr>))))"

text \<open>A start of the server: creation, then the state on disk; an error is only logged.\<close>

definition startServer ::
    "int \<Rightarrow> (bytes list \<Rightarrow> bytes list) \<Rightarrow> IPNet list \<Rightarrow> (UDPAddr \<Rightarrow> bytes \<Rightarrow> bool) option \<Rightarrow> Config \<Rightarrow>
     bytes \<Rightarrow> statefile \<Rightarrow> Store option" where
  "startServer now ord locals tcpWrite cfg dir disk =
     map_option (\<lambda>s. snd (loadState now ord
        \<lparr> P_srv = s, P_stateDir = dir, P_stateLoadedAt = None, P_disk = disk, P_tmp = NoFile \<rparr>))
       (newServer now locals tcpWrite cfg)"

section \<open>Addresses of the room\<close>

lemma parseIPv4Fields_length:
  "parseIPv4Fields fs v d s = Some r \<Longrightarrow> length fs \<le> 3 \<Longrightarrow> length r = 4"
  by (induction fs v d s rule: parseIPv4Fields.induct) (auto split: if_splits)

lemma finish6_length:
  "finish6 acc ell s = Some r \<Longrightarrow> length acc \<le> 16 \<Longrightarrow> length r = 16"
  by (auto simp: finish6_def split: if_splits option.splits)

lemma parse6_length:
  "parse6 f acc ell s = Some r \<Longrightarrow> even (length acc) \<Longrightarrow> length acc \<le> 16 \<Longrightarrow> length r = 16"
proof (induction f arbitrary: acc ell s)
  case 0
  then show ?case by (auto dest: finish6_length)
next
  case (Suc f)
  show ?case
  proof (cases "16 \<le> length acc")
    case True
    then show ?thesis using Suc.prems by (auto dest: finish6_length)
  next
    case False
    then have le: "length acc + 2 \<le> 16" using Suc.prems(2) by presburger
    note q = parseIPv4Fields_length[of "[]" 0 0 s]
    show ?thesis
      using Suc.prems(1,2) False le
      by (auto simp: Let_def split: if_splits option.splits dest!: Suc.IH finish6_length q)
  qed
qed

lemma ParseIP_length: "ParseIP s = Some i \<Longrightarrow> length i = 16"
  by (auto simp: ParseIP_def parseIPv6_def split: list.splits if_splits dest: parse6_length parseIPv4Fields_length)

lemma To4_16: "length i = 16 \<Longrightarrow> To4 i = Some x \<Longrightarrow> i = v4prefix @ x"
  by (auto simp: To4_def mapped_eq split: if_splits)

lemma byte_ones: "(\<forall>i<8. bit (b :: byte) i) \<Longrightarrow> b = 255"
proof -
  assume "\<forall>i<8. bit b i"
  then have "b = - 1" by (intro bit_word_eqI) auto
  then show ?thesis by simp
qed

lemma byte_zeros: "(\<forall>i<8. \<not> bit (b :: byte) i) \<Longrightarrow> b = 0"
  by (rule bit_word_eqI) auto

lemma mask24_eq:
  assumes "Mask_Size m = (24, 32)"
  shows "m = [255, 255, 255, 0]"
proof -
  obtain a b c d where m: "m = [a, b, c, d]"
    using mask24_IPv4[OF assms] by (auto simp: numeral_eq_Suc length_Suc_conv)
  let ?bs = "mask_bits m"
  have len: "length ?bs = 32" by (simp add: m mask_bits_def)
  have n: "length (takeWhile id ?bs) = 24" "list_all Not (drop 24 ?bs)"
    using assms by (auto simp: Mask_Size_def Let_def split: if_splits)
  have t: "?bs ! i" if "i < 24" for i
    using that n(1) nth_mem[of i "takeWhile id ?bs"] takeWhile_nth[of i id ?bs]
    by (auto dest!: set_takeWhileD)
  have f: "\<not> ?bs ! (24 + i)" if "i < 8" for i
    using that n(2) len by (auto simp: list_all_length)
  have "i < 8 \<longleftrightarrow> i \<in> {0, 1, 2, 3, 4, 5, 6, 7}" for i :: nat by auto
  then have all8: "(\<forall>i<8. P i) \<longleftrightarrow> P 0 \<and> P 1 \<and> P 2 \<and> P 3 \<and> P 4 \<and> P 5 \<and> P 6 \<and> P (7 :: nat)" for P
    by auto
  have bs: "?bs = map (bit a) [7,6,5,4,3,2,1,0] @ map (bit b) [7,6,5,4,3,2,1,0] @
      map (bit c) [7,6,5,4,3,2,1,0] @ map (bit d) [7,6,5,4,3,2,1,0]"
  proof -
    have "rev [0..<8] = [7, 6, 5, 4, 3, 2, 1, 0 :: nat]" by code_simp
    then show ?thesis by (simp add: m mask_bits_def)
  qed
  have "\<forall>i<8. bit a i" "\<forall>i<8. bit b i" "\<forall>i<8. bit c i" "\<forall>i<8. \<not> bit d i"
    using t[of 0] t[of 1] t[of 2] t[of 3] t[of 4] t[of 5] t[of 6] t[of 7]
      t[of 8] t[of 9] t[of 10] t[of 11] t[of 12] t[of 13] t[of 14] t[of 15]
      t[of 16] t[of 17] t[of 18] t[of 19] t[of 20] t[of 21] t[of 22] t[of 23]
      f[of 0] f[of 1] f[of 2] f[of 3] f[of 4] f[of 5] f[of 6] f[of 7]
    unfolding all8 bs by simp_all
  then show ?thesis using byte_ones[of a] byte_ones[of b] byte_ones[of c] byte_zeros[of d] by (simp add: m)
qed

text \<open>An address inside a /24 is the subnet's address with another last octet.\<close>

lemma contained_vip:
  assumes "Mask_Size (IPNet_Mask (R_subnet r)) = (24, 32)" "To4 (IPNet_IP (R_subnet r)) \<noteq> None"
    "length i = 16" "To4 i = Some x" "IPNet_Contains (R_subnet r) i"
  shows "i = vip_at r (unat (x ! 3))"
proof -
  obtain b where b: "To4 (IPNet_IP (R_subnet r)) = Some b" "length b = 4" using assms(2) To4_length by auto
  have l: "length x = 4" using To4_length[OF assms(4)] .
  then obtain x0 x1 x2 x3 where x: "x = [x0, x1, x2, x3]" by (auto simp: numeral_eq_Suc length_Suc_conv)
  obtain b0 b1 b2 b3 where b': "b = [b0, b1, b2, b3]" using b(2) by (auto simp: numeral_eq_Suc length_Suc_conv)
  have m1: "(255 :: byte) = - 1" by simp
  have ff: "y AND 255 = y" for y :: byte unfolding m1 by (rule and.right_neutral)
  have "x0 = b0 \<and> x1 = b1 \<and> x2 = b2"
    using assms(4,5) b mask24_eq[OF assms(1)]
    by (simp add: IPNet_Contains_def networkNumberAndMask_def x b' upt_rec ff)
  then show ?thesis
    using To4_16[OF assms(3,4)] b by (simp add: vip_at_def Let_def IPv4_def x b')
qed

section \<open>Restoring keeps the invariant\<close>

text \<open>A player without endpoint under a free address: a fresh cell entered in the player map only.\<close>

lemma wf_add_offline:
  assumes wf: "room_wf r" and n: "assignable n" "n \<notin> bm_set (R_ipBitmap r)"
    and cl: "VirtualIP cl = vip_at r n" "auth cl = authNone"
    and r': "r' = r\<lparr> R_ipBitmap := bm_mark (of_nat n) (R_ipBitmap r),
      R_heap := (R_heap r)(R_next r := cl), R_next := Suc (R_next r),
      R_clients := mput (IPKey (vip_at r n)) (R_next r) (R_clients r) \<rparr>"
  shows "room_wf r'"
proof -
  have w: "clients_wf r" "bitmap_wf r" "addr_wf r" "count_wf r" "To4 (IPNet_IP (R_subnet r)) \<noteq> None" "keys_wf r"
    using wf by (auto simp: room_wf_def)
  have bm: "bm_inv (R_ipBitmap r)" using w(2) by (simp add: bitmap_wf_def)
  have free: "mget (R_clients r) (IPKey (vip_at r n)) = None" using w(2) n by (auto simp: bitmap_wf_def)
  have v: "vip_at r' = vip_at r" by (simp add: vip_at_def fun_eq_iff r')
  have "clients_wf r'"
    using w(1) cl n unfolding clients_wf_def v by (force simp: r' split: if_splits)
  moreover have "bitmap_wf r'"
    using w(2) bm n IPKey_vip_at_inj[of n _ r] assignable_of_nat[OF n(1)] unfolding bitmap_wf_def v
    by (auto simp: r' pool.inv_mark pool.used_mark)
  moreover have "addr_wf r'"
  proof -
    have "R_addrMap r' = R_addrMap r" by (simp add: r')
    moreover have "c < R_next r' \<and> R_heap r' c = R_heap r c" if "mget (R_addrMap r) k = Some c" for k c
      using w(3) that by (force simp: addr_wf_def r')
    moreover have "mget (R_clients r') k = Some c" if "mget (R_clients r) k = Some c" for k c
      using that free by (auto simp: r')
    ultimately show ?thesis using w(3) unfolding addr_wf_def by metis
  qed
  moreover have "count_wf r'" "keys_wf r'" using w(4,6) by (simp_all add: count_wf_def keys_wf_def r')
  ultimately show ?thesis using w(5) by (simp add: room_wf_def r')
qed

text \<open>What one entry does: nothing, or a placeholder under the free address it names.\<close>

definition restorable :: "int \<Rightarrow> RoomState \<Rightarrow> ClientEntry \<Rightarrow> bool" where
  "restorable now st e \<longleftrightarrow> now - CE_LastSeen e \<le> 30 * second \<or> now - RS_UpdatedAt st \<le> reconnectGracePeriod"

definition entry_octet :: "Room \<Rightarrow> ClientEntry \<Rightarrow> nat option" where
  "entry_octet r e = (case ParseIP (CE_VirtualIP e) of None \<Rightarrow> None
     | Some i \<Rightarrow> (case To4 i of None \<Rightarrow> None
         | Some x \<Rightarrow> if IPNet_Contains (R_subnet r) i \<and> assignable (unat (x ! 3)) then Some (unat (x ! 3)) else None))"

lemma assignable_octet: "assignable (unat b) \<longleftrightarrow> \<not> (b < 2 \<or> b = 255)" for b :: byte
proof -
  have "b = 255 \<longleftrightarrow> unat b = 255" using word_unat_eq_iff[of b 255] by simp
  moreover have "b < 2 \<longleftrightarrow> unat b < 2" by (simp add: word_less_nat_alt)
  ultimately show ?thesis unfolding assignable_def using unat_byte_less[of b] by linarith
qed

lemma restore_entry_cases:
  assumes "Mask_Size (IPNet_Mask (R_subnet r)) = (24, 32)" "To4 (IPNet_IP (R_subnet r)) \<noteq> None"
  shows "restore_entry now st e r =
    (case entry_octet r e of
       None \<Rightarrow> r
     | Some n \<Rightarrow>
         if restorable now st e \<and> n \<notin> bm_set (R_ipBitmap r) then
           r\<lparr> R_ipBitmap := bm_mark (of_nat n) (R_ipBitmap r),
              R_heap := (R_heap r)(R_next r := placeholder e (vip_at r n)), R_next := Suc (R_next r),
              R_clients := mput (IPKey (vip_at r n)) (R_next r) (R_clients r) \<rparr>
         else r)"
proof (cases "ParseIP (CE_VirtualIP e)")
  case (Some i)
  note P = this
  note len = ParseIP_length[OF Some]
  show ?thesis
  proof (cases "To4 i")
    case None
    then show ?thesis by (simp add: restore_entry_def entry_octet_def P)
  next
    case (Some x)
    have v: "i = vip_at r (unat (x ! 3))" if "IPNet_Contains (R_subnet r) i"
      using contained_vip[OF assms len Some that] .
    have u: "of_nat (unat (x ! 3)) = x ! 3" by simp
    show ?thesis
    proof (cases "IPNet_Contains (R_subnet r) i \<and> assignable (unat (x ! 3))")
      case True
      note vi = v[OF True[THEN conjunct1]]
      have "x ! 3 \<ge> 2" "x ! 3 \<noteq> 255" using True assignable_octet[of "x ! 3"] by auto
      then show ?thesis
        using True unfolding entry_octet_def P restore_entry_def
        by (simp add: Some restorable_def bm_set_def new_client_def markIPUsed_def Let_def not_less not_le flip: vi)
    next
      case False
      then show ?thesis
        using assignable_octet[of "x ! 3"] unfolding entry_octet_def P restore_entry_def by (auto simp: Some)
    qed
  qed
qed (simp add: restore_entry_def entry_octet_def)

lemma entry_octet_assignable: "entry_octet r e = Some n \<Longrightarrow> assignable n"
  by (auto simp: entry_octet_def split: option.splits if_splits)

lemma wf_restore_entry:
  assumes "room_wf r" "Mask_Size (IPNet_Mask (R_subnet r)) = (24, 32)"
  shows "room_wf (restore_entry now st e r)" "R_subnet (restore_entry now st e r) = R_subnet r"
proof -
  have t: "To4 (IPNet_IP (R_subnet r)) \<noteq> None" using assms(1) by (simp add: room_wf_def)
  note c = restore_entry_cases[OF assms(2) t]
  show "R_subnet (restore_entry now st e r) = R_subnet r" by (simp add: c split: option.split)
  show "room_wf (restore_entry now st e r)"
  proof (cases "\<exists>n. entry_octet r e = Some n \<and> restorable now st e \<and> n \<notin> bm_set (R_ipBitmap r)")
    case True
    then obtain n where n: "entry_octet r e = Some n" "restorable now st e" "n \<notin> bm_set (R_ipBitmap r)" by blast
    show ?thesis
      by (rule wf_add_offline[OF assms(1) entry_octet_assignable[OF n(1)] n(3), of "placeholder e (vip_at r n)"])
         (use n in \<open>simp_all add: c placeholder_def SetLastSeen_def\<close>)
  next
    case False
    then show ?thesis using assms(1) by (auto simp: c split: option.split)
  qed
qed

definition restores :: "int \<Rightarrow> RoomState \<Rightarrow> ClientEntry list \<Rightarrow> Room \<Rightarrow> Room \<Rightarrow> bool" where
  "restores now st es r r' \<longleftrightarrow> room_wf r' \<and> R_subnet r' = R_subnet r \<and> R_next r \<le> R_next r' \<and>
    (\<forall>c<R_next r. R_heap r' c = R_heap r c) \<and>
    (\<forall>k c. mget (R_clients r) k = Some c \<longrightarrow> mget (R_clients r') k = Some c) \<and>
    (\<forall>k c. mget (R_clients r') k = Some c \<longrightarrow> mget (R_clients r) k = Some c \<or>
       (\<exists>e\<in>set es. \<exists>n. entry_octet r e = Some n \<and> restorable now st e \<and> k = IPKey (vip_at r n) \<and>
          R_heap r' c = placeholder e (vip_at r n))) \<and>
    (\<forall>e\<in>set es. \<forall>n. entry_octet r e = Some n \<and> restorable now st e \<longrightarrow>
       mget (R_clients r') (IPKey (vip_at r n)) \<noteq> None)"

lemma taken_iff:
  assumes "room_wf r" "entry_octet r e = Some n"
  shows "mget (R_clients r) (IPKey (vip_at r n)) \<noteq> None \<longleftrightarrow> n \<in> bm_set (R_ipBitmap r)"
  using assms(1) entry_octet_assignable[OF assms(2)] by (auto simp: room_wf_def bitmap_wf_def)

lemma restores_new:
  assumes wf: "room_wf r" and n: "entry_octet r e = Some n" "restorable now st e" "n \<notin> bm_set (R_ipBitmap r)"
    and r1: "R_next r1 = Suc (R_next r)" "R_heap r1 = (R_heap r)(R_next r := placeholder e (vip_at r n))"
      "R_clients r1 = mput (IPKey (vip_at r n)) (R_next r) (R_clients r)" "R_subnet r1 = R_subnet r"
    and v: "vip_at r1 = vip_at r" "entry_octet r1 = entry_octet r"
    and rs: "restores now st es r1 r'"
  shows "restores now st (e # es) r r'"
proof -
  note ih = rs[unfolded restores_def v r1(4)]
  have free: "mget (R_clients r) (IPKey (vip_at r n)) = None" using taken_iff[OF wf n(1)] n(3) by simp
  have new: "R_heap r' (R_next r) = placeholder e (vip_at r n)" using ih r1 by simp
  have here: "mget (R_clients r') (IPKey (vip_at r n)) = Some (R_next r)" using ih r1 by simp
  have "mget (R_clients r') k = Some c" if "mget (R_clients r) k = Some c" for k c
  proof -
    have "mget (R_clients r1) k = Some c" using that free r1(3) by auto
    then show ?thesis using ih by blast
  qed
  moreover have "mget (R_clients r) k = Some c \<or> (\<exists>e'\<in>set (e # es). \<exists>n. entry_octet r e' = Some n \<and>
      restorable now st e' \<and> k = IPKey (vip_at r n) \<and> R_heap r' c = placeholder e' (vip_at r n))"
    if "mget (R_clients r') k = Some c" for k c
  proof (cases "k = IPKey (vip_at r n)")
    case True
    with that here n new show ?thesis by auto
  next
    case False
    then have "mget (R_clients r1) k = mget (R_clients r) k" using r1(3) by simp
    with ih that show ?thesis by (metis list.set_intros(2))
  qed
  moreover have "R_heap r' c = R_heap r c" if "c < R_next r" for c using ih r1 that by auto
  ultimately show ?thesis unfolding restores_def using ih r1(1) here n(1) by auto
qed

lemma restores_same:
  assumes "room_wf r" "\<nexists>n. entry_octet r e = Some n \<and> restorable now st e \<and> n \<notin> bm_set (R_ipBitmap r)" "restores now st es r r'"
  shows "restores now st (e # es) r r'"
proof -
  note ih = assms(3)[unfolded restores_def]
  have "mget (R_clients r') (IPKey (vip_at r n)) \<noteq> None" if "entry_octet r e = Some n" "restorable now st e" for n
  proof -
    have "mget (R_clients r) (IPKey (vip_at r n)) \<noteq> None" using that assms(2) taken_iff[OF assms(1) that(1)] by blast
    then show ?thesis using ih by auto
  qed
  then show ?thesis unfolding restores_def using ih by auto
qed

lemma restore_all:
  assumes "room_wf r" "Mask_Size (IPNet_Mask (R_subnet r)) = (24, 32)"
  shows "restores now st es r (fold (restore_entry now st) es r)"
  using assms
proof (induction es arbitrary: r)
  case (Cons e es)
  define r1 where "r1 = restore_entry now st e r"
  have t: "To4 (IPNet_IP (R_subnet r)) \<noteq> None" using Cons.prems(1) by (simp add: room_wf_def)
  have w1: "room_wf r1" "R_subnet r1 = R_subnet r"
    using wf_restore_entry[OF Cons.prems(1,2)] by (simp_all add: r1_def)
  have v: "vip_at r1 = vip_at r" "entry_octet r1 = entry_octet r"
    unfolding vip_at_def entry_octet_def w1(2) fun_eq_iff by simp_all
  have ih: "restores now st es r1 (fold (restore_entry now st) es r1)" using Cons.IH w1 Cons.prems(2) by simp
  have f: "fold (restore_entry now st) (e # es) r = fold (restore_entry now st) es r1" by (simp add: r1_def)
  show ?case
  proof (cases "\<exists>n. entry_octet r e = Some n \<and> restorable now st e \<and> n \<notin> bm_set (R_ipBitmap r)")
    case True
    then obtain n where n: "entry_octet r e = Some n" "restorable now st e" "n \<notin> bm_set (R_ipBitmap r)" by blast
    have r1: "R_next r1 = Suc (R_next r)" "R_heap r1 = (R_heap r)(R_next r := placeholder e (vip_at r n))"
      "R_clients r1 = mput (IPKey (vip_at r n)) (R_next r) (R_clients r)"
      using n unfolding r1_def restore_entry_cases[OF Cons.prems(2) t] by simp_all
    show ?thesis unfolding f by (rule restores_new[OF Cons.prems(1) n r1 w1(2) v ih])
  next
    case False
    then have "r1 = r" unfolding r1_def restore_entry_cases[OF Cons.prems(2) t] by (auto split: option.split)
    then show ?thesis unfolding f using restores_same[OF Cons.prems(1) False] ih by simp
  qed
qed (simp add: restores_def)

section \<open>Through the file\<close>

lemma json_text_ascii: "(\<forall>b\<in>set s. b < 0x80) \<Longrightarrow> json_text s = s"
proof (induction s)
  case (Cons b s)
  then have b: "b < 0x80" by simp
  then have "\<not> 0xC2 \<le> b" "\<not> 0xE0 \<le> b" "\<not> 0xF0 \<le> b" by (simp_all add: word_le_nat_alt word_less_nat_alt)
  then have "rune_width (b # s) = 1" by (simp add: rune_width_def)
  with Cons b show ?case by (subst json_text.simps) (simp add: ascii_hd_def)
qed (simp add: json_text.simps)

lemma dec_ascii: "b \<in> set (dec n) \<Longrightarrow> b < 0x80"
  using dec_digits[of b n] by (auto simp: is_digit_def word_le_nat_alt word_less_nat_alt)

lemma json_text_ip4 [simp]: "json_text (ip4_text i) = ip4_text i"
  by (rule json_text_ascii) (auto simp: ip4_text_def dec_ascii)

lemma length_vip_at: "length (vip_at r n) = 16"
  by (simp add: vip_at_def Let_def IPv4_def)

lemma ip_string_vip: "ip_string (vip_at r n) = ip4_text (the (To4 (vip_at r n)))"
  using length_vip_at[of r n] by (auto simp: ip_string_def)

lemma ParseIP_vip: "ParseIP (ip_string (vip_at r n)) = Some (vip_at r n)"
proof -
  have "ParseIP (ip4_text (the (To4 (vip_at r n)))) = Some (v4prefix @ the (To4 (vip_at r n)))"
    by (rule ParseIP_ip4_text) simp
  also have "v4prefix @ the (To4 (vip_at r n)) = vip_at r n"
    using To4_16[OF length_vip_at[of r n]] by (metis option.sel vip_at_To4)
  finally show ?thesis unfolding ip_string_vip .
qed

lemma vip_contained:
  assumes "Mask_Size (IPNet_Mask (R_subnet r)) = (24, 32)" "To4 (IPNet_IP (R_subnet r)) \<noteq> None"
  shows "IPNet_Contains (R_subnet r) (vip_at r n)"
proof -
  obtain b where b: "To4 (IPNet_IP (R_subnet r)) = Some b" "length b = 4" using assms(2) To4_length by auto
  then obtain b0 b1 b2 b3 where "b = [b0, b1, b2, b3]" by (auto simp: numeral_eq_Suc length_Suc_conv)
  with b show ?thesis
    using mask24_eq[OF assms(1)]
    by (simp add: IPNet_Contains_def networkNumberAndMask_def vip_at_def Let_def upt_rec)
qed

lemma entry_octet_vip:
  assumes "Mask_Size (IPNet_Mask (R_subnet r)) = (24, 32)" "To4 (IPNet_IP (R_subnet r)) \<noteq> None" "assignable n"
    "CE_VirtualIP e = ip_string (vip_at r n)"
  shows "entry_octet r e = Some n"
  using assms(3,4) vip_contained[OF assms(1,2), of n] assignable_of_nat[OF assms(3)]
  by (simp add: entry_octet_def ParseIP_vip)

text \<open>The snapshot has one entry per player.\<close>

definition put_entry :: "Room \<Rightarrow> ipkey \<times> cref \<Rightarrow> (bytes \<times> ClientEntry) list \<Rightarrow> (bytes \<times> ClientEntry) list" where
  "put_entry r = (\<lambda>(k, c) m. mput (ip_string (VirtualIP (R_heap r c))) (client_entry (R_heap r c)) m)"

lemma player_facts:
  assumes "room_wf r" "mget (R_clients r) k = Some c"
  shows "auth (R_heap r c) = authNone" "k = IPKey (VirtualIP (R_heap r c))" "\<exists>n. assignable n \<and> VirtualIP (R_heap r c) = vip_at r n"
  using assms by (auto simp: room_wf_def clients_wf_def)

lemma range_clients_mem: "env_ok env \<Longrightarrow> (k, c) \<in> set (range_clients env r) \<longleftrightarrow> mget (R_clients r) k = Some c"
  by (simp add: range_clients_def range_map_mem env_ok_def)

lemma snapshot_fold:
  assumes "room_wf r" "env_ok env"
  shows "RS_Clients (SnapshotState env r) = fold (put_entry r) (range_clients env r) []"
  unfolding SnapshotState_def put_entry_def
  by (simp, rule fold_cong) (auto simp: range_clients_mem[OF assms(2)] player_facts[OF assms(1)])

lemma distinct_put_entries: "distinct (mkeys m) \<Longrightarrow> distinct (mkeys (fold (put_entry r) xs m))"
  by (induction xs arbitrary: m) (auto simp: put_entry_def)

lemma get_put_entries:
  "mget (fold (put_entry r) xs m) s = (case find (\<lambda>(k, c). ip_string (VirtualIP (R_heap r c)) = s) (rev xs) of
     Some (k, c) \<Rightarrow> Some (client_entry (R_heap r c)) | None \<Rightarrow> mget m s)"
proof (induction xs arbitrary: m)
  case (Cons x xs)
  then show ?case by (cases x) (simp add: find_append put_entry_def split: option.split)
qed simp

lemma snapshot_get:
  assumes "room_wf r" "env_ok env" "mget (RS_Clients (SnapshotState env r)) s = Some e"
  shows "\<exists>k c. mget (R_clients r) k = Some c \<and> e = client_entry (R_heap r c) \<and> s = ip_string (VirtualIP (R_heap r c))"
  using assms(3) range_clients_mem[OF assms(2)]
  unfolding snapshot_fold[OF assms(1,2)] get_put_entries
  by (auto split: option.splits prod.splits dest!: find_SomeD) blast+

lemma snapshot_has:
  assumes "room_wf r" "env_ok env" "mget (R_clients r) k = Some c"
  shows "mget (RS_Clients (SnapshotState env r)) (ip_string (VirtualIP (R_heap r c))) = Some (client_entry (R_heap r c))"
proof -
  let ?P = "\<lambda>(k', c'). ip_string (VirtualIP (R_heap r c')) = ip_string (VirtualIP (R_heap r c))"
  note mem = range_clients_mem[OF assms(2)]
  have "find ?P (rev (range_clients env r)) \<noteq> None" using assms(3) mem unfolding find_None_iff by force
  then obtain k' c' where f: "find ?P (rev (range_clients env r)) = Some (k', c')" by force
  then have m': "mget (R_clients r) k' = Some c'" "ip_string (VirtualIP (R_heap r c')) = ip_string (VirtualIP (R_heap r c))"
    using mem by (auto dest!: find_SomeD)
  have "VirtualIP (R_heap r c') = VirtualIP (R_heap r c)"
    using player_facts(3)[OF assms(1) m'(1)] player_facts(3)[OF assms(1,3)] m'(2) ParseIP_vip by (metis option.inject)
  then have "c' = c" using player_facts(2)[OF assms(1) m'(1)] player_facts(2)[OF assms(1,3)] m'(1) assms(3) by simp
  then show ?thesis using f unfolding snapshot_fold[OF assms(1,2)] get_put_entries by simp
qed

lemma values_get: "distinct (mkeys m) \<Longrightarrow> e \<in> snd ` set m \<longleftrightarrow> (\<exists>s. mget m s = Some e)"
  by (force dest: mget_in_set in_set_mget)

lemma snapshot_entries:
  assumes "room_wf r" "env_ok env"
  shows "snd ` set (RS_Clients (SnapshotState env r)) = {client_entry (R_heap r c) | k c. mget (R_clients r) k = Some c}"
    "distinct (mkeys (RS_Clients (SnapshotState env r)))"
    "s \<in> fst ` set (RS_Clients (SnapshotState env r)) \<Longrightarrow> json_text s = s"
proof -
  show d: "distinct (mkeys (RS_Clients (SnapshotState env r)))"
    unfolding snapshot_fold[OF assms] by (rule distinct_put_entries) simp
  show "snd ` set (RS_Clients (SnapshotState env r)) = {client_entry (R_heap r c) | k c. mget (R_clients r) k = Some c}"
    unfolding set_eq_iff mem_Collect_eq values_get[OF d] using snapshot_get[OF assms] snapshot_has[OF assms] by blast
  show "json_text s = s" if s: "s \<in> fst ` set (RS_Clients (SnapshotState env r))" for s
  proof -
    obtain e where "mget (RS_Clients (SnapshotState env r)) s = Some e"
      using s mget_None_iff[of "RS_Clients (SnapshotState env r)" s] by auto
    from snapshot_get[OF assms this] player_facts(3)[OF assms(1)] show ?thesis by (metis ip_string_vip json_text_ip4)
  qed
qed

section \<open>Restart\<close>

text \<open>What becomes of a player's record in a restart.\<close>

definition survives :: "int \<Rightarrow> int \<Rightarrow> Client \<Rightarrow> bool" where
  "survives saved now cl \<longleftrightarrow> now - GetLastSeen cl \<le> 30 * second \<or> now - saved \<le> reconnectGracePeriod"

lemma saved_entries:
  assumes "room_wf r" "env_ok env" "order_ok ord" "st = json_state (SnapshotState env r)"
  shows "snd ` set (range_map ord (RS_Clients st)) = {json_entry (client_entry (R_heap r c)) | k c. mget (R_clients r) k = Some c}"
proof -
  note se = snapshot_entries[OF assms(1,2)]
  have cs: "RS_Clients st = map (\<lambda>(k, e). (json_text k, json_entry e)) (RS_Clients (SnapshotState env r))"
    by (simp add: assms(4) json_state_def)
  have "mkeys (RS_Clients st) = mkeys (RS_Clients (SnapshotState env r))"
    using se(3) by (auto simp: cs comp_def case_prod_beta)
  then have "distinct (mkeys (RS_Clients st))" using se(2) by simp
  then have "snd ` set (range_map ord (RS_Clients st)) = snd ` set (RS_Clients st)"
    using assms(3) by (force simp: range_map_mem in_set_mget dest: mget_in_set)
  also have "\<dots> = json_entry ` snd ` set (RS_Clients (SnapshotState env r))" by (simp add: cs image_image case_prod_beta)
  finally show ?thesis unfolding se(1) by auto
qed

lemma saved_entry:
  assumes "room_wf r" "R_subnet r0 = R_subnet r" "mget (R_clients r) k = Some c"
    and m: "Mask_Size (IPNet_Mask (R_subnet r)) = (24, 32)"
  obtains n where "assignable n" "VirtualIP (R_heap r c) = vip_at r n" "k = IPKey (vip_at r n)"
    "entry_octet r0 (json_entry (client_entry (R_heap r c))) = Some n"
    "json_entry (client_entry (R_heap r c)) = \<lparr> CE_Username = json_text (Username (R_heap r c)),
       CE_VirtualIP = ip_string (vip_at r n), CE_LastSeen = GetLastSeen (R_heap r c) \<rparr>"
proof -
  have t: "To4 (IPNet_IP (R_subnet r)) \<noteq> None" using assms(1) by (simp add: room_wf_def)
  have v: "vip_at r0 = vip_at r" by (simp add: vip_at_def assms(2) fun_eq_iff)
  obtain n where n: "assignable n" "VirtualIP (R_heap r c) = vip_at r n" using player_facts(3)[OF assms(1,3)] by blast
  with entry_octet_vip[of r0 n] assms(2) t m have "entry_octet r0 (json_entry (client_entry (R_heap r c))) = Some n"
    "json_entry (client_entry (R_heap r c)) = \<lparr> CE_Username = json_text (Username (R_heap r c)),
       CE_VirtualIP = ip_string (vip_at r n), CE_LastSeen = GetLastSeen (R_heap r c) \<rparr>"
    by (simp_all add: json_entry_def client_entry_def ip_string_vip v)
  then show thesis using that[OF n] player_facts(2)[OF assms(1,3)] n(2) by simp
qed

lemma restart_room:
  assumes wf: "room_wf r" "room_wf r0" and env: "env_ok env" and ord: "order_ok ord"
    and sub: "R_subnet r0 = R_subnet r" "Mask_Size (IPNet_Mask (R_subnet r)) = (24, 32)"
    and r0: "R_clients r0 = []"
    and st: "st = json_state (SnapshotState env r)"
    and r': "r' = fold (\<lambda>(k, e). restore_entry now st e) (range_map ord (RS_Clients st)) r0"
  shows "room_wf r'" and
    "case mget (R_clients r) k of
       None \<Rightarrow> mget (R_clients r') k = None
     | Some c \<Rightarrow>
         if survives (E_now env) now (R_heap r c) then
           \<exists>c'. mget (R_clients r') k = Some c' \<and> R_heap r' c' =
             SetLastSeen (GetLastSeen (R_heap r c)) (zeroClient\<lparr> Username := json_text (Username (R_heap r c)),
               VirtualIP := VirtualIP (R_heap r c), auth := authNone, authRoomID := default_id \<rparr>)
         else mget (R_clients r') k = None"
proof -
  define es where "es = map snd (range_map ord (RS_Clients st))"
  have v: "vip_at r0 = vip_at r" by (simp add: vip_at_def sub fun_eq_iff)
  have es: "set es = {json_entry (client_entry (R_heap r c)) | k c. mget (R_clients r) k = Some c}"
    using saved_entries[OF wf(1) env ord st] by (simp add: es_def)
  have f: "r' = fold (restore_entry now st) es r0"
    unfolding r' es_def fold_map comp_def by (rule fold_cong) auto
  note ra = restore_all[OF wf(2), of now st es, folded f, unfolded restores_def v sub(1) r0 map_of.simps, OF sub(2)]
  show "room_wf r'" using ra by blast
  have rest: "restorable now st (json_entry (client_entry (R_heap r c))) = survives (E_now env) now (R_heap r c)" for c
    by (simp add: restorable_def survives_def st json_state_def SnapshotState_def json_entry_def client_entry_def)
  have kept: "\<exists>c n. mget (R_clients r) k = Some c \<and> survives (E_now env) now (R_heap r c) \<and> VirtualIP (R_heap r c) = vip_at r n \<and>
      R_heap r' c' = placeholder (json_entry (client_entry (R_heap r c))) (vip_at r n)" if "mget (R_clients r') k = Some c'" for c'
  proof -
    from ra that obtain e m where e: "e \<in> set es" "entry_octet r0 e = Some m" "k = IPKey (vip_at r m)" "restorable now st e"
        "R_heap r' c' = placeholder e (vip_at r m)" by blast
    with es obtain k1 c where c: "mget (R_clients r) k1 = Some c" "e = json_entry (client_entry (R_heap r c))" by auto
    obtain n where "VirtualIP (R_heap r c) = vip_at r n" "k1 = IPKey (vip_at r n)" "entry_octet r0 e = Some n"
      using saved_entry[OF wf(1) sub(1) c(1) sub(2)] c(2) by metis
    with e c rest show ?thesis by auto
  qed
  show "case mget (R_clients r) k of
       None \<Rightarrow> mget (R_clients r') k = None
     | Some c \<Rightarrow>
         if survives (E_now env) now (R_heap r c) then
           \<exists>c'. mget (R_clients r') k = Some c' \<and> R_heap r' c' =
             SetLastSeen (GetLastSeen (R_heap r c)) (zeroClient\<lparr> Username := json_text (Username (R_heap r c)),
               VirtualIP := VirtualIP (R_heap r c), auth := authNone, authRoomID := default_id \<rparr>)
         else mget (R_clients r') k = None"
  proof (cases "mget (R_clients r) k")
    case None
    with kept show ?thesis by (cases "mget (R_clients r') k") auto
  next
    case (Some c)
    obtain n where n: "VirtualIP (R_heap r c) = vip_at r n" "k = IPKey (vip_at r n)"
        "entry_octet r0 (json_entry (client_entry (R_heap r c))) = Some n"
        "json_entry (client_entry (R_heap r c)) = \<lparr> CE_Username = json_text (Username (R_heap r c)),
           CE_VirtualIP = ip_string (vip_at r n), CE_LastSeen = GetLastSeen (R_heap r c) \<rparr>"
      using saved_entry[OF wf(1) sub(1) Some sub(2)] by metis
    have "mget (R_clients r') k \<noteq> None" if "survives (E_now env) now (R_heap r c)"
      using ra es Some n(2,3) rest that by blast
    with Some kept n show ?thesis by (cases "mget (R_clients r') k") (fastforce simp: placeholder_def)+
  qed
qed

section \<open>Properties\<close>

lemma ipnet_string_ascii:
  assumes "Mask_Size (IPNet_Mask n) = (24, 32)" "To4 (IPNet_IP n) \<noteq> None"
  shows "json_text (ipnet_string n) = ipnet_string n"
proof -
  obtain b where b: "To4 (IPNet_IP n) = Some b" "length b = 4" using assms(2) To4_length by auto
  then have i: "ip_string b = ip4_text b" "b \<noteq> []" by (auto simp: ip_string_def)
  have "ipnet_string n = ip4_text b @ lit ''/'' @ dec 24"
    using b assms(1) mask24_eq[OF assms(1)]
    by (simp add: ipnet_string_def networkNumberAndMask_def i)
  then show ?thesis
    by (simp only:) (rule json_text_ascii, auto simp: ip4_text_def lit_def dec_ascii)
qed

lemma restart_lemma:
  assumes "room_wf r" "env_ok env" "order_ok ord" "P_stateDir p \<noteq> []"
    "S_defaultRoom (P_srv p) = Some rr" "r = S_heap (P_srv p) rr"
    "\<not> Cfg_MultiRoom cfg" "Cfg_Subnet cfg = R_subnet r"
    "startServer now ord locals tw cfg (P_stateDir p) (P_disk (saveState env Written p)) = Some p'"
  shows "\<exists>rr' r'. S_defaultRoom (P_srv p') = Some rr' \<and> r' = S_heap (P_srv p') rr' \<and> S_rooms (P_srv p') = [(default_id, rr')] \<and>
    \<not> S_multiRoom (P_srv p') \<and> room_wf r' \<and>
    (\<forall>k. case mget (R_clients r) k of
       None \<Rightarrow> mget (R_clients r') k = None
     | Some c \<Rightarrow>
         if survives (E_now env) now (R_heap r c) then
           \<exists>c'. mget (R_clients r') k = Some c' \<and> R_heap r' c' =
             SetLastSeen (GetLastSeen (R_heap r c)) (zeroClient\<lparr> Username := json_text (Username (R_heap r c)),
               VirtualIP := VirtualIP (R_heap r c), auth := authNone, authRoomID := default_id \<rparr>)
         else mget (R_clients r') k = None)"
proof -
  define st where "st = json_state (SnapshotState env r)"
  have disk: "P_disk (saveState env Written p) = Document st"
    using assms(4-6) by (simp add: saveState_def st_def)
  obtain s where s: "newServer now locals tw cfg = Some s"
    and p': "p' = snd (loadState now ord \<lparr> P_srv = s, P_stateDir = P_stateDir p, P_stateLoadedAt = None,
        P_disk = Document st, P_tmp = NoFile \<rparr>)"
    using assms(9) unfolding startServer_def disk by auto
  have m: "Mask_Size (IPNet_Mask (R_subnet r)) = (24, 32)"
    using s assms(8) by (cases "Mask_Size (IPNet_Mask (R_subnet r))") (auto simp: newServer_def Let_def split: if_splits)
  have t: "To4 (IPNet_IP (R_subnet r)) \<noteq> None" using assms(1) by (simp add: room_wf_def)
  from s show ?thesis
  proof (cases rule: newServer_cases)
    case 1
    then show ?thesis using assms(7) by simp
  next
    case (2 r0)
    let ?r0 = "r0\<lparr> R_onDirty := True \<rparr>"
    note f0 = NewRoom_fields[OF 2(2)]
    have "core ?r0 = core r0" by (simp add: core_def)
    from room_wf_core[OF this] have wf0: "room_wf ?r0"
      using wf_NewRoom[OF 2(2)] t assms(8) by (simp add: default_cfg_def)
    have sub: "R_subnet ?r0 = R_subnet r" "R_clients ?r0 = []" using f0 assms(8) by (simp_all add: default_cfg_def)
    have "RS_Version st = stateVersion" "RS_Subnet st = ipnet_string (R_subnet r)"
      using ipnet_string_ascii[OF m t] by (simp_all add: st_def json_state_def SnapshotState_def)
    then have p'_eq: "S_defaultRoom (P_srv p') = Some 0" "S_heap (P_srv p') 0 =
        fold (\<lambda>(k, e). restore_entry now st e) (range_map ord (RS_Clients st)) ?r0"
      "S_rooms (P_srv p') = [(default_id, 0)]" "\<not> S_multiRoom (P_srv p')"
      using assms(4,7) sub(1) by (simp_all add: p' loadState_def 2(3) on_room_def)
    note rr = restart_room[OF assms(1) wf0 assms(2,3) sub(1) m sub(2) st_def p'_eq(2)]
    show ?thesis using p'_eq(1,3,4) rr by blast
  qed
qed

text \<open>
  C27: A restart keeps the players: if a server saves its state and another one with the same
  subnet is started on that file, then the new default room satisfies the room invariant
  and reserves exactly the addresses of the players that were seen in the last 30 seconds or,
  within 60 seconds of the save, of all of them; a reserved address carries the player's
  name (as far as it is valid text) and last activity, and has no endpoint yet.
\<close>

theorem restart_keeps_players:
  assumes "room_wf r" "env_ok env" "order_ok ord" "P_stateDir p \<noteq> []"
    "S_defaultRoom (P_srv p) = Some rr" "r = S_heap (P_srv p) rr"
    "\<not> Cfg_MultiRoom cfg" "Cfg_Subnet cfg = R_subnet r"
    "startServer now ord locals tw cfg (P_stateDir p) (P_disk (saveState env Written p)) = Some p'"
  shows "\<exists>rr' r'. S_defaultRoom (P_srv p') = Some rr' \<and> r' = S_heap (P_srv p') rr' \<and> room_wf r' \<and>
    (\<forall>k. case mget (R_clients r) k of
       None \<Rightarrow> mget (R_clients r') k = None
     | Some c \<Rightarrow>
         if survives (E_now env) now (R_heap r c) then
           \<exists>c'. mget (R_clients r') k = Some c' \<and> R_heap r' c' =
             SetLastSeen (GetLastSeen (R_heap r c)) (zeroClient\<lparr> Username := json_text (Username (R_heap r c)),
               VirtualIP := VirtualIP (R_heap r c), auth := authNone, authRoomID := default_id \<rparr>)
         else mget (R_clients r') k = None)"
  using restart_lemma[OF assms] by blast

text \<open>A single-room server with the two sample players, and its restart a second later.\<close>

definition single_cfg :: Config where
  "single_cfg = sample_scfg\<lparr> Cfg_Subnet := RC_Subnet sample_cfg, Cfg_MultiRoom := False \<rparr>"

definition sample_store :: Store where
  "sample_store = \<lparr> P_srv = busy_server\<lparr> S_defaultRoom := Some 0 \<rparr>, P_stateDir = lit ''d'', P_stateLoadedAt = None,
     P_disk = NoFile, P_tmp = NoFile \<rparr>"

lemma single_newServer: "\<exists>s. newServer now l tw single_cfg = Some s"
  using mask24
  by (simp add: newServer_def NewRoom_def default_cfg_def single_cfg_def sample_cfg_def sample_scfg_def
      new_room_def Let_def split: option.split)

theorem restart_keeps_players_witness:
  "\<exists>p' rr c. startServer (1000 + second) id [] None single_cfg (lit ''d'')
       (P_disk (saveState sample_env Written sample_store)) = Some p' \<and>
     mget (R_clients (S_heap (P_srv p') rr)) (IPKey vip2) = Some c \<and>
     Username (R_heap (S_heap (P_srv p') rr) c) = lit ''bob''"
proof -
  have d: "P_stateDir sample_store = lit ''d''" by (simp add: sample_store_def)
  obtain p' where p': "startServer (1000 + second) id [] None single_cfg (P_stateDir sample_store)
       (P_disk (saveState sample_env Written sample_store)) = Some p'"
    using single_newServer[of "1000 + second" "[]" None] by (auto simp: startServer_def)
  have h: "S_heap (P_srv sample_store) 0 = room2" "S_defaultRoom (P_srv sample_store) = Some 0"
    by (simp_all add: sample_store_def busy_server_def)
  have sv: "survives (E_now sample_env) (1000 + second) (R_heap room2 0)"
    by (simp add: survives_def reconnectGracePeriod_def room2_state player_def GetLastSeen_def SetLastSeen_def)
  have n: "json_text (lit ''bob'') = lit ''bob''" by (rule json_text_ascii) (simp add: lit_def)
  have "\<exists>rr' r'. S_defaultRoom (P_srv p') = Some rr' \<and> r' = S_heap (P_srv p') rr' \<and> room_wf r' \<and>
    (\<forall>k. case mget (R_clients room2) k of
       None \<Rightarrow> mget (R_clients r') k = None
     | Some c \<Rightarrow>
         if survives (E_now sample_env) (1000 + second) (R_heap room2 c) then
           \<exists>c'. mget (R_clients r') k = Some c' \<and> R_heap r' c' =
             SetLastSeen (GetLastSeen (R_heap room2 c)) (zeroClient\<lparr> Username := json_text (Username (R_heap room2 c)),
               VirtualIP := VirtualIP (R_heap room2 c), auth := authNone, authRoomID := default_id \<rparr>)
         else mget (R_clients r') k = None)"
    by (rule restart_keeps_players[OF room2_state(1) sample_env_ok _ _ h(2) h(1)[symmetric] _ _ p'])
       (simp_all add: d lit_def single_cfg_def room2_state)
  then obtain rr' where "case mget (R_clients room2) (IPKey vip2) of
       None \<Rightarrow> mget (R_clients (S_heap (P_srv p') rr')) (IPKey vip2) = None
     | Some c \<Rightarrow>
         if survives (E_now sample_env) (1000 + second) (R_heap room2 c) then
           \<exists>c'. mget (R_clients (S_heap (P_srv p') rr')) (IPKey vip2) = Some c' \<and> R_heap (S_heap (P_srv p') rr') c' =
             SetLastSeen (GetLastSeen (R_heap room2 c)) (zeroClient\<lparr> Username := json_text (Username (R_heap room2 c)),
               VirtualIP := VirtualIP (R_heap room2 c), auth := authNone, authRoomID := default_id \<rparr>)
         else mget (R_clients (S_heap (P_srv p') rr')) (IPKey vip2) = None" by blast
  then have "\<exists>c'. mget (R_clients (S_heap (P_srv p') rr')) (IPKey vip2) = Some c' \<and>
      Username (R_heap (S_heap (P_srv p') rr') c') = lit ''bob''"
    using sv n by (auto simp: room2_state(2,4) player_def SetLastSeen_def)
  then show ?thesis using p' d by auto
qed

lemma range_map_single: "order_ok ord \<Longrightarrow> range_map ord [(k, v)] = [(k, v)]"
proof -
  assume "order_ok ord"
  then have "ord [k] = [k]" by (metis mset_single_iff_right order_ok_def mset.simps)
  then show ?thesis by (simp add: range_map_def map_filter_def)
qed

lemma keepalive_single:
  assumes "senv_ok ev" "S_rooms s = [(i, rr)]" "\<not> S_multiRoom s"
  shows "mget (R_clients (S_heap (keepalive_tick ev s) rr)) k =
    (case mget (R_clients (S_heap s rr)) k of None \<Rightarrow> None
     | Some c \<Rightarrow> if stale_client (V_env ev) (S_heap s rr) c then None else Some c)"
proof -
  obtain ch r1 where c: "CleanupStale (V_env ev) (S_heap s rr) = (ch, r1)" by force
  have "keepalive_tick ev s = on_room rr (\<lambda>r. let (changed, r1) = CleanupStale (V_env ev) r
      in if changed then invalidatePeerInfoCache r1 else r1) s"
    using assms by (simp add: keepalive_tick_def cleanupStaleClients_def range_rooms_def range_map_single
        senv_ok_def on_room_def Let_def)
  then have "R_clients (S_heap (keepalive_tick ev s) rr) = R_clients r1"
    by (simp add: on_room_def c invalidatePeerInfoCache_def)
  then show ?thesis using CleanupStale_effect(2)[OF _ c] assms(1) by (simp add: senv_ok_def)
qed

text \<open>
  The grace period after a restart ends with the first cleanup: the reservation of a player
  who was last seen more than 30 seconds before a keepalive tick is gone after that tick,
  however recent the restart and the saved state are.
\<close>

theorem grace_period_cut_short:
  assumes "room_wf r" "env_ok env" "order_ok ord" "P_stateDir p \<noteq> []"
    "S_defaultRoom (P_srv p) = Some rr" "r = S_heap (P_srv p) rr"
    "\<not> Cfg_MultiRoom cfg" "Cfg_Subnet cfg = R_subnet r"
    "startServer now ord locals tw cfg (P_stateDir p) (P_disk (saveState env Written p)) = Some p'"
    "mget (R_clients r) k = Some c" "senv_ok ev"
    "30 * second < E_now (V_env ev) - GetLastSeen (R_heap r c)"
  shows "\<exists>rr'. S_defaultRoom (P_srv p') = Some rr' \<and>
    mget (R_clients (S_heap (keepalive_tick ev (P_srv p')) rr')) k = None"
proof -
  from restart_lemma[OF assms(1-9)] obtain rr' where rr': "S_defaultRoom (P_srv p') = Some rr'"
      "S_rooms (P_srv p') = [(default_id, rr')]" "\<not> S_multiRoom (P_srv p')" and
    pl: "case mget (R_clients r) k of
       None \<Rightarrow> mget (R_clients (S_heap (P_srv p') rr')) k = None
     | Some c \<Rightarrow>
         if survives (E_now env) now (R_heap r c) then
           \<exists>c'. mget (R_clients (S_heap (P_srv p') rr')) k = Some c' \<and> R_heap (S_heap (P_srv p') rr') c' =
             SetLastSeen (GetLastSeen (R_heap r c)) (zeroClient\<lparr> Username := json_text (Username (R_heap r c)),
               VirtualIP := VirtualIP (R_heap r c), auth := authNone, authRoomID := default_id \<rparr>)
         else mget (R_clients (S_heap (P_srv p') rr')) k = None" by blast
  have "mget (R_clients (S_heap (keepalive_tick ev (P_srv p')) rr')) k = None"
    unfolding keepalive_single[OF assms(11) rr'(2,3)]
    using pl assms(10,12) by (auto simp: stale_client_def GetLastSeen_def SetLastSeen_def split: if_splits)
  with rr'(1) show ?thesis by blast
qed

theorem grace_period_cut_short_witness:
  "\<exists>p' rr'. startServer (1000 + 29 * second) id [] None single_cfg (lit ''d'')
       (P_disk (saveState sample_env Written sample_store)) = Some p' \<and> S_defaultRoom (P_srv p') = Some rr' \<and>
     mget (R_clients (S_heap (keepalive_tick (sample_senv\<lparr> V_env := sample_env\<lparr> E_now := 1000 + 31 * second \<rparr> \<rparr>)
       (P_srv p')) rr')) (IPKey vip2) = None"
proof -
  let ?ev = "sample_senv\<lparr> V_env := sample_env\<lparr> E_now := 1000 + 31 * second \<rparr> \<rparr>"
  have d: "P_stateDir sample_store = lit ''d''" "lit ''d'' \<noteq> []" by (simp_all add: sample_store_def lit_def)
  obtain p' where p': "startServer (1000 + 29 * second) id [] None single_cfg (P_stateDir sample_store)
       (P_disk (saveState sample_env Written sample_store)) = Some p'"
    using single_newServer[of "1000 + 29 * second" "[]" None] by (auto simp: startServer_def)
  have h: "S_heap (P_srv sample_store) 0 = room2" "S_defaultRoom (P_srv sample_store) = Some 0"
    by (simp_all add: sample_store_def busy_server_def)
  have ev: "senv_ok ?ev" using sample_env_ok by (simp add: senv_ok_def sample_senv_def env_ok_def)
  have old: "30 * second < E_now (V_env ?ev) - GetLastSeen (R_heap room2 0)"
    by (simp add: room2_state player_def GetLastSeen_def SetLastSeen_def)
  have c: "mget (R_clients room2) (IPKey vip2) = Some 0" by (simp add: room2_state)
  have "\<exists>rr'. S_defaultRoom (P_srv p') = Some rr' \<and>
    mget (R_clients (S_heap (keepalive_tick ?ev (P_srv p')) rr')) (IPKey vip2) = None"
    by (rule grace_period_cut_short[OF room2_state(1) sample_env_ok order_ok_id(1) _ h(2) h(1)[symmetric] _ _ p' c ev old])
       (use d in \<open>simp_all add: single_cfg_def room2_state\<close>)
  then show ?thesis using p' d by auto
qed

end
