(* ===== verification/Metrics.thy ===== *)
theory Metrics
  imports Persist
begin

text \<open>
  Observation of the server: the time series of metrics (server/metrics.go), the status of a
  room (server/room_status.go) and the status handlers with their access token
  (server/status.go).  The HTTP server, the JSON text and the HTML template are outside: a
  handler is modelled by the value it renders.
\<close>

section \<open>Time series\<close>

definition metricsSlots :: nat where "metricsSlots = 60"

record MetricsSample =
  MS_Timestamp :: int
  MS_Players :: int
  MS_AvgRTT :: rat
  MS_AvgLoss :: rat
  MS_RelayPkts :: u64
  MS_DroppedPkts :: u64
  MS_Kicks :: u64
  MS_Registrations :: u64
  MS_SendErrors :: u64

definition zeroSample :: MetricsSample where
  "zeroSample = \<lparr> MS_Timestamp = 0, MS_Players = 0, MS_AvgRTT = 0, MS_AvgLoss = 0, MS_RelayPkts = 0,
     MS_DroppedPkts = 0, MS_Kicks = 0, MS_Registrations = 0, MS_SendErrors = 0 \<rparr>"

record MetricsTimeSeries =
  TS_samples :: "MetricsSample list"
  TS_writeIdx :: nat
  TS_count :: nat
  TS_full :: bool

definition NewMetricsTimeSeries :: MetricsTimeSeries where
  "NewMetricsTimeSeries = \<lparr> TS_samples = replicate metricsSlots zeroSample, TS_writeIdx = 0, TS_count = 0, TS_full = False \<rparr>"

definition subUint64 :: "u64 \<Rightarrow> u64 \<Rightarrow> u64" where
  "subUint64 a b = (if b < a then a - b else 0)"

definition TS_Append :: "MetricsSample \<Rightarrow> MetricsTimeSeries \<Rightarrow> MetricsTimeSeries" where
  "TS_Append sample ts =
     (let ts1 = ts\<lparr> TS_samples := (TS_samples ts)[TS_writeIdx ts := sample],
                    TS_writeIdx := (TS_writeIdx ts + 1) mod metricsSlots \<rparr>
      in if TS_count ts1 < metricsSlots then ts1\<lparr> TS_count := TS_count ts1 + 1 \<rparr> else ts1\<lparr> TS_full := True \<rparr>)"

definition TS_Snapshot :: "MetricsTimeSeries \<Rightarrow> MetricsSample list" where
  "TS_Snapshot ts =
     (if TS_count ts = 0 then []
      else if TS_full ts then
        map (\<lambda>i. TS_samples ts ! ((TS_writeIdx ts + i) mod metricsSlots)) [0..<metricsSlots]
      else map (\<lambda>i. TS_samples ts ! i) [0..<TS_count ts])"

section \<open>Sampling\<close>

text \<open>The counters of the last sample, kept by the loop.\<close>

record MetricsPrev =
  MP_dropped :: u64
  MP_sendErr :: u64
  MP_relay :: u64
  MP_kicks :: u64
  MP_regs :: u64

definition metrics_init :: "Server \<Rightarrow> MetricsPrev" where
  "metrics_init s = \<lparr> MP_dropped = S_totalPacketsDropped s, MP_sendErr = S_sendErrors s, MP_relay = 0, MP_kicks = 0, MP_regs = 0 \<rparr>"

text \<open>The sums over all rooms.\<close>

record MetricsSum =
  SU_relay :: u64
  SU_kicks :: u64
  SU_regs :: u64
  SU_players :: int
  SU_totalRTT :: int
  SU_rttCount :: int
  SU_totalLoss :: rat
  SU_lossCount :: int

definition sum_client :: "Client \<Rightarrow> MetricsSum \<Rightarrow> MetricsSum" where
  "sum_client c a =
     (let a1 = (if 0 < RTT c then a\<lparr> SU_totalRTT := SU_totalRTT a + RTT c, SU_rttCount := SU_rttCount a + 1 \<rparr> else a)
      in if 0 < pingIdx c
         then a1\<lparr> SU_totalLoss := SU_totalLoss a1 + fst (PingStats c), SU_lossCount := SU_lossCount a1 + 1 \<rparr> else a1)"

definition sum_room :: "Env \<Rightarrow> Room \<Rightarrow> MetricsSum \<Rightarrow> MetricsSum" where
  "sum_room env r a =
     fold (\<lambda>(k, c). sum_client (R_heap r c)) (range_clients env r)
       (a\<lparr> SU_relay := SU_relay a + R_totalPacketsRelay r, SU_kicks := SU_kicks a + R_totalKicks r,
           SU_regs := SU_regs a + R_totalRegistrations r, SU_players := SU_players a + int (length (R_clients r)) \<rparr>)"

definition collect :: "SEnv \<Rightarrow> Server \<Rightarrow> MetricsSum" where
  "collect ev s = fold (\<lambda>(k, rr). sum_room (V_env ev) (S_heap s rr)) (range_rooms ev s)
     \<lparr> SU_relay = 0, SU_kicks = 0, SU_regs = 0, SU_players = 0, SU_totalRTT = 0, SU_rttCount = 0,
       SU_totalLoss = 0, SU_lossCount = 0 \<rparr>"

text \<open>One tick of \<open>metricsLoop\<close>.\<close>

definition metrics_tick ::
    "SEnv \<Rightarrow> Server \<Rightarrow> MetricsPrev \<times> MetricsTimeSeries \<Rightarrow> MetricsPrev \<times> MetricsTimeSeries" where
  "metrics_tick ev s st =
     (let (prev, ts) = st; a = collect ev s;
          avgRTT = (if 0 < SU_rttCount a then of_int (SU_totalRTT a div 1000000) / of_int (SU_rttCount a) else 0);
          avgLoss = (if 0 < SU_lossCount a then SU_totalLoss a / of_int (SU_lossCount a) else 0);
          sample = \<lparr> MS_Timestamp = E_now (V_env ev) div second, MS_Players = SU_players a,
            MS_AvgRTT = avgRTT, MS_AvgLoss = avgLoss, MS_RelayPkts = subUint64 (SU_relay a) (MP_relay prev),
            MS_DroppedPkts = subUint64 (S_totalPacketsDropped s) (MP_dropped prev),
            MS_Kicks = subUint64 (SU_kicks a) (MP_kicks prev), MS_Registrations = subUint64 (SU_regs a) (MP_regs prev),
            MS_SendErrors = subUint64 (S_sendErrors s) (MP_sendErr prev) \<rparr>
      in (\<lparr> MP_dropped = S_totalPacketsDropped s, MP_sendErr = S_sendErrors s, MP_relay = SU_relay a,
            MP_kicks = SU_kicks a, MP_regs = SU_regs a \<rparr>, TS_Append sample ts))"

section \<open>Status of a room\<close>

record ConnectionInfo =
  CI_Username :: bytes
  CI_VirtualIP :: bytes
  CI_PublicAddr :: bytes
  CI_Idle :: bytes
  CI_Ping :: bytes
  CI_Loss :: bytes
  CI_Jitter :: bytes
  CI_ClientVersion :: bytes
  CI_NATType :: bytes

record RoomStatusInfo =
  RI_RoomID :: bytes
  RI_Players :: int
  RI_MaxPlayers :: int
  RI_HasAuth :: bool
  RI_Connections :: "ConnectionInfo list"
  RI_TotalRegistrations :: u64
  RI_AuthFailures :: u64
  RI_PeakPlayers :: u32
  RI_TotalPacketsRelay :: u64
  RI_TotalPacketsDropped :: u64
  RI_TotalKicks :: u64
  RI_SendErrors :: u64

text \<open>The two localized texts of the page.\<close>

record StatusTexts =
  StatusJustNow :: bytes
  StatusSecAgo :: "int \<Rightarrow> bytes"

definition formatNATType :: "NATType \<Rightarrow> bytes" where
  "formatNATType ty =
     (if ty = NATTypeFullCone then lit ''FullCone''
      else if ty = NATTypeRestrictedCone then lit ''Restricted''
      else if ty = NATTypePortRestricted then lit ''PortRestr''
      else if ty = NATTypeSymmetric then lit ''Symmetric''
      else if ty = NATTypeNoNAT then lit ''NoNAT'' else [])"

text \<open>The rounding of \<open>%.0f\<close>: to the nearest integer, ties to even.\<close>

definition round_even :: "rat \<Rightarrow> int" where
  "round_even x =
     (let f = \<lfloor>x\<rfloor>; d = x - of_int f
      in if d < 1 / 2 then f else if 1 / 2 < d then f + 1 else if even f then f else f + 1)"

definition version_text :: "u16 \<Rightarrow> bytes" where
  "version_text v =
     (if v = 0 then []
      else lit ''v'' @ dec (unat (drop_bit 8 v)) @ lit ''.'' @ dec (unat (v AND 0xFF)) @
           (if MinClientTokenVersion \<le> v then lit '' [Token]'' else []))"

definition connection_info :: "StatusTexts \<Rightarrow> int \<Rightarrow> Client \<Rightarrow> ConnectionInfo" where
  "connection_info t now c =
     (let idle = now - GetLastSeen c; (lossRate, jitter) = PingStats c in
      \<lparr> CI_Username = Username c, CI_VirtualIP = ip_string (VirtualIP c),
        CI_PublicAddr = (case PublicAddr c of None \<Rightarrow> [] | Some a \<Rightarrow> udp_string a),
        CI_Idle = (if second < idle then StatusSecAgo t (idle div second) else StatusJustNow t),
        CI_Ping = (if 0 < RTT c then itoa (RTT c div 1000000) @ lit ''ms'' else lit ''--''),
        CI_Loss = (if 0 < pingIdx c then itoa (round_even (lossRate * 100)) @ lit ''%'' else lit ''--''),
        CI_Jitter = (if 0 < jitter then itoa (jitter div 1000000) @ lit ''ms'' else lit ''--''),
        CI_ClientVersion = version_text (clientVersion c), CI_NATType = formatNATType (C_NATType c) \<rparr>)"

definition BuildRoomStatus :: "StatusTexts \<Rightarrow> Env \<Rightarrow> Room \<Rightarrow> RoomStatusInfo" where
  "BuildRoomStatus t env r =
     (let conns = map (\<lambda>(k, c). connection_info t (E_now env) (R_heap r c)) (range_clients env r) in
      \<lparr> RI_RoomID = R_roomID r, RI_Players = int (length conns), RI_MaxPlayers = R_maxPlayers r,
        RI_HasAuth = (R_roomPass r \<noteq> []), RI_Connections = conns,
        RI_TotalRegistrations = R_totalRegistrations r, RI_AuthFailures = R_authFailures r,
        RI_PeakPlayers = R_peakPlayers r, RI_TotalPacketsRelay = R_totalPacketsRelay r,
        RI_TotalPacketsDropped = R_totalPacketsDropped r, RI_TotalKicks = R_totalKicks r,
        RI_SendErrors = R_sendErrors r \<rparr>)"

section \<open>Status of the server\<close>

text \<open>\<open>Duration.Round\<close> to the second, halves away from zero.\<close>

definition round_second :: "int \<Rightarrow> int" where
  "round_second d =
     (let r = \<bar>d\<bar> mod second; u = (if r + r < second then \<bar>d\<bar> - r else \<bar>d\<bar> + (second - r))
      in if d < 0 then - u else u)"

definition formatDuration :: "int \<Rightarrow> bytes" where
  "formatDuration d0 =
     (let d = round_second d0; secs = d div second; mins = d div (60 * second); h = d div (3600 * second) in
      if d < 60 * second then itoa secs @ lit ''s''
      else if d < 3600 * second then itoa mins @ lit ''m'' @ itoa (secs mod 60) @ lit ''s''
      else if h < 24 then itoa h @ lit ''h'' @ itoa (mins mod 60) @ lit ''m''
      else itoa (h div 24) @ lit ''d'' @ itoa (h mod 24) @ lit ''h'')"

record StatusInfo =
  SI_Version :: bytes
  SI_Uptime :: bytes
  SI_Players :: int
  SI_MaxPlayers :: int
  SI_Subnet :: bytes
  SI_ServerIP :: bytes
  SI_HasAuth :: bool
  SI_SendErrors :: u64
  SI_Connections :: "ConnectionInfo list"
  SI_MultiRoom :: bool
  SI_Rooms :: "RoomStatusInfo list"
  SI_TotalRegistrations :: u64
  SI_AuthFailures :: u64
  SI_PeakPlayers :: u32
  SI_TotalPacketsRelay :: u64
  SI_TotalPacketsDropped :: u64
  SI_TotalKicks :: u64

record StatusConf =
  ST_token :: bytes
  ST_version :: bytes
  ST_startTime :: int

definition status_rooms :: "SEnv \<Rightarrow> Server \<Rightarrow> rref list" where
  "status_rooms ev s =
     (if S_multiRoom s then map snd (range_rooms ev s)
      else case S_defaultRoom s of Some rr \<Rightarrow> [rr] | None \<Rightarrow> [])"

definition add_status :: "RoomStatusInfo \<Rightarrow> StatusInfo \<Rightarrow> StatusInfo" where
  "add_status st a =
     a\<lparr> SI_Rooms := SI_Rooms a @ [st], SI_Connections := SI_Connections a @ RI_Connections st,
        SI_Players := SI_Players a + RI_Players st, SI_MaxPlayers := SI_MaxPlayers a + RI_MaxPlayers st,
        SI_TotalRegistrations := SI_TotalRegistrations a + RI_TotalRegistrations st,
        SI_AuthFailures := SI_AuthFailures a + RI_AuthFailures st,
        SI_PeakPlayers := (if SI_PeakPlayers a < RI_PeakPlayers st then RI_PeakPlayers st else SI_PeakPlayers a),
        SI_TotalPacketsRelay := SI_TotalPacketsRelay a + RI_TotalPacketsRelay st,
        SI_TotalPacketsDropped := SI_TotalPacketsDropped a + RI_TotalPacketsDropped st,
        SI_TotalKicks := SI_TotalKicks a + RI_TotalKicks st \<rparr>"

definition buildStatusInfo :: "StatusTexts \<Rightarrow> StatusConf \<Rightarrow> SEnv \<Rightarrow> Server \<Rightarrow> StatusInfo" where
  "buildStatusInfo t conf ev s =
     (let rooms = status_rooms ev s;
          shown = (case S_defaultRoom s of Some rr \<Rightarrow> Some rr | None \<Rightarrow> (case rooms of [] \<Rightarrow> None | rr # _ \<Rightarrow> Some rr));
          a0 = \<lparr> SI_Version = ST_version conf,
            SI_Uptime = formatDuration (E_now (V_env ev) - ST_startTime conf), SI_Players = 0, SI_MaxPlayers = 0,
            SI_Subnet = (case shown of None \<Rightarrow> [] | Some rr \<Rightarrow> ipnet_string (R_subnet (S_heap s rr))),
            SI_ServerIP = (case shown of None \<Rightarrow> [] | Some rr \<Rightarrow> ip_string (R_serverIP (S_heap s rr))),
            SI_HasAuth = (case shown of None \<Rightarrow> False | Some rr \<Rightarrow> R_roomPass (S_heap s rr) \<noteq> []),
            SI_SendErrors = S_sendErrors s, SI_Connections = [], SI_MultiRoom = S_multiRoom s, SI_Rooms = [],
            SI_TotalRegistrations = 0, SI_AuthFailures = 0, SI_PeakPlayers = 0, SI_TotalPacketsRelay = 0,
            SI_TotalPacketsDropped = 0, SI_TotalKicks = 0 \<rparr>
      in fold (\<lambda>rr. add_status (BuildRoomStatus t (V_env ev) (S_heap s rr))) rooms a0)"

section \<open>Handlers\<close>

text \<open>What a handler reads of a request: the query parameter and the header, empty if absent.\<close>

record Request =
  Q_token :: bytes
  Q_authorization :: bytes

datatype Response =
    Forbidden
  | BadRequest
  | StatusJSON StatusInfo
  | MetricsJSON "MetricsSample list"
  | RoomsJSON "RoomStatusInfo list"
  | StatusHTML StatusInfo

definition checkStatusToken :: "StatusConf \<Rightarrow> Request \<Rightarrow> bool" where
  "checkStatusToken conf q \<longleftrightarrow>
     ST_token conf = [] \<or> Q_token q = ST_token conf \<or>
     take 7 (Q_authorization q) = lit ''Bearer '' \<and> drop 7 (Q_authorization q) = ST_token conf"

definition requireToken :: "StatusConf \<Rightarrow> (Request \<Rightarrow> Response) \<Rightarrow> Request \<Rightarrow> Response" where
  "requireToken conf next q = (if \<not> checkStatusToken conf q then Forbidden else next q)"

definition handleStatusJSON :: "StatusTexts \<Rightarrow> StatusConf \<Rightarrow> SEnv \<Rightarrow> Server \<Rightarrow> Request \<Rightarrow> Response" where
  "handleStatusJSON t conf ev s q = StatusJSON (buildStatusInfo t conf ev s)"

definition handleMetricsJSON :: "MetricsTimeSeries \<Rightarrow> Request \<Rightarrow> Response" where
  "handleMetricsJSON ts q = MetricsJSON (TS_Snapshot ts)"

definition handleRoomsJSON :: "StatusTexts \<Rightarrow> SEnv \<Rightarrow> Server \<Rightarrow> Request \<Rightarrow> Response" where
  "handleRoomsJSON t ev s q =
     (if \<not> S_multiRoom s then BadRequest
      else RoomsJSON (map (\<lambda>(k, rr). BuildRoomStatus t (V_env ev) (S_heap s rr)) (range_rooms ev s)))"

definition handleStatusHTML :: "StatusTexts \<Rightarrow> StatusConf \<Rightarrow> SEnv \<Rightarrow> Server \<Rightarrow> Request \<Rightarrow> Response" where
  "handleStatusHTML t conf ev s q =
     (if \<not> checkStatusToken conf q then Forbidden else StatusHTML (buildStatusInfo t conf ev s))"

datatype Endpoint = Page | ApiStatus | ApiMetrics | ApiRooms

definition serve ::
    "StatusTexts \<Rightarrow> StatusConf \<Rightarrow> SEnv \<Rightarrow> Server \<Rightarrow> MetricsTimeSeries \<Rightarrow> Endpoint \<Rightarrow> Request \<Rightarrow> Response" where
  "serve t conf ev s ts e =
     (case e of
        Page \<Rightarrow> handleStatusHTML t conf ev s
      | ApiStatus \<Rightarrow> requireToken conf (handleStatusJSON t conf ev s)
      | ApiMetrics \<Rightarrow> requireToken conf (handleMetricsJSON ts)
      | ApiRooms \<Rightarrow> requireToken conf (handleRoomsJSON t ev s))"

section \<open>Properties\<close>

definition series_of :: "MetricsTimeSeries \<Rightarrow> MetricsSample list \<Rightarrow> bool" where
  "series_of ts h \<longleftrightarrow> ring_ok metricsSlots (TS_samples ts) (length h) h \<and>
     TS_writeIdx ts = length h mod metricsSlots \<and> TS_count ts = min metricsSlots (length h) \<and>
     (TS_full ts \<longleftrightarrow> metricsSlots < length h)"

lemma series_new: "series_of NewMetricsTimeSeries []"
  by (simp add: series_of_def NewMetricsTimeSeries_def ring_ok_def)

lemma series_append: "series_of ts h \<Longrightarrow> series_of (TS_Append x ts) (h @ [x])"
proof -
  assume a: "series_of ts h"
  have n: "0 < metricsSlots" by (simp add: metricsSlots_def)
  have "ring_ok metricsSlots ((TS_samples ts)[length h mod metricsSlots := x]) (Suc (length h)) (h @ [x])"
    using a ring_push[OF n, of "TS_samples ts" "length h" h x] by (simp add: series_of_def)
  with a show ?thesis
    by (auto simp: series_of_def TS_Append_def Let_def mod_Suc_eq min_def not_less)
qed

lemma series_snapshot: "series_of ts h \<Longrightarrow> TS_Snapshot ts = lastn metricsSlots h"
proof -
  assume a: "series_of ts h"
  have n: "0 < metricsSlots" by (simp add: metricsSlots_def)
  have r: "map (\<lambda>i. TS_samples ts ! (((if metricsSlots < length h then length h mod metricsSlots else 0) + i) mod metricsSlots))
      [0..<min metricsSlots (length h)] = lastn metricsSlots h"
    using a by (intro ring_read[OF n]) (simp add: series_of_def)
  show ?thesis
  proof (cases "metricsSlots < length h")
    case True
    then show ?thesis using a r n by (simp add: TS_Snapshot_def series_of_def min_def)
  next
    case False
    then have "map (\<lambda>i. TS_samples ts ! i) [0..<min metricsSlots (length h)] = lastn metricsSlots h"
      unfolding r[symmetric] by (auto simp: min_def)
    with False a show ?thesis by (auto simp: TS_Snapshot_def series_of_def lastn_def)
  qed
qed

lemma series_all: "series_of ts h0 \<Longrightarrow> series_of (fold TS_Append h ts) (h0 @ h)"
proof (induction h arbitrary: ts h0)
  case (Cons x h)
  from Cons.IH[OF series_append[OF Cons.prems, of x]] show ?case by simp
qed simp

text \<open>
  The metrics ring buffer is the last hour: after any sequence of samples the snapshot is the
  list of the last sixty of them, oldest first.
\<close>

theorem metrics_last_hour:
  "TS_Snapshot (fold TS_Append h NewMetricsTimeSeries) = lastn 60 h"
  using series_snapshot[OF series_all[OF series_new, of h]] by (simp add: metricsSlots_def)

text \<open>
  The status pages need the token: with a token configured, a request whose query parameter and
  bearer header both differ from it is answered with 403 on every endpoint, so the answer
  tells nothing about the server; a request with the token gets the data.
\<close>

theorem status_needs_token:
  assumes "ST_token conf \<noteq> []"
  shows "(if Q_token q = ST_token conf \<or> Q_authorization q = lit ''Bearer '' @ ST_token conf
          then serve t conf ev s ts e q \<noteq> Forbidden else serve t conf ev s ts e q = Forbidden)"
proof -
  have l: "length (lit ''Bearer '') = 7" by simp
  have "take 7 (Q_authorization q) = lit ''Bearer '' \<and> drop 7 (Q_authorization q) = ST_token conf \<longleftrightarrow>
      Q_authorization q = lit ''Bearer '' @ ST_token conf" (is "?l \<longleftrightarrow> ?r")
  proof
    assume ?l then show ?r by (metis append_take_drop_id)
  next
    assume ?r then show ?l using l by simp
  qed
  then have "checkStatusToken conf q \<longleftrightarrow> Q_token q = ST_token conf \<or> Q_authorization q = lit ''Bearer '' @ ST_token conf"
    using assms by (simp add: checkStatusToken_def)
  then show ?thesis
    by (auto simp: serve_def handleStatusHTML_def requireToken_def handleStatusJSON_def handleMetricsJSON_def
        handleRoomsJSON_def split: Endpoint.splits)
qed

theorem status_needs_token_witness:
  "serve \<lparr> StatusJustNow = [], StatusSecAgo = itoa \<rparr> \<lparr> ST_token = lit ''k'', ST_version = [], ST_startTime = 0 \<rparr>
     sample_senv busy_server NewMetricsTimeSeries ApiStatus \<lparr> Q_token = lit ''x'', Q_authorization = [] \<rparr> = Forbidden"
  using status_needs_token[of "\<lparr> ST_token = lit ''k'', ST_version = [], ST_startTime = 0 \<rparr>"
      "\<lparr> Q_token = lit ''x'', Q_authorization = [] \<rparr>"]
  by (simp add: lit_def)

end
