(* ===== verification/Transport.thy ===== *)
theory Transport
  imports Metrics
begin

text \<open>
  The TCP fallback (netutil/tcptransport.go and \<open>tcpAcceptLoop\<close> of server/server.go) and the
  packet buffers (pool/buf.go).  A connection is the bytes that can still be read from it, that is those that arrive before
  it ends or a read fails, and the bytes written to it; the accept loop gives every connection a port of
  its own on a synthetic address, so that it looks like a UDP endpoint to the server.
\<close>

section \<open>Framing\<close>

datatype tcp_err = TransportClosed | PacketTooLarge | WriteError | HeaderError | InvalidLength | DataError

record TCPTransport =
  T_in :: bytes
  T_out :: bytes
  T_closed :: bool

definition tcp_frame :: "bytes \<Rightarrow> bytes" where
  "tcp_frame data = put16 (of_nat (length data)) @ data"

text \<open>The flag tells whether the write of the two buffers succeeds.\<close>

definition TCP_Send :: "bool \<Rightarrow> bytes \<Rightarrow> TCPTransport \<Rightarrow> tcp_err option \<times> TCPTransport" where
  "TCP_Send ok data t =
     (if T_closed t then (Some TransportClosed, t)
      else if 65535 < length data then (Some PacketTooLarge, t)
      else if \<not> ok then (Some WriteError, t)
      else (None, t\<lparr> T_out := T_out t @ tcp_frame data \<rparr>))"

definition TCP_Receive :: "TCPTransport \<Rightarrow> (tcp_err + bytes) \<times> TCPTransport" where
  "TCP_Receive t =
     (if T_closed t then (Inl TransportClosed, t)
      else if length (T_in t) < 2 then (Inl HeaderError, t\<lparr> T_in := [] \<rparr>)
      else
        (let n = unat (le_word (take 2 (T_in t)) :: u16); rest = drop 2 (T_in t) in
         if n = 0 \<or> 65535 < n then (Inl InvalidLength, t\<lparr> T_in := rest \<rparr>)
         else if length rest < n then (Inl DataError, t\<lparr> T_in := [] \<rparr>)
         else (Inr (take n rest), t\<lparr> T_in := drop n rest \<rparr>)))"

definition TCP_Close :: "TCPTransport \<Rightarrow> TCPTransport" where
  "TCP_Close t = (if T_closed t then t else t\<lparr> T_closed := True \<rparr>)"

lemma TCP_Receive_shrinks: "TCP_Receive t = (Inr d, t') \<Longrightarrow> length (T_in t') < length (T_in t)"
  by (auto simp: TCP_Receive_def Let_def split: if_splits)

text \<open>
  \<open>ReceiveLoop\<close>: the packets handed to the handler until the first error.  A packet that is not complete
  within the deadline of 30 seconds, which the loop sets before every packet, is such an error: for this loop \<open>T_in\<close>
  ends with the last byte that was read in time.
\<close>

function ReceiveLoop :: "TCPTransport \<Rightarrow> bytes list \<times> tcp_err" where
  "ReceiveLoop t =
     (case TCP_Receive t of
        (Inl e, t') \<Rightarrow> ([], e)
      | (Inr d, t') \<Rightarrow> (let (ds, e) = ReceiveLoop t' in (d # ds, e)))"
  by auto
termination
  by (relation "measure (\<lambda>t. length (T_in t))") (auto dest: TCP_Receive_shrinks[OF sym])

declare ReceiveLoop.simps [simp del]

section \<open>Bridges\<close>

record UDPTCPBridge =
  B_tcp :: TCPTransport
  B_remoteAddr :: UDPAddr

text \<open>Stopping a bridge closes the connection under it.\<close>

definition Bridge_Stop :: "UDPTCPBridge \<Rightarrow> UDPTCPBridge" where
  "Bridge_Stop b = b\<lparr> B_tcp := TCP_Close (B_tcp b) \<rparr>"

record TcpState =
  TC_portCounter :: u32
  TC_bridges :: "(RateKey \<times> UDPTCPBridge) list"

definition maxPortAttempts :: nat where "maxPortAttempts = 65536"

definition port_of :: "u32 \<Rightarrow> nat" where
  "port_of c = (let port = unat c mod 65536 in if port = 0 then 1 else port)"

definition syntheticAddr :: "nat \<Rightarrow> UDPAddr" where
  "syntheticAddr port = \<lparr> UDP_IP = IPv4 127 0 0 254, UDP_Port = int port \<rparr>"

text \<open>
  The search for a port: every attempt makes a bridge over the same connection and, on a
  collision, stops it.
\<close>

fun assign_port :: "nat \<Rightarrow> TCPTransport \<Rightarrow> TcpState \<Rightarrow> UDPTCPBridge option \<times> TCPTransport \<times> TcpState" where
  "assign_port 0 tcp st = (None, tcp, st)"
| "assign_port (Suc n) tcp st =
     (let st1 = st\<lparr> TC_portCounter := TC_portCounter st + 1 \<rparr>;
          addr = syntheticAddr (port_of (TC_portCounter st1));
          key = AddrToRateKey addr;
          candidate = \<lparr> B_tcp = tcp, B_remoteAddr = addr \<rparr>
      in if mget (TC_bridges st1) key = None
         then (Some candidate, tcp, st1\<lparr> TC_bridges := mput key candidate (TC_bridges st1) \<rparr>)
         else assign_port n (B_tcp (Bridge_Stop candidate)) st1)"

definition tcp_accept :: "TCPTransport \<Rightarrow> TcpState \<Rightarrow> UDPTCPBridge option \<times> TcpState" where
  "tcp_accept tcp st =
     (let (b, tcp', st') = assign_port maxPortAttempts tcp st in (b, st'))"

text \<open>The goroutine of a connection: its packets enter the server, then the bridge goes.\<close>

definition bridge_run :: "UDPTCPBridge \<Rightarrow> TcpState \<times> Server \<Rightarrow> TcpState \<times> Server" where
  "bridge_run b st =
     (let (tc, s) = st; (ds, e) = ReceiveLoop (B_tcp b)
      in (tc\<lparr> TC_bridges := mdel (AddrToRateKey (B_remoteAddr b)) (TC_bridges tc) \<rparr>,
          fold (\<lambda>d. receive d (B_remoteAddr b)) ds s))"

text \<open>The send queue's hook: whether a bridge takes the packet.\<close>

definition tcpWrite :: "TcpState \<Rightarrow> UDPAddr \<Rightarrow> bytes \<Rightarrow> bool" where
  "tcpWrite st addr data \<longleftrightarrow> mget (TC_bridges st) (AddrToRateKey addr) \<noteq> None"

section \<open>Buffers\<close>

text \<open>A buffer is its capacity; a pool the buffers that were put back.\<close>

type_synonym pktPools = "nat list list"

definition class_size :: "nat list" where "class_size = [512, 2048, 16384, 65535]"

definition buf_class :: "nat \<Rightarrow> nat option" where
  "buf_class n = (if n \<le> 512 then Some 0 else if n \<le> 2048 then Some 1
                  else if n \<le> 16384 then Some 2 else if n \<le> 65535 then Some 3 else None)"

text \<open>The pool hands out an element of its own choice, or a new buffer of the class.\<close>

definition PktBufGet :: "nat option \<Rightarrow> nat \<Rightarrow> pktPools \<Rightarrow> nat \<times> pktPools" where
  "PktBufGet choice n ps =
     (case buf_class n of
        None \<Rightarrow> (n, ps)
      | Some i \<Rightarrow>
          (case choice of
             Some j \<Rightarrow> if j < length (ps ! i) then (ps ! i ! j, ps[i := take j (ps ! i) @ drop (Suc j) (ps ! i)])
                       else (class_size ! i, ps)
           | None \<Rightarrow> (class_size ! i, ps)))"

definition PktBufPut :: "nat option \<Rightarrow> pktPools \<Rightarrow> pktPools" where
  "PktBufPut buf ps =
     (case buf of None \<Rightarrow> ps
      | Some c \<Rightarrow>
          if c = 512 then ps[0 := c # ps ! 0] else if c = 2048 then ps[1 := c # ps ! 1]
          else if c = 16384 then ps[2 := c # ps ! 2] else if c = 65535 then ps[3 := c # ps ! 3] else ps)"

definition pools_typed :: "pktPools \<Rightarrow> bool" where
  "pools_typed ps \<longleftrightarrow> length ps = 4 \<and> (\<forall>i<4. \<forall>c\<in>set (ps ! i). c = class_size ! i)"

section \<open>Streams\<close>

lemma receive_frame:
  assumes "d \<noteq> []" "length d \<le> 65535" "\<not> T_closed t" "T_in t = tcp_frame d @ rest"
  shows "TCP_Receive t = (Inr d, t\<lparr> T_in := rest \<rparr>)"
  using assms unfolding TCP_Receive_def Let_def tcp_frame_def by (simp add: unat_len16)

lemma receive_cut:
  assumes "d \<noteq> []" "length d \<le> 65535" "\<not> T_closed t" "T_in t = take n (tcp_frame d)" "n < length (tcp_frame d)"
  shows "\<exists>e t'. TCP_Receive t = (Inl e, t') \<and> e \<in> {HeaderError, DataError}"
proof (cases "n < 2")
  case False
  have "take 2 (take n (tcp_frame d)) = put16 (of_nat (length d))" "drop 2 (take n (tcp_frame d)) = take (n - 2) d"
    using False by (simp_all add: tcp_frame_def take_append)
  then show ?thesis using assms False by (auto simp: TCP_Receive_def Let_def tcp_frame_def unat_len16)
qed (use assms in \<open>simp add: TCP_Receive_def\<close>)

lemma ReceiveLoop_step:
  "TCP_Receive t = (Inl e, t') \<Longrightarrow> ReceiveLoop t = ([], e)"
  "TCP_Receive t = (Inr d, t') \<Longrightarrow> ReceiveLoop t = (d # fst (ReceiveLoop t'), snd (ReceiveLoop t'))"
  by (subst ReceiveLoop.simps, simp add: case_prod_beta)+

abbreviation stream_of :: "bytes list \<Rightarrow> bytes" where
  "stream_of ps \<equiv> concat (map tcp_frame ps)"

lemma stream_prefix:
  assumes "\<forall>d\<in>set ps. d \<noteq> [] \<and> length d \<le> 65535" "\<not> T_closed t" "T_in t = take n (stream_of ps)"
  shows "\<exists>m e. ReceiveLoop t = (take m ps, e) \<and> e \<in> {HeaderError, DataError} \<and> m \<le> length ps \<and>
    length (stream_of (take m ps)) \<le> n \<and> (m < length ps \<longrightarrow> n < length (stream_of (take (Suc m) ps)))"
  using assms
proof (induction ps arbitrary: t n)
  case Nil
  then have "TCP_Receive t = (Inl HeaderError, t\<lparr> T_in := [] \<rparr>)" by (simp add: TCP_Receive_def)
  from ReceiveLoop_step(1)[OF this] show ?case by simp
next
  case (Cons d ps)
  show ?case
  proof (cases "n < length (tcp_frame d)")
    case True
    then obtain e t' where "TCP_Receive t = (Inl e, t')" "e \<in> {HeaderError, DataError}"
      using receive_cut[of d t n] Cons.prems by auto
    from ReceiveLoop_step(1)[OF this(1)] this(2) True show ?thesis by (intro exI[of _ 0]) simp
  next
    case False
    define k where "k = n - length (tcp_frame d)"
    let ?u = "t\<lparr> T_in := take k (stream_of ps) \<rparr>"
    have r: "TCP_Receive t = (Inr d, ?u)"
      using Cons.prems False by (intro receive_frame) (auto simp: k_def)
    have "\<exists>m e. ReceiveLoop ?u = (take m ps, e) \<and> e \<in> {HeaderError, DataError} \<and> m \<le> length ps \<and>
        length (stream_of (take m ps)) \<le> k \<and> (m < length ps \<longrightarrow> k < length (stream_of (take (Suc m) ps)))"
      using Cons.prems by (intro Cons.IH) simp_all
    then obtain m e where m: "ReceiveLoop ?u = (take m ps, e)" "e \<in> {HeaderError, DataError}" "m \<le> length ps"
        "length (stream_of (take m ps)) \<le> k" "m < length ps \<longrightarrow> k < length (stream_of (take (Suc m) ps))"
      by blast
    show ?thesis
      using ReceiveLoop_step(2)[OF r] m False by (intro exI[of _ "Suc m"] exI[of _ e]) (auto simp: k_def)
  qed
qed

lemma sent_stream:
  assumes "\<forall>d\<in>set ps. length d \<le> 65535" "\<not> T_closed s"
  shows "T_out (fold (\<lambda>d s. snd (TCP_Send True d s)) ps s) = T_out s @ concat (map tcp_frame ps)"
  using assms by (induction ps arbitrary: s) (simp_all add: TCP_Send_def)

text \<open>
  C35: TCP framing loses and corrupts nothing: if packets of 1 to 65535 bytes are sent on a connection
  and the first \<open>n\<close> bytes of the stream can be read, then the receive loop hands over exactly the packets whose
  frames are complete within those bytes, unchanged and in order, and ends with a read error.
\<close>

theorem tcp_delivers_prefix:
  assumes "\<forall>d\<in>set ps. d \<noteq> [] \<and> length d \<le> 65535" "\<not> T_closed s" "T_out s = []" "\<not> T_closed t"
    "stream = T_out (fold (\<lambda>d s. snd (TCP_Send True d s)) ps s)" "T_in t = take n stream"
  shows "\<exists>m e. ReceiveLoop t = (take m ps, e) \<and> e \<in> {HeaderError, DataError} \<and> m \<le> length ps \<and>
    length (T_out (fold (\<lambda>d s. snd (TCP_Send True d s)) (take m ps) s)) \<le> n \<and>
    (m < length ps \<longrightarrow> n < length (T_out (fold (\<lambda>d s. snd (TCP_Send True d s)) (take (Suc m) ps) s)))"
proof -
  have "T_out (fold (\<lambda>d s. snd (TCP_Send True d s)) (take m ps) s) = stream_of (take m ps)" for m
    using assms(1-3) by (subst sent_stream) (auto dest: in_set_takeD)
  moreover have "stream = stream_of ps" using assms(1-3,5) by (simp add: sent_stream)
  ultimately show ?thesis using stream_prefix[OF assms(1,4), of n] assms(6) by simp
qed

definition sample_tcp :: TCPTransport where
  "sample_tcp = \<lparr> T_in = [], T_out = [], T_closed = False \<rparr>"

text \<open>Of two packets the first six bytes arrive: the first packet and a part of the second.\<close>

theorem tcp_delivers_prefix_witness:
  "fst (ReceiveLoop (sample_tcp\<lparr> T_in := take 6 (T_out (fold (\<lambda>d s. snd (TCP_Send True d s)) [[1, 2], [3]] sample_tcp)) \<rparr>)) = [[1, 2]]"
proof -
  let ?s = "\<lambda>ps. T_out (fold (\<lambda>d s. snd (TCP_Send True d s)) ps sample_tcp)"
  obtain m e where m: "ReceiveLoop (sample_tcp\<lparr> T_in := take 6 (?s [[1, 2], [3]]) \<rparr>) = (take m [[1, 2], [3]], e)"
      "m \<le> length [[1, 2], [3 :: byte]]" "length (?s (take m [[1, 2], [3]])) \<le> 6"
      "m < length [[1, 2], [3 :: byte]] \<longrightarrow> 6 < length (?s (take (Suc m) [[1, 2], [3]]))"
    using tcp_delivers_prefix[of "[[1, 2], [3]]" sample_tcp "sample_tcp\<lparr> T_in := take 6 (?s [[1, 2], [3]]) \<rparr>", OF _ _ _ _ refl, of 6]
    by (auto simp: sample_tcp_def)
  have "m = 0 \<or> m = 1 \<or> m = 2" using m(2) by auto
  moreover have "length (?s [[1, 2]]) = 4" "length (?s [[1, 2], [3]]) = 7" by (simp_all add: TCP_Send_def sample_tcp_def tcp_frame_def)
  ultimately have "m = 1" using m(3,4) by auto
  then show ?thesis using m(1) by simp
qed

section \<open>Ports\<close>

abbreviation port_key :: "nat \<Rightarrow> RateKey" where
  "port_key p \<equiv> AddrToRateKey (syntheticAddr p)"

abbreviation nth_port :: "TcpState \<Rightarrow> nat \<Rightarrow> nat" where
  "nth_port st i \<equiv> port_of (TC_portCounter st + 1 + of_nat i)"

lemma find_map_list: "find P (map f xs) = map_option f (find (\<lambda>x. P (f x)) xs)"
  by (induction xs) auto

lemma assign_port_find:
  "assign_port n tcp st =
     (case find (\<lambda>i. mget (TC_bridges st) (port_key (nth_port st i)) = None) [0..<n] of
        None \<Rightarrow> (None, if n = 0 then tcp else TCP_Close tcp, st\<lparr> TC_portCounter := TC_portCounter st + of_nat n \<rparr>)
      | Some i \<Rightarrow>
          (let tcp' = (if i = 0 then tcp else TCP_Close tcp); p = nth_port st i;
               b = \<lparr> B_tcp = tcp', B_remoteAddr = syntheticAddr p \<rparr>
           in (Some b, tcp', st\<lparr> TC_portCounter := TC_portCounter st + 1 + of_nat i,
                 TC_bridges := mput (port_key p) b (TC_bridges st) \<rparr>)))"
proof (induction n arbitrary: tcp st)
  case (Suc n)
  let ?P = "\<lambda>st i. mget (TC_bridges st) (port_key (nth_port st i)) = None"
  have up: "[0..<Suc n] = 0 # map Suc [0..<n]" by (simp add: upt_conv_Cons map_Suc_upt)
  show ?case
  proof (cases "?P st 0")
    case True
    then show ?thesis unfolding up by (simp add: Let_def)
  next
    case False
    let ?st = "st\<lparr> TC_portCounter := TC_portCounter st + 1 \<rparr>"
    have sh: "?P ?st i = ?P st (Suc i)" for i by (simp add: ac_simps)
    have f: "find (?P st) [0..<Suc n] = map_option Suc (find (?P ?st) [0..<n])"
      unfolding up using False by (auto simp: sh find_map_list ac_simps)
    have cl: "TCP_Close (TCP_Close tcp) = TCP_Close tcp" by (simp add: TCP_Close_def)
    have a: "assign_port (Suc n) tcp st = assign_port n (TCP_Close tcp) ?st"
      using False by (auto simp: Let_def Bridge_Stop_def)
    show ?thesis
      unfolding a f Suc.IH
      by (cases "find (?P ?st) [0..<n]") (simp_all add: Let_def cl ac_simps)
  qed
qed simp

lemma port_reached:
  assumes "0 < p" "p < 65536"
  shows "\<exists>i<65536. nth_port st i = p"
proof -
  define c where "c = unat (TC_portCounter st + 1)"
  define i where "i = (p + 65536 - c mod 65536) mod 65536"
  have "(c + i) mod 65536 = p"
  proof -
    have lt: "c mod 65536 < 65536" by simp
    have "(c + i) mod 65536 = (c + (p + 65536 - c mod 65536)) mod 65536"
      unfolding i_def by (rule mod_add_right_eq)
    also have "c + (p + 65536 - c mod 65536) = p + 65536 * (c div 65536 + 1)"
    proof -
      obtain q r where "c = 65536 * q + r" "r < 65536"
        using lt mult_div_mod_eq[of 65536 c] by metis
      then show ?thesis by (simp add: algebra_simps)
    qed
    also have "(p + 65536 * (c div 65536 + 1)) mod 65536 = p mod 65536" by (rule mod_mult_self2)
    finally show ?thesis using assms(2) by simp
  qed
  moreover have "unat (w + of_nat i) mod 65536 = (unat w + i) mod 65536" for w :: u32
    by (simp add: unat_word_ariths unat_of_nat mod_mod_cancel mod_simps)
  then have "unat (TC_portCounter st + 1 + of_nat i) mod 65536 = (c + i) mod 65536" unfolding c_def .
  ultimately have "nth_port st i = p" using assms(1) by (simp add: port_of_def Let_def)
  then show ?thesis by (intro exI[of _ i]) (simp add: i_def)
qed

lemma port_of_range: "0 < port_of c" "port_of c < 65536"
  by (simp_all add: port_of_def Let_def)

text \<open>
  The accept loop finds a port whenever one is free: the search fails only if all 65535 synthetic
  ports are taken; otherwise the new bridge has a port in range that no other bridge has, the
  other bridges stay, and the accepted connection is still open exactly when the very
  first port tried was free: a collision closes the connection it was made for.
\<close>

theorem tcp_accept_port:
  assumes "\<not> T_closed tcp" "tcp_accept tcp st = (b, st')"
  shows "case b of
      None \<Rightarrow> (\<forall>p. 0 < p \<and> p < 65536 \<longrightarrow> mget (TC_bridges st) (port_key p) \<noteq> None) \<and> TC_bridges st' = TC_bridges st
    | Some br \<Rightarrow> \<exists>p. 0 < p \<and> p < 65536 \<and> B_remoteAddr br = syntheticAddr p \<and>
        mget (TC_bridges st) (port_key p) = None \<and> TC_bridges st' = mput (port_key p) br (TC_bridges st) \<and>
        (T_closed (B_tcp br) \<longleftrightarrow>
           mget (TC_bridges st) (port_key (port_of (TC_portCounter st + 1))) \<noteq> None)"
proof -
  let ?P = "\<lambda>i. mget (TC_bridges st) (port_key (nth_port st i)) = None"
  note f = assms(2)[unfolded tcp_accept_def maxPortAttempts_def assign_port_find]
  show ?thesis
  proof (cases "find ?P [0..<65536]")
    case None
    have "mget (TC_bridges st) (port_key p) \<noteq> None" if "0 < p" "p < 65536" for p
      using port_reached[OF that, of st] None unfolding find_None_iff by auto
    then show ?thesis using f None by auto
  next
    case (Some i)
    then have i: "?P i" "\<forall>j<i. \<not> ?P j" by (auto simp: find_Some_iff)
    have z: "i = 0 \<longleftrightarrow> ?P 0" using i by (cases "i = 0") auto
    show ?thesis
      using f Some i(1) z assms(1) port_of_range
      by (auto simp: Let_def TCP_Close_def intro!: exI[of _ "nth_port st i"])
  qed
qed

theorem tcp_accept_port_witness:
  "\<exists>br st'. tcp_accept \<lparr> T_in = [], T_out = [], T_closed = False \<rparr> \<lparr> TC_portCounter = 0, TC_bridges = [] \<rparr> = (Some br, st') \<and>
     \<not> T_closed (B_tcp br)"
proof -
  obtain b st' where a: "tcp_accept \<lparr> T_in = [], T_out = [], T_closed = False \<rparr>
      \<lparr> TC_portCounter = 0, TC_bridges = [] \<rparr> = (b, st')" by force
  show ?thesis
  proof (cases b)
    case None
    then show ?thesis using tcp_accept_port[OF _ a] by (auto dest!: spec[of _ "1 :: nat"])
  next
    case (Some br)
    then show ?thesis using tcp_accept_port[OF _ a] a by auto
  qed
qed

section \<open>Typed pools\<close>

lemma class_sizes: "i < 4 \<Longrightarrow> class_size ! i \<in> {512, 2048, 16384, 65535}"
proof -
  assume "i < 4"
  then have "i = 0 \<or> i = 1 \<or> i = 2 \<or> i = 3" by linarith
  then show ?thesis by (auto simp: class_size_def)
qed

lemma put_own_class: "i < 4 \<Longrightarrow> PktBufPut (Some (class_size ! i)) qs = qs[i := class_size ! i # qs ! i]"
proof -
  assume "i < 4"
  then have "i = 0 \<or> i = 1 \<or> i = 2 \<or> i = 3" by linarith
  then show ?thesis by (auto simp: class_size_def PktBufPut_def)
qed

lemma buf_class_fits: "buf_class n = Some i \<Longrightarrow> i < 4 \<and> n \<le> class_size ! i"
  by (auto simp: buf_class_def class_size_def split: if_splits)

text \<open>
  The buffer pools are typed: every pool holds only buffers of its own capacity class, whatever
  is put back, so a buffer that is handed out has room for the requested size, and a
  pooled one goes back to the pool it came from.
\<close>

theorem pools_typed_kept:
  assumes "pools_typed ps"
  shows "pools_typed (PktBufPut buf ps) \<and> pools_typed (snd (PktBufGet ch n ps)) \<and> n \<le> fst (PktBufGet ch n ps) \<and>
    (case buf_class n of Some i \<Rightarrow> PktBufPut (Some (fst (PktBufGet ch n ps))) qs = qs[i := class_size ! i # qs ! i]
     | None \<Rightarrow> PktBufPut (Some (fst (PktBufGet ch n ps))) qs = qs)"
proof -
  have l: "length ps = 4" using assms by (simp add: pools_typed_def)
  have put: "pools_typed (PktBufPut buf ps)"
  proof (cases "\<exists>i<4. buf = Some (class_size ! i)")
    case True
    then obtain i where i: "i < 4" "buf = Some (class_size ! i)" by blast
    show ?thesis
      unfolding i(2) put_own_class[OF i(1)] using assms i(1) by (auto simp: pools_typed_def nth_list_update)
  next
    case False
    have "buf \<noteq> Some (class_size ! 0)" "buf \<noteq> Some (class_size ! 1)" "buf \<noteq> Some (class_size ! 2)"
      "buf \<noteq> Some (class_size ! 3)" using False by auto
    then have "PktBufPut buf ps = ps" by (cases buf) (simp_all add: PktBufPut_def class_size_def)
    with assms show ?thesis by simp
  qed
  have "pools_typed (snd (PktBufGet ch n ps)) \<and> n \<le> fst (PktBufGet ch n ps) \<and>
    (case buf_class n of Some i \<Rightarrow> fst (PktBufGet ch n ps) = class_size ! i | None \<Rightarrow> 65535 < n \<and> fst (PktBufGet ch n ps) = n)"
  proof (cases "buf_class n")
    case None
    then show ?thesis using assms by (auto simp: PktBufGet_def buf_class_def split: if_splits)
  next
    case (Some i)
    note c = buf_class_fits[OF Some]
    have e: "ps ! i ! j = class_size ! i" if "j < length (ps ! i)" for j
      using assms c that nth_mem[OF that] by (auto simp: pools_typed_def)
    show ?thesis
      using Some c assms l
      by (auto simp: PktBufGet_def pools_typed_def nth_list_update e simp del: nth_mem split: option.split
          dest: in_set_takeD in_set_dropD)
  qed
  moreover have "PktBufPut (Some m) qs = qs" if "65535 < m" for m using that by (simp add: PktBufPut_def)
  ultimately show ?thesis using put put_own_class buf_class_fits by (auto split: option.splits)
qed

theorem pools_typed_kept_witness:
  "pools_typed [[], [], [], []] \<and> 600 \<le> fst (PktBufGet None 600 [[], [], [], []])"
proof -
  have "pools_typed [[], [], [], []]" by (auto simp: pools_typed_def class_size_def nth_Cons split: nat.splits)
  then show ?thesis using pools_typed_kept by blast
qed

end
