(* ===== verification/Crypto.thy ===== *)
theory Crypto
  imports Prelude
begin

unbundle bit_operations_syntax

text \<open>
  End-to-end encryption of data packets (crypto/crypto.go): the packet format, the nonces and
  the replay window.  ChaCha20-Poly1305 is not part of the repository; it is the parameter
  \<open>AEAD\<close>, and \<open>aead_ok\<close> states what the code relies on.
\<close>

section \<open>State\<close>

definition EncVersion :: byte where "EncVersion = 1"
abbreviation KeySize :: nat where "KeySize \<equiv> 32"
abbreviation NonceSize :: nat where "NonceSize \<equiv> 12"
abbreviation TagSize :: nat where "TagSize \<equiv> 16"
abbreviation Overhead :: nat where "Overhead \<equiv> 29"
abbreviation replayWindowSize :: nat where "replayWindowSize \<equiv> 64"

definition DirClientToServer :: bytes where "DirClientToServer = [0, 0, 0, 1]"
definition DirServerToClient :: bytes where "DirServerToClient = [0, 0, 0, 2]"
definition DirClientToClient :: bytes where "DirClientToClient = [0, 0, 0, 3]"

record AEAD =
  A_Seal :: "bytes \<Rightarrow> bytes \<Rightarrow> bytes"
  A_Open :: "bytes \<Rightarrow> bytes \<Rightarrow> bytes option"

definition aead_ok :: "AEAD \<Rightarrow> bool" where
  "aead_ok a \<longleftrightarrow> (\<forall>n p. length n = NonceSize \<longrightarrow>
     A_Open a n (A_Seal a n p) = Some p \<and> length (A_Seal a n p) = length p + TagSize)"

record Cipher =
  C_aead :: AEAD
  C_counter :: u64
  C_dirTag :: bytes
  C_replayCounter :: u64
  C_replayBitmap :: u64

datatype crypto_err = KeyLength | AeadInit | NoRandom | DstCapacity | TooShort | BadVersion | Replay | OpenFailed

section \<open>Creation\<close>

definition initCounter :: "bytes option \<Rightarrow> Cipher \<Rightarrow> crypto_err + Cipher" where
  "initCounter rand c =
     (case rand of None \<Rightarrow> Inl NoRandom
      | Some b \<Rightarrow> Inr (c\<lparr> C_counter := (le_word b :: u64) AND mask 48 \<rparr>))"

definition NewCipher :: "(bytes \<Rightarrow> AEAD option) \<Rightarrow> bytes option \<Rightarrow> bytes \<Rightarrow> bytes \<Rightarrow> crypto_err + Cipher" where
  "NewCipher newAead rand key dirTag =
     (if length key \<noteq> KeySize then Inl KeyLength
      else
        (case newAead key of
           None \<Rightarrow> Inl AeadInit
         | Some a \<Rightarrow> initCounter rand
             \<lparr> C_aead = a, C_counter = 0, C_dirTag = dirTag, C_replayCounter = 0, C_replayBitmap = 0 \<rparr>))"

section \<open>Encryption\<close>

definition makeNonce :: "Cipher \<Rightarrow> bytes \<times> Cipher" where
  "makeNonce c = (let ctr = C_counter c + 1 in (put64 ctr @ C_dirTag c, c\<lparr> C_counter := ctr \<rparr>))"

text \<open>A nil slice is None.\<close>

definition Encrypt :: "bytes option \<Rightarrow> Cipher \<Rightarrow> bytes option \<times> Cipher" where
  "Encrypt plaintext c =
     (case plaintext of None \<Rightarrow> (None, c)
      | Some p \<Rightarrow> (let (n, c1) = makeNonce c in (Some (EncVersion # n @ A_Seal (C_aead c1) n p), c1)))"

text \<open>\<open>spare\<close> is the capacity of the buffer beyond its length.\<close>

definition EncryptTo :: "bytes \<Rightarrow> nat \<Rightarrow> bytes option \<Rightarrow> Cipher \<Rightarrow> (crypto_err option \<times> bytes) \<times> Cipher" where
  "EncryptTo dst spare plaintext c =
     (case plaintext of None \<Rightarrow> ((None, dst), c)
      | Some p \<Rightarrow>
          if spare < Overhead + length p then ((Some DstCapacity, dst), c)
          else (let (n, c1) = makeNonce c in ((None, dst @ EncVersion # n @ A_Seal (C_aead c1) n p), c1)))"

section \<open>Replay window\<close>

definition checkReplayWindow :: "u64 \<Rightarrow> Cipher \<Rightarrow> bool \<times> Cipher" where
  "checkReplayWindow ctr c =
     (let highest = C_replayCounter c; bitmap = C_replayBitmap c in
      if highest < ctr then
        (let shift = ctr - highest in
         (True, c\<lparr> C_replayBitmap := (if shift < 64 then push_bit (unat shift) bitmap OR 1 else 1),
                   C_replayCounter := ctr \<rparr>))
      else
        (let diff = highest - ctr in
         if 64 \<le> diff then (False, c)
         else if bitmap AND push_bit (unat diff) 1 \<noteq> 0 then (False, c)
         else (True, c\<lparr> C_replayBitmap := bitmap OR push_bit (unat diff) 1 \<rparr>)))"

definition DecryptInto :: "bytes \<Rightarrow> bytes \<Rightarrow> Cipher \<Rightarrow> (crypto_err + bytes) \<times> Cipher" where
  "DecryptInto dst data c =
     (if length data < Overhead then (Inl TooShort, c)
      else if data ! 0 \<noteq> EncVersion then (Inl BadVersion, c)
      else
        (let n = take NonceSize (drop 1 data); ciphertext = drop (1 + NonceSize) data;
             ctr = (le_word (take 8 n) :: u64); (ok, c1) = checkReplayWindow ctr c in
         if \<not> ok then (Inl Replay, c1)
         else (case A_Open (C_aead c1) n ciphertext of None \<Rightarrow> (Inl OpenFailed, c1) | Some p \<Rightarrow> (Inr (dst @ p), c1))))"

definition Decrypt :: "bytes \<Rightarrow> Cipher \<Rightarrow> (crypto_err + bytes) \<times> Cipher" where
  "Decrypt data c = DecryptInto [] data c"

definition IsEncrypted :: "bytes \<Rightarrow> bool" where
  "IsEncrypted data \<longleftrightarrow> 0 < length data \<and> data ! 0 = EncVersion"

section \<open>The interface of a replay filter\<close>

text \<open>
  A filter accepts or rejects numbered events.  \<open>rep S s\<close> says that the state \<open>s\<close> results from a
  history in which exactly the numbers of \<open>S\<close> were accepted; a number below
  \<open>floor s\<close> is too old.
\<close>

locale replay_filter =
  fixes step :: "u64 \<Rightarrow> 's \<Rightarrow> bool \<times> 's"
    and rep :: "u64 set \<Rightarrow> 's \<Rightarrow> bool"
    and too_old :: "'s \<Rightarrow> u64 \<Rightarrow> bool"
  assumes accept_iff: "rep S s \<Longrightarrow> fst (step x s) \<longleftrightarrow> x \<notin> S \<and> \<not> too_old s x"
    and rep_step: "rep S s \<Longrightarrow> rep (if fst (step x s) then insert x S else S) (snd (step x s))"
begin

fun run :: "u64 list \<Rightarrow> 's \<Rightarrow> bool list \<times> 's" where
  "run [] s = ([], s)"
| "run (x # xs) s = (let (b, s1) = step x s; (bs, s2) = run xs s1 in (b # bs, s2))"

definition accepted :: "u64 list \<Rightarrow> 's \<Rightarrow> u64 list" where
  "accepted xs s = map fst (filter snd (zip xs (fst (run xs s))))"

lemma accepted_simps:
  "accepted [] s = []"
  "accepted (x # xs) s = (if fst (step x s) then [x] else []) @ accepted xs (snd (step x s))"
  by (simp_all add: accepted_def case_prod_beta)

lemma at_most_once: "rep S s \<Longrightarrow> distinct (accepted xs s) \<and> set (accepted xs s) \<inter> S = {}"
proof (induction xs arbitrary: S s)
  case (Cons x xs)
  from Cons.IH[OF rep_step[OF Cons.prems, of x]] accept_iff[OF Cons.prems, of x]
  show ?case by (auto simp: accepted_simps split: if_splits)
qed (simp add: accepted_simps)

end

text \<open>The bitmap of the window: bit \<open>d\<close> stands for the number \<open>d\<close> below the highest.\<close>

definition window_rep :: "u64 set \<Rightarrow> Cipher \<Rightarrow> bool" where
  "window_rep S c \<longleftrightarrow> (\<forall>x\<in>S. x \<le> C_replayCounter c) \<and>
     (\<forall>x. x \<le> C_replayCounter c \<and> C_replayCounter c - x < 64 \<longrightarrow>
        (x \<in> S \<longleftrightarrow> bit (C_replayBitmap c) (unat (C_replayCounter c - x))))"

definition too_old :: "Cipher \<Rightarrow> u64 \<Rightarrow> bool" where
  "too_old c x \<longleftrightarrow> x \<le> C_replayCounter c \<and> 64 \<le> C_replayCounter c - x"

lemma test_bit_and: "(w :: u64) AND push_bit n 1 \<noteq> 0 \<longleftrightarrow> bit w n"
  by (simp add: push_bit_of_1 and_exp_eq_0_iff_not_bit)

lemma window_accept:
  "fst (checkReplayWindow x c) \<longleftrightarrow> C_replayCounter c < x \<or>
     (C_replayCounter c - x < 64 \<and> \<not> bit (C_replayBitmap c) (unat (C_replayCounter c - x)))"
  unfolding checkReplayWindow_def Let_def test_bit_and by (auto simp: not_le not_less leD)

text \<open>How the window moves.\<close>

lemma window_forward:
  assumes "window_rep S c" "C_replayCounter c < x"
  shows "window_rep (insert x S) (snd (checkReplayWindow x c))"
proof -
  let ?h = "C_replayCounter c" and ?c = "snd (checkReplayWindow x c)"
  define b where "b = (if x - ?h < 64 then push_bit (unat (x - ?h)) (C_replayBitmap c) OR 1 else 1)"
  have c': "C_replayCounter ?c = x" "C_replayBitmap ?c = b"
    using assms(2) by (simp_all add: checkReplayWindow_def Let_def b_def)
  have sh: "unat (x - ?h) = unat x - unat ?h" "unat ?h < unat x"
    using assms(2) by (simp_all add: unat_sub word_less_nat_alt word_le_nat_alt)
  have mem: "y \<in> insert x S \<longleftrightarrow> bit b (unat (x - y))" if y: "y \<le> x" "x - y < 64" for y
  proof (cases "y = x")
    case True
    then show ?thesis by (simp add: b_def bit_simps)
  next
    case False
    have u: "unat (x - y) = unat x - unat y" "unat y < unat x" "unat x - unat y < 64"
      using y False by (simp_all add: unat_sub word_le_nat_alt word_less_nat_alt word_unat_eq_iff)
    show ?thesis
    proof (cases "y \<le> ?h")
      case True
      then have v: "unat (?h - y) = unat ?h - unat y" "unat y \<le> unat ?h" by (simp_all add: unat_sub word_le_nat_alt)
      have "?h - y < 64" using v u sh by (simp add: word_less_nat_alt)
      then have "y \<in> S \<longleftrightarrow> bit (C_replayBitmap c) (unat ?h - unat y)"
        using assms(1) True v by (simp add: window_rep_def)
      moreover have "x - ?h < 64" using u v sh by (simp add: word_less_nat_alt)
      moreover have "unat x - unat y - (unat x - unat ?h) = unat ?h - unat y" using sh v by linarith
      ultimately show ?thesis using False u sh v by (auto simp: b_def bit_simps)
    next
      case below: False
      then have "y \<notin> S" using assms(1) by (auto simp: window_rep_def)
      moreover have "unat ?h < unat y" using below by (simp add: word_le_nat_alt)
      ultimately show ?thesis using False u sh by (auto simp: b_def bit_simps)
    qed
  qed
  have "\<forall>y\<in>S. y \<le> x" using assms by (auto simp: window_rep_def)
  with mem show ?thesis by (simp add: window_rep_def c')
qed

lemma window_inside:
  assumes "window_rep S c" "x \<le> C_replayCounter c" "fst (checkReplayWindow x c)"
  shows "window_rep (insert x S) (snd (checkReplayWindow x c))"
proof -
  let ?h = "C_replayCounter c" and ?c = "snd (checkReplayWindow x c)"
  have acc: "?h - x < 64" "\<not> bit (C_replayBitmap c) (unat (?h - x))"
    using assms(2,3) unfolding window_accept by auto
  have c': "C_replayCounter ?c = ?h" "C_replayBitmap ?c = C_replayBitmap c OR push_bit (unat (?h - x)) 1"
    using acc leD[OF assms(2)] leD[of 64 "?h - x"]
    unfolding checkReplayWindow_def Let_def test_bit_and by (auto simp: push_bit_of_1)
  have "y \<in> insert x S \<longleftrightarrow> bit (C_replayBitmap c OR push_bit (unat (?h - x)) 1) (unat (?h - y))"
    if y: "y \<le> ?h" "?h - y < 64" for y
  proof -
    have "unat (?h - y) = unat (?h - x) \<longleftrightarrow> y = x" by (simp add: word_unat_eq_iff[symmetric])
    moreover have "unat (?h - y) < 64" using y(2) by (simp add: word_less_nat_alt)
    ultimately show ?thesis using assms(1) y by (auto simp: window_rep_def bit_simps)
  qed
  then show ?thesis using assms(1,2) by (simp add: window_rep_def c')
qed

interpretation window: replay_filter checkReplayWindow window_rep too_old
proof
  fix S c x assume r: "window_rep S c"
  show "fst (checkReplayWindow x c) \<longleftrightarrow> x \<notin> S \<and> \<not> too_old c x"
  proof (cases "C_replayCounter c < x")
    case True
    then show ?thesis using r by (auto simp: window_accept window_rep_def too_old_def)
  next
    case False
    then show ?thesis using r by (auto simp: window_accept window_rep_def too_old_def not_less not_le)
  qed
  show "window_rep (if fst (checkReplayWindow x c) then insert x S else S) (snd (checkReplayWindow x c))"
  proof (cases "fst (checkReplayWindow x c)")
    case True
    then show ?thesis
      using window_forward[OF r, of x] window_inside[OF r, of x] by (cases "C_replayCounter c < x") simp_all
  next
    case False
    then have "snd (checkReplayWindow x c) = c"
      unfolding checkReplayWindow_def Let_def by (auto split: if_splits)
    with False r show ?thesis by simp
  qed
qed

lemma fresh_window: "C_replayCounter c = 0 \<Longrightarrow> C_replayBitmap c = 0 \<Longrightarrow> window_rep {} c"
  by (simp add: window_rep_def)

section \<open>Packets\<close>

text \<open>The number of a packet.\<close>

definition pkt_ctr :: "bytes \<Rightarrow> u64" where
  "pkt_ctr data = le_word (take 8 (drop 1 data))"

lemma checkReplayWindow_fields [simp]:
  "C_aead (snd (checkReplayWindow x c)) = C_aead c" "C_counter (snd (checkReplayWindow x c)) = C_counter c"
  "C_dirTag (snd (checkReplayWindow x c)) = C_dirTag c"
  by (simp_all add: checkReplayWindow_def Let_def)

lemma DecryptInto_cases:
  assumes "Overhead \<le> length data" "data ! 0 = EncVersion"
  shows "DecryptInto dst data c =
    (if fst (checkReplayWindow (pkt_ctr data) c) then
       (case A_Open (C_aead c) (take NonceSize (drop 1 data)) (drop 13 data) of
          None \<Rightarrow> Inl OpenFailed | Some p \<Rightarrow> Inr (dst @ p),
        snd (checkReplayWindow (pkt_ctr data) c))
     else (Inl Replay, snd (checkReplayWindow (pkt_ctr data) c)))"
  using assms by (auto simp: DecryptInto_def Let_def case_prod_beta pkt_ctr_def split: option.split)

text \<open>Decryption is a replay filter as well: each number yields a plaintext at most once.\<close>

fun decrypt_run :: "bytes list \<Rightarrow> Cipher \<Rightarrow> (bytes \<times> (crypto_err + bytes)) list" where
  "decrypt_run [] c = []"
| "decrypt_run (d # ds) c = (let (r, c1) = Decrypt d c in (d, r) # decrypt_run ds c1)"

definition opened :: "(bytes \<times> (crypto_err + bytes)) list \<Rightarrow> bytes list" where
  "opened rs = map fst (filter (\<lambda>(d, r). case r of Inr p \<Rightarrow> True | Inl e \<Rightarrow> False) rs)"

lemma Decrypt_rep:
  assumes "window_rep S c" "Decrypt d c = (r, c')"
  shows "\<exists>S'. window_rep S' c' \<and> S \<subseteq> S' \<and> (case r of Inr p \<Rightarrow> pkt_ctr d \<notin> S \<and> pkt_ctr d \<in> S' | Inl e \<Rightarrow> True)"
proof (cases "Overhead \<le> length d \<and> d ! 0 = EncVersion")
  case True
  note w = window.accept_iff[OF assms(1), of "pkt_ctr d"] window.rep_step[OF assms(1), of "pkt_ctr d"]
  show ?thesis
    using assms(2) w True
    by (intro exI[of _ "if fst (checkReplayWindow (pkt_ctr d) c) then insert (pkt_ctr d) S else S"])
       (auto simp: Decrypt_def DecryptInto_cases split: if_splits option.splits)
next
  case False
  then have "c' = c" "\<exists>e. r = Inl e" using assms(2) by (auto simp: Decrypt_def DecryptInto_def split: if_splits)
  with assms(1) show ?thesis by auto
qed

lemma decrypt_once:
  assumes "window_rep S c"
  shows "distinct (map pkt_ctr (opened (decrypt_run ds c))) \<and> pkt_ctr ` set (opened (decrypt_run ds c)) \<inter> S = {}"
  using assms
proof (induction ds arbitrary: S c)
  case (Cons d ds)
  obtain r c' where d: "Decrypt d c = (r, c')" by force
  from Decrypt_rep[OF Cons.prems d] obtain S' where S': "window_rep S' c'" "S \<subseteq> S'"
      "case r of Inr p \<Rightarrow> pkt_ctr d \<notin> S \<and> pkt_ctr d \<in> S' | Inl e \<Rightarrow> True" by blast
  show ?case using Cons.IH[OF S'(1)] S'(2,3) by (auto simp: opened_def d split: sum.splits)
qed (simp add: opened_def)

text \<open>What is encrypted decrypts.\<close>

lemma length_put64 [simp]: "length (put64 x) = 8"
  by (simp add: put64_def)

lemma Encrypt_shape:
  assumes "length (C_dirTag c) = 4" "aead_ok (C_aead c)" "Encrypt (Some p) c = (Some d, c')"
  shows "Overhead \<le> length d" "d ! 0 = EncVersion" "pkt_ctr d = C_counter c + 1"
    "take NonceSize (drop 1 d) = put64 (C_counter c + 1) @ C_dirTag c"
    "drop 13 d = A_Seal (C_aead c) (put64 (C_counter c + 1) @ C_dirTag c) p"
    "c' = c\<lparr> C_counter := C_counter c + 1 \<rparr>"
  using assms by (auto simp: Encrypt_def makeNonce_def Let_def pkt_ctr_def aead_ok_def)

lemma Encrypt_Decrypt:
  assumes "length (C_dirTag c) = 4" "aead_ok (C_aead c)" "Encrypt (Some p) c = (Some d, c')"
    "C_aead r = C_aead c" "fst (checkReplayWindow (C_counter c + 1) r)"
  shows "Decrypt d r = (Inr p, snd (checkReplayWindow (C_counter c + 1) r))"
  using Encrypt_shape[OF assms(1-3)] assms(2,4,5) assms(1)
  by (simp add: Decrypt_def DecryptInto_cases aead_ok_def)

fun encrypt_run :: "bytes list \<Rightarrow> Cipher \<Rightarrow> bytes list \<times> Cipher" where
  "encrypt_run [] c = ([], c)"
| "encrypt_run (p # ps) c =
     (let (d, c1) = Encrypt (Some p) c; (ds, c2) = encrypt_run ps c1 in (the d # ds, c2))"

lemma stream_decrypts:
  assumes "length (C_dirTag c) = 4" "aead_ok (C_aead c)" "C_aead r = C_aead c"
    "C_replayCounter r \<le> C_counter c" "unat (C_counter c) + length ps < 2 ^ 64"
  shows "map snd (decrypt_run (fst (encrypt_run ps c)) r) = map Inr ps"
  using assms
proof (induction ps arbitrary: c r)
  case (Cons p ps)
  obtain d c1 where d: "Encrypt (Some p) c = (Some d, c1)" by (auto simp: Encrypt_def makeNonce_def Let_def)
  note sh = Encrypt_shape[OF Cons.prems(1,2) d]
  have u: "unat (C_counter c + 1) = unat (C_counter c) + 1"
    using Cons.prems(5) by (simp add: unat_word_ariths)
  have lt: "C_replayCounter r < C_counter c + 1"
    using Cons.prems(4) u by (simp add: word_less_nat_alt word_le_nat_alt)
  define r1 where "r1 = snd (checkReplayWindow (C_counter c + 1) r)"
  have r1: "C_replayCounter r1 = C_counter c + 1" "C_aead r1 = C_aead r"
    using lt by (simp_all add: r1_def checkReplayWindow_def Let_def)
  have dec: "Decrypt d r = (Inr p, r1)"
    using Encrypt_Decrypt[OF Cons.prems(1,2) d Cons.prems(3)] lt by (simp add: window_accept r1_def)
  have "map snd (decrypt_run (fst (encrypt_run ps c1)) r1) = map Inr ps"
    using Cons.prems u by (intro Cons.IH) (simp_all add: sh r1)
  then show ?case by (simp add: d dec case_prod_beta)
qed simp

section \<open>Specification of the window\<close>

text \<open>
  A number is accepted unless it was accepted before or lies 64 or more below an accepted one.
\<close>

definition spec_accepts :: "u64 list \<Rightarrow> u64 \<Rightarrow> bool" where
  "spec_accepts seen x \<longleftrightarrow> x \<notin> set seen \<and> list_all (\<lambda>y. unat y < unat x + 64) seen"

fun spec_run :: "u64 list \<Rightarrow> u64 list \<Rightarrow> bool list" where
  "spec_run seen [] = []"
| "spec_run seen (x # xs) =
     (let b = spec_accepts seen x in b # spec_run (if b then x # seen else seen) xs)"

fun window_run :: "u64 list \<Rightarrow> Cipher \<Rightarrow> bool list" where
  "window_run [] c = []"
| "window_run (x # xs) c = (let (b, c1) = checkReplayWindow x c in b # window_run xs c1)"

definition tracks :: "u64 list \<Rightarrow> Cipher \<Rightarrow> bool" where
  "tracks seen c \<longleftrightarrow> window_rep (set seen) c \<and>
     (if seen = [] then C_replayCounter c = 0 else C_replayCounter c \<in> set seen)"

lemma tracks_old:
  assumes "tracks seen c"
  shows "too_old c x \<longleftrightarrow> \<not> list_all (\<lambda>y. unat y < unat x + 64) seen"
proof -
  let ?h = "C_replayCounter c"
  have le: "unat y \<le> unat ?h" if "y \<in> set seen" for y
    using assms that by (auto simp: tracks_def window_rep_def word_le_nat_alt)
  have "too_old c x \<longleftrightarrow> unat x + 64 \<le> unat ?h"
    by (auto simp: too_old_def word_le_nat_alt unat_sub)
  moreover have "\<not> list_all (\<lambda>y. unat y < unat x + 64) seen \<longleftrightarrow> unat x + 64 \<le> unat ?h"
  proof
    assume "\<not> list_all (\<lambda>y. unat y < unat x + 64) seen"
    then obtain y where "y \<in> set seen" "unat x + 64 \<le> unat y" by (auto simp: list_all_iff)
    with le[of y] show "unat x + 64 \<le> unat ?h" by linarith
  next
    assume h: "unat x + 64 \<le> unat ?h"
    then have "?h \<in> set seen" using assms by (auto simp: tracks_def split: if_splits)
    with h show "\<not> list_all (\<lambda>y. unat y < unat x + 64) seen" unfolding list_all_iff by (meson leD)
  qed
  ultimately show ?thesis by simp
qed

lemma window_run_spec: "tracks seen c \<Longrightarrow> window_run xs c = spec_run seen xs"
proof (induction xs arbitrary: seen c)
  case (Cons x xs)
  obtain b c1 where s: "checkReplayWindow x c = (b, c1)" by force
  have r: "window_rep (set seen) c" using Cons.prems by (simp add: tracks_def)
  have b: "b = spec_accepts seen x"
    using window.accept_iff[OF r, of x] tracks_old[OF Cons.prems, of x] s by (auto simp: spec_accepts_def)
  have "C_replayCounter c1 = (if C_replayCounter c < x then x else C_replayCounter c)"
    using s by (auto simp: checkReplayWindow_def Let_def split: if_splits)
  moreover have "C_replayCounter c = 0 \<Longrightarrow> \<not> C_replayCounter c < x \<Longrightarrow> x = 0" by (simp add: not_less)
  moreover have "C_replayCounter c < x \<Longrightarrow> b" using window_accept[of x c] s by simp
  ultimately have "tracks (if b then x # seen else seen) c1"
    using window.rep_step[OF r, of x] s Cons.prems by (auto simp: tracks_def split: if_splits)
  from Cons.IH[OF this] show ?case by (simp add: s b Let_def)
qed simp

section \<open>Properties\<close>

lemma unat_max: "unat (- 1 :: u64) = 2 ^ 64 - 1"
  by (simp add: unsigned_minus_1_eq_mask mask_eq_exp_minus_1)

lemma NewCipher_fields:
  assumes "NewCipher na rand key dir = Inr c"
  shows "C_replayCounter c = 0" "C_replayBitmap c = 0" "C_dirTag c = dir" "na key = Some (C_aead c)"
    "unat (C_counter c) < 2 ^ 48" "length key = KeySize"
proof -
  have "unat (w AND mask 48 :: u64) < 2 ^ 48" for w :: u64
    using and_mask_less_size[of 48 w] by (simp add: word_less_nat_alt word_size)
  then show "C_replayCounter c = 0" "C_replayBitmap c = 0" "C_dirTag c = dir" "na key = Some (C_aead c)"
    "unat (C_counter c) < 2 ^ 48" "length key = KeySize"
    using assms by (auto simp: NewCipher_def initCounter_def split: if_splits option.splits)
qed

text \<open>
  C28: The sliding window refines its specification: on a new cipher, for every sequence of packet
  numbers, a number is accepted exactly if it was not accepted before and no number that
  is 64 or more above it was.  So a number may be at most 63 below the highest one (the comment on
  \<open>replayWindowSize\<close> allows 64), and a number above it is accepted however far ahead it is (the comment
  on the window says that numbers too far ahead are rejected).
\<close>

theorem replay_window_refines_spec:
  assumes "NewCipher na rand key dir = Inr c"
  shows "window_run xs c = spec_run [] xs"
  using NewCipher_fields(1,2)[OF assms] by (intro window_run_spec) (simp add: tracks_def fresh_window)

text \<open>
  No packet is opened twice: among any packets given to a new cipher in any order, those that
  yield a plaintext have pairwise different numbers.
\<close>

theorem packets_opened_once:
  assumes "NewCipher na rand key dir = Inr c"
  shows "distinct (map pkt_ctr (opened (decrypt_run ds c)))"
  using decrypt_once[OF fresh_window] NewCipher_fields(1,2)[OF assms] by blast

text \<open>
  What one side encrypts the other side reads: of two ciphers made with the same key, the packets
  the first one encrypts are decrypted by the second one, in order, to the plaintexts.
  The AEAD is assumed to open what it seals and to add a tag of 16 bytes.
\<close>

theorem encrypted_stream_roundtrip:
  assumes "NewCipher na rand key dir = Inr c" "NewCipher na rand' key dir' = Inr r"
    "\<And>k a. na k = Some a \<Longrightarrow> aead_ok a" "length dir = 4" "length ps < 2 ^ 63"
  shows "map snd (decrypt_run (fst (encrypt_run ps c)) r) = map Inr ps"
  using NewCipher_fields[OF assms(1)] NewCipher_fields[OF assms(2)] assms(3-5)
  by (intro stream_decrypts) (auto simp: word_le_nat_alt)

text \<open>
  A forged packet silences the channel: the window moves before the packet is authenticated, so a
  packet with the highest number, although it does not open, makes the cipher reject every
  later packet whose number is 64 or more below it.
\<close>

theorem forged_packet_blocks:
  assumes "Overhead \<le> length d" "d ! 0 = EncVersion" "pkt_ctr d = - 1" "C_replayCounter c < - 1"
    "A_Open (C_aead c) (take NonceSize (drop 1 d)) (drop 13 d) = None" "Decrypt d c = (res, c')"
    "Overhead \<le> length e" "e ! 0 = EncVersion" "unat (pkt_ctr e) + 64 < 2 ^ 64"
  shows "res = Inl OpenFailed \<and> Decrypt e c' = (Inl Replay, c')"
proof -
  have acc: "fst (checkReplayWindow (- 1) c)" using assms(4) by (simp add: window_accept)
  have c': "c' = snd (checkReplayWindow (- 1) c)" "res = Inl OpenFailed"
    using assms(3,5,6) acc unfolding Decrypt_def DecryptInto_cases[OF assms(1,2)] by auto
  have h: "C_replayCounter c' = - 1" using assms(4) by (simp add: c'(1) checkReplayWindow_def Let_def)
  have le: "pkt_ctr e \<le> - 1" by simp
  have "unat (- 1 - pkt_ctr e) = 2 ^ 64 - 1 - unat (pkt_ctr e)" using le by (simp add: unat_sub unat_max)
  then have "64 \<le> C_replayCounter c' - pkt_ctr e" using assms(9) h by (simp add: word_le_nat_alt)
  then have "checkReplayWindow (pkt_ctr e) c' = (False, c')"
    using h by (simp add: checkReplayWindow_def Let_def)
  then show ?thesis using c'(2) unfolding Decrypt_def DecryptInto_cases[OF assms(7,8)] by simp
qed

subsection \<open>Instances\<close>

text \<open>An AEAD that satisfies the assumption: a constant tag.\<close>

definition plain_aead :: AEAD where
  "plain_aead = \<lparr> A_Seal = (\<lambda>n p. p @ replicate 16 0),
     A_Open = (\<lambda>n d. if drop (length d - 16) d = replicate 16 0 then Some (take (length d - 16) d) else None) \<rparr>"

lemma plain_aead_ok: "aead_ok plain_aead"
  by (simp add: aead_ok_def plain_aead_def)

definition sample_cipher :: Cipher where
  "sample_cipher = \<lparr> C_aead = plain_aead, C_counter = 0, C_dirTag = DirClientToClient, C_replayCounter = 0, C_replayBitmap = 0 \<rparr>"

lemma sample_NewCipher:
  "NewCipher (\<lambda>k. Some plain_aead) (Some (replicate 8 0)) (replicate 32 5) DirClientToClient = Inr sample_cipher"
proof -
  have "(le_word (replicate 8 0) :: u64) = 0" by code_simp
  then show ?thesis by (simp add: NewCipher_def initCounter_def sample_cipher_def)
qed

theorem replay_window_refines_spec_witness: "window_run [5, 5, 100, 7] sample_cipher = [True, False, True, False]"
proof -
  have "spec_run [] [5, 5, 100, 7] = [True, False, True, False]" by code_simp
  then show ?thesis using replay_window_refines_spec[OF sample_NewCipher] by simp
qed

theorem packets_opened_once_witness:
  "distinct (map pkt_ctr (opened (decrypt_run [the (fst (Encrypt (Some [1]) sample_cipher)),
     the (fst (Encrypt (Some [1]) sample_cipher))] sample_cipher)))"
  by (rule packets_opened_once[OF sample_NewCipher])

theorem encrypted_stream_roundtrip_witness:
  "map snd (decrypt_run (fst (encrypt_run [[1], [2, 3]] sample_cipher)) sample_cipher) = map Inr [[1], [2, 3]]"
  by (rule encrypted_stream_roundtrip[OF sample_NewCipher sample_NewCipher])
     (auto simp: plain_aead_ok DirClientToClient_def)

definition forged_data :: bytes where
  "forged_data = EncVersion # replicate 8 255 @ DirClientToClient @ replicate 16 1"

theorem forged_packet_blocks_witness:
  "fst (Decrypt (the (fst (Encrypt (Some [1]) sample_cipher))) (snd (Decrypt forged_data sample_cipher))) = Inl Replay"
proof -
  have f: "Overhead \<le> length forged_data" "forged_data ! 0 = EncVersion"
    by (simp_all add: forged_data_def DirClientToClient_def)
  have ctr: "pkt_ctr forged_data = - 1" by code_simp
  have op: "A_Open (C_aead sample_cipher) (take NonceSize (drop 1 forged_data)) (drop 13 forged_data) = None"
    by (simp add: sample_cipher_def plain_aead_def forged_data_def DirClientToClient_def)
  obtain e c1 where e: "Encrypt (Some [1]) sample_cipher = (Some e, c1)" by (auto simp: Encrypt_def makeNonce_def Let_def)
  have "length (C_dirTag sample_cipher) = 4" "aead_ok (C_aead sample_cipher)"
    by (simp_all add: sample_cipher_def DirClientToClient_def plain_aead_ok)
  note sh = Encrypt_shape[OF this e]
  obtain res c' where d: "Decrypt forged_data sample_cipher = (res, c')" by force
  have "C_replayCounter sample_cipher < - 1" "unat (pkt_ctr e) + 64 < 2 ^ 64"
    unfolding sh(3) by (simp_all add: sample_cipher_def word_less_nat_alt unat_max)
  from forged_packet_blocks[OF f ctr this(1) op d sh(1,2) this(2)] show ?thesis by (simp add: d e)
qed

end
