(* ===== verification/NatProbe.thy ===== *)
theory NatProbe
  imports Messages
begin

text \<open>
  NAT detection (nat/natprobe.go): one probe with its reading loop, the sequence of three
  probes, the classification of the results and the choice of a hole-punching strategy.
  The socket is the list of datagrams waiting in it, each with its arrival time; a
  read on the empty list is the read deadline.  \<open>resolve\<close> is net.ResolveUDPAddr.
\<close>

section \<open>Results\<close>

record NATProbeResult =
  PR_Type :: NATType
  PR_ExternalIP :: ip
  PR_ExternalPort :: int
  PR_AltIP :: ip
  PR_AltPort :: int
  PR_RTT :: int

type_synonym arrivals = "(bytes \<times> int) list"

section \<open>One probe\<close>

definition probe_packet :: "byte \<Rightarrow> bytes" where
  "probe_packet pid = EncodeChecked TypeNATProbe (NATProbe_Marshal \<lparr> Probe_ID = pid \<rparr>)"

definition probe_result :: "int \<Rightarrow> NATResponsePayload \<Rightarrow> NATProbeResult" where
  "probe_result rtt resp =
     \<lparr> PR_Type = NR_NATType resp,
       PR_ExternalIP = (case NR_ObservedAddr resp of None \<Rightarrow> [] | Some a \<Rightarrow> UDP_IP a),
       PR_ExternalPort = (case NR_ObservedAddr resp of None \<Rightarrow> 0 | Some a \<Rightarrow> UDP_Port a),
       PR_AltIP = (case NR_AltAddr resp of None \<Rightarrow> [] | Some a \<Rightarrow> UDP_IP a),
       PR_AltPort = (case NR_AltAddr resp of None \<Rightarrow> 0 | Some a \<Rightarrow> UDP_Port a),
       PR_RTT = rtt \<rparr>"

text \<open>The reading loop, with what it leaves in the socket; the buffer has 1500 bytes.\<close>

fun probe_read ::
    "(bytes \<Rightarrow> UDPAddr option) \<Rightarrow> byte \<Rightarrow> int \<Rightarrow> arrivals \<Rightarrow> NATProbeResult res \<times> arrivals" where
  "probe_read resolve pid start [] = (Err (ErrOther (lit ''read probe response'')), [])"
| "probe_read resolve pid start ((d, arr) # rest) =
     (case DecodeChecked (take 1500 d) of
        Ok msg \<Rightarrow>
          if MsgType msg \<noteq> TypeNATResponse then probe_read resolve pid start rest
          else
            (case UnmarshalNATResponse resolve (MsgPayload msg) of
               Ok resp \<Rightarrow>
                 if NR_ProbeID resp \<noteq> pid then probe_read resolve pid start rest
                 else (Ok (probe_result (arr - start) resp), rest)
             | Err e \<Rightarrow> (Err e, rest)
             | Panic \<Rightarrow> (Panic, rest))
      | _ \<Rightarrow> probe_read resolve pid start rest)"

text \<open>\<open>sent\<close> tells whether WriteToUDP and SetReadDeadline succeed.\<close>

definition Probe ::
    "(bytes \<Rightarrow> UDPAddr option) \<Rightarrow> byte \<Rightarrow> int \<Rightarrow> bool \<Rightarrow> arrivals \<Rightarrow> NATProbeResult res \<times> arrivals" where
  "Probe resolve pid start sent sock =
     (if \<not> sent then (Err (ErrOther (lit ''send probe'')), sock) else probe_read resolve pid start sock)"

section \<open>Classification\<close>

definition classifyNATType :: "NATProbeResult \<Rightarrow> NATProbeResult list \<Rightarrow> NATProbeResult" where
  "classifyNATType r allResults =
     (if length allResults < 2 then r
      else
        (let others = tl allResults;
             sameIP = list_all (\<lambda>p. ip_equal (PR_ExternalIP r) (PR_ExternalIP p)) others;
             samePort = list_all (\<lambda>p. PR_ExternalPort r = PR_ExternalPort p) others;
             altDiffers = (PR_AltIP r \<noteq> [] \<and> PR_ExternalIP r \<noteq> [] \<and>
               (\<not> ip_equal (PR_AltIP r) (PR_ExternalIP r) \<or> PR_AltPort r \<noteq> PR_ExternalPort r))
         in if \<not> sameIP then r\<lparr> PR_Type := NATTypeSymmetric \<rparr>
            else if \<not> samePort then r\<lparr> PR_Type := NATTypeSymmetric \<rparr>
            else if altDiffers then r\<lparr> PR_Type := NATTypePortRestricted \<rparr>
            else if PR_Type r = NATTypeUnknown then r\<lparr> PR_Type := NATTypeFullCone \<rparr>
            else r))"

text \<open>
  The three probes.  Each takes its start time, whether sending succeeds and the datagrams that
  arrive until its deadline; what one probe leaves in the socket is read by the next.
\<close>

record ProbeTurn =
  PT_start :: int
  PT_sent :: bool
  PT_arrivals :: arrivals

fun probe_turns ::
    "(bytes \<Rightarrow> UDPAddr option) \<Rightarrow> byte \<Rightarrow> ProbeTurn list \<Rightarrow> arrivals \<Rightarrow> NATProbeResult list" where
  "probe_turns resolve i [] sock = []"
| "probe_turns resolve i (t # ts) sock =
     (let (result, rest) = Probe resolve i (PT_start t) (PT_sent t) (sock @ PT_arrivals t) in
      (case result of Ok x \<Rightarrow> [x] | _ \<Rightarrow> []) @ probe_turns resolve (i + 1) ts rest)"

definition ProbeNATType ::
    "(bytes \<Rightarrow> UDPAddr option) \<Rightarrow> ProbeTurn \<Rightarrow> ProbeTurn \<Rightarrow> ProbeTurn \<Rightarrow> arrivals \<Rightarrow> NATProbeResult res" where
  "ProbeNATType resolve t0 t1 t2 sock =
     (case probe_turns resolve 0 [t0, t1, t2] sock of
        [] \<Rightarrow> Err (ErrOther (lit ''all probes failed''))
      | base # others \<Rightarrow> Ok (classifyNATType base (base # others)))"

section \<open>Strategy\<close>

datatype HolePunchStrategy = StrategyDirect | StrategyExtended | StrategyRelay

definition GetHolePunchStrategy :: "NATType \<Rightarrow> NATType \<Rightarrow> HolePunchStrategy" where
  "GetHolePunchStrategy local remote =
     (if local = NATTypeNoNAT \<or> local = NATTypeFullCone \<or> remote = NATTypeNoNAT \<or> remote = NATTypeFullCone
      then StrategyDirect
      else if local = NATTypeSymmetric \<and> remote = NATTypeSymmetric then StrategyRelay
      else if local = NATTypeSymmetric \<or> remote = NATTypeSymmetric then StrategyExtended
      else StrategyDirect)"

end
