(* ===== verification/Pacing.thy ===== *)
theory Pacing
  imports Room
begin

text \<open>
  The client's own pacing: the token bucket in front of its sends (client/ratelimit.go) and
  the delays between connection attempts (client/reconnect.go).  The clock and the
  random number are arguments; float64 products are exact here, then truncated as the
  code's conversion to int64 truncates them.
\<close>

section \<open>Token bucket (ratelimit.go)\<close>

record clientSendLimiter =
  L_rate :: int
  L_burst :: int
  L_tokens :: int
  L_lastTime :: int

definition newClientSendLimiter :: "int \<Rightarrow> int \<Rightarrow> int \<Rightarrow> clientSendLimiter" where
  "newClientSendLimiter now rt bst = \<lparr> L_rate = rt, L_burst = bst, L_tokens = bst, L_lastTime = now \<rparr>"

definition allowSlow :: "int \<Rightarrow> int \<Rightarrow> clientSendLimiter \<Rightarrow> bool \<times> clientSendLimiter" where
  "allowSlow now sz l =
     (let elapsed = min second (max 0 (now - L_lastTime l));
          tok = min (L_burst l) (L_tokens l + elapsed * L_rate l div second)
      in if tok < sz then (False, l\<lparr> L_lastTime := now, L_tokens := tok \<rparr>)
         else (True, l\<lparr> L_lastTime := now, L_tokens := tok - sz \<rparr>))"

text \<open>The fast path takes tokens without touching the clock.\<close>

definition limiter_allow :: "int \<Rightarrow> int \<Rightarrow> clientSendLimiter \<Rightarrow> bool \<times> clientSendLimiter" where
  "limiter_allow now sz l =
     (if sz \<le> L_tokens l then (True, l\<lparr> L_tokens := L_tokens l - sz \<rparr>) else allowSlow now sz l)"

fun limiter_run :: "(int \<times> int) list \<Rightarrow> clientSendLimiter \<Rightarrow> int \<times> clientSendLimiter" where
  "limiter_run [] l = (0, l)"
| "limiter_run ((now, sz) # rs) l =
     (let (ok, l1) = limiter_allow now sz l; (sumb, l2) = limiter_run rs l1
      in ((if ok then sz else 0) + sumb, l2))"

section \<open>Reconnect delays (reconnect.go)\<close>

record backoffState =
  B_attempt :: nat
  B_maxRetries :: nat

definition newBackoff :: backoffState where
  "newBackoff = \<lparr> B_attempt = 0, B_maxRetries = 0 \<rparr>"

text \<open>\<open>rnd n\<close> is the result of rand.Int64N(n), a number from 0 to n - 1.\<close>

definition jitter :: "(int \<Rightarrow> int) \<Rightarrow> int \<Rightarrow> int" where
  "jitter rnd maxJitter = (if maxJitter \<le> 0 then 0 else rnd (maxJitter * 2) - maxJitter)"

definition nextDelay :: "(int \<Rightarrow> int) \<Rightarrow> bool \<Rightarrow> backoffState \<Rightarrow> int \<times> backoffState" where
  "nextDelay rnd wasConnected b =
     (let attempt = B_attempt b + 1; b1 = b\<lparr> B_attempt := attempt \<rparr> in
      if 0 < B_maxRetries b \<and> B_maxRetries b < attempt then (-1, b1)
      else if wasConnected \<and> attempt \<le> 3 then (500000000 + jitter rnd 100000000, b1)
      else
        (let delay = min (60 * second) (2 ^ min attempt 5 * second)
         in (delay + jitter rnd (delay div 5), b1)))"

definition rnd_ok :: "(int \<Rightarrow> int) \<Rightarrow> bool" where
  "rnd_ok rnd \<longleftrightarrow> (\<forall>n>0. 0 \<le> rnd n \<and> rnd n < n)"

section \<open>Bounds\<close>

lemma limiter_allow_bound:
  assumes "limiter_allow now sz l = (ok, l')" "0 \<le> sz" "0 \<le> L_rate l" "L_lastTime l \<le> now"
    "L_tokens l \<le> L_burst l"
  shows "L_rate l' = L_rate l" "L_burst l' = L_burst l" "L_lastTime l' \<le> now"
    "L_lastTime l \<le> L_lastTime l'" "L_tokens l' \<le> L_burst l'"
    "second * ((if ok then sz else 0) + L_tokens l') \<le>
       second * L_tokens l + L_rate l * (L_lastTime l' - L_lastTime l)"
proof -
  let ?e = "min second (max 0 (now - L_lastTime l))"
  have e: "0 \<le> ?e" "?e \<le> now - L_lastTime l" using assms(4) by auto
  let ?tok = "min (L_burst l) (L_tokens l + ?e * L_rate l div second)"
  have "second * (?e * L_rate l div second) \<le> ?e * L_rate l" by linarith
  also have "\<dots> \<le> (now - L_lastTime l) * L_rate l" using e assms(3) by (intro mult_right_mono)
  finally have q: "second * (?e * L_rate l div second) \<le> (now - L_lastTime l) * L_rate l" .
  have "second * ?tok \<le> second * (L_tokens l + ?e * L_rate l div second)" by (intro mult_left_mono) auto
  then have "second * ?tok \<le> second * L_tokens l + (now - L_lastTime l) * L_rate l"
    using q by (simp add: distrib_left del: min_less_iff_conj)
  then have d: "second * ?tok \<le> second * L_tokens l + L_rate l * (now - L_lastTime l)"
    by (simp add: mult.commute)
  define tok where "tok = ?tok"
  have a: "limiter_allow now sz l =
      (if sz \<le> L_tokens l then (True, l\<lparr> L_tokens := L_tokens l - sz \<rparr>)
       else if tok < sz then (False, l\<lparr> L_lastTime := now, L_tokens := tok \<rparr>)
       else (True, l\<lparr> L_lastTime := now, L_tokens := tok - sz \<rparr>))"
    by (simp only: limiter_allow_def allowSlow_def Let_def tok_def)
  have b: "tok \<le> L_burst l" by (simp only: tok_def min.cobounded1)
  show "L_rate l' = L_rate l" "L_burst l' = L_burst l" "L_lastTime l' \<le> now"
    "L_lastTime l \<le> L_lastTime l'" "L_tokens l' \<le> L_burst l'"
    "second * ((if ok then sz else 0) + L_tokens l') \<le>
       second * L_tokens l + L_rate l * (L_lastTime l' - L_lastTime l)"
    using assms a b d[folded tok_def] by (auto split: if_splits)
qed

lemma limiter_run_bound:
  "limiter_run rs l = (sumb, l') \<Longrightarrow> \<forall>(now, sz)\<in>set rs. 0 \<le> sz \<and> now \<le> tmax \<Longrightarrow>
   sorted (map fst rs) \<Longrightarrow> (rs = [] \<or> L_lastTime l \<le> fst (hd rs)) \<Longrightarrow> L_lastTime l \<le> tmax \<Longrightarrow>
   0 \<le> L_rate l \<Longrightarrow> 0 \<le> L_tokens l \<Longrightarrow> L_tokens l \<le> L_burst l \<Longrightarrow>
   second * sumb \<le> second * L_tokens l + L_rate l * (tmax - L_lastTime l)"
proof (induction rs arbitrary: l sumb l')
  case (Cons r rs)
  obtain now sz where r: "r = (now, sz)" by (cases r)
  obtain ok l1 where a: "limiter_allow now sz l = (ok, l1)" by (cases "limiter_allow now sz l")
  obtain t2 l2 where b: "limiter_run rs l1 = (t2, l2)" by (cases "limiter_run rs l1")
  have p: "0 \<le> sz" "now \<le> tmax" "L_lastTime l \<le> now" using Cons.prems r by auto
  note l1 = limiter_allow_bound[OF a p(1) Cons.prems(6) p(3) Cons.prems(8)]
  have t1: "0 \<le> L_tokens l1"
    using a p Cons.prems(6-8) by (auto intro!: add_nonneg_nonneg simp: pos_imp_zdiv_nonneg_iff
      limiter_allow_def allowSlow_def Let_def split: if_splits)
  have s: "rs = [] \<or> L_lastTime l1 \<le> fst (hd rs)"
    using Cons.prems(3) l1(3) r by (cases rs) auto
  have "second * t2 \<le> second * L_tokens l1 + L_rate l1 * (tmax - L_lastTime l1)"
    using Cons.IH[OF b] Cons.prems r l1 p s t1 by auto
  then show ?case using l1(6) l1(1) a b Cons.prems(1) r by (auto simp: algebra_simps split: if_splits)
qed auto

text \<open>
  The client never sends more than its rate allows: of any requests with increasing
  times up to \<open>tmax\<close>, the bytes that pass the limiter are at most the burst plus the rate
  times the time since the limiter was made.
\<close>

theorem client_send_bound:
  assumes "sorted (map fst rs)" "\<forall>(now, sz)\<in>set rs. 0 \<le> sz \<and> t0 \<le> now \<and> now \<le> tmax"
    "0 \<le> rt" "0 \<le> bst" "t0 \<le> tmax"
  shows "second * fst (limiter_run rs (newClientSendLimiter t0 rt bst)) \<le> second * bst + rt * (tmax - t0)"
proof -
  let ?l = "newClientSendLimiter t0 rt bst"
  have "rs = [] \<or> L_lastTime ?l \<le> fst (hd rs)"
    using assms(2) by (cases rs) (auto simp: newClientSendLimiter_def)
  then show ?thesis
    using limiter_run_bound[of rs ?l "fst (limiter_run rs ?l)" "snd (limiter_run rs ?l)" tmax] assms
    by (auto simp: newClientSendLimiter_def)
qed

theorem client_send_bound_witness:
  "second * fst (limiter_run [(0, 600), (second, 900), (2 * second, 600)] (newClientSendLimiter 0 500 1000)) \<le>
     second * 1000 + 500 * (2 * second)"
  using client_send_bound[of "[(0, 600), (second, 900), (2 * second, 600)]" 0 "2 * second" 500 1000] by simp

text \<open>The delay before an attempt, by the number of the attempt.\<close>

lemma jitter_bounds:
  assumes "rnd_ok rnd" "0 \<le> m"
  shows "- m \<le> jitter rnd m" "jitter rnd m \<le> m"
proof -
  have "0 < m \<Longrightarrow> 0 \<le> rnd (m * 2) \<and> rnd (m * 2) < m * 2" using assms(1) by (simp add: rnd_ok_def)
  then show "- m \<le> jitter rnd m" "jitter rnd m \<le> m" using assms(2) by (auto simp: jitter_def)
qed

lemma nextDelay_first:
  assumes "rnd_ok rnd" "B_attempt b = 0" "B_maxRetries b = 0"
  shows "0 < fst (nextDelay rnd w b)" "fst (nextDelay rnd w b) \<le> (if w then 600000000 else 2400000000)"
  using assms jitter_bounds[OF assms(1), of 100000000] jitter_bounds[OF assms(1), of 400000000]
  by (auto simp: nextDelay_def Let_def)

end
