(* ===== verification/ConfigFile.thy ===== *)
theory ConfigFile
  imports GoNet
begin

text \<open>
  The client's configuration (client/config.go): defaults, validation, the key=value file and
  its parser.  The file is its content (None if it cannot be read); the host name and the
  five localized comment lines are arguments.  The parts of package strings the parser
  uses are written out.
\<close>

section \<open>Package strings\<close>

text \<open>The white space of unicode.IsSpace, as UTF-8.\<close>

definition spaces :: "bytes list" where
  "spaces = [[9], [10], [11], [12], [13], [32], [0xC2, 0x85], [0xC2, 0xA0], [0xE1, 0x9A, 0x80]] @
     map (\<lambda>c. [0xE2, 0x80, c])
       [0x80, 0x81, 0x82, 0x83, 0x84, 0x85, 0x86, 0x87, 0x88, 0x89, 0x8A, 0xA8, 0xA9, 0xAF] @
     [[0xE2, 0x81, 0x9F], [0xE3, 0x80, 0x80]]"

function trim_with :: "bytes list \<Rightarrow> bytes \<Rightarrow> bytes" where
  "trim_with ws s =
     (case find (\<lambda>w. w \<noteq> [] \<and> take (length w) s = w) ws of
        None \<Rightarrow> s | Some w \<Rightarrow> trim_with ws (drop (length w) s))"
  by auto
termination
proof (relation "measure (length \<circ> snd)", simp)
  fix ws s w assume "find (\<lambda>w. w \<noteq> [] \<and> take (length w) s = w) ws = Some w"
  then have "w \<noteq> []" "take (length w) s = w" by (auto simp: find_Some_iff)
  then show "((ws, drop (length w) s), ws, s) \<in> measure (length \<circ> snd)" by (cases s) auto
qed

declare trim_with.simps [simp del]

definition TrimSpace :: "bytes \<Rightarrow> bytes" where
  "TrimSpace s = rev (trim_with (map rev spaces) (rev (trim_with spaces s)))"

fun split_on :: "byte \<Rightarrow> bytes \<Rightarrow> bytes list" where
  "split_on c [] = [[]]"
| "split_on c (x # xs) =
     (if x = c then [] # split_on c xs
      else (case split_on c xs of [] \<Rightarrow> [[x]] | l # ls \<Rightarrow> (x # l) # ls))"

text \<open>\<open>strings.SplitN(s, sep, 2)\<close> when it gives two parts.\<close>

definition cut_at :: "byte \<Rightarrow> bytes \<Rightarrow> (bytes \<times> bytes) option" where
  "cut_at c s = (case index_of c s of None \<Rightarrow> None | Some i \<Rightarrow> Some (take i s, drop (i + 1) s))"

section \<open>Configuration\<close>

definition DefaultMTU :: int where "DefaultMTU = 1400"
definition MinMTU :: int where "MinMTU = 576"
definition MaxMTU :: int where "MaxMTU = 9000"

record ClientConfig =
  CC_ServerAddr :: bytes
  CC_PlayerName :: bytes
  CC_RoomID :: bytes
  CC_RoomPassword :: bytes
  CC_Lang :: bytes
  CC_MTU :: int
  CC_LogFile :: bytes
  CC_Verbose :: bool
  CC_PprofAddr :: bytes

definition DefaultConfig :: "bytes \<Rightarrow> ClientConfig" where
  "DefaultConfig hostname =
     \<lparr> CC_ServerAddr = [], CC_PlayerName = hostname, CC_RoomID = lit ''default'', CC_RoomPassword = [],
       CC_Lang = lit ''zh'', CC_MTU = DefaultMTU, CC_LogFile = [], CC_Verbose = False, CC_PprofAddr = [] \<rparr>"

section \<open>Validation\<close>

datatype addr_error =
    AddrEmpty | NeedsBrackets | MissingPortV6 | MissingPort | InvalidAddr | EmptyHost | EmptyPort
  | InvalidPort | PortRange

fun port_num :: "nat \<Rightarrow> bytes \<Rightarrow> addr_error + nat" where
  "port_num n [] = Inr n"
| "port_num n (c # cs) =
     (if \<not> is_digit c then Inl InvalidPort
      else if 65535 < n * 10 + digit_val c then Inl PortRange
      else port_num (n * 10 + digit_val c) cs)"

definition contains_pair :: "byte \<Rightarrow> byte \<Rightarrow> bytes \<Rightarrow> bool" where
  "contains_pair a b s = list_ex (\<lambda>(x, y). x = a \<and> y = b) (zip s (tl s))"

definition ValidateServerAddr :: "bytes \<Rightarrow> addr_error option" where
  "ValidateServerAddr addr =
     (if addr = [] then Some AddrEmpty
      else
        (case SplitHostPort addr of
           None \<Rightarrow>
             if 2 \<le> count_list addr 58 \<and> 91 \<notin> set addr then Some NeedsBrackets
             else if hd addr = 91 \<and> 93 \<in> set addr \<and> \<not> contains_pair 93 58 addr then Some MissingPortV6
             else if 58 \<notin> set addr then Some MissingPort
             else Some InvalidAddr
         | Some (host, port) \<Rightarrow>
             if host = [] then Some EmptyHost
             else if port = [] then Some EmptyPort
             else
               (case port_num 0 port of
                  Inl e \<Rightarrow> Some e
                | Inr n \<Rightarrow> if n < 1 then Some PortRange else None)))"

datatype config_error = AddrError addr_error | RoomIDLength | MTURange

definition Validate :: "ClientConfig \<Rightarrow> config_error option" where
  "Validate c =
     (case ValidateServerAddr (CC_ServerAddr c) of
        Some e \<Rightarrow> Some (AddrError e)
      | None \<Rightarrow>
          if length (CC_RoomID c) = 0 \<or> 32 < length (CC_RoomID c) then Some RoomIDLength
          else if CC_MTU c < MinMTU \<or> MaxMTU < CC_MTU c then Some MTURange
          else None)"

section \<open>Reading the file\<close>

definition parse_line :: "bytes \<Rightarrow> (bytes \<times> bytes) list \<Rightarrow> (bytes \<times> bytes) list" where
  "parse_line line0 m =
     (let line = TrimSpace line0 in
      if line = [] \<or> hd line = 35 then m
      else
        (case cut_at 61 line of None \<Rightarrow> m
         | Some (k, v) \<Rightarrow> mput (TrimSpace k) (TrimSpace v) m))"

definition parseFile :: "bytes option \<Rightarrow> (bytes \<times> bytes) list option" where
  "parseFile content = map_option (\<lambda>data. fold parse_line (split_on 10 data) []) content"

definition combinePort :: "bytes \<Rightarrow> bytes \<Rightarrow> bytes" where
  "combinePort addr port =
     (if addr = [] \<or> port = [] then addr
      else if SplitHostPort addr \<noteq> None then addr
      else
        (let a = (if hd addr = 91 \<and> last addr = 93 then butlast (tl addr) else addr)
         in JoinHostPort a port))"

text \<open>\<open>m[key]\<close>, the empty string if absent; a setting keeps its value if the key is absent or empty.\<close>

definition ini_value :: "(bytes \<times> bytes) list \<Rightarrow> string \<Rightarrow> bytes" where
  "ini_value m key = (case mget m (lit key) of None \<Rightarrow> [] | Some v \<Rightarrow> v)"

definition setting :: "(bytes \<times> bytes) list \<Rightarrow> string \<Rightarrow> bytes \<Rightarrow> bytes" where
  "setting m key old = (if ini_value m key \<noteq> [] then ini_value m key else old)"

definition loadINI :: "bytes option \<Rightarrow> ClientConfig \<Rightarrow> bool \<times> ClientConfig" where
  "loadINI content cfg =
     (case parseFile content of None \<Rightarrow> (False, cfg)
      | Some m \<Rightarrow>
          (True,
           \<lparr> CC_ServerAddr = combinePort (setting m ''server'' (CC_ServerAddr cfg)) (ini_value m ''port''),
             CC_PlayerName = setting m ''name'' (CC_PlayerName cfg),
             CC_RoomID = setting m ''room'' (CC_RoomID cfg),
             CC_RoomPassword = setting m ''password'' (CC_RoomPassword cfg),
             CC_Lang = setting m ''lang'' (CC_Lang cfg),
             CC_MTU = (if ini_value m ''mtu'' \<noteq> [] then
                         (case atoi (ini_value m ''mtu'') of None \<Rightarrow> CC_MTU cfg
                          | Some n \<Rightarrow> if MinMTU \<le> n \<and> n \<le> MaxMTU then n else CC_MTU cfg)
                       else CC_MTU cfg),
             CC_LogFile = setting m ''log-file'' (CC_LogFile cfg),
             CC_Verbose = (if ini_value m ''verbose'' \<noteq> []
                           then ini_value m ''verbose'' = lit ''true'' \<or> ini_value m ''verbose'' = lit ''1''
                           else CC_Verbose cfg),
             CC_PprofAddr = setting m ''pprof-addr'' (CC_PprofAddr cfg) \<rparr>))"

definition LoadConfig :: "bytes \<Rightarrow> bytes option \<Rightarrow> ClientConfig" where
  "LoadConfig hostname content = snd (loadINI content (DefaultConfig hostname))"

section \<open>Writing the file\<close>

record CfgTexts =
  CfgHeader :: bytes
  CfgServerHint :: bytes
  CfgNameHint :: bytes
  CfgRoomHint :: bytes
  CfgPassHint :: bytes

definition key_line :: "string \<Rightarrow> bytes \<Rightarrow> bytes" where
  "key_line key v = lit key @ 61 # v"

definition config_lines :: "CfgTexts \<Rightarrow> ClientConfig \<Rightarrow> bytes list" where
  "config_lines t cfg =
     [CfgHeader t, CfgServerHint t] @
     (case SplitHostPort (CC_ServerAddr cfg) of
        Some (host, port) \<Rightarrow> [key_line ''server'' host, key_line ''port'' port]
      | None \<Rightarrow> [key_line ''server'' (CC_ServerAddr cfg)]) @
     [CfgNameHint t, key_line ''name'' (CC_PlayerName cfg),
      CfgRoomHint t, key_line ''room'' (CC_RoomID cfg),
      CfgPassHint t, key_line ''password'' (CC_RoomPassword cfg),
      lit ''# Language (zh or en)'', key_line ''lang'' (CC_Lang cfg),
      lit ''# Tunnel MTU (576-9000, default 1400)'', key_line ''mtu'' (itoa (CC_MTU cfg)),
      lit ''# Log file path (empty = stderr only)'', key_line ''log-file'' (CC_LogFile cfg),
      lit ''# Verbose logging (true / false)'',
      key_line ''verbose'' (if CC_Verbose cfg then lit ''true'' else lit ''false''),
      lit ''# pprof HTTP address for runtime profiling (empty = disabled)'',
      key_line ''pprof-addr'' (CC_PprofAddr cfg)]"

definition SaveConfig :: "CfgTexts \<Rightarrow> ClientConfig \<Rightarrow> bytes" where
  "SaveConfig t cfg = concat (map (\<lambda>l. l @ [10]) (config_lines t cfg))"

definition CreateDefaultConfig :: "CfgTexts \<Rightarrow> bytes \<Rightarrow> bytes" where
  "CreateDefaultConfig t hostname =
     SaveConfig t \<lparr> CC_ServerAddr = [], CC_PlayerName = hostname, CC_RoomID = lit ''default'', CC_RoomPassword = [],
       CC_Lang = [], CC_MTU = 0, CC_LogFile = [], CC_Verbose = False, CC_PprofAddr = [] \<rparr>"

section \<open>Trimming\<close>

lemma trim_with_skip:
  assumes "\<forall>w\<in>set ws. c \<notin> set w"
  shows "trim_with ws (xs @ c # ys) = trim_with ws xs @ c # ys"
  using assms
proof (induction ws xs rule: trim_with.induct)
  case (1 ws s)
  have eq: "w \<in> set ws \<Longrightarrow> take (length w) (s @ c # ys) = w \<longleftrightarrow> take (length w) s = w" for w
  proof -
    assume w: "w \<in> set ws"
    show ?thesis
    proof (cases "length w \<le> length s")
      case False
      have "take (length w) (s @ c # ys) = w \<Longrightarrow> c \<in> set w"
      proof -
        assume t: "take (length w) (s @ c # ys) = w"
        have "c \<in> set (take (length w) (s @ c # ys))" using False by (cases "length w - length s") auto
        then show "c \<in> set w" unfolding t .
      qed
      then have "take (length w) (s @ c # ys) \<noteq> w" using w 1(2) by blast
      moreover have "take (length w) s \<noteq> w"
      proof
        assume "take (length w) s = w"
        then have "length w \<le> length s" by (metis length_take min.cobounded1)
        then show False using False by simp
      qed
      ultimately show ?thesis by simp
    qed simp
  qed
  have f: "find (\<lambda>w. w \<noteq> [] \<and> take (length w) (s @ c # ys) = w) ws = find (\<lambda>w. w \<noteq> [] \<and> take (length w) s = w) ws"
    using eq by (intro find_cong) auto
  show ?case
  proof (cases "find (\<lambda>w. w \<noteq> [] \<and> take (length w) s = w) ws")
    case None
    then show ?thesis using f by (simp add: trim_with.simps[of ws s] trim_with.simps[of ws "s @ c # ys"])
  next
    case (Some w)
    then have "take (length w) s = w" by (auto simp: find_Some_iff)
    then have "length w \<le> length s" by (metis length_take min.cobounded1)
    then show ?thesis using Some f 1
      by (simp add: trim_with.simps[of ws s] trim_with.simps[of ws "s @ c # ys"])
  qed
qed

lemma trim_with_Nil [simp]: "trim_with ws [] = []"
proof -
  have "find (\<lambda>w. w \<noteq> [] \<and> take (length w) [] = w) ws = None" by (auto simp: find_None_iff)
  then show ?thesis by (simp add: trim_with.simps)
qed

lemma trim_with_length: "length (trim_with ws s) \<le> length s \<and> (length (trim_with ws s) = length s \<longrightarrow> trim_with ws s = s)"
proof (induction ws s rule: trim_with.induct)
  case (1 ws s)
  show ?case
  proof (cases "find (\<lambda>w. w \<noteq> [] \<and> take (length w) s = w) ws")
    case None
    then show ?thesis by (simp add: trim_with.simps[of ws s])
  next
    case (Some w)
    then have w: "w \<noteq> []" "take (length w) s = w" by (auto simp: find_Some_iff)
    then have "length (drop (length w) s) < length s" by (cases s) auto
    then show ?thesis using 1[OF Some] Some by (auto simp: trim_with.simps[of ws s])
  qed
qed

text \<open>A byte that occurs in no white space stops the trimming from both sides.\<close>

definition solid :: "byte \<Rightarrow> bool" where
  "solid c \<longleftrightarrow> (\<forall>w\<in>set spaces. c \<notin> set w)"

lemma trimmed_right:
  assumes "TrimSpace v = v"
  shows "trim_with (map rev spaces) (rev v) = rev v"
proof -
  let ?l = "trim_with spaces v"
  have "length v \<le> length ?l"
    using assms trim_with_length[of "map rev spaces" "rev ?l"] by (metis TrimSpace_def length_rev)
  then have "?l = v" using trim_with_length[of spaces v] by simp
  then show ?thesis using assms by (metis TrimSpace_def rev_rev_ident)
qed

lemma TrimSpace_keyed:
  assumes "solid a" "solid b" "TrimSpace v = v"
  shows "TrimSpace (a # k @ b # v) = a # k @ b # v"
proof -
  have l: "trim_with spaces (a # k @ b # v) = a # k @ b # v"
    using trim_with_skip[of spaces a "[]" "k @ b # v"] assms(1) by (simp add: solid_def)
  have "trim_with (map rev spaces) (rev v @ b # rev (a # k)) = rev v @ b # rev (a # k)"
    using trim_with_skip[of "map rev spaces" b "rev v" "rev (a # k)"] trimmed_right[OF assms(3)] assms(2)
    by (simp add: solid_def)
  then show ?thesis by (simp add: TrimSpace_def l)
qed

lemma TrimSpace_solid:
  assumes "list_all solid (a # k)"
  shows "TrimSpace (a # k) = a # k"
proof -
  have "TrimSpace [] = []" by (simp add: TrimSpace_def)
  then show ?thesis
    using TrimSpace_keyed[of a a "[]" "butlast k"] assms
  proof (cases k rule: rev_cases)
    case Nil
    then show ?thesis using trim_with_skip[of spaces a "[]" "[]"] trim_with_skip[of "map rev spaces" a "[]" "[]"] assms
      by (simp add: TrimSpace_def solid_def)
  next
    case (snoc k' b)
    then show ?thesis using TrimSpace_keyed[of a b "[]" k'] assms \<open>TrimSpace [] = []\<close> by simp
  qed
qed

lemma TrimSpace_hd:
  assumes "solid a"
  shows "TrimSpace (a # k) \<noteq> [] \<and> hd (TrimSpace (a # k)) = a"
proof -
  have l: "trim_with spaces (a # k) = a # k"
    using trim_with_skip[of spaces a "[]" k] assms by (simp add: solid_def)
  have "trim_with (map rev spaces) (rev k @ a # []) = trim_with (map rev spaces) (rev k) @ [a]"
    using trim_with_skip[of "map rev spaces" a "rev k" "[]"] assms by (simp add: solid_def)
  then show ?thesis by (simp add: TrimSpace_def l)
qed

section \<open>The file\<close>

lemma solid_letters:
  "solid 35" "solid 61" "97 \<le> c \<Longrightarrow> c \<le> 122 \<Longrightarrow> solid c" "is_digit c \<Longrightarrow> solid c" "solid 45"
  by (auto simp: solid_def spaces_def is_digit_def)

lemma split_on_lines:
  "list_all (\<lambda>l. c \<notin> set l) ls \<Longrightarrow> split_on c (concat (map (\<lambda>l. l @ [c]) ls)) = ls @ [[]]"
proof (induction ls)
  case (Cons l ls)
  have "c \<notin> set l \<Longrightarrow> split_on c (l @ c # xs) = l # split_on c xs" for xs
    by (induction l) auto
  then show ?case using Cons by simp
qed simp

lemma parse_empty: "parse_line [] m = m"
  by (simp add: parse_line_def TrimSpace_def)

lemma parse_comment: "parse_line (35 # l) m = m"
  using TrimSpace_hd[OF solid_letters(1), of l] by (simp add: parse_line_def Let_def)

text \<open>The keys are lower-case letters and hyphens.\<close>

definition key_ok :: "bytes \<Rightarrow> bool" where
  "key_ok k \<longleftrightarrow> k \<noteq> [] \<and> list_all (\<lambda>c. (97 \<le> c \<and> c \<le> 122) \<or> c = 45) k"

lemma parse_key:
  assumes "key_ok (lit key)" "TrimSpace v = v"
  shows "parse_line (key_line key v) m = mput (lit key) v m"
proof -
  obtain a k where k: "lit key = a # k" using assms(1) by (cases "lit key") (auto simp: key_ok_def)
  have s: "list_all solid (a # k)" using assms(1) k solid_letters by (auto simp: key_ok_def list_all_iff)
  have ne: "61 \<notin> set (a # k)" "a \<noteq> 35" using assms(1) k by (auto simp: key_ok_def list_all_iff)
  have t: "TrimSpace (key_line key v) = key_line key v"
    using TrimSpace_keyed[of a 61 v k] s assms(2) solid_letters(2) by (simp add: key_line_def k)
  have w: "takeWhile (\<lambda>x. x \<noteq> 61) (a # k @ 61 # v) = a # k"
    using ne by (auto simp: takeWhile_append)
  have "cut_at 61 (key_line key v) = Some (lit key, v)"
    unfolding cut_at_def index_of_def key_line_def k append_Cons w by (simp add: Let_def)
  then show ?thesis
    using t ne(2) TrimSpace_solid[OF s] assms(2) by (simp add: parse_line_def key_line_def k Let_def)
qed

lemma SplitHostPort_JoinHostPort:
  assumes "91 \<notin> set h" "93 \<notin> set h" "58 \<notin> set p" "91 \<notin> set p" "93 \<notin> set p"
  shows "SplitHostPort (JoinHostPort h p) = Some (h, p)"
proof (cases "58 \<in> set h")
  case False
  then show ?thesis using SplitHostPort_plain[of h p] assms by (simp add: JoinHostPort_def)
next
  case True
  have j: "JoinHostPort h p = (91 # h @ [93]) @ 58 # p" using True by (simp add: JoinHostPort_def)
  have l: "last_index_of 58 (JoinHostPort h p) = Some (length h + 2)"
    unfolding j using last_index_of_append[of 58 p "91 # h @ [93]"] assms(3) by simp
  have w: "takeWhile (\<lambda>x. x \<noteq> 93) (91 # h @ 93 # 58 # p) = 91 # h"
    using assms(2) by (auto simp: takeWhile_append)
  have e: "index_of 93 (JoinHostPort h p) = Some (length h + 1)"
    unfolding index_of_def j append_Cons append_assoc append_Nil w by (simp add: Let_def)
  show ?thesis using assms l e by (simp add: SplitHostPort_def Let_def j)
qed

text \<open>A value that survives the file: no line break, no white space at its ends.\<close>

definition value_ok :: "bytes \<Rightarrow> bool" where
  "value_ok v \<longleftrightarrow> 10 \<notin> set v \<and> TrimSpace v = v"

definition texts_ok :: "CfgTexts \<Rightarrow> bool" where
  "texts_ok t \<longleftrightarrow> list_all (\<lambda>l. l \<noteq> [] \<and> hd l = 35 \<and> 10 \<notin> set l)
     [CfgHeader t, CfgServerHint t, CfgNameHint t, CfgRoomHint t, CfgPassHint t]"

lemma key_names:
  "lit ''server'' = [115, 101, 114, 118, 101, 114]" "lit ''port'' = [112, 111, 114, 116]"
  "lit ''name'' = [110, 97, 109, 101]" "lit ''room'' = [114, 111, 111, 109]"
  "lit ''password'' = [112, 97, 115, 115, 119, 111, 114, 100]" "lit ''lang'' = [108, 97, 110, 103]"
  "lit ''mtu'' = [109, 116, 117]" "lit ''log-file'' = [108, 111, 103, 45, 102, 105, 108, 101]"
  "lit ''verbose'' = [118, 101, 114, 98, 111, 115, 101]"
  "lit ''pprof-addr'' = [112, 112, 114, 111, 102, 45, 97, 100, 100, 114]"
  "lit ''true'' = [116, 114, 117, 101]" "lit ''false'' = [102, 97, 108, 115, 101]" "lit ''1'' = [49]"
  by (simp_all add: lit_def)

lemma value_ok_solid:
  assumes "list_all solid (a # k)" shows "value_ok (a # k)"
proof -
  have "\<not> solid 10" by (simp add: solid_def spaces_def)
  then show ?thesis using assms TrimSpace_solid[OF assms] by (auto simp: value_ok_def list_all_iff)
qed

lemma value_ok_itoa: "value_ok (itoa n)"
proof -
  have d: "list_all solid (dec m)" for m
    using dec_digits solid_letters(4) by (auto simp: list_all_iff)
  show ?thesis
  proof (cases "itoa n")
    case Nil
    then show ?thesis by (simp add: value_ok_def TrimSpace_def)
  next
    case (Cons a k)
    then have "list_all solid (a # k)"
      using d[of "nat (- n)"] d[of "nat n"] solid_letters(5) by (auto simp: itoa_def split: if_splits)
    then show ?thesis using value_ok_solid Cons by simp
  qed
qed

lemma parse_comment_line: "l \<noteq> [] \<and> hd l = 35 \<Longrightarrow> parse_line l m = m"
  by (cases l) (auto simp: parse_comment)

lemma fixed_comments:
  "hd (lit ''# Language (zh or en)'') = 35" "10 \<notin> set (lit ''# Language (zh or en)'')"
  "hd (lit ''# Tunnel MTU (576-9000, default 1400)'') = 35"
  "10 \<notin> set (lit ''# Tunnel MTU (576-9000, default 1400)'')"
  "hd (lit ''# Log file path (empty = stderr only)'') = 35"
  "10 \<notin> set (lit ''# Log file path (empty = stderr only)'')"
  "hd (lit ''# Verbose logging (true / false)'') = 35" "10 \<notin> set (lit ''# Verbose logging (true / false)'')"
  "hd (lit ''# pprof HTTP address for runtime profiling (empty = disabled)'') = 35"
  "10 \<notin> set (lit ''# pprof HTTP address for runtime profiling (empty = disabled)'')"
  by (simp_all add: lit_def)

lemma lit_Nil_iff: "lit s = [] \<longleftrightarrow> s = []"
  by (simp add: lit_def)

lemma keys_ok:
  "key_ok (lit ''server'')" "key_ok (lit ''port'')" "key_ok (lit ''name'')" "key_ok (lit ''room'')"
  "key_ok (lit ''password'')" "key_ok (lit ''lang'')" "key_ok (lit ''mtu'')" "key_ok (lit ''log-file'')"
  "key_ok (lit ''verbose'')" "key_ok (lit ''pprof-addr'')"
  by (simp_all add: key_ok_def key_names)

text \<open>What the file holds, as the parser sees it.\<close>

definition config_map :: "bytes \<Rightarrow> bytes \<Rightarrow> ClientConfig \<Rightarrow> (bytes \<times> bytes) list" where
  "config_map host port cfg =
     fold (\<lambda>(k, v). mput (lit k) v)
       [(''server'', host), (''port'', port), (''name'', CC_PlayerName cfg), (''room'', CC_RoomID cfg),
        (''password'', CC_RoomPassword cfg), (''lang'', CC_Lang cfg), (''mtu'', itoa (CC_MTU cfg)),
        (''log-file'', CC_LogFile cfg),
        (''verbose'', if CC_Verbose cfg then lit ''true'' else lit ''false''), (''pprof-addr'', CC_PprofAddr cfg)] []"

lemma parse_saved:
  assumes "texts_ok t" "SplitHostPort (CC_ServerAddr cfg) = Some (host, port)"
    "list_all value_ok [host, port, CC_PlayerName cfg, CC_RoomID cfg, CC_RoomPassword cfg, CC_Lang cfg,
       CC_LogFile cfg, CC_PprofAddr cfg]"
  shows "parseFile (Some (SaveConfig t cfg)) = Some (config_map host port cfg)"
proof -
  let ?v = "if CC_Verbose cfg then lit ''true'' else lit ''false''"
  have v: "value_ok ?v" using value_ok_solid solid_letters(3) by (auto simp: key_names)
  have "10 \<notin> set (lit k) \<Longrightarrow> value_ok x \<Longrightarrow> 10 \<notin> set (key_line k x)" for k x
    by (simp add: key_line_def value_ok_def)
  then have n: "list_all (\<lambda>l. 10 \<notin> set l) (config_lines t cfg)"
    using assms v value_ok_itoa[of "CC_MTU cfg"] fixed_comments
    by (simp add: config_lines_def texts_ok_def key_names)
  have tv: "TrimSpace x = x" if "value_ok x" for x using that by (simp add: value_ok_def)
  have c: "parse_line (CfgHeader t) m = m" "parse_line (CfgServerHint t) m = m" "parse_line (CfgNameHint t) m = m"
    "parse_line (CfgRoomHint t) m = m" "parse_line (CfgPassHint t) m = m" for m
    using assms(1) by (auto simp: texts_ok_def intro!: parse_comment_line)
  show ?thesis
    unfolding parseFile_def SaveConfig_def option.map split_on_lines[OF n]
    using assms(2,3) v value_ok_itoa[of "CC_MTU cfg"]
    by (simp add: config_lines_def config_map_def c parse_comment_line fixed_comments lit_Nil_iff parse_key keys_ok tv
        parse_empty)
qed

definition or_else :: "bytes \<Rightarrow> bytes \<Rightarrow> bytes" where
  "or_else v old = (if v \<noteq> [] then v else old)"

text \<open>
  C29: Loading a saved configuration gives it back: if the server address is a host and a port
  and no value has line breaks or outer white space, then reading the written
  file over any defaults gives the saved settings, an empty text meaning the default.
\<close>

theorem config_roundtrip:
  assumes "texts_ok t" "CC_ServerAddr cfg = JoinHostPort host port" "host \<noteq> []" "port \<noteq> []"
    "91 \<notin> set host" "93 \<notin> set host" "58 \<notin> set port" "91 \<notin> set port" "93 \<notin> set port"
    "SplitHostPort host = None" "MinMTU \<le> CC_MTU cfg" "CC_MTU cfg \<le> MaxMTU"
    "list_all value_ok [host, port, CC_PlayerName cfg, CC_RoomID cfg, CC_RoomPassword cfg, CC_Lang cfg,
       CC_LogFile cfg, CC_PprofAddr cfg]"
  shows "loadINI (Some (SaveConfig t cfg)) base =
    (True, cfg\<lparr> CC_PlayerName := or_else (CC_PlayerName cfg) (CC_PlayerName base),
       CC_RoomID := or_else (CC_RoomID cfg) (CC_RoomID base),
       CC_RoomPassword := or_else (CC_RoomPassword cfg) (CC_RoomPassword base),
       CC_Lang := or_else (CC_Lang cfg) (CC_Lang base),
       CC_LogFile := or_else (CC_LogFile cfg) (CC_LogFile base),
       CC_PprofAddr := or_else (CC_PprofAddr cfg) (CC_PprofAddr base) \<rparr>)"
proof -
  have sp: "SplitHostPort (CC_ServerAddr cfg) = Some (host, port)"
    using SplitHostPort_JoinHostPort[of host port] assms(2,5-9) by simp
  have m: "parseFile (Some (SaveConfig t cfg)) = Some (config_map host port cfg)"
    by (rule parse_saved[OF assms(1) sp assms(13)])
  have "hd host \<noteq> 91" using assms(3,5) by (cases host) auto
  then have cp: "combinePort host port = CC_ServerAddr cfg"
    using assms(2-4,10) by (simp add: combinePort_def Let_def)
  have mtu: "itoa (CC_MTU cfg) \<noteq> []" "atoi (itoa (CC_MTU cfg)) = Some (CC_MTU cfg)"
    using atoi_itoa[of "CC_MTU cfg"] assms(11,12) dec_nonempty
    by (simp_all add: itoa_def MinMTU_def MaxMTU_def)
  have "ini_value (config_map host port cfg) ''server'' = host" "ini_value (config_map host port cfg) ''port'' = port"
    "ini_value (config_map host port cfg) ''name'' = CC_PlayerName cfg"
    "ini_value (config_map host port cfg) ''room'' = CC_RoomID cfg"
    "ini_value (config_map host port cfg) ''password'' = CC_RoomPassword cfg"
    "ini_value (config_map host port cfg) ''lang'' = CC_Lang cfg"
    "ini_value (config_map host port cfg) ''mtu'' = itoa (CC_MTU cfg)"
    "ini_value (config_map host port cfg) ''log-file'' = CC_LogFile cfg"
    "ini_value (config_map host port cfg) ''verbose'' = (if CC_Verbose cfg then lit ''true'' else lit ''false'')"
    "ini_value (config_map host port cfg) ''pprof-addr'' = CC_PprofAddr cfg"
    by (simp_all add: ini_value_def config_map_def key_names)
  then show ?thesis
    using assms(3,11,12) cp mtu
    by (simp add: loadINI_def m setting_def or_else_def lit_Nil_iff key_names)
qed

definition sample_texts :: CfgTexts where
  "sample_texts = \<lparr> CfgHeader = [35], CfgServerHint = [35], CfgNameHint = [35], CfgRoomHint = [35], CfgPassHint = [35] \<rparr>"

definition sample_conf :: ClientConfig where
  "sample_conf = (DefaultConfig (lit ''pc''))\<lparr> CC_ServerAddr := lit ''[::1]:4700'' \<rparr>"

theorem config_roundtrip_witness:
  "loadINI (Some (SaveConfig sample_texts sample_conf)) (DefaultConfig (lit ''pc'')) = (True, sample_conf)"
proof -
  have v: "value_ok []" "value_ok (lit ''::1'')" "value_ok (lit ''4700'')" "value_ok (lit ''pc'')"
    "value_ok (lit ''default'')" "value_ok (lit ''zh'')"
    by code_simp+
  show ?thesis
    using config_roundtrip[of sample_texts sample_conf "lit ''::1''" "lit ''4700''" "DefaultConfig (lit ''pc'')"] v
    by (simp add: sample_texts_def texts_ok_def sample_conf_def DefaultConfig_def JoinHostPort_def SplitHostPort_def
        last_index_of_def index_of_def lit_def MinMTU_def MaxMTU_def DefaultMTU_def or_else_def)
qed

section \<open>Validation\<close>

lemma undec_ge: "undec n p = Some k \<Longrightarrow> n \<le> k"
  by (induction p arbitrary: n) (fastforce split: if_splits)+

lemma port_num_undec: "n \<le> 65535 \<Longrightarrow> port_num n p = Inr k \<longleftrightarrow> undec n p = Some k \<and> k \<le> 65535"
proof (induction p arbitrary: n)
  case (Cons c p)
  then show ?case using undec_ge[of "10 * n + digit_val c" p k] by (auto simp: mult.commute)
qed auto

text \<open>
  A configuration is accepted exactly when the server address splits into a non-empty host
  and a decimal port from 1 to 65535, the room ID has 1 to 32 bytes and the MTU is in range.
\<close>

theorem Validate_iff:
  "Validate c = None \<longleftrightarrow>
     (\<exists>host port n. SplitHostPort (CC_ServerAddr c) = Some (host, port) \<and> host \<noteq> [] \<and> port \<noteq> [] \<and>
        undec 0 port = Some n \<and> 1 \<le> n \<and> n \<le> 65535) \<and>
     1 \<le> length (CC_RoomID c) \<and> length (CC_RoomID c) \<le> 32 \<and> MinMTU \<le> CC_MTU c \<and> CC_MTU c \<le> MaxMTU"
proof -
  have "ValidateServerAddr a = None \<longleftrightarrow>
     (\<exists>host port n. SplitHostPort a = Some (host, port) \<and> host \<noteq> [] \<and> port \<noteq> [] \<and>
        undec 0 port = Some n \<and> 1 \<le> n \<and> n \<le> 65535)" for a
  proof (cases "SplitHostPort a")
    case None
    then show ?thesis by (simp add: ValidateServerAddr_def)
  next
    case (Some hp)
    then have "a \<noteq> []" by (auto simp: SplitHostPort_def last_index_of_def index_of_def)
    moreover obtain h p where "hp = (h, p)" by (cases hp)
    moreover have "(\<exists>n. port_num 0 p = Inr n \<and> 1 \<le> n) \<longleftrightarrow> (\<exists>n. undec 0 p = Some n \<and> 1 \<le> n \<and> n \<le> 65535)"
      using port_num_undec[of 0 p] by auto
    ultimately show ?thesis
      using Some by (cases "port_num 0 p") (auto simp: ValidateServerAddr_def)
  qed
  moreover have "Validate c = None \<longleftrightarrow> ValidateServerAddr (CC_ServerAddr c) = None \<and>
     1 \<le> length (CC_RoomID c) \<and> length (CC_RoomID c) \<le> 32 \<and> MinMTU \<le> CC_MTU c \<and> CC_MTU c \<le> MaxMTU"
    by (auto simp: Validate_def not_less Suc_le_eq split: option.split)
  ultimately show ?thesis by (simp only:)
qed

end
