(* ===== verification/Tunnel.thy ===== *)
theory Tunnel
  imports Transport Crypto NatProbe Pacing ConfigFile
begin

text \<open>
  The state of the client's tunnel (client/tunnel_types.go, tunnel.go) and its sending side:
  the two bounded channels and the sending loop, the construction of data packets
  (route.go) and the choice between the direct path and the relay.  A peer is a
  value in the map of peers: the map read without a lock and the authoritative one
  are the same object in the code.
\<close>

section \<open>Surroundings\<close>

text \<open>
  What a step takes from outside: the clock, the order in which a map is visited,
  chacha20poly1305.New, the random start values of the three ciphers, name resolution, the
  recycled objects of the two pools and whether the system calls succeed.
\<close>

record CEnv =
  N_now :: int
  N_ord :: "ipkey list \<Rightarrow> ipkey list"
  N_newAead :: "bytes \<Rightarrow> AEAD option"
  N_rand :: "nat \<Rightarrow> bytes option"
  N_resolve :: "bytes \<Rightarrow> UDPAddr option"
  N_payload :: PooledPayload
  N_stale :: bytes
  N_writeOK :: bool
  N_tunOK :: bool

text \<open>\<open>PktBufGet(n)[:n]\<close>: \<open>n\<close> bytes with the content of an earlier use.\<close>

definition pkt_buf :: "CEnv \<Rightarrow> nat \<Rightarrow> bytes" where
  "pkt_buf ev n = take n (N_stale ev @ replicate n 0)"

lemma length_pkt_buf [simp]: "length (pkt_buf ev n) = n"
  by (simp add: pkt_buf_def)

definition pkt_cap :: "nat \<Rightarrow> nat" where
  "pkt_cap n = (case buf_class n of None \<Rightarrow> n | Some i \<Rightarrow> class_size ! i)"

section \<open>State\<close>

type_synonym sendJob = "bytes \<times> UDPAddr option"

record tunJob =
  J_data :: bytes
  J_srcIP :: bytes
  J_dstIP :: bytes

definition tunChanSize :: nat where "tunChanSize = 2048"
definition sendChanSize :: nat where "sendChanSize = 8192"
definition ctrlChanSize :: nat where "ctrlChanSize = 256"

record Peer =
  P_VirtualIP :: ip
  P_PublicAddr :: "UDPAddr option"
  P_Username :: bytes
  P_NATType :: NATType
  P_DirectReach :: bool
  P_lastSeen :: int
  P_lastPunchBack :: int
  P_stale :: bool

text \<open>The update of the limiter is one atomic step, so its compare-and-swap succeeds.\<close>

definition tryRateLimitHolePunch :: "int \<Rightarrow> int \<Rightarrow> Peer \<Rightarrow> bool \<times> Peer" where
  "tryRateLimitHolePunch now backoff p =
     (if P_lastPunchBack p \<noteq> 0 \<and> now - P_lastPunchBack p < backoff then (False, p)
      else (True, p\<lparr> P_lastPunchBack := now \<rparr>))"

record TunConfig =
  TC_VirtualIP :: ip
  TC_SubnetMask :: bytes
  TC_ServerIP :: ip
  TC_MTU :: int

text \<open>A TUN device: how it was made, whether it is closed, and the packets written to it.\<close>

record TunDevice =
  Dev_cfg :: TunConfig
  Dev_closed :: bool
  Dev_written :: "bytes list"

text \<open>
  The goroutines that punch holes, as work that is still to be done: a burst of packets to an
  address, the start of a multi-phase punch, or phases left and packets left in the phase.
\<close>

datatype punch = Burst UDPAddr nat | Start ip | Phase ip UDPAddr nat nat

record Tunnel =
  T_virtualIP :: ip
  T_serverIP :: ip
  T_serverIPKey :: "ipkey option"
  T_subnetMask :: bytes
  T_cachedSubnet :: "IPNet option"
  T_sessionToken :: token
  T_serverVersion :: u32
  T_username :: bytes
  T_roomID :: bytes
  T_roomPass :: bytes
  T_encCipher :: "Cipher option"
  T_decCipher :: "Cipher option"
  T_p2pCipher :: "Cipher option"
  T_decAvailable :: bool
  T_probeResult :: "NATProbeResult option"
  T_cachedPunchPacket :: "bytes option"
  T_probeDone :: bool
  T_probeRunning :: bool
  T_conn :: bool
  T_sockOpen :: bool
  T_sendCh :: "sendJob list"
  T_ctrlCh :: "sendJob list"
  T_tunCh :: "tunJob list"
  T_serverAddr :: "UDPAddr option"
  T_tunDev :: "TunDevice option"
  T_peers :: "(ipkey \<times> Peer) list"
  T_disconnected :: bool
  T_tunClosed :: bool
  T_sendLimiter :: clientSendLimiter
  T_lastServerResponse :: int
  T_sendErrors :: int
  T_tunDropped :: int
  T_cancelKicks :: bool
  T_tcpTransport :: "TCPTransport option"
  T_rebindAckCh :: "RebindAckPayload list"
  T_lastAssignedIP :: ip
  T_lastMTU :: int
  T_wire :: "(bytes \<times> UDPAddr) list"
  T_punches :: "punch list"

text \<open>
  \<open>T_conn\<close> tells whether the connection is set and \<open>T_sockOpen\<close> whether its socket is open.
  \<open>T_probeDone\<close> tells that no NAT probe is waited for (the channel is closed or nil).
  \<open>T_disconnected\<close> and \<open>T_tunClosed\<close> are the two sync.Once values.  \<open>T_wire\<close> is what was written
  to the socket, the last packet at the end.
\<close>

definition New :: "CEnv \<Rightarrow> ClientConfig \<Rightarrow> Tunnel" where
  "New ev cfg =
     \<lparr> T_virtualIP = [], T_serverIP = [], T_serverIPKey = None, T_subnetMask = [], T_cachedSubnet = None,
       T_sessionToken = zero_token, T_serverVersion = 0, T_username = CC_PlayerName cfg,
       T_roomID = CC_RoomID cfg, T_roomPass = CC_RoomPassword cfg, T_encCipher = None, T_decCipher = None,
       T_p2pCipher = None, T_decAvailable = False, T_probeResult = None, T_cachedPunchPacket = None,
       T_probeDone = True, T_probeRunning = False, T_conn = False, T_sockOpen = False, T_sendCh = [], T_ctrlCh = [], T_tunCh = [],
       T_serverAddr = None, T_tunDev = None, T_peers = [], T_disconnected = False, T_tunClosed = False,
       T_sendLimiter = newClientSendLimiter (N_now ev) (50 * 1024 * 1024 div 8) (512 * 1024),
       T_lastServerResponse = 0, T_sendErrors = 0, T_tunDropped = 0, T_cancelKicks = False,
       T_tcpTransport = None, T_rebindAckCh = [], T_lastAssignedIP = [], T_lastMTU = 0, T_wire = [],
       T_punches = [] \<rparr>"

section \<open>Sending\<close>

definition note_error :: "Tunnel \<Rightarrow> Tunnel" where
  "note_error t = t\<lparr> T_sendErrors := T_sendErrors t + 1 \<rparr>"

definition cl_writeUDP :: "CEnv \<Rightarrow> sendJob \<Rightarrow> Tunnel \<Rightarrow> Tunnel" where
  "cl_writeUDP ev job t =
     (case snd job of
        Some a \<Rightarrow> if T_sockOpen t \<and> N_writeOK ev then t\<lparr> T_wire := T_wire t @ [(fst job, a)] \<rparr> else note_error t
      | None \<Rightarrow> note_error t)"

definition sendUDP :: "CEnv \<Rightarrow> bytes \<Rightarrow> UDPAddr option \<Rightarrow> Tunnel \<Rightarrow> Tunnel" where
  "sendUDP ev data addr t =
     (let (ok, l) = limiter_allow (N_now ev) (int (length data)) (T_sendLimiter t);
          t1 = t\<lparr> T_sendLimiter := l \<rparr>
      in if \<not> ok then note_error t1
         else if length (T_sendCh t1) < sendChanSize then t1\<lparr> T_sendCh := T_sendCh t1 @ [(data, addr)] \<rparr>
         else note_error t1)"

definition sendCtrl :: "bytes \<Rightarrow> UDPAddr option \<Rightarrow> Tunnel \<Rightarrow> Tunnel" where
  "sendCtrl data addr t =
     (if length (T_ctrlCh t) < ctrlChanSize then t\<lparr> T_ctrlCh := T_ctrlCh t @ [(data, addr)] \<rparr>
      else note_error t)"

text \<open>
  \<open>drainBatch\<close> fills a batch of 64 from the control channel and then from the data channel.
  A pass of \<open>sendLoop\<close> takes the first job from the channel the select picks.
\<close>

definition batchSize :: nat where "batchSize = 64"

definition drainBatch :: "sendJob list \<Rightarrow> Tunnel \<Rightarrow> sendJob list \<times> Tunnel" where
  "drainBatch batch t =
     (let k = batchSize - length batch; c = take k (T_ctrlCh t);
          m = batchSize - length batch - length c; d = take m (T_sendCh t)
      in (batch @ c @ d, t\<lparr> T_ctrlCh := drop k (T_ctrlCh t), T_sendCh := drop m (T_sendCh t) \<rparr>))"

definition write_batch :: "CEnv \<Rightarrow> sendJob list \<times> Tunnel \<Rightarrow> Tunnel" where
  "write_batch ev bt = fold (cl_writeUDP ev) (fst bt) (snd bt)"

definition sendLoop_ctrl :: "CEnv \<Rightarrow> Tunnel \<Rightarrow> Tunnel" where
  "sendLoop_ctrl ev t =
     (case T_ctrlCh t of [] \<Rightarrow> t
      | j # js \<Rightarrow> write_batch ev (drainBatch [j] (t\<lparr> T_ctrlCh := js \<rparr>)))"

definition sendLoop_data :: "CEnv \<Rightarrow> Tunnel \<Rightarrow> Tunnel" where
  "sendLoop_data ev t =
     (case T_sendCh t of [] \<Rightarrow> t
      | j # js \<Rightarrow> write_batch ev (drainBatch [j] (t\<lparr> T_sendCh := js \<rparr>)))"

text \<open>
  The drain after cancellation: the control packets, then both channels until the timer of
  200 ms ends it after \<open>n\<close> packets, in the order \<open>pick\<close> of the select (True is the data channel).
\<close>

fun drain_rest :: "CEnv \<Rightarrow> bool list \<Rightarrow> Tunnel \<Rightarrow> Tunnel" where
  "drain_rest ev [] t = t"
| "drain_rest ev (p # ps) t =
     (case (T_sendCh t, T_ctrlCh t) of
        ([], []) \<Rightarrow> t
      | (j # js, []) \<Rightarrow> drain_rest ev ps (cl_writeUDP ev j (t\<lparr> T_sendCh := js \<rparr>))
      | ([], c # cs) \<Rightarrow> drain_rest ev ps (cl_writeUDP ev c (t\<lparr> T_ctrlCh := cs \<rparr>))
      | (j # js, c # cs) \<Rightarrow>
          if p then drain_rest ev ps (cl_writeUDP ev j (t\<lparr> T_sendCh := js \<rparr>))
          else drain_rest ev ps (cl_writeUDP ev c (t\<lparr> T_ctrlCh := cs \<rparr>)))"

text \<open>
  The drain after cancellation.  It goes on until its timer of 200 ms fires, which may be after any number of
  packets (the length of \<open>picks\<close>); where both channels are empty it waits, and packets that other goroutines
  put in meanwhile are those of a further call.
\<close>

definition sendLoop_stop :: "CEnv \<Rightarrow> bool list \<Rightarrow> Tunnel \<Rightarrow> Tunnel" where
  "sendLoop_stop ev picks t =
     drain_rest ev picks (fold (cl_writeUDP ev) (T_ctrlCh t) (t\<lparr> T_ctrlCh := [] \<rparr>))"

section \<open>Data packets (route.go)\<close>

definition set_at :: "bytes \<Rightarrow> nat \<Rightarrow> byte \<Rightarrow> bytes res" where
  "set_at buf i b = (if i < length buf then Ok (buf[i := b]) else Panic)"

text \<open>\<open>copy(dst[lo:lo+4], ip.To4())\<close>; nil copies nothing.\<close>

definition copy_ip :: "bytes \<Rightarrow> nat \<Rightarrow> ip \<Rightarrow> bytes res" where
  "copy_ip buf lo i =
     (if length buf < lo + 4 then Panic
      else case To4 i of None \<Rightarrow> Ok buf | Some x \<Rightarrow> copy_at buf lo x)"

definition buildDataHeader :: "bytes \<Rightarrow> ip \<Rightarrow> ip \<Rightarrow> byte \<Rightarrow> token \<Rightarrow> (nat \<times> bytes) res" where
  "buildDataHeader dst srcIP dstIP flags0 tok =
     (let flags = (if tok \<noteq> zero_token then flags0 OR DataFlagHasToken else flags0) in
      bind_res (set_at dst 0 ProtocolVersion) (\<lambda>d.
      bind_res (set_at d 1 TypeData) (\<lambda>d.
      bind_res (copy_ip d 2 srcIP) (\<lambda>d.
      bind_res (copy_ip d 6 dstIP) (\<lambda>d.
      bind_res (set_at d 10 DataFormatVersion) (\<lambda>d.
      bind_res (set_at d 11 flags) (\<lambda>d.
      if has_token flags then bind_res (copy_at d 12 tok) (\<lambda>d. Ok (12 + DataTokenLen, d)) else Ok (12, d))))))))"

definition buildDataPacket :: "CEnv \<Rightarrow> ip \<Rightarrow> ip \<Rightarrow> bytes \<Rightarrow> byte \<Rightarrow> token \<Rightarrow> bytes res" where
  "buildDataPacket ev srcIP dstIP data flags0 tok =
     (let flags = (if tok \<noteq> zero_token then flags0 OR DataFlagHasToken else flags0);
          tokenLen = (if tok \<noteq> zero_token then 16 else 0);
          sz = HeaderLen + DataHeaderLen + tokenLen + length data + ChecksumLen
      in bind_res (buildDataHeader (pkt_buf ev sz) srcIP dstIP flags tok) (\<lambda>(off, d).
         bind_res (copy_at d off data) (\<lambda>d. let off2 = off + length data in
         bind_res (slice d 0 off2) (\<lambda>body.
         if length d < off2 + 4 then Panic
         else Ok (take off2 d @ put32 (ChecksumIEEE body) @ drop (off2 + 4) d)))))"

definition buildEncryptedDataPacket ::
    "CEnv \<Rightarrow> ip \<Rightarrow> ip \<Rightarrow> bytes \<Rightarrow> Cipher \<Rightarrow> byte \<Rightarrow> token \<Rightarrow> (bytes \<times> Cipher) res" where
  "buildEncryptedDataPacket ev srcIP dstIP ipkt cip flags0 tok =
     (let flags = (if tok \<noteq> zero_token then flags0 OR DataFlagHasToken else flags0);
          tokenLen = (if tok \<noteq> zero_token then 16 else 0);
          sz = HeaderLen + DataHeaderLen + tokenLen + Overhead + length ipkt
      in bind_res (buildDataHeader (pkt_buf ev sz) srcIP dstIP flags tok) (\<lambda>(off, d).
         bind_res (slice d 0 off) (\<lambda>hdr.
         let ((e, out), cip1) = EncryptTo hdr (pkt_cap sz - off) (Some ipkt) cip in
         case e of Some _ \<Rightarrow> Ok ([], cip1) | None \<Rightarrow> Ok (out, cip1))))"

definition buildPacket ::
    "CEnv \<Rightarrow> ip \<Rightarrow> ip \<Rightarrow> bytes \<Rightarrow> Cipher option \<Rightarrow> byte \<Rightarrow> token \<Rightarrow> (bytes \<times> Cipher option) res" where
  "buildPacket ev srcIP dstIP data cip flags tok =
     (case cip of
        Some c \<Rightarrow> bind_res (buildEncryptedDataPacket ev srcIP dstIP data c flags tok) (\<lambda>(p, c1). Ok (p, Some c1))
      | None \<Rightarrow> bind_res (buildDataPacket ev srcIP dstIP data flags tok) (\<lambda>p. Ok (p, None)))"

section \<open>Routing\<close>

text \<open>The mask is indexed up to its fourth byte; an address without a long form has no first byte.\<close>

definition isRelayTarget :: "ip \<Rightarrow> IPNet option \<Rightarrow> bool res" where
  "isRelayTarget dst subnet =
     (case To4 dst of
        Some ip4 \<Rightarrow>
          if ip_equal ip4 (IPv4 255 255 255 255) then Ok True
          else
            bind_res
              (case subnet of None \<Rightarrow> Ok False
               | Some n \<Rightarrow>
                   (case To4 (IPNet_IP n) of None \<Rightarrow> Ok False
                    | Some s \<Rightarrow>
                        if length (IPNet_Mask n) < 4 then Panic
                        else Ok (ip_equal ip4 (map2 (\<lambda>x m. x OR NOT m) s (take 4 (IPNet_Mask n))))))
              (\<lambda>bcast. Ok (bcast \<or> 224 \<le> ip4 ! 0 \<and> ip4 ! 0 \<le> 239))
      | None \<Rightarrow> (case To16 dst of None \<Rightarrow> Panic | Some d \<Rightarrow> Ok (d ! 0 = 0xFF)))"

definition send_packet :: "CEnv \<Rightarrow> bytes \<Rightarrow> ip \<Rightarrow> ip \<Rightarrow> token \<Rightarrow> UDPAddr option \<Rightarrow> Tunnel \<Rightarrow> Tunnel res" where
  "send_packet ev data srcIP dstIP tok addr t =
     bind_res (buildPacket ev srcIP dstIP data (T_p2pCipher t) 0 tok) (\<lambda>(p, c).
       Ok (sendUDP ev p addr (t\<lparr> T_p2pCipher := c \<rparr>)))"

definition sendToServer :: "CEnv \<Rightarrow> bytes \<Rightarrow> ip \<Rightarrow> ip \<Rightarrow> token \<Rightarrow> UDPAddr option \<Rightarrow> Tunnel \<Rightarrow> Tunnel res" where
  "sendToServer ev data srcIP dstIP tok serverAddr t = send_packet ev data srcIP dstIP tok serverAddr t"

text \<open>The token a packet carries: none for servers older than 1.7.\<close>

definition route_token :: "Tunnel \<Rightarrow> token" where
  "route_token t = (if ucast MinTokenVersion \<le> T_serverVersion t then T_sessionToken t else zero_token)"

definition routePacket :: "CEnv \<Rightarrow> bytes \<Rightarrow> bytes \<Rightarrow> bytes \<Rightarrow> Tunnel \<Rightarrow> Tunnel res" where
  "routePacket ev ipkt srcIP dstIP t =
     (let dstKey = IPKey dstIP;
          serverIPKey = (case T_serverIPKey t of Some k \<Rightarrow> k | None \<Rightarrow> replicate 16 0);
          tok = route_token t;
          relay = sendToServer ev ipkt srcIP dstIP tok (T_serverAddr t) t
      in bind_res (if dstKey = serverIPKey then Ok True
                   else case T_cachedSubnet t of None \<Rightarrow> Ok False | Some n \<Rightarrow> isRelayTarget dstIP (Some n)) (\<lambda>toServer.
         if toServer then relay
         else
           (case mget (T_peers t) dstKey of
              Some p \<Rightarrow>
                (case P_PublicAddr p of
                   Some a \<Rightarrow> if P_DirectReach p then send_packet ev ipkt srcIP dstIP tok (Some a) t else relay
                 | None \<Rightarrow> relay)
            | None \<Rightarrow> relay)))"

text \<open>One job of a \<open>tunWorker\<close>.\<close>

definition tunWorker :: "CEnv \<Rightarrow> Tunnel \<Rightarrow> Tunnel res" where
  "tunWorker ev t =
     (case T_tunCh t of [] \<Rightarrow> Ok t
      | j # js \<Rightarrow> routePacket ev (J_data j) (J_srcIP j) (J_dstIP j) (t\<lparr> T_tunCh := js \<rparr>))"

text \<open>A concrete surrounding for examples: a cipher that appends a fixed tag.\<close>

definition sample_cenv :: CEnv where
  "sample_cenv = \<lparr> N_now = 100 * second, N_ord = id, N_newAead = (\<lambda>_. Some plain_aead), N_rand = (\<lambda>_. Some (replicate 8 0)),
     N_resolve = (\<lambda>_. None), N_payload = newPooled, N_stale = [], N_writeOK = True, N_tunOK = True \<rparr>"

end
