(* ===== verification/TunnelRecv.thy ===== *)
theory TunnelRecv
  imports Tunnel
begin

text \<open>
  The client's receiving side and its timers: packets from the server and from peers (recv.go,
  recv_data.go, recv_peer.go), packets from the TUN device, the peer table (peer.go),
  hole punching (holepunch.go), keepalives and rebinding (keepalive.go, p2p_keepalive.go,
  rebind.go).  One packet, one tick and one packet of a punching goroutine are one step each.
\<close>

section \<open>Broadcast rewriting (recv_data.go)\<close>

function fold16 :: "u32 \<Rightarrow> u32" where
  "fold16 s = (if drop_bit 16 s \<noteq> 0 then fold16 ((s AND 0xFFFF) + drop_bit 16 s) else s)"
  by auto
termination
proof (relation "measure unat", simp)
  fix s :: u32 assume a: "drop_bit 16 s \<noteq> 0"
  have m: "s AND 0xFFFF = take_bit 16 s" by (simp add: take_bit_eq_mask mask_eq_exp_minus_1)
  have q: "unat (drop_bit 16 s) = unat s div 65536" "unat (take_bit 16 s) = unat s mod 65536"
    by (simp_all add: drop_bit_eq_div take_bit_eq_mod unat_div unat_mod)
  have "0 < unat s div 65536" using a q(1) by (metis gr0I unat_eq_zero)
  then have l: "unat s mod 65536 + unat s div 65536 < unat s"
    using div_mult_mod_eq[of "unat s" 65536] by linarith
  have "unat (take_bit 16 s + drop_bit 16 s) = unat s mod 65536 + unat s div 65536"
    using l unsigned_less[of s, where ?'a = nat] by (subst unat_add_lem[THEN iffD1]) (simp_all add: q)
  then show "((s AND 0xFFFF) + drop_bit 16 s, s) \<in> measure unat" using l m by simp
qed

declare fold16.simps [simp del]

text \<open>The sum over the header words of a buffer; the header length comes from the packet itself.\<close>

definition be16 :: "bytes \<Rightarrow> nat \<Rightarrow> u32" where
  "be16 buf i = push_bit 8 (ucast (buf ! i)) OR ucast (buf ! (i + 1))"

definition header_sum :: "bytes \<Rightarrow> nat \<Rightarrow> u32" where
  "header_sum buf ihl = sum_list (map (\<lambda>k. be16 buf (2 * k)) [0..<ihl div 2])"

text \<open>
  The header length may exceed the packet: the slice then reads on in the pooled buffer, whose
  capacity is at least 512 bytes.
\<close>

definition rewriteBroadcast :: "CEnv \<Rightarrow> bytes \<Rightarrow> IPNet option \<Rightarrow> bytes" where
  "rewriteBroadcast ev ipkt subnet =
     (case subnet of None \<Rightarrow> ipkt
      | Some n \<Rightarrow>
          if length ipkt < 20 \<or> drop_bit 4 (ipkt ! 0) \<noteq> 4 \<or> IPNet_Mask n = [] then ipkt
          else if take 4 (drop 16 ipkt) \<noteq> [255, 255, 255, 255] then ipkt
          else
            (case To4 (IPNet_IP n) of None \<Rightarrow> ipkt
             | Some s \<Rightarrow>
                 (let bcast = map2 (\<lambda>x m. x OR NOT m) s (take 4 (IPNet_Mask n));
                      out = (take 16 ipkt @ bcast @ drop 20 ipkt)[10 := 0, 11 := 0];
                      buf = out @ drop (length out) (pkt_buf ev (pkt_cap (length ipkt)));
                      c = put16be (NOT (ucast (fold16 (header_sum buf (4 * unat (out ! 0 AND 0x0F))))))
                  in out[10 := c ! 0, 11 := c ! 1])))"

definition tun_write :: "CEnv \<Rightarrow> bytes \<Rightarrow> Tunnel \<Rightarrow> Tunnel" where
  "tun_write ev data t =
     (case T_tunDev t of None \<Rightarrow> t
      | Some dev \<Rightarrow>
          if N_tunOK ev \<and> \<not> Dev_closed dev
          then t\<lparr> T_tunDev := Some (dev\<lparr> Dev_written := Dev_written dev @ [rewriteBroadcast ev data (T_cachedSubnet t)] \<rparr>) \<rparr>
          else t)"

definition decryptWriteAndRelease :: "CEnv \<Rightarrow> DataPayload \<Rightarrow> Tunnel \<Rightarrow> Tunnel" where
  "decryptWriteAndRelease ev dp t =
     (case T_tunDev t of None \<Rightarrow> t
      | Some _ \<Rightarrow>
          (case T_p2pCipher t of
             Some c \<Rightarrow>
               if IsEncrypted (DP_Data dp) then
                 (let (r, c1) = DecryptInto [] (DP_Data dp) c; t1 = t\<lparr> T_p2pCipher := Some c1 \<rparr> in
                  case r of Inl _ \<Rightarrow> t1 | Inr out \<Rightarrow> tun_write ev out t1)
               else tun_write ev (DP_Data dp) t
           | None \<Rightarrow> tun_write ev (DP_Data dp) t))"

definition handleDataFromServer :: "CEnv \<Rightarrow> bytes \<Rightarrow> Tunnel \<Rightarrow> Tunnel" where
  "handleDataFromServer ev payload t =
     (case UnmarshalDataPooled (N_payload ev) payload of
        Ok dp \<Rightarrow> if DP_Data dp = [] then t else decryptWriteAndRelease ev dp t
      | _ \<Rightarrow> t)"

section \<open>Hole punching (holepunch.go)\<close>

definition holePunchBurstPerPhase :: nat where "holePunchBurstPerPhase = 5"
definition holePunchPhases :: nat where "holePunchPhases = 3"
definition holePunchBackoff :: int where "holePunchBackoff = 5 * second"

text \<open>One packet of a burst; without the cached packet the burst ends at once.\<close>

definition burstHolePunch :: "UDPAddr \<Rightarrow> nat \<Rightarrow> Tunnel \<Rightarrow> nat \<times> Tunnel" where
  "burstHolePunch addr cnt t =
     (case T_cachedPunchPacket t of None \<Rightarrow> (0, t)
      | Some packet \<Rightarrow> (cnt - 1, sendCtrl packet (Some addr) t))"

definition sendHolePunchRelay :: "ip \<Rightarrow> Tunnel \<Rightarrow> Tunnel" where
  "sendHolePunchRelay peerIP t =
     (case To4 peerIP of None \<Rightarrow> t
      | Some p \<Rightarrow> sendCtrl (EncodeChecked TypeHolePunch p) (T_serverAddr t) t)"

definition hasDirectPeerTraffic :: "ip \<Rightarrow> Tunnel \<Rightarrow> bool" where
  "hasDirectPeerTraffic peerIP t =
     (case mget (T_peers t) (IPKey peerIP) of None \<Rightarrow> False | Some p \<Rightarrow> P_DirectReach p)"

definition punch_strategy :: "NATProbeResult option \<Rightarrow> NATType \<Rightarrow> HolePunchStrategy" where
  "punch_strategy natResult peerNATType =
     (case natResult of
        Some r \<Rightarrow>
          if peerNATType \<noteq> 0 then GetHolePunchStrategy (PR_Type r) peerNATType
          else if PR_Type r = NATTypeSymmetric then StrategyExtended else StrategyDirect
      | None \<Rightarrow> StrategyDirect)"

text \<open>One step of a punching goroutine: what is left of it, and the tunnel.\<close>

definition startHolePunch :: "ip \<Rightarrow> Tunnel \<Rightarrow> punch option" where
  "startHolePunch peerIP t =
     (if \<not> T_probeDone t then Some (Start peerIP)
      else
        (case mget (T_peers t) (IPKey peerIP) of
           Some p \<Rightarrow>
             (case P_PublicAddr p of
                Some a \<Rightarrow>
                  if punch_strategy (T_probeResult t) (P_NATType p) = StrategyRelay then None
                  else Some (Phase peerIP a holePunchPhases holePunchBurstPerPhase)
              | None \<Rightarrow> None)
         | None \<Rightarrow> None))"

fun punch_step :: "punch \<Rightarrow> Tunnel \<Rightarrow> punch option \<times> Tunnel" where
  "punch_step (Burst a n) t =
     (if n = 0 then (None, t) else let (k, t1) = burstHolePunch a n t in (Some (Burst a k), t1))"
| "punch_step (Start i) t = (startHolePunch i t, t)"
| "punch_step (Phase i a ph n) t =
     (if n \<noteq> 0 then let (k, t1) = burstHolePunch a n t in (Some (Phase i a ph k), t1)
      else if hasDirectPeerTraffic i t then (None, t)
      else if ph \<le> 1 then (None, t)
      else (Some (Phase i a (ph - 1) holePunchBurstPerPhase), t))"

text \<open>The \<open>n\<close>-th goroutine makes a step.\<close>

definition punch_tick :: "nat \<Rightarrow> Tunnel \<Rightarrow> Tunnel" where
  "punch_tick n t =
     (if n < length (T_punches t) then
        (let (left, t1) = punch_step (T_punches t ! n) t;
             ps = T_punches t
         in t1\<lparr> T_punches := (case left of Some p \<Rightarrow> ps[n := p] | None \<Rightarrow> take n ps @ drop (n + 1) ps) \<rparr>)
      else t)"

definition launch :: "punch \<Rightarrow> Tunnel \<Rightarrow> Tunnel" where
  "launch p t = t\<lparr> T_punches := T_punches t @ [p] \<rparr>"

text \<open>The answer to a punch: at most once per backoff for each peer.\<close>

definition punch_back :: "CEnv \<Rightarrow> bool \<Rightarrow> ipkey \<Rightarrow> Peer \<Rightarrow> UDPAddr \<Rightarrow> Tunnel \<Rightarrow> Tunnel" where
  "punch_back ev direct key peer peerAddr t =
     (let (ok, p1) = tryRateLimitHolePunch (N_now ev) holePunchBackoff peer in
      if \<not> ok then t
      else
        (let p2 = (if direct then p1\<lparr> P_DirectReach := True \<rparr> else p1)
         in launch (Burst peerAddr holePunchBurstPerPhase) (t\<lparr> T_peers := mput key p2 (T_peers t) \<rparr>)))"

definition handleHolePunchReceived :: "CEnv \<Rightarrow> bytes \<Rightarrow> Tunnel \<Rightarrow> Tunnel" where
  "handleHolePunchReceived ev payload t =
     (if length payload < 4 then t
      else
        (let key = IPKey (take 4 payload) in
         case mget (T_peers t) key of
           Some p \<Rightarrow> (case P_PublicAddr p of Some a \<Rightarrow> punch_back ev False key p a t | None \<Rightarrow> t)
         | None \<Rightarrow> t))"

definition handleDirectHolePunch :: "CEnv \<Rightarrow> UDPAddr \<Rightarrow> Message \<Rightarrow> Tunnel \<Rightarrow> Tunnel" where
  "handleDirectHolePunch ev from msg t =
     (if length (MsgPayload msg) < 4 then t
      else
        (let key = IPKey (take 4 (MsgPayload msg)) in
         case mget (T_peers t) key of
           Some p \<Rightarrow>
             (case P_PublicAddr p of
                Some a \<Rightarrow>
                  if \<not> ip_equal (UDP_IP from) (UDP_IP a) \<or> UDP_Port from \<noteq> UDP_Port a then t
                  else punch_back ev True key p a t
              | None \<Rightarrow> t)
         | None \<Rightarrow> t))"

definition retryFailedHolePunches :: "CEnv \<Rightarrow> Tunnel \<Rightarrow> Tunnel" where
  "retryFailedHolePunches ev t =
     (let retryPeers = map (P_VirtualIP \<circ> snd)
            (filter (\<lambda>(k, p). P_PublicAddr p \<noteq> None \<and> \<not> P_DirectReach p) (range_map (N_ord ev) (T_peers t)))
      in fold (\<lambda>i t. sendHolePunchRelay i (launch (Start i) t)) retryPeers t)"

section \<open>The peer table (recv_peer.go, peer.go)\<close>

definition norm_addr :: "UDPAddr option \<Rightarrow> UDPAddr option" where
  "norm_addr a = map_option (\<lambda>x. case To16 (UDP_IP x) of Some i \<Rightarrow> \<lparr> UDP_IP = i, UDP_Port = UDP_Port x \<rparr> | None \<Rightarrow> x) a"

definition addr_changed :: "UDPAddr option \<Rightarrow> UDPAddr option \<Rightarrow> bool" where
  "addr_changed old new =
     (case (old, new) of
        (Some a, Some b) \<Rightarrow> \<not> ip_equal (UDP_IP a) (UDP_IP b) \<or> UDP_Port a \<noteq> UDP_Port b
      | _ \<Rightarrow> False)"

text \<open>One entry of the list, on the map, the new peers and the peers with a changed address.\<close>

definition peer_update :: "int \<Rightarrow> PeerInfoEntry \<Rightarrow> Peer \<Rightarrow> Peer" where
  "peer_update now e p =
     (let pubAddr = norm_addr (PE_PublicAddr e);
          direct = (if addr_changed (P_PublicAddr p) pubAddr then False else P_DirectReach p)
      in p\<lparr> P_stale := False, P_DirectReach := direct, P_PublicAddr := pubAddr, P_Username := PE_Username e,
            P_NATType := PE_NATType e, P_lastSeen := now \<rparr>)"

definition new_peer :: "int \<Rightarrow> PeerInfoEntry \<Rightarrow> Peer" where
  "new_peer now e =
     \<lparr> P_VirtualIP = PE_VirtualIP e, P_PublicAddr = norm_addr (PE_PublicAddr e), P_Username = PE_Username e,
       P_NATType = PE_NATType e, P_DirectReach = False, P_lastSeen = now, P_lastPunchBack = 0, P_stale = False \<rparr>"

definition peer_entry_step ::
    "int \<Rightarrow> ip \<Rightarrow> PeerInfoEntry \<Rightarrow> (ipkey \<times> Peer) list \<times> ip list \<times> ip list \<Rightarrow> (ipkey \<times> Peer) list \<times> ip list \<times> ip list" where
  "peer_entry_step now self e st =
     (let (ps, new, changed) = st; key = IPKey (PE_VirtualIP e) in
      if ip_equal (PE_VirtualIP e) self then st
      else
        (case mget ps key of
           Some p \<Rightarrow>
             (mput key (peer_update now e p) ps, new,
              if addr_changed (P_PublicAddr p) (norm_addr (PE_PublicAddr e)) then changed @ [PE_VirtualIP e] else changed)
         | None \<Rightarrow> (mput key (new_peer now e) ps, new @ [PE_VirtualIP e], changed)))"

definition handlePeerInfo :: "CEnv \<Rightarrow> bytes \<Rightarrow> Tunnel \<Rightarrow> Tunnel" where
  "handlePeerInfo ev payload t =
     (case UnmarshalPeerInfo payload of
        Ok info \<Rightarrow>
          (let marked = map (\<lambda>(k, p). (k, p\<lparr> P_stale := True \<rparr>)) (T_peers t);
               (ps, new, changed) = fold (peer_entry_step (N_now ev) (T_virtualIP t)) info (marked, [], []);
               t1 = t\<lparr> T_peers := filter (\<lambda>(k, p). \<not> P_stale p) ps \<rparr>
           in fold (\<lambda>i t. sendHolePunchRelay i (launch (Start i) t)) (new @ changed) t1)
      | _ \<Rightarrow> t)"

definition stalePeerGracePeriod :: int where "stalePeerGracePeriod = 90 * second"

definition cleanStalePeers :: "CEnv \<Rightarrow> Tunnel \<Rightarrow> Tunnel" where
  "cleanStalePeers ev t =
     t\<lparr> T_peers := filter (\<lambda>(k, p). \<not> (P_lastSeen p \<noteq> 0 \<and> stalePeerGracePeriod < N_now ev - P_lastSeen p)) (T_peers t) \<rparr>"

definition peerDiscovery_tick :: "Tunnel \<Rightarrow> Tunnel" where
  "peerDiscovery_tick t = sendCtrl (EncodeChecked TypePeerRequest []) (T_serverAddr t) t"

section \<open>Packets from the server and from peers (recv.go, recv_data.go)\<close>

definition markServerResponse :: "CEnv \<Rightarrow> Tunnel \<Rightarrow> Tunnel" where
  "markServerResponse ev t = t\<lparr> T_lastServerResponse := N_now ev \<rparr>"

definition handle_kick :: "bytes \<Rightarrow> Tunnel \<Rightarrow> Tunnel" where
  "handle_kick payload t =
     (let t1 = (case UnmarshalKick payload of
                  Ok kick \<Rightarrow> if IsFatal (NewDisconnectError kick) then t\<lparr> T_cancelKicks := True \<rparr> else t
                | _ \<Rightarrow> t)
      in t1\<lparr> T_sockOpen := False \<rparr>)"

definition handle_rebind_ack :: "bytes \<Rightarrow> Tunnel \<Rightarrow> Tunnel" where
  "handle_rebind_ack payload t =
     (case UnmarshalRebindAck payload of
        Ok ack \<Rightarrow> if length (T_rebindAckCh t) < 1 then t\<lparr> T_rebindAckCh := T_rebindAckCh t @ [ack] \<rparr> else t
      | _ \<Rightarrow> t)"

definition handleServerData :: "CEnv \<Rightarrow> Message \<Rightarrow> Tunnel \<Rightarrow> Tunnel" where
  "handleServerData ev msg t0 =
     (let t = markServerResponse ev t0; ty = MsgType msg; payload = MsgPayload msg in
      if ty = TypePeerInfo then handlePeerInfo ev payload t
      else if ty = TypeData then handleDataFromServer ev payload t
      else if ty = TypePing then sendCtrl (EncodeChecked TypePong payload) (T_serverAddr t) t
      else if ty = TypeHolePunch then handleHolePunchReceived ev payload t
      else if ty = TypeRebindAck then handle_rebind_ack payload t
      else if ty = TypeKick then handle_kick payload t
      else t)"

text \<open>The token test of direct packets in rooms without encryption.\<close>

definition direct_token_ok :: "bytes \<Rightarrow> Tunnel \<Rightarrow> bool" where
  "direct_token_ok payload t =
     (if T_p2pCipher t = None \<and> T_sessionToken t \<noteq> zero_token then
        (if length payload \<le> 8 then False
         else
           (let (flags, tokenOff, _) = ParseDataHeader payload in
            if \<not> has_token flags \<or> length payload < tokenOff + DataTokenLen then False
            else take DataTokenLen (drop tokenOff payload) = T_sessionToken t))
      else True)"

definition handleDirectData :: "CEnv \<Rightarrow> UDPAddr \<Rightarrow> Message \<Rightarrow> Tunnel \<Rightarrow> Tunnel" where
  "handleDirectData ev from msg t =
     (if MsgType msg = TypeHolePunch then handleDirectHolePunch ev from msg t
      else if MsgType msg \<noteq> TypeData then t
      else
        (case UnmarshalDataPooled (N_payload ev) (MsgPayload msg) of
           Ok dp \<Rightarrow>
             if DP_Data dp = [] then t
             else
               (let key = IPKey (DP_SrcIP dp) in
                case mget (T_peers t) key of
                  None \<Rightarrow> t
                | Some peer \<Rightarrow>
                    (case P_PublicAddr peer of
                       None \<Rightarrow> t
                     | Some a \<Rightarrow>
                         if \<not> ip_equal (UDP_IP from) (UDP_IP a) \<or> UDP_Port from \<noteq> UDP_Port a then t
                         else if \<not> direct_token_ok (MsgPayload msg) t then t
                         else decryptWriteAndRelease ev dp
                                (t\<lparr> T_peers := mput key (peer\<lparr> P_DirectReach := True \<rparr>) (T_peers t) \<rparr>)))
         | _ \<Rightarrow> t))"

definition IsLoopback :: "ip \<Rightarrow> bool" where
  "IsLoopback i = (case To4 i of Some x \<Rightarrow> x ! 0 = 127 | None \<Rightarrow> i = replicate 15 0 @ [1])"

definition from_server :: "UDPAddr \<Rightarrow> UDPAddr \<Rightarrow> byte \<Rightarrow> bool" where
  "from_server serverAddr from ty =
     (ip_equal (UDP_IP from) (UDP_IP serverAddr) \<and> UDP_Port from = UDP_Port serverAddr \<or>
      ty = TypePeerInfo \<or> ty = TypePing \<or> ty = TypeRebindAck \<or> ty = TypeKick \<or>
      UDP_Port from = UDP_Port serverAddr \<and> IsLoopback (UDP_IP from))"

definition receive_packet :: "CEnv \<Rightarrow> UDPAddr \<Rightarrow> UDPAddr \<Rightarrow> bytes \<Rightarrow> Tunnel \<Rightarrow> Tunnel" where
  "receive_packet ev serverAddr from data t =
     (case (if T_decAvailable t then Decode data else DecodeChecked data) of
        Ok msg \<Rightarrow>
          if from_server serverAddr from (MsgType msg) then handleServerData ev msg t
          else handleDirectData ev from msg t
      | _ \<Rightarrow> note_error t)"

definition maxConsecutiveErrors :: nat where "maxConsecutiveErrors = 10"
definition readBufSize :: nat where "readBufSize = 65535"

text \<open>
  The receiving goroutine over the results of its reads (None is a read error); it gives up after
  eleven errors in a row.  The second component tells whether it is still running.
\<close>

fun receiveFromServer :: "UDPAddr \<Rightarrow> nat \<Rightarrow> (CEnv \<times> (UDPAddr \<times> bytes) option) list \<Rightarrow> Tunnel \<Rightarrow> bool \<times> Tunnel" where
  "receiveFromServer serverAddr errs [] t = (True, t)"
| "receiveFromServer serverAddr errs ((ev, r) # rs) t =
     (case r of
        None \<Rightarrow> if maxConsecutiveErrors < errs + 1 then (False, t) else receiveFromServer serverAddr (errs + 1) rs t
      | Some (from, data) \<Rightarrow>
          receiveFromServer serverAddr 0 rs (receive_packet ev serverAddr from (take readBufSize data) t))"

section \<open>Packets from the TUN device (recv.go)\<close>

definition total_len :: "bytes \<Rightarrow> nat" where
  "total_len ipkt = 256 * unat (ipkt ! 2) + unat (ipkt ! 3)"

definition tun_valid :: "bytes \<Rightarrow> bool" where
  "tun_valid ipkt =
     (if length ipkt < 20 \<or> drop_bit 4 (ipkt ! 0) \<noteq> 4 then False
      else
        (let ihl = 4 * unat (ipkt ! 0 AND 0x0F) in
         if ihl < 20 \<or> length ipkt < ihl then False
         else \<not> (total_len ipkt < ihl \<or> length ipkt < total_len ipkt)))"

definition tun_enqueue :: "bytes \<Rightarrow> bytes \<Rightarrow> Tunnel \<Rightarrow> Tunnel" where
  "tun_enqueue ipkt data t =
     (let job = \<lparr> J_data = data, J_srcIP = take 4 (drop 12 ipkt), J_dstIP = take 4 (drop 16 ipkt) \<rparr> in
      if length (T_tunCh t) < tunChanSize then t\<lparr> T_tunCh := T_tunCh t @ [job] \<rparr>
      else t\<lparr> T_tunDropped := T_tunDropped t + 1 \<rparr>)"

text \<open>The batch path trims a packet to the length in its header, the single path does not.\<close>

definition tun_batch_packet :: "bytes \<Rightarrow> Tunnel \<Rightarrow> Tunnel" where
  "tun_batch_packet ipkt t = (if tun_valid ipkt then tun_enqueue ipkt (take (total_len ipkt) ipkt) t else t)"

definition tun_single_packet :: "bytes \<Rightarrow> Tunnel \<Rightarrow> Tunnel" where
  "tun_single_packet ipkt t = (if tun_valid ipkt then tun_enqueue ipkt ipkt t else t)"

fun receiveFromTUN :: "nat \<Rightarrow> bytes list option list \<Rightarrow> Tunnel \<Rightarrow> bool \<times> Tunnel" where
  "receiveFromTUN errs [] t = (True, t)"
| "receiveFromTUN errs (r # rs) t =
     (if T_tunDev t = None then (False, t)
      else
        (case r of
           None \<Rightarrow> if maxConsecutiveErrors < errs + 1 then (False, t) else receiveFromTUN (errs + 1) rs t
         | Some pkts \<Rightarrow> receiveFromTUN 0 rs (fold tun_batch_packet pkts t)))"

fun receiveFromTUNSingle :: "nat \<Rightarrow> bytes option list \<Rightarrow> Tunnel \<Rightarrow> bool \<times> Tunnel" where
  "receiveFromTUNSingle errs [] t = (True, t)"
| "receiveFromTUNSingle errs (r # rs) t =
     (case r of
        None \<Rightarrow> if maxConsecutiveErrors < errs + 1 then (False, t) else receiveFromTUNSingle (errs + 1) rs t
      | Some p \<Rightarrow> receiveFromTUNSingle 0 rs (tun_single_packet p t))"

section \<open>Keepalives and rebinding\<close>

definition sendP2PKeepalives :: "CEnv \<Rightarrow> Tunnel \<Rightarrow> Tunnel" where
  "sendP2PKeepalives ev t =
     (let addrs = List.map_filter (\<lambda>(k, p). if P_DirectReach p then P_PublicAddr p else None) (range_map (N_ord ev) (T_peers t))
      in if addrs = [] then t
         else (case T_cachedPunchPacket t of None \<Rightarrow> t
               | Some packet \<Rightarrow> fold (\<lambda>a. sendCtrl packet (Some a)) addrs t))"

text \<open>
  A rebind in two steps: the request, and its end by an answer or by the timeout of five seconds.
  The first gives False if no request is sent.
\<close>

definition rebind_request :: "Tunnel \<Rightarrow> bool \<times> Tunnel" where
  "rebind_request t =
     (if T_virtualIP t = [] then (False, t)
      else
        (let h = (if T_roomPass t \<noteq> [] then
                    ComputeHMAC (DeriveKey (T_roomPass t) (T_roomID t)) [] (T_roomID t) (T_username t)
                      (Some \<lparr> UDP_IP = T_virtualIP t, UDP_Port = 0 \<rparr>)
                  else []);
             packet = EncodeChecked TypeRebind (Rebind_Marshal \<lparr> Rb_VirtualIP = T_virtualIP t, Rb_HMAC = h \<rparr>);
             t1 = sendCtrl packet (T_serverAddr t) t
         in (True, t1\<lparr> T_rebindAckCh := [] \<rparr>)))"

definition rebind_result :: "CEnv \<Rightarrow> Tunnel \<Rightarrow> bool \<times> Tunnel" where
  "rebind_result ev t =
     (case T_rebindAckCh t of
        [] \<Rightarrow> (False, t)
      | ack # _ \<Rightarrow>
          (let t1 = t\<lparr> T_rebindAckCh := [] \<rparr> in
           if Ack_Success ack then (True, markServerResponse ev t1) else (False, t1)))"

datatype alive = Alive | Rebinding | Dead

definition serverTimeout :: int where "serverTimeout = 30 * second"

text \<open>One tick of \<open>keepaliveLoop\<close>; Dead ends the run.\<close>

definition cl_keepalive_tick :: "CEnv \<Rightarrow> Tunnel \<Rightarrow> alive \<times> Tunnel" where
  "cl_keepalive_tick ev t =
     (let natType = (case T_probeResult t of Some r \<Rightarrow> PR_Type r | None \<Rightarrow> 0);
          t1 = sendCtrl (EncodeChecked TypeKeepAlive [natType]) (T_serverAddr t) t
      in if T_lastServerResponse t1 \<noteq> 0 \<and> serverTimeout < N_now ev - T_lastServerResponse t1
         then (let (ok, t2) = rebind_request t1 in (if ok then Rebinding else Dead, t2))
         else (Alive, t1))"

end
