(* ===== verification/TunnelConn.thy ===== *)
theory TunnelConn
  imports TunnelRecv
begin

text \<open>
  The life of a connection: the registration handshake over UDP and over TCP (register.go),
  the TUN device, connecting, disconnecting and the status (tunnel.go), and the application
  around the tunnel with its reconnect loop (app.go).  A blocking loop is a function of
  what its reads return; \<open>Waiting\<close> is the state in which it waits for more.  No decoder
  panics (\<open>Messages\<close>), so the branches for a panic are never taken.
\<close>

section \<open>Errors\<close>

datatype conn_error =
    Cancelled
  | RegTimeout
  | ReadFailed
  | DecodeFailed err
  | ParseIPFailed err
  | Incompatible u16
  | IPNotInSubnet
  | ServerNotInSubnet
  | DeriveKeyFailed
  | CipherFailed crypto_err
  | TooManyAuth
  | Rejected "bytes option"
  | NeedPassword
  | ParseAuthFailed err
  | TCPSendFailed tcp_err
  | TCPReceiveFailed tcp_err
  | InvalidServer
  | BindFailed
  | FallbackFailed conn_error
  | NoTUNFactory
  | CreateTUNFailed

datatype reg_status = Waiting | Registered | Failed conn_error

section \<open>Registration (register.go)\<close>

definition register_packet :: "Tunnel \<Rightarrow> bytes" where
  "register_packet t =
     EncodeChecked TypeRegister (Register_Marshal
       \<lparr> Reg_RoomID = T_roomID t, Reg_Username = T_username t, Reg_Version = AppVersion \<rparr>)"

definition ip_mask :: "bytes \<Rightarrow> bytes \<Rightarrow> bytes" where
  "ip_mask i m = map2 (\<lambda>x y. x AND y) i m"

definition assign_subnet :: "AssignIPPayload \<Rightarrow> IPNet" where
  "assign_subnet a =
     \<lparr> IPNet_IP = ip_mask (Asg_VirtualIP a) (Asg_SubnetMask a), IPNet_Mask = Asg_SubnetMask a \<rparr>"

text \<open>The three ciphers of a room with a password, with their own random start values.\<close>

definition init_ciphers :: "CEnv \<Rightarrow> Tunnel \<Rightarrow> conn_error + (Cipher \<times> Cipher \<times> Cipher) option" where
  "init_ciphers ev t =
     (if T_roomPass t = [] then Inr None
      else
        (let key = DeriveKey (T_roomPass t) (T_roomID t) in
         if key = [] then Inl DeriveKeyFailed
         else
           (case NewCipher (N_newAead ev) (N_rand ev 0) key DirClientToServer of
              Inl e \<Rightarrow> Inl (CipherFailed e)
            | Inr c1 \<Rightarrow>
                (case NewCipher (N_newAead ev) (N_rand ev 1) key DirServerToClient of
                   Inl e \<Rightarrow> Inl (CipherFailed e)
                 | Inr c2 \<Rightarrow>
                     (case NewCipher (N_newAead ev) (N_rand ev 2) key DirClientToClient of
                        Inl e \<Rightarrow> Inl (CipherFailed e)
                      | Inr c3 \<Rightarrow> Inr (Some (c1, c2, c3)))))))"

definition accept_assign :: "AssignIPPayload \<Rightarrow> (Cipher \<times> Cipher \<times> Cipher) option \<Rightarrow> Tunnel \<Rightarrow> Tunnel" where
  "accept_assign a cs t =
     t\<lparr> T_virtualIP := Asg_VirtualIP a, T_serverIP := Asg_ServerIP a, T_subnetMask := Asg_SubnetMask a,
        T_serverVersion := ucast (Asg_Version a), T_sessionToken := Asg_SessionToken a,
        T_cachedSubnet := Some (assign_subnet a), T_serverIPKey := Some (IPKey (Asg_ServerIP a)),
        T_cachedPunchPacket := Some (EncodeChecked TypeHolePunch (case To4 (Asg_VirtualIP a) of Some v \<Rightarrow> v | None \<Rightarrow> [])),
        T_encCipher := map_option fst cs, T_decCipher := map_option (fst \<circ> snd) cs,
        T_decAvailable := (cs \<noteq> None), T_p2pCipher := map_option (snd \<circ> snd) cs, T_peers := [] \<rparr>"

definition handleAssignIP :: "CEnv \<Rightarrow> bytes \<Rightarrow> Tunnel \<Rightarrow> conn_error option \<times> Tunnel" where
  "handleAssignIP ev payload t =
     (case UnmarshalAssignIP payload of
        Ok a \<Rightarrow>
          if \<not> IsCompatible AppVersion (Asg_Version a) then (Some (Incompatible (Asg_Version a)), t)
          else if To4 (Asg_VirtualIP a) = None \<or> \<not> IPNet_Contains (assign_subnet a) (Asg_VirtualIP a)
          then (Some IPNotInSubnet, t)
          else if To4 (Asg_ServerIP a) = None \<or> \<not> IPNet_Contains (assign_subnet a) (Asg_ServerIP a)
          then (Some ServerNotInSubnet, t)
          else
            (case init_ciphers ev t of
               Inl e \<Rightarrow> (Some e, t)
             | Inr cs \<Rightarrow> (None, accept_assign a cs t))
      | Err e \<Rightarrow> (Some (ParseIPFailed e), t)
      | Panic \<Rightarrow> (Some (ParseIPFailed ErrPacketTooShort), t))"

definition auth_reply :: "CEnv \<Rightarrow> AuthChallengePayload \<Rightarrow> Tunnel \<Rightarrow> bytes" where
  "auth_reply ev acp t =
     (let clientAddr = (if Ch_ClientAddr acp \<noteq> [] then N_resolve ev (Ch_ClientAddr acp) else None);
          h = ComputeHMAC (DeriveKey (T_roomPass t) (T_roomID t)) (Ch_Challenge acp) (T_roomID t) (T_username t) clientAddr
      in EncodeChecked TypeAuthResponse (AuthResponse_Marshal
           \<lparr> Rsp_RoomID = T_roomID t, Rsp_Username = T_username t, Rsp_HMAC = h \<rparr>))"

text \<open>\<open>udp\<close> tells whether a UDP connection is passed; otherwise the reply goes over TCP.\<close>

definition handleAuthChallenge :: "CEnv \<Rightarrow> bool \<Rightarrow> bytes \<Rightarrow> Tunnel \<Rightarrow> conn_error option \<times> Tunnel" where
  "handleAuthChallenge ev udp payload t =
     (if T_roomPass t = [] then (Some NeedPassword, t)
      else
        (case UnmarshalAuthChallenge payload of
           Ok acp \<Rightarrow>
             if DeriveKey (T_roomPass t) (T_roomID t) = [] then (Some DeriveKeyFailed, t)
             else if udp then (None, cl_writeUDP ev (auth_reply ev acp t, T_serverAddr t) t)
             else
               (case T_tcpTransport t of
                  None \<Rightarrow> (None, t)
                | Some tcp \<Rightarrow>
                    (let (e, tcp1) = TCP_Send (N_writeOK ev) (auth_reply ev acp t) tcp;
                         t1 = t\<lparr> T_tcpTransport := Some tcp1 \<rparr>
                     in (map_option TCPSendFailed e, t1)))
         | Err e \<Rightarrow> (Some (ParseAuthFailed e), t)
         | Panic \<Rightarrow> (Some (ParseAuthFailed ErrPacketTooShort), t)))"

definition maxAuthRounds :: nat where "maxAuthRounds = 3"
definition maxRetries :: nat where "maxRetries = 3"

definition handleRegResponse :: "CEnv \<Rightarrow> bool \<Rightarrow> Message \<Rightarrow> nat \<Rightarrow> Tunnel \<Rightarrow> reg_status \<times> nat \<times> Tunnel" where
  "handleRegResponse ev udp msg rounds t =
     (if MsgType msg = TypeAssignIP then
        (case handleAssignIP ev (MsgPayload msg) t of
           (None, t1) \<Rightarrow> (Registered, rounds, t1) | (Some e, t1) \<Rightarrow> (Failed e, rounds, t1))
      else if MsgType msg = TypeAuthChallenge then
        (if maxAuthRounds < rounds + 1 then (Failed TooManyAuth, rounds + 1, t)
         else
           (case handleAuthChallenge ev udp (MsgPayload msg) t of
              (None, t1) \<Rightarrow> (Waiting, rounds + 1, t1) | (Some e, t1) \<Rightarrow> (Failed e, rounds + 1, t1)))
      else if MsgType msg = TypeKick then
        (Failed (Rejected (case UnmarshalKick (MsgPayload msg) of Ok k \<Rightarrow> Some (Kick_Reason k) | _ \<Rightarrow> None)), rounds, t)
      else (Waiting, rounds, t))"

text \<open>What the loop of \<open>register\<close> meets: cancellation, the read deadline, a read error or a datagram.\<close>

datatype reg_read = CtxDone | ReadTimeout | ReadError | Datagram bytes

fun register_loop :: "bytes \<Rightarrow> nat \<Rightarrow> nat \<Rightarrow> (CEnv \<times> reg_read) list \<Rightarrow> Tunnel \<Rightarrow> reg_status \<times> Tunnel" where
  "register_loop packet retries rounds [] t = (Waiting, t)"
| "register_loop packet retries rounds ((ev, r) # rs) t =
     (case r of
        CtxDone \<Rightarrow> (Failed Cancelled, t)
      | ReadError \<Rightarrow> (Failed ReadFailed, t)
      | ReadTimeout \<Rightarrow>
          if maxRetries < retries + 1 then (Failed RegTimeout, t)
          else register_loop packet (retries + 1) rounds rs (cl_writeUDP ev (packet, T_serverAddr t) t)
      | Datagram d \<Rightarrow>
          (case DecodeChecked (take 1500 d) of
             Ok msg \<Rightarrow>
               (let (st, rounds1, t1) = handleRegResponse ev True msg rounds t in
                case st of Waiting \<Rightarrow> register_loop packet 0 rounds1 rs t1 | _ \<Rightarrow> (st, t1))
           | Err e \<Rightarrow> (Failed (DecodeFailed e), t)
           | Panic \<Rightarrow> (Failed (DecodeFailed ErrPacketTooShort), t)))"

definition register :: "CEnv \<Rightarrow> (CEnv \<times> reg_read) list \<Rightarrow> Tunnel \<Rightarrow> reg_status \<times> Tunnel" where
  "register ev rs t = register_loop (register_packet t) 0 0 rs (cl_writeUDP ev (register_packet t, T_serverAddr t) t)"

text \<open>
  Over TCP the results of Receive.  The branch for timeouts is never taken: Receive wraps every
  read error, and the type assertion to net.Error does not look into a wrapped error.
\<close>

fun registerTCP_loop :: "nat \<Rightarrow> (CEnv \<times> bool \<times> (tcp_err + bytes)) list \<Rightarrow> Tunnel \<Rightarrow> reg_status \<times> Tunnel" where
  "registerTCP_loop rounds [] t = (Waiting, t)"
| "registerTCP_loop rounds ((ev, cancelled, r) # rs) t =
     (case r of
        Inl e \<Rightarrow> (Failed (if cancelled then Cancelled else TCPReceiveFailed e), t)
      | Inr d \<Rightarrow>
          (case DecodeChecked d of
             Ok msg \<Rightarrow>
               (let (st, rounds1, t1) = handleRegResponse ev False msg rounds t in
                case st of Waiting \<Rightarrow> registerTCP_loop rounds1 rs t1 | _ \<Rightarrow> (st, t1))
           | _ \<Rightarrow> registerTCP_loop rounds rs t))"

definition registerTCP :: "CEnv \<Rightarrow> (CEnv \<times> bool \<times> (tcp_err + bytes)) list \<Rightarrow> Tunnel \<Rightarrow> reg_status \<times> Tunnel" where
  "registerTCP ev rs t =
     (case T_tcpTransport t of
        None \<Rightarrow> (Waiting, t)
      | Some tcp \<Rightarrow>
          (let (e, tcp1) = TCP_Send (N_writeOK ev) (register_packet t) tcp; t1 = t\<lparr> T_tcpTransport := Some tcp1 \<rparr> in
           case e of Some x \<Rightarrow> (Failed (TCPSendFailed x), t1) | None \<Rightarrow> registerTCP_loop 0 rs t1))"

section \<open>The TUN device (tunnel.go)\<close>

type_synonym tun_factory = "TunConfig \<Rightarrow> TunDevice option"

definition createTUN :: "tun_factory option \<Rightarrow> int \<Rightarrow> Tunnel \<Rightarrow> conn_error option \<times> Tunnel" where
  "createTUN factory mtu t =
     (case factory of
        None \<Rightarrow> (Some NoTUNFactory, t)
      | Some f \<Rightarrow>
          (case f \<lparr> TC_VirtualIP = T_virtualIP t, TC_SubnetMask = T_subnetMask t, TC_ServerIP = T_serverIP t, TC_MTU = mtu \<rparr> of
             None \<Rightarrow> (Some CreateTUNFailed, t)
           | Some dev \<Rightarrow> (None, t\<lparr> T_tunDev := Some dev, T_lastAssignedIP := T_virtualIP t, T_lastMTU := mtu \<rparr>)))"

definition ensureTUN :: "tun_factory option \<Rightarrow> int \<Rightarrow> Tunnel \<Rightarrow> conn_error option \<times> Tunnel" where
  "ensureTUN factory mtu t =
     (let ipChanged = (T_lastAssignedIP t \<noteq> [] \<and> \<not> ip_equal (T_virtualIP t) (T_lastAssignedIP t)) in
      case T_tunDev t of
        Some dev \<Rightarrow>
          if ipChanged then createTUN factory mtu (t\<lparr> T_tunDev := Some (dev\<lparr> Dev_closed := True \<rparr>) \<rparr>)
          else (None, t)
      | None \<Rightarrow> createTUN factory mtu t)"

definition CloseTUN :: "Tunnel \<Rightarrow> Tunnel" where
  "CloseTUN t =
     (if T_tunClosed t then t
      else t\<lparr> T_tunClosed := True, T_lastAssignedIP := [],
              T_tunDev := map_option (\<lambda>d. d\<lparr> Dev_closed := True \<rparr>) (T_tunDev t) \<rparr>)"

section \<open>Connecting and disconnecting\<close>

definition dialServer :: "bool \<Rightarrow> UDPAddr \<Rightarrow> Tunnel \<Rightarrow> conn_error option \<times> Tunnel" where
  "dialServer bindOK sAddr t =
     (if \<not> bindOK then (Some BindFailed, t\<lparr> T_sockOpen := False \<rparr>)
      else
        (let a = (case To16 (UDP_IP sAddr) of Some i \<Rightarrow> sAddr\<lparr> UDP_IP := i \<rparr> | None \<Rightarrow> sAddr)
         in (None, t\<lparr> T_serverAddr := Some a, T_conn := True, T_sockOpen := True \<rparr>)))"

text \<open>What a connection attempt meets outside.\<close>

record ConnInput =
  CI_bindOK :: bool
  CI_udp :: "(CEnv \<times> reg_read) list"
  CI_dial :: "TCPTransport option"
  CI_tcp :: "(CEnv \<times> bool \<times> (tcp_err + bytes)) list"

definition registerWithFallback :: "CEnv \<Rightarrow> ConnInput \<Rightarrow> Tunnel \<Rightarrow> reg_status \<times> Tunnel" where
  "registerWithFallback ev ci t =
     (case register ev (CI_udp ci) t of
        (Failed e, t1) \<Rightarrow>
          (case CI_dial ci of
             None \<Rightarrow> (Failed (FallbackFailed e), t1\<lparr> T_sockOpen := False \<rparr>)
           | Some tcp \<Rightarrow>
               (case registerTCP ev (CI_tcp ci) (t1\<lparr> T_tcpTransport := Some tcp \<rparr>) of
                  (Failed _, t2) \<Rightarrow>
                    (Failed (FallbackFailed e),
                     t2\<lparr> T_sockOpen := False, T_tcpTransport := map_option TCP_Close (T_tcpTransport t2) \<rparr>)
                | st \<Rightarrow> st))
      | st \<Rightarrow> st)"

definition probeNATAsync :: "Tunnel \<Rightarrow> Tunnel" where
  "probeNATAsync t =
     (if T_tcpTransport t \<noteq> None \<or> T_probeResult t \<noteq> None then t\<lparr> T_probeDone := True \<rparr>
      else if T_probeRunning t then t\<lparr> T_probeDone := True \<rparr>
      else t\<lparr> T_probeDone := False, T_probeRunning := True \<rparr>)"

definition probe_finish :: "NATProbeResult res \<Rightarrow> Tunnel \<Rightarrow> Tunnel" where
  "probe_finish r t =
     (let t1 = (case r of Ok x \<Rightarrow> t\<lparr> T_probeResult := Some x \<rparr> | _ \<Rightarrow> t)
      in t1\<lparr> T_probeRunning := False, T_probeDone := True \<rparr>)"

text \<open>
  \<open>Registered\<close> is the state in which the relay loops run; \<open>newTUN\<close> is the factory in effect, the one
  passed or the one cached from an earlier call.
\<close>

definition Connect :: "CEnv \<Rightarrow> ConnInput \<Rightarrow> bytes \<Rightarrow> int \<Rightarrow> tun_factory option \<Rightarrow> Tunnel \<Rightarrow> reg_status \<times> Tunnel" where
  "Connect ev ci serverAddr mtu newTUN t =
     (case N_resolve ev serverAddr of
        None \<Rightarrow> (Failed InvalidServer, t)
      | Some sAddr \<Rightarrow>
          (case dialServer (CI_bindOK ci) sAddr (t\<lparr> T_disconnected := False, T_punches := [] \<rparr>) of
             (Some e, t1) \<Rightarrow> (Failed e, t1)
           | (None, t1) \<Rightarrow>
               (case registerWithFallback ev ci t1 of
                  (Registered, t2) \<Rightarrow>
                    (case ensureTUN newTUN mtu (probeNATAsync t2) of
                       (None, t3) \<Rightarrow> (Registered, t3)
                     | (Some e, t3) \<Rightarrow>
                         (Failed e, t3\<lparr> T_sockOpen := False, T_tcpTransport := None \<rparr>))
                | st \<Rightarrow> st)))"

definition Disconnect :: "CEnv \<Rightarrow> Tunnel \<Rightarrow> Tunnel" where
  "Disconnect ev t =
     (if T_disconnected t then t
      else
        (let t1 = (if T_serverAddr t \<noteq> None \<and> T_conn t
                   then cl_writeUDP ev (EncodeChecked TypeDisconnect [], T_serverAddr t) t else t)
         in t1\<lparr> T_disconnected := True, T_punches := [], T_conn := False, T_sockOpen := False, T_tcpTransport := None \<rparr>))"

section \<open>Status\<close>

record TunnelStatus =
  TS_Connected :: bool
  TS_VirtualIP :: ip
  TS_SubnetMask :: bytes
  TS_ServerIP :: ip
  TS_PeerCount :: nat
  TS_ServerVersion :: u16
  TS_P2PPeers :: nat
  TS_RelayPeers :: nat
  TS_NATType :: NATType
  TS_ExternalIP :: ip
  TS_ExternalPort :: int

definition Status :: "Tunnel \<Rightarrow> TunnelStatus" where
  "Status t =
     (let connected = (T_tunDev t \<noteq> None \<and> T_virtualIP t \<noteq> []);
          direct = filter (\<lambda>(k, p). P_DirectReach p) (T_peers t)
      in \<lparr> TS_Connected = connected, TS_VirtualIP = T_virtualIP t, TS_SubnetMask = T_subnetMask t,
           TS_ServerIP = T_serverIP t, TS_PeerCount = length (T_peers t), TS_ServerVersion = ucast (T_serverVersion t),
           TS_P2PPeers = (if connected then length direct else 0),
           TS_RelayPeers = (if connected then length (T_peers t) - length direct else 0),
           TS_NATType = (case T_probeResult t of Some r \<Rightarrow> PR_Type r | None \<Rightarrow> 0),
           TS_ExternalIP = (case T_probeResult t of Some r \<Rightarrow> PR_ExternalIP r | None \<Rightarrow> []),
           TS_ExternalPort = (case T_probeResult t of Some r \<Rightarrow> PR_ExternalPort r | None \<Rightarrow> 0) \<rparr>)"

end
