(* ===== verification/App.thy ===== *)
theory App
  imports TunnelConn
begin

text \<open>
  The application around the tunnel (client/app.go): connecting and disconnecting with a
  generation counter, the status that is polled from the tunnel and shown, and the loop that
  reconnects.  One pass of a loop is one step; the time it waits is recorded.
\<close>

section \<open>State\<close>

text \<open>The last error: none, a fatal kick, or an error of \<open>Connect\<close>; its text is localized.\<close>

datatype app_err = NoErr | KickedErr | ConnErr conn_error

record App =
  A_Cfg :: ClientConfig
  A_Tunnel :: Tunnel
  A_Connecting :: bool
  A_ConnectGen :: int
  A_LastErr :: app_err
  A_Connected :: bool
  A_VirtualIP :: ip
  A_SubnetMask :: bytes
  A_ServerIP :: ip
  A_PeerCount :: nat
  A_Uptime :: "int option"

definition NewApp :: "CEnv \<Rightarrow> ClientConfig \<Rightarrow> App" where
  "NewApp ev cfg =
     \<lparr> A_Cfg = cfg, A_Tunnel = New ev cfg, A_Connecting = False, A_ConnectGen = 0, A_LastErr = NoErr,
       A_Connected = False, A_VirtualIP = [], A_SubnetMask = [], A_ServerIP = [], A_PeerCount = 0, A_Uptime = None \<rparr>"

text \<open>The result of \<open>Connect\<close> has the tunnel that was replaced, if a loop is started.\<close>

definition App_Connect :: "CEnv \<Rightarrow> ClientConfig \<Rightarrow> App \<Rightarrow> Tunnel option \<times> App" where
  "App_Connect ev cfg a =
     (if A_Connecting a then (None, a)
      else (Some (CloseTUN (Disconnect ev (A_Tunnel a))),
            a\<lparr> A_Connecting := True, A_ConnectGen := A_ConnectGen a + 1, A_LastErr := NoErr, A_Cfg := cfg,
               A_Tunnel := New ev cfg \<rparr>))"

definition App_Disconnect :: "CEnv \<Rightarrow> App \<Rightarrow> App" where
  "App_Disconnect ev a =
     a\<lparr> A_Connected := False, A_Connecting := False, A_PeerCount := 0,
        A_Tunnel := CloseTUN (Disconnect ev (A_Tunnel a)) \<rparr>"

definition status_tick :: "CEnv \<Rightarrow> App \<Rightarrow> App" where
  "status_tick ev a =
     (let ts = Status (A_Tunnel a) in
      if TS_Connected ts then
        (let a1 = a\<lparr> A_Connected := True, A_VirtualIP := TS_VirtualIP ts, A_SubnetMask := TS_SubnetMask ts,
                     A_ServerIP := TS_ServerIP ts, A_PeerCount := TS_PeerCount ts \<rparr>
         in if \<not> A_Connected a then a1\<lparr> A_Uptime := Some (N_now ev), A_LastErr := NoErr \<rparr> else a1)
      else if A_Connected a then a\<lparr> A_Connected := False, A_PeerCount := 0 \<rparr>
      else a)"

section \<open>The displayed status\<close>

definition two_digits :: "int \<Rightarrow> bytes" where
  "two_digits n = (if 0 \<le> n \<and> n < 10 then lit ''0'' @ itoa n else itoa n)"

definition FormatDuration :: "int \<Rightarrow> bytes" where
  "FormatDuration d0 =
     (let d = round_second d0; h = d div (3600 * second); m = d div (60 * second) mod 60; s = d div second mod 60
      in if 0 < h then two_digits h @ lit '':'' @ two_digits m @ lit '':'' @ two_digits s
         else two_digits m @ lit '':'' @ two_digits s)"

record StatusResponse =
  SR_Connected :: bool
  SR_Connecting :: bool
  SR_LastError :: bytes
  SR_VirtualIP :: bytes
  SR_Subnet :: bytes
  SR_ServerIP :: bytes
  SR_PeerCount :: nat
  SR_Uptime :: bytes
  SR_PlayerName :: bytes
  SR_RoomID :: bytes
  SR_ServerAddr :: bytes
  SR_ServerVersion :: bytes
  SR_UpgradeAvailable :: bool
  SR_UpgradeMessage :: bytes
  SR_P2PPeers :: nat
  SR_RelayPeers :: nat

text \<open>\<open>prompt\<close> is the localized text of the upgrade hint and \<open>err_text\<close> that of an error.\<close>

definition GetStatus ::
    "CEnv \<Rightarrow> (bytes \<Rightarrow> bytes \<Rightarrow> bytes) \<Rightarrow> (app_err \<Rightarrow> bytes) \<Rightarrow> App \<Rightarrow> StatusResponse" where
  "GetStatus ev prompt err_text a =
     (let s = \<lparr> SR_Connected = A_Connected a, SR_Connecting = A_Connecting a, SR_LastError = err_text (A_LastErr a),
                SR_VirtualIP = [], SR_Subnet = [], SR_ServerIP = [], SR_PeerCount = A_PeerCount a, SR_Uptime = [],
                SR_PlayerName = CC_PlayerName (A_Cfg a), SR_RoomID = CC_RoomID (A_Cfg a),
                SR_ServerAddr = CC_ServerAddr (A_Cfg a), SR_ServerVersion = [], SR_UpgradeAvailable = False,
                SR_UpgradeMessage = [], SR_P2PPeers = 0, SR_RelayPeers = 0 \<rparr> in
      if \<not> A_Connected a then s
      else
        (let ts = Status (A_Tunnel a); v = TS_ServerVersion ts;
             subnet = (if A_SubnetMask a \<noteq> [] then
                         ip_string (ip_mask (A_VirtualIP a) (A_SubnetMask a)) @ lit ''/'' @ itoa (int (fst (Mask_Size (A_SubnetMask a))))
                       else [])
         in s\<lparr> SR_VirtualIP := ip_string (A_VirtualIP a), SR_Subnet := subnet, SR_ServerIP := ip_string (A_ServerIP a),
               SR_Uptime := (case A_Uptime a of Some u \<Rightarrow> FormatDuration (N_now ev - u) | None \<Rightarrow> []),
               SR_P2PPeers := TS_P2PPeers ts, SR_RelayPeers := TS_RelayPeers ts,
               SR_ServerVersion := (if 0 < v then FormatVersion v else []),
               SR_UpgradeAvailable := (AppVersion < v),
               SR_UpgradeMessage := (if AppVersion < v then prompt (FormatVersion AppVersion) (FormatVersion v) else []) \<rparr>))"

section \<open>The reconnect loop\<close>

text \<open>\<open>lookup\<close> tells whether the name server answers for a host within two seconds.\<close>

definition IsNetworkAvailable :: "(bytes \<Rightarrow> bool) \<Rightarrow> bytes \<Rightarrow> bool" where
  "IsNetworkAvailable lookup serverAddr =
     (case SplitHostPort serverAddr of None \<Rightarrow> True
      | Some (host, _) \<Rightarrow> if ParseIP host \<noteq> None then True else lookup host)"

text \<open>
  The local state of \<open>connectLoop\<close>, with the delays it waited.  An attempt is described by what
  happens outside: the random numbers, cancellations, the name server, the result of the
  tunnel's \<open>Connect\<close> (None when a connection was made and lost), a fatal kick and the answer
  of the callback.  A pass gives whether the loop goes on, its state and the application.
\<close>

record LoopState =
  LS_attempt :: int
  LS_bo :: backoffState
  LS_delays :: "int list"

definition loop_start :: LoopState where
  "loop_start = \<lparr> LS_attempt = 0, LS_bo = newBackoff, LS_delays = [] \<rparr>"

record Attempt =
  AT_rnd :: "int \<Rightarrow> int"
  AT_lookup :: "bytes \<Rightarrow> bool"
  AT_cancelNet :: bool
  AT_cancelDelay :: bool
  AT_err :: "conn_error option"
  AT_cancelAfter :: bool
  AT_kicked :: bool
  AT_callback :: "bool option"

definition fastRetries :: int where "fastRetries = 3"

text \<open>\<open>errors.As(err, &de)\<close>: none of the errors that \<open>Connect\<close> returns wraps a DisconnectError.\<close>

fun as_disconnect :: "conn_error \<Rightarrow> DisconnectError option" where
  "as_disconnect e = None"

definition loop_wait :: "Attempt \<Rightarrow> bytes \<Rightarrow> LoopState \<Rightarrow> LoopState option" where
  "loop_wait tr addr s =
     (if LS_attempt s \<le> 0 then Some s
      else
        (let (delay, bo) = nextDelay (AT_rnd tr) (LS_attempt s \<le> fastRetries) (LS_bo s) in
         if delay < 0 then None
         else if fastRetries < LS_attempt s \<and> \<not> IsNetworkAvailable (AT_lookup tr) addr \<and> AT_cancelNet tr then None
         else if AT_cancelDelay tr then None
         else Some (s\<lparr> LS_bo := bo, LS_delays := LS_delays s @ [delay] \<rparr>)))"

definition connectLoop :: "Attempt \<Rightarrow> LoopState \<times> App \<Rightarrow> bool \<times> LoopState \<times> App" where
  "connectLoop tr sa =
     (case loop_wait tr (CC_ServerAddr (A_Cfg (snd sa))) (fst sa) of
        None \<Rightarrow> (False, sa)
      | Some s \<Rightarrow>
          (let a = snd sa in
           if AT_cancelAfter tr then (False, s, a)
           else if AT_kicked tr then (False, s, a\<lparr> A_LastErr := KickedErr, A_Connected := False \<rparr>)
           else
             (case AT_err tr of
                Some e \<Rightarrow>
                  (let a1 = a\<lparr> A_LastErr := ConnErr e, A_Connected := False \<rparr>; s1 = s\<lparr> LS_bo := newBackoff \<rparr> in
                   if (case as_disconnect e of Some de \<Rightarrow> IsFatal de | None \<Rightarrow> False) then (False, s, a1)
                   else if fastRetries \<le> LS_attempt s + 1 \<and> AT_callback tr = Some False then (False, s1, a1)
                   else (True, s1\<lparr> LS_attempt := LS_attempt s + 1 \<rparr>, a1))
              | None \<Rightarrow>
                  (True, s\<lparr> LS_bo := newBackoff, LS_attempt := 0 \<rparr>,
                   a\<lparr> A_Connected := False, A_LastErr := NoErr \<rparr>))))"

text \<open>
  The frame of the loop: it does not start with an invalid server address, and its deferred
  function clears \<open>Connecting\<close> unless a newer connection was started.  The early return comes before
  the deferred function is set up.
\<close>

definition connectLoop_enters :: "App \<Rightarrow> bool" where
  "connectLoop_enters a = (ValidateServerAddr (CC_ServerAddr (A_Cfg a)) = None)"

definition connectLoop_exit :: "int \<Rightarrow> App \<Rightarrow> App" where
  "connectLoop_exit gen a = (if A_ConnectGen a = gen then a\<lparr> A_Connecting := False \<rparr> else a)"

text \<open>Passes until the loop ends or no attempt is left.\<close>

fun loop_run :: "Attempt list \<Rightarrow> LoopState \<times> App \<Rightarrow> bool \<times> LoopState \<times> App" where
  "loop_run [] sa = (True, sa)"
| "loop_run (x # xs) sa = (case connectLoop x sa of (go, sa1) \<Rightarrow> if go then loop_run xs sa1 else (False, sa1))"

text \<open>The application after the loop over some attempts, and whether the loop still runs.\<close>

definition connectLoop_run :: "Attempt list \<Rightarrow> App \<Rightarrow> bool \<times> App" where
  "connectLoop_run xs a =
     (if connectLoop_enters a
      then (case loop_run xs (loop_start, a) of
              (go, s, a1) \<Rightarrow> if go then (True, a1) else (False, connectLoop_exit (A_ConnectGen a) a1))
      else (False, a))"

section \<open>The delays\<close>

lemma loop_wait_delay:
  assumes "loop_wait tr addr s = Some s1" "rnd_ok (AT_rnd tr)" "LS_bo s = newBackoff"
  shows "\<forall>d\<in>set (LS_delays s1) - set (LS_delays s). 0 < d \<and> d \<le> 2400000000"
proof (cases "LS_attempt s \<le> 0")
  case True
  then show ?thesis using assms(1) by (simp add: loop_wait_def)
next
  case False
  have "LS_delays s1 = LS_delays s @ [fst (nextDelay (AT_rnd tr) (LS_attempt s \<le> fastRetries) (LS_bo s))]"
    using assms(1) False by (auto simp: loop_wait_def split: prod.splits if_splits)
  moreover have "0 < fst (nextDelay (AT_rnd tr) (LS_attempt s \<le> fastRetries) (LS_bo s))"
    "fst (nextDelay (AT_rnd tr) (LS_attempt s \<le> fastRetries) (LS_bo s)) \<le> 2400000000"
    using nextDelay_first[OF assms(2), of "LS_bo s" "LS_attempt s \<le> fastRetries"] assms(3)
    by (auto simp: newBackoff_def split: if_splits)
  ultimately show ?thesis by auto
qed

lemma connectLoop_delay:
  assumes "connectLoop tr (s, a) = (go, s', a')" "rnd_ok (AT_rnd tr)" "LS_bo s = newBackoff"
  shows "go \<Longrightarrow> LS_bo s' = newBackoff" "\<forall>d\<in>set (LS_delays s') - set (LS_delays s). 0 < d \<and> d \<le> 2400000000"
proof -
  have "LS_delays s' = LS_delays s \<or> (\<exists>s1. loop_wait tr (CC_ServerAddr (A_Cfg a)) s = Some s1 \<and> LS_delays s' = LS_delays s1)"
    using assms(1) by (auto simp: connectLoop_def Let_def split: option.splits if_splits)
  then show "\<forall>d\<in>set (LS_delays s') - set (LS_delays s). 0 < d \<and> d \<le> 2400000000"
    using loop_wait_delay[OF _ assms(2,3)] by auto
  show "go \<Longrightarrow> LS_bo s' = newBackoff"
    using assms(1) by (auto simp: connectLoop_def Let_def split: option.splits if_splits)
qed

lemma loop_run_delays:
  "loop_run xs (s, a) = (go, s', a') \<Longrightarrow> list_all (\<lambda>x. rnd_ok (AT_rnd x)) xs \<Longrightarrow> LS_bo s = newBackoff \<Longrightarrow>
   \<forall>d\<in>set (LS_delays s). 0 < d \<and> d \<le> 2400000000 \<Longrightarrow> \<forall>d\<in>set (LS_delays s'). 0 < d \<and> d \<le> 2400000000"
proof (induction xs arbitrary: s a)
  case (Cons x xs)
  obtain g1 s1 a1 where c: "connectLoop x (s, a) = (g1, s1, a1)" by (cases "connectLoop x (s, a)")
  have d: "\<forall>d\<in>set (LS_delays s1). 0 < d \<and> d \<le> 2400000000"
    using connectLoop_delay(2)[OF c] Cons.prems by auto
  show ?case
  proof (cases g1)
    case True
    then show ?thesis using Cons.IH[of s1 a1] Cons.prems c d connectLoop_delay(1)[OF c] by simp
  qed (use Cons.prems c d in simp)
qed auto

text \<open>
  The client never backs off: the loop makes a new backoff state after every attempt, so
  however many attempts fail, no delay is longer than 2.4 seconds.
\<close>

theorem reconnect_never_backs_off:
  assumes "list_all (\<lambda>x. rnd_ok (AT_rnd x)) xs" "loop_run xs (loop_start, a) = (go, s, a')"
  shows "\<forall>d\<in>set (LS_delays s). 0 < d \<and> d \<le> 2400000000"
  using loop_run_delays[OF assms(2,1)] by (simp add: loop_start_def)

definition failing :: Attempt where
  "failing = \<lparr> AT_rnd = (\<lambda>n. n - 1), AT_lookup = (\<lambda>_. True), AT_cancelNet = False, AT_cancelDelay = False,
     AT_err = Some RegTimeout, AT_cancelAfter = False, AT_kicked = False, AT_callback = None \<rparr>"

theorem reconnect_never_backs_off_witness:
  "\<exists>go s a. loop_run (replicate 5 failing) (loop_start, NewApp sample_cenv sample_conf) = (go, s, a) \<and> go \<and>
    (\<forall>d\<in>set (LS_delays s). 0 < d \<and> d \<le> 2400000000)"
proof -
  obtain go s a where r: "loop_run (replicate 5 failing) (loop_start, NewApp sample_cenv sample_conf) = (go, s, a)"
    by (cases "loop_run (replicate 5 failing) (loop_start, NewApp sample_cenv sample_conf)")
  have "\<forall>d\<in>set (LS_delays s). 0 < d \<and> d \<le> 2400000000"
    by (rule reconnect_never_backs_off[OF _ r]) (auto simp: failing_def rnd_ok_def list_all_iff)
  moreover have "fst (loop_run (replicate 5 failing) (loop_start, NewApp sample_cenv sample_conf))" by code_simp
  ultimately show ?thesis using r by auto
qed

text \<open>
  After a connection attempt with an invalid server address the application refuses every
  later attempt: \<open>Connecting\<close> is never cleared, until the user disconnects.
\<close>

theorem invalid_address_blocks:
  assumes "\<not> A_Connecting a" "ValidateServerAddr (CC_ServerAddr cfg) \<noteq> None"
  shows "App_Connect ev' cfg' (snd (connectLoop_run xs (snd (App_Connect ev cfg a)))) =
    (None, snd (connectLoop_run xs (snd (App_Connect ev cfg a))))"
  using assms by (auto simp: App_Connect_def connectLoop_run_def connectLoop_enters_def)

theorem invalid_address_blocks_witness:
  "fst (App_Connect sample_cenv sample_conf
      (snd (connectLoop_run [] (snd (App_Connect sample_cenv (DefaultConfig []) (NewApp sample_cenv sample_conf)))))) = None"
  using invalid_address_blocks[of "NewApp sample_cenv sample_conf" "DefaultConfig []" sample_cenv sample_conf "[]" sample_cenv]
  by (simp add: NewApp_def DefaultConfig_def ValidateServerAddr_def)

end
