(* ===== verification/TunnelGuarantees.thy ===== *)
theory TunnelGuarantees
  imports App
begin

text \<open>
  What the client promises: the packets it builds are the protocol's encodings, the choice of
  the path, delivery through the relay from one TUN device to the other, who may
  write to the TUN device, and the ways in which packets are lost.
\<close>

section \<open>Data packets\<close>

definition data_msg :: "bytes \<Rightarrow> bytes \<Rightarrow> token \<Rightarrow> bytes \<Rightarrow> DataPayload" where
  "data_msg src dst tok data =
     \<lparr> DP_SrcIP = src, DP_DstIP = dst, DP_FormatVer = DataFormatVersion,
       DP_Flags = (if tok \<noteq> zero_token then DataFlagHasToken else 0), DP_Token = tok, DP_Data = data \<rparr>"

definition data_header :: "bytes \<Rightarrow> bytes \<Rightarrow> token \<Rightarrow> bytes" where
  "data_header src dst tok =
     [ProtocolVersion, TypeData] @ src @ dst @ [DataFormatVersion, if tok \<noteq> zero_token then DataFlagHasToken else 0] @
     (if tok \<noteq> zero_token then tok else [])"

lemma has_token_flag [simp]: "has_token DataFlagHasToken" "\<not> has_token 0"
  by (simp_all add: has_token_def DataFlagHasToken_def)

lemma Encode_data_msg:
  assumes "length src = 4" "length dst = 4"
  shows "Encode TypeData (Data_Marshal (data_msg src dst tok data)) = data_header src dst tok @ data"
  using assms by (simp add: Encode_def Data_Marshal_def data_msg_def data_header_def)

lemma length_data_header:
  "length src = 4 \<Longrightarrow> length dst = 4 \<Longrightarrow> length tok = 16 \<Longrightarrow>
   length (data_header src dst tok) = 12 + (if tok \<noteq> zero_token then 16 else 0)"
  by (simp add: data_header_def)

lemma split12:
  assumes "12 \<le> length buf"
  obtains a b c d e f g h i j k l rest where "buf = [a, b, c, d, e, f, g, h, i, j, k, l] @ rest"
proof -
  define ys where "ys = take 12 buf"
  have "length ys = 12" using assms by (simp add: ys_def)
  then obtain a b c d e f g h i j k l where "ys = [a, b, c, d, e, f, g, h, i, j, k, l]"
    by (auto simp: length_Suc_conv numeral_eq_Suc)
  then have "take 12 buf = [a, b, c, d, e, f, g, h, i, j, k, l]" by (simp add: ys_def)
  then have "buf = [a, b, c, d, e, f, g, h, i, j, k, l] @ drop 12 buf" by (metis append_take_drop_id)
  then show ?thesis by (rule that)
qed

lemma split4:
  assumes "length x = 4" obtains a b c d where "x = [a, b, c, d]"
  using assms by (auto simp: length_Suc_conv numeral_eq_Suc)

lemma buildDataHeader_ok:
  assumes "length src = 4" "length dst = 4" "length tok = 16"
    "length (data_header src dst tok) \<le> length buf"
    "flags = (if tok \<noteq> zero_token then DataFlagHasToken else 0)"
  shows "buildDataHeader buf src dst flags tok =
    Ok (length (data_header src dst tok), data_header src dst tok @ drop (length (data_header src dst tok)) buf)"
proof -
  have l: "length (data_header src dst tok) = 12 + (if tok \<noteq> zero_token then 16 else 0)"
    by (rule length_data_header[OF assms(1-3)])
  then have "12 \<le> length buf" using assms(4) by simp
  then obtain a b c d e f g h i j k m rest where buf: "buf = [a, b, c, d, e, f, g, h, i, j, k, m] @ rest" by (rule split12)
  obtain s0 s1 s2 s3 where s: "src = [s0, s1, s2, s3]" using assms(1) by (rule split4)
  obtain t0 t1 t2 t3 where t: "dst = [t0, t1, t2, t3]" using assms(2) by (rule split4)
  have f: "flags OR DataFlagHasToken = flags" if "tok \<noteq> zero_token" using that assms(5) by simp
  show ?thesis
    using assms(3-5) l
    by (auto simp: buildDataHeader_def Let_def set_at_def copy_ip_def copy_at_def To4_def s t buf data_header_def)
qed

lemma length_data_msg: "length (Encode TypeData (Data_Marshal (data_msg src dst tok data))) =
    length (data_header src dst tok) + length data" if "length src = 4" "length dst = 4"
  using that by (simp add: Encode_data_msg)

text \<open>Without a cipher the packet is the checked encoding of the data message, whatever the buffer held.\<close>

lemma buildDataPacket_eq:
  assumes "length src = 4" "length dst = 4" "length tok = 16"
  shows "buildDataPacket ev src dst data 0 tok = Ok (EncodeChecked TypeData (Data_Marshal (data_msg src dst tok data)))"
proof -
  let ?f = "if tok \<noteq> zero_token then DataFlagHasToken else 0"
  let ?h = "data_header src dst tok"
  let ?sz = "HeaderLen + DataHeaderLen + (if tok \<noteq> zero_token then 16 else 0) + length data + ChecksumLen"
  have sz: "?sz = length ?h + length data + 4" using length_data_header[OF assms] by simp
  have h: "buildDataHeader (pkt_buf ev ?sz) src dst ?f tok = Ok (length ?h, ?h @ drop (length ?h) (pkt_buf ev ?sz))"
    by (rule buildDataHeader_ok[OF assms _ refl]) (use sz in simp)
  have fl: "(if tok \<noteq> zero_token then 0 OR DataFlagHasToken else 0) = ?f" by simp
  have "buildDataPacket ev src dst data 0 tok = Ok (?h @ data @ put32 (ChecksumIEEE (?h @ data)))"
    unfolding buildDataPacket_def Let_def fl h using sz by (simp add: copy_at_def slice_def)
  then show ?thesis using Encode_data_msg[OF assms(1,2), of tok data]
    by (simp add: EncodeChecked_AppendChecksum AppendChecksum_def)
qed

lemma pkt_cap_ge: "n \<le> pkt_cap n"
  by (simp add: pkt_cap_def buf_class_def class_size_def)

lemma buildEncryptedDataPacket_eq:
  assumes "length src = 4" "length dst = 4" "length tok = 16" "Encrypt (Some ipkt) c = (Some d, c')"
  shows "buildEncryptedDataPacket ev src dst ipkt c 0 tok = Ok (Encode TypeData (Data_Marshal (data_msg src dst tok d)), c')"
proof -
  let ?f = "if tok \<noteq> zero_token then DataFlagHasToken else 0"
  let ?h = "data_header src dst tok"
  let ?sz = "HeaderLen + DataHeaderLen + (if tok \<noteq> zero_token then 16 else 0) + Overhead + length ipkt"
  have sz: "?sz = length ?h + Overhead + length ipkt" using length_data_header[OF assms(1-3)] by simp
  have h: "buildDataHeader (pkt_buf ev ?sz) src dst ?f tok = Ok (length ?h, ?h @ drop (length ?h) (pkt_buf ev ?sz))"
    by (rule buildDataHeader_ok[OF assms(1-3) _ refl]) (use sz in simp)
  have fl: "(if tok \<noteq> zero_token then 0 OR DataFlagHasToken else 0) = ?f" by simp
  have sp: "\<not> pkt_cap ?sz - length ?h < Overhead + length ipkt" 
    using pkt_cap_ge[of "length ?h + Overhead + length ipkt"] unfolding sz by linarith
  have e: "EncryptTo ?h (pkt_cap ?sz - length ?h) (Some ipkt) c = ((None, ?h @ d), c')"
    using sp assms(4) unfolding EncryptTo_def option.case by (auto simp: Encrypt_def Let_def split: prod.splits)
  have s: "slice (?h @ drop (length ?h) (pkt_buf ev ?sz)) 0 (length ?h) = Ok ?h" by (simp add: slice_def)
  show ?thesis
    unfolding buildEncryptedDataPacket_def Let_def fl h bind_res.simps prod.case s e option.case
    using Encode_data_msg[OF assms(1,2)] by simp
qed

section \<open>The choice of the path\<close>

lemma isRelayTarget_raw:
  assumes "length dst = 4" "\<forall>n. subnet = Some n \<longrightarrow> length (IPNet_Mask n) = 4"
  shows "isRelayTarget dst subnet = Ok (IsRelayTargetRaw dst subnet)"
proof -
  have b: "ip_equal dst (IPv4 255 255 255 255) \<longleftrightarrow> dst = [255, 255, 255, 255]"
    using assms(1) by (simp add: ip_equal_def IPv4_def)
  have e: "ip_equal dst (map2 (\<lambda>x m. x OR NOT m) s (take 4 (IPNet_Mask n))) \<longleftrightarrow>
      dst = map2 (\<lambda>x m. x OR NOT m) s (take 4 (IPNet_Mask n))" if "subnet = Some n" "To4 (IPNet_IP n) = Some s" for n s
    using assms that To4_length[OF that(2)] by (simp add: ip_equal_def)
  show ?thesis
    using assms b e by (auto simp: isRelayTarget_def IsRelayTargetRaw_def To4_4 split: option.splits)
qed

text \<open>What goes out for an IP packet, and with which cipher the tunnel goes on.\<close>

definition wire_packet :: "Tunnel \<Rightarrow> bytes \<Rightarrow> bytes \<Rightarrow> bytes \<Rightarrow> bytes \<times> Cipher option" where
  "wire_packet t ipkt src dst =
     (case T_p2pCipher t of
        None \<Rightarrow> (EncodeChecked TypeData (Data_Marshal (data_msg src dst (route_token t) ipkt)), None)
      | Some c \<Rightarrow> (let (d, c') = Encrypt (Some ipkt) c
                  in (Encode TypeData (Data_Marshal (data_msg src dst (route_token t) (the d))), Some c')))"

lemma Encrypt_Some: obtains d c' where "Encrypt (Some p) c = (Some d, c')"
  by (simp add: Encrypt_def makeNonce_def Let_def)

lemma send_packet_eq:
  assumes "length src = 4" "length dst = 4" "length (route_token t) = 16"
  shows "send_packet ev ipkt src dst (route_token t) addr t =
    Ok (sendUDP ev (fst (wire_packet t ipkt src dst)) addr (t\<lparr> T_p2pCipher := snd (wire_packet t ipkt src dst) \<rparr>))"
proof (cases "T_p2pCipher t")
  case None
  then show ?thesis using buildDataPacket_eq[OF assms]
    by (simp add: send_packet_def buildPacket_def wire_packet_def)
next
  case (Some c)
  obtain d c' where d: "Encrypt (Some ipkt) c = (Some d, c')" by (rule Encrypt_Some)
  then show ?thesis using Some buildEncryptedDataPacket_eq[OF assms d]
    by (simp add: send_packet_def buildPacket_def wire_packet_def)
qed

lemma length_route_token: "length (T_sessionToken t) = 16 \<Longrightarrow> length (route_token t) = 16"
  by (simp add: route_token_def)

text \<open>A registered session: what \<open>handleAssignIP\<close> leaves behind.\<close>

definition session_ok :: "Tunnel \<Rightarrow> bool" where
  "session_ok t \<longleftrightarrow> length (T_virtualIP t) = 4 \<and> length (T_sessionToken t) = 16 \<and> T_serverIPKey t \<noteq> None \<and>
     (\<exists>n. T_cachedSubnet t = Some n \<and> length (IPNet_Mask n) = 4)"

lemma UnmarshalAssignIP_lengths:
  assumes "UnmarshalAssignIP payload = Ok a"
  shows "length (Asg_VirtualIP a) = 4" "length (Asg_SubnetMask a) = 4" "length (Asg_ServerIP a) = 4"
    "length (Asg_SessionToken a) = 16"
  using assms by (auto simp: UnmarshalAssignIP_def guard_err_def slice_def get16_def bind_res_Ok_iff split: if_splits)

lemma handleAssignIP_session:
  assumes "handleAssignIP ev payload t = (None, t')"
  shows "session_ok t'"
proof -
  obtain a cs where a: "UnmarshalAssignIP payload = Ok a" and t': "t' = accept_assign a cs t"
    using assms by (auto simp: handleAssignIP_def split: res.splits if_splits sum.splits)
  show ?thesis using UnmarshalAssignIP_lengths[OF a]
    by (simp add: t' session_ok_def accept_assign_def assign_subnet_def)
qed

definition chosen_path :: "Tunnel \<Rightarrow> bytes \<Rightarrow> UDPAddr option" where
  "chosen_path t dst =
     (case mget (T_peers t) (IPKey dst) of
        Some p \<Rightarrow>
          if P_DirectReach p \<and> P_PublicAddr p \<noteq> None \<and> T_serverIPKey t \<noteq> Some (IPKey dst) \<and>
             \<not> IsRelayTargetRaw dst (T_cachedSubnet t) then P_PublicAddr p
          else T_serverAddr t
      | None \<Rightarrow> T_serverAddr t)"

lemma route_eq:
  assumes "session_ok t" "length src = 4" "length dst = 4"
  shows "routePacket ev ipkt src dst t =
    Ok (sendUDP ev (fst (wire_packet t ipkt src dst)) (chosen_path t dst)
         (t\<lparr> T_p2pCipher := snd (wire_packet t ipkt src dst) \<rparr>))"
proof -
  obtain n k where n: "T_cachedSubnet t = Some n" "length (IPNet_Mask n) = 4" and k: "T_serverIPKey t = Some k"
    using assms(1) by (auto simp: session_ok_def)
  have tok: "length (route_token t) = 16" using assms(1) length_route_token by (simp add: session_ok_def)
  have r: "isRelayTarget dst (Some n) = Ok (IsRelayTargetRaw dst (Some n))"
    by (rule isRelayTarget_raw) (use assms(3) n(2) in auto)
  have s: "send_packet ev ipkt src dst (route_token t) a t =
      Ok (sendUDP ev (fst (wire_packet t ipkt src dst)) a (t\<lparr> T_p2pCipher := snd (wire_packet t ipkt src dst) \<rparr>))" for a
    by (rule send_packet_eq[OF assms(2,3) tok])
  show ?thesis
    using k by (auto simp: routePacket_def sendToServer_def s Let_def n(1) r chosen_path_def split: option.split)
qed

text \<open>
  C11: An outgoing IP packet goes to the peer's own endpoint exactly when the destination is a
  peer with a confirmed direct path and neither the server nor a broadcast or multicast
  address (by the server's own test), and to the server otherwise; what is sent is the
  protocol's encoding of the packet with the session token, and nothing panics.
\<close>

theorem route_decision:
  assumes "session_ok t" "length src = 4" "length dst = 4"
  shows "routePacket ev ipkt src dst t =
    Ok (sendUDP ev (fst (wire_packet t ipkt src dst)) (chosen_path t dst)
         (t\<lparr> T_p2pCipher := snd (wire_packet t ipkt src dst) \<rparr>))"
  using assms by (rule route_eq)

section \<open>Delivery through the relay\<close>

definition tun_output :: "Tunnel \<Rightarrow> bytes list" where
  "tun_output t = (case T_tunDev t of None \<Rightarrow> [] | Some d \<Rightarrow> Dev_written d)"

lemma DecodeChecked_EncodeChecked: "DecodeChecked (EncodeChecked ty p) = Ok \<lparr> MsgType = ty, MsgPayload = p \<rparr>"
  using VerifyChecksum_AppendChecksum[of "Encode ty p"] Decode_Encode[of ty p]
  by (simp add: DecodeChecked_def EncodeChecked_AppendChecksum Encode_def)

lemma pooled_data_msg:
  assumes "Pool_Token dp = zero_token" "length src = 4" "length dst = 4" "length tok = 16"
  shows "UnmarshalDataPooled dp (Data_Marshal (data_msg src dst tok data)) = Ok (data_msg src dst tok data)"
  using Data_roundtrip_lemma[of "data_msg src dst tok data"] assms
  by (simp add: UnmarshalDataPooled_eq data_msg_def)

text \<open>
  Sender \<open>a\<close> and receiver \<open>b\<close> use the room in the same way: without a password, or with one cipher
  and with the next packet inside the receiver's window.
\<close>

definition linked :: "Tunnel \<Rightarrow> Tunnel \<Rightarrow> Room \<Rightarrow> bool" where
  "linked a b r \<longleftrightarrow>
     (if R_roomPass r = [] then T_p2pCipher a = None \<and> T_p2pCipher b = None \<and> \<not> T_decAvailable b
      else T_decAvailable b \<and>
        (\<exists>ca cb. T_p2pCipher a = Some ca \<and> T_p2pCipher b = Some cb \<and> C_aead cb = C_aead ca \<and> aead_ok (C_aead ca) \<and>
           length (C_dirTag ca) = 4 \<and> fst (checkReplayWindow (C_counter ca + 1) cb)))"

lemma tun_output_write:
  assumes "T_tunDev t = Some dev" "\<not> Dev_closed dev" "N_tunOK ev"
  shows "tun_output (tun_write ev d t) = Dev_written dev @ [rewriteBroadcast ev d (T_cachedSubnet t)]"
  using assms by (simp add: tun_write_def tun_output_def)

lemma from_server_self: "from_server sa sa ty"
  by (simp add: from_server_def ip_equal_def)

lemma receive_server_data:
  assumes "(if T_decAvailable b then Decode p else DecodeChecked p) = Ok \<lparr> MsgType = TypeData, MsgPayload = pl \<rparr>"
    "UnmarshalDataPooled (N_payload ev) pl = Ok dp" "DP_Data dp \<noteq> []"
  shows "receive_packet ev sa sa p b = decryptWriteAndRelease ev dp (markServerResponse ev b)"
  using assms unfolding receive_packet_def
  by (simp add: from_server_self handleServerData_def handleDataFromServer_def type_defs Let_def)

lemma relayed_payload:
  assumes "linked a b r" "session_ok a" "length src = 4" "length dst = 4" "ipkt \<noteq> []"
    "T_tunDev b = Some dev" "\<not> Dev_closed dev" "N_tunOK ev" "Pool_Token (N_payload ev) = zero_token"
    "p = fst (wire_packet a ipkt src dst)"
  shows "\<exists>pl. (if R_roomPass r \<noteq> [] then Decode p else DecodeChecked p) = Ok \<lparr> MsgType = TypeData, MsgPayload = pl \<rparr> \<and>
    take 4 pl = src \<and> take 4 (drop 4 pl) = dst \<and>
    tun_output (receive_packet ev sa sa (relay_encode r pl) b) =
      Dev_written dev @ [rewriteBroadcast ev ipkt (T_cachedSubnet b)]"
proof -
  let ?tok = "route_token a"
  have tok: "length ?tok = 16" using assms(2) length_route_token by (simp add: session_ok_def)
  have adr: "take 4 (Data_Marshal (data_msg src dst ?tok x)) = src"
    "take 4 (drop 4 (Data_Marshal (data_msg src dst ?tok x))) = dst" for x
    using assms(3,4) by (simp_all add: Data_Marshal_def data_msg_def)
  have um: "UnmarshalDataPooled (N_payload ev) (Data_Marshal (data_msg src dst ?tok x)) = Ok (data_msg src dst ?tok x)" for x
    by (rule pooled_data_msg[OF assms(9,3,4) tok])
  show ?thesis
  proof (cases "R_roomPass r = []")
    case True
    then have l: "T_p2pCipher a = None" "T_p2pCipher b = None" "\<not> T_decAvailable b" using assms(1) by (auto simp: linked_def)
    let ?pl = "Data_Marshal (data_msg src dst ?tok ipkt)"
    have p: "p = EncodeChecked TypeData ?pl" using assms(10) l(1) by (simp add: wire_packet_def)
    have "receive_packet ev sa sa p b = decryptWriteAndRelease ev (data_msg src dst ?tok ipkt) (markServerResponse ev b)"
      using receive_server_data[OF _ um] l(3) assms(5) p by (simp add: DecodeChecked_EncodeChecked data_msg_def)
    also have "\<dots> = tun_write ev ipkt (markServerResponse ev b)"
      using l(2) assms(6) by (simp add: decryptWriteAndRelease_def markServerResponse_def data_msg_def)
    finally have "tun_output (receive_packet ev sa sa p b) = Dev_written dev @ [rewriteBroadcast ev ipkt (T_cachedSubnet b)]"
      using tun_output_write[of "markServerResponse ev b" dev ev ipkt] assms(6-8) by (simp add: markServerResponse_def)
    then show ?thesis
      using True p adr by (intro exI[of _ ?pl]) (simp add: DecodeChecked_EncodeChecked relay_encode_def)
  next
    case False
    then obtain ca cb where l: "T_p2pCipher a = Some ca" "T_p2pCipher b = Some cb" "T_decAvailable b"
      and c: "C_aead cb = C_aead ca" "aead_ok (C_aead ca)" "length (C_dirTag ca) = 4"
        "fst (checkReplayWindow (C_counter ca + 1) cb)"
      using assms(1) by (auto simp: linked_def)
    obtain d c' where d: "Encrypt (Some ipkt) ca = (Some d, c')" by (rule Encrypt_Some)
    note sh = Encrypt_shape[OF c(3,2) d]
    have dn: "d \<noteq> []" "IsEncrypted d" using sh(1,2) by (auto simp: IsEncrypted_def)
    have dec: "DecryptInto [] d cb = (Inr ipkt, snd (checkReplayWindow (C_counter ca + 1) cb))"
      using Encrypt_Decrypt[OF c(3,2) d c(1,4)] by (simp add: Decrypt_def)
    let ?pl = "Data_Marshal (data_msg src dst ?tok d)" and ?b1 = "markServerResponse ev b"
    have p: "p = Encode TypeData ?pl" using assms(10) l(1) d by (simp add: wire_packet_def)
    have "receive_packet ev sa sa p b = decryptWriteAndRelease ev (data_msg src dst ?tok d) ?b1"
      using receive_server_data[OF _ um] l(3) dn(1) p by (simp add: Decode_Encode data_msg_def)
    also have "\<dots> = tun_write ev ipkt (?b1\<lparr> T_p2pCipher := Some (snd (checkReplayWindow (C_counter ca + 1) cb)) \<rparr>)"
      using l(2) assms(6) dn(2) dec by (simp add: decryptWriteAndRelease_def markServerResponse_def data_msg_def)
    finally have "tun_output (receive_packet ev sa sa p b) = Dev_written dev @ [rewriteBroadcast ev ipkt (T_cachedSubnet b)]"
      using tun_output_write[of "?b1\<lparr> T_p2pCipher := Some (snd (checkReplayWindow (C_counter ca + 1) cb)) \<rparr>" dev ev ipkt]
        assms(6-8) by (simp add: markServerResponse_def)
    then show ?thesis
      using False p adr by (intro exI[of _ ?pl]) (simp add: Decode_Encode relay_encode_def)
  qed
qed

lemma sendUDP_queues:
  assumes "T_sendCh (sendUDP ev d x t) = T_sendCh t @ [j]"
  shows "j = (d, x)"
  using assms by (auto simp: sendUDP_def note_error_def Let_def split: prod.splits if_splits)

text \<open>
  C8: End to end: the datagram that \<open>routePacket\<close> queues for an IP packet is decoded by the server to a data
  message with its two addresses, and everything the room sends on for that message, to whomever, makes a receiving client
  write that IP packet to its TUN device, a limited broadcast rewritten to the broadcast of the subnet and
  every other packet unchanged.  Sender and receiver use the room in the same way: without a password, or with one
  cipher, and then the replay window of the receiver must accept the sender's next counter.
\<close>

theorem relayed_packet_arrives:
  assumes "linked a b r" "session_ok a" "length src = 4" "length dst = 4" "ipkt \<noteq> []"
    "routePacket ev0 ipkt src dst a = Ok a'" "T_sendCh a' = T_sendCh a @ [(p, to)]"
    "T_tunDev b = Some dev" "\<not> Dev_closed dev" "N_tunOK ev" "Pool_Token (N_payload ev) = zero_token"
  shows "\<exists>pl. (if R_roomPass r \<noteq> [] then Decode p else DecodeChecked p) = Ok \<lparr> MsgType = TypeData, MsgPayload = pl \<rparr> \<and>
    take 4 pl = src \<and> take 4 (drop 4 pl) = dst \<and>
    (\<forall>env ep q e x. (e, x) \<in># taken_on (snd (HandlePacket env TypeData pl ep (r, q))) - taken_on q \<longrightarrow>
      tun_output (receive_packet ev sa sa e b) = Dev_written dev @ [rewriteBroadcast ev ipkt (T_cachedSubnet b)])"
proof -
  let ?w = "wire_packet a ipkt src dst"
  have "a' = sendUDP ev0 (fst ?w) (chosen_path a dst) (a\<lparr> T_p2pCipher := snd ?w \<rparr>)"
    using route_eq[OF assms(2-4), of ev0 ipkt] assms(6) by simp
  then have "p = fst ?w" using sendUDP_queues[of ev0 "fst ?w" "chosen_path a dst" "a\<lparr> T_p2pCipher := snd ?w \<rparr>"] assms(7) by simp
  from relayed_payload[OF assms(1-5,8-11) this, of sa] show ?thesis using relay_new[of _ _ _ _ _ r] by blast
qed

section \<open>Who may write to the TUN device\<close>

lemma tunDev_sends [simp]:
  "T_tunDev (note_error t) = T_tunDev t" "T_tunDev (sendCtrl d a t) = T_tunDev t" "T_tunDev (launch p t) = T_tunDev t"
  "T_tunDev (sendHolePunchRelay i t) = T_tunDev t" "T_tunDev (markServerResponse ev t) = T_tunDev t"
  "T_tunDev (handle_kick pl t) = T_tunDev t" "T_tunDev (handle_rebind_ack pl t) = T_tunDev t"
  by (simp_all add: note_error_def sendCtrl_def launch_def sendHolePunchRelay_def markServerResponse_def handle_kick_def
      handle_rebind_ack_def Let_def split: option.split res.split)

lemma tunDev_fold: "(\<And>x t. T_tunDev (f x t) = T_tunDev t) \<Longrightarrow> T_tunDev (fold f xs t) = T_tunDev t"
  by (induction xs arbitrary: t) simp_all

lemma tunDev_handlers [simp]:
  "T_tunDev (handlePeerInfo ev pl t) = T_tunDev t" "T_tunDev (handleHolePunchReceived ev pl t) = T_tunDev t"
  "T_tunDev (handleDirectHolePunch ev from msg t) = T_tunDev t"
proof -
  show "T_tunDev (handlePeerInfo ev pl t) = T_tunDev t"
    by (simp add: handlePeerInfo_def tunDev_fold split: res.split prod.split)
  have b: "T_tunDev (punch_back ev x k p a t) = T_tunDev t" for x k p a
    by (simp add: punch_back_def Let_def split: prod.split)
  show "T_tunDev (handleHolePunchReceived ev pl t) = T_tunDev t"
    by (simp add: handleHolePunchReceived_def Let_def b split: option.split)
  show "T_tunDev (handleDirectHolePunch ev from msg t) = T_tunDev t"
    by (simp add: handleDirectHolePunch_def Let_def b split: option.split)
qed

definition same_endpoint :: "UDPAddr \<Rightarrow> UDPAddr \<Rightarrow> bool" where
  "same_endpoint x y \<longleftrightarrow> ip_equal (UDP_IP x) (UDP_IP y) \<and> UDP_Port x = UDP_Port y"

text \<open>
  C12: Only the server and known peers reach the TUN device: if a datagram whose source is not the
  server's endpoint (nor the loopback with its port) makes the client write to the device, then
  it is a data message whose source address is that of a peer in the table, it came from that
  peer's endpoint, and in a room without encryption it carries the session token.
\<close>

theorem tun_writes_authentic:
  assumes "\<not> same_endpoint from sa" "\<not> (UDP_Port from = UDP_Port sa \<and> IsLoopback (UDP_IP from))"
    "tun_output (receive_packet ev sa from data t) \<noteq> tun_output t"
  shows "\<exists>msg dp p a. (if T_decAvailable t then Decode data else DecodeChecked data) = Ok msg \<and> MsgType msg = TypeData \<and>
    UnmarshalDataPooled (N_payload ev) (MsgPayload msg) = Ok dp \<and> mget (T_peers t) (IPKey (DP_SrcIP dp)) = Some p \<and>
    P_PublicAddr p = Some a \<and> same_endpoint from a \<and> direct_token_ok (MsgPayload msg) t"
proof -
  obtain msg where m: "(if T_decAvailable t then Decode data else DecodeChecked data) = Ok msg"
    using assms(3) by (cases "if T_decAvailable t then Decode data else DecodeChecked data")
      (auto simp: receive_packet_def tun_output_def)
  have nd: "\<not> from_server sa from TypeData"
    using assms(1,2) by (auto simp: from_server_def same_endpoint_def type_defs)
  have ns: "\<not> from_server sa from (MsgType msg)"
  proof
    assume f: "from_server sa from (MsgType msg)"
    then have "MsgType msg \<noteq> TypeData" using nd by auto
    then have "T_tunDev (receive_packet ev sa from data t) = T_tunDev t"
      using f m by (simp add: receive_packet_def handleServerData_def Let_def)
    then show False using assms(3) by (simp add: tun_output_def)
  qed
  then have d: "tun_output (handleDirectData ev from msg t) \<noteq> tun_output t"
    using assms(3) m by (simp add: receive_packet_def)
  have ty: "MsgType msg = TypeData"
    using d by (auto simp: handleDirectData_def tun_output_def split: if_splits)
  obtain dp where u: "UnmarshalDataPooled (N_payload ev) (MsgPayload msg) = Ok dp" and ne: "DP_Data dp \<noteq> []"
    using d ty by (auto simp: handleDirectData_def type_defs split: res.splits if_splits)
  obtain p a where pa: "mget (T_peers t) (IPKey (DP_SrcIP dp)) = Some p" "P_PublicAddr p = Some a"
    using d ty u ne by (auto simp: handleDirectData_def type_defs Let_def split: option.splits if_splits)
  have "same_endpoint from a" "direct_token_ok (MsgPayload msg) t"
    using d ty u ne pa by (auto simp: handleDirectData_def type_defs Let_def same_endpoint_def split: if_splits)
  then show ?thesis using m ty u pa by blast
qed

section \<open>Direct packets\<close>

lemma receive_direct_data:
  assumes "(if T_decAvailable t then Decode p else DecodeChecked p) = Ok \<lparr> MsgType = TypeData, MsgPayload = pl \<rparr>"
    "\<not> from_server sa from TypeData" "UnmarshalDataPooled (N_payload ev) pl = Ok dp" "DP_Data dp \<noteq> []"
    "mget (T_peers t) (IPKey (DP_SrcIP dp)) = Some peer" "P_PublicAddr peer = Some a" "same_endpoint from a"
  shows "receive_packet ev sa from p t =
    (if direct_token_ok pl t then decryptWriteAndRelease ev dp
       (t\<lparr> T_peers := mput (IPKey (DP_SrcIP dp)) (peer\<lparr> P_DirectReach := True \<rparr>) (T_peers t) \<rparr>) else t)"
  using assms unfolding receive_packet_def
  by (simp add: handleDirectData_def same_endpoint_def type_defs Let_def)

lemma direct_token_data_msg:
  assumes "length src = 4" "length dst = 4" "length tok = 16"
  shows "direct_token_ok (Data_Marshal (data_msg src dst tok data)) t \<longleftrightarrow>
    T_p2pCipher t \<noteq> None \<or> T_sessionToken t = zero_token \<or> tok = T_sessionToken t"
proof -
  let ?f = "if tok \<noteq> zero_token then DataFlagHasToken else 0"
  obtain a b c d where s: "src = [a, b, c, d]" using assms(1) by (rule split4)
  obtain e f g h where t: "dst = [e, f, g, h]" using assms(2) by (rule split4)
  have m: "Data_Marshal (data_msg src dst tok data) =
      [a, b, c, d, e, f, g, h, DataFormatVersion, ?f] @ (if tok \<noteq> zero_token then tok else []) @ data"
    by (simp add: Data_Marshal_def data_msg_def s t)
  show ?thesis
    unfolding m using assms(3)
    by (auto simp: direct_token_ok_def ParseDataHeader_def Let_def)
qed

text \<open>
  C36: Direct packets in a room without encryption are checked against the receiver's own token:
  a packet that a peer sends to the other's endpoint, received from the endpoint in the
  peer table, reaches the TUN device exactly when sender and receiver have the same session
  token (or the receiver has none), and otherwise leaves the receiver as it was.
\<close>

theorem direct_delivery_needs_equal_tokens:
  assumes "session_ok a" "T_p2pCipher a = None" "T_p2pCipher b = None" "\<not> T_decAvailable b"
    "length src = 4" "length dst = 4" "ipkt \<noteq> []" "mget (T_peers b) (IPKey src) = Some peer" "P_PublicAddr peer = Some pa"
    "same_endpoint from pa" "\<not> from_server sa from TypeData" "Pool_Token (N_payload ev) = zero_token"
    "T_tunDev b = Some dev" "\<not> Dev_closed dev" "N_tunOK ev" "p = fst (wire_packet a ipkt src dst)"
  shows "if T_sessionToken b = zero_token \<or> route_token a = T_sessionToken b
    then tun_output (receive_packet ev sa from p b) = Dev_written dev @ [rewriteBroadcast ev ipkt (T_cachedSubnet b)]
    else receive_packet ev sa from p b = b"
proof -
  let ?m = "data_msg src dst (route_token a) ipkt"
  have tok: "length (route_token a) = 16" using assms(1) length_route_token by (simp add: session_ok_def)
  have p: "p = EncodeChecked TypeData (Data_Marshal ?m)" using assms(2,16) by (simp add: wire_packet_def)
  have um: "UnmarshalDataPooled (N_payload ev) (Data_Marshal ?m) = Ok ?m" by (rule pooled_data_msg[OF assms(12,5,6) tok])
  let ?b1 = "b\<lparr> T_peers := mput (IPKey src) (peer\<lparr> P_DirectReach := True \<rparr>) (T_peers b) \<rparr>"
  have r: "receive_packet ev sa from p b =
      (if T_sessionToken b = zero_token \<or> route_token a = T_sessionToken b then decryptWriteAndRelease ev ?m ?b1 else b)"
    using receive_direct_data[of b p "Data_Marshal ?m" sa "from" ev ?m peer pa] assms(3,4,7-11) um
      direct_token_data_msg[OF assms(5,6) tok, of ipkt b] p
    by (simp add: DecodeChecked_EncodeChecked data_msg_def)
  have "decryptWriteAndRelease ev ?m ?b1 = tun_write ev ipkt ?b1"
    using assms(3,13) by (simp add: decryptWriteAndRelease_def data_msg_def)
  then show ?thesis using r tun_output_write[of ?b1 dev ev ipkt] assms(13-15) by simp
qed

section \<open>Samples\<close>

definition friend_addr :: UDPAddr where
  "friend_addr = \<lparr> UDP_IP = IPv4 9 8 7 6, UDP_Port = 5000 \<rparr>"

definition sample_friend :: Peer where
  "sample_friend = \<lparr> P_VirtualIP = [10, 10, 0, 3], P_PublicAddr = Some friend_addr, P_Username = lit ''ann'', P_NATType = 0,
     P_DirectReach = True, P_lastSeen = 1, P_lastPunchBack = 0, P_stale = False \<rparr>"

definition sample_dev :: TunDevice where
  "sample_dev = \<lparr> Dev_cfg = \<lparr> TC_VirtualIP = [10, 10, 0, 2], TC_SubnetMask = [255, 255, 255, 0], TC_ServerIP = [10, 10, 0, 1],
     TC_MTU = 1400 \<rparr>, Dev_closed = False, Dev_written = [] \<rparr>"

definition sample_tunnel :: Tunnel where
  "sample_tunnel = (New sample_cenv sample_conf)\<lparr> T_virtualIP := [10, 10, 0, 2], T_serverIP := [10, 10, 0, 1],
     T_serverIPKey := Some (IPKey [10, 10, 0, 1]), T_subnetMask := [255, 255, 255, 0],
     T_cachedSubnet := Some \<lparr> IPNet_IP = [10, 10, 0, 0], IPNet_Mask = [255, 255, 255, 0] \<rparr>,
     T_sessionToken := replicate 16 7, T_serverVersion := 0x110, T_serverAddr := Some sample_addr, T_conn := True,
     T_sockOpen := True, T_tunDev := Some sample_dev, T_peers := [(IPKey [10, 10, 0, 3], sample_friend)] \<rparr>"

lemma sample_session: "session_ok sample_tunnel"
  by (simp add: session_ok_def sample_tunnel_def)

theorem route_decision_witness:
  "chosen_path sample_tunnel [10, 10, 0, 3] = Some friend_addr \<and>
   routePacket sample_cenv [0x45] [10, 10, 0, 2] [10, 10, 0, 3] sample_tunnel =
     Ok (sendUDP sample_cenv (fst (wire_packet sample_tunnel [0x45] [10, 10, 0, 2] [10, 10, 0, 3])) (Some friend_addr)
       (sample_tunnel\<lparr> T_p2pCipher := snd (wire_packet sample_tunnel [0x45] [10, 10, 0, 2] [10, 10, 0, 3]) \<rparr>))"
proof -
  have "chosen_path sample_tunnel [10, 10, 0, 3] = Some friend_addr" by code_simp
  then show ?thesis
    using route_decision[OF sample_session, of "[10, 10, 0, 2]" "[10, 10, 0, 3]" sample_cenv "[0x45]"] by simp
qed

text \<open>A member of the locked room.\<close>

definition locked_tunnel :: Tunnel where
  "locked_tunnel = sample_tunnel\<lparr> T_p2pCipher := Some sample_cipher, T_decAvailable := True \<rparr>"

lemma locked_linked: "linked locked_tunnel locked_tunnel locked_room"
proof -
  have "fst (checkReplayWindow (C_counter sample_cipher + 1) sample_cipher)" by code_simp
  then show ?thesis
    by (auto simp: linked_def locked_tunnel_def locked_facts(6) plain_aead_ok sample_cipher_def DirClientToClient_def)
qed

text \<open>Bob broadcasts; the room of Bob and Ann sends his packet to Ann, who writes it to her device.\<close>

definition bob_tunnel :: Tunnel where
  "bob_tunnel = sample_tunnel\<lparr> T_peers := [] \<rparr>"

abbreviation all_players :: bytes where "all_players \<equiv> [255, 255, 255, 255]"

definition bob_payload :: bytes where
  "bob_payload = Data_Marshal (data_msg [10, 10, 0, 2] all_players (replicate 16 7) [0x45])"

lemma bob_facts:
  "session_ok bob_tunnel" "linked bob_tunnel sample_tunnel room2" "route_token bob_tunnel = replicate 16 7"
  "wire_packet bob_tunnel [0x45] [10, 10, 0, 2] all_players = (EncodeChecked TypeData bob_payload, None)"
proof -
  have p: "R_roomPass room2 = []" by (rule room2_open)
  show "session_ok bob_tunnel" by (simp add: session_ok_def bob_tunnel_def sample_tunnel_def)
  show "linked bob_tunnel sample_tunnel room2" by (simp add: linked_def p bob_tunnel_def sample_tunnel_def New_def)
  show t: "route_token bob_tunnel = replicate 16 7" by code_simp
  show "wire_packet bob_tunnel [0x45] [10, 10, 0, 2] all_players = (EncodeChecked TypeData bob_payload, None)"
    using t by (simp add: wire_packet_def bob_payload_def) (simp add: bob_tunnel_def sample_tunnel_def New_def)
qed

lemma bob_queues:
  "\<exists>a'. routePacket sample_cenv [0x45] [10, 10, 0, 2] all_players bob_tunnel = Ok a' \<and>
     T_sendCh a' = T_sendCh bob_tunnel @ [(EncodeChecked TypeData bob_payload, T_serverAddr bob_tunnel)]"
proof -
  let ?d = "EncodeChecked TypeData bob_payload"
  have "length ?d \<le> 1000"
    by (simp add: bob_payload_def EncodeChecked_AppendChecksum AppendChecksum_def Encode_def Data_Marshal_def data_msg_def)
  then have "fst (limiter_allow (N_now sample_cenv) (int (length ?d)) (T_sendLimiter bob_tunnel))"
    by (simp add: limiter_allow_def bob_tunnel_def sample_tunnel_def New_def newClientSendLimiter_def)
  moreover have "chosen_path bob_tunnel all_players = T_serverAddr bob_tunnel" by (simp add: chosen_path_def bob_tunnel_def)
  moreover have "T_sendCh bob_tunnel = []" by (simp add: bob_tunnel_def sample_tunnel_def New_def)
  ultimately show ?thesis
    using route_eq[OF bob_facts(1), of "[10, 10, 0, 2]" all_players sample_cenv "[0x45]"]
    by (auto simp: bob_facts(4) sendUDP_def sendChanSize_def split: prod.split)
qed

theorem relayed_packet_arrives_witness:
  "\<exists>e. (e, addr2) \<in># taken_on (snd (HandlePacket sample_env TypeData bob_payload sample_addr (room2, sample_rlq))) - taken_on sample_rlq \<and>
     tun_output (receive_packet sample_cenv sample_addr sample_addr e sample_tunnel) = [[0x45]]"
proof -
  have q: "8 \<le> length bob_payload" "take 4 bob_payload = [10, 10, 0, 2]" "take 4 (drop 4 bob_payload) = all_players"
    by (simp_all add: bob_payload_def Data_Marshal_def data_msg_def)
  have k: "token_ok bob_payload (R_heap room2 0)"
    by (simp add: room2_state(4)) code_simp
  have f: "mget (R_addrMap room2) (AddrToRateKey sample_addr) = Some 0" "To4 (VirtualIP (R_heap room2 0)) = Some (take 4 bob_payload)"
    by (simp_all add: room2_state q(2) player_def SetLastSeen_def To4_def IPv4_def)
  have "IsRelayTargetRaw (take 4 (drop 4 bob_payload)) (Some (R_subnet room2))" using broadcast_target q(3) by simp
  then have m: "(relay_encode room2 bob_payload, addr2) \<in>#
      taken_on (snd (HandlePacket sample_env TypeData bob_payload sample_addr (room2, sample_rlq))) - taken_on sample_rlq"
    using broadcast_taken_on[OF room2_state(1) sample_env_ok q(1) f k, of sample_rlq] unfolding bob_others by simp
  obtain a' where a: "routePacket sample_cenv [0x45] [10, 10, 0, 2] all_players bob_tunnel = Ok a'"
      "T_sendCh a' = T_sendCh bob_tunnel @ [(EncodeChecked TypeData bob_payload, T_serverAddr bob_tunnel)]"
    using bob_queues by blast
  have d: "T_tunDev sample_tunnel = Some sample_dev" "\<not> Dev_closed sample_dev" "N_tunOK sample_cenv"
      "Pool_Token (N_payload sample_cenv) = zero_token" "Dev_written sample_dev = []"
    by (simp_all add: sample_tunnel_def sample_dev_def sample_cenv_def newPooled_def)
  obtain pl where pl: "DecodeChecked (EncodeChecked TypeData bob_payload) = Ok \<lparr> MsgType = TypeData, MsgPayload = pl \<rparr>"
      "\<forall>env ep q e x. (e, x) \<in># taken_on (snd (HandlePacket env TypeData pl ep (room2, q))) - taken_on q \<longrightarrow>
        tun_output (receive_packet sample_cenv sample_addr sample_addr e sample_tunnel) =
          Dev_written sample_dev @ [rewriteBroadcast sample_cenv [0x45] (T_cachedSubnet sample_tunnel)]"
    using relayed_packet_arrives[OF bob_facts(2,1) _ _ _ a d(1-4), of sample_addr] room2_open by auto
  have "pl = bob_payload" using pl(1) by (simp add: DecodeChecked_EncodeChecked)
  moreover have "rewriteBroadcast sample_cenv [0x45] sn = [0x45]" for sn by (simp add: rewriteBroadcast_def split: option.split)
  ultimately show ?thesis using pl(2) m d(5) by (metis append_Nil)
qed

text \<open>A direct packet from a friend who has the token of the receiver.\<close>

definition friend_tunnel :: Tunnel where
  "friend_tunnel = sample_tunnel\<lparr> T_virtualIP := [10, 10, 0, 3] \<rparr>"

definition friend_packet :: bytes where
  "friend_packet = fst (wire_packet friend_tunnel [0x45] [10, 10, 0, 3] [10, 10, 0, 2])"

lemma friend_facts:
  "session_ok friend_tunnel" "T_p2pCipher friend_tunnel = None" "T_p2pCipher sample_tunnel = None"
  "\<not> T_decAvailable sample_tunnel" "mget (T_peers sample_tunnel) (IPKey [10, 10, 0, 3]) = Some sample_friend"
  "P_PublicAddr sample_friend = Some friend_addr" "same_endpoint friend_addr friend_addr"
  "\<not> from_server sample_addr friend_addr TypeData" "Pool_Token (N_payload sample_cenv) = zero_token"
  "T_tunDev sample_tunnel = Some sample_dev" "\<not> Dev_closed sample_dev" "N_tunOK sample_cenv"
  "T_sessionToken sample_tunnel = replicate 16 7" "route_token friend_tunnel = replicate 16 7"
proof -
  show "\<not> from_server sample_addr friend_addr TypeData" "same_endpoint friend_addr friend_addr" by code_simp+
  show "route_token friend_tunnel = replicate 16 7"
    by (simp add: route_token_def friend_tunnel_def sample_tunnel_def MinTokenVersion_def)
qed (simp_all add: session_ok_def friend_tunnel_def sample_tunnel_def New_def sample_friend_def sample_dev_def sample_cenv_def
    newPooled_def)

lemma sample_rewrite: "rewriteBroadcast ev [0x45] n = [0x45]"
  by (simp add: rewriteBroadcast_def split: option.split)

theorem direct_delivery_needs_equal_tokens_witness:
  "tun_output (receive_packet sample_cenv sample_addr friend_addr friend_packet sample_tunnel) = [[0x45]] \<and>
   receive_packet sample_cenv sample_addr friend_addr friend_packet (sample_tunnel\<lparr> T_sessionToken := replicate 16 8 \<rparr>) =
     sample_tunnel\<lparr> T_sessionToken := replicate 16 8 \<rparr>"
proof
  have ne: "replicate 16 (8 :: byte) \<noteq> zero_token" "replicate 16 (7 :: byte) \<noteq> replicate 16 8" by code_simp+
  show "tun_output (receive_packet sample_cenv sample_addr friend_addr friend_packet sample_tunnel) = [[0x45]]"
    using direct_delivery_needs_equal_tokens[OF friend_facts(1-4) _ _ _ friend_facts(5-12) friend_packet_def] friend_facts(13,14)
    by (simp add: sample_rewrite sample_dev_def)
  show "receive_packet sample_cenv sample_addr friend_addr friend_packet (sample_tunnel\<lparr> T_sessionToken := replicate 16 8 \<rparr>) =
     sample_tunnel\<lparr> T_sessionToken := replicate 16 8 \<rparr>"
    using direct_delivery_needs_equal_tokens[OF friend_facts(1,2), of "sample_tunnel\<lparr> T_sessionToken := replicate 16 8 \<rparr>"
        "[10, 10, 0, 3]" "[10, 10, 0, 2]" "[0x45]" sample_friend friend_addr friend_addr sample_addr sample_cenv sample_dev friend_packet]
      friend_facts ne by (simp add: friend_packet_def[symmetric])
qed

theorem tun_writes_authentic_witness:
  "\<exists>p a. mget (T_peers sample_tunnel) (IPKey [10, 10, 0, 3]) = Some p \<and> P_PublicAddr p = Some a \<and> same_endpoint friend_addr a"
proof -
  let ?m = "data_msg [10, 10, 0, 3] [10, 10, 0, 2] (replicate 16 7) [0x45]"
  have p: "friend_packet = EncodeChecked TypeData (Data_Marshal ?m)"
    using friend_facts(2,14) by (simp add: friend_packet_def wire_packet_def)
  have u: "UnmarshalDataPooled (N_payload sample_cenv) (Data_Marshal ?m) = Ok ?m"
    by (rule pooled_data_msg[OF friend_facts(9)]) simp_all
  have "receive_packet sample_cenv sample_addr friend_addr friend_packet sample_tunnel =
      tun_write sample_cenv [0x45] (sample_tunnel\<lparr> T_peers := mput (IPKey [10, 10, 0, 3]) (sample_friend\<lparr> P_DirectReach := True \<rparr>)
        (T_peers sample_tunnel) \<rparr>)"
    using receive_direct_data[of sample_tunnel friend_packet "Data_Marshal ?m" sample_addr friend_addr sample_cenv ?m sample_friend
        friend_addr] u friend_facts direct_token_data_msg[of "[10, 10, 0, 3]" "[10, 10, 0, 2]" "replicate 16 7" "[0x45]" sample_tunnel]
    by (simp add: p DecodeChecked_EncodeChecked data_msg_def decryptWriteAndRelease_def)
  then have "tun_output (receive_packet sample_cenv sample_addr friend_addr friend_packet sample_tunnel) \<noteq> tun_output sample_tunnel"
    using friend_facts(10-12) tun_output_write[of "sample_tunnel\<lparr> T_peers := mput (IPKey [10, 10, 0, 3])
        (sample_friend\<lparr> P_DirectReach := True \<rparr>) (T_peers sample_tunnel) \<rparr>" sample_dev sample_cenv "[0x45]"]
    by (simp add: tun_output_def)
  moreover have "\<not> same_endpoint friend_addr sample_addr"
    "\<not> (UDP_Port friend_addr = UDP_Port sample_addr \<and> IsLoopback (UDP_IP friend_addr))"
    by code_simp+
  ultimately show ?thesis
    using tun_writes_authentic[of friend_addr sample_addr sample_cenv friend_packet sample_tunnel] u friend_facts(4)
    by (auto simp: p DecodeChecked_EncodeChecked data_msg_def)
qed

end
