(* ===== verification/ClientGuarantees.thy ===== *)
theory ClientGuarantees
  imports TunnelGuarantees
begin

text \<open>
  The client and the server together: the peer table as the room announces it, the handshake of
  a room with a password, the end of a registration, NAT detection with the server's
  answers, and two properties of the shared packet cipher.
\<close>

section \<open>The peer table\<close>

lemma peers_sends [simp]:
  "T_peers (note_error t) = T_peers t" "T_peers (sendCtrl d a t) = T_peers t" "T_peers (launch p t) = T_peers t"
  "T_peers (sendHolePunchRelay i t) = T_peers t" "T_peers (markServerResponse ev t) = T_peers t"
  by (simp_all add: note_error_def sendCtrl_def launch_def sendHolePunchRelay_def markServerResponse_def split: option.split)

lemma peers_fold: "(\<And>x t. T_peers (f x t) = T_peers t) \<Longrightarrow> T_peers (fold f xs t) = T_peers t"
  by (induction xs arbitrary: t) simp_all

definition entry_for :: "ip \<Rightarrow> ipkey \<Rightarrow> PeerInfoEntry \<Rightarrow> bool" where
  "entry_for self k e \<longleftrightarrow> IPKey (PE_VirtualIP e) = k \<and> \<not> ip_equal (PE_VirtualIP e) self"

definition entry_peer :: "int \<Rightarrow> Peer option \<Rightarrow> PeerInfoEntry \<Rightarrow> Peer" where
  "entry_peer now old e = (case old of None \<Rightarrow> new_peer now e | Some p \<Rightarrow> peer_update now e p)"

lemma peer_entry_step_map:
  "fst (peer_entry_step now self e (ps, new, ch)) =
     (if ip_equal (PE_VirtualIP e) self then ps
      else mput (IPKey (PE_VirtualIP e)) (entry_peer now (mget ps (IPKey (PE_VirtualIP e))) e) ps)"
  by (simp add: peer_entry_step_def entry_peer_def Let_def split: option.split)

lemma fold_entries:
  assumes "distinct (map (IPKey \<circ> PE_VirtualIP) info)"
  shows "mget (fst (fold (peer_entry_step now self) info (ps, new, ch))) k =
    (case find (entry_for self k) info of None \<Rightarrow> mget ps k | Some e \<Rightarrow> Some (entry_peer now (mget ps k) e))"
  using assms
proof (induction info arbitrary: ps new ch)
  case (Cons e info)
  obtain ps1 n1 c1 where s: "peer_entry_step now self e (ps, new, ch) = (ps1, n1, c1)"
    by (cases "peer_entry_step now self e (ps, new, ch)") auto
  have p1: "ps1 = (if ip_equal (PE_VirtualIP e) self then ps
      else mput (IPKey (PE_VirtualIP e)) (entry_peer now (mget ps (IPKey (PE_VirtualIP e))) e) ps)"
    using peer_entry_step_map[of now self e ps new ch] s by simp
  have no: "find (entry_for self k) info = None" if "entry_for self k e"
    using that Cons.prems by (auto simp: find_None_iff entry_for_def image_iff)
  have k1: "mget ps1 k = (if entry_for self k e then Some (entry_peer now (mget ps k) e) else mget ps k)"
    by (auto simp: p1 entry_for_def)
  show ?case using Cons.IH[of ps1 n1 c1] Cons.prems s no k1 by (auto split: option.split)
qed simp

lemma fold_entries_distinct:
  "distinct (mkeys ps) \<Longrightarrow> distinct (mkeys (fst (fold (peer_entry_step now self) info (ps, new, ch))))"
proof (induction info arbitrary: ps new ch)
  case (Cons e info)
  obtain ps1 n1 c1 where s: "peer_entry_step now self e (ps, new, ch) = (ps1, n1, c1)"
    by (cases "peer_entry_step now self e (ps, new, ch)") auto
  have "distinct (mkeys ps1)"
    using peer_entry_step_map[of now self e ps new ch] s Cons.prems by (simp add: distinct_mput)
  then show ?case using Cons.IH[of ps1 n1 c1] s by simp
qed simp

lemma mget_filter:
  "distinct (mkeys ps) \<Longrightarrow> mget (filter (\<lambda>(k, p). P p) ps) k = (case mget ps k of Some p \<Rightarrow> if P p then Some p else None | None \<Rightarrow> None)"
proof (induction ps)
  case (Cons x ps)
  then show ?case by (cases x) (auto simp: weak_map_of_SomeI map_of_eq_None_iff image_iff split: option.splits)
qed simp

lemma mget_map_snd: "mget (map (\<lambda>(k, p). (k, f p)) ps) k = map_option f (mget ps k)"
  by (induction ps) auto

lemma entry_peer_stale [simp]:
  "\<not> P_stale (entry_peer now old e)" "entry_peer now (map_option (\<lambda>p. p\<lparr> P_stale := True \<rparr>) old) e = entry_peer now old e"
  by (auto simp: entry_peer_def new_peer_def peer_update_def Let_def split: option.split)

lemma handlePeerInfo_table:
  assumes "UnmarshalPeerInfo payload = Ok info" "distinct (map (IPKey \<circ> PE_VirtualIP) info)" "distinct (mkeys (T_peers t))"
  shows "distinct (mkeys (T_peers (handlePeerInfo ev payload t)))"
    "mget (T_peers (handlePeerInfo ev payload t)) k =
       map_option (entry_peer (N_now ev) (mget (T_peers t) k)) (find (entry_for (T_virtualIP t) k) info)"
proof -
  define marked where "marked = map (\<lambda>(k, p). (k, p\<lparr> P_stale := True \<rparr>)) (T_peers t)"
  obtain ps new ch where f: "fold (peer_entry_step (N_now ev) (T_virtualIP t)) info (marked, [], []) = (ps, new, ch)"
    by (cases "fold (peer_entry_step (N_now ev) (T_virtualIP t)) info (marked, [], [])") auto
  have km: "mkeys marked = mkeys (T_peers t)" by (auto simp: marked_def)
  have dm: "distinct (mkeys ps)"
    using fold_entries_distinct[of marked "N_now ev" "T_virtualIP t" info "[]" "[]"] assms(3) f km by simp
  have tp: "T_peers (handlePeerInfo ev payload t) = filter (\<lambda>(k, p). \<not> P_stale p) ps"
    using assms(1) f by (simp add: handlePeerInfo_def marked_def peers_fold)
  have mg: "mget marked k = map_option (\<lambda>p. p\<lparr> P_stale := True \<rparr>) (mget (T_peers t) k)"
    by (simp add: marked_def mget_map_snd)
  have pk: "mget ps k = (case find (entry_for (T_virtualIP t) k) info of None \<Rightarrow> mget marked k
      | Some e \<Rightarrow> Some (entry_peer (N_now ev) (mget marked k) e))"
    using fold_entries[OF assms(2), of "N_now ev" "T_virtualIP t" marked "[]" "[]" k] f by simp
  show "distinct (mkeys (T_peers (handlePeerInfo ev payload t)))"
    using dm unfolding tp by (induction ps) (auto simp: image_iff split: if_splits)
  show "mget (T_peers (handlePeerInfo ev payload t)) k =
       map_option (entry_peer (N_now ev) (mget (T_peers t) k)) (find (entry_for (T_virtualIP t) k) info)"
    unfolding tp mget_filter[OF dm] pk mg by (auto split: option.splits)
qed

text \<open>An announced player, in the form the decoder gives it: short address, long endpoint.\<close>

definition announceable :: "Client \<Rightarrow> bool" where
  "announceable cl \<longleftrightarrow> length (Username cl) < 65536 \<and>
     (case PublicAddr cl of None \<Rightarrow> True
      | Some a \<Rightarrow> To4 (UDP_IP a) \<noteq> None \<and> 0 \<le> UDP_Port a \<and> UDP_Port a < 65536)"

definition announced :: "Client \<Rightarrow> PeerInfoEntry" where
  "announced cl = \<lparr> PE_VirtualIP = the (To4 (VirtualIP cl)),
     PE_PublicAddr = map_option (\<lambda>a. a\<lparr> UDP_IP := v4prefix @ the (To4 (UDP_IP a)) \<rparr>) (PublicAddr cl),
     PE_Username = Username cl, PE_NATType = C_NATType cl \<rparr>"

lemma To4_prefix: "length x = 4 \<Longrightarrow> To4 (v4prefix @ x) = Some x"
  by (simp add: To4_def)

lemma announced_marshal:
  assumes "To4 (VirtualIP cl) \<noteq> None" "announceable cl"
  shows "marshal_entry (announced cl) = marshal_entry (peer_entry cl)" "sendable_entry (announced cl)"
    "PE_NATType (announced cl) = PE_NATType (peer_entry cl)" "To4 (PE_VirtualIP (announced cl)) \<noteq> None"
    "To4 (PE_VirtualIP (peer_entry cl)) \<noteq> None"
proof -
  obtain v where v: "To4 (VirtualIP cl) = Some v" "length v = 4" using assms(1) To4_length by blast
  have a: "AppendAddrStr [] (a\<lparr> UDP_IP := v4prefix @ the (To4 (UDP_IP a)) \<rparr>) = AppendAddrStr [] a"
    if "To4 (UDP_IP a) \<noteq> None" for a :: UDPAddr
    using that To4_length To4_prefix by (auto simp: AppendAddrStr_def)
  show "marshal_entry (announced cl) = marshal_entry (peer_entry cl)"
    using v a assms(2) unfolding marshal_entry_def announced_def peer_entry_def announceable_def
    by (cases "PublicAddr cl") (simp_all add: Let_def)
  show "sendable_entry (announced cl)"
    using v assms(2) To4_length unfolding sendable_entry_def announced_def announceable_def v4_addr_def
    by (auto split: option.splits)
qed (use assms To4_length in \<open>auto simp: announced_def peer_entry_def\<close>)

lemma PeerInfo_announced:
  assumes "\<forall>cl\<in>set cls. To4 (VirtualIP cl) \<noteq> None \<and> announceable cl" "length cls \<le> 256"
  shows "UnmarshalPeerInfo (PeerInfo_Marshal (map peer_entry cls)) = Ok (map announced cls)"
proof -
  have "PeerInfo_Marshal (map peer_entry cls) = PeerInfo_Marshal (map announced cls)"
  proof -
    have m: "map marshal_entry (map peer_entry cls) = map marshal_entry (map announced cls)"
      using announced_marshal(1) assms(1) by simp
    have n: "map PE_NATType (map peer_entry cls) = map PE_NATType (map announced cls)"
      by (simp add: announced_def peer_entry_def)
    have x: "list_ex (\<lambda>e. PE_NATType e \<noteq> 0) (map peer_entry cls) = list_ex (\<lambda>e. PE_NATType e \<noteq> 0) (map announced cls)"
      by (simp add: list_ex_iff announced_def peer_entry_def)
    have v: "PeerInfo_valid (map peer_entry cls) = map peer_entry cls" "PeerInfo_valid (map announced cls) = map announced cls"
      unfolding PeerInfo_valid_def using announced_marshal(4,5) assms(1) by (auto simp: filter_id_conv)
    show ?thesis unfolding PeerInfo_Marshal_def v Let_def m n x by simp
  qed
  moreover have "list_all sendable_entry (map announced cls)"
    using announced_marshal(2) assms(1) by (simp add: list_all_iff)
  ultimately show ?thesis using PeerInfo_roundtrip_lemma[of "map announced cls"] assms(2) by simp
qed

lemma find_unique:
  assumes "distinct (map f xs)" "\<And>e. P e \<Longrightarrow> f e = k"
  shows "find P xs = Some e \<longleftrightarrow> e \<in> set xs \<and> P e"
  using assms(1)
proof (induction xs)
  case (Cons x xs)
  show ?case
  proof (cases "P x")
    case True
    have "\<not> (e \<in> set xs \<and> P e)"
    proof
      assume "e \<in> set xs \<and> P e"
      then have "e \<in> set xs" "f x = f e" using assms(2)[OF True] assms(2) by auto
      then have "f x \<in> set (map f xs)" by simp
      then show False using Cons.prems by simp
    qed
    then show ?thesis using True by auto
  qed (use Cons in auto)
qed simp

text \<open>A room has at most as many players as addresses.\<close>

lemma players_bound:
  assumes "room_wf r"
  shows "length (R_clients r) \<le> 256"
proof -
  have "set (mkeys (R_clients r)) \<subseteq> (\<lambda>n. IPKey (vip_at r n)) ` {2..<255}"
  proof
    fix k assume "k \<in> set (mkeys (R_clients r))"
    then obtain c where "mget (R_clients r) k = Some c" using mget_None_iff[of "R_clients r" k] by auto
    then show "k \<in> (\<lambda>n. IPKey (vip_at r n)) ` {2..<255}"
      using assms unfolding room_wf_def clients_wf_def assignable_def by fastforce
  qed
  then have "card (set (mkeys (R_clients r))) \<le> card {2..<255 :: nat}"
    by (meson card_image_le card_mono finite_atLeastLessThan finite_imageI order_trans)
  moreover have "distinct (mkeys (R_clients r))" using assms by (simp add: room_wf_def clients_wf_def)
  ultimately show ?thesis using distinct_card[of "mkeys (R_clients r)"] by simp
qed

text \<open>The peer list a room sends, decoded: one announced entry per player.\<close>

lemma room_peer_list:
  assumes "room_wf r" "env_ok env" "R_peerInfoEncoded r = None"
    "\<forall>k c. mget (R_clients r) k = Some c \<longrightarrow> announceable (R_heap r c)"
  obtains pl info where "fst (getEncodedPeerInfo env r) = EncodeChecked TypePeerInfo pl" "UnmarshalPeerInfo pl = Ok info"
    "distinct (map (IPKey \<circ> PE_VirtualIP) info)"
    "\<And>k e. e \<in> set info \<and> IPKey (PE_VirtualIP e) = k \<longleftrightarrow> (\<exists>c. mget (R_clients r) k = Some c \<and> e = announced (R_heap r c))"
proof -
  define kcs where "kcs = range_clients env r"
  define cls where "cls = map (\<lambda>(k, c). R_heap r c) kcs"
  have ord: "order_ok (E_ordC env)" using assms(2) by (simp add: env_ok_def)
  have dk: "distinct (mkeys (R_clients r))" using assms(1) by (simp add: room_wf_def clients_wf_def)
  have ms: "mset kcs = mset (R_clients r)" unfolding kcs_def range_clients_def by (rule mset_range_map[OF ord dk])
  have mem: "(k, c) \<in> set kcs \<longleftrightarrow> mget (R_clients r) k = Some c" for k c
    unfolding kcs_def range_clients_def by (rule range_map_mem[OF ord])
  have wf: "k = IPKey (VirtualIP (R_heap r c)) \<and> To4 (VirtualIP (R_heap r c)) \<noteq> None" if m: "mget (R_clients r) k = Some c" for k c
  proof -
    obtain n where "VirtualIP (R_heap r c) = vip_at r n" "k = IPKey (VirtualIP (R_heap r c))"
      using assms(1) m unfolding room_wf_def clients_wf_def by blast
    then show ?thesis by (simp add: vip_at_def IPv4_def Let_def To4_def)
  qed
  have ok: "\<forall>cl\<in>set cls. To4 (VirtualIP cl) \<noteq> None \<and> announceable cl" using mem wf assms(4) by (auto simp: cls_def)
  have len: "length cls \<le> 256" using players_bound[OF assms(1)] ms by (metis cls_def length_map size_mset)
  have key: "IPKey (PE_VirtualIP (announced (R_heap r c))) = k" if "mget (R_clients r) k = Some c" for k c
    using wf[OF that] To4_length by (auto simp: announced_def IPKey_To4 IPKey_IPKey4)
  have keys: "map (IPKey \<circ> PE_VirtualIP) (map announced cls) = mkeys kcs" using key mem by (auto simp: cls_def)
  have set: "e \<in> set (map announced cls) \<longleftrightarrow> (\<exists>k c. mget (R_clients r) k = Some c \<and> e = announced (R_heap r c))" for e
    using mem by (force simp: cls_def image_iff)
  show ?thesis
  proof
    show "fst (getEncodedPeerInfo env r) = EncodeChecked TypePeerInfo (PeerInfo_Marshal (map peer_entry cls))"
      using assms(3) by (simp add: getEncodedPeerInfo_def cls_def kcs_def comp_def case_prod_unfold Let_def)
    show "UnmarshalPeerInfo (PeerInfo_Marshal (map peer_entry cls)) = Ok (map announced cls)"
      by (rule PeerInfo_announced[OF ok len])
    show "distinct (map (IPKey \<circ> PE_VirtualIP) (map announced cls))"
      unfolding keys using ms dk by (metis distinct_map mset_eq_imp_distinct_iff mset_map)
    show "e \<in> set (map announced cls) \<and> IPKey (PE_VirtualIP e) = k \<longleftrightarrow>
        (\<exists>c. mget (R_clients r) k = Some c \<and> e = announced (R_heap r c))" for k e
      unfolding set using key by blast
  qed
qed

lemma receive_peer_list:
  assumes "room_wf r" "env_ok env" "R_peerInfoEncoded r = None"
    "\<forall>k c. mget (R_clients r) k = Some c \<longrightarrow> announceable (R_heap r c)"
    "\<not> T_decAvailable t" "distinct (mkeys (T_peers t))"
    "t' = receive_packet ev sa from (fst (getEncodedPeerInfo env r)) t"
  shows "mget (T_peers t') k = Some p \<longleftrightarrow>
    (\<exists>c. mget (R_clients r) k = Some c \<and> \<not> ip_equal (the (To4 (VirtualIP (R_heap r c)))) (T_virtualIP t) \<and>
       p = entry_peer (N_now ev) (mget (T_peers t) k) (announced (R_heap r c)))"
proof -
  obtain pl info where pl: "fst (getEncodedPeerInfo env r) = EncodeChecked TypePeerInfo pl" "UnmarshalPeerInfo pl = Ok info"
    and di: "distinct (map (IPKey \<circ> PE_VirtualIP) info)"
    and info: "\<And>k e. e \<in> set info \<and> IPKey (PE_VirtualIP e) = k \<longleftrightarrow> (\<exists>c. mget (R_clients r) k = Some c \<and> e = announced (R_heap r c))"
    by (rule room_peer_list[OF assms(1-4)]) blast
  have "t' = handlePeerInfo ev pl (markServerResponse ev t)"
    using assms(5,7) unfolding pl
    by (simp add: receive_packet_def DecodeChecked_EncodeChecked from_server_def handleServerData_def Let_def)
  then have tab: "mget (T_peers t') k = map_option (entry_peer (N_now ev) (mget (T_peers t) k)) (find (entry_for (T_virtualIP t) k) info)"
    using handlePeerInfo_table(2)[OF pl(2) di, of "markServerResponse ev t" ev k] assms(6) by (simp add: markServerResponse_def)
  have "find (entry_for (T_virtualIP t) k) info = Some e \<longleftrightarrow> e \<in> set info \<and> entry_for (T_virtualIP t) k e" for e
    by (rule find_unique[OF di]) (simp add: entry_for_def)
  then have "find (entry_for (T_virtualIP t) k) info = Some e \<longleftrightarrow> (\<exists>c. mget (R_clients r) k = Some c \<and> e = announced (R_heap r c) \<and>
      \<not> ip_equal (PE_VirtualIP e) (T_virtualIP t))" for e
    using info[of e k] by (auto simp: entry_for_def)
  then show ?thesis unfolding tab by (auto simp: announced_def)
qed

text \<open>After a join the room sends a list that it makes anew.\<close>

lemma announce_join_sends:
  assumes "env_ok env" "st' = announce_join env vip from (r, q)"
  obtains x where "core x = core r" "R_peerInfoEncoded x = None"
    "\<And>k c a. mget (R_clients r) k = Some c \<Longrightarrow> PublicAddr (R_heap r c) = Some a \<Longrightarrow>
       (fst (getEncodedPeerInfo env x), a) \<in># taken_on (snd st')"
proof -
  define st1 where "st1 = sendPeerInfoToClient env from (sendAssignIP env vip from (r, q))"
  define x where "x = markDirty (invalidatePeerInfoCache (fst st1))"
  have x: "core x = core r" by (simp add: x_def st1_def core_simps)
  note f = core_fields[OF this]
  have e: "R_peerInfoEncoded x = None" by (simp add: x_def markDirty_def invalidatePeerInfoCache_def)
  have st': "st' = sendPeerInfoBroadcast env (x, snd st1)" unfolding assms(2) announce_join_def Let_def st1_def x_def ..
  have ord: "order_ok (E_ordC env)" using assms(1) by (simp add: env_ok_def)
  have m: "(fst (getEncodedPeerInfo env x), a) \<in># taken_on (snd st')"
    if c: "mget (R_clients r) k = Some c" "PublicAddr (R_heap r c) = Some a" for k c a
  proof -
    have "(k, c) \<in> set (range_clients env x)" unfolding range_clients_def range_map_mem[OF ord] f(3) by (rule c(1))
    then have "a \<in> set (public_addrs x (range_clients env x))"
      using c(2) f(5) by (force simp: public_addrs_def map_filter_def image_iff)
    moreover have "R_clients x \<noteq> []" using c(1) f(3) by auto
    then have "st' = fold (sendCheckedRawBypass (fst (getEncodedPeerInfo env x))) (public_addrs x (range_clients env x))
        (snd (getEncodedPeerInfo env x), snd st1)"
      using st' by (simp add: sendPeerInfoBroadcast_def case_prod_beta Let_def)
    ultimately show ?thesis by (simp add: taken_on_broadcast image_iff)
  qed
  show ?thesis by (rule that[OF x e m])
qed

text \<open>
  C9: The players of a room without password know each other: when a player has joined, the room sends every player with
  an endpoint one and the same peer list, made anew whatever list was cached before, and a
  client without encryption that receives it has in its table, under every virtual address, exactly
  the players the room has there, itself left out, with their names and public endpoints,
  a known peer keeping its direct path unless its endpoint changed.  The endpoints are IPv4 endpoints
  and the names shorter than 65536 bytes, as the format of the list needs them.
\<close>

theorem client_learns_players:
  assumes "room_wf r" "env_ok env" "\<forall>k c. mget (R_clients r) k = Some c \<longrightarrow> announceable (R_heap r c)"
    "st' = announce_join env vip from (r, q)"
  shows "\<exists>d. (\<forall>k c a. mget (R_clients r) k = Some c \<and> PublicAddr (R_heap r c) = Some a \<longrightarrow> (d, a) \<in># taken_on (snd st')) \<and>
    (\<forall>t ev sa fr k p. \<not> T_decAvailable t \<and> distinct (mkeys (T_peers t)) \<longrightarrow>
      (mget (T_peers (receive_packet ev sa fr d t)) k = Some p \<longleftrightarrow>
        (\<exists>c. mget (R_clients r) k = Some c \<and> \<not> ip_equal (the (To4 (VirtualIP (R_heap r c)))) (T_virtualIP t) \<and>
           p = entry_peer (N_now ev) (mget (T_peers t) k) (announced (R_heap r c)))))"
proof -
  obtain x where x: "core x = core r" "R_peerInfoEncoded x = None"
      "\<And>k c a. mget (R_clients r) k = Some c \<Longrightarrow> PublicAddr (R_heap r c) = Some a \<Longrightarrow>
         (fst (getEncodedPeerInfo env x), a) \<in># taken_on (snd st')"
    using announce_join_sends[OF assms(2,4)] by blast
  have w: "room_wf x" using assms(1) room_wf_core[OF x(1)] by simp
  note f = core_fields[OF x(1)]
  have an: "\<forall>k c. mget (R_clients x) k = Some c \<longrightarrow> announceable (R_heap x c)" using assms(3) f(3,5) by simp
  show ?thesis
    by (intro exI[of _ "fst (getEncodedPeerInfo env x)"] conjI allI impI)
       (use x(3) receive_peer_list[OF w assms(2) x(2) an _ _ refl] f(3,5) in auto)
qed

text \<open>Ann joined while the room had a list without her in its cache; her friend learns of her.\<close>

definition stale_room :: Room where
  "stale_room = room2\<lparr> R_peerInfoEncoded := Some (EncodeChecked TypePeerInfo [0, 0]), R_peerInfoCachedAt := 1000 \<rparr>"

theorem client_learns_players_witness:
  "\<exists>d p. (d, addr2) \<in># taken_on (snd (announce_join sample_env vip3 addr2 (stale_room, sample_rlq))) \<and>
    mget (T_peers (receive_packet sample_cenv sample_addr sample_addr d sample_tunnel)) (IPKey vip3) = Some p \<and>
    P_Username p = lit ''ann'' \<and> P_DirectReach p = False"
proof -
  have w: "room_wf stale_room" using room2_state(1) room_wf_core[of stale_room room2] by (simp add: core_def stale_room_def)
  have q: "R_clients stale_room = R_clients room2" "R_heap stale_room = R_heap room2" by (simp_all add: stale_room_def)
  have an: "\<forall>k c. mget (R_clients stale_room) k = Some c \<longrightarrow> announceable (R_heap stale_room c)"
    unfolding q using room2_state(2,4,5)
    by (auto simp: announceable_def player_def SetLastSeen_def sample_addr_def addr2_def To4_def split: if_splits)
  have k: "mget (R_clients room2) (IPKey vip3) = Some 1" by (simp add: room2_state(2) IPKey_def IPv4_def)
  have h: "R_heap room2 1 = player (lit ''ann'') vip3 addr2" by (rule room2_state(5))
  have n: "\<not> ip_equal (the (To4 vip3)) (T_virtualIP sample_tunnel)" by code_simp
  have f: "mget (T_peers sample_tunnel) (IPKey vip3) = Some sample_friend"
    by (simp add: sample_tunnel_def IPKey_def IPv4_def)
  have t: "\<not> T_decAvailable sample_tunnel" "distinct (mkeys (T_peers sample_tunnel))"
    by (simp_all add: sample_tunnel_def New_def)
  obtain d where d1: "\<forall>k c a. mget (R_clients room2) k = Some c \<and> PublicAddr (R_heap room2 c) = Some a \<longrightarrow>
        (d, a) \<in># taken_on (snd (announce_join sample_env vip3 addr2 (stale_room, sample_rlq)))"
    and d2: "\<forall>t ev sa fr k p. \<not> T_decAvailable t \<and> distinct (mkeys (T_peers t)) \<longrightarrow>
      (mget (T_peers (receive_packet ev sa fr d t)) k = Some p \<longleftrightarrow>
        (\<exists>c. mget (R_clients room2) k = Some c \<and> \<not> ip_equal (the (To4 (VirtualIP (R_heap room2 c)))) (T_virtualIP t) \<and>
           p = entry_peer (N_now ev) (mget (T_peers t) k) (announced (R_heap room2 c))))"
    using client_learns_players[OF w sample_env_ok an refl, of vip3 addr2 sample_rlq] unfolding q by (elim exE conjE) blast
  have d: "mget (T_peers (receive_packet sample_cenv sample_addr sample_addr d sample_tunnel)) k = Some p \<longleftrightarrow>
        (\<exists>c. mget (R_clients room2) k = Some c \<and> \<not> ip_equal (the (To4 (VirtualIP (R_heap room2 c)))) (T_virtualIP sample_tunnel) \<and>
           p = entry_peer (N_now sample_cenv) (mget (T_peers sample_tunnel) k) (announced (R_heap room2 c)))" for k p
    using d2 t by blast
  let ?p = "entry_peer (N_now sample_cenv) (Some sample_friend) (announced (R_heap room2 1))"
  have "(d, addr2) \<in># taken_on (snd (announce_join sample_env vip3 addr2 (stale_room, sample_rlq)))"
  proof -
    have "PublicAddr (R_heap room2 1) = Some addr2" by (simp add: h player_def SetLastSeen_def del: One_nat_def)
    then show ?thesis using d1 k by blast
  qed
  moreover have "mget (T_peers (receive_packet sample_cenv sample_addr sample_addr d sample_tunnel)) (IPKey vip3) = Some ?p"
    unfolding d using k n f h by (auto simp: player_def SetLastSeen_def)
  moreover have "P_Username ?p = lit ''ann''" "P_DirectReach ?p = False"
    unfolding h by (auto simp: player_def SetLastSeen_def entry_peer_def announced_def peer_update_def Let_def
        sample_friend_def addr_changed_def norm_addr_def friend_addr_def ip_equal_def IPv4_def addr2_def To4_def To16_def)
  ultimately show ?thesis by blast
qed

section \<open>The handshake\<close>

lemma AuthChallenge_roundtrip_lemma:
  assumes "length (Ch_Challenge c) < 65536" "length (Ch_ClientAddr c) < 65536"
  shows "UnmarshalAuthChallenge (AuthChallenge_Marshal c) = Ok c"
  using assms by (simp add: UnmarshalAuthChallenge_def AuthChallenge_Marshal_def unmarshal_simps)

lemma udp_string_nonempty: "udp_string a \<noteq> []"
  by (simp add: udp_string_def JoinHostPort_def)

definition register_payload :: "Tunnel \<Rightarrow> RegisterPayload" where
  "register_payload t = \<lparr> Reg_RoomID = T_roomID t, Reg_Username = T_username t, Reg_Version = AppVersion \<rparr>"

text \<open>What the client writes when the first answer to its registration is a challenge.\<close>

lemma register_answers_challenge:
  assumes "T_roomPass t \<noteq> []" "T_serverAddr t = Some sa" "T_sockOpen t" "N_writeOK ev" "length ch < 65536"
    "length (udp_string a) < 65536" "N_resolve ev (udp_string a) = Some a"
    "length (T_roomID t) < 65536" "length (T_username t) < 65536"
    "d = EncodeChecked TypeAuthChallenge (AuthChallenge_Marshal \<lparr> Ch_Challenge = ch, Ch_ClientAddr = udp_string a \<rparr>)"
    "length d \<le> 1500"
  obtains t1 where "register ev [(ev, Datagram d)] t = (Waiting, t1)"
    "T_wire t1 = T_wire t @ [(EncodeChecked TypeRegister (Register_Marshal (register_payload t)), sa),
       (EncodeChecked TypeAuthResponse (AuthResponse_Marshal
          (honest_response (T_roomPass t) ch (T_roomID t) (T_username t) a)), sa)]"
proof -
  let ?acp = "\<lparr> Ch_Challenge = ch, Ch_ClientAddr = udp_string a \<rparr>"
  have k: "DeriveKey (T_roomPass t) (T_roomID t) \<noteq> []" by (rule honest_verifies(1)[OF assms(1,8,9,6)])
  have u: "UnmarshalAuthChallenge (AuthChallenge_Marshal ?acp) = Ok ?acp"
    by (rule AuthChallenge_roundtrip_lemma) (use assms in simp_all)
  define t0 where "t0 = t\<lparr> T_wire := T_wire t @ [(register_packet t, sa)] \<rparr>"
  have w: "cl_writeUDP ev (register_packet t, T_serverAddr t) t = t0"
    using assms(2-4) by (simp add: cl_writeUDP_def t0_def)
  have "auth_reply ev ?acp t0 = EncodeChecked TypeAuthResponse (AuthResponse_Marshal
      (honest_response (T_roomPass t) ch (T_roomID t) (T_username t) a))"
    using assms(7) udp_string_nonempty[of a] by (simp add: auth_reply_def honest_response_def t0_def Let_def)
  then have h: "handleAuthChallenge ev True (AuthChallenge_Marshal ?acp) t0 =
      (None, t0\<lparr> T_wire := T_wire t0 @ [(EncodeChecked TypeAuthResponse (AuthResponse_Marshal
        (honest_response (T_roomPass t) ch (T_roomID t) (T_username t) a)), sa)] \<rparr>)"
    using assms(1-4) k u by (simp add: handleAuthChallenge_def t0_def cl_writeUDP_def)
  have "register ev [(ev, Datagram d)] t = (Waiting, t0\<lparr> T_wire := T_wire t0 @ [(EncodeChecked TypeAuthResponse
      (AuthResponse_Marshal (honest_response (T_roomPass t) ch (T_roomID t) (T_username t) a)), sa)] \<rparr>)"
    using assms(10,11) h w
    by (simp add: register_def DecodeChecked_EncodeChecked handleRegResponse_def type_defs maxAuthRounds_def)
  then show ?thesis by (rule that) (simp add: t0_def register_packet_def register_payload_def)
qed

text \<open>
  C10: Client and room complete the handshake: a client with the room's password that registers
  with a room it may join, and gets the challenge the room made for its endpoint, writes two
  packets; the room, given these two packets, makes it a member with the lowest free address.
\<close>

theorem client_joins_locked_room:
  assumes "room_wf r" "R_roomPass r \<noteq> []" "admissible (register_payload t) a r" "R_pendingAuth r < R_maxPending r"
    "R_maxPlayers r \<le> 253" "E_challenge env = Some ch" "length ch = ChallengeSize" "E_token env' = Some tok"
    "E_now env' - E_now env \<le> 15 * second" "T_roomPass t = R_roomPass r" "T_serverAddr t = Some sa" "T_sockOpen t"
    "N_writeOK ev" "length (udp_string a) < 1000" "N_resolve ev (udp_string a) = Some a"
    "d = EncodeChecked TypeAuthChallenge (AuthChallenge_Marshal \<lparr> Ch_Challenge = ch, Ch_ClientAddr = udp_string a \<rparr>)"
  shows "\<exists>t1 p1 p2 m1 m2 v. register ev [(ev, Datagram d)] t = (Waiting, t1) \<and> T_wire t1 = T_wire t @ [(p1, sa), (p2, sa)] \<and>
    DecodeChecked p1 = Ok m1 \<and> DecodeChecked p2 = Ok m2 \<and>
    nextAvailableIP (fst (HandlePacket env (MsgType m1) (MsgPayload m1) a (r, q))) = Some v \<and>
    member (register_payload t) a v (fst (HandlePacket env' (MsgType m2) (MsgPayload m2) a
       (HandlePacket env (MsgType m1) (MsgPayload m1) a (r, q))))"
proof -
  let ?rg = "register_payload t"
  let ?rsp = "AuthResponse_Marshal (honest_response (R_roomPass r) ch (T_roomID t) (T_username t) a)"
  have l: "length (T_roomID t) < 65536" "length (T_username t) < 65536" "length ch < 65536"
    using assms(3,7) by (auto simp: admissible_def register_payload_def maxRoomIDLen_def)
  have ld: "length d \<le> 1500" using assms(7,14,16) by (simp add: EncodeChecked_def AuthChallenge_Marshal_def Let_def)
  obtain t1 where t1: "register ev [(ev, Datagram d)] t = (Waiting, t1)"
    "T_wire t1 = T_wire t @ [(EncodeChecked TypeRegister (Register_Marshal ?rg), sa), (EncodeChecked TypeAuthResponse ?rsp, sa)]"
    by (rule register_answers_challenge[of t sa ev ch a d]) (use assms l ld in simp_all)
  have "\<exists>v. nextAvailableIP (fst (HandlePacket env TypeRegister (Register_Marshal ?rg) a (r, q))) = Some v \<and>
      member ?rg a v (fst (HandlePacket env' TypeAuthResponse ?rsp a (HandlePacket env TypeRegister (Register_Marshal ?rg) a (r, q))))"
    by (rule challenge_then_response[OF assms(1-9) _ refl]) (use assms(14) in \<open>simp_all add: register_payload_def\<close>)
  then show ?thesis
    using t1 DecodeChecked_EncodeChecked by (metis Message.select_convs)
qed

definition joining_env :: CEnv where
  "joining_env = sample_cenv\<lparr> N_resolve := (\<lambda>_. Some sample_addr) \<rparr>"

definition joining_tunnel :: Tunnel where
  "joining_tunnel = sample_tunnel\<lparr> T_roomID := lit ''lan'', T_username := lit ''bob'', T_roomPass := lit ''secret'' \<rparr>"

theorem client_joins_locked_room_witness:
  "\<exists>t1 p1 p2 m1 m2 v. register joining_env [(joining_env, Datagram (EncodeChecked TypeAuthChallenge (AuthChallenge_Marshal
      \<lparr> Ch_Challenge = replicate 16 9, Ch_ClientAddr = udp_string sample_addr \<rparr>)))] joining_tunnel = (Waiting, t1) \<and>
    T_wire t1 = T_wire joining_tunnel @ [(p1, sample_addr), (p2, sample_addr)] \<and>
    DecodeChecked p1 = Ok m1 \<and> DecodeChecked p2 = Ok m2 \<and>
    nextAvailableIP (fst (HandlePacket sample_env (MsgType m1) (MsgPayload m1) sample_addr (locked_room, sample_rlq))) = Some v \<and>
    member (register_payload joining_tunnel) sample_addr v (fst (HandlePacket sample_env (MsgType m2) (MsgPayload m2) sample_addr
       (HandlePacket sample_env (MsgType m1) (MsgPayload m1) sample_addr (locked_room, sample_rlq))))"
proof (rule client_joins_locked_room)
  have rg: "register_payload joining_tunnel = sample_reg"
    by (simp add: register_payload_def joining_tunnel_def sample_reg_def)
  show "room_wf locked_room" by (rule sample_room_wf(2))
  show "R_roomPass locked_room \<noteq> []" "R_pendingAuth locked_room < R_maxPending locked_room" "R_maxPlayers locked_room \<le> 253"
    using locked_facts by simp_all
  show "admissible (register_payload joining_tunnel) sample_addr locked_room" unfolding rg by (rule locked_facts(4))
  show "T_roomPass joining_tunnel = R_roomPass locked_room" using locked_facts(1) by (simp add: joining_tunnel_def)
  have "udp_string sample_addr = lit ''1.2.3.4:40''" by code_simp
  then show "length (udp_string sample_addr) < 1000" by simp
qed (simp_all add: joining_tunnel_def sample_tunnel_def joining_env_def sample_cenv_def sample_env_simps)

section \<open>The end of a registration\<close>

text \<open>
  A registration ends: if the server does not answer, the client writes its packet four times and
  then fails with the timeout error, whatever comes after.
\<close>

theorem silent_server_gives_up:
  assumes "T_serverAddr t = Some sa" "T_sockOpen t" "N_writeOK ev"
  shows "register ev (replicate 4 (ev, ReadTimeout) @ rs) t =
    (Failed RegTimeout, t\<lparr> T_wire := T_wire t @ replicate 4 (register_packet t, sa) \<rparr>)"
proof -
  have w: "cl_writeUDP ev (p, Some sa) (t\<lparr> T_wire := x \<rparr>) = t\<lparr> T_wire := x @ [(p, sa)] \<rparr>" for p x
    using assms(2,3) by (simp add: cl_writeUDP_def)
  have "replicate 4 (ev, ReadTimeout) = [(ev, ReadTimeout), (ev, ReadTimeout), (ev, ReadTimeout), (ev, ReadTimeout)]"
    by (simp add: numeral_eq_Suc)
  then show ?thesis
    using assms(1) w[of "register_packet t" "T_wire t"] unfolding register_def
    by (simp add: maxRetries_def w numeral_eq_Suc)
qed

theorem silent_server_gives_up_witness:
  "fst (register sample_cenv (replicate 4 (sample_cenv, ReadTimeout)) sample_tunnel) = Failed RegTimeout"
  using silent_server_gives_up[of sample_tunnel sample_addr sample_cenv "[]"]
  by (simp add: sample_tunnel_def sample_cenv_def)

lemma Kick_roundtrip:
  "length (Kick_Reason k) < 65536 \<Longrightarrow> UnmarshalKick (Kick_Marshal k) = Ok k"
  by (simp add: UnmarshalKick_def Kick_Marshal_def unmarshal_simps nth_append)

text \<open>
  A wrong password does not stop the client: when the server answers a registration with the
  kick for a wrong password, which is classified as fatal, the registration fails with a plain
  error, the flag for fatal kicks stays clear, and the reconnect loop goes on after it.
\<close>

theorem wrong_password_is_retried:
  assumes "k = \<lparr> Kick_Reason = reason, Kick_Code = KickCodeWrongPassword \<rparr>" "length reason < 1000"
    "CI_udp ci = (ev, Datagram (EncodeChecked TypeKick (Kick_Marshal k))) # rs" "CI_dial ci = None"
    "registerWithFallback ev ci t = (Failed e, t')" "AT_err tr = Some e" "\<not> AT_cancelAfter tr"
    "AT_kicked tr = T_cancelKicks t'" "\<not> T_cancelKicks t" "AT_callback tr \<noteq> Some False" "loop_wait tr (CC_ServerAddr (A_Cfg a)) s \<noteq> None"
  shows "IsFatal (NewDisconnectError k) \<and> e = FallbackFailed (Rejected (Some reason)) \<and> fst (connectLoop tr (s, a))"
proof -
  let ?d = "EncodeChecked TypeKick (Kick_Marshal k)"
  have l: "length ?d \<le> 1500" using assms(1,2) by (simp add: EncodeChecked_def Kick_Marshal_def Let_def)
  have u: "UnmarshalKick (Kick_Marshal k) = Ok k" by (rule Kick_roundtrip) (use assms(1,2) in simp)
  have "register ev (CI_udp ci) t =
      (Failed (Rejected (Some reason)), cl_writeUDP ev (register_packet t, T_serverAddr t) t)"
    using assms(1,3) l u by (simp add: register_def DecodeChecked_EncodeChecked handleRegResponse_def type_defs)
  then have e: "e = FallbackFailed (Rejected (Some reason))"
      "t' = (cl_writeUDP ev (register_packet t, T_serverAddr t) t)\<lparr> T_sockOpen := False \<rparr>"
    using assms(4,5) by (auto simp: registerWithFallback_def)
  have "T_cancelKicks (cl_writeUDP ev j t) = T_cancelKicks t" for j
    by (simp add: cl_writeUDP_def note_error_def split: option.split)
  then have "fst (connectLoop tr (s, a))"
    using assms(6-11) e(2) by (auto simp: connectLoop_def Let_def split: option.split)
  moreover have "IsFatal (NewDisconnectError k)"
    using assms(1) by (simp add: NewDisconnectError_def IsFatal_def)
  ultimately show ?thesis using e(1) by blast
qed

definition retrying :: Attempt where
  "retrying = failing\<lparr> AT_err := Some (FallbackFailed (Rejected (Some []))) \<rparr>"

definition refused :: ConnInput where
  "refused = \<lparr> CI_bindOK = True, CI_udp = [(sample_cenv, Datagram (EncodeChecked TypeKick (Kick_Marshal
      \<lparr> Kick_Reason = [], Kick_Code = KickCodeWrongPassword \<rparr>)))], CI_dial = None, CI_tcp = [] \<rparr>"

theorem wrong_password_is_retried_witness:
  "fst (registerWithFallback sample_cenv refused sample_tunnel) = Failed (FallbackFailed (Rejected (Some []))) \<and>
   fst (connectLoop retrying (loop_start, NewApp sample_cenv sample_conf))"
proof -
  let ?k = "\<lparr> Kick_Reason = [], Kick_Code = KickCodeWrongPassword \<rparr>"
  have l: "length (EncodeChecked TypeKick (Kick_Marshal ?k)) \<le> 1500" by (simp add: EncodeChecked_def Kick_Marshal_def Let_def)
  have "register sample_cenv (CI_udp refused) sample_tunnel =
      (Failed (Rejected (Some [])), cl_writeUDP sample_cenv (register_packet sample_tunnel, T_serverAddr sample_tunnel) sample_tunnel)"
    using l Kick_roundtrip[of ?k]
    by (simp add: refused_def register_def DecodeChecked_EncodeChecked handleRegResponse_def type_defs)
  then obtain t' where r: "registerWithFallback sample_cenv refused sample_tunnel = (Failed (FallbackFailed (Rejected (Some []))), t')"
      "T_cancelKicks t' = T_cancelKicks sample_tunnel"
    by (simp add: registerWithFallback_def refused_def cl_writeUDP_def note_error_def split: option.split)
  have "\<not> T_cancelKicks sample_tunnel" by (simp add: sample_tunnel_def New_def)
  then show ?thesis
    using wrong_password_is_retried[OF refl _ _ _ r(1), where reason = "[]" and rs = "[]" and tr = retrying and s = loop_start
        and a = "NewApp sample_cenv sample_conf"] r
    by (simp add: refused_def retrying_def failing_def loop_wait_def loop_start_def)
qed

section \<open>NAT detection with the server's answers\<close>

definition nat_answer :: "byte \<Rightarrow> UDPAddr \<Rightarrow> bytes" where
  "nat_answer pid a = NATResponse_Marshal
     \<lparr> NR_ProbeID = pid, NR_NATType = NATTypeUnknown, NR_ObservedAddr = Some a, NR_AltAddr = None \<rparr>"

lemma nat_answer_decodes:
  assumes "length (AppendAddrStr [] a) < 65536" "resolve (AppendAddrStr [] a) = Some a"
  shows "UnmarshalNATResponse resolve (nat_answer pid a) =
    Ok \<lparr> NR_ProbeID = pid, NR_NATType = NATTypeUnknown, NR_ObservedAddr = Some a, NR_AltAddr = None \<rparr>"
proof -
  define A where "A = AppendAddrStr [] a"
  have A: "A \<noteq> []" by (simp add: A_def AppendAddrStr_def split: option.split)
  define H where "H = [pid, NATTypeUnknown] @ put16 (of_nat (length A) :: u16)"
  have H: "length H = 4" "H ! 0 = pid" "H ! 1 = NATTypeUnknown" "le_word (take 2 (drop 2 H)) = (of_nat (length A) :: u16)"
    by (simp_all add: H_def)
  have n: "nat_answer pid a = H @ A @ put16 0"
    by (simp add: nat_answer_def NATResponse_Marshal_def addrBytes_def H_def A_def Let_def)
  have u: "unat (of_nat (length A) :: u16) = length A" using assms(1) by (simp add: A_def unat_of_nat)
  show ?thesis
    using assms(2) A H u unfolding n A_def[symmetric]
    by (simp add: UnmarshalNATResponse_def unmarshal_simps nth_append parseAddrBytes_def)
qed

lemma Probe_answered:
  assumes "length (AppendAddrStr [] a) < 1000" "resolve (AppendAddrStr [] a) = Some a"
  shows "Probe resolve pid start True [(EncodeChecked TypeNATResponse (nat_answer pid a), arr)] =
    (Ok (probe_result (arr - start) \<lparr> NR_ProbeID = pid, NR_NATType = NATTypeUnknown, NR_ObservedAddr = Some a, NR_AltAddr = None \<rparr>), [])"
proof -
  have l: "length (EncodeChecked TypeNATResponse (nat_answer pid a)) \<le> 1500"
    using assms(1) by (simp add: EncodeChecked_def nat_answer_def NATResponse_Marshal_def addrBytes_def Let_def)
  show ?thesis
    using nat_answer_decodes[of a resolve pid] assms l by (simp add: Probe_def DecodeChecked_EncodeChecked)
qed

text \<open>
  Every NAT looks like a full cone: the server answers a probe with the observed endpoint only,
  no second endpoint and no classification, so three answered probes from one endpoint give the type
  full cone with that endpoint, also where the NAT is port-restricted or there is none.
\<close>

theorem nat_always_full_cone:
  assumes "length (AppendAddrStr [] a) < 1000" "resolve (AppendAddrStr [] a) = Some a"
    "PT_sent t0" "PT_sent t1" "PT_sent t2"
    "PT_arrivals t0 = [(EncodeChecked TypeNATResponse (nat_answer 0 a), x0)]"
    "PT_arrivals t1 = [(EncodeChecked TypeNATResponse (nat_answer 1 a), x1)]"
    "PT_arrivals t2 = [(EncodeChecked TypeNATResponse (nat_answer 2 a), x2)]"
  shows "handleNATProbe ev (NATProbe_Marshal \<lparr> Probe_ID = pid \<rparr>) a s = srv_sendChecked ev TypeNATResponse (nat_answer pid a) a s \<and>
    (\<exists>r. ProbeNATType resolve t0 t1 t2 [] = Ok r \<and> PR_Type r = NATTypeFullCone \<and> PR_ExternalIP r = UDP_IP a \<and>
       PR_ExternalPort r = UDP_Port a)"
proof
  show "handleNATProbe ev (NATProbe_Marshal \<lparr> Probe_ID = pid \<rparr>) a s = srv_sendChecked ev TypeNATResponse (nat_answer pid a) a s"
    by (simp add: handleNATProbe_def NATProbe_Marshal_def UnmarshalNATProbe_def nat_answer_def unmarshal_simps)
  have i: "(1 :: byte) + 1 = 2" by simp
  note p = Probe_answered[of a resolve, OF assms(1,2)]
  show "\<exists>r. ProbeNATType resolve t0 t1 t2 [] = Ok r \<and> PR_Type r = NATTypeFullCone \<and> PR_ExternalIP r = UDP_IP a \<and>
       PR_ExternalPort r = UDP_Port a"
    using assms(3-8)
    by (simp add: ProbeNATType_def p i probe_result_def classifyNATType_def ip_equal_def NATTypeUnknown_def)
qed

definition answered :: "byte \<Rightarrow> ProbeTurn" where
  "answered pid = \<lparr> PT_start = 0, PT_sent = True,
     PT_arrivals = [(EncodeChecked TypeNATResponse (nat_answer pid friend_addr), 5)] \<rparr>"

lemma answered_simps: "PT_start (answered i) = 0" "PT_sent (answered i)"
  "PT_arrivals (answered i) = [(EncodeChecked TypeNATResponse (nat_answer i friend_addr), 5)]"
  by (simp_all add: answered_def)

theorem nat_always_full_cone_witness:
  "\<exists>r. ProbeNATType (\<lambda>_. Some friend_addr) (answered 0) (answered 1) (answered 2) [] = Ok r \<and> PR_Type r = NATTypeFullCone"
proof -
  have "length (AppendAddrStr [] friend_addr) < 1000"
    using parse_peer_addr_AppendAddrStr(2)[of friend_addr] by (simp add: v4_addr_def friend_addr_def IPv4_def)
  then show ?thesis
    using nat_always_full_cone[of friend_addr "\<lambda>_. Some friend_addr" "answered 0" "answered 1" "answered 2" 5 5 5]
    by (simp add: answered_simps) blast
qed

section \<open>The shared packet cipher\<close>

text \<open>
  In a room with a password a client hears one sender: all senders share the receiver's one
  replay window although each starts at a random counter, so once the window is 64 or more
  ahead of a sender's counter, every packet of that sender is discarded.
\<close>

theorem second_sender_unheard:
  assumes "session_ok a" "T_p2pCipher a = Some ca" "T_p2pCipher b = Some cb" "T_decAvailable b" "R_roomPass r \<noteq> []"
    "aead_ok (C_aead ca)" "length (C_dirTag ca) = 4" "length src = 4" "length dst = 4"
    "unat (C_counter ca + 1) + 64 \<le> unat (C_replayCounter cb)" "Pool_Token (N_payload ev) = zero_token"
    "Decode (fst (wire_packet a ipkt src dst)) = Ok \<lparr> MsgType = TypeData, MsgPayload = pl \<rparr>"
  shows "tun_output (receive_packet ev sa sa (relay_encode r pl) b) = tun_output b"
proof -
  let ?tok = "route_token a"
  have tok: "length ?tok = 16" using assms(1) length_route_token by (simp add: session_ok_def)
  obtain d c' where d: "Encrypt (Some ipkt) ca = (Some d, c')" by (rule Encrypt_Some)
  note sh = Encrypt_shape[OF assms(7,6) d]
  have dn: "d \<noteq> []" "IsEncrypted d" using sh(1,2) by (auto simp: IsEncrypted_def)
  have pl: "pl = Data_Marshal (data_msg src dst ?tok d)"
    using assms(2,12) d by (simp add: wire_packet_def Decode_Encode)
  have "C_counter ca + 1 \<le> C_replayCounter cb" using assms(10) by (simp add: word_le_nat_alt)
  then have u: "unat (C_replayCounter cb - (C_counter ca + 1)) = unat (C_replayCounter cb) - unat (C_counter ca + 1)"
    by (simp add: unat_sub)
  have "\<not> C_replayCounter cb < C_counter ca + 1" using assms(10) by (simp add: word_less_nat_alt)
  moreover have "64 \<le> C_replayCounter cb - (C_counter ca + 1)" using u assms(10) by (simp add: word_le_nat_alt)
  ultimately have w: "checkReplayWindow (C_counter ca + 1) cb = (False, cb)" by (simp add: checkReplayWindow_def Let_def)
  have dec: "DecryptInto [] d cb = (Inl Replay, cb)"
    using sh(1-3) w by (simp add: DecryptInto_cases)
  have um: "UnmarshalDataPooled (N_payload ev) pl = Ok (data_msg src dst ?tok d)"
    unfolding pl by (rule pooled_data_msg[OF assms(11,8,9) tok])
  have "receive_packet ev sa sa (relay_encode r pl) b = decryptWriteAndRelease ev (data_msg src dst ?tok d) (markServerResponse ev b)"
    using receive_server_data[OF _ um, of b "relay_encode r pl" sa] assms(4,5) dn(1)
    by (simp add: relay_encode_def Decode_Encode data_msg_def)
  then show ?thesis
    using assms(3) dn(2) dec by (simp add: decryptWriteAndRelease_def data_msg_def markServerResponse_def tun_output_def split: option.split)
qed

text \<open>A receiver that has seen the counter 100 from its first sender, and a sender that starts at 1.\<close>

definition ahead_tunnel :: Tunnel where
  "ahead_tunnel = locked_tunnel\<lparr> T_p2pCipher := map_option (C_replayCounter_update (\<lambda>_. 100)) (T_p2pCipher locked_tunnel) \<rparr>"

theorem second_sender_unheard_witness:
  "\<exists>pl. Decode (fst (wire_packet locked_tunnel [0x45] [10, 10, 0, 2] [10, 10, 0, 3])) = Ok \<lparr> MsgType = TypeData, MsgPayload = pl \<rparr> \<and>
    tun_output (receive_packet sample_cenv sample_addr sample_addr (relay_encode locked_room pl) ahead_tunnel) = []"
proof -
  let ?p = "fst (wire_packet locked_tunnel [0x45] [10, 10, 0, 2] [10, 10, 0, 3])"
  have s: "session_ok locked_tunnel" "T_p2pCipher locked_tunnel = Some sample_cipher"
    by (simp_all add: session_ok_def locked_tunnel_def sample_tunnel_def)
  have b: "T_p2pCipher ahead_tunnel = Some (sample_cipher\<lparr> C_replayCounter := 100 \<rparr>)" "T_decAvailable ahead_tunnel"
    "tun_output ahead_tunnel = []"
    by (simp_all add: ahead_tunnel_def locked_tunnel_def sample_tunnel_def sample_dev_def tun_output_def)
  obtain d c' where d: "Encrypt (Some [0x45]) sample_cipher = (Some d, c')" by (rule Encrypt_Some)
  obtain pl where pl: "Decode ?p = Ok \<lparr> MsgType = TypeData, MsgPayload = pl \<rparr>"
    using s(2) d by (simp add: wire_packet_def Decode_Encode)
  have "tun_output (receive_packet sample_cenv sample_addr sample_addr (relay_encode locked_room pl) ahead_tunnel) = tun_output ahead_tunnel"
    by (rule second_sender_unheard[OF s b(1,2) _ _ _ _ _ _ _ pl])
       (use locked_facts(6) in \<open>simp_all add: sample_cipher_def plain_aead_ok DirClientToClient_def sample_cenv_def newPooled_def\<close>)
  then show ?thesis using pl b(3) by auto
qed

end
