(* ===== verification/ClientRun.thy ===== *)
theory ClientRun
  imports ClientGuarantees
begin

text \<open>
  The client as a machine that reacts to events: datagrams of any content from anywhere, packets
  from the TUN device, the passes of its goroutines, timers, connecting and leaving.  The
  invariant \<open>client_wf\<close> holds along every run and no event makes the program panic.
\<close>

section \<open>Machines that keep an invariant\<close>

text \<open>What a program promises that handles one event after the other and may panic.\<close>

fun run_events :: "('e \<Rightarrow> 's \<Rightarrow> 's res) \<Rightarrow> 'e list \<Rightarrow> 's \<Rightarrow> 's res" where
  "run_events act [] s = Ok s"
| "run_events act (e # es) s = bind_res (act e s) (run_events act es)"

locale safe_machine =
  fixes act :: "'e \<Rightarrow> 's \<Rightarrow> 's res" and adm :: "'e \<Rightarrow> bool" and Inv :: "'e list \<Rightarrow> 's \<Rightarrow> bool"
  assumes act_keeps: "Inv es s \<Longrightarrow> adm e \<Longrightarrow> \<exists>s'. act e s = Ok s' \<and> Inv (es @ [e]) s'"
begin

lemma run_keeps: "Inv past s \<Longrightarrow> list_all adm es \<Longrightarrow> \<exists>s'. run_events act es s = Ok s' \<and> Inv (past @ es) s'"
proof (induction es arbitrary: past s)
  case (Cons e es)
  then obtain s1 where s1: "act e s = Ok s1" "Inv (past @ [e]) s1" using act_keeps[of past s e] by auto
  then obtain s' where "run_events act es s1 = Ok s'" "Inv ((past @ [e]) @ es) s'"
    using Cons.IH[of "past @ [e]" s1] Cons.prems by auto
  then show ?case using s1 by simp
qed simp

lemma run_from_start:
  "Inv [] s \<Longrightarrow> list_all adm es \<Longrightarrow> run_events act es s = Ok s' \<Longrightarrow> Inv es s'"
  using run_keeps[of "[]" s es] by auto

end

section \<open>Events\<close>

datatype cevent =
    Recv CEnv UDPAddr UDPAddr bytes
  | TunBatch "bytes list"
  | TunSingle bytes
  | Work CEnv
  | SendCtrl CEnv
  | SendData CEnv
  | SendStop CEnv "bool list"
  | Punch nat
  | RetryPunch CEnv
  | CleanPeers CEnv
  | Discover
  | P2PKeep CEnv
  | Keep CEnv
  | RebindEnd CEnv
  | ConnectTo CEnv ConnInput bytes int "tun_factory option"
  | Leave CEnv
  | CloseDev
  | ProbeEnd "NATProbeResult res"

text \<open>
  The goroutine that reads the TUN device ends without a device, and the relay loops run after a
  device was made.  Everything else may happen at any time.
\<close>

fun client_do :: "cevent \<Rightarrow> Tunnel \<Rightarrow> Tunnel res" where
  "client_do (Recv ev sa from d) t = Ok (receive_packet ev sa from (take readBufSize d) t)"
| "client_do (TunBatch ps) t = Ok (if T_tunDev t = None then t else fold tun_batch_packet ps t)"
| "client_do (TunSingle p) t = Ok (if T_tunDev t = None then t else tun_single_packet p t)"
| "client_do (Work ev) t = tunWorker ev t"
| "client_do (SendCtrl ev) t = Ok (sendLoop_ctrl ev t)"
| "client_do (SendData ev) t = Ok (sendLoop_data ev t)"
| "client_do (SendStop ev picks) t = Ok (sendLoop_stop ev picks t)"
| "client_do (Punch n) t = Ok (punch_tick n t)"
| "client_do (RetryPunch ev) t = Ok (retryFailedHolePunches ev t)"
| "client_do (CleanPeers ev) t = Ok (cleanStalePeers ev t)"
| "client_do Discover t = Ok (peerDiscovery_tick t)"
| "client_do (P2PKeep ev) t = Ok (sendP2PKeepalives ev t)"
| "client_do (Keep ev) t = Ok (snd (cl_keepalive_tick ev t))"
| "client_do (RebindEnd ev) t = Ok (snd (rebind_result ev t))"
| "client_do (ConnectTo ev ci a mtu f) t = Ok (snd (Connect ev ci a mtu f t))"
| "client_do (Leave ev) t = Ok (Disconnect ev t)"
| "client_do CloseDev t = Ok (CloseTUN t)"
| "client_do (ProbeEnd r) t = Ok (probe_finish r t)"

text \<open>The IP packets that a list of events brings from the TUN device.\<close>

fun tun_in :: "cevent \<Rightarrow> bytes set" where
  "tun_in (TunBatch ps) = {take (total_len p) p | p. p \<in> set ps \<and> tun_valid p}"
| "tun_in (TunSingle p) = (if tun_valid p then {p} else {})"
| "tun_in _ = {}"

text \<open>The payloads of the pings in a datagram, which a pong carries back.\<close>

fun pings_in :: "cevent \<Rightarrow> bytes set" where
  "pings_in (Recv ev sa from d) =
     {MsgPayload m | m. (Decode (take readBufSize d) = Ok m \<or> DecodeChecked (take readBufSize d) = Ok m) \<and> MsgType m = TypePing}"
| "pings_in _ = {}"

text \<open>Every registration uses the same cipher, chacha20poly1305 under the model.\<close>

fun made_with :: "(bytes \<Rightarrow> AEAD option) \<Rightarrow> cevent \<Rightarrow> bool" where
  "made_with mk (ConnectTo ev ci a mtu f) \<longleftrightarrow> N_newAead ev = mk \<and> list_all (\<lambda>(e, r). N_newAead e = mk) (CI_udp ci) \<and>
     list_all (\<lambda>(e, c, r). N_newAead e = mk) (CI_tcp ci)"
| "made_with mk _ \<longleftrightarrow> True"

section \<open>The invariant\<close>

definition control :: "bytes \<Rightarrow> bool" where
  "control d \<longleftrightarrow> (\<exists>typ pl. typ \<noteq> TypeData \<and> d = EncodeChecked typ pl)"

text \<open>
  The cipher, the password, the room and the player name of a client, and what it puts into a data message for the IP
  packet \<open>x\<close>: the packet itself, or its encryption under the key of the room.
\<close>

record room_key =
  K_aead :: "bytes \<Rightarrow> AEAD option"
  K_pass :: bytes
  K_room :: bytes
  K_user :: bytes

definition carried :: "room_key \<Rightarrow> bytes \<Rightarrow> bytes \<Rightarrow> bool" where
  "carried K x y \<longleftrightarrow>
     (if K_pass K = [] then y = x
      else \<exists>a n. K_aead K (DeriveKey (K_pass K) (K_room K)) = Some a \<and> length n = 12 \<and> y = EncVersion # n @ A_Seal a n x)"

definition data_packet :: "bytes \<Rightarrow> bytes \<Rightarrow> bytes \<Rightarrow> token \<Rightarrow> bytes \<Rightarrow> bytes" where
  "data_packet pass src dst tok y =
     (if pass = [] then EncodeChecked else Encode) TypeData (Data_Marshal (data_msg src dst tok y))"

text \<open>What a client has taken in: packets of its device and payloads of pings from the network.\<close>

datatype source = Dev bytes | Net bytes

definition seen :: "cevent \<Rightarrow> source set" where
  "seen e = Dev ` tun_in e \<union> Net ` pings_in e"

text \<open>The cached packet for hole punching: the virtual address of the client.\<close>

definition punch_packet :: "bytes \<Rightarrow> bool" where
  "punch_packet d \<longleftrightarrow> (\<exists>v. length v = 4 \<and> d = EncodeChecked TypeHolePunch v)"

text \<open>
  The control messages of a client, with everything they carry: its configuration, virtual addresses, proofs of the
  password, the type of its NAT, and the payload of a ping that it answers.
\<close>

inductive client_control :: "room_key \<Rightarrow> source set \<Rightarrow> bytes \<Rightarrow> bool" for K :: room_key and X :: "source set" where
  register: "client_control K X (EncodeChecked TypeRegister (Register_Marshal
     \<lparr> Reg_RoomID = K_room K, Reg_Username = K_user K, Reg_Version = AppVersion \<rparr>))"
| answer: "client_control K X (EncodeChecked TypeAuthResponse (AuthResponse_Marshal
     \<lparr> Rsp_RoomID = K_room K, Rsp_Username = K_user K,
        Rsp_HMAC = ComputeHMAC (DeriveKey (K_pass K) (K_room K)) ch (K_room K) (K_user K) addr \<rparr>))"
| punch: "length v = 4 \<Longrightarrow> client_control K X (EncodeChecked TypeHolePunch v)"
| ask_peers: "client_control K X (EncodeChecked TypePeerRequest [])"
| pong: "Net p \<in> X \<Longrightarrow> client_control K X (EncodeChecked TypePong p)"
| keep_alive: "client_control K X (EncodeChecked TypeKeepAlive [natType])"
| rebind: "length v = 4 \<Longrightarrow> client_control K X (EncodeChecked TypeRebind (Rebind_Marshal
     \<lparr> Rb_VirtualIP = v,
        Rb_HMAC = (if K_pass K \<noteq> [] then
                     ComputeHMAC (DeriveKey (K_pass K) (K_room K)) [] (K_room K) (K_user K) (Some \<lparr> UDP_IP = v, UDP_Port = 0 \<rparr>)
                   else []) \<rparr>))"
| leave: "client_control K X (EncodeChecked TypeDisconnect [])"

definition emitted :: "room_key \<Rightarrow> source set \<Rightarrow> bytes \<Rightarrow> bool" where
  "emitted K X d \<longleftrightarrow> client_control K X d \<or>
     (\<exists>src dst tok x y. length src = 4 \<and> length dst = 4 \<and> length tok = 16 \<and> Dev x \<in> X \<and> carried K x y \<and>
        d = data_packet (K_pass K) src dst tok y)"

definition outs :: "Tunnel \<Rightarrow> bytes set" where
  "outs t = fst ` (set (T_sendCh t) \<union> set (T_ctrlCh t)) \<union> fst ` set (T_wire t)"

definition chan_wf :: "Tunnel \<Rightarrow> bool" where
  "chan_wf t \<longleftrightarrow> length (T_sendCh t) \<le> sendChanSize \<and> length (T_ctrlCh t) \<le> ctrlChanSize \<and>
     length (T_tunCh t) \<le> tunChanSize \<and> length (T_rebindAckCh t) \<le> Suc 0"

definition peer_ok :: "ip \<Rightarrow> ipkey \<Rightarrow> Peer \<Rightarrow> bool" where
  "peer_ok self k p \<longleftrightarrow> length (P_VirtualIP p) = 4 \<and> k = IPKey (P_VirtualIP p) \<and> P_VirtualIP p \<noteq> self \<and> \<not> P_stale p"

definition peers_wf :: "Tunnel \<Rightarrow> bool" where
  "peers_wf t \<longleftrightarrow> distinct (mkeys (T_peers t)) \<and> (\<forall>k p. mget (T_peers t) k = Some p \<longrightarrow> peer_ok (T_virtualIP t) k p)"

definition session_wf :: "room_key \<Rightarrow> Tunnel \<Rightarrow> bool" where
  "session_wf K t \<longleftrightarrow> K_pass K = T_roomPass t \<and> K_room K = T_roomID t \<and> K_user K = T_username t \<and> length (T_sessionToken t) = 16 \<and> (T_virtualIP t \<noteq> [] \<longrightarrow> session_ok t) \<and>
     (T_decAvailable t \<longleftrightarrow> T_p2pCipher t \<noteq> None) \<and> (T_p2pCipher t \<noteq> None \<longleftrightarrow> T_virtualIP t \<noteq> [] \<and> T_roomPass t \<noteq> []) \<and>
     (\<forall>c. T_p2pCipher t = Some c \<longrightarrow> K_aead K (DeriveKey (T_roomPass t) (T_roomID t)) = Some (C_aead c) \<and>
        C_dirTag c = DirClientToClient) \<and>
     (T_tunDev t \<noteq> None \<or> T_tunCh t \<noteq> [] \<longrightarrow> T_virtualIP t \<noteq> []) \<and>
     (\<forall>p. T_cachedPunchPacket t = Some p \<longrightarrow> punch_packet p)"

definition jobs_wf :: "source set \<Rightarrow> Tunnel \<Rightarrow> bool" where
  "jobs_wf X t \<longleftrightarrow> (\<forall>j\<in>set (T_tunCh t). length (J_srcIP j) = 4 \<and> length (J_dstIP j) = 4 \<and> Dev (J_data j) \<in> X)"

definition outs_wf :: "room_key \<Rightarrow> source set \<Rightarrow> Tunnel \<Rightarrow> bool" where
  "outs_wf K X t \<longleftrightarrow> (\<forall>d\<in>outs t. emitted K X d)"

definition client_wf :: "room_key \<Rightarrow> source set \<Rightarrow> Tunnel \<Rightarrow> bool" where
  "client_wf K X t \<longleftrightarrow> chan_wf t \<and> peers_wf t \<and> session_wf K t \<and> jobs_wf X t \<and> outs_wf K X t"

lemmas client_wf_defs = client_wf_def chan_wf_def peers_wf_def session_wf_def session_ok_def jobs_wf_def outs_wf_def

lemma control_EncodeChecked [simp]: "typ \<noteq> TypeData \<Longrightarrow> control (EncodeChecked typ pl)"
  by (auto simp: control_def)

lemma types_not_data [simp]:
  "TypeHolePunch \<noteq> TypeData" "TypePeerRequest \<noteq> TypeData" "TypePong \<noteq> TypeData" "TypeKeepAlive \<noteq> TypeData"
  "TypeRebind \<noteq> TypeData" "TypeRegister \<noteq> TypeData" "TypeAuthResponse \<noteq> TypeData" "TypeDisconnect \<noteq> TypeData"
  by (simp_all add: type_defs)

lemmas client_control_simps [simp] = client_control.ask_peers client_control.keep_alive client_control.leave

lemma client_control_control: "client_control K X d \<Longrightarrow> control d"
  by (induction rule: client_control.induct) simp_all

lemma client_control_mono: "client_control K X d \<Longrightarrow> X \<subseteq> Y \<Longrightarrow> client_control K Y d"
  by (induction rule: client_control.induct) (blast intro: client_control.intros)+

lemma client_control_net: "client_control K X d \<Longrightarrow> client_control K (X \<inter> range Net) d"
  by (induction rule: client_control.induct) (blast intro: client_control.intros)+

lemma punch_client_control: "punch_packet d \<Longrightarrow> client_control K X d"
  by (auto simp: punch_packet_def intro: client_control.punch)

lemma control_emitted: "client_control K X d \<Longrightarrow> emitted K X d"
  by (simp add: emitted_def)

lemma emitted_mono: "emitted K X d \<Longrightarrow> X \<subseteq> Y \<Longrightarrow> emitted K Y d"
  unfolding emitted_def using client_control_mono by blast

lemma client_wf_mono: "client_wf K X t \<Longrightarrow> X \<subseteq> Y \<Longrightarrow> client_wf K Y t"
  unfolding client_wf_def jobs_wf_def outs_wf_def using emitted_mono by blast

section \<open>Steps that keep the invariant\<close>

text \<open>Each part of the invariant depends on few fields.\<close>

lemma chan_wf_cong:
  "T_sendCh t' = T_sendCh t \<Longrightarrow> T_ctrlCh t' = T_ctrlCh t \<Longrightarrow> T_tunCh t' = T_tunCh t \<Longrightarrow> T_rebindAckCh t' = T_rebindAckCh t \<Longrightarrow>
   chan_wf t' = chan_wf t"
  by (simp add: chan_wf_def)

lemma peers_wf_cong: "T_peers t' = T_peers t \<Longrightarrow> T_virtualIP t' = T_virtualIP t \<Longrightarrow> peers_wf t' = peers_wf t"
  by (simp add: peers_wf_def)

lemma session_ok_cong:
  "T_virtualIP t' = T_virtualIP t \<Longrightarrow> T_sessionToken t' = T_sessionToken t \<Longrightarrow> T_serverIPKey t' = T_serverIPKey t \<Longrightarrow>
   T_cachedSubnet t' = T_cachedSubnet t \<Longrightarrow> session_ok t' = session_ok t"
  by (simp add: session_ok_def)

definition same_session :: "Tunnel \<Rightarrow> Tunnel \<Rightarrow> bool" where
  "same_session t' t \<longleftrightarrow> T_virtualIP t' = T_virtualIP t \<and> T_sessionToken t' = T_sessionToken t \<and> T_serverIPKey t' = T_serverIPKey t \<and>
     T_cachedSubnet t' = T_cachedSubnet t \<and> T_decAvailable t' = T_decAvailable t \<and> T_p2pCipher t' = T_p2pCipher t \<and>
     T_roomPass t' = T_roomPass t \<and> T_roomID t' = T_roomID t \<and> T_username t' = T_username t \<and>
     T_cachedPunchPacket t' = T_cachedPunchPacket t \<and>
     (T_tunDev t' = None \<longleftrightarrow> T_tunDev t = None)"

lemma session_wf_cong:
  assumes "same_session t' t" "T_tunCh t' \<noteq> [] \<Longrightarrow> T_tunCh t \<noteq> [] \<or> T_tunDev t \<noteq> None" "session_wf K t"
  shows "session_wf K t'"
proof -
  have e: "T_virtualIP t' = T_virtualIP t" "T_sessionToken t' = T_sessionToken t" "T_serverIPKey t' = T_serverIPKey t"
     "T_cachedSubnet t' = T_cachedSubnet t" "T_decAvailable t' = T_decAvailable t" "T_p2pCipher t' = T_p2pCipher t"
     "T_roomPass t' = T_roomPass t" "T_roomID t' = T_roomID t" "T_cachedPunchPacket t' = T_cachedPunchPacket t"
     "T_username t' = T_username t"
    using assms(1) by (simp_all add: same_session_def)
  have o: "session_ok t' = session_ok t" by (rule session_ok_cong[OF e(1-4)])
  have d: "T_tunDev t' \<noteq> None \<or> T_tunCh t' \<noteq> [] \<longrightarrow> T_virtualIP t \<noteq> []"
    using assms by (auto simp: same_session_def session_wf_def)
  show ?thesis using assms(3) d unfolding session_wf_def e o by (elim conjE, intro conjI)
qed

lemma jobs_wf_cong: "T_tunCh t' = T_tunCh t \<Longrightarrow> jobs_wf X t' = jobs_wf X t"
  by (simp add: jobs_wf_def)

lemma outs_wf_mono:
  "outs_wf K X t \<Longrightarrow> outs t' \<subseteq> outs t \<union> D \<Longrightarrow> (\<And>d. d \<in> D \<Longrightarrow> emitted K X d) \<Longrightarrow> outs_wf K X t'"
  by (auto simp: outs_wf_def)

text \<open>
  A step that leaves the session, the peers and the jobs alone and sends no more than some packets
  the client may emit.
\<close>

lemma client_wf_step:
  assumes "client_wf K X t" "same_session t' t" "T_peers t' = T_peers t" "T_tunCh t' = T_tunCh t"
    "length (T_sendCh t') \<le> sendChanSize" "length (T_ctrlCh t') \<le> ctrlChanSize" "length (T_rebindAckCh t') \<le> Suc 0"
    "outs t' \<subseteq> outs t \<union> D" "\<And>d. d \<in> D \<Longrightarrow> emitted K X d"
  shows "client_wf K X t'"
proof -
  have w: "chan_wf t" "peers_wf t" "session_wf K t" "jobs_wf X t" "outs_wf K X t" using assms(1) by (simp_all add: client_wf_def)
  have v: "T_virtualIP t' = T_virtualIP t" using assms(2) by (simp add: same_session_def)
  have "chan_wf t'" using w(1) assms(4-7) by (simp add: chan_wf_def)
  moreover have "peers_wf t'" using w(2) peers_wf_cong[OF assms(3) v] by simp
  moreover have "session_wf K t'" using session_wf_cong[OF assms(2) _ w(3)] assms(4) by simp
  moreover have "jobs_wf X t'" using w(4) jobs_wf_cong[OF assms(4)] by simp
  moreover have "outs_wf K X t'" using outs_wf_mono[OF w(5) assms(8,9)] by blast
  ultimately show ?thesis by (simp add: client_wf_def)
qed

lemmas client_wf_same = client_wf_step[where D = "{}", simplified]

lemma client_wf_chans:
  assumes "client_wf K X t"
  shows "length (T_sendCh t) \<le> sendChanSize" "length (T_ctrlCh t) \<le> ctrlChanSize" "length (T_tunCh t) \<le> tunChanSize"
    "length (T_rebindAckCh t) \<le> Suc 0"
  using assms by (simp_all add: client_wf_def chan_wf_def)

text \<open>Fields the invariant does not speak of.\<close>

lemma wf_fields:
  assumes "client_wf K X t"
  shows "client_wf K X (t\<lparr> T_sockOpen := x0 \<rparr>)" "client_wf K X (t\<lparr> T_conn := x1 \<rparr>)"
    "client_wf K X (t\<lparr> T_serverAddr := x2 \<rparr>)" "client_wf K X (t\<lparr> T_disconnected := x3 \<rparr>)"
    "client_wf K X (t\<lparr> T_tunClosed := x4 \<rparr>)" "client_wf K X (t\<lparr> T_sendLimiter := x5 \<rparr>)"
    "client_wf K X (t\<lparr> T_lastServerResponse := x6 \<rparr>)" "client_wf K X (t\<lparr> T_sendErrors := x7 \<rparr>)"
    "client_wf K X (t\<lparr> T_tunDropped := x8 \<rparr>)" "client_wf K X (t\<lparr> T_cancelKicks := x9 \<rparr>)"
    "client_wf K X (t\<lparr> T_tcpTransport := x10 \<rparr>)" "client_wf K X (t\<lparr> T_lastAssignedIP := x11 \<rparr>)"
    "client_wf K X (t\<lparr> T_lastMTU := x12 \<rparr>)" "client_wf K X (t\<lparr> T_punches := x13 \<rparr>)"
    "client_wf K X (t\<lparr> T_probeResult := x14 \<rparr>)" "client_wf K X (t\<lparr> T_probeDone := x15 \<rparr>)"
    "client_wf K X (t\<lparr> T_probeRunning := x16 \<rparr>)"
  by (rule client_wf_same[OF assms]; simp add: same_session_def outs_def client_wf_chans[OF assms])+

lemma wf_note_error: "client_wf K X t \<Longrightarrow> client_wf K X (note_error t)"
  by (simp add: note_error_def wf_fields)

lemma wf_sendCtrl:
  assumes "client_wf K X t" "client_control K X d"
  shows "client_wf K X (sendCtrl d a t)"
proof (cases "length (T_ctrlCh t) < ctrlChanSize")
  case True
  show ?thesis
    by (rule client_wf_step[OF assms(1), where D = "{d}"])
       (use True client_wf_chans[OF assms(1)] control_emitted[OF assms(2)] in \<open>simp_all add: sendCtrl_def same_session_def outs_def\<close>)
qed (simp add: sendCtrl_def wf_note_error assms)

lemma wf_sendUDP:
  assumes "client_wf K X t" "emitted K X d"
  shows "client_wf K X (sendUDP ev d a t)"
proof -
  have "client_wf K X (t\<lparr> T_sendLimiter := l, T_sendCh := T_sendCh t @ [(d, a)] \<rparr>)"
    if "length (T_sendCh t) < sendChanSize" for l
    by (rule client_wf_step[OF assms(1), where D = "{d}"])
       (use that client_wf_chans[OF assms(1)] assms(2) in \<open>simp_all add: same_session_def outs_def\<close>)
  then show ?thesis using assms(1) by (simp add: sendUDP_def Let_def wf_fields wf_note_error split: prod.split)
qed

lemma wf_cl_writeUDP:
  assumes "client_wf K X t" "emitted K X (fst j)"
  shows "client_wf K X (cl_writeUDP ev j t)"
proof -
  have "client_wf K X (t\<lparr> T_wire := T_wire t @ [(fst j, a)] \<rparr>)" for a
    by (rule client_wf_step[OF assms(1), where D = "{fst j}"])
       (use client_wf_chans[OF assms(1)] assms(2) in \<open>simp_all add: same_session_def outs_def\<close>)
  then show ?thesis using assms(1) by (simp add: cl_writeUDP_def wf_note_error split: option.split)
qed

lemma cl_writeUDP_frame [simp]:
  "T_roomPass (cl_writeUDP ev j t) = T_roomPass t" "T_roomID (cl_writeUDP ev j t) = T_roomID t"
  "T_username (cl_writeUDP ev j t) = T_username t"
  "T_sendCh (cl_writeUDP ev j t) = T_sendCh t" "T_ctrlCh (cl_writeUDP ev j t) = T_ctrlCh t"
  by (simp_all add: cl_writeUDP_def note_error_def split: option.split)

lemma wf_write_all:
  assumes "client_wf K X t" "\<forall>j\<in>set js. emitted K X (fst j)"
  shows "client_wf K X (fold (cl_writeUDP ev) js t)"
  using assms
proof (induction js arbitrary: t)
  case (Cons j js)
  have "client_wf K X (cl_writeUDP ev j t)" by (rule wf_cl_writeUDP) (use Cons.prems in simp_all)
  then show ?case using Cons.IH[of "cl_writeUDP ev j t"] Cons.prems(2) by simp
qed simp

text \<open>Taking packets out of the channels.\<close>

lemma wf_take_out:
  assumes "client_wf K X t" "set s \<subseteq> set (T_sendCh t)" "set c \<subseteq> set (T_ctrlCh t)"
    "length s \<le> length (T_sendCh t)" "length c \<le> length (T_ctrlCh t)"
  shows "client_wf K X (t\<lparr> T_ctrlCh := c, T_sendCh := s \<rparr>)"
proof (rule client_wf_same[OF assms(1)])
  show "outs (t\<lparr> T_ctrlCh := c, T_sendCh := s \<rparr>) \<subseteq> outs t" using assms(2,3) by (auto simp: outs_def)
qed (use assms(4,5) client_wf_chans[OF assms(1)] in \<open>simp_all add: same_session_def\<close>)

lemmas wf_take_ctrl = wf_take_out[where s = "T_sendCh t" for t, simplified]
lemmas wf_take_send = wf_take_out[where c = "T_ctrlCh t" for t, simplified]

lemma queued_emitted:
  "client_wf K X t \<Longrightarrow> j \<in> set (T_sendCh t) \<union> set (T_ctrlCh t) \<Longrightarrow> emitted K X (fst j)"
  unfolding client_wf_def outs_wf_def outs_def by blast

lemma wf_write_taken:
  assumes "client_wf K X t" "set js \<subseteq> set (T_sendCh t) \<union> set (T_ctrlCh t)" "set s \<subseteq> set (T_sendCh t)" "set c \<subseteq> set (T_ctrlCh t)"
    "length s \<le> length (T_sendCh t)" "length c \<le> length (T_ctrlCh t)"
  shows "client_wf K X (fold (cl_writeUDP ev) js (t\<lparr> T_ctrlCh := c, T_sendCh := s \<rparr>))"
  by (rule wf_write_all[OF wf_take_out[OF assms(1,3-6)]]) (use assms(2) queued_emitted[OF assms(1)] in auto)

lemma wf_sendLoop_ctrl: assumes "client_wf K X t" shows "client_wf K X (sendLoop_ctrl ev t)"
proof (cases "T_ctrlCh t")
  case (Cons j js)
  have "client_wf K X (fold (cl_writeUDP ev) ([j] @ take k js @ take m (T_sendCh t))
      (t\<lparr> T_ctrlCh := drop k js, T_sendCh := drop m (T_sendCh t) \<rparr>))" for k m
    by (rule wf_write_taken[OF assms]) (auto simp: Cons dest: in_set_dropD in_set_takeD)
  note this[of 63 "63 - length (take 63 js)"]
  then show ?thesis by (simp add: sendLoop_ctrl_def Cons write_batch_def drainBatch_def Let_def batchSize_def)
qed (simp add: sendLoop_ctrl_def assms)

lemma wf_sendLoop_data: assumes "client_wf K X t" shows "client_wf K X (sendLoop_data ev t)"
proof (cases "T_sendCh t")
  case (Cons j js)
  have "client_wf K X (fold (cl_writeUDP ev) ([j] @ take k (T_ctrlCh t) @ take m js)
      (t\<lparr> T_ctrlCh := drop k (T_ctrlCh t), T_sendCh := drop m js \<rparr>))" for k m
    by (rule wf_write_taken[OF assms]) (auto simp: Cons dest: in_set_dropD in_set_takeD)
  note this[of 63 "63 - length (take 63 (T_ctrlCh t))"]
  then show ?thesis by (simp add: sendLoop_data_def Cons write_batch_def drainBatch_def Let_def batchSize_def)
qed (simp add: sendLoop_data_def assms)

lemma wf_write_first:
  assumes "client_wf K X t"
  shows "T_sendCh t = j # js \<Longrightarrow> client_wf K X (cl_writeUDP ev j (t\<lparr> T_sendCh := js \<rparr>))"
    "T_ctrlCh t = j # js \<Longrightarrow> client_wf K X (cl_writeUDP ev j (t\<lparr> T_ctrlCh := js \<rparr>))"
  using wf_write_taken[OF assms, of "[j]" js "T_ctrlCh t"] wf_write_taken[OF assms, of "[j]" "T_sendCh t" js] by auto

lemma wf_drain_rest: "client_wf K X t \<Longrightarrow> client_wf K X (drain_rest ev picks t)"
proof (induction picks arbitrary: t)
  case (Cons p ps)
  show ?case
    by (cases "T_sendCh t"; cases "T_ctrlCh t") (simp_all add: Cons.IH Cons.prems wf_write_first[OF Cons.prems])
qed simp

lemma wf_sendLoop_stop: assumes "client_wf K X t" shows "client_wf K X (sendLoop_stop ev picks t)"
proof -
  have "client_wf K X (fold (cl_writeUDP ev) (T_ctrlCh t) (t\<lparr> T_ctrlCh := [] \<rparr>))"
    using wf_write_taken[OF assms, of "T_ctrlCh t" "T_sendCh t" "[]"] by simp
  then show ?thesis by (simp add: sendLoop_stop_def wf_drain_rest)
qed

text \<open>Packets from the device.\<close>

lemma wf_tun_enqueue:
  assumes "client_wf K X t" "tun_valid p" "Dev d \<in> X" "T_tunDev t \<noteq> None"
  shows "client_wf K X (tun_enqueue p d t)"
proof (cases "length (T_tunCh t) < tunChanSize")
  case True
  define j where "j = \<lparr> J_data = d, J_srcIP = take 4 (drop 12 p), J_dstIP = take 4 (drop 16 p) \<rparr>"
  define t' where "t' = t\<lparr> T_tunCh := T_tunCh t @ [j] \<rparr>"
  have w: "chan_wf t" "peers_wf t" "session_wf K t" "jobs_wf X t" "outs_wf K X t" using assms(1) by (simp_all add: client_wf_def)
  have "20 \<le> length p" using assms(2) by (simp add: tun_valid_def split: if_splits)
  then have "jobs_wf X t'" using w(4) assms(3) by (simp add: jobs_wf_def t'_def j_def)
  moreover have "chan_wf t'" using w(1) True by (simp add: chan_wf_def t'_def)
  moreover have "peers_wf t'" using w(2) peers_wf_cong[of t' t] by (simp add: t'_def)
  moreover have "session_wf K t'" using session_wf_cong[of t' t K] w(3) assms(4) by (simp add: t'_def same_session_def)
  moreover have "outs_wf K X t'" using w(5) by (simp add: outs_wf_def outs_def t'_def)
  ultimately show ?thesis using True by (simp add: tun_enqueue_def Let_def client_wf_def flip: j_def t'_def)
qed (simp add: tun_enqueue_def wf_fields assms)

lemma tunDev_enqueue [simp]: "T_tunDev (tun_enqueue p d t) = T_tunDev t"
  by (simp add: tun_enqueue_def Let_def)

lemma wf_tun_batch:
  assumes "client_wf K X t" "T_tunDev t \<noteq> None" "Dev ` tun_in (TunBatch ps) \<subseteq> X"
  shows "client_wf K X (fold tun_batch_packet ps t)"
  using assms
proof (induction ps arbitrary: t)
  case (Cons p ps)
  have "client_wf K X (tun_batch_packet p t)" using Cons.prems by (auto simp: tun_batch_packet_def intro: wf_tun_enqueue)
  moreover have "T_tunDev (tun_batch_packet p t) \<noteq> None" using Cons.prems(2) by (simp add: tun_batch_packet_def)
  moreover have "Dev ` tun_in (TunBatch ps) \<subseteq> X" using Cons.prems(3) by auto
  ultimately show ?case using Cons.IH by simp
qed simp

lemma wf_tun_single:
  assumes "client_wf K X t" "T_tunDev t \<noteq> None" "Dev ` tun_in (TunSingle p) \<subseteq> X"
  shows "client_wf K X (tun_single_packet p t)"
  using assms by (auto simp: tun_single_packet_def intro: wf_tun_enqueue split: if_splits)

text \<open>One job of a worker.\<close>

lemma wf_cipher:
  assumes "client_wf K X t" "T_p2pCipher t = Some c" "C_aead c' = C_aead c" "C_dirTag c' = C_dirTag c"
  shows "client_wf K X (t\<lparr> T_p2pCipher := Some c' \<rparr>)"
proof -
  define t' where "t' = t\<lparr> T_p2pCipher := Some c' \<rparr>"
  have w: "chan_wf t" "peers_wf t" "session_wf K t" "jobs_wf X t" "outs_wf K X t" using assms(1) by (simp_all add: client_wf_def)
  have "session_ok t' = session_ok t" by (rule session_ok_cong) (simp_all add: t'_def)
  then have "session_wf K t'" using w(3) assms(2-4) unfolding session_wf_def t'_def by (elim conjE) simp
  moreover have "chan_wf t'" "peers_wf t'" "jobs_wf X t'"
    using w chan_wf_cong[of t' t] peers_wf_cong[of t' t] jobs_wf_cong[of t' t] by (simp_all add: t'_def)
  moreover have "outs_wf K X t'" using w(5) by (simp add: outs_wf_def outs_def t'_def)
  ultimately show ?thesis by (simp add: client_wf_def t'_def)
qed

lemma client_wf_session:
  assumes "client_wf K X t" "T_virtualIP t \<noteq> []"
  shows "session_ok t" "T_p2pCipher t = None \<longleftrightarrow> T_roomPass t = []" "length (route_token t) = 16"
    "T_p2pCipher t = Some c \<Longrightarrow> K_aead K (DeriveKey (T_roomPass t) (T_roomID t)) = Some (C_aead c) \<and> C_dirTag c = DirClientToClient"
  using assms length_route_token[of t] by (auto simp: client_wf_def session_wf_def)

lemma wire_packet_emitted:
  assumes "client_wf K X t" "T_virtualIP t \<noteq> []" "length src = 4" "length dst = 4" "Dev x \<in> X"
  shows "emitted K X (fst (wire_packet t x src dst))"
    "client_wf K X (t\<lparr> T_p2pCipher := snd (wire_packet t x src dst) \<rparr>)"
proof -
  note s = client_wf_session[OF assms(1,2)]
  let ?d = "data_packet (T_roomPass t) src dst (route_token t)"
  have k: "K_pass K = T_roomPass t" "K_room K = T_roomID t" using assms(1) by (simp_all add: client_wf_def session_wf_def)
  have em: "emitted K X (?d y)" if "carried K x y" for y
    using that assms(3-5) s(3) unfolding emitted_def k by blast
  have "emitted K X (fst (wire_packet t x src dst)) \<and>
      client_wf K X (t\<lparr> T_p2pCipher := snd (wire_packet t x src dst) \<rparr>)"
  proof (cases "T_p2pCipher t")
    case None
    have "t\<lparr> T_p2pCipher := None \<rparr> = t" using None by simp
    then have "client_wf K X (t\<lparr> T_p2pCipher := None \<rparr>)" using assms(1) by metis
    then show ?thesis using em[of x] s(2) None by (simp add: wire_packet_def data_packet_def carried_def k)
  next
    case (Some c)
    let ?n = "put64 (C_counter c + 1) @ C_dirTag c"
    let ?y = "EncVersion # ?n @ A_Seal (C_aead c) ?n x"
    have e: "Encrypt (Some x) c = (Some ?y, c\<lparr> C_counter := C_counter c + 1 \<rparr>)"
      by (simp add: Encrypt_def makeNonce_def Let_def)
    have "length ?n = 12" using s(4)[OF Some] by (simp add: DirClientToClient_def)
    then have "carried K x ?y"
      using s(2) s(4)[OF Some] Some by (auto simp: carried_def k intro!: exI[of _ "C_aead c"] exI[of _ ?n])
    then show ?thesis using em[of ?y] s(2) Some wf_cipher[OF assms(1) Some]
      by (simp add: wire_packet_def e data_packet_def)
  qed
  then show "emitted K X (fst (wire_packet t x src dst))"
    "client_wf K X (t\<lparr> T_p2pCipher := snd (wire_packet t x src dst) \<rparr>)" by simp_all
qed

lemma routePacket_sends:
  assumes "session_ok t" "length src = 4" "length dst = 4"
  shows "\<exists>a. routePacket ev x src dst t = Ok (sendUDP ev (fst (wire_packet t x src dst)) a
    (t\<lparr> T_p2pCipher := snd (wire_packet t x src dst) \<rparr>))"
  using route_eq[OF assms] by blast

lemma wf_tunWorker:
  assumes "client_wf K X t"
  shows "\<exists>t'. tunWorker ev t = Ok t' \<and> client_wf K X t'"
proof (cases "T_tunCh t")
  case (Cons j js)
  define u where "u = t\<lparr> T_tunCh := js \<rparr>"
  have w: "chan_wf t" "peers_wf t" "session_wf K t" "jobs_wf X t" "outs_wf K X t" using assms by (simp_all add: client_wf_def)
  have v: "T_virtualIP u \<noteq> []" using w(3) Cons by (simp add: session_wf_def u_def)
  have j: "length (J_srcIP j) = 4" "length (J_dstIP j) = 4" "Dev (J_data j) \<in> X" using w(4) Cons by (simp_all add: jobs_wf_def)
  have "chan_wf u" "jobs_wf X u" using w(1,4) Cons by (simp_all add: chan_wf_def jobs_wf_def u_def)
  moreover have "peers_wf u" using w(2) peers_wf_cong[of u t] by (simp add: u_def)
  moreover have "session_wf K u" using session_wf_cong[of u t K] w(3) Cons by (simp add: u_def same_session_def)
  moreover have "outs_wf K X u" using w(5) by (simp add: outs_wf_def outs_def u_def)
  ultimately have u: "client_wf K X u" by (simp add: client_wf_def)
  note p = wire_packet_emitted[OF u v j]
  have "client_wf K X (sendUDP ev (fst (wire_packet u (J_data j) (J_srcIP j) (J_dstIP j))) a
      (u\<lparr> T_p2pCipher := snd (wire_packet u (J_data j) (J_srcIP j) (J_dstIP j)) \<rparr>))" for a
    by (rule wf_sendUDP[OF p(2)]) (use p(1) in simp)
  then show ?thesis using routePacket_sends[OF client_wf_session(1)[OF u v] j(1,2), of ev "J_data j"] Cons
    by (auto simp: tunWorker_def u_def)
qed (simp add: tunWorker_def assms)

text \<open>Hole punching and the peer table.\<close>

lemma wf_peers:
  assumes "client_wf K X t" "distinct (mkeys ps)" "\<And>k p. mget ps k = Some p \<Longrightarrow> peer_ok (T_virtualIP t) k p"
  shows "client_wf K X (t\<lparr> T_peers := ps \<rparr>)"
proof -
  define t' where "t' = t\<lparr> T_peers := ps \<rparr>"
  have w: "chan_wf t" "session_wf K t" "jobs_wf X t" "outs_wf K X t" using assms(1) by (simp_all add: client_wf_def)
  have "peers_wf t'" using assms(2,3) by (simp add: peers_wf_def t'_def)
  moreover have "chan_wf t'" "jobs_wf X t'"
    using w chan_wf_cong[of t' t] jobs_wf_cong[of t' t] by (simp_all add: t'_def)
  moreover have "session_wf K t'" using session_wf_cong[of t' t K] w(2) by (simp add: t'_def same_session_def)
  moreover have "outs_wf K X t'" using w(4) by (simp add: outs_wf_def outs_def t'_def)
  ultimately show ?thesis by (simp add: client_wf_def t'_def)
qed

lemma client_wf_peers:
  assumes "client_wf K X t"
  shows "distinct (mkeys (T_peers t))" "mget (T_peers t) k = Some p \<Longrightarrow> peer_ok (T_virtualIP t) k p"
  using assms by (simp_all add: client_wf_def peers_wf_def)

lemma wf_mput:
  assumes "client_wf K X t" "peer_ok (T_virtualIP t) k p"
  shows "client_wf K X (t\<lparr> T_peers := mput k p (T_peers t) \<rparr>)"
  by (rule wf_peers[OF assms(1)]) (use client_wf_peers[OF assms(1)] assms(2) in \<open>auto split: if_splits\<close>)

lemma wf_filter_peers:
  assumes "client_wf K X t"
  shows "client_wf K X (t\<lparr> T_peers := filter (\<lambda>(k, p). P p) (T_peers t) \<rparr>)"
proof (rule wf_peers[OF assms])
  show "distinct (mkeys (filter (\<lambda>(k, p). P p) (T_peers t)))"
    using client_wf_peers(1)[OF assms] by (rule distinct_map_filter)
  fix k p assume "mget (filter (\<lambda>(k, p). P p) (T_peers t)) k = Some p"
  then have "mget (T_peers t) k = Some p"
    unfolding mget_filter[OF client_wf_peers(1)[OF assms]] by (auto split: option.splits if_splits)
  then show "peer_ok (T_virtualIP t) k p" by (rule client_wf_peers(2)[OF assms])
qed

lemma wf_launch: "client_wf K X t \<Longrightarrow> client_wf K X (launch p t)"
  by (simp add: launch_def wf_fields)

lemma punch_control: "client_wf K X t \<Longrightarrow> T_cachedPunchPacket t = Some p \<Longrightarrow> client_control K X p"
  by (simp add: client_wf_def session_wf_def punch_client_control)

lemma wf_burst: "client_wf K X t \<Longrightarrow> client_wf K X (snd (burstHolePunch a n t))"
  by (auto simp: burstHolePunch_def intro: wf_sendCtrl punch_control split: option.split)

lemma wf_punch_tick:
  assumes "client_wf K X t"
  shows "client_wf K X (punch_tick n t)"
proof -
  have "client_wf K X (snd (punch_step p t))" for p
    by (cases p) (use assms wf_burst[OF assms] in \<open>auto simp: Let_def case_prod_beta\<close>)
  then show ?thesis using assms by (auto simp: punch_tick_def Let_def case_prod_beta intro: wf_fields)
qed

lemma wf_relay_punches:
  "client_wf K X t \<Longrightarrow> client_wf K X (fold (\<lambda>i t. sendHolePunchRelay i (launch (Start i) t)) is t)"
proof (induction "is" arbitrary: t)
  case (Cons i "is")
  have "client_wf K X (sendHolePunchRelay i (launch (Start i) t))"
    using wf_launch[OF Cons.prems] by (auto simp: sendHolePunchRelay_def intro!: wf_sendCtrl client_control.punch To4_length split: option.split)
  then show ?case using Cons.IH by simp
qed simp

lemma wf_retry: "client_wf K X t \<Longrightarrow> client_wf K X (retryFailedHolePunches ev t)"
  by (simp add: retryFailedHolePunches_def Let_def wf_relay_punches)

lemma wf_punch_back:
  assumes "client_wf K X t" "mget (T_peers t) k = Some p"
  shows "client_wf K X (punch_back ev dir k p a t)"
proof -
  have "peer_ok (T_virtualIP t) k (snd (tryRateLimitHolePunch now b p))"
    "peer_ok (T_virtualIP t) k ((snd (tryRateLimitHolePunch now b p))\<lparr> P_DirectReach := True \<rparr>)" for now b
    using client_wf_peers(2)[OF assms] by (simp_all add: tryRateLimitHolePunch_def peer_ok_def)
  then show ?thesis using assms(1) by (simp add: punch_back_def Let_def case_prod_beta wf_launch wf_mput)
qed

lemma wf_handleHolePunchReceived: "client_wf K X t \<Longrightarrow> client_wf K X (handleHolePunchReceived ev p t)"
  by (simp add: handleHolePunchReceived_def Let_def wf_punch_back split: option.split)

lemma wf_handleDirectHolePunch: "client_wf K X t \<Longrightarrow> client_wf K X (handleDirectHolePunch ev from m t)"
  by (simp add: handleDirectHolePunch_def Let_def wf_punch_back split: option.split)

text \<open>A peer list of any content.\<close>

lemma UnmarshalPeerInfo_ips:
  assumes "UnmarshalPeerInfo payload = Ok info" "e \<in> set info"
  shows "length (PE_VirtualIP e) = 4"
proof -
  have u: "\<forall>e\<in>set ps. length (PE_VirtualIP e) = 4" if "unmarshal_peers n d off = Ok (ps, off')" for n d off ps off'
    using that
    by (induction n arbitrary: off ps off') (auto simp: guard_err_def bind_res_Ok_iff Let_def slice_def split: if_splits prod.splits)
  obtain n ps off nats where "unmarshal_peers n payload 2 = Ok (ps, off)" "info = set_nat_types ps nats"
    using assms(1) by (auto simp: UnmarshalPeerInfo_def guard_err_def bind_res_Ok_iff Let_def split: if_splits prod.splits)
  then show ?thesis using u assms(2)
    by (auto simp: set_nat_types_def dest!: set_zip_leftD in_set_takeD in_set_dropD)
qed

definition entry_inv :: "ip \<Rightarrow> (ipkey \<times> Peer) list \<Rightarrow> bool" where
  "entry_inv self ps \<longleftrightarrow> distinct (mkeys ps) \<and> (\<forall>k p. mget ps k = Some p \<longrightarrow> peer_ok self k (p\<lparr> P_stale := False \<rparr>))"

lemma entries_keep:
  assumes "entry_inv self ps" "\<forall>e\<in>set info. length (PE_VirtualIP e) = 4" "self = [] \<or> length self = 4"
  shows "entry_inv self (fst (fold (peer_entry_step now self) info (ps, new, ch)))"
  using assms(1,2)
proof (induction info arbitrary: ps new ch)
  case (Cons e info)
  obtain ps1 n1 c1 where s: "peer_entry_step now self e (ps, new, ch) = (ps1, n1, c1)"
    by (cases "peer_entry_step now self e (ps, new, ch)") auto
  have l: "length (PE_VirtualIP e) = 4" using Cons.prems(2) by simp
  have "ip_equal (PE_VirtualIP e) self \<longleftrightarrow> PE_VirtualIP e = self" using l assms(3) by (auto simp: ip_equal_def)
  then have "peer_ok self (IPKey (PE_VirtualIP e)) (entry_peer now (mget ps (IPKey (PE_VirtualIP e))) e)"
    if "\<not> ip_equal (PE_VirtualIP e) self"
    using that l Cons.prems(1)
    by (auto simp: entry_peer_def entry_inv_def peer_ok_def new_peer_def peer_update_def Let_def split: option.split)
  then have "entry_inv self ps1"
    using peer_entry_step_map[of now self e ps new ch] s Cons.prems(1)
    by (auto simp: entry_inv_def peer_ok_def split: if_splits)
  then show ?case using Cons.IH[of ps1 n1 c1] Cons.prems(2) s by simp
qed simp

lemma wf_handlePeerInfo:
  assumes "client_wf K X t"
  shows "client_wf K X (handlePeerInfo ev payload t)"
proof (cases "UnmarshalPeerInfo payload")
  case (Ok info)
  define marked where "marked = map (\<lambda>(k, p). (k, p\<lparr> P_stale := True \<rparr>)) (T_peers t)"
  obtain ps new ch where f: "fold (peer_entry_step (N_now ev) (T_virtualIP t)) info (marked, [], []) = (ps, new, ch)"
    by (cases "fold (peer_entry_step (N_now ev) (T_virtualIP t)) info (marked, [], [])") auto
  have m: "entry_inv (T_virtualIP t) marked"
    using client_wf_peers[OF assms]
    by (auto simp: entry_inv_def marked_def mget_map_snd peer_ok_def comp_def case_prod_beta)
  have v: "T_virtualIP t = [] \<or> length (T_virtualIP t) = 4"
    using client_wf_session(1)[OF assms] by (auto simp: session_ok_def)
  have i: "entry_inv (T_virtualIP t) ps"
    using entries_keep[OF m _ v, of info "N_now ev" "[]" "[]"] UnmarshalPeerInfo_ips[OF Ok] f by auto
  have "client_wf K X (t\<lparr> T_peers := filter (\<lambda>(k, p). \<not> P_stale p) ps \<rparr>)"
  proof (rule wf_peers[OF assms])
    show "distinct (mkeys (filter (\<lambda>(k, p). \<not> P_stale p) ps))"
      using i by (simp add: entry_inv_def distinct_map_filter)
    have d: "distinct (mkeys ps)" using i by (simp add: entry_inv_def)
    fix k p assume "mget (filter (\<lambda>(k, p). \<not> P_stale p) ps) k = Some p"
    then have "mget ps k = Some p" "\<not> P_stale p" unfolding mget_filter[OF d] by (auto split: option.splits if_splits)
    then show "peer_ok (T_virtualIP t) k p" using i by (auto simp: entry_inv_def peer_ok_def)
  qed
  then show ?thesis using f by (simp add: handlePeerInfo_def Ok wf_relay_punches flip: marked_def)
qed (simp_all add: handlePeerInfo_def assms)

text \<open>Packets from the network.\<close>

lemma wf_device:
  assumes "client_wf K X t" "T_tunDev t \<noteq> None"
  shows "client_wf K X (t\<lparr> T_tunDev := Some d \<rparr>)"
  by (rule client_wf_same[OF assms(1)]) (use client_wf_chans[OF assms(1)] assms(2) in \<open>simp_all add: same_session_def outs_def\<close>)

lemma wf_tun_write: "client_wf K X t \<Longrightarrow> client_wf K X (tun_write ev d t)"
  by (simp add: tun_write_def wf_device split: option.split)

lemma DecryptInto_keeps:
  "C_aead (snd (DecryptInto dst d c)) = C_aead c" "C_dirTag (snd (DecryptInto dst d c)) = C_dirTag c"
  by (simp_all add: DecryptInto_def checkReplayWindow_def Let_def split: option.split)

lemma wf_decryptWrite:
  assumes "client_wf K X t"
  shows "client_wf K X (decryptWriteAndRelease ev dp t)"
proof -
  have "client_wf K X (t\<lparr> T_p2pCipher := Some (snd (DecryptInto [] d c)) \<rparr>)" if "T_p2pCipher t = Some c" for c d
    by (rule wf_cipher[OF assms that]) (simp_all add: DecryptInto_keeps)
  then show ?thesis using assms
    by (auto simp: decryptWriteAndRelease_def Let_def case_prod_beta intro: wf_tun_write split: option.split sum.split)
qed

lemma wf_handle_kick: "client_wf K X t \<Longrightarrow> client_wf K X (handle_kick p t)"
  by (auto simp: handle_kick_def Let_def intro: wf_fields split: res.split)

lemma wf_acks:
  assumes "client_wf K X t" "length a \<le> Suc 0"
  shows "client_wf K X (t\<lparr> T_rebindAckCh := a \<rparr>)"
  by (rule client_wf_same[OF assms(1)]) (use client_wf_chans[OF assms(1)] assms(2) in \<open>simp_all add: same_session_def outs_def\<close>)

lemma wf_handle_rebind_ack: "client_wf K X t \<Longrightarrow> client_wf K X (handle_rebind_ack p t)"
  by (simp add: handle_rebind_ack_def wf_acks split: res.split)

lemma wf_handleServerData:
  assumes "client_wf K X t" "MsgType msg = TypePing \<Longrightarrow> Net (MsgPayload msg) \<in> X"
  shows "client_wf K X (handleServerData ev msg t)"
proof -
  have m: "client_wf K X (markServerResponse ev t)" using assms by (simp add: markServerResponse_def wf_fields)
  have "client_wf K X (sendCtrl (EncodeChecked TypePong (MsgPayload msg)) a (markServerResponse ev t))" if "MsgType msg = TypePing" for a
    using wf_sendCtrl[OF m client_control.pong[OF assms(2)[OF that]]] .
  then show ?thesis using m
    by (simp add: handleServerData_def Let_def handleDataFromServer_def wf_handlePeerInfo wf_decryptWrite
        wf_handleHolePunchReceived wf_handle_rebind_ack wf_handle_kick split: res.split)
qed

lemma wf_handleDirectData:
  assumes "client_wf K X t"
  shows "client_wf K X (handleDirectData ev from msg t)"
proof -
  have "client_wf K X (t\<lparr> T_peers := mput k (p\<lparr> P_DirectReach := True \<rparr>) (T_peers t) \<rparr>)" if "mget (T_peers t) k = Some p" for k p
    by (rule wf_mput[OF assms]) (use client_wf_peers(2)[OF assms that] in \<open>simp add: peer_ok_def\<close>)
  then show ?thesis using assms
    by (simp add: handleDirectData_def Let_def wf_handleDirectHolePunch wf_decryptWrite split: res.split option.split)
qed

lemma wf_receive_packet:
  assumes "client_wf K X t" "Net ` pings_in (Recv ev sa from d) \<subseteq> X"
  shows "client_wf K X (receive_packet ev sa from (take readBufSize d) t)"
proof -
  have "Net (MsgPayload m) \<in> X" if "(if T_decAvailable t then Decode (take readBufSize d) else DecodeChecked (take readBufSize d)) = Ok m"
      "MsgType m = TypePing" for m
    using that assms(2) by (auto split: if_splits)
  then show ?thesis using assms(1) unfolding receive_packet_def
    by (cases "if T_decAvailable t then Decode (take readBufSize d) else DecodeChecked (take readBufSize d)")
       (auto intro: wf_handleServerData wf_handleDirectData wf_note_error)
qed

text \<open>Timers.\<close>

lemma wf_p2p_keepalives:
  assumes "client_wf K X t"
  shows "client_wf K X (sendP2PKeepalives ev t)"
proof -
  have "client_wf K X (fold (\<lambda>a. sendCtrl p (Some a)) as t)" if "client_control K X p" for p as
    using assms that by (induction as arbitrary: t) (simp_all add: wf_sendCtrl)
  then show ?thesis using assms punch_control[OF assms] by (simp add: sendP2PKeepalives_def Let_def split: option.split)
qed

lemma wf_rebind_request:
  assumes "client_wf K X t"
  shows "client_wf K X (snd (rebind_request t))"
proof (cases "T_virtualIP t = []")
  case False
  have k: "K_pass K = T_roomPass t" "K_room K = T_roomID t" "K_user K = T_username t"
    using assms by (simp_all add: client_wf_def session_wf_def)
  have "length (T_virtualIP t) = 4" using client_wf_session(1)[OF assms False] by (simp add: session_ok_def)
  from client_control.rebind[OF this, of K X] have "client_wf K X (sendCtrl (EncodeChecked TypeRebind (Rebind_Marshal
      \<lparr> Rb_VirtualIP = T_virtualIP t, Rb_HMAC = (if T_roomPass t \<noteq> [] then
          ComputeHMAC (DeriveKey (T_roomPass t) (T_roomID t)) [] (T_roomID t) (T_username t)
            (Some \<lparr> UDP_IP = T_virtualIP t, UDP_Port = 0 \<rparr>) else []) \<rparr>)) a t)" for a
    unfolding k by (rule wf_sendCtrl[OF assms])
  then show ?thesis using False by (simp only: rebind_request_def Let_def if_False snd_conv) (rule wf_acks, simp_all)
qed (simp add: rebind_request_def assms)

lemma wf_keepalive:
  assumes "client_wf K X t"
  shows "client_wf K X (snd (cl_keepalive_tick ev t))"
proof -
  define u where "u = sendCtrl (EncodeChecked TypeKeepAlive [case T_probeResult t of Some r \<Rightarrow> PR_Type r | None \<Rightarrow> 0]) (T_serverAddr t) t"
  have u: "client_wf K X u" using assms by (simp add: u_def wf_sendCtrl)
  have "client_wf K X (snd (rebind_request u))" by (rule wf_rebind_request[OF u])
  then show ?thesis using u by (simp add: cl_keepalive_tick_def Let_def case_prod_beta flip: u_def)
qed

lemma wf_rebind_result: "client_wf K X t \<Longrightarrow> client_wf K X (snd (rebind_result ev t))"
  by (simp add: rebind_result_def Let_def markServerResponse_def wf_fields wf_acks split: list.split)

text \<open>Connecting.\<close>

lemma init_ciphers_made:
  assumes "init_ciphers ev t = Inr cs"
  shows "cs = None \<longleftrightarrow> T_roomPass t = []"
    "cs = Some (c1, c2, c3) \<Longrightarrow> N_newAead ev (DeriveKey (T_roomPass t) (T_roomID t)) = Some (C_aead c3) \<and> C_dirTag c3 = DirClientToClient"
  using assms by (auto simp: init_ciphers_def Let_def NewCipher_def initCounter_def split: if_splits sum.splits option.splits)

lemma accept_punch:
  assumes "length (Asg_VirtualIP a) = 4" "T_cachedPunchPacket (accept_assign a cs t) = Some p"
  shows "punch_packet p"
  using assms To4_4[OF assms(1)] by (auto simp: accept_assign_def punch_packet_def)

lemma session_accept:
  assumes "UnmarshalAssignIP payload = Ok a" "init_ciphers ev t = Inr cs" "session_wf K t" "N_newAead ev = K_aead K"
  shows "session_wf K (accept_assign a cs t)"
proof -
  note l = UnmarshalAssignIP_lengths[OF assms(1)]
  have v: "Asg_VirtualIP a \<noteq> []" using l(1) by auto
  have o: "session_ok (accept_assign a cs t)" using l by (simp add: session_ok_def accept_assign_def assign_subnet_def)
  have n: "cs = None \<longleftrightarrow> T_roomPass t = []" by (rule init_ciphers_made(1)[OF assms(2)])
  have c: "N_newAead ev (DeriveKey (T_roomPass t) (T_roomID t)) = Some (C_aead c) \<and> C_dirTag c = DirClientToClient"
    if "map_option (snd \<circ> snd) cs = Some c" for c
    using that init_ciphers_made(2)[OF assms(2)] by auto
  show ?thesis
    using o v n c l accept_punch[OF l(1), of cs t] assms(3,4) unfolding session_wf_def by (simp add: accept_assign_def)
qed

lemma wf_handleAssignIP:
  assumes "client_wf K X t" "N_newAead ev = K_aead K"
  shows "client_wf K X (snd (handleAssignIP ev payload t))"
proof -
  have "client_wf K X (accept_assign a cs t)" if a: "UnmarshalAssignIP payload = Ok a" "init_ciphers ev t = Inr cs" for a cs
  proof -
    have w: "chan_wf t" "jobs_wf X t" "outs_wf K X t" "session_wf K t" using assms(1) by (simp_all add: client_wf_def)
    have "session_wf K (accept_assign a cs t)" using session_accept[OF a w(4) assms(2)] .
    moreover have "chan_wf (accept_assign a cs t)" "jobs_wf X (accept_assign a cs t)"
      using w chan_wf_cong[of "accept_assign a cs t" t] jobs_wf_cong[of "accept_assign a cs t" t] by (simp_all add: accept_assign_def)
    moreover have "peers_wf (accept_assign a cs t)" by (simp add: peers_wf_def accept_assign_def)
    moreover have "outs_wf K X (accept_assign a cs t)" using w(3) by (simp add: outs_wf_def outs_def accept_assign_def)
    ultimately show ?thesis by (simp add: client_wf_def)
  qed
  then show ?thesis using assms(1) by (simp add: handleAssignIP_def split: res.split sum.split)
qed

lemma wf_write_control: "client_wf K X t \<Longrightarrow> client_control K X d \<Longrightarrow> client_wf K X (cl_writeUDP ev (d, a) t)"
  by (simp add: wf_cl_writeUDP control_emitted)

lemma auth_reply_control:
  assumes "client_wf K X t"
  shows "client_control K X (auth_reply ev acp t)"
proof -
  have k: "K_pass K = T_roomPass t" "K_room K = T_roomID t" "K_user K = T_username t"
    using assms by (simp_all add: client_wf_def session_wf_def)
  show ?thesis using client_control.answer[of K X] unfolding auth_reply_def Let_def k by simp
qed

lemma wf_handleAuthChallenge: "client_wf K X t \<Longrightarrow> client_wf K X (snd (handleAuthChallenge ev udp p t))"
  by (simp add: handleAuthChallenge_def Let_def case_prod_beta wf_write_control auth_reply_control wf_fields split: res.split option.split)

lemma wf_handleRegResponse:
  assumes "client_wf K X t" "N_newAead ev = K_aead K"
  shows "client_wf K X (snd (snd (handleRegResponse ev udp msg rounds t)))"
  using wf_handleAssignIP[OF assms, of "MsgPayload msg"] wf_handleAuthChallenge[OF assms(1), of ev udp "MsgPayload msg"] assms(1)
  by (auto simp: handleRegResponse_def split: prod.split option.split)

lemma wf_register_loop:
  "client_wf K X t \<Longrightarrow> client_control K X packet \<Longrightarrow> list_all (\<lambda>(e, r). N_newAead e = K_aead K) rs \<Longrightarrow>
   client_wf K X (snd (register_loop packet retries rounds rs t))"
proof (induction packet retries rounds rs t rule: register_loop.induct)
  case (2 packet retries rounds ev r rs t)
  have w: "client_wf K X (cl_writeUDP ev (packet, T_serverAddr t) t)"
    using 2(3,4) by (rule wf_write_control)
  have h: "client_wf K X (snd (snd (handleRegResponse ev True msg rounds t)))" for msg
    using wf_handleRegResponse[of K X t ev True msg rounds] 2(3,5) by simp
  show ?case
  proof (cases r)
    case ReadTimeout
    then show ?thesis using 2(1)[OF ReadTimeout _ w 2(4)] 2(3,5) by simp
  next
    case (Datagram d)
    show ?thesis
    proof (cases "DecodeChecked (take 1500 d)")
      case (Ok msg)
      obtain st r1 t1 where s: "handleRegResponse ev True msg rounds t = (st, r1, t1)" by (metis prod_cases3)
      then have "client_wf K X t1" using h[of msg] by simp
      then show ?thesis using 2(2)[OF Datagram Ok s[symmetric] refl] 2(4,5) s by (cases st) (simp_all add: Datagram Ok)
    qed (simp_all add: Datagram 2)
  qed (simp_all add: 2)
qed simp

lemma wf_registerTCP_loop:
  "client_wf K X t \<Longrightarrow> list_all (\<lambda>(e, c, r). N_newAead e = K_aead K) rs \<Longrightarrow>
   client_wf K X (snd (registerTCP_loop rounds rs t))"
proof (induction rounds rs t rule: registerTCP_loop.induct)
  case (2 rounds ev c r rs t)
  have h: "client_wf K X (snd (snd (handleRegResponse ev False msg rounds t)))" for msg
    using wf_handleRegResponse[of K X t ev False msg rounds] 2(4,5) by simp
  show ?case
  proof (cases r)
    case (Inr d)
    show ?thesis
    proof (cases "DecodeChecked d")
      case (Ok msg)
      obtain st r1 t1 where s: "handleRegResponse ev False msg rounds t = (st, r1, t1)" by (metis prod_cases3)
      then have "client_wf K X t1" using h[of msg] by simp
      then show ?thesis using 2(1)[OF Inr Ok s[symmetric] refl] 2(5) s by (cases st) (simp_all add: Inr Ok)
    qed (use 2 in \<open>simp_all add: Inr\<close>)
  qed (simp add: 2)
qed simp

lemma register_packet_control:
  assumes "client_wf K X t"
  shows "client_control K X (register_packet t)"
proof -
  have "K_room K = T_roomID t" "K_user K = T_username t" using assms by (simp_all add: client_wf_def session_wf_def)
  then show ?thesis using client_control.register[of K X] by (simp add: register_packet_def)
qed

lemma wf_registerWithFallback:
  assumes "client_wf K X t" "list_all (\<lambda>(e, r). N_newAead e = K_aead K) (CI_udp ci)" "list_all (\<lambda>(e, c, r). N_newAead e = K_aead K) (CI_tcp ci)"
  shows "client_wf K X (snd (registerWithFallback ev ci t))"
proof -
  have r: "client_wf K X (snd (register ev (CI_udp ci) t))"
    unfolding register_def by (rule wf_register_loop) (use assms in \<open>simp_all add: wf_write_control register_packet_control\<close>)
  have tcp: "client_wf K X (snd (registerTCP ev (CI_tcp ci) u))" if "client_wf K X u" for u
    using that assms(3) by (simp add: registerTCP_def Let_def case_prod_beta wf_fields wf_registerTCP_loop split: option.split)
  obtain st t1 where s: "register ev (CI_udp ci) t = (st, t1)" by force
  have t1: "client_wf K X t1" using r s by simp
  show ?thesis
  proof (cases st)
    case (Failed e)
    show ?thesis
    proof (cases "CI_dial ci")
      case (Some c)
      obtain st2 t2 where s2: "registerTCP ev (CI_tcp ci) (t1\<lparr> T_tcpTransport := Some c \<rparr>) = (st2, t2)" by force
      have "client_wf K X t2" using tcp[of "t1\<lparr> T_tcpTransport := Some c \<rparr>"] t1 s2 by (simp add: wf_fields)
      then show ?thesis using s s2 by (cases st2) (simp_all add: registerWithFallback_def Failed Some wf_fields)
    qed (use s t1 in \<open>simp add: registerWithFallback_def Failed wf_fields\<close>)
  qed (use s t1 in \<open>simp_all add: registerWithFallback_def\<close>)
qed

text \<open>A client is only registered with an address.\<close>

lemma handleRegResponse_address:
  assumes "handleRegResponse ev udp msg rounds t = (Registered, r1, t1)"
  shows "T_virtualIP t1 \<noteq> []"
proof -
  have "handleAssignIP ev (MsgPayload msg) t = (None, t1)"
    using assms by (auto simp: handleRegResponse_def split: if_splits prod.splits option.splits)
  from handleAssignIP_session[OF this] show ?thesis by (auto simp: session_ok_def)
qed

lemma register_loop_address:
  "register_loop packet retries rounds rs t = (Registered, t1) \<Longrightarrow> T_virtualIP t1 \<noteq> []"
  by (induction packet retries rounds rs t rule: register_loop.induct)
     (auto simp: Let_def dest: handleRegResponse_address split: reg_read.splits res.splits reg_status.splits prod.splits if_splits)

lemma registerTCP_loop_address:
  "registerTCP_loop rounds rs t = (Registered, t1) \<Longrightarrow> T_virtualIP t1 \<noteq> []"
  by (induction rounds rs t rule: registerTCP_loop.induct)
     (auto simp: Let_def dest: handleRegResponse_address split: sum.splits res.splits reg_status.splits prod.splits)

lemma registerWithFallback_address:
  assumes "registerWithFallback ev ci t = (Registered, t1)"
  shows "T_virtualIP t1 \<noteq> []"
  using assms
  by (auto simp: registerWithFallback_def register_def registerTCP_def Let_def
      dest: register_loop_address registerTCP_loop_address split: prod.splits reg_status.splits option.splits)

lemma wf_new_device:
  assumes "client_wf K X t" "T_virtualIP t \<noteq> []"
  shows "client_wf K X (t\<lparr> T_tunDev := Some d \<rparr>)"
proof -
  define t' where "t' = t\<lparr> T_tunDev := Some d \<rparr>"
  have w: "chan_wf t" "peers_wf t" "session_wf K t" "jobs_wf X t" "outs_wf K X t" using assms(1) by (simp_all add: client_wf_def)
  have "session_ok t' = session_ok t" by (rule session_ok_cong) (simp_all add: t'_def)
  then have "session_wf K t'" using w(3) assms(2) unfolding session_wf_def t'_def by (elim conjE) simp
  moreover have "chan_wf t'" "peers_wf t'" "jobs_wf X t'"
    using w chan_wf_cong[of t' t] peers_wf_cong[of t' t] jobs_wf_cong[of t' t] by (simp_all add: t'_def)
  moreover have "outs_wf K X t'" using w(5) by (simp add: outs_wf_def outs_def t'_def)
  ultimately show ?thesis by (simp add: client_wf_def t'_def)
qed

lemma wf_createTUN:
  "client_wf K X t \<Longrightarrow> T_virtualIP t \<noteq> [] \<Longrightarrow> client_wf K X (snd (createTUN f mtu t))"
  by (simp add: createTUN_def wf_fields wf_new_device split: option.split)

lemma wf_ensureTUN:
  assumes "client_wf K X t" "T_virtualIP t \<noteq> []"
  shows "client_wf K X (snd (ensureTUN f mtu t))"
  using assms by (simp add: ensureTUN_def Let_def wf_createTUN wf_new_device split: option.split)

lemma wf_Connect:
  assumes "client_wf K X t" "made_with (K_aead K) (ConnectTo ev ci a mtu f)"
  shows "client_wf K X (snd (Connect ev ci a mtu f t))"
proof (cases "N_resolve ev a")
  case (Some sa)
  obtain e t1 where d: "dialServer (CI_bindOK ci) sa (t\<lparr> T_disconnected := False, T_punches := [] \<rparr>) = (e, t1)" by force
  then have t1: "client_wf K X t1" using assms(1) by (auto simp: dialServer_def Let_def wf_fields split: if_splits)
  obtain st t2 where r: "registerWithFallback ev ci t1 = (st, t2)" by force
  have t2: "client_wf K X t2" using wf_registerWithFallback[OF t1, of ci ev] assms(2) r by simp
  define u where "u = probeNATAsync t2"
  have u: "client_wf K X u" using t2 by (simp add: u_def probeNATAsync_def wf_fields)
  obtain e2 t3 where n: "ensureTUN f mtu u = (e2, t3)" by force
  have "client_wf K X t3" if "st = Registered"
  proof -
    have "T_virtualIP u \<noteq> []" using registerWithFallback_address[of ev ci t1 t2] r that by (simp add: u_def probeNATAsync_def)
    from wf_ensureTUN[OF u this, of f mtu] show ?thesis using n by simp
  qed
  then show ?thesis using d r n t1 t2
    by (cases e; cases st; cases e2) (simp_all add: Connect_def Some wf_fields flip: u_def)
qed (simp add: Connect_def assms)

lemma wf_Disconnect:
  assumes "client_wf K X t"
  shows "client_wf K X (Disconnect ev t)"
  using assms by (simp add: Disconnect_def Let_def wf_fields wf_write_control)

lemma wf_CloseTUN:
  assumes "client_wf K X t"
  shows "client_wf K X (CloseTUN t)"
proof -
  have "client_wf K X (t\<lparr> T_tunDev := map_option (\<lambda>d. d\<lparr> Dev_closed := True \<rparr>) (T_tunDev t) \<rparr>)"
    by (rule client_wf_same[OF assms]) (use client_wf_chans[OF assms] in \<open>simp_all add: same_session_def outs_def\<close>)
  then show ?thesis using assms unfolding CloseTUN_def
    by (auto intro: client_wf_same simp: same_session_def outs_def client_wf_chans[OF assms])
qed

lemma wf_probe_finish: "client_wf K X t \<Longrightarrow> client_wf K X (probe_finish r t)"
  by (simp add: probe_finish_def Let_def wf_fields split: res.split)

lemma client_do_keeps:
  assumes "client_wf K X t" "made_with (K_aead K) e"
  shows "\<exists>t'. client_do e t = Ok t' \<and> client_wf K (X \<union> seen e) t'"
proof -
  have w: "client_wf K (X \<union> seen e) t" by (rule client_wf_mono[OF assms(1)]) blast
  show ?thesis
  proof (cases e)
    case (TunBatch ps)
    then show ?thesis using wf_tun_batch[of K "X \<union> seen e" t ps] w by (simp add: seen_def le_supI1 sup.coboundedI2)
  next
    case (TunSingle p)
    then show ?thesis using wf_tun_single[of K "X \<union> seen e" t p] w by (simp add: seen_def le_supI1 sup.coboundedI2)
  next
    case (Recv ev sa fr d)
    then show ?thesis using wf_receive_packet[OF w, of ev sa fr d] by (simp add: seen_def le_supI1 sup.coboundedI2)
  qed (use assms(2) wf_tunWorker[OF w] wf_Connect[OF w] w in \<open>auto simp: peerDiscovery_tick_def cleanStalePeers_def intro:
       wf_sendLoop_ctrl wf_sendLoop_data wf_sendLoop_stop wf_punch_tick wf_retry wf_filter_peers wf_sendCtrl wf_p2p_keepalives
       wf_keepalive wf_rebind_result wf_Disconnect wf_CloseTUN wf_probe_finish\<close>)
qed

section \<open>Runs of the client\<close>

definition read_from_tun :: "cevent list \<Rightarrow> bytes set" where
  "read_from_tun es = (\<Union>e\<in>set es. tun_in e)"

definition pings_received :: "cevent list \<Rightarrow> bytes set" where
  "pings_received es = (\<Union>e\<in>set es. pings_in e)"

definition seen_in :: "cevent list \<Rightarrow> source set" where
  "seen_in es = Dev ` read_from_tun es \<union> Net ` pings_received es"

lemma seen_in_snoc: "seen_in (es @ [e]) = seen_in es \<union> seen e"
  by (auto simp: seen_in_def seen_def read_from_tun_def pings_received_def)

interpretation client: safe_machine client_do "made_with (K_aead K)" "\<lambda>es t. client_wf K (seen_in es) t"
  by unfold_locales (simp only: seen_in_snoc client_do_keeps)

definition config_key :: "(bytes \<Rightarrow> AEAD option) \<Rightarrow> ClientConfig \<Rightarrow> room_key" where
  "config_key mk cfg = \<lparr> K_aead = mk, K_pass = CC_RoomPassword cfg, K_room = CC_RoomID cfg, K_user = CC_PlayerName cfg \<rparr>"

lemma client_wf_New: "client_wf (config_key mk cfg) {} (New ev cfg)"
proof -
  have "session_wf (config_key mk cfg) (New ev cfg)" by (simp add: session_wf_def New_def config_key_def)
  then show ?thesis by (simp add: client_wf_def chan_wf_def peers_wf_def jobs_wf_def outs_wf_def outs_def New_def)
qed

lemma client_runs:
  assumes "list_all (made_with mk) es"
  obtains t where "run_events client_do es (New ev cfg) = Ok t" "client_wf (config_key mk cfg) (seen_in es) t"
  using client.run_keeps[of "config_key mk cfg" "[]" "New ev cfg" es] client_wf_New[of mk cfg ev] assms
  by (auto simp: seen_in_def read_from_tun_def pings_received_def config_key_def)

lemma Decode_control: "control d \<Longrightarrow> Decode d = Ok msg \<Longrightarrow> MsgType msg \<noteq> TypeData"
  by (auto simp: control_def EncodeChecked_def Encode_def Decode_def Let_def guard_err_def bind_res_Ok_iff slice_def idx_def split: if_splits)

text \<open>
  C5: The client never panics and keeps its state consistent, whatever happens: after every sequence of
  events (datagrams of any content from any address, packets from the device, passes of the
  goroutines, timers, connection attempts with any answers, leaving) the four channels are within
  their capacities; the peer table has no duplicates, no stale entries and not the client itself,
  each peer under the key of its own four-byte address; and the session is consistent: once the
  client has an address it has a server key, a subnet and a token, and the cipher under the key
  of the room exactly when the room has a password.
\<close>

theorem client_run_safe:
  assumes "list_all (made_with mk) es"
  shows "\<exists>t. run_events client_do es (New ev cfg) = Ok t \<and> chan_wf t \<and> peers_wf t \<and> session_wf (config_key mk cfg) t"
  using client_runs[OF assms, of ev cfg] by (auto simp: client_wf_def)

definition sample_events :: "cevent list" where
  "sample_events =
     [ConnectTo sample_cenv \<lparr> CI_bindOK = True, CI_udp = [(sample_cenv, Datagram [1, 2, 3])], CI_dial = None, CI_tcp = [] \<rparr>
        [49] 1400 None,
      Recv sample_cenv sample_addr sample_addr [1, 9], TunSingle [0x45], Work sample_cenv, SendData sample_cenv, Keep sample_cenv,
      Leave sample_cenv]"

theorem client_run_safe_witness:
  "\<exists>t. run_events client_do sample_events (New sample_cenv sample_conf) = Ok t \<and> chan_wf t \<and> peers_wf t \<and>
     session_wf (config_key (N_newAead sample_cenv) sample_conf) t"
  by (rule client_run_safe) (simp add: sample_events_def)


section \<open>A client that joins and sends a packet\<close>

definition example_asg :: AssignIPPayload where
  "example_asg = \<lparr> Asg_VirtualIP = [10, 10, 0, 2], Asg_SubnetMask = [255, 255, 255, 0],
     Asg_ServerIP = [10, 10, 0, 1], Asg_Version = AppVersion, Asg_SessionToken = replicate 16 7 \<rparr>"

definition join_input :: "CEnv \<Rightarrow> ConnInput" where
  "join_input ev = \<lparr> CI_bindOK = True, CI_udp = [(ev, Datagram (EncodeChecked TypeAssignIP (AssignIP_Marshal example_asg)))],
     CI_dial = None, CI_tcp = [] \<rparr>"

definition join_event :: "CEnv \<Rightarrow> cevent" where
  "join_event ev = ConnectTo ev (join_input ev) [49] 1400 (Some (\<lambda>_. Some sample_dev))"

definition joined :: "CEnv \<Rightarrow> ClientConfig \<Rightarrow> Tunnel" where
  "joined ev cfg = snd (Connect ev (join_input ev) [49] 1400 (Some (\<lambda>_. Some sample_dev)) (New ev cfg))"

definition online :: "CEnv \<Rightarrow> bool" where
  "online ev \<longleftrightarrow> N_writeOK ev \<and> N_resolve ev [49] = Some sample_addr"

lemma join_event_joins: "client_do (join_event ev) (New ev cfg) = Ok (joined ev cfg)"
  by (simp add: join_event_def joined_def)

lemma example_facts:
  "UnmarshalAssignIP (AssignIP_Marshal example_asg) = Ok example_asg"
  "length (EncodeChecked TypeAssignIP (AssignIP_Marshal example_asg)) \<le> 1500"
  "IsCompatible AppVersion (Asg_Version example_asg)" "IPNet_Contains (assign_subnet example_asg) (Asg_VirtualIP example_asg)"
  "IPNet_Contains (assign_subnet example_asg) (Asg_ServerIP example_asg)"
  "To4 (Asg_VirtualIP example_asg) \<noteq> None" "To4 (Asg_ServerIP example_asg) \<noteq> None"
proof -
  show "UnmarshalAssignIP (AssignIP_Marshal example_asg) = Ok example_asg"
    by (simp add: UnmarshalAssignIP_def AssignIP_Marshal_def example_asg_def unmarshal_simps)
  show "length (EncodeChecked TypeAssignIP (AssignIP_Marshal example_asg)) \<le> 1500"
    by (simp add: EncodeChecked_def Encode_def AssignIP_Marshal_def example_asg_def Let_def)
qed (code_simp+)

lemma init_ciphers_cong:
  "T_roomPass t' = T_roomPass t \<Longrightarrow> T_roomID t' = T_roomID t \<Longrightarrow> init_ciphers ev t' = init_ciphers ev t"
  by (simp add: init_ciphers_def)

lemma join_registers:
  assumes "init_ciphers ev t = Inr cs"
  shows "registerWithFallback ev (join_input ev) t =
    (Registered, accept_assign example_asg cs (cl_writeUDP ev (register_packet t, T_serverAddr t) t))"
proof -
  let ?d = "EncodeChecked TypeAssignIP (AssignIP_Marshal example_asg)"
  have "take 1500 ?d = ?d" using example_facts(2) by simp
  then have "DecodeChecked (take 1500 ?d) = Ok \<lparr> MsgType = TypeAssignIP, MsgPayload = AssignIP_Marshal example_asg \<rparr>"
    by (simp add: DecodeChecked_EncodeChecked)
  moreover have "init_ciphers ev (cl_writeUDP ev j t) = Inr cs" for j using init_ciphers_cong[of "cl_writeUDP ev j t" t ev] assms by simp
  ultimately show ?thesis
    using example_facts by (simp add: registerWithFallback_def register_def join_input_def handleRegResponse_def handleAssignIP_def)
qed

lemma joined_state:
  assumes "online ev" "init_ciphers ev (New ev cfg) = Inr cs"
  shows "T_tunDev (joined ev cfg) = Some sample_dev" "T_p2pCipher (joined ev cfg) = map_option (snd \<circ> snd) cs"
    "T_tunCh (joined ev cfg) = []" "T_sendCh (joined ev cfg) = []" "T_ctrlCh (joined ev cfg) = []" "T_sockOpen (joined ev cfg)"
    "T_serverAddr (joined ev cfg) \<noteq> None" "T_decAvailable (joined ev cfg) \<longleftrightarrow> cs \<noteq> None"
    "T_sendLimiter (joined ev cfg) = T_sendLimiter (New ev cfg)" "T_sessionToken (joined ev cfg) = replicate 16 7"
    "length (T_wire (joined ev cfg)) = 1" "T_peers (joined ev cfg) = []" "session_ok (joined ev cfg)"
proof -
  let ?t = "New ev cfg" and ?c = "joined ev cfg"
  obtain a where d: "dialServer True sample_addr (?t\<lparr> T_disconnected := False, T_punches := [] \<rparr>) =
      (None, ?t\<lparr> T_disconnected := False, T_punches := [], T_serverAddr := Some a, T_conn := True, T_sockOpen := True \<rparr>)"
    by (simp add: dialServer_def Let_def)
  define t1 where "t1 = ?t\<lparr> T_disconnected := False, T_punches := [], T_serverAddr := Some a, T_conn := True, T_sockOpen := True \<rparr>"
  define t2 where "t2 = accept_assign example_asg cs (t1\<lparr> T_wire := T_wire t1 @ [(register_packet t1, a)] \<rparr>)"
  have t1: "T_sockOpen t1" "T_serverAddr t1 = Some a" "T_tunDev t1 = None" "T_lastAssignedIP t1 = []"
      "T_tunCh t1 = []" "T_sendCh t1 = []" "T_ctrlCh t1 = []" "T_sendLimiter t1 = T_sendLimiter ?t" "T_wire t1 = []"
    by (simp_all add: t1_def New_def)
  have "init_ciphers ev t1 = Inr cs" using init_ciphers_cong[of t1 ?t ev] assms(2) by (simp add: t1_def)
  then have r: "registerWithFallback ev (join_input ev) t1 = (Registered, t2)"
    using join_registers t1(1,2) assms(1) by (simp add: t2_def cl_writeUDP_def online_def)
  have t2: "T_tunDev t2 = None" "T_lastAssignedIP t2 = []" "T_p2pCipher t2 = map_option (snd \<circ> snd) cs" "T_tunCh t2 = []" "T_sendCh t2 = []"
      "T_ctrlCh t2 = []" "T_sockOpen t2" "T_serverAddr t2 = Some a" "T_decAvailable t2 \<longleftrightarrow> cs \<noteq> None"
      "T_sendLimiter t2 = T_sendLimiter ?t" "T_sessionToken t2 = replicate 16 7" "length (T_wire t2) = 1" "T_peers t2 = []"
    using t1 by (simp_all add: t2_def accept_assign_def example_asg_def)
  have "T_tunDev (probeNATAsync t2) = None" "T_lastAssignedIP (probeNATAsync t2) = []" using t2(1,2) by (simp_all add: probeNATAsync_def)
  then have j: "?c = (probeNATAsync t2)\<lparr> T_tunDev := Some sample_dev, T_lastAssignedIP := T_virtualIP (probeNATAsync t2), T_lastMTU := 1400 \<rparr>"
    using d r assms(1) unfolding t1_def[symmetric] by (simp add: joined_def Connect_def ensureTUN_def createTUN_def online_def join_input_def)
  show "T_tunDev ?c = Some sample_dev" "T_p2pCipher ?c = map_option (snd \<circ> snd) cs" "T_tunCh ?c = []" "T_sendCh ?c = []" "T_ctrlCh ?c = []"
    "T_sockOpen ?c" "T_serverAddr ?c \<noteq> None" "T_decAvailable ?c \<longleftrightarrow> cs \<noteq> None" "T_sendLimiter ?c = T_sendLimiter ?t"
    "T_sessionToken ?c = replicate 16 7" "length (T_wire ?c) = 1" "T_peers ?c = []"
    unfolding j using t2 by (simp_all add: probeNATAsync_def)
  show "session_ok ?c"
    unfolding j by (simp add: session_ok_def t2_def accept_assign_def example_asg_def probeNATAsync_def assign_subnet_def)
qed

definition example_packet :: bytes where
  "example_packet = [0x45, 0, 0, 20] @ replicate 8 0 @ [10, 10, 0, 2, 10, 10, 0, 3]"

lemma example_packet_valid: "tun_valid example_packet"
  by code_simp

abbreviation first_datagram :: "CEnv \<Rightarrow> ClientConfig \<Rightarrow> bytes \<times> Cipher option" where
  "first_datagram ev cfg \<equiv> wire_packet (joined ev cfg) example_packet [10, 10, 0, 2] [10, 10, 0, 3]"

definition sender_state :: "CEnv \<Rightarrow> ClientConfig \<Rightarrow> clientSendLimiter \<Rightarrow> Tunnel" where
  "sender_state ev cfg l = (joined ev cfg)\<lparr> T_p2pCipher := snd (first_datagram ev cfg), T_sendLimiter := l,
     T_sendCh := [(fst (first_datagram ev cfg), T_serverAddr (joined ev cfg))] \<rparr>"

lemma joined_sends:
  assumes "online ev" "init_ciphers ev (New ev cfg) = Inr cs" "length (fst (first_datagram ev cfg)) \<le> 1000"
  obtains l where "tunWorker ev (tun_single_packet example_packet (joined ev cfg)) = Ok (sender_state ev cfg l)"
proof -
  let ?c = "joined ev cfg" and ?w = "first_datagram ev cfg"
  note st = joined_state[OF assms(1,2)]
  have "int (length (fst ?w)) \<le> L_tokens (T_sendLimiter ?c)"
    using assms(3) by (simp add: st(9) New_def newClientSendLimiter_def)
  then have "fst (limiter_allow (N_now ev) (int (length (fst ?w))) (T_sendLimiter ?c))" by (simp add: limiter_allow_def)
  then obtain l where l: "limiter_allow (N_now ev) (int (length (fst ?w))) (T_sendLimiter ?c) = (True, l)"
    by (cases "limiter_allow (N_now ev) (int (length (fst ?w))) (T_sendLimiter ?c)") simp
  have q: "tun_single_packet example_packet ?c = ?c\<lparr> T_tunCh := [\<lparr> J_data = example_packet, J_srcIP = [10, 10, 0, 2], J_dstIP = [10, 10, 0, 3] \<rparr>] \<rparr>"
    using example_packet_valid st(3)
    by (simp add: tun_single_packet_def tun_enqueue_def Let_def tunChanSize_def) (simp add: example_packet_def)
  have e: "?c\<lparr> T_tunCh := [] \<rparr> = ?c" using st(3) by simp
  have "routePacket ev example_packet [10, 10, 0, 2] [10, 10, 0, 3] ?c =
      Ok (sendUDP ev (fst ?w) (T_serverAddr ?c) (?c\<lparr> T_p2pCipher := snd ?w \<rparr>))"
    using route_eq[OF st(13), of "[10, 10, 0, 2]" "[10, 10, 0, 3]"] by (simp add: chosen_path_def st(12))
  then show ?thesis using l that[of l]
    by (simp add: tunWorker_def q e sendUDP_def st(4) sendChanSize_def sender_state_def)
qed

lemma sender_writes:
  assumes "online ev" "init_ciphers ev (New ev cfg) = Inr cs"
  shows "fst (first_datagram ev cfg) \<in> fst ` set (T_wire (sendLoop_data ev (sender_state ev cfg l)))"
proof -
  note st = joined_state[OF assms]
  obtain a where a: "T_serverAddr (joined ev cfg) = Some a" using st(7) by auto
  have "T_wire (sendLoop_data ev (sender_state ev cfg l)) = T_wire (joined ev cfg) @ [(fst (first_datagram ev cfg), a)]"
    using assms(1) st(5,6)
    by (simp add: sendLoop_data_def sender_state_def write_batch_def drainBatch_def Let_def cl_writeUDP_def a online_def)
  then show ?thesis by simp
qed

text \<open>A locked room with a cipher that inverts every byte.\<close>

definition invert_aead :: AEAD where
  "invert_aead = \<lparr> A_Seal = (\<lambda>n p. map (\<lambda>x. NOT x) p @ replicate 16 0),
     A_Open = (\<lambda>n c. if length c < 16 \<or> drop (length c - 16) c \<noteq> replicate 16 0 then None
                     else Some (map (\<lambda>x. NOT x) (take (length c - 16) c))) \<rparr>"

definition locked_cenv :: CEnv where
  "locked_cenv = sample_cenv\<lparr> N_resolve := (\<lambda>_. Some sample_addr), N_newAead := (\<lambda>_. Some invert_aead) \<rparr>"

definition locked_conf :: ClientConfig where
  "locked_conf = sample_conf\<lparr> CC_RoomPassword := lit ''secret'' \<rparr>"

definition locked_events :: "cevent list" where
  "locked_events = [join_event locked_cenv, TunSingle example_packet, Work locked_cenv, SendData locked_cenv]"

lemma locked_ciphers:
  "\<exists>c1 c2 c3. init_ciphers locked_cenv (New locked_cenv locked_conf) = Inr (Some (c1, c2, c3)) \<and> C_aead c3 = invert_aead \<and>
     length (C_dirTag c3) = 4"
  by (simp add: init_ciphers_def New_def locked_conf_def locked_cenv_def sample_cenv_def lit_def DeriveKey_def hkdf32_def
      NewCipher_def initCounter_def DirClientToClient_def)

text \<open>The run puts one encrypted packet on the wire.\<close>

lemma locked_run:
  "\<exists>t d. run_events client_do locked_events (New locked_cenv locked_conf) = Ok t \<and> d \<in> fst ` set (T_wire t) \<and>
     Decode d = Ok \<lparr> MsgType = TypeData, MsgPayload = drop 2 d \<rparr>"
proof -
  obtain c1 c2 c3 where cs: "init_ciphers locked_cenv (New locked_cenv locked_conf) = Inr (Some (c1, c2, c3))"
      "C_aead c3 = invert_aead" "length (C_dirTag c3) = 4"
    using locked_ciphers by blast
  have on: "online locked_cenv" by (simp add: online_def locked_cenv_def sample_cenv_def)
  note st = joined_state[OF on cs(1)]
  let ?d = "fst (first_datagram locked_cenv locked_conf)"
  have tok: "length (route_token (joined locked_cenv locked_conf)) = 16" by (simp add: length_route_token st(10))
  obtain y where d: "?d = Encode TypeData (Data_Marshal (data_msg [10, 10, 0, 2] [10, 10, 0, 3]
      (route_token (joined locked_cenv locked_conf)) y))" "length y = 49"
    by (simp add: wire_packet_def st(2) Encrypt_def makeNonce_def Let_def cs(2,3) invert_aead_def example_packet_def)
  then have "length ?d \<le> 1000" using tok by (simp add: Encode_def Data_Marshal_def data_msg_def)
  then obtain l where l: "tunWorker locked_cenv (tun_single_packet example_packet (joined locked_cenv locked_conf)) =
      Ok (sender_state locked_cenv locked_conf l)"
    using joined_sends[OF on cs(1)] by blast
  have "run_events client_do locked_events (New locked_cenv locked_conf) =
      Ok (sendLoop_data locked_cenv (sender_state locked_cenv locked_conf l))"
    by (simp add: locked_events_def join_event_joins st(1) l)
  moreover have "Decode ?d = Ok \<lparr> MsgType = TypeData, MsgPayload = drop 2 ?d \<rparr>" unfolding d(1) Decode_Encode by (simp add: Encode_def)
  ultimately show ?thesis using sender_writes[OF on cs(1), of l] by blast
qed


end
