(* ===== verification/ServerOuts.thy ===== *)
theory ServerOuts
  imports ClientRun
begin

text \<open>
  What the server puts on the wire: along every step its queue holds and has written only
  control packets and data packets that it received itself, as they were received.
\<close>

section \<open>Rooms\<close>

text \<open>The cached peer list is a control packet; every packet taken on by the queue belongs to \<open>D\<close>.\<close>

definition cache_ok :: "Room \<Rightarrow> bool" where
  "cache_ok r \<longleftrightarrow> (\<forall>e. R_peerInfoEncoded r = Some e \<longrightarrow> control e)"

definition queue_in :: "bytes set \<Rightarrow> rateLimitedQueue \<Rightarrow> bool" where
  "queue_in D q \<longleftrightarrow> (\<forall>p \<in># taken_on q. fst p \<in> D)"

definition sends_in :: "bytes set \<Rightarrow> rst \<Rightarrow> bool" where
  "sends_in D st \<longleftrightarrow> cache_ok (fst st) \<and> queue_in D (snd st)"

named_theorems cache_simps \<open>operations that leave the cached peer list of a room alone\<close>

lemma cache_cong: "R_peerInfoEncoded r' = R_peerInfoEncoded r \<Longrightarrow> cache_ok r' = cache_ok r"
  by (simp add: cache_ok_def)

lemma cache_updates [cache_simps]:
  "R_peerInfoEncoded (upd_client c f r) = R_peerInfoEncoded r"
  "R_peerInfoEncoded (markIPUsed i r) = R_peerInfoEncoded r" "R_peerInfoEncoded (markIPFree i r) = R_peerInfoEncoded r"
  "R_peerInfoEncoded (decrementIPConnCount k r) = R_peerInfoEncoded r"
  "R_peerInfoEncoded (decrement_pending r) = R_peerInfoEncoded r" "R_peerInfoEncoded (markDirty r) = R_peerInfoEncoded r"
  "R_peerInfoEncoded (note_send env ok r) = R_peerInfoEncoded r"
  "R_peerInfoEncoded (snd (new_client cl r)) = R_peerInfoEncoded r"
  "R_peerInfoEncoded (snd (checkRegRate a r)) = R_peerInfoEncoded r"
  "R_peerInfoEncoded (snd (getAuthKey k r)) = R_peerInfoEncoded r"
  by (simp_all add: upd_client_def markIPUsed_def markIPFree_def decrementIPConnCount_def decrement_pending_def markDirty_def
      note_send_def logSendError_def new_client_def checkRegRate_def getAuthKey_def Let_def split: option.split prod.split)

lemma cache_updates2 [cache_simps]:
  "R_peerInfoEncoded (decrement_for cl r) = R_peerInfoEncoded r"
  by (simp add: decrement_for_def cache_updates split: option.split)

lemma cache_auth [cache_simps]:
  "R_peerInfoEncoded (drop_stale_pending k r) = R_peerInfoEncoded r"
  "R_peerInfoEncoded (cleanupPendingAuth k k' b c r) = R_peerInfoEncoded r"
  "R_peerInfoEncoded (take_pending k r) = R_peerInfoEncoded r"
  "R_peerInfoEncoded (rehome_pending b a c r) = R_peerInfoEncoded r"
  "R_peerInfoEncoded (mark_missed env kc r) = R_peerInfoEncoded r"
  by (simp_all add: drop_stale_pending_def cleanupPendingAuth_def take_pending_def rehome_pending_def mark_missed_def Let_def
      cache_updates cache_updates2 split: option.split)

lemma cache_fold: "(\<And>x r. R_peerInfoEncoded (f x r) = R_peerInfoEncoded r) \<Longrightarrow> R_peerInfoEncoded (fold f xs r) = R_peerInfoEncoded r"
  by (induction xs arbitrary: r) simp_all

lemma cache_join [cache_simps]:
  "R_peerInfoEncoded (snd (resolveRestoredClient env u i a r)) = R_peerInfoEncoded r"
  "R_peerInfoEncoded (snd (doRegisterClient env rg a r)) = R_peerInfoEncoded r"
  "R_peerInfoEncoded (snd (doSendAuthChallenge env rg a r)) = R_peerInfoEncoded r"
  "R_peerInfoEncoded (snd (relay_sender env p a r)) = R_peerInfoEncoded r"
  by (simp_all add: resolveRestoredClient_def doRegisterClient_def doSendAuthChallenge_def relay_sender_def tryMigrateAddrMap_def
      Let_def case_prod_beta cache_updates split: option.split)

section \<open>Sending\<close>

lemma queue_in_limiter [simp]: "queue_in D (q\<lparr> RLQ_limiter := l \<rparr>) = queue_in D q"
  by (simp add: queue_in_def)

lemma queue_in_rlq_send: "queue_in D q \<Longrightarrow> d \<in> D \<Longrightarrow> queue_in D (snd (rlq_send now d a pr q))"
  by (auto simp: queue_in_def taken_on_rlq_send)

lemma sends_room: "sends_in D (r, q) \<Longrightarrow> R_peerInfoEncoded r' = R_peerInfoEncoded r \<Longrightarrow> sends_in D (r', q)"
  by (simp add: sends_in_def cache_ok_def)

lemma sends_raw: "sends_in D st \<Longrightarrow> d \<in> D \<Longrightarrow> sends_in D (sendCheckedRaw env d a st)"
  using cache_cong[OF cache_updates(7)] queue_in_rlq_send by (auto simp: sends_in_def sendCheckedRaw_def case_prod_beta)

lemma sends_checked: "sends_in D st \<Longrightarrow> EncodeChecked ty p \<in> D \<Longrightarrow> sends_in D (sendChecked env ty p a st)"
  using cache_cong[OF cache_updates(7)] queue_in_rlq_send by (auto simp: sends_in_def sendChecked_def case_prod_beta)

lemma sends_bypass: "sends_in D st \<Longrightarrow> d \<in> D \<Longrightarrow> sends_in D (sendCheckedRawBypass d a st)"
  by (auto simp: sends_in_def sendCheckedRawBypass_def case_prod_beta queue_in_def taken_on_sendBypass)

lemma sends_fold: "(\<And>x st. sends_in D st \<Longrightarrow> sends_in D (f x st)) \<Longrightarrow> sends_in D st \<Longrightarrow> sends_in D (fold f xs st)"
  by (induction xs arbitrary: st) simp_all

lemma sends_unicast:
  assumes "sends_in D st" "d \<in> D"
  shows "sends_in D (forward_unicast env d a st)"
proof -
  have "sends_in D (fst st, (snd st)\<lparr> RLQ_limiter := l \<rparr>)" for l using assms(1) by (simp add: sends_in_def)
  then show ?thesis using assms sends_raw[OF _ assms(2)] by (simp add: forward_unicast_def Let_def case_prod_beta)
qed

text \<open>From here on \<open>D\<close> holds every control packet.\<close>

lemma server_types [simp]:
  "TypeKick \<noteq> TypeData" "TypeAssignIP \<noteq> TypeData" "TypePeerInfo \<noteq> TypeData" "TypeAuthChallenge \<noteq> TypeData"
  "TypePing \<noteq> TypeData" "TypeNATResponse \<noteq> TypeData" "TypeRebindAck \<noteq> TypeData"
  by (simp_all add: type_defs)

lemma sends_ctrl: "sends_in D st \<Longrightarrow> Collect control \<subseteq> D \<Longrightarrow> ty \<noteq> TypeData \<Longrightarrow> sends_in D (sendChecked env ty p a st)"
  by (rule sends_checked) auto

lemma sends_kick_code: "sends_in D st \<Longrightarrow> Collect control \<subseteq> D \<Longrightarrow> sends_in D (sendKickCode env a c s st)"
  using sends_ctrl[of D st TypeKick env "Kick_Marshal \<lparr> Kick_Reason = s, Kick_Code = c \<rparr>" a]
  by (simp add: sendKickCode_def case_prod_beta sends_in_def cache_ok_def)

lemma sends_kick: "sends_in D st \<Longrightarrow> Collect control \<subseteq> D \<Longrightarrow> sends_in D (sendKick env a s st)"
  by (simp add: sendKick_def sends_kick_code)

lemma sends_assign: "sends_in D st \<Longrightarrow> Collect control \<subseteq> D \<Longrightarrow> sends_in D (sendAssignIP env v a st)"
  by (simp add: sendAssignIP_def Let_def sends_ctrl)

lemma encoded_peers:
  assumes "cache_ok r" "getEncodedPeerInfo env r = (e, r')"
  shows "control e" "cache_ok r'"
  using assms by (auto simp: getEncodedPeerInfo_def cache_ok_def Let_def split: if_splits)

lemma sends_peer_info:
  assumes "sends_in D st" "Collect control \<subseteq> D"
  shows "sends_in D (sendPeerInfoToClient env a st)"
proof -
  obtain e r where e: "getEncodedPeerInfo env (fst st) = (e, r)" by force
  have "control e" "cache_ok r" using encoded_peers[OF _ e] assms(1) by (simp_all add: sends_in_def)
  then have "sends_in D (r, snd st)" "e \<in> D" using assms by (auto simp: sends_in_def)
  then show ?thesis by (simp add: sendPeerInfoToClient_def e sends_raw)
qed

lemma sends_peer_broadcast:
  assumes "sends_in D st" "Collect control \<subseteq> D"
  shows "sends_in D (sendPeerInfoBroadcast env st)"
proof -
  obtain e r where e: "getEncodedPeerInfo env (fst st) = (e, r)" by force
  have "control e" "cache_ok r" using encoded_peers[OF _ e] assms(1) by (simp_all add: sends_in_def)
  then have "sends_in D (r, snd st)" "e \<in> D" using assms by (auto simp: sends_in_def)
  then have "sends_in D (fold (sendCheckedRawBypass e) as (r, snd st))" for as by (intro sends_fold) (simp_all add: sends_bypass)
  then show ?thesis using assms(1) by (simp add: sendPeerInfoBroadcast_def e Let_def)
qed

lemma sends_join:
  assumes "sends_in D st" "Collect control \<subseteq> D"
  shows "sends_in D (announce_join env v a st)"
proof -
  define st1 where "st1 = sendPeerInfoToClient env a (sendAssignIP env v a st)"
  have "sends_in D st1" using assms by (simp add: st1_def sends_peer_info sends_assign)
  then have "sends_in D (markDirty (invalidatePeerInfoCache (fst st1)), snd st1)"
    by (simp add: sends_in_def cache_ok_def cache_updates invalidatePeerInfoCache_def)
  then show ?thesis using assms(2) by (simp add: announce_join_def Let_def sends_peer_broadcast flip: st1_def)
qed

lemmas sends_intros = sends_ctrl sends_kick sends_kick_code sends_assign sends_peer_info sends_join

section \<open>The handlers of a room\<close>

lemma sends_register_new:
  assumes "sends_in D st" "Collect control \<subseteq> D"
  shows "sends_in D (handleRegister_new env rg a st)"
proof -
  obtain r q where st: "st = (r, q)" by force
  have s: "sends_in D (r', q)" if "R_peerInfoEncoded r' = R_peerInfoEncoded r" for r'
    using sends_room[of D r q r'] assms(1) that by (simp add: st)
  show ?thesis
    using assms(2) by (auto simp: handleRegister_new_def st Let_def case_prod_beta cache_simps intro!: sends_intros s
        split: checkResult.split option.split)
qed

lemma sends_register:
  assumes "sends_in D st" "Collect control \<subseteq> D"
  shows "sends_in D (handleRegister env p a st)"
proof -
  obtain r q where st: "st = (r, q)" by force
  have s: "sends_in D (r', q)" if "R_peerInfoEncoded r' = R_peerInfoEncoded r" for r'
    using sends_room[of D r q r'] assms(1) that by (simp add: st)
  show ?thesis
    using assms(2) s[OF refl] by (auto simp: handleRegister_def st Let_def case_prod_beta cache_simps
        intro!: sends_intros sends_register_new s split: res.split option.split)
qed

lemma sends_admit:
  assumes "sends_in D st" "Collect control \<subseteq> D"
  shows "sends_in D (admit_verified env resp a c k b st)"
proof -
  obtain r q where st: "st = (r, q)" by force
  have s: "sends_in D (r', q)" if "R_peerInfoEncoded r' = R_peerInfoEncoded r" for r'
    using sends_room[of D r q r'] assms(1) that by (simp add: st)
  show ?thesis
    using assms(2) by (auto simp: admit_verified_def st Let_def case_prod_beta cache_simps
        intro!: sends_intros s split: checkResult.split option.split)
qed

lemma sends_auth_response:
  assumes "sends_in D st" "Collect control \<subseteq> D"
  shows "sends_in D (handleAuthResponse env p a st)"
proof -
  obtain r q where st: "st = (r, q)" by force
  have s: "sends_in D (r', q)" if "R_peerInfoEncoded r' = R_peerInfoEncoded r" for r'
    using sends_room[of D r q r'] assms(1) that by (simp add: st)
  show ?thesis
    using assms(2) s[OF refl] by (auto simp: handleAuthResponse_def st Let_def case_prod_beta cache_simps
        intro!: sends_intros sends_admit s split: res.split option.split)
qed

lemma sends_relay:
  assumes "sends_in D st" "relay_encode (fst st) p \<in> D"
  shows "sends_in D (handleRelay env p a st)"
proof -
  obtain s r where r: "relay_sender env p a (fst st) = (s, r)" by force
  have "R_peerInfoEncoded r = R_peerInfoEncoded (fst st)" using cache_join(4)[of env p a "fst st"] r by simp
  then have w: "sends_in D (r, snd st)" using assms(1) by (simp add: sends_in_def cache_ok_def)
  have "relay_encode r p = relay_encode (fst st) p"
    using relay_sender_frame[OF r] by (simp add: relay_encode_def)
  then have e: "relay_encode r p \<in> D" using assms(2) by simp
  have "sends_in D (relay_forward env p ts (r, snd st))" for ts
  proof -
    have "sends_in D (fold (sendCheckedRawBypass (relay_encode r p)) ts (r, snd st))"
      "sends_in D (fold (forward_unicast env (relay_encode r p)) ts (r, snd st))"
      by (rule sends_fold; simp add: sends_bypass sends_unicast e w)+
    then show ?thesis by (simp add: relay_forward_def Let_def sends_in_def cache_ok_def)
  qed
  then show ?thesis using w assms(1) by (auto simp: handleRelay_def r Let_def split: option.split)
qed

lemma sends_hole_punch:
  assumes "sends_in D st" "Collect control \<subseteq> D"
  shows "sends_in D (handleHolePunch env p a st)"
  using assms by (simp add: handleHolePunch_def Let_def sends_ctrl split: option.split)

lemma sends_disconnect:
  assumes "sends_in D st"
  shows "sends_in D (handleDisconnect env a st)"
proof -
  obtain r q where st: "st = (r, q)" by force
  show ?thesis using assms
    by (simp add: handleDisconnect_def st Let_def sends_in_def cache_ok_def invalidatePeerInfoCache_def cache_simps split: option.split)
qed

lemma sends_HandlePacket:
  assumes "sends_in D st" "Collect control \<subseteq> D" "ty = TypeData \<Longrightarrow> relay_encode (fst st) p \<in> D"
  shows "sends_in D (HandlePacket env ty p a st)"
proof -
  obtain r q where st: "st = (r, q)" by force
  have s: "sends_in D (r', q)" if "R_peerInfoEncoded r' = R_peerInfoEncoded r" for r'
    using sends_room[of D r q r'] assms(1) that by (simp add: st)
  have "sends_in D (handleKeepAliveWithPayload env p a st)" "sends_in D (handlePong env p a st)" "sends_in D (handlePeerRequest env a st)"
    using assms(1,2) s by (auto simp: handleKeepAliveWithPayload_def handlePong_def handlePeerRequest_def st Let_def cache_simps
        intro: sends_peer_info split: option.split res.split)
  then show ?thesis
    using assms by (simp add: HandlePacket_def sends_register sends_auth_response sends_relay sends_hole_punch sends_disconnect)
qed

lemma sends_ticks:
  assumes "sends_in D st" "Collect control \<subseteq> D"
  shows "sends_in D (peerInfo_tick env st)" "sends_in D (ping_tick env st)" "sends_in D (notifyShutdown env st)"
proof -
  have "sends_in D ((fst st)\<lparr> R_peerInfoDirty := False \<rparr>, snd st)" using assms(1) by (simp add: sends_in_def cache_ok_def)
  then show "sends_in D (peerInfo_tick env st)" using assms by (simp add: peerInfo_tick_def sends_peer_broadcast)
  have p: "sends_in D (send_ping env e kc st)" if "sends_in D st" "control e" for e kc st
  proof -
    obtain r q where st: "st = (r, q)" by force
    show ?thesis using that assms(2)
      by (auto simp: send_ping_def st Let_def cache_simps intro!: sends_raw sends_room[OF that(1)[unfolded st]] split: option.split)
  qed
  have "sends_in D (fold (mark_missed env) kcs (fst st), snd st)" for kcs
    using assms(1) cache_fold[of "mark_missed env" kcs "fst st"] cache_auth(5) by (simp add: sends_in_def cache_ok_def)
  then show "sends_in D (ping_tick env st)" using assms(1) by (auto simp: ping_tick_def Let_def intro!: sends_fold p)
  show "sends_in D (notifyShutdown env st)"
    using assms by (auto simp: notifyShutdown_def Let_def intro!: sends_fold sends_ctrl)
qed

section \<open>The server\<close>

text \<open>A datagram the checked decoder rejects.\<close>

definition junk :: "bytes \<Rightarrow> bool" where
  "junk d \<longleftrightarrow> (case DecodeChecked d of Ok m \<Rightarrow> False | _ \<Rightarrow> True)"

text \<open>
  A server without password: it sends packets of \<open>D\<close> only, and what waits for its workers belongs to
  \<open>D\<close> or is rejected.
\<close>

definition srv_in :: "bytes set \<Rightarrow> Server \<Rightarrow> bool" where
  "srv_in D s \<longleftrightarrow> (\<forall>rr. cache_ok (S_heap s rr)) \<and> queue_in D (S_queue s) \<and> \<not> S_cachedEncrypted s \<and> S_roomPass s = [] \<and>
     (\<forall>(d, a)\<in>set (S_pktCh s). d \<in> D \<or> junk d)"

lemma srv_in_mono: "srv_in D s \<Longrightarrow> D \<subseteq> E \<Longrightarrow> srv_in E s"
  unfolding srv_in_def queue_in_def by fast

lemma srv_with_room:
  assumes "srv_in D s" "\<And>st. sends_in D st \<Longrightarrow> fst st = S_heap s rr \<Longrightarrow> sends_in D (f st)"
  shows "srv_in D (with_room rr f s)"
proof -
  obtain r q where f: "f (S_heap s rr, S_queue s) = (r, q)" by force
  have "sends_in D (r, q)" using assms(2)[of "(S_heap s rr, S_queue s)"] assms(1) f by (simp add: srv_in_def sends_in_def)
  then show ?thesis using assms(1) f by (simp add: srv_in_def sends_in_def with_room_def)
qed

lemma srv_on_room: "srv_in D s \<Longrightarrow> (cache_ok (S_heap s rr) \<Longrightarrow> cache_ok (f (S_heap s rr))) \<Longrightarrow> srv_in D (on_room rr f s)"
  by (simp add: srv_in_def on_room_def)

lemma srv_fields:
  assumes "srv_in D s"
  shows "srv_in D (s\<lparr> S_addrToRoom := x0 \<rparr>)" "srv_in D (s\<lparr> S_rooms := x1 \<rparr>)" "srv_in D (s\<lparr> S_sendErrors := x2 \<rparr>)"
    "srv_in D (s\<lparr> S_rateShards := x3 \<rparr>)" "srv_in D (s\<lparr> S_totalPacketsDropped := x4 \<rparr>)"
    "queue_in D q \<Longrightarrow> srv_in D (s\<lparr> S_queue := q \<rparr>)"
  using assms by (simp_all add: srv_in_def)

lemma srv_send_ctrl:
  assumes "srv_in D s" "Collect control \<subseteq> D" "ty \<noteq> TypeData"
  shows "srv_in D (srv_sendChecked ev ty p a s)"
proof -
  have "queue_in D (snd (rlq_send (E_now (V_env ev)) (EncodeChecked ty p) a priorityHigh (S_queue s)))"
    by (rule queue_in_rlq_send) (use assms in \<open>auto simp: srv_in_def\<close>)
  then show ?thesis using assms(1) by (simp add: srv_sendChecked_def Let_def case_prod_beta srv_in_def)
qed

lemmas srv_intros = srv_with_room srv_on_room srv_fields srv_send_ctrl sends_HandlePacket sends_peer_info

lemma srv_rebind:
  assumes "srv_in D s" "Collect control \<subseteq> D"
  shows "srv_in D (handleRebind ev p a s)"
proof -
  have ack: "srv_in D (sendRebindAck ev a b s)" if "srv_in D s" for b s
    using that assms(2) by (simp add: sendRebindAck_def srv_send_ctrl)
  have u: "srv_in D (on_room rr (rebind_update (V_env ev) k c o1 a) s)" for rr k c o1
    by (rule srv_on_room[OF assms(1)]) (simp add: rebind_update_def Let_def cache_ok_def cache_simps)
  show ?thesis unfolding handleRebind_def Let_def
    by (auto simp: assms(1) ack split: res.split option.split intro!: srv_with_room sends_peer_info ack srv_fields u assms(2))
qed

lemma NewRoom_cache: "NewRoom now cfg = Some r \<Longrightarrow> cache_ok r"
  by (auto simp: NewRoom_def Let_def cache_ok_def cache_simps split: prod.splits if_splits)

lemma srv_find_or_create:
  assumes "srv_in D s"
  shows "srv_in D (snd (find_or_create_room ev i s))"
  using assms NewRoom_cache
  by (auto simp: find_or_create_room_def Let_def new_room_def srv_in_def split: option.split)

lemma srv_register_multi:
  assumes "srv_in D s" "Collect control \<subseteq> D"
  shows "srv_in D (handleRegisterMultiRoom ev p a s)"
proof (cases "UnmarshalRegister p")
  case (Ok rg)
  obtain x s1 where x: "find_or_create_room ev (Reg_RoomID rg) s = (x, s1)" by force
  have s1: "srv_in D s1" using srv_find_or_create[OF assms(1), of ev "Reg_RoomID rg"] x by simp
  have w: "srv_in D (with_room rr (HandlePacket (V_env ev) TypeRegister p a) s1)" for rr
    by (rule srv_with_room[OF s1]) (use assms(2) sends_HandlePacket types_not_data(6) in blast)
  show ?thesis
    using assms s1 w by (auto simp: handleRegisterMultiRoom_def Ok x Let_def srv_sendKick_def srv_sendKickCode_def
        intro!: srv_send_ctrl srv_fields split: sum.split)
qed (simp_all add: handleRegisterMultiRoom_def assms)

lemma srv_packet_multi:
  assumes "srv_in D s" "Collect control \<subseteq> D" "server_wf s" "MsgType m = TypeData \<Longrightarrow> EncodeChecked TypeData (MsgPayload m) \<in> D"
  shows "srv_in D (handlePacketMultiRoom ev m a s)"
proof -
  have "srv_in D (with_room rr (HandlePacket (V_env ev) (MsgType m) (MsgPayload m) a) s)" if "rr < S_next s" for rr
  proof (rule srv_with_room[OF assms(1)])
    fix st assume st: "sends_in D st" "fst st = S_heap s rr"
    have "R_roomPass (S_heap s rr) = []" using assms(1,3) that by (auto simp: server_wf_def heap_wf_def srv_in_def)
    then show "sends_in D (HandlePacket (V_env ev) (MsgType m) (MsgPayload m) a st)"
      using sends_HandlePacket[OF st(1) assms(2)] assms(4) st(2) by (simp add: relay_encode_def)
  qed
  then show ?thesis using assms
    by (auto simp: handlePacketMultiRoom_def srv_register_multi server_wf_def heap_wf_def split: option.split)
qed

lemma srv_dispatch:
  assumes "srv_in D s" "Collect control \<subseteq> D" "server_wf s" "MsgType m = TypeData \<Longrightarrow> EncodeChecked TypeData (MsgPayload m) \<in> D"
  shows "srv_in D (dispatch ev m a s)"
proof -
  have "srv_in D (with_room rr (HandlePacket (V_env ev) (MsgType m) (MsgPayload m) a) s)" if "S_defaultRoom s = Some rr" for rr
  proof (rule srv_with_room[OF assms(1)])
    fix st assume st: "sends_in D st" "fst st = S_heap s rr"
    have "rr < S_next s" using assms(3) that by (simp add: server_wf_def heap_wf_def)
    then have "R_roomPass (S_heap s rr) = []" using assms(1,3) by (auto simp: server_wf_def heap_wf_def srv_in_def)
    then show "sends_in D (HandlePacket (V_env ev) (MsgType m) (MsgPayload m) a st)"
      using sends_HandlePacket[OF st(1) assms(2)] assms(4) st(2) by (simp add: relay_encode_def)
  qed
  then show ?thesis using assms
    by (auto simp: dispatch_def srv_packet_multi srv_rebind handleNATProbe_def intro!: srv_send_ctrl split: option.split res.split)
qed

lemma srv_worker:
  assumes "srv_in D s" "Collect control \<subseteq> D" "server_wf s"
  shows "srv_in D (worker ev s)"
proof (cases "S_pktCh s")
  case (Cons j js)
  obtain d a where j: "j = (d, a)" by force
  define u where "u = s\<lparr> S_pktCh := js \<rparr>"
  have u: "srv_in D u" using assms(1) Cons by (simp add: srv_in_def u_def)
  have wf: "server_wf u" using assms(3) server_wf_score[of u s] by (simp add: u_def score_def)
  have d: "d \<in> D \<or> junk d" using assms(1) Cons by (simp add: srv_in_def j)
  have "srv_in D (dispatch ev m a u)" if m: "DecodeChecked d = Ok m" for m
  proof (rule srv_dispatch[OF u assms(2) wf])
    show "EncodeChecked TypeData (MsgPayload m) \<in> D" if "MsgType m = TypeData"
      using d m DecodeChecked_Ok[OF m] that by (simp add: junk_def)
  qed
  moreover have "\<not> S_cachedEncrypted u" using u by (simp add: srv_in_def)
  moreover have "srv_in D (srv_sendKickCode ev a c r u)" for c r using u assms(2) by (simp add: srv_sendKickCode_def srv_send_ctrl)
  ultimately have "srv_in D (handlePacket ev d a u)" using u by (simp add: handlePacket_def split: res.split err.split)
  then show ?thesis by (simp add: worker_def Cons j u_def)
qed (simp add: worker_def assms)

lemma srv_fold: "(\<And>x s. srv_in D s \<Longrightarrow> srv_in D (f x s)) \<Longrightarrow> srv_in D s \<Longrightarrow> srv_in D (fold f xs s)"
  by (induction xs arbitrary: s) simp_all

lemma cache_CleanupStale: "R_peerInfoEncoded (snd (CleanupStale env r)) = R_peerInfoEncoded r"
proof -
  have c: "R_peerInfoEncoded (fst (fold (remove_stale_client env) xs rb)) = R_peerInfoEncoded (fst rb)" for xs rb
    by (induction xs arbitrary: rb) (auto simp: remove_stale_client_def Let_def cache_simps case_prod_beta split: option.split)
  have a: "R_peerInfoEncoded (fold remove_stale_auth xs r) = R_peerInfoEncoded r" for xs r
    by (rule cache_fold) (simp add: remove_stale_auth_def Let_def cache_simps case_prod_beta)
  show ?thesis using c[of _ "(r, False)"] by (simp add: CleanupStale_def Let_def case_prod_beta cache_simps a)
qed

lemma srv_keepalive:
  assumes "srv_in D s"
  shows "srv_in D (keepalive_tick ev s)"
proof -
  have "srv_in D (on_room rr (\<lambda>r. let (ch, r1) = CleanupStale (V_env ev) r in if ch then invalidatePeerInfoCache r1 else r1) s)"
    if "srv_in D s" for rr s
    by (rule srv_on_room[OF that]) (simp add: Let_def case_prod_beta invalidatePeerInfoCache_def cache_ok_def cache_CleanupStale)
  then have c: "srv_in D (cleanupStaleClients ev s)"
    unfolding cleanupStaleClients_def by (intro srv_fold[OF _ assms]) (simp add: case_prod_beta)
  have "srv_in D (cleanupIdleRooms ev s)" if "srv_in D s" for s
    unfolding cleanupIdleRooms_def
    by (rule srv_fold[OF _ that]) (auto simp: case_prod_beta Room_Stop_def cache_ok_def intro!: srv_fields srv_on_room)
  then show ?thesis using c by (simp add: keepalive_tick_def Let_def cleanupStaleAddrToRoom_def srv_fields)
qed

lemma queue_in_conserved: "taken_on q' = taken_on q \<Longrightarrow> queue_in D q' = queue_in D q"
  by (simp add: queue_in_def)

lemma srv_Close:
  assumes "srv_in D s" "Collect control \<subseteq> D"
  shows "srv_in D (Close ev s)"
proof -
  define s1 where "s1 = fold (\<lambda>(k, rr). with_room rr (notifyShutdown (V_env ev))) (range_rooms ev s) s"
  have s1: "srv_in D s1"
    unfolding s1_def by (rule srv_fold[OF _ assms(1)]) (auto intro!: srv_with_room sends_ticks assms(2))
  define q where "q = (S_queue s1)\<lparr> RLQ_sq := stop_queue (RLQ_sq (S_queue s1)) \<rparr>"
  have "taken_on q = taken_on (S_queue s1)"
    using sq.flush_conserves[of "sq_Stop (RLQ_sq (S_queue s1))"]
    by (simp add: q_def taken_on_def queued_pkts_def sq_Stop_def written_pkts_def stop_queue_def Let_def)
  from queue_in_conserved[OF this] have "srv_in D (s1\<lparr> S_queue := q \<rparr>)"
    using s1 by (intro srv_fields(6)) (simp_all add: srv_in_def)
  then have "srv_in D (fold (\<lambda>(k, rr). on_room rr Room_Stop) rs (s1\<lparr> S_queue := q \<rparr>))" for rs
    by (intro srv_fold) (auto simp: Room_Stop_def cache_ok_def intro!: srv_on_room)
  then show ?thesis by (simp add: Close_def Let_def flip: s1_def q_def)
qed

text \<open>
  The server keeps to \<open>D\<close> in every step in which it receives nothing new; receiving a datagram of
  \<open>D\<close>, or one it will reject, keeps it too.
\<close>

lemma srv_step:
  assumes "server_step s s'" "srv_in D s" "server_wf s" "Collect control \<subseteq> D"
    "set (S_pktCh s') \<subseteq> set (S_pktCh s) \<union> {(d, a). d \<in> D \<or> junk d}"
  shows "srv_in D s'"
  using assms
proof (cases rule: server_step.cases)
  case (receive data a)
  then show ?thesis using assms(2,5) by (auto simp: receive_def srv_in_def Let_def split: prod.splits if_splits)
next
  case (bandwidth ev)
  then show ?thesis using assms(2) by (simp add: bw_cleanup_tick_def srv_in_def)
next
  case (send sq)
  have "taken_on ((S_queue s)\<lparr> RLQ_sq := sq \<rparr>) = taken_on (S_queue s)"
    using sq.step_conserves[OF send(2)] by (simp add: taken_on_def)
  from queue_in_conserved[OF this] show ?thesis using assms(2) send(1) by (simp add: srv_in_def)
next
  case (regtick rr)
  then show ?thesis using assms(2) by (auto simp: reg_tick_def reg_swap_def cache_ok_def intro!: srv_on_room)
next
  case (peerinfo env rr)
  show ?thesis unfolding peerinfo(1) by (rule srv_with_room[OF assms(2)]) (rule sends_ticks(1)[OF _ assms(4)])
next
  case (ping env rr)
  show ?thesis unfolding ping(1) by (rule srv_with_room[OF assms(2)]) (rule sends_ticks(2)[OF _ assms(4)])
qed (simp_all add: srv_worker srv_keepalive srv_Close srv_fields assms(2-4))

end
