(* ===== verification/System.thy ===== *)
theory System
  imports ServerOuts
begin

text \<open>
  The whole system: one server without password, any number of clients of an open room, and a
  network that may lose, repeat, reorder and misdeliver every datagram ever written, under any
  source address, and damage datagrams in ways the checksum detects.  Every IP packet that reaches
  a TUN device was read from the TUN device of some client.
\<close>

section \<open>Genuine datagrams\<close>

definition genuine :: "bytes set \<Rightarrow> bytes \<Rightarrow> bool" where
  "genuine X d \<longleftrightarrow> control d \<or>
     (\<exists>src dst tok x. length src = 4 \<and> length dst = 4 \<and> length tok = 16 \<and> x \<in> X \<and>
        d = EncodeChecked TypeData (Data_Marshal (data_msg src dst tok x)))"

text \<open>A client of this system may have answered any ping.\<close>

abbreviation taken_in :: "bytes set \<Rightarrow> source set" where
  "taken_in X \<equiv> Dev ` X \<union> range Net"

lemma emitted_genuine:
  assumes "K_pass K = []" "emitted K (taken_in X) d"
  shows "genuine X d"
proof (cases "client_control K (taken_in X) d")
  case True
  then show ?thesis using client_control_control by (simp add: genuine_def)
next
  case False
  then obtain src dst tok x where "length src = 4" "length dst = 4" "length tok = 16" "x \<in> X"
      "d = EncodeChecked TypeData (Data_Marshal (data_msg src dst tok x))"
    using assms by (auto simp: emitted_def carried_def data_packet_def)
  then show ?thesis unfolding genuine_def by blast
qed

lemma genuine_mono: "X \<subseteq> Y \<Longrightarrow> Collect (genuine X) \<subseteq> Collect (genuine Y)"
  unfolding genuine_def by blast

lemma control_genuine: "Collect control \<subseteq> Collect (genuine X)"
  by (auto simp: genuine_def)

section \<open>What a client writes to its device\<close>

definition delivered :: "bytes set \<Rightarrow> Tunnel \<Rightarrow> bool" where
  "delivered X t \<longleftrightarrow> (\<forall>p\<in>set (tun_output t). \<exists>ev x sn. x \<in> X \<and> p = rewriteBroadcast ev x sn)"

lemma delivered_mono: "delivered X t \<Longrightarrow> X \<subseteq> Y \<Longrightarrow> delivered Y t"
  unfolding delivered_def by blast

lemma delivered_dev: "T_tunDev t' = T_tunDev t \<Longrightarrow> delivered X t' = delivered X t"
  by (simp add: delivered_def tun_output_def)

lemma delivered_write:
  assumes "delivered X t" "x \<in> X"
  shows "delivered X (tun_write ev x t)"
proof -
  have "set (tun_output (tun_write ev x t)) \<subseteq> set (tun_output t) \<union> {rewriteBroadcast ev x (T_cachedSubnet t)}"
  proof (cases "T_tunDev t")
    case (Some dev)
    show ?thesis
    proof (cases "N_tunOK ev \<and> \<not> Dev_closed dev")
      case True
      then show ?thesis using tun_output_write[OF Some] Some by (simp add: tun_output_def)
    qed (auto simp: tun_write_def Some)
  qed (simp add: tun_write_def tun_output_def)
  then show ?thesis using assms unfolding delivered_def by blast
qed

lemma tunDev_sendUDP [simp]: "T_tunDev (sendUDP ev d a t) = T_tunDev t"
  by (simp add: sendUDP_def Let_def case_prod_beta)

lemma tunDev_writeUDP [simp]: "T_tunDev (cl_writeUDP ev j t) = T_tunDev t"
  by (simp add: cl_writeUDP_def split: option.split)

lemma tunDev_drain [simp]: "T_tunDev (drain_rest ev ps t) = T_tunDev t"
  by (induction ev ps t rule: drain_rest.induct) (simp_all split: list.split)

lemma tunDev_loops [simp]:
  "T_tunDev (sendLoop_ctrl ev t) = T_tunDev t" "T_tunDev (sendLoop_data ev t) = T_tunDev t"
  "T_tunDev (sendLoop_stop ev ps t) = T_tunDev t"
  by (simp_all add: sendLoop_ctrl_def sendLoop_data_def sendLoop_stop_def write_batch_def drainBatch_def Let_def tunDev_fold
      split: list.split)

lemma tunDev_work: "tunWorker ev t = Ok t' \<Longrightarrow> T_tunDev t' = T_tunDev t"
  by (auto simp: tunWorker_def routePacket_def sendToServer_def send_packet_def Let_def bind_res_Ok_iff
      split: list.splits if_splits option.splits prod.splits)

lemma tunDev_punch [simp]: "T_tunDev (punch_tick n t) = T_tunDev t"
proof -
  have b: "T_tunDev (snd (burstHolePunch a k t)) = T_tunDev t" for a k by (simp add: burstHolePunch_def split: option.split)
  have "T_tunDev (snd (punch_step p t)) = T_tunDev t" for p by (cases p) (simp_all add: Let_def case_prod_beta b)
  then show ?thesis by (simp add: punch_tick_def Let_def case_prod_beta)
qed

lemma tunDev_timers [simp]:
  "T_tunDev (retryFailedHolePunches ev t) = T_tunDev t" "T_tunDev (cleanStalePeers ev t) = T_tunDev t"
  "T_tunDev (peerDiscovery_tick t) = T_tunDev t" "T_tunDev (sendP2PKeepalives ev t) = T_tunDev t"
  "T_tunDev (snd (rebind_result ev t)) = T_tunDev t" "T_tunDev (snd (rebind_request t)) = T_tunDev t"
  "T_tunDev (Disconnect ev t) = T_tunDev t" "T_tunDev (probe_finish r t) = T_tunDev t"
  by (simp_all add: retryFailedHolePunches_def cleanStalePeers_def peerDiscovery_tick_def sendP2PKeepalives_def rebind_result_def
      rebind_request_def Disconnect_def probe_finish_def Let_def tunDev_fold split: option.split list.split res.split)

lemma tunDev_keep [simp]: "T_tunDev (snd (cl_keepalive_tick ev t)) = T_tunDev t"
  by (simp add: cl_keepalive_tick_def Let_def case_prod_beta)

lemma tunDev_tun [simp]: "T_tunDev (fold tun_batch_packet ps t) = T_tunDev t" "T_tunDev (tun_single_packet p t) = T_tunDev t"
  by (simp_all add: tun_single_packet_def tun_batch_packet_def tunDev_fold)

lemma delivered_Close: "delivered X t \<Longrightarrow> delivered X (CloseTUN t)"
  by (cases "T_tunDev t") (simp_all add: delivered_def CloseTUN_def tun_output_def)

text \<open>Registration leaves the device alone; a new device is empty.\<close>

lemma tunDev_regResponse: "T_tunDev (snd (snd (handleRegResponse ev udp m rounds t))) = T_tunDev t"
proof -
  have "T_tunDev (snd (handleAssignIP ev p t)) = T_tunDev t" for p
    by (simp add: handleAssignIP_def accept_assign_def split: res.split sum.split)
  moreover have "T_tunDev (snd (handleAuthChallenge ev udp p t)) = T_tunDev t" for p
    by (simp add: handleAuthChallenge_def Let_def case_prod_beta split: res.split option.split)
  ultimately show ?thesis by (simp add: handleRegResponse_def case_prod_beta split: option.split prod.split)
qed

lemma tunDev_register_loop: "T_tunDev (snd (register_loop packet retries rounds rs t)) = T_tunDev t"
proof (induction packet retries rounds rs t rule: register_loop.induct)
  case (2 packet retries rounds ev r rs t)
  show ?case
  proof (cases r)
    case (Datagram d)
    show ?thesis
    proof (cases "DecodeChecked (take 1500 d)")
      case (Ok msg)
      obtain st r1 t1 where s: "handleRegResponse ev True msg rounds t = (st, r1, t1)" by (metis prod_cases3)
      have "T_tunDev t1 = T_tunDev t" using tunDev_regResponse[of ev True msg rounds t] s by simp
      then show ?thesis using 2(2)[OF Datagram Ok s[symmetric] refl] s by (cases st) (simp_all add: Datagram Ok)
    qed (simp_all add: Datagram)
  qed (use 2(1) in simp_all)
qed simp

lemma tunDev_registerTCP_loop: "T_tunDev (snd (registerTCP_loop rounds rs t)) = T_tunDev t"
proof (induction rounds rs t rule: registerTCP_loop.induct)
  case (2 rounds ev c r rs t)
  show ?case
  proof (cases r)
    case (Inr d)
    show ?thesis
    proof (cases "DecodeChecked d")
      case (Ok msg)
      obtain st r1 t1 where s: "handleRegResponse ev False msg rounds t = (st, r1, t1)" by (metis prod_cases3)
      have "T_tunDev t1 = T_tunDev t" using tunDev_regResponse[of ev False msg rounds t] s by simp
      then show ?thesis using 2(1)[OF Inr Ok s[symmetric] refl] s by (cases st) (simp_all add: Inr Ok)
    qed (use 2(2,3) in \<open>simp_all add: Inr\<close>)
  qed simp
qed simp

lemma tunDev_fallback: "T_tunDev (snd (registerWithFallback ev ci t)) = T_tunDev t"
proof -
  have r: "T_tunDev (snd (register ev rs t)) = T_tunDev t" for rs by (simp add: register_def tunDev_register_loop)
  have tcp: "T_tunDev (snd (registerTCP ev rs u)) = T_tunDev u" for rs u
    by (simp add: registerTCP_def Let_def case_prod_beta tunDev_registerTCP_loop split: option.split)
  show ?thesis
    unfolding registerWithFallback_def by (auto simp: r tcp case_prod_beta split: reg_status.split option.split)
qed

definition fresh_devices :: "tun_factory option \<Rightarrow> bool" where
  "fresh_devices f \<longleftrightarrow> (case f of None \<Rightarrow> True | Some g \<Rightarrow> \<forall>c dev. g c = Some dev \<longrightarrow> Dev_written dev = [])"

lemma delivered_create: "delivered X t \<Longrightarrow> fresh_devices f \<Longrightarrow> delivered X (snd (createTUN f mtu t))"
  by (auto simp: createTUN_def delivered_def tun_output_def fresh_devices_def split: option.splits)

lemma delivered_ensure:
  assumes "delivered X t" "fresh_devices f"
  shows "delivered X (snd (ensureTUN f mtu t))"
proof -
  have "delivered X (t\<lparr> T_tunDev := Some (dev\<lparr> Dev_closed := True \<rparr>) \<rparr>)" if "T_tunDev t = Some dev" for dev
    using assms(1) that by (simp add: delivered_def tun_output_def)
  then show ?thesis using assms by (auto simp: ensureTUN_def Let_def intro: delivered_create split: option.split)
qed

lemma delivered_Connect:
  assumes "delivered X t" "fresh_devices f"
  shows "delivered X (snd (Connect ev ci a mtu f t))"
proof (cases "N_resolve ev a")
  case (Some sa)
  obtain e t1 where d: "dialServer (CI_bindOK ci) sa (t\<lparr> T_disconnected := False, T_punches := [] \<rparr>) = (e, t1)" by force
  then have t1: "T_tunDev t1 = T_tunDev t" by (auto simp: dialServer_def Let_def split: if_splits)
  obtain st t2 where r: "registerWithFallback ev ci t1 = (st, t2)" by force
  have t2: "T_tunDev t2 = T_tunDev t" using tunDev_fallback[of ev ci t1] r t1 by simp
  have "T_tunDev (probeNATAsync t2) = T_tunDev t" using t2 by (simp add: probeNATAsync_def)
  then have u: "delivered X (probeNATAsync t2)" using assms(1) delivered_dev by metis
  obtain e2 t3 where n: "ensureTUN f mtu (probeNATAsync t2) = (e2, t3)" by force
  have "delivered X t3" using delivered_ensure[OF u assms(2), of mtu] n by simp
  moreover have "delivered X t1" "delivered X t2" using assms(1) t1 t2 delivered_dev by metis+
  ultimately show ?thesis using d r n
    by (cases e; cases st; cases e2) (simp_all add: Connect_def Some delivered_def tun_output_def)
qed (simp add: Connect_def assms)

text \<open>A datagram that is genuine, or rejected, brings only genuine packets to the device.\<close>

lemma pooled_data:
  assumes "UnmarshalDataPooled dp (Data_Marshal (data_msg src dst tok x)) = Ok m" "length src = 4" "length dst = 4" "length tok = 16"
  shows "DP_Data m = x"
proof -
  have e: "UnmarshalData (Data_Marshal (data_msg src dst tok x)) = Ok (data_msg src dst tok x)"
    using Data_roundtrip_lemma[of "data_msg src dst tok x"] assms(2-4) by (simp add: data_msg_def)
  have "DP_Data m = drop (dataOffset p) p" if "UnmarshalDataPooled dp p = Ok m" for p
    using that unfolding UnmarshalDataPooled_def
    by (auto simp: guard_err_def bind_res_Ok_iff Let_def copy_at_def reslice_def slice_def split: if_splits)
  moreover have "DP_Data m = drop (dataOffset p) p" if "UnmarshalData p = Ok m" for p m
    using that unfolding UnmarshalData_def by (auto simp: guard_err_def bind_res_Ok_iff Let_def slice_def split: if_splits)
  ultimately show ?thesis using assms(1) e by (metis data_msg_def DataPayload.select_convs(6))
qed

lemma delivered_decrypt:
  assumes "delivered X t" "T_p2pCipher t = None" "DP_Data dp \<in> X"
  shows "delivered X (decryptWriteAndRelease ev dp t)"
  using assms by (simp add: decryptWriteAndRelease_def delivered_write split: option.split)

lemma delivered_receive:
  assumes "delivered X t" "T_p2pCipher t = None" "\<not> T_decAvailable t" "genuine X d \<or> junk d"
  shows "delivered X (receive_packet ev sa from d t)"
proof (cases "DecodeChecked d")
  case (Ok m)
  have d: "d = EncodeChecked (MsgType m) (MsgPayload m)" by (rule DecodeChecked_Ok[OF Ok])
  have gen: "genuine X d" using assms(4) Ok by (simp add: junk_def)
  have data: "DP_Data dp \<in> X" if ty: "MsgType m = TypeData" and u: "UnmarshalDataPooled pl (MsgPayload m) = Ok dp" for pl dp
  proof -
    have "\<not> control d"
    proof
      assume "control d"
      then obtain k p where "k \<noteq> TypeData" "d = EncodeChecked k p" by (auto simp: control_def)
      then show False using Ok ty by (auto simp: DecodeChecked_EncodeChecked)
    qed
    then obtain src dst tok x where x: "length src = 4" "length dst = 4" "length tok = 16" "x \<in> X"
        "d = EncodeChecked TypeData (Data_Marshal (data_msg src dst tok x))"
      using gen by (auto simp: genuine_def)
    then have "MsgPayload m = Data_Marshal (data_msg src dst tok x)" using Ok by (auto simp: DecodeChecked_EncodeChecked)
    then show ?thesis using pooled_data[of pl src dst tok x dp] u x(1-4) by simp
  qed
  have s: "delivered X (handleServerData ev m t)"
  proof (cases "MsgType m = TypeData")
    case True
    have "delivered X (markServerResponse ev t)" using assms(1) by (simp add: delivered_def tun_output_def)
    moreover have "T_p2pCipher (markServerResponse ev t) = None" using assms(2) by (simp add: markServerResponse_def)
    ultimately show ?thesis using True data
      by (auto simp: handleServerData_def handleDataFromServer_def Let_def type_defs intro!: delivered_decrypt split: res.split)
  next
    case False
    then have "T_tunDev (handleServerData ev m t) = T_tunDev t" by (simp add: handleServerData_def Let_def)
    then show ?thesis using assms(1) delivered_dev by metis
  qed
  have "delivered X (handleDirectData ev from m t)"
  proof (cases "MsgType m = TypeData")
    case True
    have "delivered X (t\<lparr> T_peers := ps \<rparr>)" for ps using assms(1) by (simp add: delivered_def tun_output_def)
    then show ?thesis using True data assms(1,2)
      by (auto simp: handleDirectData_def Let_def type_defs intro!: delivered_decrypt split: res.split option.split)
  next
    case False
    then have "T_tunDev (handleDirectData ev from m t) = T_tunDev t" by (simp add: handleDirectData_def)
    then show ?thesis using assms(1) delivered_dev by metis
  qed
  then show ?thesis using s assms(3) by (simp add: receive_packet_def Ok)
qed (use assms in \<open>simp_all add: receive_packet_def delivered_def tun_output_def\<close>)

section \<open>The system\<close>

record System =
  Y_server :: Server
  Y_client :: "nat \<Rightarrow> Tunnel"
  Y_read :: "bytes set"

text \<open>Everything ever written to the network.\<close>

definition wire :: "System \<Rightarrow> bytes set" where
  "wire y = (\<Union>i. fst ` set (T_wire (Y_client y i))) \<union> fst ` set (written_pkts (RLQ_sq (S_queue (Y_server y))))"

text \<open>
  A client gets datagrams of the network, of at most the size of a UDP datagram, or damaged ones; a
  new TUN device is empty; registration may meet any answers.
\<close>

fun sys_event :: "bytes set \<Rightarrow> cevent \<Rightarrow> bool" where
  "sys_event W (Recv ev sa from d) \<longleftrightarrow> length d \<le> readBufSize \<and> (d \<in> W \<or> junk d)"
| "sys_event W (ConnectTo ev ci a mtu f) \<longleftrightarrow> fresh_devices f"
| "sys_event W _ \<longleftrightarrow> True"

inductive sys_step :: "(bytes \<Rightarrow> AEAD option) \<Rightarrow> System \<Rightarrow> System \<Rightarrow> bool" for mk where
  server_receives: "d \<in> wire y \<or> junk d \<Longrightarrow> sys_step mk y (y\<lparr> Y_server := receive d a (Y_server y) \<rparr>)"
| server_works: "server_step (Y_server y) s \<Longrightarrow> set (S_pktCh s) \<subseteq> set (S_pktCh (Y_server y)) \<Longrightarrow>
    sys_step mk y (y\<lparr> Y_server := s \<rparr>)"
| client_acts: "made_with mk e \<Longrightarrow> sys_event (wire y) e \<Longrightarrow> client_do e (Y_client y i) = Ok t \<Longrightarrow>
    sys_step mk y (y\<lparr> Y_client := (Y_client y)(i := t), Y_read := Y_read y \<union> tun_in e \<rparr>)"

definition sys_start :: "System \<Rightarrow> bool" where
  "sys_start y \<longleftrightarrow>
     (\<exists>now locals tcp cfg. newServer now locals tcp cfg = Some (Y_server y) \<and> Cfg_RoomPass cfg = [] \<and> To4 (IPNet_IP (Cfg_Subnet cfg)) \<noteq> None) \<and>
     (\<forall>i. \<exists>ev cfg. Y_client y i = New ev cfg \<and> CC_RoomPassword cfg = []) \<and> Y_read y = {}"

section \<open>The invariant of the system\<close>

definition client_in :: "(bytes \<Rightarrow> AEAD option) \<Rightarrow> bytes set \<Rightarrow> Tunnel \<Rightarrow> bool" where
  "client_in mk X t \<longleftrightarrow> (\<exists>K. K_aead K = mk \<and> K_pass K = [] \<and> client_wf K (taken_in X) t) \<and> delivered X t"

definition sys_wf :: "(bytes \<Rightarrow> AEAD option) \<Rightarrow> System \<Rightarrow> bool" where
  "sys_wf mk y \<longleftrightarrow> server_wf (Y_server y) \<and> srv_in (Collect (genuine (Y_read y))) (Y_server y) \<and>
     (\<forall>i. client_in mk (Y_read y) (Y_client y i))"

lemma client_in_mono:
  assumes "client_in mk X t" "X \<subseteq> Y"
  shows "client_in mk Y t"
proof -
  have "taken_in X \<subseteq> taken_in Y" using assms(2) by blast
  then show ?thesis using assms client_wf_mono[of _ "taken_in X" t "taken_in Y"] delivered_mono[of X t Y]
    unfolding client_in_def by blast
qed

lemma wire_genuine:
  assumes "sys_wf mk y" "d \<in> wire y"
  shows "genuine (Y_read y) d"
proof -
  consider i where "d \<in> fst ` set (T_wire (Y_client y i))"
    | "d \<in> fst ` set (written_pkts (RLQ_sq (S_queue (Y_server y))))"
    using assms(2) by (auto simp: wire_def)
  then show ?thesis
  proof cases
    case (1 i)
    obtain K where "K_pass K = []" "client_wf K (taken_in (Y_read y)) (Y_client y i)" using assms(1) by (auto simp: sys_wf_def client_in_def)
    moreover have "d \<in> outs (Y_client y i)" using 1 by (auto simp: outs_def)
    ultimately show ?thesis using emitted_genuine by (auto simp: client_wf_def outs_wf_def)
  next
    case 2
    then obtain p where "p \<in># taken_on (S_queue (Y_server y))" "d = fst p" by (auto simp: taken_on_def)
    then show ?thesis using assms(1) by (auto simp: sys_wf_def srv_in_def queue_in_def)
  qed
qed

lemma client_in_do:
  assumes "client_in mk X t" "made_with mk e" "client_do e t = Ok t'" "sys_event W e" "\<And>d. d \<in> W \<Longrightarrow> genuine X d"
  shows "client_in mk (X \<union> tun_in e) t'"
proof -
  obtain K where K: "K_aead K = mk" "K_pass K = []" "client_wf K (taken_in X) t" using assms(1) by (auto simp: client_in_def)
  have "client_wf K (taken_in X \<union> seen e) t'" using client_do_keeps[OF K(3), of e] assms(2,3) K(1) by auto
  moreover have "taken_in X \<union> seen e \<subseteq> taken_in (X \<union> tun_in e)" by (auto simp: seen_def)
  ultimately have "client_wf K (taken_in (X \<union> tun_in e)) t'" by (rule client_wf_mono)
  moreover have open_room: "T_p2pCipher t = None" "\<not> T_decAvailable t"
    using K(2,3) by (auto simp: client_wf_def session_wf_def)
  have del: "delivered X t" using assms(1) by (simp add: client_in_def)
  have "delivered X t'"
  proof (cases e)
    case (Recv ev sa fr d)
    then have "take readBufSize d = d" "genuine X d \<or> junk d" using assms(4,5) by auto
    then show ?thesis using delivered_receive[OF del open_room, of d ev sa fr] assms(3) Recv by simp
  next
    case (ConnectTo ev ci a mtu f)
    then show ?thesis using delivered_Connect[OF del, of f ev ci a mtu] assms(3,4) by auto
  next
    case CloseDev
    then show ?thesis using delivered_Close[OF del] assms(3) by auto
  next
    case (Work ev)
    then show ?thesis using tunDev_work[of ev t t'] del delivered_dev[of t' t X] assms(3) by simp
  qed (use assms(3) del delivered_dev[of t' t X] in \<open>auto split: if_splits\<close>)
  ultimately show ?thesis using K(1,2) delivered_mono[of X t' "X \<union> tun_in e"] unfolding client_in_def by blast
qed

lemma sys_step_wf:
  assumes "sys_step mk y y'" "sys_wf mk y"
  shows "sys_wf mk y'"
  using assms(1)
proof (cases rule: sys_step.cases)
  case (server_receives d a)
  have "srv_in (Collect (genuine (Y_read y))) (receive d a (Y_server y))"
  proof (rule srv_step[OF server_step.receive])
    show "set (S_pktCh (receive d a (Y_server y))) \<subseteq> set (S_pktCh (Y_server y)) \<union> {(d, a). d \<in> Collect (genuine (Y_read y)) \<or> junk d}"
      using server_receives(2) wire_genuine[OF assms(2)] by (auto simp: receive_def Let_def split: prod.splits if_splits)
  qed (use assms(2) control_genuine in \<open>auto simp: sys_wf_def\<close>)
  moreover have "server_wf (receive d a (Y_server y))"
    using assms(2) wf_server_step[OF server_step.receive] by (simp add: sys_wf_def)
  ultimately show ?thesis using assms(2) server_receives(1) by (simp add: sys_wf_def)
next
  case (server_works s)
  have "srv_in (Collect (genuine (Y_read y))) s"
    using srv_step[OF server_works(2), of "Collect (genuine (Y_read y))"] assms(2) server_works(3) control_genuine
    by (auto simp: sys_wf_def)
  moreover have "server_wf s" using assms(2) wf_server_step[OF server_works(2)] by (simp add: sys_wf_def)
  ultimately show ?thesis using assms(2) server_works(1) by (simp add: sys_wf_def)
next
  case (client_acts e i t)
  let ?X = "Y_read y \<union> tun_in e"
  have "client_in mk ?X t"
    by (rule client_in_do[OF _ client_acts(2,4,3)]) (use assms(2) wire_genuine in \<open>auto simp: sys_wf_def\<close>)
  moreover have "client_in mk ?X (Y_client y j)" for j
    by (rule client_in_mono[of mk "Y_read y"]) (use assms(2) in \<open>auto simp: sys_wf_def\<close>)
  moreover have "srv_in (Collect (genuine ?X)) (Y_server y)"
    using assms(2) srv_in_mono[OF _ genuine_mono] by (auto simp: sys_wf_def)
  ultimately show ?thesis using assms(2) client_acts(1) by (simp add: sys_wf_def)
qed

lemma sys_start_wf:
  assumes "sys_start y"
  shows "sys_wf mk y"
proof -
  obtain now locals tcp cfg where s: "newServer now locals tcp cfg = Some (Y_server y)" "Cfg_RoomPass cfg = []"
      "To4 (IPNet_IP (Cfg_Subnet cfg)) \<noteq> None"
    using assms by (auto simp: sys_start_def)
  have "srv_in D (server0 locals tcp cfg)" for D
    using s(2) by (simp add: srv_in_def server0_def Let_def queue_in_def taken_on_def newRateLimitedQueue_def newSendQueue_def
        queued_pkts_def written_pkts_def cache_ok_def zeroRoom_def)
  note s0 = this
  have "srv_in D (Y_server y)" for D
    using s(1)
  proof (cases rule: newServer_cases)
    case 1
    then show ?thesis using s0[of D] by (simp add: srv_in_def)
  next
    case (2 r)
    have "cache_ok (r\<lparr> R_onDirty := True \<rparr>)" using NewRoom_cache[OF 2(2)] by (simp add: cache_ok_def)
    then show ?thesis using 2 s0[of D] by (simp add: srv_in_def)
  qed
  moreover have "client_in mk {} (Y_client y i)" for i
  proof -
    obtain ev c where c: "Y_client y i = New ev c" "CC_RoomPassword c = []" using assms unfolding sys_start_def by blast
    have "delivered {} (New ev c)" by (simp add: delivered_def tun_output_def New_def)
    moreover have "client_wf (config_key mk c) (taken_in {}) (New ev c)" by (rule client_wf_mono[OF client_wf_New]) simp
    ultimately show ?thesis using c unfolding client_in_def
      by (auto simp: config_key_def intro!: exI[of _ "config_key mk c"])
  qed
  ultimately show ?thesis using wf_newServer[OF s(1,3)] assms by (simp add: sys_wf_def sys_start_def)
qed

text \<open>
  C3: In rooms without password no packet is invented or altered on the way: in every run of a system of a server
  without password, any number of clients without password and an unreliable network (that loses, repeats, reorders and misdelivers
  datagrams under any source address, and damages them in ways that the checksum detects), every packet a client writes to its TUN
  device is a packet that some client of the system read from its TUN device, byte for byte up to
  the documented rewriting of limited broadcasts.  Hosts that forge well-formed datagrams of their own are not
  part of this system; with a password the statement is false, since unmarked data is written as it is.
\<close>

theorem no_invented_packets:
  assumes "sys_start y0" "(sys_step mk)\<^sup>*\<^sup>* y0 y" "p \<in> set (tun_output (Y_client y i))"
  shows "\<exists>ev x sn. x \<in> Y_read y \<and> p = rewriteBroadcast ev x sn"
proof -
  have "sys_wf mk y" using assms(2) by (induction rule: rtranclp_induct) (simp_all add: sys_start_wf assms(1) sys_step_wf)
  then show ?thesis using assms(3) by (auto simp: sys_wf_def client_in_def delivered_def)
qed

section \<open>An example run\<close>

definition example_env :: CEnv where
  "example_env = sample_cenv\<lparr> N_resolve := (\<lambda>_. Some sample_addr) \<rparr>"

definition example_client :: Tunnel where
  "example_client = joined example_env sample_conf"

lemma conf_pass: "CC_RoomPassword sample_conf = []"
  by (simp add: sample_conf_def DefaultConfig_def)

lemma example_online: "online example_env" "init_ciphers example_env (New example_env sample_conf) = Inr None"
  by (simp_all add: online_def example_env_def sample_cenv_def init_ciphers_def New_def conf_pass)

lemmas example_client_state = joined_state[OF example_online, folded example_client_def, simplified]

definition example_datagram :: bytes where
  "example_datagram = EncodeChecked TypeData (Data_Marshal (data_msg [10, 10, 0, 2] [10, 10, 0, 3] (route_token example_client) example_packet))"

lemma example_first: "first_datagram example_env sample_conf = (example_datagram, None)"
  by (simp add: wire_packet_def example_client_state(2) example_datagram_def flip: example_client_def)

lemma readBuf: "length example_datagram \<le> 1000" "length example_datagram \<le> readBufSize"
  using length_route_token[of example_client] example_client_state(10)
  by (simp_all add: example_datagram_def EncodeChecked_AppendChecksum AppendChecksum_def Encode_def Data_Marshal_def data_msg_def
        example_packet_def readBufSize_def)

lemma example_received:
  "tun_output (receive_packet example_env sample_addr sample_addr example_datagram example_client) = [example_packet]"
proof -
  let ?m = "data_msg [10, 10, 0, 2] [10, 10, 0, 3] (route_token example_client) example_packet"
  have d: "(if T_decAvailable example_client then Decode example_datagram else DecodeChecked example_datagram) =
      Ok \<lparr> MsgType = TypeData, MsgPayload = Data_Marshal ?m \<rparr>"
    by (simp add: example_client_state(8) example_datagram_def DecodeChecked_EncodeChecked)
  have u: "UnmarshalDataPooled (N_payload example_env) (Data_Marshal ?m) = Ok ?m"
    by (rule pooled_data_msg) (simp_all add: example_env_def sample_cenv_def newPooled_def length_route_token example_client_state)
  have x: "DP_Data ?m = example_packet" "example_packet \<noteq> []" by (simp_all add: data_msg_def example_packet_def)
  have p: "T_p2pCipher (markServerResponse example_env example_client) = None" "T_tunDev (markServerResponse example_env example_client) = Some sample_dev"
    using example_client_state by (simp_all add: markServerResponse_def)
  have b: "rewriteBroadcast example_env example_packet sn = example_packet" for sn
    by (simp add: rewriteBroadcast_def example_packet_def split: option.split)
  have "receive_packet example_env sample_addr sample_addr example_datagram example_client =
      tun_write example_env example_packet (markServerResponse example_env example_client)"
    using receive_server_data[OF d u] x p by (simp add: decryptWriteAndRelease_def)
  then show ?thesis using tun_output_write[OF p(2), of example_env example_packet] b
    by (simp add: sample_dev_def example_env_def sample_cenv_def)
qed

definition example_sys :: "(nat \<Rightarrow> Tunnel) \<Rightarrow> bytes set \<Rightarrow> System" where
  "example_sys cs r = \<lparr> Y_server = sample_server, Y_client = cs, Y_read = r \<rparr>"

definition example_start :: System where
  "example_start = example_sys (\<lambda>_. New example_env sample_conf) {}"

lemma example_sys_step:
  assumes "made_with (N_newAead sample_cenv) e" "sys_event (wire (example_sys cs r)) e" "client_do e (cs i) = Ok t" "r' = r \<union> tun_in e"
  shows "sys_step (N_newAead sample_cenv) (example_sys cs r) (example_sys (cs(i := t)) r')"
  using sys_step.client_acts[OF assms(1,2), of i t] assms(3,4) by (simp add: example_sys_def)

lemma sample_aead: "N_newAead example_env = N_newAead sample_cenv"
  by (simp add: example_env_def)

lemma example_connects:
  "client_do (join_event example_env) (New example_env sample_conf) = Ok example_client"
  "made_with (N_newAead sample_cenv) (join_event example_env)" "sys_event W (join_event example_env)" "tun_in (join_event example_env) = {}"
  using join_event_joins by (simp_all add: example_client_def join_event_def join_input_def sample_aead fresh_devices_def sample_dev_def)

lemma example_run:
  "\<exists>y. (sys_step (N_newAead sample_cenv))\<^sup>*\<^sup>* example_start y \<and> tun_output (Y_client y 1) = [example_packet]"
proof -
  let ?step = "sys_step (N_newAead sample_cenv)"
  obtain l where l: "tunWorker example_env (tun_single_packet example_packet example_client) = Ok (sender_state example_env sample_conf l)"
    using joined_sends[OF example_online] readBuf(1) unfolding example_first fst_conv example_client_def by blast
  define c0 where "c0 = (\<lambda>_ :: nat. New example_env sample_conf)"
  define c1 where "c1 = c0(0 := example_client)"
  define c2 where "c2 = c1(0 := tun_single_packet example_packet example_client)"
  define c3 where "c3 = c2(0 := sender_state example_env sample_conf l)"
  define c4 where "c4 = c3(0 := sendLoop_data example_env (sender_state example_env sample_conf l))"
  define c5 where "c5 = c4(1 := example_client)"
  define c6 where "c6 = c5(1 := receive_packet example_env sample_addr sample_addr example_datagram example_client)"
  let ?r = "{example_packet}"
  have 1: "?step (example_sys c0 {}) (example_sys c1 {})"
    unfolding c1_def by (rule example_sys_step[where e = "join_event example_env"]) (simp_all add: c0_def example_connects)
  have 2: "?step (example_sys c1 {}) (example_sys c2 ?r)"
    unfolding c2_def by (rule example_sys_step[where e = "TunSingle example_packet"])
      (simp_all add: c1_def example_packet_valid example_client_state(1))
  have 3: "?step (example_sys c2 ?r) (example_sys c3 ?r)"
    unfolding c3_def by (rule example_sys_step[where e = "Work example_env"]) (simp_all add: c2_def l)
  have 4: "?step (example_sys c3 ?r) (example_sys c4 ?r)"
    unfolding c4_def by (rule example_sys_step[where e = "SendData example_env"]) (simp_all add: c3_def)
  have 5: "?step (example_sys c4 ?r) (example_sys c5 ?r)"
    unfolding c5_def by (rule example_sys_step[where e = "join_event example_env"])
      (simp_all add: c4_def c3_def c2_def c1_def c0_def example_connects)
  have "c5 0 = sendLoop_data example_env (sender_state example_env sample_conf l)" by (simp add: c5_def c4_def)
  then have "example_datagram \<in> wire (example_sys c5 ?r)"
    using sender_writes[OF example_online, of l] unfolding wire_def example_first example_sys_def by (auto intro!: exI[of _ "0 :: nat"])
  then have 6: "?step (example_sys c5 ?r) (example_sys c6 ?r)"
    unfolding c6_def using readBuf(2)
    by (intro example_sys_step[where e = "Recv example_env sample_addr sample_addr example_datagram"]) (simp_all add: c5_def)
  have "?step\<^sup>*\<^sup>* example_start (example_sys c6 ?r)"
    using 1 2 3 4 5 6 unfolding example_start_def c0_def by (meson converse_rtranclp_into_rtranclp r_into_rtranclp)
  moreover have "tun_output (Y_client (example_sys c6 ?r) 1) = [example_packet]" by (simp add: c6_def example_sys_def example_received)
  ultimately show ?thesis by blast
qed

theorem no_invented_packets_witness:
  "\<exists>y. (sys_step (N_newAead sample_cenv))\<^sup>*\<^sup>* example_start y \<and> tun_output (Y_client y 1) = [example_packet] \<and>
     (\<exists>ev x sn. x \<in> Y_read y \<and> example_packet = rewriteBroadcast ev x sn)"
proof -
  obtain y where y: "(sys_step (N_newAead sample_cenv))\<^sup>*\<^sup>* example_start y" "tun_output (Y_client y 1) = [example_packet]"
    using example_run by blast
  have p: "Cfg_RoomPass sample_scfg = []" "To4 (IPNet_IP (Cfg_Subnet sample_scfg)) \<noteq> None" by (simp_all add: sample_scfg_def To4_def)
  have "sys_start example_start"
    unfolding sys_start_def example_start_def example_sys_def System.select_convs using sample_newServer conf_pass p by blast
  from no_invented_packets[OF this y(1), of example_packet 1] y show ?thesis by auto
qed

end
