(* ===== verification/Broadcast.thy ===== *)
theory Broadcast
  imports TunnelGuarantees
begin

text \<open>
  The rewriting of a limited broadcast (recv_data.go): the packet that reaches the TUN device is the
  received one with the directed broadcast address of the room's network as destination and a
  valid header checksum, so that the operating system of the receiver does not drop it.
\<close>

section \<open>The folded sum\<close>

text \<open>Folding keeps the residue modulo 65535, ends below 65536 and gives zero only for zero.\<close>

lemma fold16_step:
  fixes s :: u32
  shows "unat ((s AND 0xFFFF) + drop_bit 16 s) = unat s mod 65536 + unat s div 65536"
proof -
  have m: "s AND 0xFFFF = take_bit 16 s" by (simp add: take_bit_eq_mask mask_eq_exp_minus_1)
  have q: "unat (drop_bit 16 s) = unat s div 65536" "unat (take_bit 16 s) = unat s mod 65536"
    by (simp_all add: drop_bit_eq_div take_bit_eq_mod unat_div unat_mod)
  have "unat s mod 65536 + unat s div 65536 \<le> unat s"
    using div_mult_mod_eq[of "unat s" 65536] by linarith
  then show ?thesis
    using unsigned_less[of s, where ?'a = nat] unfolding m by (subst unat_add_lem[THEN iffD1]) (simp_all add: q)
qed

lemma fold16_residue:
  "unat (fold16 s) < 65536" "unat (fold16 s) mod 65535 = unat s mod 65535" "unat (fold16 s) = 0 \<longleftrightarrow> unat s = 0"
proof (induction s rule: fold16.induct)
  case (1 s)
  have d: "drop_bit 16 s \<noteq> 0 \<longleftrightarrow> unat s div 65536 \<noteq> 0"
    by (simp add: drop_bit_eq_div unat_div unat_eq_zero[symmetric])
  have r: "(unat s mod 65536 + unat s div 65536) mod 65535 = unat s mod 65535"
  proof -
    have "unat s = (unat s mod 65536 + unat s div 65536) + 65535 * (unat s div 65536)"
      using div_mult_mod_eq[of "unat s" 65536] by linarith
    then show ?thesis by (metis mod_mult_self2)
  qed
  {
    case 1 then show ?case using "1.IH"(1) d fold16.simps[of s] by (cases "drop_bit 16 s = 0") auto
  next
    case 2 then show ?case using "1.IH"(2) d r fold16_step[of s] fold16.simps[of s] by (cases "drop_bit 16 s = 0") auto
  next
    case 3 then show ?case using "1.IH"(3) d fold16_step[of s] fold16.simps[of s] by (cases "drop_bit 16 s = 0") auto
  }
qed

section \<open>The sum over the header\<close>

definition word_at :: "bytes \<Rightarrow> nat \<Rightarrow> nat" where
  "word_at buf i = 256 * unat (buf ! i) + unat (buf ! (i + 1))"

lemma unat_ucast_byte: "unat (ucast x :: u32) = unat x" for x :: byte
proof -
  have "unat x < 256" using unsigned_less[of x, where ?'a = nat] by simp
  then have "unat x < 4294967296" by linarith
  then show ?thesis by (simp add: unsigned_ucast_eq take_bit_nat_eq_self_iff)
qed

lemma be16_word_at: "unat (be16 buf i) = word_at buf i"
proof -
  have l: "unat (buf ! i) < 256" "unat (buf ! (i + 1)) < 256"
    using unsigned_less[of "buf ! i", where ?'a = nat] unsigned_less[of "buf ! (i + 1)", where ?'a = nat] by simp_all
  have "be16 buf i = push_bit 8 (ucast (buf ! i)) + ucast (buf ! (i + 1))"
    unfolding be16_def by (rule disjunctive_add[symmetric]) (auto simp: bit_simps dest!: bit_imp_le_length)
  moreover have "unat (ucast (buf ! j) :: u32) = unat (buf ! j)" for j
    by (rule unat_ucast_byte)
  moreover have "unat (buf ! i) * 256 < 4294967296" "256 * unat (buf ! i) + unat (buf ! (i + 1)) < 4294967296"
    using l by linarith+
  ultimately show ?thesis by (simp add: word_at_def push_bit_eq_mult unat_word_ariths mult.commute)
qed

lemma word_at_less: "word_at buf i < 65536"
proof -
  have "unat (buf ! i) < 256" "unat (buf ! (i + 1)) < 256"
    using unsigned_less[of "buf ! i", where ?'a = nat] unsigned_less[of "buf ! (i + 1)", where ?'a = nat] by simp_all
  then show ?thesis unfolding word_at_def by linarith
qed

lemma sum_words_le: "(\<Sum>k\<leftarrow>xs. word_at buf (2 * k)) \<le> 65535 * length xs"
proof (induction xs)
  case (Cons k xs)
  then show ?case using word_at_less[of buf "2 * k"] by simp
qed simp

lemma header_sum_words: "ihl \<le> 60 \<Longrightarrow> unat (header_sum buf ihl) = (\<Sum>k\<leftarrow>[0..<ihl div 2]. word_at buf (2 * k))"
proof -
  have "length xs \<le> 30 \<Longrightarrow> unat (\<Sum>k\<leftarrow>xs. be16 buf (2 * k)) = (\<Sum>k\<leftarrow>xs. word_at buf (2 * k))" for xs
  proof (induction xs)
    case (Cons k xs)
    have "word_at buf (2 * k) + (\<Sum>k\<leftarrow>xs. word_at buf (2 * k)) < 2 ^ 32"
      using word_at_less[of buf "2 * k"] sum_words_le[of buf xs] Cons.prems by simp
    then show ?case using Cons by (simp add: unat_word_ariths be16_word_at)
  qed simp
  moreover assume "ihl \<le> 60"
  ultimately show ?thesis by (simp add: header_sum_def)
qed

text \<open>A change of the checksum field, word 5 of the header, changes the sum by the difference.\<close>

lemma sum_words_at:
  assumes "length a = length b" "\<And>i. i \<noteq> 10 \<Longrightarrow> i \<noteq> 11 \<Longrightarrow> i < n \<Longrightarrow> a ! i = b ! i" "20 \<le> n" "even n"
  shows "(\<Sum>k\<leftarrow>[0..<n div 2]. word_at a (2 * k)) + word_at b 10 = (\<Sum>k\<leftarrow>[0..<n div 2]. word_at b (2 * k)) + word_at a 10"
proof -
  have s: "[0..<n div 2] = [0..<5] @ 5 # [6..<n div 2]"
    using assms(3) upt_add_eq_append[of 0 5 "n div 2 - 5"] upt_conv_Cons[of 5 "n div 2"] by simp
  have o: "word_at a (2 * k) = word_at b (2 * k)" if "k \<noteq> 5" "k < n div 2" for k
  proof -
    have "2 * k + 1 < n" using that(2) assms(4) by presburger
    moreover have "2 * k \<noteq> 10" "2 * k \<noteq> 11" "2 * k + 1 \<noteq> 10" "2 * k + 1 \<noteq> 11" using that(1) by presburger+
    ultimately show ?thesis using assms(2)[of "2 * k"] assms(2)[of "2 * k + 1"] by (simp add: word_at_def)
  qed
  have "map (\<lambda>k. word_at a (2 * k)) [0..<5] = map (\<lambda>k. word_at b (2 * k)) [0..<5]"
    "map (\<lambda>k. word_at a (2 * k)) [6..<n div 2] = map (\<lambda>k. word_at b (2 * k)) [6..<n div 2]"
    using o assms(3) by auto
  then show ?thesis unfolding s map_append list.map by (simp del: map_eq_conv)
qed

section \<open>The rewritten packet\<close>

lemma put16be_word: "256 * unat (put16be v ! 0) + unat (put16be v ! 1) = unat v"
proof -
  have "unat v < 65536" using unsigned_less[of v, where ?'a = nat] by simp
  then have "unat (ucast (drop_bit 8 v) :: byte) = unat v div 256" "unat (ucast v :: byte) = unat v mod 256"
    by (simp_all add: unsigned_ucast_eq drop_bit_eq_div unat_div take_bit_eq_mod)
  then show ?thesis by (simp add: put16be_def)
qed

lemma unat_not16: "unat s < 65536 \<Longrightarrow> unat (NOT (ucast s :: u16)) = 65535 - unat s" for s :: u32
proof -
  assume l: "unat s < 65536"
  then have "unat (ucast s :: u16) = unat s" by (simp add: unsigned_ucast_eq take_bit_nat_eq_self)
  moreover have "NOT x = - 1 - x" "unat (- 1 - x) = 65535 - unat x" for x :: u16
    using unat_sub[of x "- 1"] by (simp_all add: not_eq_complement unsigned_minus_1_eq_mask mask_eq_exp_minus_1)
  ultimately show ?thesis by simp
qed

text \<open>The header with its checksum field zeroed and the new destination, and the bytes of the checksum.\<close>

definition zeroed_packet :: "bytes \<Rightarrow> bytes \<Rightarrow> bytes" where
  "zeroed_packet ipkt b = (take 16 ipkt @ b @ drop 20 ipkt)[10 := 0, 11 := 0]"

lemma zeroed_simps:
  assumes "20 \<le> length ipkt" "length b = 4"
  shows "length (zeroed_packet ipkt b) = length ipkt" "take 4 (drop 16 (zeroed_packet ipkt b)) = b"
    "word_at (zeroed_packet ipkt b) 10 = 0"
    "i < length ipkt \<Longrightarrow> i \<notin> {10, 11, 16, 17, 18, 19} \<Longrightarrow> zeroed_packet ipkt b ! i = ipkt ! i"
proof -
  show "length (zeroed_packet ipkt b) = length ipkt" using assms by (simp add: zeroed_packet_def)
  show "take 4 (drop 16 (zeroed_packet ipkt b)) = b" using assms by (simp add: zeroed_packet_def drop_update_cancel)
  show "word_at (zeroed_packet ipkt b) 10 = 0" using assms by (simp add: zeroed_packet_def word_at_def)
  assume i: "i < length ipkt" "i \<notin> {10, 11, 16, 17, 18, 19}"
  then have "i < 16 \<or> 20 \<le> i" by auto
  then show "zeroed_packet ipkt b ! i = ipkt ! i"
    using i assms by (auto simp: zeroed_packet_def nth_append min_def)
qed

lemma header_sum_prefix: "even ihl \<Longrightarrow> ihl \<le> length xs \<Longrightarrow> header_sum (xs @ rest) ihl = header_sum xs ihl"
  unfolding header_sum_def by (intro arg_cong[of _ _ sum_list] map_cong refl) (auto simp: be16_def nth_append)

lemma rewrite_changed:
  assumes "20 \<le> length ipkt" "drop_bit 4 (ipkt ! 0) = 4" "take 4 (drop 16 ipkt) = [255, 255, 255, 255]"
    "To4 (IPNet_IP n) = Some s" "length (IPNet_Mask n) = 4" "b = map2 (\<lambda>x m. x OR NOT m) s (IPNet_Mask n)"
    "ihl = 4 * unat (ipkt ! 0 AND 0x0F)" "ihl \<le> length ipkt"
  shows "rewriteBroadcast ev ipkt (Some n) =
    (let c = put16be (NOT (ucast (fold16 (header_sum (zeroed_packet ipkt b) ihl))))
     in (zeroed_packet ipkt b)[10 := c ! 0, 11 := c ! 1])"
proof -
  have b: "length b = 4" "map2 (\<lambda>x m. x OR NOT m) s (take 4 (IPNet_Mask n)) = b"
    using assms(4-6) To4_length by auto
  have z: "zeroed_packet ipkt b ! 0 = ipkt ! 0" using zeroed_simps(4)[OF assms(1) b(1), of 0] assms(1) by fastforce
  have h: "header_sum (zeroed_packet ipkt b @ rest) ihl = header_sum (zeroed_packet ipkt b) ihl" for rest
    by (rule header_sum_prefix) (use zeroed_simps(1)[OF assms(1) b(1)] assms(7,8) in auto)
  show ?thesis
    using assms(1-5,7) b(2) z h unfolding rewriteBroadcast_def zeroed_packet_def[symmetric]
    by (auto simp: Let_def zeroed_packet_def[symmetric])
qed

lemma and_15_le: "unat (x AND 0x0F) \<le> 15" for x :: byte
  using word_and_le1[of x 15] by (simp add: word_le_nat_alt)

text \<open>A sum that was completed to a multiple of 65535 folds to the all-ones word.\<close>

lemma fold16_full:
  assumes "unat s = a + (65535 - f)" "f mod 65535 = a mod 65535" "f < 65536" "f = 0 \<longleftrightarrow> a = 0"
  shows "fold16 s = 0xFFFF"
proof -
  have "(a + (65535 - f)) mod 65535 = (f + (65535 - f)) mod 65535" using assms(2) by (metis mod_add_left_eq)
  then have "unat s mod 65535 = 0" "unat s \<noteq> 0" using assms by auto
  then have f: "unat (fold16 s) mod 65535 = 0" "unat (fold16 s) \<noteq> 0" "unat (fold16 s) < 65536"
    using fold16_residue[of s] by simp_all
  then have "65535 dvd unat (fold16 s)" by presburger
  then have "unat (fold16 s) = 65535" using f(2,3) by (auto elim!: dvdE)
  then have "unat (fold16 s) = unat (0xFFFF :: u32)" by simp
  then show ?thesis by (rule word_unat_eq_iff[THEN iffD2])
qed

text \<open>
  C13: A limited broadcast becomes a valid directed one: the packet written to the TUN device has
  the broadcast address of the room's network as destination, a header checksum that verifies
  (the words of the header add up to all ones), and all other bytes as received.
\<close>

theorem broadcast_rewritten_valid:
  assumes "20 \<le> length ipkt" "drop_bit 4 (ipkt ! 0) = 4" "take 4 (drop 16 ipkt) = [255, 255, 255, 255]"
    "To4 (IPNet_IP n) = Some s" "length (IPNet_Mask n) = 4"
    "ihl = 4 * unat (ipkt ! 0 AND 0x0F)" "20 \<le> ihl" "ihl \<le> length ipkt" "out = rewriteBroadcast ev ipkt (Some n)"
  shows "fold16 (header_sum out ihl) = 0xFFFF \<and> take 4 (drop 16 out) = map2 (\<lambda>x m. x OR NOT m) s (IPNet_Mask n) \<and>
    length out = length ipkt \<and> (\<forall>i<length ipkt. i \<notin> {10, 11, 16, 17, 18, 19} \<longrightarrow> out ! i = ipkt ! i)"
proof -
  let ?b = "map2 (\<lambda>x m. x OR NOT m) s (IPNet_Mask n)" and ?z = "zeroed_packet ipkt (map2 (\<lambda>x m. x OR NOT m) s (IPNet_Mask n))"
  have b: "length ?b = 4" using assms(4,5) To4_length by auto
  note z = zeroed_simps[OF assms(1) b]
  define F where "F = fold16 (header_sum ?z ihl)"
  define c where "c = put16be (NOT (ucast F :: u16))"
  have out: "out = ?z[10 := c ! 0, 11 := c ! 1]"
    using rewrite_changed[OF assms(1-5) refl assms(6,8), of ev] assms(9) by (simp add: F_def c_def Let_def)
  have l: "length out = length ipkt" using z(1) out by simp
  have ih: "ihl \<le> 60" "even ihl" using and_15_le[of "ipkt ! 0"] assms(6) by auto
  have "256 * unat (c ! 0) + unat (c ! 1) = 65535 - unat F"
    unfolding c_def put16be_word by (rule unat_not16) (simp add: F_def fold16_residue)
  then have w: "word_at out 10 = 65535 - unat F" using out z(1) assms(1) by (simp add: word_at_def)
  have sum: "unat (header_sum out ihl) = unat (header_sum ?z ihl) + (65535 - unat F)"
    using sum_words_at[of out ?z ihl] header_sum_words[OF ih(1)] l z(1,3) w out assms(7) ih(2) by simp
  have "fold16 (header_sum out ihl) = 0xFFFF"
    by (rule fold16_full[OF sum]) (simp_all only: F_def fold16_residue)
  moreover have "take 4 (drop 16 out) = ?b" using z(2) out by (simp add: drop_update_cancel)
  moreover have "out ! i = ipkt ! i" if "i < length ipkt" "i \<notin> {10, 11, 16, 17, 18, 19}" for i
    using z(4)[OF that] that out by simp
  ultimately show ?thesis using l by blast
qed

text \<open>A UDP broadcast of the player 10.10.0.2 in the network 10.10.0.0/24.\<close>

definition limited_broadcast :: bytes where
  "limited_broadcast = [0x45, 0, 0, 20, 0, 0, 0, 0, 64, 17, 0, 0, 10, 10, 0, 2, 255, 255, 255, 255]"

definition room_net :: IPNet where
  "room_net = \<lparr> IPNet_IP = [10, 10, 0, 0], IPNet_Mask = [255, 255, 255, 0] \<rparr>"

theorem broadcast_rewritten_valid_witness:
  "take 4 (drop 16 (rewriteBroadcast sample_cenv limited_broadcast (Some room_net))) = [10, 10, 0, 255] \<and>
   fold16 (header_sum (rewriteBroadcast sample_cenv limited_broadcast (Some room_net)) 20) = 0xFFFF"
proof -
  have c: "drop_bit 4 (limited_broadcast ! 0) = 4" "20 = 4 * unat (limited_broadcast ! 0 AND 0x0F)"
    "map2 (\<lambda>x m. x OR NOT m) [10, 10, 0, 0] (IPNet_Mask room_net) = [10, 10, 0, 255]"
    by code_simp+
  have f: "20 \<le> length limited_broadcast" "take 4 (drop 16 limited_broadcast) = [255, 255, 255, 255]"
    "To4 (IPNet_IP room_net) = Some [10, 10, 0, 0]" "length (IPNet_Mask room_net) = 4"
    by (simp_all add: limited_broadcast_def room_net_def To4_def)
  show ?thesis
    using broadcast_rewritten_valid[OF f(1) c(1) f(2-4) c(2) order_refl f(1) refl, of sample_cenv] unfolding c(3) by blast
qed

end
