(* ===== verification/SingleInstance.thy ===== *)
theory SingleInstance
  imports GoNet
begin

text \<open>
  The single-instance lock (internal/singleinstance: lock_unix.go, lock_windows.go) and how the two commands keep
  it.  The part of the file system that matters is the lock path, the files it has named (by
  inode), who holds the flock of each, and the processes that are alive.  \<open>Acquire\<close> is the
  whole call; \<open>lstep\<close> is one system call of one process, so that calls of several processes interleave.
\<close>

section \<open>Files, locks and processes\<close>

type_synonym pid = int

record LockFS =
  LF_path :: "nat option"
  LF_data :: "nat \<Rightarrow> bytes"
  LF_flock :: "nat \<Rightarrow> pid option"
  LF_fresh :: nat
  LF_alive :: "pid list"

text \<open>
  What the system permits: opening the path, truncating and writing the file, removing the path; and the processes
  of other users, which this program may not signal.
\<close>

record AcqOS =
  AO_open :: bool
  AO_trunc :: bool
  AO_write :: bool
  AO_remove :: bool
  AO_foreign :: "pid list"

definition open_lock :: "LockFS \<Rightarrow> nat \<times> LockFS" where
  "open_lock w =
     (case LF_path w of
        Some i \<Rightarrow> (i, w)
      | None \<Rightarrow> (LF_fresh w, w\<lparr> LF_path := Some (LF_fresh w), LF_data := (LF_data w)(LF_fresh w := []),
                               LF_fresh := LF_fresh w + 1 \<rparr>))"

definition flock :: "pid \<Rightarrow> nat \<Rightarrow> LockFS \<Rightarrow> bool \<times> LockFS" where
  "flock p i w =
     (case LF_flock w i of None \<Rightarrow> (True, w\<lparr> LF_flock := (LF_flock w)(i := Some p) \<rparr>) | Some q \<Rightarrow> (False, w))"

definition unlock :: "pid \<Rightarrow> LockFS \<Rightarrow> LockFS" where
  "unlock p w = w\<lparr> LF_flock := (\<lambda>i. if LF_flock w i = Some p then None else LF_flock w i) \<rparr>"

definition remove_lock :: "AcqOS \<Rightarrow> LockFS \<Rightarrow> LockFS" where
  "remove_lock os w = (if AO_remove os then w\<lparr> LF_path := None \<rparr> else w)"

text \<open>The number \<open>strconv.Atoi\<close> returns even with an error: 0 for bad syntax, the nearest bound out of range.\<close>

definition atoi_val :: "bytes \<Rightarrow> int" where
  "atoi_val s =
     (let neg = (s \<noteq> [] \<and> hd s = 45);
          ds = (if s \<noteq> [] \<and> (hd s = 43 \<or> hd s = 45) then tl s else s)
      in if ds = [] then 0
         else case undec 0 ds of None \<Rightarrow> 0
              | Some n \<Rightarrow> if neg then max (- (2 ^ 63)) (- int n) else min (2 ^ 63 - 1) (int n))"

definition readPIDFile :: "LockFS \<Rightarrow> int" where
  "readPIDFile w = (case LF_path w of None \<Rightarrow> atoi_val [] | Some i \<Rightarrow> atoi_val (LF_data w i))"

text \<open>Signal 0 fails for a process that is gone and, with EPERM, for one of another user.\<close>

definition processAlive :: "AcqOS \<Rightarrow> LockFS \<Rightarrow> int \<Rightarrow> bool" where
  "processAlive os w p \<longleftrightarrow> p \<in> set (LF_alive w) \<and> p \<notin> set (AO_foreign os)"

definition truncate_pid :: "AcqOS \<Rightarrow> nat \<Rightarrow> LockFS \<Rightarrow> LockFS" where
  "truncate_pid os i w = (if AO_trunc os then w\<lparr> LF_data := (LF_data w)(i := []) \<rparr> else w)"

definition write_pid :: "AcqOS \<Rightarrow> nat \<Rightarrow> pid \<Rightarrow> LockFS \<Rightarrow> LockFS" where
  "write_pid os i p w =
     (if AO_write os then
        w\<lparr> LF_data := (LF_data w)(i := itoa p @ drop (length (itoa p)) (LF_data w i)) \<rparr>
      else w)"

definition writePIDFile :: "AcqOS \<Rightarrow> nat \<Rightarrow> pid \<Rightarrow> LockFS \<Rightarrow> LockFS" where
  "writePIDFile os i p w = write_pid os i p (truncate_pid os i w)"

section \<open>Acquire and Close (lock_unix.go)\<close>

datatype acq_err = OpenFailed | RunningAs int | Running | BadMutexName | MutexFailed

record Lock =
  Lk_file :: "nat option"

text \<open>The call recurses after it removed a stale file; the fuel bounds the depth, None is its end.\<close>

fun Acquire :: "AcqOS \<Rightarrow> nat \<Rightarrow> pid \<Rightarrow> LockFS \<Rightarrow> ((acq_err + Lock) \<times> LockFS) option" where
  "Acquire os 0 p w = None"
| "Acquire os (Suc k) p w =
     (if \<not> AO_open os then Some (Inl OpenFailed, w)
      else
        (let (i, w1) = open_lock w; (ok, w2) = flock p i w1 in
         if ok then Some (Inr \<lparr> Lk_file = Some i \<rparr>, writePIDFile os i p w2)
         else
           (let holdingPID = readPIDFile w2 in
            if 0 < holdingPID \<and> \<not> processAlive os w2 holdingPID then Acquire os k p (remove_lock os w2)
            else if 0 < holdingPID then Some (Inl (RunningAs holdingPID), w2)
            else Some (Inl Running, w2))))"

definition Lock_Close :: "pid \<Rightarrow> Lock \<Rightarrow> LockFS \<Rightarrow> LockFS" where
  "Lock_Close p l w =
     (case Lk_file l of None \<Rightarrow> w
      | Some i \<Rightarrow> if LF_flock w i = Some p then w\<lparr> LF_flock := (LF_flock w)(i := None) \<rparr> else w)"

section \<open>The lock on Windows (lock_windows.go)\<close>

text \<open>
  \<open>create\<close> is \<open>windows.CreateMutex\<close> with the code of GetLastError after it, None its error; the result has the
  handle, or the error and whether the handle was closed.
\<close>

definition ERROR_ALREADY_EXISTS :: nat where "ERROR_ALREADY_EXISTS = 183"

definition W_Acquire :: "(bytes \<Rightarrow> (nat \<times> nat) option) \<Rightarrow> bytes \<Rightarrow> (acq_err \<times> bool) + nat" where
  "W_Acquire create name =
     (if 0 \<in> set name then Inl (BadMutexName, False)
      else
        (case create (lit ''Global'' @ [92] @ name) of
           None \<Rightarrow> Inl (MutexFailed, False)
         | Some (handle, lastErr) \<Rightarrow>
             if lastErr = ERROR_ALREADY_EXISTS then Inl (Running, True) else Inr handle))"

text \<open>Whether the mutex is released.\<close>

definition W_Lock_Close :: "nat \<Rightarrow> bool" where
  "W_Lock_Close handle \<longleftrightarrow> handle \<noteq> 0"

section \<open>Programs that are started, run and end\<close>

text \<open>
  \<open>M_running\<close> are the processes whose \<open>main\<close> went past the check.  A command either keeps the lock (cmd/server:
  \<open>defer lock.Close()\<close>) or drops the value of \<open>Acquire\<close> (cmd/client: \<open>if _, err := ...\<close>); then
  the garbage collector may close the file at any time.
\<close>

record Machine =
  M_fs :: LockFS
  M_running :: "pid list"

definition start_instance :: "AcqOS \<Rightarrow> nat \<Rightarrow> pid \<Rightarrow> Machine \<Rightarrow> Machine option" where
  "start_instance os k p m =
     (let fs = (M_fs m)\<lparr> LF_alive := p # LF_alive (M_fs m) \<rparr> in
      case Acquire os k p fs of
        None \<Rightarrow> None
      | Some (Inr l, w) \<Rightarrow> Some \<lparr> M_fs = w, M_running = p # M_running m \<rparr>
      | Some (Inl e, w) \<Rightarrow> Some (m\<lparr> M_fs := w\<lparr> LF_alive := LF_alive (M_fs m) \<rparr> \<rparr>))"

definition end_instance :: "pid \<Rightarrow> Machine \<Rightarrow> Machine" where
  "end_instance p m =
     \<lparr> M_fs = (unlock p (M_fs m))\<lparr> LF_alive := removeAll p (LF_alive (M_fs m)) \<rparr>, M_running = removeAll p (M_running m) \<rparr>"

definition collect_lock :: "pid \<Rightarrow> Machine \<Rightarrow> Machine" where
  "collect_lock p m = m\<lparr> M_fs := unlock p (M_fs m) \<rparr>"

inductive inst_step :: "AcqOS \<Rightarrow> bool \<Rightarrow> Machine \<Rightarrow> Machine \<Rightarrow> bool" for os :: AcqOS and keep :: bool where
  start: "inst_step os keep m m'"
    if "0 < p" "p < 2 ^ 22" "p \<notin> set (LF_alive (M_fs m))" "start_instance os 2 p m = Some m'"
| finish: "inst_step os keep m (end_instance p m)" if "p \<in> set (M_running m)"
| other: "inst_step os keep m (m\<lparr> M_fs := (M_fs m)\<lparr> LF_alive := ps \<rparr> \<rparr>)" if "set (M_running m) \<subseteq> set ps"
| collect: "inst_step os keep m (collect_lock p m)" if "\<not> keep" "p \<in> set (M_running m)"

section \<open>Interleaved system calls\<close>

text \<open>
  Where a process is in \<open>Acquire\<close>: \<open>Blocked\<close> is after the failed flock, \<open>Stale\<close> after the dead PID was
  read, \<open>Locked\<close> before and \<open>Emptied\<close> after the truncation.
\<close>

datatype lpc = Idle | Opening | Opened nat | Blocked | Stale | Locked nat | Emptied nat | Holding nat | Refused

record LState =
  LS_fs :: LockFS
  LS_pc :: "pid \<Rightarrow> lpc"

definition all_ok :: AcqOS where
  "all_ok = \<lparr> AO_open = True, AO_trunc = True, AO_write = True, AO_remove = True, AO_foreign = [] \<rparr>"

definition lstep :: "pid \<Rightarrow> LState \<Rightarrow> LState" where
  "lstep p s =
     (let w = LS_fs s; goto = (\<lambda>w c. s\<lparr> LS_fs := w, LS_pc := (LS_pc s)(p := c) \<rparr>) in
      case LS_pc s p of
        Idle \<Rightarrow> goto (w\<lparr> LF_alive := p # LF_alive w \<rparr>) Opening
      | Opening \<Rightarrow> (let (i, w1) = open_lock w in goto w1 (Opened i))
      | Opened i \<Rightarrow> (let (ok, w1) = flock p i w in goto w1 (if ok then Locked i else Blocked))
      | Blocked \<Rightarrow> (let h = readPIDFile w in goto w (if 0 < h \<and> \<not> processAlive all_ok w h then Stale else Refused))
      | Stale \<Rightarrow> goto (remove_lock all_ok w) Opening
      | Locked i \<Rightarrow> goto (truncate_pid all_ok i w) (Emptied i)
      | Emptied i \<Rightarrow> goto (write_pid all_ok i p w) (Holding i)
      | Holding i \<Rightarrow> s
      | Refused \<Rightarrow> s)"

definition lexit :: "pid \<Rightarrow> LState \<Rightarrow> LState" where
  "lexit p s = s\<lparr> LS_fs := (unlock p (LS_fs s))\<lparr> LF_alive := removeAll p (LF_alive (LS_fs s)) \<rparr>, LS_pc := (LS_pc s)(p := Idle) \<rparr>"

datatype levent = Go int | Exit int

definition lrun_event :: "levent \<Rightarrow> LState \<Rightarrow> LState" where
  "lrun_event e s = (case e of Go p \<Rightarrow> lstep p s | Exit p \<Rightarrow> lexit p s)"

definition lsched :: "levent list \<Rightarrow> LState \<Rightarrow> LState" where
  "lsched es s = fold lrun_event es s"

definition empty_fs :: LockFS where
  "empty_fs = \<lparr> LF_path = None, LF_data = (\<lambda>_. []), LF_flock = (\<lambda>_. None), LF_fresh = 0, LF_alive = [] \<rparr>"

definition empty_lstate :: LState where
  "empty_lstate = \<lparr> LS_fs = empty_fs, LS_pc = (\<lambda>_. Idle) \<rparr>"

section \<open>Lemmas\<close>

lemma atoi_val_itoa: "0 \<le> v \<Longrightarrow> v < 2 ^ 63 \<Longrightarrow> atoi_val (itoa v) = v"
  using hd_dec_digit[of "nat v"] by (auto simp: atoi_val_def itoa_def Let_def is_digit_def)

definition fs_wf :: "LockFS \<Rightarrow> bool" where
  "fs_wf w \<longleftrightarrow> (\<forall>i. LF_fresh w \<le> i \<longrightarrow> LF_flock w i = None) \<and> (\<forall>i. LF_path w = Some i \<longrightarrow> i < LF_fresh w)"

lemma open_flock:
  assumes "fs_wf w" "LF_path w = None"
  shows "Acquire os (Suc k) p w =
    (if AO_open os then Some (Inr \<lparr> Lk_file = Some (LF_fresh w) \<rparr>, writePIDFile os (LF_fresh w) p (snd (flock p (LF_fresh w) (snd (open_lock w)))))
     else Some (Inl OpenFailed, w))"
  using assms by (simp add: open_lock_def flock_def fs_wf_def)

text \<open>One instance at most, and its PID is in the file under the lock path.\<close>

definition inst_wf :: "Machine \<Rightarrow> bool" where
  "inst_wf m \<longleftrightarrow> fs_wf (M_fs m) \<and>
     (case M_running m of
        [] \<Rightarrow> \<forall>i. LF_flock (M_fs m) i = None
      | [p] \<Rightarrow> 0 < p \<and> p < 2 ^ 22 \<and> p \<in> set (LF_alive (M_fs m)) \<and>
          (\<exists>i. LF_path (M_fs m) = Some i \<and> LF_data (M_fs m) i = itoa p \<and> (\<forall>j. LF_flock (M_fs m) j = (if j = i then Some p else None)))
      | p # q # ps \<Rightarrow> False)"

lemma acquire_free:
  assumes "fs_wf w" "\<forall>i. LF_flock w i = None" "AO_open os" "AO_trunc os" "AO_write os"
  obtains i w' where "Acquire os (Suc k) p w = Some (Inr \<lparr> Lk_file = Some i \<rparr>, w')" "fs_wf w'" "LF_path w' = Some i"
    "LF_data w' i = itoa p" "\<forall>j. LF_flock w' j = (if j = i then Some p else None)" "LF_alive w' = LF_alive w"
proof -
  have "\<exists>i w'. Acquire os (Suc k) p w = Some (Inr \<lparr> Lk_file = Some i \<rparr>, w') \<and> fs_wf w' \<and> LF_path w' = Some i \<and>
      LF_data w' i = itoa p \<and> (\<forall>j. LF_flock w' j = (if j = i then Some p else None)) \<and> LF_alive w' = LF_alive w"
    using assms
    by (cases "LF_path w") (auto simp: open_lock_def flock_def writePIDFile_def truncate_pid_def write_pid_def fs_wf_def)
  then show thesis using that by blast
qed

lemma acquire_taken:
  assumes "LF_path w = Some i" "LF_data w i = itoa q" "LF_flock w i = Some q" "0 < q" "q < 2 ^ 22" "q \<in> set (LF_alive w)" "AO_open os" "AO_foreign os = []"
  shows "Acquire os (Suc k) p w = Some (Inl (RunningAs q), w)"
  using assms atoi_val_itoa[of q] by (simp add: open_lock_def flock_def readPIDFile_def processAlive_def)

lemma start_wf:
  assumes "inst_wf m" "0 < p" "p < 2 ^ 22" "start_instance os 2 p m = Some m'" "AO_trunc os" "AO_write os" "AO_foreign os = []"
  shows "inst_wf m'"
proof (cases "AO_open os")
  case False
  then have "m' = m" using assms(4) by (simp add: start_instance_def numeral_2_eq_2)
  then show ?thesis using assms(1) by simp
next
  case op: True
  let ?w = "(M_fs m)\<lparr> LF_alive := p # LF_alive (M_fs m) \<rparr>"
  have wf: "fs_wf ?w" using assms(1) by (simp add: inst_wf_def fs_wf_def)
  consider "M_running m = []" | q where "M_running m = [q]"
    using assms(1) by (auto simp: inst_wf_def split: list.splits)
  then show ?thesis
  proof cases
    case 1
    then have free: "\<forall>i. LF_flock ?w i = None" using assms(1) by (simp add: inst_wf_def)
    obtain i w' where a: "Acquire os (Suc 1) p ?w = Some (Inr \<lparr> Lk_file = Some i \<rparr>, w')" "fs_wf w'" "LF_path w' = Some i"
      "LF_data w' i = itoa p" "\<forall>j. LF_flock w' j = (if j = i then Some p else None)" "LF_alive w' = LF_alive ?w"
      using acquire_free[OF wf free op assms(5,6)] by blast
    have "m' = \<lparr> M_fs = w', M_running = [p] \<rparr>"
      using assms(4) a(1) 1 by (simp add: start_instance_def numeral_2_eq_2 Let_def del: Acquire.simps)
    then show ?thesis using a assms(2,3) by (simp add: inst_wf_def)
  next
    case (2 q)
    then obtain i where i: "LF_path ?w = Some i" "LF_data ?w i = itoa q" "LF_flock ?w i = Some q" "0 < q" "q < 2 ^ 22"
        "q \<in> set (LF_alive ?w)"
      using assms(1) by (auto simp: inst_wf_def)
    have "m' = m" using assms(4) acquire_taken[OF i op assms(7), of 1 p] by (simp add: start_instance_def numeral_2_eq_2 Let_def del: Acquire.simps)
    then show ?thesis using assms(1) by simp
  qed
qed

lemma finish_wf:
  assumes "inst_wf m" "p \<in> set (M_running m)"
  shows "inst_wf (end_instance p m)"
proof -
  have "M_running m = [p]" using assms by (auto simp: inst_wf_def split: list.splits)
  then show ?thesis using assms(1) by (auto simp: inst_wf_def end_instance_def unlock_def fs_wf_def split: if_splits)
qed

lemma inst_step_wf:
  assumes "inst_step os True m m'" "inst_wf m" "AO_trunc os" "AO_write os" "AO_foreign os = []"
  shows "inst_wf m'"
  using assms(1)
proof cases
  case (start p)
  then show ?thesis using start_wf assms(2-5) by blast
next
  case (finish p)
  then show ?thesis using finish_wf assms(2) by simp
next
  case (other ps)
  then show ?thesis using assms(2) by (auto simp: inst_wf_def fs_wf_def split: list.splits)
qed simp

text \<open>A whole call is one of the interleavings.\<close>

definition at_pc :: "LState \<Rightarrow> pid \<Rightarrow> LockFS \<Rightarrow> lpc \<Rightarrow> LState" where
  "at_pc s p w c = s\<lparr> LS_fs := w, LS_pc := (LS_pc s)(p := c) \<rparr>"

definition ends_as :: "acq_err + Lock \<Rightarrow> lpc \<Rightarrow> bool" where
  "ends_as r c \<longleftrightarrow> (case r of Inl e \<Rightarrow> c = Refused | Inr l \<Rightarrow> (\<exists>i. c = Holding i \<and> Lk_file l = Some i))"

lemma lstep_at_pc [simp]:
  "lstep p (at_pc s p w Opening) = (let (i, w1) = open_lock w in at_pc s p w1 (Opened i))"
  "lstep p (at_pc s p w (Opened i)) = (let (ok, w1) = flock p i w in at_pc s p w1 (if ok then Locked i else Blocked))"
  "lstep p (at_pc s p w Blocked) =
     at_pc s p w (if 0 < readPIDFile w \<and> \<not> processAlive all_ok w (readPIDFile w) then Stale else Refused)"
  "lstep p (at_pc s p w Stale) = at_pc s p (remove_lock all_ok w) Opening"
  "lstep p (at_pc s p w (Locked i)) = at_pc s p (truncate_pid all_ok i w) (Emptied i)"
  "lstep p (at_pc s p w (Emptied i)) = at_pc s p (write_pid all_ok i p w) (Holding i)"
  by (simp_all add: lstep_def at_pc_def Let_def split: prod.splits)

lemma acquire_steps:
  "Acquire all_ok k p w = Some (r, w') \<Longrightarrow> \<exists>n c. (lstep p ^^ n) (at_pc s p w Opening) = at_pc s p w' c \<and> ends_as r c"
proof (induction k arbitrary: w)
  case (Suc k)
  obtain i w1 where o: "open_lock w = (i, w1)" by fastforce
  obtain ok w2 where f: "flock p i w1 = (ok, w2)" by fastforce
  have two: "(lstep p ^^ 2) (at_pc s p w Opening) = at_pc s p w2 (if ok then Locked i else Blocked)"
    by (simp add: numeral_2_eq_2 o f)
  have more: "\<exists>n c. (lstep p ^^ n) (at_pc s p w Opening) = at_pc s p w' c \<and> ends_as r c"
    if "(lstep p ^^ n) (at_pc s p w2 (if ok then Locked i else Blocked)) = at_pc s p w' c" "ends_as r c" for n c
    using that two by (metis comp_apply funpow_add)
  show ?case
  proof (cases ok)
    case True
    then have "r = Inr \<lparr> Lk_file = Some i \<rparr>" "w' = writePIDFile all_ok i p w2"
      using Suc.prems o f by (simp_all add: all_ok_def)
    then show ?thesis
      using True more[of 2 "Holding i"] by (simp add: numeral_2_eq_2 writePIDFile_def ends_as_def)
  next
    case False
    show ?thesis
    proof (cases "0 < readPIDFile w2 \<and> \<not> processAlive all_ok w2 (readPIDFile w2)")
      case stale: True
      then have "Acquire all_ok k p (remove_lock all_ok w2) = Some (r, w')" using Suc.prems o f False by (simp add: all_ok_def)
      from Suc.IH[OF this] obtain n c where n: "(lstep p ^^ n) (at_pc s p (remove_lock all_ok w2) Opening) = at_pc s p w' c" "ends_as r c"
        by blast
      have b: "(lstep p ^^ 2) (at_pc s p w2 Blocked) = at_pc s p (remove_lock all_ok w2) Opening"
        using stale by (simp add: numeral_2_eq_2)
      have "(lstep p ^^ (n + 2)) (at_pc s p w2 Blocked) = at_pc s p w' c"
        by (simp only: funpow_add comp_apply b n(1))
      then show ?thesis using more[of "n + 2" c] False n(2) by simp
    next
      case live: False
      then have "w' = w2" "\<exists>e. r = Inl e" using Suc.prems o f False by (auto simp: all_ok_def Let_def split: if_splits)
      then show ?thesis using more[of 1 Refused] False live by (auto simp: ends_as_def)
    qed
  qed
qed simp

section \<open>Properties\<close>

text \<open>
  C30: At most one instance: if every call of \<open>Acquire\<close> runs undisturbed, the program keeps the lock it got, truncating and
  writing the lock file succeeds (whose errors the program only logs) and no process belongs to another user, then
  however instances start, end or die, and whatever the lock file held before, at most one instance
  runs at any time; its PID is in the lock file, so the check for a dead owner never removes
  a lock in use.
\<close>

theorem instance_exclusive:
  assumes "(inst_step os True)\<^sup>*\<^sup>* \<lparr> M_fs = w, M_running = [] \<rparr> m" "fs_wf w" "\<forall>i. LF_flock w i = None"
    "AO_trunc os" "AO_write os" "AO_foreign os = []"
  shows "length (M_running m) \<le> 1 \<and>
    (\<forall>p. p \<in> set (M_running m) \<longrightarrow> readPIDFile (M_fs m) = p \<and> processAlive os (M_fs m) p)"
proof -
  have "inst_wf m"
    using assms(1)
  proof (induction rule: rtranclp_induct)
    case base
    then show ?case using assms(2,3) by (simp add: inst_wf_def)
  next
    case (step m m')
    then show ?case using inst_step_wf assms(4-6) by blast
  qed
  then show ?thesis
    using assms(6) by (auto simp: inst_wf_def readPIDFile_def processAlive_def atoi_val_itoa split: list.splits)
qed

theorem instance_exclusive_witness:
  "\<exists>m. start_instance all_ok 2 5 \<lparr> M_fs = empty_fs, M_running = [] \<rparr> = Some m \<and> length (M_running m) \<le> 1 \<and> readPIDFile (M_fs m) = 5"
proof -
  have f: "fs_wf empty_fs" "\<forall>i. LF_flock empty_fs i = None" by (simp_all add: fs_wf_def empty_fs_def)
  have ok: "AO_trunc all_ok" "AO_write all_ok" "AO_foreign all_ok = []" by (simp_all add: all_ok_def)
  obtain m where m: "start_instance all_ok 2 5 \<lparr> M_fs = empty_fs, M_running = [] \<rparr> = Some m" "M_running m = [5]"
    by (simp add: start_instance_def numeral_2_eq_2 all_ok_def open_lock_def flock_def empty_fs_def)
  have "inst_step all_ok True \<lparr> M_fs = empty_fs, M_running = [] \<rparr> m"
    by (rule inst_step.start[of 5]) (use m in \<open>simp_all add: empty_fs_def\<close>)
  from instance_exclusive[OF r_into_rtranclp[of "inst_step all_ok True", OF this] f ok] show ?thesis
    using m by simp
qed

text \<open>
  The conditions of the last theorem are needed: where the PID cannot be written the file goes on naming a dead process, and where
  the first instance belongs to another user it seems to be dead; a second instance then removes the file
  and runs beside the first.
\<close>

definition old_pid_fs :: LockFS where
  "old_pid_fs = empty_fs\<lparr> LF_path := Some 0, LF_data := (\<lambda>_. itoa 20), LF_fresh := 1 \<rparr>"

definition second_beside_first :: "AcqOS \<Rightarrow> AcqOS \<Rightarrow> bool" where
  "second_beside_first os1 os2 \<longleftrightarrow>
     (case start_instance os1 2 21 \<lparr> M_fs = old_pid_fs, M_running = [] \<rparr> of None \<Rightarrow> False
      | Some m \<Rightarrow> (case start_instance os2 2 22 m of None \<Rightarrow> False | Some m' \<Rightarrow> M_running m' = [22, 21]))"

lemma lock_conditions_needed:
  "second_beside_first (all_ok\<lparr> AO_trunc := False, AO_write := False \<rparr>) all_ok"
  "second_beside_first all_ok (all_ok\<lparr> AO_foreign := [21] \<rparr>)"
  "\<not> second_beside_first all_ok all_ok"
  by code_simp+

text \<open>
  C38: The calls of two processes are not exclusive: starting from no lock file there is an interleaving of system calls
  after which two instances hold the lock.  An instance has run and ended, which leaves its PID in
  the file; of two that start together, one has the flock and has not yet written its PID when the other
  reads the dead one, removes the file and locks a new one.
\<close>

theorem two_instances_race:
  "\<exists>es i j. LS_pc (lsched es empty_lstate) 21 = Holding i \<and> LS_pc (lsched es empty_lstate) 22 = Holding j \<and>
     21 \<in> set (LF_alive (LS_fs (lsched es empty_lstate))) \<and> 22 \<in> set (LF_alive (LS_fs (lsched es empty_lstate)))"
proof -
  let ?es = "replicate 5 (Go 20) @ [Exit 20] @ replicate 3 (Go 21) @ replicate 9 (Go 22) @ replicate 2 (Go 21)"
  have "LS_pc (lsched ?es empty_lstate) 21 = Holding 0 \<and> LS_pc (lsched ?es empty_lstate) 22 = Holding 1 \<and>
     21 \<in> set (LF_alive (LS_fs (lsched ?es empty_lstate))) \<and> 22 \<in> set (LF_alive (LS_fs (lsched ?es empty_lstate)))"
    by code_simp
  then show ?thesis by blast
qed

text \<open>
  The client does not keep its lock: it drops the value of \<open>Acquire\<close>, the garbage collector closes the file,
  and a second client runs beside the first, even when no system calls interleave.
\<close>

theorem client_lock_lost:
  "\<exists>m. (inst_step all_ok False)\<^sup>*\<^sup>* \<lparr> M_fs = empty_fs, M_running = [] \<rparr> m \<and> M_running m = [22, 21]"
proof -
  note defs = start_instance_def all_ok_def numeral_2_eq_2 open_lock_def flock_def
  let ?m0 = "\<lparr> M_fs = empty_fs, M_running = [] \<rparr>"
  obtain m1 where m1: "start_instance all_ok 2 21 ?m0 = Some m1" "M_running m1 = [21]" "LF_path (M_fs m1) = Some 0"
      "LF_flock (M_fs m1) = (\<lambda>_. None)(0 := Some 21)" "LF_alive (M_fs m1) = [21]"
    by (simp add: defs empty_fs_def writePIDFile_def truncate_pid_def write_pid_def)
  let ?m2 = "collect_lock 21 m1"
  have m2: "M_running ?m2 = [21]" "LF_path (M_fs ?m2) = Some 0" "LF_flock (M_fs ?m2) 0 = None" "LF_alive (M_fs ?m2) = [21]"
    using m1 by (simp_all add: collect_lock_def unlock_def)
  obtain m3 where m3: "start_instance all_ok 2 22 ?m2 = Some m3" "M_running m3 = [22, 21]"
    using m2 by (simp add: defs)
  have "inst_step all_ok False ?m0 m1" by (rule inst_step.start[of 21]) (use m1 in \<open>simp_all add: empty_fs_def\<close>)
  moreover have "inst_step all_ok False m1 ?m2" by (rule inst_step.collect) (simp_all add: m1)
  moreover have "inst_step all_ok False ?m2 m3" by (rule inst_step.start[of 22]) (simp_all add: m2 m3)
  ultimately have "(inst_step all_ok False)\<^sup>*\<^sup>* ?m0 m3" by (meson converse_rtranclp_into_rtranclp rtranclp.rtrancl_refl)
  then show ?thesis using m3(2) by blast
qed

text \<open>
  \<open>Acquire\<close> returns if the lock file can be removed: it recurses at most once.  If the file cannot be removed, names a
  dead process and is locked, the call recurses without end.
\<close>

lemma acquire_returns:
  assumes "fs_wf w" "AO_remove os"
  shows "\<exists>r w'. \<forall>k. Acquire os (k + 2) p w = Some (r, w')"
proof (cases "\<exists>r w'. Acquire os 1 p w = Some (r, w')")
  case True
  then obtain r w' where one: "Acquire os (Suc 0) p w = Some (r, w')" by auto
  have "Acquire os (Suc j) p w = Some (r, w')" for j
    using one by (auto simp: Let_def split: if_splits prod.splits)
  then show ?thesis by (metis add_2_eq_Suc')
next
  case False
  obtain i w1 where o: "open_lock w = (i, w1)" by fastforce
  obtain ok w2 where f: "flock p i w1 = (ok, w2)" by fastforce
  have st: "AO_open os" "\<not> ok" "0 < readPIDFile w2 \<and> \<not> processAlive os w2 (readPIDFile w2)"
    using False o f by (auto simp: Let_def split: if_splits)
  have wf: "fs_wf (remove_lock os w2)" "LF_path (remove_lock os w2) = None"
    using assms o f st(2) by (auto simp: remove_lock_def open_lock_def flock_def fs_wf_def split: option.splits)
  have "Acquire os (k + 2) p w = Acquire os (Suc k) p (remove_lock os w2)" for k using o f st by simp
  then show ?thesis using st(1) by (simp add: open_flock[OF wf] del: Acquire.simps)
qed

lemma acquire_endless:
  assumes "AO_open os" "\<not> AO_remove os" "LF_path w = Some i" "LF_flock w i = Some q" "0 < readPIDFile w"
    "\<not> processAlive os w (readPIDFile w)"
  shows "Acquire os k p w = None"
  using assms by (induction k) (simp_all add: open_lock_def flock_def remove_lock_def)

end
