(* ===== verification/LogFiles.thy ===== *)
theory LogFiles
  imports ConfigFile
begin

text \<open>
  Languages, paths, log files and crash logs (internal/i18n, paths, logfile, crashlog; the log file of
  cmd/server/main.go; what they use of path/filepath, with the separator of Unix).  A file system is
  the content of its files and what it permits.
\<close>

section \<open>Languages (i18n.go)\<close>

datatype Lang = ZH | EN

definition en_names :: "bytes list" where
  "en_names = [lit ''en'', lit ''EN'', lit ''english'', lit ''English'']"

definition zh_names :: "bytes list" where
  "zh_names = [lit ''zh'', lit ''ZH'', lit ''chinese'', lit ''Chinese'', [228, 184, 173, 230, 150, 135]]"

definition ParseLang :: "bytes \<Rightarrow> Lang" where
  "ParseLang s = (if s \<in> set en_names then EN else if s \<in> set zh_names then ZH else ZH)"

text \<open>The current table is one of two; \<open>Set\<close> exchanges it and \<open>T\<close> reads it.\<close>

record 't Texts =
  X_zh :: 't
  X_en :: 't
  X_current :: 't

definition init_texts :: "'t \<Rightarrow> 't \<Rightarrow> 't Texts" where
  "init_texts zh en = \<lparr> X_zh = zh, X_en = en, X_current = zh \<rparr>"

definition Set_lang :: "Lang \<Rightarrow> 't Texts \<Rightarrow> 't Texts" where
  "Set_lang l x = (case l of EN \<Rightarrow> x\<lparr> X_current := X_en x \<rparr> | _ \<Rightarrow> x\<lparr> X_current := X_zh x \<rparr>)"

definition T_lang :: "'t Texts \<Rightarrow> 't" where
  "T_lang x = X_current x"

text \<open>\<open>sprintf\<close> is \<open>fmt.Sprintf\<close>.\<close>

definition Format :: "(bytes \<Rightarrow> 'a list \<Rightarrow> bytes) \<Rightarrow> bytes \<Rightarrow> 'a list \<Rightarrow> bytes" where
  "Format sprintf tmpl args = (if args = [] then tmpl else sprintf tmpl args)"

section \<open>Paths (path/filepath)\<close>

fun clean_parts :: "bool \<Rightarrow> bytes list \<Rightarrow> bytes list \<Rightarrow> bytes list" where
  "clean_parts rooted out [] = rev out"
| "clean_parts rooted out (c # cs) =
     (if c = [] \<or> c = lit ''.'' then clean_parts rooted out cs
      else if c = lit ''..'' then
        (case out of
           x # xs \<Rightarrow> if x \<noteq> lit ''..'' then clean_parts rooted xs cs else clean_parts rooted (c # out) cs
         | [] \<Rightarrow> if rooted then clean_parts rooted [] cs else clean_parts rooted [c] cs)
      else clean_parts rooted (c # out) cs)"

fun join_slash :: "bytes list \<Rightarrow> bytes" where
  "join_slash [] = []"
| "join_slash [x] = x"
| "join_slash (x # y # xs) = x @ [47] @ join_slash (y # xs)"

definition Clean :: "bytes \<Rightarrow> bytes" where
  "Clean p =
     (if p = [] then lit ''.''
      else
        (let rooted = (hd p = 47); s = join_slash (clean_parts rooted [] (split_on 47 p))
         in if rooted then 47 # s else if s = [] then lit ''.'' else s))"

definition path_Join :: "bytes list \<Rightarrow> bytes" where
  "path_Join es = (case dropWhile (\<lambda>e. e = []) es of [] \<Rightarrow> [] | l \<Rightarrow> Clean (join_slash l))"

definition path_Dir :: "bytes \<Rightarrow> bytes" where
  "path_Dir p = Clean (case last_index_of 47 p of None \<Rightarrow> [] | Some i \<Rightarrow> take (i + 1) p)"

section \<open>Directories (paths.go)\<close>

text \<open>
  A file system: the files, the directories made, and whether creating a directory, opening a file, renaming and removing
  succeed.
\<close>

record FileSys =
  FS_files :: "bytes \<Rightarrow> bytes option"
  FS_dirs :: "bytes list"
  FS_mkdirOK :: "bytes \<Rightarrow> bool"
  FS_openOK :: "bytes \<Rightarrow> bool"
  FS_renameOK :: bool
  FS_removeOK :: bool

definition MkdirAll :: "bytes \<Rightarrow> FileSys \<Rightarrow> bool \<times> FileSys" where
  "MkdirAll d fs = (if FS_mkdirOK fs d then (True, fs\<lparr> FS_dirs := d # FS_dirs fs \<rparr>) else (False, fs))"

definition Remove :: "bytes \<Rightarrow> FileSys \<Rightarrow> FileSys" where
  "Remove p fs = (if FS_removeOK fs then fs\<lparr> FS_files := (FS_files fs)(p := None) \<rparr> else fs)"

definition Rename :: "bytes \<Rightarrow> bytes \<Rightarrow> FileSys \<Rightarrow> FileSys" where
  "Rename p q fs =
     (if FS_renameOK fs then fs\<lparr> FS_files := (FS_files fs)(q := FS_files fs p, p := None) \<rparr> else fs)"

text \<open>\<open>os.OpenFile\<close> with O_CREATE, O_WRONLY and O_APPEND.\<close>

definition open_append :: "bytes \<Rightarrow> FileSys \<Rightarrow> bool \<times> FileSys" where
  "open_append p fs =
     (if FS_openOK fs p then
        (True, fs\<lparr> FS_files := (FS_files fs)(p := Some (case FS_files fs p of None \<Rightarrow> [] | Some c \<Rightarrow> c)) \<rparr>)
      else (False, fs))"

definition append_to :: "bytes \<Rightarrow> bytes \<Rightarrow> FileSys \<Rightarrow> FileSys" where
  "append_to p txt fs = fs\<lparr> FS_files := (FS_files fs)(p := map_option (\<lambda>c. c @ txt) (FS_files fs p)) \<rparr>"

text \<open>\<open>env\<close> is \<open>os.Getenv\<close>.\<close>

definition AppDataDir :: "(bytes \<Rightarrow> bytes) \<Rightarrow> bytes" where
  "AppDataDir env =
     (if env (lit ''APPDATA'') \<noteq> [] then env (lit ''APPDATA'')
      else if env (lit ''USERPROFILE'') \<noteq> [] then path_Join [env (lit ''USERPROFILE''), lit ''AppData'', lit ''Roaming'']
      else if env (lit ''HOME'') \<noteq> [] then env (lit ''HOME'')
      else lit ''.'')"

definition GameTunnelDir :: "(bytes \<Rightarrow> bytes) \<Rightarrow> FileSys \<Rightarrow> bytes \<times> FileSys" where
  "GameTunnelDir env fs =
     (let dir = path_Join [AppDataDir env, lit ''GameTunnel'']; (ok, fs1) = MkdirAll dir fs
      in (if ok then dir else lit ''.'', fs1))"

definition ExeDir :: "bytes option \<Rightarrow> bytes" where
  "ExeDir exe = (case exe of None \<Rightarrow> lit ''.'' | Some p \<Rightarrow> path_Dir p)"

section \<open>Log files (logfile.go, cmd/server/main.go)\<close>

definition maxLogSize :: nat where "maxLogSize = 1 * 1024 * 1024"

definition too_large :: "bytes \<Rightarrow> FileSys \<Rightarrow> bool" where
  "too_large p fs \<longleftrightarrow> (case FS_files fs p of None \<Rightarrow> False | Some c \<Rightarrow> maxLogSize < length c)"

definition rotate :: "bytes \<Rightarrow> FileSys \<Rightarrow> FileSys" where
  "rotate p fs = (if too_large p fs then Rename p (p @ lit ''.1'') (Remove (p @ lit ''.1'') fs) else fs)"

text \<open>The path of the open log, or None when the log goes to standard error.\<close>

definition log_Setup :: "(bytes \<Rightarrow> bytes) \<Rightarrow> bytes \<Rightarrow> FileSys \<Rightarrow> bytes option \<times> FileSys" where
  "log_Setup env path0 fs0 =
     (let (path, fs) = (if path0 = [] then (let (d, fs1) = GameTunnelDir env fs0 in (path_Join [d, lit ''gametunnel.log''], fs1))
                        else (path0, fs0));
          (ok, fs1) = MkdirAll (path_Dir path) fs
      in if \<not> ok then (None, fs1)
         else
           (let (opened, fs2) = open_append path (rotate path fs1)
            in (if opened then Some path else None, fs2)))"

datatype log_err = LogDirFailed | LogOpenFailed

definition setupServerLog :: "bytes \<Rightarrow> FileSys \<Rightarrow> (log_err + bytes) \<times> FileSys" where
  "setupServerLog path fs =
     (let dir = path_Dir path; (ok, fs1) = (if dir \<noteq> [] then MkdirAll dir fs else (True, fs))
      in if \<not> ok then (Inl LogDirFailed, fs1)
         else
           (let fs2 = (if too_large path fs1 then Rename path (path @ lit ''.1'') (Remove (path @ lit ''.1'') fs1) else fs1);
                (opened, fs3) = open_append path fs2
            in (if opened then Inr path else Inl LogOpenFailed, fs3)))"

section \<open>Crash logs (crashlog.go, crashlog_other.go)\<close>

text \<open>What becomes of the process: it goes on returning from \<open>main\<close>, or it exits with a code.\<close>

datatype proc_end = Returns | Exits nat

definition crash_text :: "bytes \<Rightarrow> bytes \<Rightarrow> bytes \<Rightarrow> bytes" where
  "crash_text label r stack =
     lit ''=== Crash '' @ label @ lit '' ==='' @ [10] @ lit ''Panic: '' @ r @ [10, 10] @ lit ''Stack:'' @ [10] @ stack @ [10]"

definition crash_file :: "(bytes \<Rightarrow> bytes) \<Rightarrow> FileSys \<Rightarrow> bool \<times> bytes \<times> FileSys" where
  "crash_file env fs =
     (let (dir, fs1) = GameTunnelDir env fs; fs2 = snd (MkdirAll dir fs1); p = path_Join [dir, lit ''crash.log''];
          (ok, fs3) = open_append p fs2
      in (ok, p, fs3))"

text \<open>\<open>r\<close> is what \<open>recover\<close> returns, as text.\<close>

definition W_WriteCrashLog :: "(bytes \<Rightarrow> bytes) \<Rightarrow> bytes option \<Rightarrow> bytes \<Rightarrow> bytes \<Rightarrow> FileSys \<Rightarrow> proc_end \<times> FileSys" where
  "W_WriteCrashLog env r stack label fs =
     (case r of None \<Rightarrow> (Returns, fs)
      | Some v \<Rightarrow>
          (let (ok, p, fs1) = crash_file env fs
           in (Returns, if ok then append_to p (crash_text label v stack) fs1 else fs1)))"

text \<open>The third component is what goes to standard error.\<close>

definition WriteCrashLog :: "(bytes \<Rightarrow> bytes) \<Rightarrow> bytes option \<Rightarrow> bytes \<Rightarrow> bytes \<Rightarrow> FileSys \<Rightarrow> proc_end \<times> FileSys \<times> bytes" where
  "WriteCrashLog env r stack label fs =
     (case r of None \<Rightarrow> (Returns, fs, [])
      | Some v \<Rightarrow>
          (let (ok, p, fs1) = crash_file env fs
           in if ok then (Exits 1, append_to p (crash_text label v stack) fs1,
                          lit ''Panic: '' @ v @ [10] @ lit ''See crash.log for details.'' @ [10])
              else (Exits 1, fs1, lit ''Panic: '' @ v @ [10] @ stack @ [10])))"

section \<open>Lemmas\<close>

lemma Clean_nonempty [simp]: "Clean p \<noteq> []"
  by (simp add: Clean_def Let_def lit_def)

lemma path_Dir_nonempty [simp]: "path_Dir p \<noteq> []"
  by (simp add: path_Dir_def)

lemma MkdirAll_files [simp]:
  "FS_files (snd (MkdirAll d fs)) = FS_files fs" "FS_renameOK (snd (MkdirAll d fs)) = FS_renameOK fs"
  "FS_openOK (snd (MkdirAll d fs)) = FS_openOK fs" "FS_removeOK (snd (MkdirAll d fs)) = FS_removeOK fs"
  by (simp_all add: MkdirAll_def)

lemma GameTunnelDir_files [simp]: "FS_files (snd (GameTunnelDir env fs)) = FS_files fs"
  by (simp add: GameTunnelDir_def Let_def split: prod.splits) (metis MkdirAll_files(1) snd_conv)

lemma backup_differs [simp]: "p @ lit ''.1'' \<noteq> p" "p \<noteq> p @ lit ''.1''" "lit ''.1'' \<noteq> []"
  by (simp_all add: lit_def)

definition log_kept :: "bytes \<Rightarrow> FileSys \<Rightarrow> FileSys \<Rightarrow> bool" where
  "log_kept p fs fs' \<longleftrightarrow>
     (\<forall>c. FS_files fs p = Some c \<longrightarrow> FS_files fs' p = Some c \<or> FS_files fs' (p @ lit ''.1'') = Some c) \<and>
     (\<forall>q. q \<noteq> p \<longrightarrow> q \<noteq> p @ lit ''.1'' \<longrightarrow> FS_files fs' q = FS_files fs q)"

text \<open>
  The backup after a rotation: the log takes its place, whatever the backup held; if the log cannot be renamed, the backup has been
  removed for nothing.
\<close>

definition backup_after :: "bytes \<Rightarrow> FileSys \<Rightarrow> bytes option" where
  "backup_after p fs =
     (if \<not> too_large p fs then FS_files fs (p @ lit ''.1'')
      else if FS_renameOK fs then FS_files fs p
      else if FS_removeOK fs then None else FS_files fs (p @ lit ''.1''))"

definition log_bounded :: "bytes \<Rightarrow> FileSys \<Rightarrow> bool" where
  "log_bounded p fs \<longleftrightarrow> (case FS_files fs p of None \<Rightarrow> True | Some c \<Rightarrow> length c \<le> maxLogSize)"

lemma rotate_keeps: "log_kept p fs (rotate p fs)"
  by (auto simp: log_kept_def rotate_def Rename_def Remove_def)

lemma rotate_bounded: "FS_renameOK fs \<Longrightarrow> log_bounded p (rotate p fs)"
  by (auto simp: log_bounded_def rotate_def Rename_def Remove_def too_large_def split: option.splits)

lemma rotate_backup: "FS_files (rotate p fs) (p @ lit ''.1'') = backup_after p fs"
  by (auto simp: rotate_def backup_after_def Rename_def Remove_def)

lemma open_append_backup: "FS_files (snd (open_append p fs)) (p @ lit ''.1'') = FS_files fs (p @ lit ''.1'')"
  by (simp add: open_append_def)

lemma open_append_keeps: "log_kept p fs0 fs \<Longrightarrow> log_kept p fs0 (snd (open_append p fs))"
  by (auto simp: log_kept_def open_append_def split: option.splits)

lemma open_append_bounded: "log_bounded p fs \<Longrightarrow> log_bounded p (snd (open_append p fs))"
  by (auto simp: log_bounded_def open_append_def split: option.splits)

lemma open_append_file: "fst (open_append p fs) \<Longrightarrow> FS_files (snd (open_append p fs)) p \<noteq> None"
  by (auto simp: open_append_def split: if_splits)

section \<open>Properties\<close>


definition sample_fs :: FileSys where
  "sample_fs = \<lparr> FS_files = [lit ''l'' \<mapsto> replicate (maxLogSize + 1) 65, lit ''k'' \<mapsto> [66], lit ''l.1'' \<mapsto> [67]], FS_dirs = [], FS_mkdirOK = (\<lambda>_. True),
     FS_openOK = (\<lambda>_. True), FS_renameOK = True, FS_removeOK = True \<rparr>"


end
