(* ===== verification/TunLinux.thy ===== *)
theory TunLinux
  imports GoNet
begin

text \<open>
  The TUN device on Linux (internal/tun: tun_common.go, tun_linux.go, configure_linux.go).  What
  the program asks of the system is a history of calls: the device of the wireguard
  library and the \<open>ip\<close> command.  The system is a parameter that tells for every history and
  call whether it succeeds, so every theorem holds for every behaviour of the system.
\<close>

section \<open>Configuration (tun_common.go)\<close>

definition TunDefaultMTU :: int where "TunDefaultMTU = 1400"

record DevConfig =
  DC_VirtualIP :: ip
  DC_SubnetMask :: bytes
  DC_ServerIP :: ip
  DC_ServerPublicIP :: ip
  DC_MTU :: int

datatype tun_err = InvalidVirtualIP | InvalidServerIP | InvalidServerPublicIP | NotIPv4 | CreateFailed | NameFailed
  | AssignFailed | LinkUpFailed | AdapterNotFound

text \<open>The empty list is the nil address.\<close>

definition validateConfig :: "DevConfig \<Rightarrow> tun_err option" where
  "validateConfig cfg =
     (if DC_VirtualIP cfg \<noteq> [] \<and> ParseIP (ip_string (DC_VirtualIP cfg)) = None then Some InvalidVirtualIP
      else if DC_ServerIP cfg \<noteq> [] \<and> ParseIP (ip_string (DC_ServerIP cfg)) = None then Some InvalidServerIP
      else if DC_ServerPublicIP cfg \<noteq> [] \<and> ParseIP (ip_string (DC_ServerPublicIP cfg)) = None
      then Some InvalidServerPublicIP
      else None)"

text \<open>\<open>ip.Mask(mask)\<close> of package net; nil is the empty list.\<close>

definition IP_Mask :: "ip \<Rightarrow> bytes \<Rightarrow> ip" where
  "IP_Mask i m =
     (let m1 = (if length m = 16 \<and> length i = 4 \<and> take 12 m = replicate 12 255 then drop 12 m else m);
          i1 = (if length m1 = 4 \<and> length i = 16 \<and> take 12 i = v4prefix then drop 12 i else i)
      in if length i1 \<noteq> length m1 then [] else map2 (\<lambda>x y. x AND y) i1 m1)"

text \<open>\<open>broadcast[i] = subnet[i] | ^mask[i]\<close> for four bytes; an index out of range panics.\<close>

definition broadcast_of :: "ip \<Rightarrow> bytes \<Rightarrow> ip res" where
  "broadcast_of subnet m =
     (if length subnet < 4 \<or> length m < 4 then Panic
      else Ok (map (\<lambda>i. subnet ! i OR NOT (m ! i)) [0..<4]))"

section \<open>The system\<close>

datatype lcall = L_CreateTUN bytes int | L_CloseTUN | L_Cmd "bytes list"

record LinOS =
  LO_ok :: "lcall list \<Rightarrow> lcall \<Rightarrow> bool"
  LO_name :: "bytes option"
  LO_batch :: int

type_synonym lhist = "lcall list"

definition lrun :: "LinOS \<Rightarrow> lcall \<Rightarrow> lhist \<Rightarrow> bool \<times> lhist" where
  "lrun os c h = (LO_ok os h c, h @ [c])"

definition runCmd :: "LinOS \<Rightarrow> bytes list \<Rightarrow> lhist \<Rightarrow> bool \<times> lhist" where
  "runCmd os args h = lrun os (L_Cmd args) h"

text \<open>Commands whose failure is only logged.\<close>

definition try_cmds :: "LinOS \<Rightarrow> bytes list list \<Rightarrow> lhist \<Rightarrow> lhist" where
  "try_cmds os cmds h = fold (\<lambda>c h. snd (runCmd os c h)) cmds h"

section \<open>Routes (configure_linux.go)\<close>

record Device =
  D_name :: bytes
  D_virtualIP :: ip
  D_subnetMask :: bytes
  D_serverPublicIP :: ip
  D_mtu :: int
  D_offset :: nat

definition broadcastRulePriority :: nat where "broadcastRulePriority = 100"
definition broadcastTableID :: nat where "broadcastTableID = 255"

definition cidr :: "ip \<Rightarrow> nat \<Rightarrow> bytes" where
  "cidr i n = ip_string i @ lit ''/'' @ dec n"

definition sub_of :: "Device \<Rightarrow> bytes" where
  "sub_of d = cidr (IP_Mask (D_virtualIP d) (D_subnetMask d)) (fst (Mask_Size (D_subnetMask d)))"

definition cleanup_cmds :: "Device \<Rightarrow> ip \<Rightarrow> bytes list list" where
  "cleanup_cmds d bc =
     [[lit ''ip'', lit ''route'', lit ''del'', ip_string bc, lit ''dev'', D_name d],
      [lit ''ip'', lit ''route'', lit ''del'', lit ''255.255.255.255'', lit ''dev'', D_name d],
      [lit ''ip'', lit ''route'', lit ''del'', lit ''255.255.255.255'', lit ''table'', dec broadcastTableID],
      [lit ''ip'', lit ''rule'', lit ''del'', lit ''to'', lit ''255.255.255.255'', lit ''lookup'', dec broadcastTableID,
         lit ''priority'', dec broadcastRulePriority],
      [lit ''ip'', lit ''route'', lit ''del'', lit ''224.0.0.251'', lit ''dev'', D_name d]]"

text \<open>The first route is deleted before the broadcast address is computed.\<close>

definition L_CleanupRoutes :: "LinOS \<Rightarrow> Device \<Rightarrow> lhist \<Rightarrow> lhist res" where
  "L_CleanupRoutes os d h =
     (let h1 = try_cmds os [[lit ''ip'', lit ''route'', lit ''del'', sub_of d, lit ''dev'', D_name d]] h
      in bind_res (broadcast_of (IP_Mask (D_virtualIP d) (D_subnetMask d)) (D_subnetMask d)) (\<lambda>bc.
         Ok (try_cmds os (cleanup_cmds d bc) h1)))"

definition route_cmds :: "Device \<Rightarrow> ip \<Rightarrow> bytes list list" where
  "route_cmds d bc =
     [[lit ''ip'', lit ''route'', lit ''replace'', ip_string bc, lit ''dev'', D_name d, lit ''metric'', lit ''1''],
      [lit ''ip'', lit ''route'', lit ''replace'', lit ''255.255.255.255'', lit ''dev'', D_name d, lit ''table'', dec broadcastTableID],
      [lit ''ip'', lit ''rule'', lit ''replace'', lit ''to'', lit ''255.255.255.255'', lit ''lookup'', dec broadcastTableID,
         lit ''priority'', dec broadcastRulePriority],
      [lit ''ip'', lit ''route'', lit ''replace'', lit ''255.255.255.255'', lit ''dev'', D_name d, lit ''metric'', lit ''1''],
      [lit ''ip'', lit ''route'', lit ''replace'', lit ''224.0.0.251'', lit ''dev'', D_name d, lit ''metric'', lit ''1'']]"

definition L_configure :: "LinOS \<Rightarrow> Device \<Rightarrow> lhist \<Rightarrow> (tun_err option \<times> lhist) res" where
  "L_configure os d h =
     bind_res (L_CleanupRoutes os d h) (\<lambda>h1.
     let maskBits = fst (Mask_Size (D_subnetMask d));
         (ok1, h2) = runCmd os [lit ''ip'', lit ''addr'', lit ''replace'', cidr (D_virtualIP d) maskBits, lit ''dev'', D_name d] h1
     in if \<not> ok1 then Ok (Some AssignFailed, h2)
        else
          (let (ok2, h3) = runCmd os [lit ''ip'', lit ''link'', lit ''set'', D_name d, lit ''up''] h2 in
           if \<not> ok2 then Ok (Some LinkUpFailed, h3)
           else
             (let h4 = try_cmds os [[lit ''ip'', lit ''route'', lit ''replace'', sub_of d, lit ''dev'', D_name d, lit ''metric'', lit ''1'']] h3
              in bind_res (broadcast_of (IP_Mask (D_virtualIP d) (D_subnetMask d)) (D_subnetMask d)) (\<lambda>bc.
                 Ok (None, try_cmds os (route_cmds d bc) h4)))))"

definition L_ReconfigureRoutes :: "LinOS \<Rightarrow> Device \<Rightarrow> lhist \<Rightarrow> lhist res" where
  "L_ReconfigureRoutes os d h = bind_res (L_configure os d h) (\<lambda>(e, h1). Ok h1)"

section \<open>The device (tun_linux.go)\<close>

definition new_device :: "LinOS \<Rightarrow> DevConfig \<Rightarrow> ip \<Rightarrow> bytes \<Rightarrow> Device" where
  "new_device os cfg vip nm = \<lparr> D_name = nm, D_virtualIP = vip, D_subnetMask = DC_SubnetMask cfg,
     D_serverPublicIP = DC_ServerPublicIP cfg, D_mtu = DC_MTU cfg, D_offset = (if 1 < LO_batch os then 10 else 0) \<rparr>"

definition L_New :: "LinOS \<Rightarrow> DevConfig \<Rightarrow> lhist \<Rightarrow> ((tun_err + Device) \<times> lhist) res" where
  "L_New os cfg0 h =
     (let cfg = (if DC_MTU cfg0 \<le> 0 then cfg0\<lparr> DC_MTU := TunDefaultMTU \<rparr> else cfg0) in
      case validateConfig cfg of
        Some e \<Rightarrow> Ok (Inl e, h)
      | None \<Rightarrow>
          (case To4 (DC_VirtualIP cfg) of
             None \<Rightarrow> Ok (Inl NotIPv4, h)
           | Some vip \<Rightarrow>
               (let (ok, h1) = lrun os (L_CreateTUN (lit ''gt0'') (DC_MTU cfg)) h in
                if \<not> ok then Ok (Inl CreateFailed, h1)
                else
                  (case LO_name os of
                     None \<Rightarrow> Ok (Inl NameFailed, snd (lrun os L_CloseTUN h1))
                   | Some nm \<Rightarrow>
                       (let d = new_device os cfg vip nm in bind_res (L_configure os d h1) (\<lambda>(e, h2).
                           case e of Some x \<Rightarrow> Ok (Inl x, snd (lrun os L_CloseTUN h2)) | None \<Rightarrow> Ok (Inr d, h2)))))))"

definition L_Close :: "LinOS \<Rightarrow> Device \<Rightarrow> lhist \<Rightarrow> (bool \<times> lhist) res" where
  "L_Close os d h = bind_res (L_CleanupRoutes os d h) (\<lambda>h1. Ok (lrun os L_CloseTUN h1))"

text \<open>
  Reading and writing: \<open>rd\<close> is what the library's Read does with the buffers at the offset (None is
  its error; otherwise the buffers it leaves, the number of packets and their sizes), \<open>wr\<close> what its
  Write answers (None is an error, otherwise the number of packets) for a buffer at the offset.
\<close>

type_synonym wg_read = "bytes list \<Rightarrow> nat \<Rightarrow> (bytes list \<times> nat \<times> nat list) option"
type_synonym wg_write = "bytes \<Rightarrow> nat \<Rightarrow> nat option"

text \<open>\<open>copy(buf, buf[off:off+n])\<close>; the slice may reach to the capacity, here the length.\<close>

definition shift_down :: "nat \<Rightarrow> nat \<Rightarrow> bytes \<Rightarrow> bytes res" where
  "shift_down off n buf = bind_res (slice buf off (off + n)) (\<lambda>p. Ok (p @ drop (length p) buf))"

fun shift_all :: "nat \<Rightarrow> nat \<Rightarrow> nat list \<Rightarrow> bytes list \<Rightarrow> bytes list res" where
  "shift_all off 0 sizes bufs = Ok bufs"
| "shift_all off (Suc k) sizes [] = Panic"
| "shift_all off (Suc k) [] (b # bs) = Panic"
| "shift_all off (Suc k) (s # ss) (b # bs) =
     bind_res (shift_down off s b) (\<lambda>b1. bind_res (shift_all off k ss bs) (\<lambda>bs1. Ok (b1 # bs1)))"

definition L_ReadBatch :: "wg_read \<Rightarrow> Device \<Rightarrow> bytes list \<Rightarrow> (bytes list \<times> nat \<times> nat list) option res" where
  "L_ReadBatch rd d bufs =
     (case rd bufs (D_offset d) of
        None \<Rightarrow> Ok None
      | Some (bs, n, sizes) \<Rightarrow>
          if 0 < D_offset d then bind_res (shift_all (D_offset d) n sizes bs) (\<lambda>bs1. Ok (Some (bs1, n, sizes)))
          else Ok (Some (bs, n, sizes)))"

definition L_Read :: "wg_read \<Rightarrow> Device \<Rightarrow> bytes \<Rightarrow> (bytes \<times> nat) option res" where
  "L_Read rd d buf =
     (case rd [buf] (D_offset d) of
        None \<Rightarrow> Ok None
      | Some (bs, n, sizes) \<Rightarrow>
          if n = 0 then Ok (Some (hd bs, 0))
          else
            (let sz = hd sizes in
             if 0 < D_offset d then bind_res (shift_down (D_offset d) sz (hd bs)) (\<lambda>b. Ok (Some (b, sz)))
             else Ok (Some (hd bs, sz))))"

text \<open>The number of bytes, or None for an error.\<close>

definition L_Write :: "wg_write \<Rightarrow> Device \<Rightarrow> bytes \<Rightarrow> nat option" where
  "L_Write wr d data =
     (if 0 < D_offset d then
        (case wr (replicate (D_offset d) 0 @ data) (D_offset d) of None \<Rightarrow> None | Some n \<Rightarrow> Some (length data))
      else
        (case wr data 0 of None \<Rightarrow> None | Some n \<Rightarrow> if n = 0 then Some 0 else Some (length data)))"

section \<open>What installing a route leaves to be undone\<close>

text \<open>
  A command of \<open>ip\<close> that installs a route or a rule, one that removes it, and what identifies the
  entry: the destination and the table of a route, the whole selector of a rule.
\<close>

fun table_of :: "bytes list \<Rightarrow> bytes" where
  "table_of (k # v # rest) = (if k = lit ''table'' then v else table_of rest)"
| "table_of _ = lit ''main''"

fun entry_key :: "bytes list \<Rightarrow> bytes list" where
  "entry_key (prog # obj # verb # dest # rest) = (if obj = lit ''rule'' then obj # dest # rest else [obj, dest, table_of rest])"
| "entry_key _ = []"

fun cmd_verb :: "bytes list \<Rightarrow> bytes list" where
  "cmd_verb (prog # obj # verb # rest) = [prog, obj, verb]"
| "cmd_verb _ = []"

definition installs :: "bytes list \<Rightarrow> bool" where
  "installs c \<longleftrightarrow> cmd_verb c = [lit ''ip'', lit ''route'', lit ''replace''] \<or> cmd_verb c = [lit ''ip'', lit ''rule'', lit ''replace'']"

definition removes :: "bytes list \<Rightarrow> bool" where
  "removes c \<longleftrightarrow> cmd_verb c = [lit ''ip'', lit ''route'', lit ''del''] \<or> cmd_verb c = [lit ''ip'', lit ''rule'', lit ''del'']"

section \<open>Lemmas\<close>

lemma words_differ:
  "lit ''rule'' \<noteq> lit ''route''" "lit ''route'' \<noteq> lit ''rule''" "lit ''dev'' \<noteq> lit ''table''" "lit ''metric'' \<noteq> lit ''table''"
  "lit ''replace'' \<noteq> lit ''del''" "lit ''del'' \<noteq> lit ''replace''" "lit ''addr'' \<noteq> lit ''route''" "lit ''addr'' \<noteq> lit ''rule''"
  "lit ''link'' \<noteq> lit ''route''" "lit ''link'' \<noteq> lit ''rule''"
  by code_simp+

lemma try_cmds_hist: "try_cmds os cmds h = h @ map L_Cmd cmds"
  by (induction cmds arbitrary: h) (simp_all add: try_cmds_def runCmd_def lrun_def)

lemma runCmd_hist: "runCmd os c h = (LO_ok os h (L_Cmd c), h @ [L_Cmd c])"
  by (simp add: runCmd_def lrun_def)

lemma length_IP_Mask: "length i = 4 \<Longrightarrow> length m = 4 \<Longrightarrow> length (IP_Mask i m) = 4"
  by (simp add: IP_Mask_def)

definition bcast :: "Device \<Rightarrow> ip" where
  "bcast d = map (\<lambda>i. IP_Mask (D_virtualIP d) (D_subnetMask d) ! i OR NOT (D_subnetMask d ! i)) [0..<4]"

definition dev_ok :: "Device \<Rightarrow> bool" where
  "dev_ok d \<longleftrightarrow> length (D_virtualIP d) = 4 \<and> length (D_subnetMask d) = 4"

lemma broadcast_ok: "dev_ok d \<Longrightarrow> broadcast_of (IP_Mask (D_virtualIP d) (D_subnetMask d)) (D_subnetMask d) = Ok (bcast d)"
  by (simp add: broadcast_of_def bcast_def dev_ok_def length_IP_Mask)

definition del_subnet :: "Device \<Rightarrow> bytes list" where
  "del_subnet d = [lit ''ip'', lit ''route'', lit ''del'', sub_of d, lit ''dev'', D_name d]"

definition add_subnet :: "Device \<Rightarrow> bytes list" where
  "add_subnet d = [lit ''ip'', lit ''route'', lit ''replace'', sub_of d, lit ''dev'', D_name d, lit ''metric'', lit ''1'']"

definition setup_cmds :: "Device \<Rightarrow> bytes list list" where
  "setup_cmds d = [[lit ''ip'', lit ''addr'', lit ''replace'', cidr (D_virtualIP d) (fst (Mask_Size (D_subnetMask d))), lit ''dev'', D_name d],
     [lit ''ip'', lit ''link'', lit ''set'', D_name d, lit ''up'']]"

lemma cleanup_hist: "dev_ok d \<Longrightarrow> L_CleanupRoutes os d h = Ok (h @ map L_Cmd (del_subnet d # cleanup_cmds d (bcast d)))"
  by (simp add: L_CleanupRoutes_def Let_def broadcast_ok try_cmds_hist del_subnet_def)

lemma configure_hist:
  assumes "dev_ok d"
  shows "\<exists>e cs. L_configure os d h = Ok (e, h @ map L_Cmd cs) \<and>
    (e = None \<longrightarrow> cs = del_subnet d # cleanup_cmds d (bcast d) @ setup_cmds d @ add_subnet d # route_cmds d (bcast d))"
  using assms
  by (auto simp: L_configure_def Let_def runCmd_hist cleanup_hist broadcast_ok try_cmds_hist add_subnet_def setup_cmds_def
      intro: exI[of _ "del_subnet d # cleanup_cmds d (bcast d) @ [_]"] exI[of _ "del_subnet d # cleanup_cmds d (bcast d) @ [_, _]"])

lemma L_New_cases:
  assumes "length (DC_SubnetMask cfg) = 4"
  obtains e where "L_New os cfg h = Ok (Inl e, h)"
  | e h1 where "L_New os cfg h = Ok (Inl e, h @ [h1])" "\<not> LO_ok os h h1"
  | e h1 where "L_New os cfg h = Ok (Inl e, h1 @ [L_CloseTUN])"
  | d cs c where "L_New os cfg h = Ok (Inr d, h @ c # map L_Cmd cs)" "dev_ok d" "D_subnetMask d = DC_SubnetMask cfg"
      "To4 (DC_VirtualIP cfg) = Some (D_virtualIP d)"
      "cs = del_subnet d # cleanup_cmds d (bcast d) @ setup_cmds d @ add_subnet d # route_cmds d (bcast d)" "\<forall>a. c \<noteq> L_Cmd a"
proof -
  define cf where "cf = (if DC_MTU cfg \<le> 0 then cfg\<lparr> DC_MTU := TunDefaultMTU \<rparr> else cfg)"
  have cf: "DC_SubnetMask cf = DC_SubnetMask cfg" "DC_VirtualIP cf = DC_VirtualIP cfg" by (simp_all add: cf_def)
  note N = L_New_def[of os cfg h, unfolded Let_def, folded cf_def, unfolded cf]
  show ?thesis
  proof (cases "validateConfig cf")
    case None
    note N1 = N[unfolded None option.case]
    show ?thesis
    proof (cases "To4 (DC_VirtualIP cfg)")
      case (Some vip)
      define c where "c = L_CreateTUN (lit ''gt0'') (DC_MTU cf)"
      show ?thesis
      proof (cases "LO_ok os h c")
        case True
        show ?thesis
        proof (cases "LO_name os")
          case None
          then have "L_New os cfg h = Ok (Inl NameFailed, (h @ [c]) @ [L_CloseTUN])"
            using N1 Some True by (simp add: lrun_def flip: c_def)
          then show ?thesis using that(3) by blast
        next
          case nm: (Some nm)
          define d where "d = new_device os cf vip nm"
          have d: "dev_ok d" "D_subnetMask d = DC_SubnetMask cfg" "To4 (DC_VirtualIP cfg) = Some (D_virtualIP d)"
            using assms To4_length[OF Some] Some by (simp_all add: d_def dev_ok_def new_device_def cf)
          obtain e cs where e: "L_configure os d (h @ [c]) = Ok (e, (h @ [c]) @ map L_Cmd cs)"
              "e = None \<longrightarrow> cs = del_subnet d # cleanup_cmds d (bcast d) @ setup_cmds d @ add_subnet d # route_cmds d (bcast d)"
            using configure_hist[OF d(1), of os "h @ [c]"] by blast
          have r: "L_New os cfg h = (case e of Some x \<Rightarrow> Ok (Inl x, ((h @ [c]) @ map L_Cmd cs) @ [L_CloseTUN])
              | None \<Rightarrow> Ok (Inr d, (h @ [c]) @ map L_Cmd cs))"
            using N1 Some True nm e(1) by (cases e) (simp_all add: lrun_def flip: c_def d_def)
          show ?thesis
          proof (cases e)
            case None
            then show ?thesis using that(4)[of d c cs] r d e(2) by (simp add: c_def)
          next
            case (Some x)
            then show ?thesis using that(3) r by simp
          qed
        qed
      qed (use N1 Some that(2) in \<open>simp add: lrun_def flip: c_def\<close>)
    qed (use N1 that(1) in simp)
  qed (use N that(1) in simp)
qed

section \<open>Properties\<close>

text \<open>
  The device is never leaked and setting it up never panics (the mask has four bytes, as the codec
  of the server's answer guarantees): \<open>New\<close> ends on every behaviour of the system; when it fails after the
  device was created, its last call closes the device; when it succeeds, the device has the four-byte
  address of the configuration, its address was assigned and the link set up.
\<close>

theorem linux_device_not_leaked:
  assumes "length (DC_SubnetMask cfg) = 4" "length (DC_VirtualIP cfg) = 4"
  shows "\<exists>r h1. L_New os cfg h = Ok (r, h1) \<and>
    (case r of
       Inl e \<Rightarrow> h1 = h \<or> (\<exists>c. h1 = h @ [c] \<and> \<not> LO_ok os h c) \<or> last h1 = L_CloseTUN
     | Inr d \<Rightarrow> D_virtualIP d = DC_VirtualIP cfg \<and> set (map L_Cmd (setup_cmds d)) \<subseteq> set h1)"
  by (rule L_New_cases[OF assms(1), of os h]) (use assms(2) in \<open>auto simp: setup_cmds_def\<close>)

text \<open>
  C33: Everything that setting up the device installs, closing it removes: for every \<open>ip route replace\<close>
  and \<open>ip rule replace\<close> that \<open>New\<close> has run, \<open>Close\<close> runs an \<open>ip route del\<close> or \<open>ip rule del\<close> for the same
  destination in the same table (the same selector of a rule), and then closes the device, whatever
  the commands answered.
\<close>

theorem linux_routes_undone:
  assumes "length (DC_SubnetMask cfg) = 4" "L_New os cfg h = Ok (Inr d, h1)"
  shows "\<exists>ok rest. L_Close os d h1 = Ok (ok, h1 @ rest @ [L_CloseTUN]) \<and>
    (\<forall>c. L_Cmd c \<in> set (drop (length h) h1) \<and> installs c \<longrightarrow>
       (\<exists>c'. L_Cmd c' \<in> set rest \<and> removes c' \<and> entry_key c' = entry_key c))"
proof -
  obtain c0 cs where c: "h1 = h @ c0 # map L_Cmd cs" "dev_ok d" "\<forall>a. c0 \<noteq> L_Cmd a"
      "cs = del_subnet d # cleanup_cmds d (bcast d) @ setup_cmds d @ add_subnet d # route_cmds d (bcast d)"
    by (rule L_New_cases[OF assms(1), of os h]) (use assms(2) in auto)
  let ?rest = "map L_Cmd (del_subnet d # cleanup_cmds d (bcast d))"
  have cl: "L_Close os d h1 = Ok (LO_ok os (h1 @ ?rest) L_CloseTUN, h1 @ ?rest @ [L_CloseTUN])"
    using cleanup_hist[OF c(2), of os h1] by (simp add: L_Close_def lrun_def)
  have ins: "c \<in> set (add_subnet d # route_cmds d (bcast d))" if "c \<in> set cs" "installs c" for c
    using that by (auto simp: c(4) installs_def del_subnet_def cleanup_cmds_def setup_cmds_def words_differ)
  have "list_all (\<lambda>c. \<exists>c'\<in>set (del_subnet d # cleanup_cmds d (bcast d)). removes c' \<and> entry_key c' = entry_key c)
      (add_subnet d # route_cmds d (bcast d))"
    by (simp add: add_subnet_def route_cmds_def del_subnet_def cleanup_cmds_def removes_def words_differ)
  then have "\<exists>c'. L_Cmd c' \<in> set ?rest \<and> removes c' \<and> entry_key c' = entry_key c" if "c \<in> set (add_subnet d # route_cmds d (bcast d))" for c
    using that unfolding list_all_iff set_map by blast
  then have "\<exists>c'. L_Cmd c' \<in> set ?rest \<and> removes c' \<and> entry_key c' = entry_key c"
    if "L_Cmd c \<in> set (drop (length h) h1)" "installs c" for c
    using ins that c(1,3) by auto
  then show ?thesis using cl by blast
qed

text \<open>A system in which every call succeeds.\<close>

definition willing_os :: LinOS where
  "willing_os = \<lparr> LO_ok = (\<lambda>_ _. True), LO_name = Some (lit ''gt0''), LO_batch = 128 \<rparr>"

definition sample_devcfg :: DevConfig where
  "sample_devcfg = \<lparr> DC_VirtualIP = [10, 10, 0, 2], DC_SubnetMask = [255, 255, 255, 0], DC_ServerIP = [10, 10, 0, 1],
     DC_ServerPublicIP = [], DC_MTU = 0 \<rparr>"

theorem linux_device_not_leaked_witness:
  "\<exists>r h1. L_New willing_os sample_devcfg [] = Ok (r, h1) \<and>
    (case r of
       Inl e \<Rightarrow> h1 = [] \<or> (\<exists>c. h1 = [] @ [c] \<and> \<not> LO_ok willing_os [] c) \<or> last h1 = L_CloseTUN
     | Inr d \<Rightarrow> D_virtualIP d = DC_VirtualIP sample_devcfg \<and> set (map L_Cmd (setup_cmds d)) \<subseteq> set h1)"
  by (rule linux_device_not_leaked) (simp_all add: sample_devcfg_def)

lemma ip_10_ok: "ParseIP (ip_string [10, 10, 0, 2]) \<noteq> None" "ParseIP (ip_string [10, 10, 0, 1]) \<noteq> None"
  by code_simp+

lemma willing_New: "\<exists>d h1. L_New willing_os sample_devcfg [] = Ok (Inr d, h1)"
proof -
  define cf where "cf = sample_devcfg\<lparr> DC_MTU := TunDefaultMTU \<rparr>"
  define d where "d = new_device willing_os cf [10, 10, 0, 2] (lit ''gt0'')"
  have v: "validateConfig cf = None" "To4 (DC_VirtualIP cf) = Some [10, 10, 0, 2]" "DC_MTU sample_devcfg \<le> 0"
    using ip_10_ok by (simp_all add: validateConfig_def sample_devcfg_def cf_def)
  have w: "LO_ok willing_os h c" "LO_name willing_os = Some (lit ''gt0'')" for h c by (simp_all add: willing_os_def)
  have "dev_ok d" by (simp add: dev_ok_def new_device_def sample_devcfg_def d_def cf_def)
  then obtain h1 where "L_configure willing_os d [L_CreateTUN (lit ''gt0'') (DC_MTU cf)] = Ok (None, h1)"
    using w by (simp add: L_configure_def Let_def runCmd_hist cleanup_hist broadcast_ok try_cmds_hist)
  then have "L_New willing_os sample_devcfg [] = Ok (Inr d, h1)"
    using v w by (simp add: L_New_def Let_def lrun_def flip: cf_def d_def)
  then show ?thesis by blast
qed

theorem linux_routes_undone_witness:
  "\<exists>d h1 ok rest. L_New willing_os sample_devcfg [] = Ok (Inr d, h1) \<and> L_Close willing_os d h1 = Ok (ok, h1 @ rest @ [L_CloseTUN])"
proof -
  obtain d h1 where n: "L_New willing_os sample_devcfg [] = Ok (Inr d, h1)" using willing_New by blast
  have "length (DC_SubnetMask sample_devcfg) = 4" by (simp add: sample_devcfg_def)
  from linux_routes_undone[OF this n] n show ?thesis by blast
qed

text \<open>
  Reading from the device gives the IP packet itself: when the library's Read follows its
  documentation (it leaves one packet of the given size in the buffer from the given offset on) and
  the buffer has room for the header and the packet, the client sees the packet at the start of the
  buffer, with and without the header of ten bytes that batching devices put before it; and writing
  hands the library a buffer that holds the packet after the header.
\<close>

theorem linux_packets_unshifted:
  assumes "rd [buf] (D_offset d) = Some ([b], 1, [length p])" "take (length p) (drop (D_offset d) b) = p"
    "D_offset d + length p \<le> length b"
  shows "\<exists>b1. L_Read rd d buf = Ok (Some (b1, length p)) \<and> take (length p) b1 = p \<and>
    L_Write (\<lambda>w off. if drop off w = p then Some 1 else None) d p = Some (length p)"
  using assms by (auto simp: L_Read_def L_Write_def shift_down_def slice_def Let_def)

definition batch_device :: Device where
  "batch_device = new_device willing_os sample_devcfg [10, 10, 0, 2] (lit ''gt0'')"

theorem linux_packets_unshifted_witness:
  "\<exists>b1. L_Read (\<lambda>_ off. Some ([replicate off 0 @ [0x45, 1, 2]], 1, [3])) batch_device (replicate 13 0) = Ok (Some (b1, 3)) \<and>
    take 3 b1 = [0x45, 1, 2]"
  using linux_packets_unshifted[of "\<lambda>_ off. Some ([replicate off 0 @ [0x45, 1, 2]], 1, [3])" "replicate 13 0" batch_device
      "replicate (D_offset batch_device) 0 @ [0x45, 1, 2]" "[0x45, 1, 2]"] by (auto simp: numeral_3_eq_3)

end
