(* ===== verification/TunWindows.thy ===== *)
theory TunWindows
  imports TunLinux
begin

text \<open>
  The TUN device on Windows (internal/tun: tun.go, configure.go, iphelper_windows.go,
  metric_windows.go, firewall.go).  As on Linux the program is a function of the
  system's answers: every call of the IP Helper API, of netsh, route.exe and PowerShell
  is recorded in a history, and the system is a parameter that answers to a history.
\<close>

section \<open>The system\<close>

record Sockaddr =
  SA_Family :: u16
  SA_Data :: "u32 list"

definition AF_INET :: u16 where "AF_INET = 2"
definition AF_INET6 :: u16 where "AF_INET6 = 23"

record FwdRow =
  F_Luid :: u64
  F_IfIndex :: u32
  F_Prefix :: Sockaddr
  F_PrefixLen :: byte
  F_NextHop :: Sockaddr
  F_Metric :: u32
  F_Protocol :: u32

record AddrRow =
  AR_Family :: u16
  AR_Flowinfo :: u32
  AR_Luid :: u64
  AR_Index :: u32
  AR_PrefixLen :: byte
  AR_Lifetimes :: "u32 \<times> u32"

text \<open>A row of the interface table; \<open>I_rest\<close> are the members the program passes through.\<close>

record IfRow =
  I_Family :: u16
  I_Luid :: u64
  I_Auto :: byte
  I_Metric :: u32
  I_rest :: bytes

record Adapter =
  Ad_Index :: u32
  Ad_Name :: bytes
  Ad_Type :: u32
  Ad_Oper :: u32

datatype wcall = W_CreateTUN bytes int | W_CloseTUN | W_Cmd "bytes list" | W_CreateRoute FwdRow | W_DeleteRoute FwdRow
  | W_CreateAddr AddrRow | W_DeleteAddr AddrRow | W_GetIf u64 u16 | W_SetIf IfRow | W_GetTable | W_GetAdapters u32
  | W_ToLuid u32 | W_Sleep int

type_synonym whist = "wcall list"
type_synonym 'a wact = "whist \<Rightarrow> ('a \<times> whist) res"

text \<open>
  The answers to a history: the return code of a call (0 is success), the interface row, the
  routing table, the adapters, the buffer length and the LUID a call delivers.
\<close>

record WinOS =
  WO_code :: "whist \<Rightarrow> wcall \<Rightarrow> u32"
  WO_if :: "whist \<Rightarrow> u64 \<Rightarrow> u16 \<Rightarrow> IfRow"
  WO_table :: "whist \<Rightarrow> FwdRow list"
  WO_adapters :: "whist \<Rightarrow> Adapter list"
  WO_len :: "whist \<Rightarrow> u32"
  WO_luid :: "whist \<Rightarrow> u32 \<Rightarrow> u64"
  WO_name :: "bytes option"

definition wret :: "'a \<Rightarrow> 'a wact" where
  "wret x h = Ok (x, h)"

definition wbind :: "'a wact \<Rightarrow> ('a \<Rightarrow> 'b wact) \<Rightarrow> 'b wact" where
  "wbind m f h = bind_res (m h) (\<lambda>(x, h1). f x h1)"

definition wseq :: "'a wact \<Rightarrow> 'b wact \<Rightarrow> 'b wact" where
  "wseq m n = wbind m (\<lambda>_. n)"

definition wlift :: "'a res \<Rightarrow> 'a wact" where
  "wlift r h = bind_res r (\<lambda>x. Ok (x, h))"

definition wdo :: "WinOS \<Rightarrow> wcall \<Rightarrow> u32 wact" where
  "wdo os c h = Ok (WO_code os h c, h @ [c])"

text \<open>True is success.\<close>

definition RunCmd :: "WinOS \<Rightarrow> bytes list \<Rightarrow> bool wact" where
  "RunCmd os args = wbind (wdo os (W_Cmd args)) (\<lambda>r. wret (r = 0))"

section \<open>Addresses (iphelper_windows.go)\<close>

text \<open>Four bytes as a number, the first one least significant.\<close>

definition ipToSockaddrInet :: "ip \<Rightarrow> Sockaddr res" where
  "ipToSockaddrInet i =
     (case To4 i of
        Some x \<Rightarrow> Ok \<lparr> SA_Family = AF_INET, SA_Data = [le_word x, 0, 0, 0, 0, 0] \<rparr>
      | None \<Rightarrow>
          (case To16 i of
             Some x \<Rightarrow> Ok \<lparr> SA_Family = AF_INET6,
                 SA_Data = [0, le_word (take 4 x), le_word (take 4 (drop 4 x)), le_word (take 4 (drop 8 x)),
                            le_word (take 4 (drop 12 x)), 0] \<rparr>
           | None \<Rightarrow> Panic))"

definition zero_sockaddr :: Sockaddr where
  "zero_sockaddr = \<lparr> SA_Family = 0, SA_Data = replicate 6 0 \<rparr>"

text \<open>The bytes of the data words in memory order; nil is the empty list.\<close>

definition sockaddrInetToIP :: "Sockaddr \<Rightarrow> ip" where
  "sockaddrInetToIP sa =
     (if SA_Family sa = AF_INET then
        (let b = put32 (SA_Data sa ! 0) in IPv4 (b ! 0) (b ! 1) (b ! 2) (b ! 3))
      else if SA_Family sa = AF_INET6 then concat (map put32 (take 4 (drop 1 (SA_Data sa))))
      else [])"

definition IsUnspecified :: "ip \<Rightarrow> bool" where
  "IsUnspecified i \<longleftrightarrow> ip_equal i (IPv4 0 0 0 0) \<or> ip_equal i (replicate 16 0)"

section \<open>Routes and addresses (iphelper_windows.go)\<close>

definition NT_STATIC :: u32 where "NT_STATIC = 10006"

definition route_row :: "u64 \<Rightarrow> Sockaddr \<Rightarrow> nat \<Rightarrow> Sockaddr \<Rightarrow> u32 \<Rightarrow> u32 \<Rightarrow> FwdRow" where
  "route_row luid prefix ones hop metric proto =
     \<lparr> F_Luid = luid, F_IfIndex = 0, F_Prefix = prefix, F_PrefixLen = of_nat ones, F_NextHop = hop, F_Metric = metric,
       F_Protocol = proto \<rparr>"

definition addRoute :: "WinOS \<Rightarrow> u64 \<Rightarrow> ip \<Rightarrow> bytes \<Rightarrow> ip \<Rightarrow> u32 \<Rightarrow> bool wact" where
  "addRoute os luid dest msk nextHop metric =
     wbind (wlift (ipToSockaddrInet dest)) (\<lambda>p.
     wbind (wlift (ipToSockaddrInet nextHop)) (\<lambda>n.
     wbind (wdo os (W_CreateRoute (route_row luid p (fst (Mask_Size msk)) n metric NT_STATIC))) (\<lambda>r. wret (r = 0))))"

definition deleteRoute :: "WinOS \<Rightarrow> u64 \<Rightarrow> ip \<Rightarrow> bytes \<Rightarrow> ip \<Rightarrow> bool wact" where
  "deleteRoute os luid dest msk nextHop =
     wbind (wlift (ipToSockaddrInet dest)) (\<lambda>p.
     wbind (if nextHop \<noteq> [] then wlift (ipToSockaddrInet nextHop) else wret zero_sockaddr) (\<lambda>n.
     wbind (wdo os (W_DeleteRoute (route_row luid p (fst (Mask_Size msk)) n 0 0))) (\<lambda>r. wret (r = 0))))"

text \<open>The IPv4 address lies where the IPv6 layout has the flow information.\<close>

definition ipToSockaddrInet4ForRow :: "ip \<Rightarrow> u16 \<times> u32" where
  "ipToSockaddrInet4ForRow i = (AF_INET, case To4 i of Some x \<Rightarrow> le_word x | None \<Rightarrow> 0)"

definition addIPAddress :: "WinOS \<Rightarrow> u64 \<Rightarrow> u32 \<Rightarrow> ip \<Rightarrow> bytes \<Rightarrow> bool wact" where
  "addIPAddress os luid ifIndex i msk =
     (let (f, a) = ipToSockaddrInet4ForRow i in
      wbind (wdo os (W_CreateAddr \<lparr> AR_Family = f, AR_Flowinfo = a, AR_Luid = luid, AR_Index = ifIndex,
        AR_PrefixLen = of_nat (fst (Mask_Size msk)), AR_Lifetimes = (0xFFFFFFFF, 0xFFFFFFFF) \<rparr>)) (\<lambda>r. wret (r = 0)))"

definition deleteIPAddress :: "WinOS \<Rightarrow> u64 \<Rightarrow> u32 \<Rightarrow> ip \<Rightarrow> bool wact" where
  "deleteIPAddress os luid ifIndex i =
     (let (f, a) = ipToSockaddrInet4ForRow i in
      wbind (wdo os (W_DeleteAddr \<lparr> AR_Family = f, AR_Flowinfo = a, AR_Luid = luid, AR_Index = ifIndex,
        AR_PrefixLen = 0, AR_Lifetimes = (0, 0) \<rparr>)) (\<lambda>r. wret (r = 0)))"

text \<open>The row that GetIpInterfaceEntry filled in, given that it succeeded.\<close>

definition setInterfaceMetric :: "WinOS \<Rightarrow> u64 \<Rightarrow> u16 \<Rightarrow> u32 \<Rightarrow> bool wact" where
  "setInterfaceMetric os luid family metric =
     (\<lambda>h. wbind (wdo os (W_GetIf luid family)) (\<lambda>r.
        if r \<noteq> 0 then wret False
        else wbind (wdo os (W_SetIf ((WO_if os h luid family)\<lparr> I_Auto := 0, I_Metric := metric \<rparr>))) (\<lambda>r. wret (r = 0))) h)"

section \<open>Adapters (metric_windows.go)\<close>

definition ERROR_BUFFER_OVERFLOW :: u32 where "ERROR_BUFFER_OVERFLOW = 111"

text \<open>A zeroed buffer, read as an adapter: no name, no successor.\<close>

definition zero_adapter :: Adapter where
  "zero_adapter = \<lparr> Ad_Index = 0, Ad_Name = [], Ad_Type = 0, Ad_Oper = 0 \<rparr>"

definition findAdapterNameByIndex :: "WinOS \<Rightarrow> u32 \<Rightarrow> bytes option wact" where
  "findAdapterNameByIndex os targetIdx =
     (\<lambda>h. wbind (wdo os (W_GetAdapters 15000)) (\<lambda>r.
        wret (if r \<noteq> 0 then None
              else map_option Ad_Name (find (\<lambda>a. Ad_Index a = targetIdx) (WO_adapters os h)))) h)"

text \<open>Up to \<open>k\<close> attempts with the buffer length the system asks for.\<close>

fun read_adapters :: "WinOS \<Rightarrow> nat \<Rightarrow> u32 \<Rightarrow> Adapter list option wact" where
  "read_adapters os 0 len = wret (Some [zero_adapter])"
| "read_adapters os (Suc k) len =
     (\<lambda>h. wbind (wdo os (W_GetAdapters len)) (\<lambda>r.
        if r = 0 then wret (Some (WO_adapters os h))
        else if r \<noteq> ERROR_BUFFER_OVERFLOW then wret None
        else read_adapters os k (WO_len os h)) h)"

definition findAdapter :: "WinOS \<Rightarrow> bytes \<Rightarrow> (u32 \<times> u64) option wact" where
  "findAdapter os name =
     wbind (read_adapters os 3 15000) (\<lambda>as.
       case as of
         None \<Rightarrow> wret None
       | Some l \<Rightarrow>
           (case find (\<lambda>a. Ad_Name a = name) l of
              None \<Rightarrow> wret None
            | Some a \<Rightarrow>
                (\<lambda>h. wbind (wdo os (W_ToLuid (Ad_Index a))) (\<lambda>r.
                   wret (if r = 0 then Some (Ad_Index a, WO_luid os h (Ad_Index a)) else None)) h)))"

definition setMetricAPI :: "WinOS \<Rightarrow> u64 \<Rightarrow> bool wact" where
  "setMetricAPI os luid =
     wbind (setInterfaceMetric os luid AF_INET 1) (\<lambda>ok.
       if \<not> ok then wret False else wseq (setInterfaceMetric os luid AF_INET6 1) (wret True))"

definition checkAutoMetricDisabled :: "WinOS \<Rightarrow> u64 \<Rightarrow> bool wact" where
  "checkAutoMetricDisabled os luid =
     (\<lambda>h. wbind (wdo os (W_GetIf luid AF_INET)) (\<lambda>r.
        wret (r = 0 \<and> I_Auto (WO_if os h luid AF_INET) = 0 \<and> I_Metric (WO_if os h luid AF_INET) = 1)) h)"

fun disable_each :: "WinOS \<Rightarrow> bytes \<Rightarrow> Adapter list \<Rightarrow> unit wact" where
  "disable_each os tunName [] = wret ()"
| "disable_each os tunName (a # as) =
     wseq (if Ad_Name a \<noteq> tunName \<and> Ad_Oper a = 1 \<and> Ad_Type a \<noteq> 24 then
             (\<lambda>h. wbind (wdo os (W_ToLuid (Ad_Index a))) (\<lambda>r.
                if r \<noteq> 0 then wret () else wseq (setMetricAPI os (WO_luid os h (Ad_Index a))) (wret ())) h)
           else wret ())
       (disable_each os tunName as)"

definition disableAllPhysicalAutoMetric :: "WinOS \<Rightarrow> bytes \<Rightarrow> unit wact" where
  "disableAllPhysicalAutoMetric os tunName =
     (\<lambda>h. wbind (wdo os (W_GetAdapters 15000)) (\<lambda>r.
        if r \<noteq> 0 then wret () else disable_each os tunName (WO_adapters os h)) h)"

section \<open>The physical gateway (iphelper_windows.go)\<close>

fun scan_gateway :: "WinOS \<Rightarrow> u16 \<Rightarrow> bytes \<Rightarrow> FwdRow list \<Rightarrow> (ip \<times> u32) wact" where
  "scan_gateway os family tunName [] = wret ([], 0)"
| "scan_gateway os family tunName (row # rows) =
     (if SA_Family (F_Prefix row) \<noteq> family \<or> F_PrefixLen row \<noteq> 0 then scan_gateway os family tunName rows
      else
        wbind (if F_IfIndex row \<noteq> 0 then
                 wbind (findAdapterNameByIndex os (F_IfIndex row)) (\<lambda>n. wret (n = Some tunName))
               else wret False) (\<lambda>isTun.
        let gw = sockaddrInetToIP (F_NextHop row) in
        if isTun \<or> gw = [] \<or> IsUnspecified gw then scan_gateway os family tunName rows
        else wret (gw, F_IfIndex row)))"

definition detectPhysicalGateway :: "WinOS \<Rightarrow> bool \<Rightarrow> bytes \<Rightarrow> (ip \<times> u32) wact" where
  "detectPhysicalGateway os wantIPv4 tunName =
     (\<lambda>h. wbind (wdo os W_GetTable) (\<lambda>r.
        if r \<noteq> 0 then wret ([], 0)
        else scan_gateway os (if wantIPv4 then AF_INET else AF_INET6) tunName (WO_table os h)) h)"

section \<open>The device (tun.go)\<close>

record WDevice =
  WD_name :: bytes
  WD_virtualIP :: ip
  WD_subnetMask :: bytes
  WD_serverPublicIP :: ip
  WD_mtu :: int
  WD_ifIndex :: u32
  WD_luid :: u64
  WD_physicalGateway :: ip
  WD_physicalIfIdx :: u32
  WD_maint :: bool

text \<open>
  \<open>WD_maint\<close> tells that the goroutine for route maintenance runs (its stop channel is not nil); the
  empty list is a nil address.
\<close>

definition stopRouteMaintenance :: "WDevice \<Rightarrow> WDevice" where
  "stopRouteMaintenance d = d\<lparr> WD_maint := False \<rparr>"

definition startRouteMaintenance :: "WDevice \<Rightarrow> WDevice" where
  "startRouteMaintenance d = (stopRouteMaintenance d)\<lparr> WD_maint := True \<rparr>"

definition mask32 :: bytes where "mask32 = [255, 255, 255, 255]"

definition addRouteNetsh :: "WinOS \<Rightarrow> WDevice \<Rightarrow> ip \<Rightarrow> bytes \<Rightarrow> ip \<Rightarrow> u32 \<Rightarrow> bool wact" where
  "addRouteNetsh os d dest msk nextHop metric =
     RunCmd os [lit ''netsh'', lit ''interface'', lit ''ipv4'', lit ''add'', lit ''route'', cidr dest (fst (Mask_Size msk)),
       lit ''interface='' @ WD_name d, lit ''nexthop='' @ ip_string nextHop, lit ''metric='' @ dec (unat metric)]"

definition addRouteRouteCmd :: "WinOS \<Rightarrow> WDevice \<Rightarrow> ip \<Rightarrow> bytes \<Rightarrow> ip \<Rightarrow> u32 \<Rightarrow> bool wact" where
  "addRouteRouteCmd os d dest msk nextHop metric =
     RunCmd os [lit ''route'', lit ''add'', ip_string dest, lit ''mask'', ip_string msk, ip_string nextHop,
       lit ''metric'', dec (unat metric), lit ''if'', dec (unat (WD_ifIndex d))]"

definition addRouteWithFallback :: "WinOS \<Rightarrow> WDevice \<Rightarrow> ip \<Rightarrow> bytes \<Rightarrow> ip \<Rightarrow> u32 \<Rightarrow> unit wact" where
  "addRouteWithFallback os d dest msk nextHop metric =
     wbind (addRoute os (WD_luid d) dest msk nextHop metric) (\<lambda>ok.
     if ok then wret ()
     else wbind (addRouteNetsh os d dest msk nextHop metric) (\<lambda>ok.
          if ok then wret () else wseq (addRouteRouteCmd os d dest msk nextHop metric) (wret ())))"

definition w_subnet :: "WDevice \<Rightarrow> ip" where
  "w_subnet d = IP_Mask (WD_virtualIP d) (WD_subnetMask d)"

definition repairRoutes :: "WinOS \<Rightarrow> WDevice \<Rightarrow> unit wact" where
  "repairRoutes os d =
     wseq (addRouteRouteCmd os d (IPv4 255 255 255 255) mask32 (WD_virtualIP d) 1)
     (wbind (wlift (broadcast_of (w_subnet d) (WD_subnetMask d))) (\<lambda>bc.
      wseq (addRouteRouteCmd os d bc (WD_subnetMask d) (WD_virtualIP d) 1)
      (wseq (addRouteRouteCmd os d (IPv4 224 0 0 251) mask32 (WD_virtualIP d) 1) (wret ()))))"

text \<open>One tick of the maintenance goroutine.\<close>

definition maintenance_tick :: "WinOS \<Rightarrow> WDevice \<Rightarrow> unit wact" where
  "maintenance_tick os d = (if WD_maint d then repairRoutes os d else wret ())"

section \<open>Configuration (configure.go)\<close>

definition exclusion_delete :: "WinOS \<Rightarrow> WDevice \<Rightarrow> unit wact" where
  "exclusion_delete os d =
     (if WD_serverPublicIP d \<noteq> [] \<and> WD_physicalGateway d \<noteq> [] then
        (if To4 (WD_serverPublicIP d) = None then
           wseq (RunCmd os [lit ''netsh'', lit ''interface'', lit ''ipv6'', lit ''delete'', lit ''route'',
                   ip_string (WD_serverPublicIP d) @ lit ''/128'',
                   lit ''interface='' @ dec (unat (if WD_physicalIfIdx d = 0 then WD_ifIndex d else WD_physicalIfIdx d))])
             (wret ())
         else wseq (deleteRoute os (WD_luid d) (WD_serverPublicIP d) mask32 (WD_physicalGateway d)) (wret ()))
      else wret ())"

definition W_CleanupRoutes :: "WinOS \<Rightarrow> WDevice \<Rightarrow> WDevice wact" where
  "W_CleanupRoutes os d0 =
     (let d = stopRouteMaintenance d0; luid = WD_luid d in
      wseq (exclusion_delete os d)
      (wseq (deleteRoute os luid (IPv4 255 255 255 255) mask32 [])
      (wseq (deleteRoute os luid (IPv4 224 0 0 251) mask32 [])
      (wseq (deleteRoute os luid (w_subnet d) (WD_subnetMask d) [])
      (wbind (wlift (broadcast_of (w_subnet d) (WD_subnetMask d))) (\<lambda>bc.
       wseq (deleteRoute os luid bc (WD_subnetMask d) []) (wret d)))))))"

text \<open>Steps 5 to 8 of \<open>configure\<close>, which \<open>ReconfigureRoutes\<close> repeats.\<close>

definition tun_routes :: "WinOS \<Rightarrow> WDevice \<Rightarrow> unit wact" where
  "tun_routes os d =
     (let luid = WD_luid d; vip = WD_virtualIP d in
      wseq (deleteRoute os luid (w_subnet d) (WD_subnetMask d) [])
      (wseq (addRouteWithFallback os d (w_subnet d) (WD_subnetMask d) vip 1)
      (wseq (deleteRoute os luid (IPv4 255 255 255 255) mask32 [])
      (wseq (addRouteWithFallback os d (IPv4 255 255 255 255) mask32 vip 1)
      (wbind (wlift (broadcast_of (w_subnet d) (WD_subnetMask d))) (\<lambda>bc.
       wseq (deleteRoute os luid bc (WD_subnetMask d) [])
       (wseq (addRouteRouteCmd os d bc (WD_subnetMask d) vip 1)
       (wseq (addRouteRouteCmd os d (IPv4 224 0 0 251) mask32 vip 1) (wret ())))))))))"

definition find_gateway :: "WinOS \<Rightarrow> WDevice \<Rightarrow> (ip \<times> u32) wact" where
  "find_gateway os d =
     (let isv6 = (To4 (WD_serverPublicIP d) = None) in
      wbind (detectPhysicalGateway os (\<not> isv6) (WD_name d)) (\<lambda>(gw, i).
      if gw = [] \<and> isv6 then detectPhysicalGateway os True (WD_name d) else wret (gw, i)))"

text \<open>
  The exclusion route of the server (step 9); the address family of the gateway must fit.
  \<open>forget\<close>: \<open>ReconfigureRoutes\<close> forgets the gateway when none is found, \<open>configure\<close> does not.
\<close>

definition exclusion_via :: "WinOS \<Rightarrow> bool \<Rightarrow> WDevice \<Rightarrow> ip \<times> u32 \<Rightarrow> WDevice wact" where
  "exclusion_via os forget d g =
     (let (gw, phyIfIdx) = g; isv6 = (To4 (WD_serverPublicIP d) = None) in
      if gw = [] then wret (if forget then d\<lparr> WD_physicalGateway := [] \<rparr> else d)
      else if isv6 \<and> To4 gw \<noteq> None then wret d
      else if \<not> isv6 \<and> To4 gw = None then wret d
      else
        (let d1 = d\<lparr> WD_physicalGateway := gw, WD_physicalIfIdx := phyIfIdx \<rparr> in
         if isv6 then
           wseq (RunCmd os [lit ''netsh'', lit ''interface'', lit ''ipv6'', lit ''add'', lit ''route'',
                   ip_string (WD_serverPublicIP d) @ lit ''/128'',
                   lit ''interface='' @ dec (unat (if phyIfIdx = 0 then WD_ifIndex d else phyIfIdx)),
                   lit ''nexthop='' @ ip_string gw, lit ''metric=1'']) (wret d1)
         else wseq (addRouteWithFallback os d1 (WD_serverPublicIP d) mask32 gw 1) (wret d1)))"

definition exclusion_add :: "WinOS \<Rightarrow> bool \<Rightarrow> WDevice \<Rightarrow> WDevice wact" where
  "exclusion_add os forget d =
     (if WD_serverPublicIP d = [] then wret d else wbind (find_gateway os d) (exclusion_via os forget d))"

definition assign_address :: "WinOS \<Rightarrow> WDevice \<Rightarrow> bool wact" where
  "assign_address os d =
     wbind (addIPAddress os (WD_luid d) (WD_ifIndex d) (WD_virtualIP d) (WD_subnetMask d)) (\<lambda>ok.
     if ok then wret True
     else RunCmd os [lit ''netsh'', lit ''interface'', lit ''ip'', lit ''set'', lit ''address'', lit ''name='' @ WD_name d,
            lit ''static'', ip_string (WD_virtualIP d), ip_string (WD_subnetMask d)])"

definition set_metric :: "WinOS \<Rightarrow> WDevice \<Rightarrow> unit wact" where
  "set_metric os d =
     wseq (setMetricAPI os (WD_luid d))
     (wbind (checkAutoMetricDisabled os (WD_luid d)) (\<lambda>ok.
      if ok then wret ()
      else wseq (wdo os (W_Sleep 2000))
           (wseq (setMetricAPI os (WD_luid d)) (wseq (checkAutoMetricDisabled os (WD_luid d)) (wret ())))))"

definition private_cmd :: "WDevice \<Rightarrow> bytes list" where
  "private_cmd d = [lit ''powershell'', lit ''-NoProfile'', lit ''-Command'',
     lit ''Set-NetConnectionProfile -InterfaceAlias '' @ [39] @ WD_name d @ [39] @ lit '' -NetworkCategory Private'']"

definition W_configure :: "WinOS \<Rightarrow> WDevice \<Rightarrow> (tun_err option \<times> WDevice) wact" where
  "W_configure os d0 =
     wbind (W_CleanupRoutes os d0) (\<lambda>d1.
     wseq (wdo os (W_Sleep 1000))
     (wbind (findAdapter os (WD_name d1)) (\<lambda>a.
      case a of
        None \<Rightarrow> wret (Some AdapterNotFound, d1)
      | Some (i, luid) \<Rightarrow>
          (let d2 = d1\<lparr> WD_ifIndex := i, WD_luid := luid \<rparr> in
           wbind (assign_address os d2) (\<lambda>ok.
           if \<not> ok then wret (Some AssignFailed, d2)
           else
             wseq (set_metric os d2)
             (wseq (disableAllPhysicalAutoMetric os (WD_name d2))
             (wseq (tun_routes os d2)
             (wbind (exclusion_add os False d2) (\<lambda>d3.
              wseq (RunCmd os (private_cmd d3)) (wret (None, startRouteMaintenance d3)))))))))))"

definition W_ReconfigureRoutes :: "WinOS \<Rightarrow> WDevice \<Rightarrow> WDevice wact" where
  "W_ReconfigureRoutes os d0 =
     wbind (W_CleanupRoutes os d0) (\<lambda>d1.
     wseq (tun_routes os d1)
     (wbind (exclusion_add os True d1) (\<lambda>d2. wret (startRouteMaintenance d2))))"

definition w_new_device :: "DevConfig \<Rightarrow> ip \<Rightarrow> bytes \<Rightarrow> WDevice" where
  "w_new_device cfg vip nm =
     \<lparr> WD_name = nm, WD_virtualIP = vip, WD_subnetMask = DC_SubnetMask cfg, WD_serverPublicIP = DC_ServerPublicIP cfg,
       WD_mtu = DC_MTU cfg, WD_ifIndex = 0, WD_luid = 0, WD_physicalGateway = [], WD_physicalIfIdx = 0, WD_maint = False \<rparr>"

definition W_New :: "WinOS \<Rightarrow> DevConfig \<Rightarrow> (tun_err + WDevice) wact" where
  "W_New os cfg0 =
     (let cfg = (if DC_MTU cfg0 \<le> 0 then cfg0\<lparr> DC_MTU := TunDefaultMTU \<rparr> else cfg0) in
      case validateConfig cfg of
        Some e \<Rightarrow> wret (Inl e)
      | None \<Rightarrow>
          (case To4 (DC_VirtualIP cfg) of
             None \<Rightarrow> wret (Inl NotIPv4)
           | Some vip \<Rightarrow>
               wbind (wdo os (W_CreateTUN (lit ''GameTunnel'') (DC_MTU cfg))) (\<lambda>r.
               if r \<noteq> 0 then wret (Inl CreateFailed)
               else
                 (case WO_name os of
                    None \<Rightarrow> wseq (wdo os W_CloseTUN) (wret (Inl NameFailed))
                  | Some nm \<Rightarrow>
                      wbind (W_configure os (w_new_device cfg vip nm)) (\<lambda>(e, d).
                      case e of Some x \<Rightarrow> wseq (wdo os W_CloseTUN) (wret (Inl x)) | None \<Rightarrow> wret (Inr d))))))"

definition W_Close :: "WinOS \<Rightarrow> WDevice \<Rightarrow> (bool \<times> WDevice) wact" where
  "W_Close os d = wbind (W_CleanupRoutes os d) (\<lambda>d1. wbind (wdo os W_CloseTUN) (\<lambda>r. wret (r = 0, d1)))"

text \<open>Reading and writing one packet; the library's Read and Write as on Linux, at offset 0.\<close>

definition W_Read :: "wg_read \<Rightarrow> bytes \<Rightarrow> (bytes \<times> nat) option" where
  "W_Read rd buf =
     (case rd [buf] 0 of
        None \<Rightarrow> None
      | Some (bs, n, sizes) \<Rightarrow> if n = 0 then Some (hd bs, 0) else Some (hd bs, hd sizes))"

definition W_ReadBatch :: "wg_read \<Rightarrow> bytes list \<Rightarrow> (bytes list \<times> nat \<times> nat list) option" where
  "W_ReadBatch rd bufs = rd bufs 0"

definition W_Write :: "wg_write \<Rightarrow> bytes \<Rightarrow> nat option" where
  "W_Write wr data = (case wr data 0 of None \<Rightarrow> None | Some n \<Rightarrow> if n = 0 then Some 0 else Some (length data))"

section \<open>Firewall rules (firewall.go)\<close>

definition rule_names :: "bytes list" where
  "rule_names = [lit ''GameTunnel Client'', lit ''GameTunnel Client Out'', lit ''GameTunnel LAN Ports'']"

definition commonLANPorts :: "(bytes \<times> bytes) list" where
  "commonLANPorts = [(lit ''6112'', lit ''udp''), (lit ''6112'', lit ''tcp''), (lit ''6113'', lit ''udp''), (lit ''5353'', lit ''udp''),
     (lit ''47624'', lit ''udp'')]"

definition fw_delete :: "bytes \<Rightarrow> bytes list" where
  "fw_delete n = [lit ''netsh'', lit ''advfirewall'', lit ''firewall'', lit ''delete'', lit ''rule'', lit ''name='' @ n]"

definition fw_add :: "bytes \<Rightarrow> bytes \<Rightarrow> bytes \<Rightarrow> bytes list \<Rightarrow> bytes list" where
  "fw_add n dir prog rest =
     [lit ''netsh'', lit ''advfirewall'', lit ''firewall'', lit ''add'', lit ''rule'', lit ''name='' @ n, lit ''dir='' @ dir,
      lit ''action=allow'', lit ''program='' @ prog, lit ''enable=yes'', lit ''profile=any''] @ rest"

fun run_all :: "WinOS \<Rightarrow> bytes list list \<Rightarrow> unit wact" where
  "run_all os [] = wret ()"
| "run_all os (c # cs) = wseq (RunCmd os c) (run_all os cs)"

definition fw_adds :: "bytes \<Rightarrow> bytes list list" where
  "fw_adds exe =
     [fw_add (rule_names ! 0) (lit ''in'') exe [lit ''protocol=any''], fw_add (rule_names ! 1) (lit ''out'') exe [lit ''protocol=any'']] @
     map (\<lambda>(port, proto). fw_add (rule_names ! 2) (lit ''in'') (lit ''any'') [lit ''protocol='' @ proto, lit ''localport='' @ port])
       commonLANPorts"

text \<open>\<open>exe\<close> is what os.Executable answers; the result tells whether the cleanup function does anything.\<close>

definition SetupFirewall :: "WinOS \<Rightarrow> bytes option \<Rightarrow> bool wact" where
  "SetupFirewall os exe =
     (case exe of
        None \<Rightarrow> wret False
      | Some p \<Rightarrow> wseq (run_all os (map fw_delete rule_names)) (wseq (run_all os (fw_adds p)) (wret True)))"

definition cleanupFirewall :: "WinOS \<Rightarrow> bool \<Rightarrow> unit wact" where
  "cleanupFirewall os active = (if active then run_all os (map fw_delete rule_names) else wret ())"

section \<open>Reasoning about histories\<close>

text \<open>
  \<open>wspec P Q m\<close>: whatever the system answers, \<open>m\<close> does not panic, makes only calls that satisfy \<open>P\<close>
  and ends with a result that satisfies \<open>Q\<close>.
\<close>

definition wspec :: "(wcall \<Rightarrow> bool) \<Rightarrow> ('a \<Rightarrow> bool) \<Rightarrow> 'a wact \<Rightarrow> bool" where
  "wspec P Q m \<longleftrightarrow> (\<forall>h. \<exists>x cs. m h = Ok (x, h @ cs) \<and> list_all P cs \<and> Q x)"

lemma wspec_ret: "Q x \<Longrightarrow> wspec P Q (wret x)"
  by (simp add: wspec_def wret_def)

lemma wspec_bind:
  assumes "wspec P R m" "\<And>x. R x \<Longrightarrow> wspec P Q (f x)"
  shows "wspec P Q (wbind m f)"
  unfolding wspec_def
proof
  fix h
  obtain x cs where x: "m h = Ok (x, h @ cs)" "list_all P cs" "R x" using assms(1) unfolding wspec_def by blast
  obtain y ds where "f x (h @ cs) = Ok (y, (h @ cs) @ ds)" "list_all P ds" "Q y"
    using assms(2)[OF x(3)] unfolding wspec_def by blast
  then show "\<exists>y cs. wbind m f h = Ok (y, h @ cs) \<and> list_all P cs \<and> Q y"
    using x by (intro exI[of _ y] exI[of _ "cs @ ds"]) (simp add: wbind_def)
qed

lemma wspec_seq: "wspec P R m \<Longrightarrow> wspec P Q n \<Longrightarrow> wspec P Q (wseq m n)"
  unfolding wseq_def by (rule wspec_bind)

lemma wspec_do: "P c \<Longrightarrow> wspec P (\<lambda>_. True) (wdo os c)"
  by (simp add: wspec_def wdo_def)

lemma wspec_lift: "r = Ok x \<Longrightarrow> Q x \<Longrightarrow> wspec P Q (wlift r)"
  by (simp add: wspec_def wlift_def)

lemma wspec_hist: "(\<And>h. wspec P Q (m h)) \<Longrightarrow> wspec P Q (\<lambda>h. m h h)"
  by (simp add: wspec_def)

lemma wspec_weaken: "wspec P Q m \<Longrightarrow> (\<And>x. Q x \<Longrightarrow> R x) \<Longrightarrow> wspec P R m"
  unfolding wspec_def by blast

lemma wspec_any: "wspec P Q m \<Longrightarrow> wspec P (\<lambda>_. True) m"
  by (erule wspec_weaken) simp

lemma wspec_if: "(b \<Longrightarrow> wspec P Q m) \<Longrightarrow> (\<not> b \<Longrightarrow> wspec P Q n) \<Longrightarrow> wspec P Q (if b then m else n)"
  by simp

lemma wspec_run: "P (W_Cmd c) \<Longrightarrow> wspec P (\<lambda>_. True) (RunCmd os c)"
  unfolding RunCmd_def by (rule wspec_bind[OF wspec_do]) (simp_all add: wspec_ret)

text \<open>Addresses the API accepts.\<close>

definition ip_len :: "ip \<Rightarrow> bool" where
  "ip_len i \<longleftrightarrow> length i = 4 \<or> length i = 16"

lemma sockaddr_ok: "ip_len i \<Longrightarrow> \<exists>sa. ipToSockaddrInet i = Ok sa \<and> SA_Family sa \<noteq> 0"
  by (auto simp: ip_len_def ipToSockaddrInet_def To4_def To16_def AF_INET_def AF_INET6_def)

text \<open>A route row for an adapter, as \<open>addRoute\<close> makes it, and one for deletion without a next hop.\<close>

definition own_route :: "u64 \<Rightarrow> wcall \<Rightarrow> bool" where
  "own_route luid c \<longleftrightarrow> (\<forall>row. c = W_CreateRoute row \<longrightarrow> F_Luid row = luid \<and> F_IfIndex row = 0 \<and> SA_Family (F_NextHop row) \<noteq> 0)"

text \<open>A call that makes its route on the TUN: through the API, or by a command that names it (netsh) or its index (route.exe).\<close>

definition on_tun :: "WDevice \<Rightarrow> wcall \<Rightarrow> bool" where
  "on_tun d c \<longleftrightarrow> (\<forall>row. c = W_CreateRoute row \<longrightarrow> F_Luid row = WD_luid d \<and> F_IfIndex row = 0) \<and>
     (\<forall>args. c = W_Cmd args \<longrightarrow> lit ''interface='' @ WD_name d \<in> set args \<or>
        (\<exists>pre. args = lit ''route'' # pre @ [lit ''if'', dec (unat (WD_ifIndex d))]))"

text \<open>Rows of the routing table are identified by adapter, prefix and next hop; the entry of the server's exclusion route.\<close>

definition same_entry :: "FwdRow \<Rightarrow> FwdRow \<Rightarrow> bool" where
  "same_entry a b \<longleftrightarrow> F_Luid a = F_Luid b \<and> F_Prefix a = F_Prefix b \<and> F_PrefixLen a = F_PrefixLen b \<and> F_NextHop a = F_NextHop b"

definition exclusion_entry :: "WDevice \<Rightarrow> FwdRow \<Rightarrow> bool" where
  "exclusion_entry d row \<longleftrightarrow> F_Luid row = WD_luid d \<and> ipToSockaddrInet (WD_serverPublicIP d) = Ok (F_Prefix row) \<and>
     F_PrefixLen row = 32 \<and> ipToSockaddrInet (WD_physicalGateway d) = Ok (F_NextHop row)"

text \<open>What \<open>CleanupRoutes\<close> calls: a deletion without next hop, or that of the exclusion route.\<close>

definition cleanup_call :: "WDevice \<Rightarrow> wcall \<Rightarrow> bool" where
  "cleanup_call d c \<longleftrightarrow> (\<exists>row. c = W_DeleteRoute row \<and> (F_NextHop row = zero_sockaddr \<or> exclusion_entry d row))"

definition v4_exclusion :: "WDevice \<Rightarrow> bool" where
  "v4_exclusion d \<longleftrightarrow> WD_serverPublicIP d = [] \<or> WD_physicalGateway d = [] \<or>
     To4 (WD_serverPublicIP d) \<noteq> None \<and> To4 (WD_physicalGateway d) \<noteq> None"

lemma own_route_other [simp]:
  "own_route l (W_Cmd c)" "own_route l (W_DeleteRoute r)" "own_route l W_GetTable" "own_route l (W_GetAdapters n)"
  "own_route l (W_CreateAddr ar)" "own_route l (W_GetIf x y)" "own_route l (W_SetIf ir)" "own_route l (W_ToLuid i)"
  "own_route l (W_Sleep t)" "own_route l (W_CreateTUN nm mtu)" "own_route l W_CloseTUN"
  by (simp_all add: own_route_def)

lemma spec_addRoute:
  assumes "ip_len dest" "ip_len hop"
  shows "wspec (own_route luid) (\<lambda>_. True) (addRoute os luid dest msk hop metric)"
proof -
  obtain p n where p: "ipToSockaddrInet dest = Ok p" "ipToSockaddrInet hop = Ok n" "SA_Family n \<noteq> 0"
    using sockaddr_ok[OF assms(1)] sockaddr_ok[OF assms(2)] by blast
  show ?thesis unfolding addRoute_def p
    by (rule wspec_bind[OF wspec_lift[OF refl, of "\<lambda>x. x = p"]], simp)
       (rule wspec_bind[OF wspec_lift[OF refl, of "\<lambda>x. x = n"]], simp,
        rule wspec_bind[OF wspec_do], simp_all add: own_route_def route_row_def p(3) wspec_ret)
qed

lemma spec_deleteRoute:
  assumes "ip_len dest" "hop = [] \<or> ip_len hop" "\<And>row. hop = [] \<longrightarrow> F_NextHop row = zero_sockaddr \<Longrightarrow> P (W_DeleteRoute row)"
  shows "wspec P (\<lambda>_. True) (deleteRoute os luid dest msk hop)"
proof -
  obtain p where p: "ipToSockaddrInet dest = Ok p" using sockaddr_ok[OF assms(1)] by blast
  have n: "wspec P (\<lambda>n. hop = [] \<longrightarrow> n = zero_sockaddr) (if hop \<noteq> [] then wlift (ipToSockaddrInet hop) else wret zero_sockaddr)"
  proof (cases "hop = []")
    case False
    then obtain sa where "ipToSockaddrInet hop = Ok sa" using assms(2) sockaddr_ok[of hop] by auto
    then show ?thesis using False by (simp add: wspec_lift)
  qed (simp add: wspec_ret)
  show ?thesis unfolding deleteRoute_def p
    by (rule wspec_bind[OF wspec_lift[OF refl, of "\<lambda>x. x = p"]], simp)
       (rule wspec_bind[OF n], rule wspec_bind[OF wspec_do], rule assms(3), simp_all add: route_row_def wspec_ret)
qed

lemma spec_fallback:
  assumes "ip_len dest" "ip_len hop"
  shows "wspec (own_route (WD_luid d)) (\<lambda>_. True) (addRouteWithFallback os d dest msk hop metric)"
  unfolding addRouteWithFallback_def addRouteNetsh_def addRouteRouteCmd_def
  by (rule wspec_bind[OF spec_addRoute[OF assms]])
     (intro wspec_if wspec_ret wspec_bind[OF wspec_run] wspec_seq[OF wspec_run]; simp)

text \<open>Searching the gateway creates no route; a gateway of an IPv4 row is an IPv4 address.\<close>

definition reads_only :: "wcall \<Rightarrow> bool" where
  "reads_only c \<longleftrightarrow> c = W_GetTable \<or> (\<exists>n. c = W_GetAdapters n)"

lemma spec_name_by_index: "wspec reads_only (\<lambda>_. True) (findAdapterNameByIndex os i)"
  unfolding findAdapterNameByIndex_def
  by (rule wspec_hist, rule wspec_bind[OF wspec_do]) (simp_all add: reads_only_def wspec_ret)

definition gateway_of :: "u16 \<Rightarrow> FwdRow list \<Rightarrow> ip \<Rightarrow> bool" where
  "gateway_of family rows gw \<longleftrightarrow> gw = [] \<or> (\<exists>row\<in>set rows. SA_Family (F_Prefix row) = family \<and> F_PrefixLen row = 0 \<and>
     gw = sockaddrInetToIP (F_NextHop row) \<and> \<not> IsUnspecified gw)"

lemma gateway_of_mono: "gateway_of f rows gw \<Longrightarrow> gateway_of f (row # rows) gw"
  by (auto simp: gateway_of_def)

lemma spec_scan: "wspec reads_only (\<lambda>(gw, i). gateway_of f rows gw) (scan_gateway os f nm rows)"
proof (induction rows)
  case Nil
  show ?case by (simp add: wspec_ret gateway_of_def)
next
  case (Cons row rows)
  have IH: "wspec reads_only (\<lambda>(gw, i). gateway_of f (row # rows) gw) (scan_gateway os f nm rows)"
    by (rule wspec_weaken[OF Cons]) (auto intro: gateway_of_mono)
  have t: "wspec reads_only (\<lambda>_. True) (if F_IfIndex row \<noteq> 0 then
      wbind (findAdapterNameByIndex os (F_IfIndex row)) (\<lambda>n. wret (n = Some nm)) else wret False)"
    by (intro wspec_if wspec_ret wspec_bind[OF spec_name_by_index]) simp_all
  show ?case
    by (simp only: scan_gateway.simps Let_def)
       (intro wspec_if IH wspec_bind[OF t] wspec_ret; auto simp: gateway_of_def)
qed

lemma spec_detect: "wspec reads_only (\<lambda>(gw, i). \<exists>h. gateway_of (if v4 then AF_INET else AF_INET6) (WO_table os h) gw) (detectPhysicalGateway os v4 nm)"
  unfolding detectPhysicalGateway_def
proof (rule wspec_hist, rule wspec_bind[OF wspec_do])
  show "reads_only W_GetTable" by (simp add: reads_only_def)
  show "wspec reads_only (\<lambda>(gw, i). \<exists>h. gateway_of (if v4 then AF_INET else AF_INET6) (WO_table os h) gw)
      (if r \<noteq> 0 then wret ([], 0) else scan_gateway os (if v4 then AF_INET else AF_INET6) nm (WO_table os h))" for h r
    by (intro wspec_if wspec_ret wspec_weaken[OF spec_scan]) (auto simp: gateway_of_def[of _ _ "[]"])
qed

definition found_gateway :: "WinOS \<Rightarrow> bool \<Rightarrow> ip \<Rightarrow> bool" where
  "found_gateway os v6 gw \<longleftrightarrow> (\<exists>h. gateway_of AF_INET (WO_table os h) gw) \<or> v6 \<and> (\<exists>h. gateway_of AF_INET6 (WO_table os h) gw)"

lemma spec_find_gateway: "wspec reads_only (\<lambda>(gw, i). found_gateway os (To4 (WD_serverPublicIP d) = None) gw) (find_gateway os d)"
  unfolding find_gateway_def Let_def
  by (rule wspec_bind[OF spec_detect])
     (auto simp: found_gateway_def intro!: wspec_if wspec_ret wspec_weaken[OF spec_detect] split: if_splits)

lemma wspec_calls: "wspec P Q m \<Longrightarrow> (\<And>c. P c \<Longrightarrow> P' c) \<Longrightarrow> wspec P' Q m"
  unfolding wspec_def list_all_iff by blast

lemma reads_own: "wspec reads_only Q m \<Longrightarrow> wspec (own_route l) Q m"
  by (erule wspec_calls) (auto simp: reads_only_def)

lemma v4_gateway: "To4 gw \<noteq> None \<Longrightarrow> ip_len gw"
  by (auto simp: To4_def ip_len_def split: if_splits)

lemma reads_on_tun: "wspec reads_only Q m \<Longrightarrow> wspec (on_tun d) Q m"
  by (erule wspec_calls) (auto simp: reads_only_def on_tun_def)

lemma spec_fallback_on_tun:
  assumes "ip_len dest" "ip_len hop"
  shows "wspec (on_tun d) (\<lambda>_. True) (addRouteWithFallback os d dest msk hop metric)"
proof -
  obtain p n where p: "ipToSockaddrInet dest = Ok p" "ipToSockaddrInet hop = Ok n"
    using sockaddr_ok[OF assms(1)] sockaddr_ok[OF assms(2)] by blast
  have a: "wspec (on_tun d) (\<lambda>_. True) (addRoute os (WD_luid d) dest msk hop metric)" unfolding addRoute_def p
    by (rule wspec_bind[OF wspec_lift[OF refl, of "\<lambda>x. x = p"]], simp)
       (rule wspec_bind[OF wspec_lift[OF refl, of "\<lambda>x. x = n"]], simp,
        rule wspec_bind[OF wspec_do], simp_all add: on_tun_def route_row_def wspec_ret)
  have b: "on_tun d (W_Cmd (lit ''route'' # pre @ [lit ''if'', dec (unat (WD_ifIndex d))]))" for pre by (simp add: on_tun_def)
  have r: "wspec (on_tun d) (\<lambda>_. True) (addRouteRouteCmd os d dest msk hop metric)" unfolding addRouteRouteCmd_def
    using b[of "[lit ''add'', ip_string dest, lit ''mask'', ip_string msk, ip_string hop, lit ''metric'', dec (unat metric)]"]
    by (intro wspec_run) simp
  show ?thesis unfolding addRouteWithFallback_def addRouteNetsh_def
    by (rule wspec_bind[OF a]) (intro wspec_if wspec_ret wspec_bind[OF wspec_run] wspec_seq[OF r]; simp add: on_tun_def)
qed

lemma spec_exclusion_on_tun:
  assumes "To4 (WD_serverPublicIP d) \<noteq> None"
  shows "wspec (on_tun d) (\<lambda>_. True) (exclusion_add os forget d)"
proof -
  have fb: "wspec (on_tun d) (\<lambda>_. True) (addRouteWithFallback os (d\<lparr> WD_physicalGateway := gw, WD_physicalIfIdx := i \<rparr>)
      (WD_serverPublicIP d) mask32 gw 1)" if "To4 gw \<noteq> None" for gw i
    using spec_fallback_on_tun[OF v4_gateway[OF assms] v4_gateway[OF that], of "d\<lparr> WD_physicalGateway := gw, WD_physicalIfIdx := i \<rparr>" os mask32 1]
    unfolding wspec_def on_tun_def by simp
  have "wspec (on_tun d) (\<lambda>_. True) (exclusion_via os forget d g)" for g
    unfolding exclusion_via_def Let_def case_prod_beta using assms
    by (intro wspec_if wspec_ret wspec_seq[OF fb]) auto
  then show ?thesis unfolding exclusion_add_def
    by (intro wspec_if wspec_ret wspec_bind[OF reads_on_tun[OF spec_find_gateway]]) simp_all
qed

lemma spec_exclusion_add:
  assumes "ip_len (WD_serverPublicIP d)"
  shows "wspec (own_route (WD_luid d)) (\<lambda>_. True) (exclusion_add os forget d)"
proof -
  have "wspec (own_route (WD_luid d)) (\<lambda>_. True) (addRouteWithFallback os (d\<lparr> WD_physicalGateway := gw, WD_physicalIfIdx := i \<rparr>)
      (WD_serverPublicIP d) mask32 gw 1)" if "To4 gw \<noteq> None" for gw i
    using spec_fallback[OF assms v4_gateway[OF that], where d = "d\<lparr> WD_physicalGateway := gw, WD_physicalIfIdx := i \<rparr>"] by simp
  note fb = this
  have "wspec (own_route (WD_luid d)) (\<lambda>_. True) (exclusion_via os forget d g)" for g
    unfolding exclusion_via_def Let_def case_prod_beta
    by (intro wspec_if wspec_ret wspec_seq[OF wspec_run] wspec_seq[OF fb]) auto
  then show ?thesis unfolding exclusion_add_def
    by (intro wspec_if wspec_ret wspec_bind[OF reads_own[OF spec_find_gateway]]) simp_all
qed

lemma spec_tun_routes:
  assumes "length (WD_virtualIP d) = 4" "length (WD_subnetMask d) = 4"
  shows "wspec (own_route (WD_luid d)) (\<lambda>_. True) (tun_routes os d)"
proof -
  have b: "ip_len (w_subnet d)" "ip_len (WD_virtualIP d)" "ip_len (IPv4 255 255 255 255)"
    using assms by (simp_all add: ip_len_def w_subnet_def length_IP_Mask IPv4_def)
  obtain bc where bc: "broadcast_of (w_subnet d) (WD_subnetMask d) = Ok bc" "length bc = 4"
    using assms by (simp add: broadcast_of_def w_subnet_def length_IP_Mask)
  have l: "ip_len bc" using bc(2) by (simp add: ip_len_def)
  show ?thesis unfolding tun_routes_def Let_def addRouteRouteCmd_def
    by (intro wspec_seq[OF spec_deleteRoute] wspec_seq[OF spec_fallback] wspec_bind[OF wspec_lift[OF bc(1), of "\<lambda>x. x = bc"]]
        wspec_seq[OF wspec_run] wspec_ret) (simp_all add: b l)
qed

lemma spec_exclusion_delete:
  assumes "v4_exclusion d"
  shows "wspec (cleanup_call d) (\<lambda>_. True) (exclusion_delete os (stopRouteMaintenance d))"
proof (cases "WD_serverPublicIP d = [] \<or> WD_physicalGateway d = []")
  case False
  then have t: "To4 (WD_serverPublicIP d) \<noteq> None" "To4 (WD_physicalGateway d) \<noteq> None" using assms by (auto simp: v4_exclusion_def)
  obtain p n where p: "ipToSockaddrInet (WD_serverPublicIP d) = Ok p" "ipToSockaddrInet (WD_physicalGateway d) = Ok n"
    using t by (auto simp: ipToSockaddrInet_def)
  have m: "of_nat (fst (Mask_Size mask32)) = (32 :: byte)" by code_simp
  have c: "cleanup_call d (W_DeleteRoute (route_row (WD_luid d) p (fst (Mask_Size mask32)) n 0 0))"
    using p m by (simp add: cleanup_call_def exclusion_entry_def route_row_def)
  have "wspec (cleanup_call d) (\<lambda>_. True) (deleteRoute os (WD_luid d) (WD_serverPublicIP d) mask32 (WD_physicalGateway d))"
    unfolding deleteRoute_def p using False
    by (simp, intro wspec_bind[OF wspec_lift[OF refl, of "\<lambda>x. x = p"]] wspec_bind[OF wspec_lift[OF refl, of "\<lambda>x. x = n"]]
        wspec_bind[OF wspec_do] wspec_ret) (simp_all add: c)
  then show ?thesis using t(1) False by (auto simp: exclusion_delete_def stopRouteMaintenance_def wspec_seq wspec_ret)
qed (auto simp: exclusion_delete_def stopRouteMaintenance_def wspec_ret)

lemma spec_cleanup:
  assumes "length (WD_virtualIP d) = 4" "length (WD_subnetMask d) = 4" "v4_exclusion d"
  shows "wspec (cleanup_call d) (\<lambda>d'. d' = stopRouteMaintenance d) (W_CleanupRoutes os d)"
proof -
  have b: "ip_len (w_subnet d)" "ip_len (IPv4 255 255 255 255)" "ip_len (IPv4 224 0 0 251)"
    using assms by (simp_all add: ip_len_def w_subnet_def length_IP_Mask IPv4_def)
  obtain bc where bc: "broadcast_of (w_subnet d) (WD_subnetMask d) = Ok bc" "length bc = 4"
    using assms by (simp add: broadcast_of_def w_subnet_def length_IP_Mask)
  have l: "ip_len bc" using bc(2) by (simp add: ip_len_def)
  have h: "cleanup_call d (W_DeleteRoute row)" if "[] = [] \<longrightarrow> F_NextHop row = zero_sockaddr" for row using that by (simp add: cleanup_call_def)
  have w: "w_subnet (stopRouteMaintenance d) = w_subnet d" "WD_subnetMask (stopRouteMaintenance d) = WD_subnetMask d"
    by (simp_all add: w_subnet_def stopRouteMaintenance_def)
  show ?thesis unfolding W_CleanupRoutes_def Let_def w
    by (intro wspec_seq[OF spec_exclusion_delete[OF assms(3)]] wspec_seq[OF spec_deleteRoute]
        wspec_bind[OF wspec_lift[OF bc(1), of "\<lambda>x. x = bc"]] wspec_ret h)
       (simp_all add: b l)
qed

text \<open>A table that obeys the documentation keeps every entry but the exclusion route.\<close>

lemma cleanup_keeps_entries:
  assumes "\<And>h row. F_NextHop row = zero_sockaddr \<Longrightarrow> tab (h @ [W_DeleteRoute row]) = tab h"
    "\<And>h row e. e \<in> tab h \<Longrightarrow> \<not> same_entry e row \<Longrightarrow> e \<in> tab (h @ [W_DeleteRoute row])"
    "list_all (cleanup_call d) cs" "e \<in> tab h" "\<not> exclusion_entry d e"
  shows "e \<in> tab (h @ cs)"
  using assms(3)
proof (induction cs rule: rev_induct)
  case (snoc c cs)
  then obtain row where row: "c = W_DeleteRoute row" "F_NextHop row = zero_sockaddr \<or> exclusion_entry d row"
    by (auto simp: cleanup_call_def)
  have "\<not> same_entry e row" if "exclusion_entry d row" using that assms(5) by (auto simp: same_entry_def exclusion_entry_def)
  then show ?case using snoc row assms(1)[of row "h @ cs"] assms(2)[of e "h @ cs" row] by auto
qed (simp add: assms(4))

text \<open>No part of setting up a device panics.\<close>

abbreviation wtotal :: "('a \<Rightarrow> bool) \<Rightarrow> 'a wact \<Rightarrow> bool" where
  "wtotal Q m \<equiv> wspec (\<lambda>_. True) Q m"

lemma total_of: "wspec P Q m \<Longrightarrow> wtotal Q m"
  by (erule wspec_calls) simp

lemmas total_call = wspec_do[of "\<lambda>_. True", simplified]
lemmas total_run = wspec_run[of "\<lambda>_. True", simplified]

lemma total_metric: "wtotal (\<lambda>_. True) (setInterfaceMetric os l f m)" "wtotal (\<lambda>_. True) (checkAutoMetricDisabled os l)"
  unfolding setInterfaceMetric_def checkAutoMetricDisabled_def
  by (rule wspec_hist, intro wspec_if wspec_ret wspec_bind[OF total_call] TrueI)+

lemma total_setMetricAPI: "wtotal (\<lambda>_. True) (setMetricAPI os l)"
  unfolding setMetricAPI_def by (intro wspec_if wspec_ret wspec_bind[OF total_metric(1)] wspec_seq[OF total_metric(1)] TrueI)

lemma total_set_metric: "wtotal (\<lambda>_. True) (set_metric os d)"
  unfolding set_metric_def
  by (intro wspec_if wspec_ret wspec_seq[OF total_setMetricAPI] wspec_bind[OF total_metric(2)] wspec_seq[OF total_call]
      wspec_seq[OF total_metric(2)] TrueI)

lemma total_disable_each: "wtotal (\<lambda>_. True) (disable_each os nm as)"
proof (induction as)
  case (Cons a as)
  have "wtotal (\<lambda>_. True) (\<lambda>h. wbind (wdo os (W_ToLuid (Ad_Index a))) (\<lambda>r.
      if r \<noteq> 0 then wret () else wseq (setMetricAPI os (WO_luid os h (Ad_Index a))) (wret ())) h)"
    by (rule wspec_hist, intro wspec_if wspec_ret wspec_bind[OF total_call] wspec_seq[OF total_setMetricAPI] TrueI)
  then show ?case using Cons by (auto intro!: wspec_seq wspec_if wspec_ret)
qed (simp add: wspec_ret)

lemma total_disableAll: "wtotal (\<lambda>_. True) (disableAllPhysicalAutoMetric os nm)"
  unfolding disableAllPhysicalAutoMetric_def
  by (rule wspec_hist, intro wspec_if wspec_ret wspec_bind[OF total_call] total_disable_each TrueI)

lemma total_read_adapters: "wtotal (\<lambda>_. True) (read_adapters os k len)"
proof (induction k arbitrary: len)
  case (Suc k)
  show ?case unfolding read_adapters.simps by (rule wspec_hist, intro wspec_if wspec_ret wspec_bind[OF total_call] Suc TrueI)
qed (simp add: wspec_ret)

lemma total_findAdapter: "wtotal (\<lambda>_. True) (findAdapter os nm)"
proof -
  have "wtotal (\<lambda>_. True) (\<lambda>h. wbind (wdo os (W_ToLuid (Ad_Index a))) (\<lambda>r.
      wret (if r = 0 then Some (Ad_Index a, WO_luid os h (Ad_Index a)) else None)) h)" for a
    by (rule wspec_hist, intro wspec_ret wspec_bind[OF total_call] TrueI)
  then show ?thesis unfolding findAdapter_def
    by (intro wspec_bind[OF total_read_adapters]) (auto intro: wspec_ret split: option.split)
qed

lemma total_assign: "wtotal (\<lambda>_. True) (assign_address os d)"
  unfolding assign_address_def addIPAddress_def Let_def case_prod_beta
  by (intro wspec_if wspec_ret wspec_bind[OF wspec_bind[OF total_call]] total_run TrueI)

lemma total_private: "wtotal (\<lambda>_. True) (RunCmd os (private_cmd d))"
  by (rule total_run)

definition wdev_ok :: "WDevice \<Rightarrow> bool" where
  "wdev_ok d \<longleftrightarrow> length (WD_virtualIP d) = 4 \<and> length (WD_subnetMask d) = 4 \<and> (WD_serverPublicIP d = [] \<or> ip_len (WD_serverPublicIP d))"

lemma total_exclusion_add:
  assumes "wdev_ok d"
  shows "wtotal (\<lambda>d'. WD_virtualIP d' = WD_virtualIP d) (exclusion_add os forget d)"
proof -
  have fb: "wtotal (\<lambda>_. True) (addRouteWithFallback os (d\<lparr> WD_physicalGateway := gw, WD_physicalIfIdx := i \<rparr>) (WD_serverPublicIP d) mask32 gw 1)"
    if "To4 gw \<noteq> None" "WD_serverPublicIP d \<noteq> []" for gw i
    using total_of[OF spec_fallback[OF _ v4_gateway[OF that(1)]]] assms that(2) by (simp add: wdev_ok_def)
  have "wtotal (\<lambda>d'. WD_virtualIP d' = WD_virtualIP d) (exclusion_via os forget d g)" if "WD_serverPublicIP d \<noteq> []" for g
    unfolding exclusion_via_def Let_def case_prod_beta
    using that by (intro wspec_if wspec_ret wspec_seq[OF total_run] wspec_seq[OF fb]) auto
  then show ?thesis unfolding exclusion_add_def
    by (intro wspec_if wspec_ret wspec_bind[OF total_of[OF spec_find_gateway]]) simp_all
qed

lemma total_configure:
  assumes "wdev_ok d" "WD_physicalGateway d = []"
  shows "wtotal (\<lambda>(e, d'). e = None \<longrightarrow> WD_maint d' \<and> WD_virtualIP d' = WD_virtualIP d) (W_configure os d)"
proof -
  have c: "wtotal (\<lambda>d'. d' = stopRouteMaintenance d) (W_CleanupRoutes os d)"
    by (rule total_of[OF spec_cleanup]) (use assms in \<open>auto simp: wdev_ok_def v4_exclusion_def\<close>)
  define d2 where "d2 i l = (stopRouteMaintenance d)\<lparr> WD_ifIndex := i, WD_luid := l \<rparr>" for i l
  have d2: "wdev_ok (d2 i l)" "WD_virtualIP (d2 i l) = WD_virtualIP d" for i l
    using assms(1) by (simp_all add: d2_def wdev_ok_def stopRouteMaintenance_def)
  have r: "wtotal (\<lambda>_. True) (tun_routes os (d2 i l))" for i l
    by (rule total_of[OF spec_tun_routes]) (use d2(1)[of i l] in \<open>simp_all add: wdev_ok_def\<close>)
  have e: "wtotal (\<lambda>d'. WD_virtualIP d' = WD_virtualIP d) (exclusion_add os False (d2 i l))" for i l
    using total_exclusion_add[OF d2(1)[of i l], of os False] d2(2) by simp
  show ?thesis unfolding W_configure_def
    apply (rule wspec_bind[OF c], rule wspec_seq[OF total_call], rule wspec_bind[OF total_findAdapter])
    apply (simp add: Let_def d2_def[symmetric] split: option.split)
    apply (intro allI impI conjI wspec_ret wspec_if wspec_bind[OF total_assign] wspec_seq[OF total_set_metric] wspec_seq[OF total_disableAll]
        wspec_seq[OF r] wspec_bind[OF e] wspec_seq[OF total_private])
    by (simp_all add: startRouteMaintenance_def stopRouteMaintenance_def)
qed

lemma own_gateway:
  assumes "\<forall>row\<in>set rows. SA_Family (F_NextHop row) = SA_Family (F_Prefix row)" "gateway_of AF_INET rows gw" "gw \<noteq> []"
  shows "To4 gw \<noteq> None"
proof -
  obtain row where r: "row \<in> set rows" "SA_Family (F_Prefix row) = AF_INET" "gw = sockaddrInetToIP (F_NextHop row)"
    using assms(2,3) unfolding gateway_of_def by blast
  then have "SA_Family (F_NextHop row) = AF_INET" using assms(1) by simp
  then show ?thesis by (simp add: r(3) sockaddrInetToIP_def Let_def)
qed

lemma le_word_take: "length (take 4 (drop n x)) = 4 \<Longrightarrow> put32 (le_word (take 4 (drop n x))) = take 4 (drop n x)"
  by (rule put32_le_word)

section \<open>Properties\<close>

text \<open>
  The conversion between the program's addresses and those of the IP Helper API loses nothing: every
  IPv4 or IPv6 address becomes a SOCKADDR of its own family that reads back as the same address.
\<close>

theorem sockaddr_roundtrip:
  assumes "length i = 4 \<or> length i = 16"
  shows "\<exists>sa. ipToSockaddrInet i = Ok sa \<and> ip_equal (sockaddrInetToIP sa) i \<and>
    (SA_Family sa = AF_INET \<longleftrightarrow> To4 i \<noteq> None)"
proof (cases "To4 i")
  case (Some x)
  obtain a b c d where x: "x = [a, b, c, d]" using To4_length[OF Some] by (auto simp: length_Suc_conv numeral_eq_Suc)
  have "put32 (le_word x) = x" by (rule put32_le_word) (simp add: x)
  then have "sockaddrInetToIP \<lparr> SA_Family = AF_INET, SA_Data = [le_word x, 0, 0, 0, 0, 0] \<rparr> = IPv4 a b c d"
    by (simp add: sockaddrInetToIP_def x)
  moreover have "ip_equal (IPv4 a b c d) i"
  proof (cases "length i = 4")
    case True
    then show ?thesis using Some by (simp add: x ip_equal_def IPv4_def)
  next
    case False
    then have "take 12 i = v4prefix" "drop 12 i = x" using Some by (simp_all add: To4_def split: if_splits)
    then have "i = v4prefix @ x" by (metis append_take_drop_id)
    then show ?thesis by (simp add: x ip_equal_def IPv4_def)
  qed
  ultimately show ?thesis using Some by (simp add: ipToSockaddrInet_def)
next
  case None
  then have l: "length i = 16" using assms by (auto simp: To4_def)
  have "take 16 i = take 4 i @ take 12 (drop 4 i)" "take 12 (drop 4 i) = take 4 (drop 4 i) @ take 8 (drop 8 i)"
    "take 8 (drop 8 i) = take 4 (drop 8 i) @ take 4 (drop 12 i)"
    using take_add[of 4 12 i] take_add[of 4 8 "drop 4 i"] take_add[of 4 4 "drop 8 i"] by simp_all
  then have "i = take 4 i @ take 4 (drop 4 i) @ take 4 (drop 8 i) @ take 4 (drop 12 i)" using l by simp
  then show ?thesis using None l le_word_take[of 0 i] le_word_take[of 4 i] le_word_take[of 8 i] le_word_take[of 12 i]
    by (simp add: ipToSockaddrInet_def To16_def sockaddrInetToIP_def AF_INET_def AF_INET6_def ip_equal_def)
qed

theorem sockaddr_roundtrip_witness:
  "\<exists>sa. ipToSockaddrInet [10, 10, 0, 2] = Ok sa \<and> ip_equal (sockaddrInetToIP sa) [10, 10, 0, 2] \<and>
    (SA_Family sa = AF_INET \<longleftrightarrow> To4 [10, 10, 0, 2] \<noteq> None)"
  by (rule sockaddr_roundtrip) simp

text \<open>
  C39: The route that is to keep the traffic to the server off the tunnel is made on the tunnel itself: whatever the system
  answers, everything that this step does to make a route for an IPv4 server (of four bytes or, as \<open>net.ParseIP\<close> gives it, of
  sixteen) puts it on the TUN adapter.  A row passed to the API has the adapter's LUID and no interface index, the
  command netsh names the adapter and the command route.exe its index; the index of the adapter on
  which the gateway was found is stored and not used.
\<close>

theorem exclusion_route_on_tun:
  assumes "To4 (WD_serverPublicIP d) \<noteq> None"
  shows "\<exists>d' cs. exclusion_add os forget d h = Ok (d', h @ cs) \<and>
    (\<forall>row. W_CreateRoute row \<in> set cs \<longrightarrow> F_Luid row = WD_luid d \<and> F_IfIndex row = 0) \<and>
    (\<forall>args. W_Cmd args \<in> set cs \<longrightarrow> lit ''interface='' @ WD_name d \<in> set args \<or>
       (\<exists>pre. args = lit ''route'' # pre @ [lit ''if'', dec (unat (WD_ifIndex d))]))"
proof -
  obtain d' cs where "exclusion_add os forget d h = Ok (d', h @ cs)" "list_all (on_tun d) cs"
    using spec_exclusion_on_tun[OF assms, of os forget] unfolding wspec_def by blast
  then show ?thesis unfolding list_all_iff on_tun_def by blast
qed

text \<open>A system with one default route, on the adapter with index 5; every call succeeds.\<close>

definition one_gateway :: FwdRow where
  "one_gateway = \<lparr> F_Luid = 9, F_IfIndex = 5, F_Prefix = \<lparr> SA_Family = AF_INET, SA_Data = replicate 6 0 \<rparr>, F_PrefixLen = 0,
     F_NextHop = \<lparr> SA_Family = AF_INET, SA_Data = [0x0101A8C0, 0, 0, 0, 0, 0] \<rparr>, F_Metric = 25, F_Protocol = 3 \<rparr>"

definition home_os :: WinOS where
  "home_os = \<lparr> WO_code = (\<lambda>_ _. 0), WO_if = (\<lambda>_ l f. \<lparr> I_Family = f, I_Luid = l, I_Auto = 0, I_Metric = 1, I_rest = [] \<rparr>),
     WO_table = (\<lambda>_. [one_gateway]), WO_adapters = (\<lambda>_. [\<lparr> Ad_Index = 5, Ad_Name = lit ''Ethernet'', Ad_Type = 6, Ad_Oper = 1 \<rparr>]),
     WO_len = (\<lambda>_. 15000), WO_luid = (\<lambda>_ i. ucast i), WO_name = Some (lit ''GameTunnel'') \<rparr>"

definition sample_wdev :: WDevice where
  "sample_wdev = \<lparr> WD_name = lit ''GameTunnel'', WD_virtualIP = [10, 10, 0, 2], WD_subnetMask = [255, 255, 255, 0],
     WD_serverPublicIP = IPv4 1 2 3 4, WD_mtu = 1400, WD_ifIndex = 77, WD_luid = 77, WD_physicalGateway = [], WD_physicalIfIdx = 0,
     WD_maint = True \<rparr>"

fun route_luid :: "(WDevice \<times> whist) res \<Rightarrow> u64 option" where
  "route_luid (Ok (d, [a, b, W_CreateRoute row])) = (if WD_physicalIfIdx d = 5 then Some (F_Luid row) else None)"
| "route_luid _ = None"

text \<open>The same system, where the API and netsh refuse.\<close>

definition old_os :: WinOS where
  "old_os = home_os\<lparr> WO_code := (\<lambda>_ c. case c of W_CreateRoute _ \<Rightarrow> 5 | W_Cmd (x # _) \<Rightarrow> if x = lit ''netsh'' then 1 else 0 | _ \<Rightarrow> 0) \<rparr>"

fun last_word :: "(WDevice \<times> whist) res \<Rightarrow> bytes option" where
  "last_word (Ok (d, [a, b, r, W_Cmd x, W_Cmd y])) = Some (last y)"
| "last_word _ = None"

lemma home_run:
  "route_luid (exclusion_add home_os False sample_wdev []) = Some 77"
  "last_word (exclusion_add old_os False sample_wdev []) = Some (lit ''77'')"
  by code_simp+

lemma sample_wdev_v4: "To4 (WD_serverPublicIP sample_wdev) \<noteq> None"
  by code_simp

theorem exclusion_route_on_tun_witness:
  "route_luid (exclusion_add home_os False sample_wdev []) = Some 77 \<and> last_word (exclusion_add old_os False sample_wdev []) = Some (lit ''77'') \<and>
   (\<exists>d' cs. exclusion_add home_os False sample_wdev [] = Ok (d', [] @ cs) \<and>
    (\<forall>row. W_CreateRoute row \<in> set cs \<longrightarrow> F_Luid row = WD_luid sample_wdev \<and> F_IfIndex row = 0)) \<and>
   (\<exists>d' cs. exclusion_add old_os False sample_wdev [] = Ok (d', [] @ cs) \<and>
    (\<forall>args. W_Cmd args \<in> set cs \<longrightarrow> lit ''interface='' @ WD_name sample_wdev \<in> set args \<or>
       (\<exists>pre. args = lit ''route'' # pre @ [lit ''if'', dec (unat (WD_ifIndex sample_wdev))])))"
  using exclusion_route_on_tun[OF sample_wdev_v4, of home_os False "[]"] exclusion_route_on_tun[OF sample_wdev_v4, of old_os False "[]"]
    home_run by blast

text \<open>
  An IPv6 server is left without its exclusion route when there is no IPv6 default route: the search then falls back
  to the IPv4 gateway, whose family the next check refuses, so that the whole step makes no
  change to the system (next hops have the family of their prefix, as in every routing table).
\<close>

theorem ipv6_fallback_useless:
  assumes "To4 (WD_serverPublicIP d) = None" "\<forall>h. \<forall>row\<in>set (WO_table os h). SA_Family (F_NextHop row) = SA_Family (F_Prefix row)"
    "\<forall>h. \<forall>row\<in>set (WO_table os h). SA_Family (F_Prefix row) = AF_INET6 \<longrightarrow> F_PrefixLen row \<noteq> 0"
  shows "\<exists>d' cs. exclusion_add os forget d h = Ok (d', h @ cs) \<and> list_all reads_only cs"
proof -
  have g: "gw = [] \<or> To4 gw \<noteq> None" if f: "found_gateway os True gw" for gw
  proof (cases "gw = []")
    case False
    have "\<not> gateway_of AF_INET6 (WO_table os h) gw" for h using False assms(3) by (auto simp: gateway_of_def)
    then obtain h where "gateway_of AF_INET (WO_table os h) gw" using f by (auto simp: found_gateway_def)
    then show ?thesis using own_gateway[of "WO_table os h" gw] assms(2) False by blast
  qed simp
  have "wspec reads_only (\<lambda>_. True) (exclusion_add os forget d)"
    unfolding exclusion_add_def Let_def
  proof (intro wspec_if wspec_ret wspec_bind[OF spec_find_gateway])
    fix x :: "ip \<times> u32" assume "case x of (gw, i) \<Rightarrow> found_gateway os (To4 (WD_serverPublicIP d) = None) gw"
    then have "fst x = [] \<or> To4 (fst x) \<noteq> None" using g assms(1) by (cases x) simp
    then show "wspec reads_only (\<lambda>_. True) (exclusion_via os forget d x)"
      using assms(1) by (cases x) (auto simp: exclusion_via_def wspec_ret)
  qed simp
  then show ?thesis unfolding wspec_def by blast
qed

theorem ipv6_fallback_useless_witness:
  "\<exists>d' cs. exclusion_add home_os False (sample_wdev\<lparr> WD_serverPublicIP := replicate 15 0 @ [1] \<rparr>) [] = Ok (d', [] @ cs) \<and> list_all reads_only cs"
proof (rule ipv6_fallback_useless)
  show "To4 (WD_serverPublicIP (sample_wdev\<lparr> WD_serverPublicIP := replicate 15 0 @ [1] \<rparr>)) = None" by code_simp
qed (simp_all add: home_os_def one_gateway_def AF_INET_def AF_INET6_def)

text \<open>
  C40: The routes of the tunnel are never removed.  On a system where, as documented, DeleteIpForwardEntry2 refuses a row
  without next hop and otherwise leaves every entry with another adapter, prefix or next hop alone, \<open>CleanupRoutes\<close> (which \<open>Close\<close>
  and every configuration run) leaves every entry of the routing table in place except, if the device has one, that of
  the exclusion route of an IPv4 server; without exclusion route the table stays as it was.  Every row that \<open>tun_routes\<close> creates
  through the API has a next hop, and the cleanup passes none for these routes.  (For an IPv6 server with exclusion
  route the cleanup runs netsh; the theorem does not cover that case.)
\<close>

theorem windows_cleanup_removes_nothing:
  assumes "\<And>h row. F_NextHop row = zero_sockaddr \<Longrightarrow> tab (h @ [W_DeleteRoute row]) = tab h"
    "\<And>h row e. e \<in> tab h \<Longrightarrow> \<not> same_entry e row \<Longrightarrow> e \<in> tab (h @ [W_DeleteRoute row])"
    "length (WD_virtualIP d) = 4" "length (WD_subnetMask d) = 4" "v4_exclusion d"
  shows "\<exists>h'. W_CleanupRoutes os d h = Ok (stopRouteMaintenance d, h') \<and>
    (\<forall>e. e \<in> tab h \<longrightarrow> \<not> exclusion_entry d e \<longrightarrow> e \<in> tab h') \<and>
    (WD_serverPublicIP d = [] \<or> WD_physicalGateway d = [] \<longrightarrow> tab h' = tab h) \<and>
    (\<exists>cs. tun_routes os d h' = Ok ((), h' @ cs) \<and>
       (\<forall>row. W_CreateRoute row \<in> set cs \<longrightarrow> F_NextHop row \<noteq> zero_sockaddr))"
proof -
  obtain cs where c: "W_CleanupRoutes os d h = Ok (stopRouteMaintenance d, h @ cs)" "list_all (cleanup_call d) cs"
    using spec_cleanup[OF assms(3-5), of os] unfolding wspec_def by blast
  have same: "tab (h @ cs) = tab h" if n: "WD_serverPublicIP d = [] \<or> WD_physicalGateway d = []"
    using c(2)
  proof (induction cs rule: rev_induct)
    case (snoc c cs)
    have "\<not> exclusion_entry d row" for row using n by (auto simp: exclusion_entry_def ipToSockaddrInet_def To4_def To16_def)
    then obtain row where "c = W_DeleteRoute row" "F_NextHop row = zero_sockaddr" using snoc(2) by (auto simp: cleanup_call_def)
    then show ?case using snoc assms(1)[of row "h @ cs"] by simp
  qed simp
  obtain ds where "tun_routes os d (h @ cs) = Ok ((), (h @ cs) @ ds)" "list_all (own_route (WD_luid d)) ds"
    using spec_tun_routes[OF assms(3,4), of os] unfolding wspec_def by (metis (full_types) old.unit.exhaust)
  moreover have "F_NextHop row \<noteq> zero_sockaddr" if "own_route (WD_luid d) (W_CreateRoute row)" for row
    using that by (auto simp: own_route_def zero_sockaddr_def)
  ultimately show ?thesis using c same cleanup_keeps_entries[of tab d cs _ h, OF assms(1,2) c(2)]
    by (intro exI[of _ "h @ cs"]) (auto simp: list_all_iff)
qed

text \<open>A routing table that follows the documentation.\<close>

definition table_step :: "wcall \<Rightarrow> FwdRow list \<Rightarrow> FwdRow list" where
  "table_step c t = (case c of W_CreateRoute r \<Rightarrow> r # filter (\<lambda>x. \<not> same_entry x r) t
     | W_DeleteRoute r \<Rightarrow> if F_NextHop r = zero_sockaddr then t else filter (\<lambda>x. \<not> same_entry x r) t | _ \<Rightarrow> t)"

definition table_after :: "whist \<Rightarrow> FwdRow set" where
  "table_after h = set (fold table_step h [])"

definition sockaddr4 :: "u32 \<Rightarrow> Sockaddr" where
  "sockaddr4 x = \<lparr> SA_Family = AF_INET, SA_Data = [x, 0, 0, 0, 0, 0] \<rparr>"

text \<open>A configured device, the row of its limited broadcast and that of its exclusion route.\<close>

definition configured_wdev :: WDevice where
  "configured_wdev = sample_wdev\<lparr> WD_physicalGateway := IPv4 192 168 1 1, WD_physicalIfIdx := 5 \<rparr>"

definition limited_row :: FwdRow where
  "limited_row = route_row 77 (sockaddr4 0xFFFFFFFF) 32 (sockaddr4 0x02000A0A) 1 NT_STATIC"

definition server_row :: FwdRow where
  "server_row = route_row 77 (sockaddr4 0x04030201) 32 (sockaddr4 0x0101A8C0) 1 NT_STATIC"

lemma table_after_laws:
  "F_NextHop row = zero_sockaddr \<Longrightarrow> table_after (h @ [W_DeleteRoute row]) = table_after h"
  "e \<in> table_after h \<Longrightarrow> \<not> same_entry e row \<Longrightarrow> e \<in> table_after (h @ [W_DeleteRoute row])"
  by (simp_all add: table_after_def table_step_def)

lemma configured_facts:
  "v4_exclusion configured_wdev" "\<not> exclusion_entry configured_wdev limited_row" "exclusion_entry configured_wdev server_row"
  "limited_row \<in> table_after [W_CreateRoute server_row, W_CreateRoute limited_row]"
  by code_simp+

theorem windows_cleanup_removes_nothing_witness:
  "\<exists>h'. W_CleanupRoutes home_os configured_wdev [W_CreateRoute server_row, W_CreateRoute limited_row] =
      Ok (stopRouteMaintenance configured_wdev, h') \<and> limited_row \<in> table_after h'"
proof -
  have l: "length (WD_virtualIP configured_wdev) = 4" "length (WD_subnetMask configured_wdev) = 4"
    by (simp_all add: configured_wdev_def sample_wdev_def)
  show ?thesis
    using windows_cleanup_removes_nothing[OF table_after_laws l configured_facts(1), of home_os
        "[W_CreateRoute server_row, W_CreateRoute limited_row]"] configured_facts(2,4) by blast
qed

text \<open>
  The firewall rules of a session are removed: setting up first deletes the three rule names, then every rule it
  adds carries one of them, and the cleanup function deletes all three; without the path of the program
  nothing is done at all.
\<close>

definition rule_name_of :: "bytes list \<Rightarrow> bytes" where
  "rule_name_of c = c ! 5"

lemma run_all_hist: "run_all os cs h = Ok ((), h @ map W_Cmd cs)"
  by (induction cs arbitrary: h) (simp_all add: wret_def wseq_def wbind_def RunCmd_def wdo_def)

theorem firewall_rules_removed:
  "(\<forall>h. SetupFirewall os (Some exe) h = Ok (True, h @ map W_Cmd (map fw_delete rule_names @ fw_adds exe))) \<and>
   (\<forall>h. cleanupFirewall os True h = Ok ((), h @ map W_Cmd (map fw_delete rule_names))) \<and>
   rule_name_of ` set (fw_adds exe) = rule_name_of ` set (map fw_delete rule_names) \<and>
   SetupFirewall os None h0 = Ok (False, h0) \<and> cleanupFirewall os False h0 = Ok ((), h0)"
proof -
  have "rule_name_of ` set (fw_adds exe) = rule_name_of ` set (map fw_delete rule_names)"
    by (simp add: fw_adds_def fw_add_def fw_delete_def rule_names_def commonLANPorts_def rule_name_of_def)
  then show ?thesis
    by (simp add: SetupFirewall_def cleanupFirewall_def wseq_def wbind_def run_all_hist wret_def)
qed

text \<open>
  Setting up the device on Windows never panics, whatever the system answers (the mask has four bytes and the public
  address of the server is absent or an IPv4 or IPv6 address): \<open>New\<close> ends with an error or a device with the
  configured address whose route maintenance runs, and closing a device without exclusion route
  ends with the maintenance stopped.
\<close>

theorem windows_device_ready:
  assumes "length (DC_SubnetMask cfg) = 4" "length (DC_VirtualIP cfg) = 4"
    "DC_ServerPublicIP cfg = [] \<or> length (DC_ServerPublicIP cfg) = 4 \<or> length (DC_ServerPublicIP cfg) = 16"
  shows "(\<exists>r h1. W_New os cfg h = Ok (r, h1) \<and>
      (case r of Inl e \<Rightarrow> True | Inr d \<Rightarrow> WD_maint d \<and> WD_virtualIP d = DC_VirtualIP cfg)) \<and>
    (\<exists>ok h2. W_Close os (startRouteMaintenance (w_new_device cfg (DC_VirtualIP cfg) nm)) h =
       Ok ((ok, w_new_device cfg (DC_VirtualIP cfg) nm), h2))"
proof
  define cf where "cf = (if DC_MTU cfg \<le> 0 then cfg\<lparr> DC_MTU := TunDefaultMTU \<rparr> else cfg)"
  have cf: "DC_VirtualIP cf = DC_VirtualIP cfg" "DC_SubnetMask cf = DC_SubnetMask cfg" "DC_ServerPublicIP cf = DC_ServerPublicIP cfg"
    by (simp_all add: cf_def)
  have dev: "wdev_ok (w_new_device cf (DC_VirtualIP cfg) nm)" "WD_physicalGateway (w_new_device cf (DC_VirtualIP cfg) nm) = []" for nm
    using assms by (simp_all add: wdev_ok_def w_new_device_def cf ip_len_def)
  have q: "wtotal (\<lambda>r. case r of Inl e \<Rightarrow> True | Inr d \<Rightarrow> WD_maint d \<and> WD_virtualIP d = DC_VirtualIP cfg)
      (wbind (W_configure os (w_new_device cf (DC_VirtualIP cfg) nm)) (\<lambda>(e, d).
         case e of Some x \<Rightarrow> wseq (wdo os W_CloseTUN) (wret (Inl x)) | None \<Rightarrow> wret (Inr d)))" for nm
    by (rule wspec_bind[OF total_configure[OF dev]])
       (auto simp: w_new_device_def intro!: wspec_ret wspec_seq[OF total_call] split: option.split)
  have "wtotal (\<lambda>r. case r of Inl e \<Rightarrow> True | Inr d \<Rightarrow> WD_maint d \<and> WD_virtualIP d = DC_VirtualIP cfg) (W_New os cfg)"
    unfolding W_New_def Let_def cf_def[symmetric] cf To4_4[OF assms(2)] option.case
    by (auto intro!: wspec_ret wspec_bind[OF total_call] wspec_seq[OF total_call] q split: option.split)
  then show "\<exists>r h1. W_New os cfg h = Ok (r, h1) \<and>
      (case r of Inl e \<Rightarrow> True | Inr d \<Rightarrow> WD_maint d \<and> WD_virtualIP d = DC_VirtualIP cfg)"
    unfolding wspec_def by blast
  have "\<exists>cs. W_CleanupRoutes os (startRouteMaintenance (w_new_device cfg (DC_VirtualIP cfg) nm)) h =
      Ok (w_new_device cfg (DC_VirtualIP cfg) nm, h @ cs)"
    using spec_cleanup[of "startRouteMaintenance (w_new_device cfg (DC_VirtualIP cfg) nm)" os] assms(1,2)
    unfolding wspec_def by (fastforce simp: v4_exclusion_def startRouteMaintenance_def stopRouteMaintenance_def w_new_device_def)
  then show "\<exists>ok h2. W_Close os (startRouteMaintenance (w_new_device cfg (DC_VirtualIP cfg) nm)) h =
       Ok ((ok, w_new_device cfg (DC_VirtualIP cfg) nm), h2)"
    by (auto simp: W_Close_def wbind_def wdo_def wret_def)
qed

theorem windows_device_ready_witness:
  "\<exists>r h1. W_New home_os sample_devcfg [] = Ok (r, h1) \<and>
      (case r of Inl e \<Rightarrow> True | Inr d \<Rightarrow> WD_maint d \<and> WD_virtualIP d = DC_VirtualIP sample_devcfg)"
  using windows_device_ready[of sample_devcfg home_os "[]" "[]"] by (simp add: sample_devcfg_def)

end
