(* ===== verification/Startup.thy ===== *)
theory Startup
  imports SingleInstance LogFiles TunWindows Persist App
begin

text \<open>
  Starting the two commands (cmd/server/main.go, cmd/client/run.go, main_other.go, main_windows.go), the opening of the
  server's sockets (the beginning and the end of \<open>New\<close> in server/server.go) and the socket
  buffers (netutil/socketbuf_*.go).  The values of the flags are those that package flag delivers.
\<close>

section \<open>Subnets in CIDR notation (package net)\<close>

definition CIDRMask :: "nat \<Rightarrow> nat \<Rightarrow> bytes" where
  "CIDRMask ones bits = map (\<lambda>i. of_nat (256 - 2 ^ (8 - min 8 (ones - 8 * i)))) [0..<bits div 8]"

definition dotted :: "bytes \<Rightarrow> bool" where
  "dotted s \<longleftrightarrow> (case filter (\<lambda>c. c = 46 \<or> c = 58 \<or> c = 37) s of [] \<Rightarrow> False | c # _ \<Rightarrow> c = 46)"

text \<open>The network of \<open>net.ParseCIDR\<close>; None is its error.\<close>

definition ParseCIDR :: "bytes \<Rightarrow> IPNet option" where
  "ParseCIDR s =
     (case index_of 47 s of
        None \<Rightarrow> None
      | Some i \<Rightarrow>
          (let addr = take i s; m = drop (i + 1) s; bits = (if dotted addr then 32 else 128) in
           case ParseIP addr of
             None \<Rightarrow> None
           | Some a \<Rightarrow>
               (case undec 0 m of
                  None \<Rightarrow> None
                | Some n \<Rightarrow>
                    if m = [] \<or> bits < n then None
                    else Some \<lparr> IPNet_IP = IP_Mask a (CIDRMask n bits), IPNet_Mask = CIDRMask n bits \<rparr>)))"

section \<open>Socket buffers\<close>

definition RcvBufSize :: nat where "RcvBufSize = 8 * 1024 * 1024"
definition SndBufSize :: nat where "SndBufSize = 4 * 1024 * 1024"

datatype sockopt = SO_RCVBUF | SO_SNDBUF

text \<open>
  \<open>raw\<close>: the connection gives its descriptor; \<open>control\<close>: \<open>Control\<close> succeeds; \<open>setopt\<close>: setsockopt succeeds.  The result has
  the options that were set and whether there was no error.
\<close>

definition SetSocketBuffers :: "bool \<Rightarrow> bool \<Rightarrow> (sockopt \<Rightarrow> nat \<Rightarrow> bool) \<Rightarrow> (sockopt \<times> nat) list \<times> bool" where
  "SetSocketBuffers raw control setopt =
     (if \<not> raw then ([], False)
      else if \<not> control then ([], False)
      else if \<not> setopt SO_RCVBUF RcvBufSize then ([], False)
      else if \<not> setopt SO_SNDBUF SndBufSize then ([(SO_RCVBUF, RcvBufSize)], False)
      else ([(SO_RCVBUF, RcvBufSize), (SO_SNDBUF, SndBufSize)], True))"

section \<open>Local networks (subnet.go)\<close>

text \<open>An interface: its flags and its addresses; None is the error of \<open>Addrs\<close>, an address that is not a network is None.\<close>

record Iface =
  If_up :: bool
  If_loopback :: bool
  If_addrs :: "IPNet option list option"

definition local_nets :: "Iface \<Rightarrow> IPNet list" where
  "local_nets i =
     (if \<not> If_up i \<or> If_loopback i then []
      else case If_addrs i of None \<Rightarrow> []
           | Some as \<Rightarrow> filter (\<lambda>n. case Mask_Size (IPNet_Mask n) of (ones, bits) \<Rightarrow> bits = 32 \<and> 24 \<le> ones)
                         (List.map_filter id as))"

definition getLocalSubnets :: "Iface list option \<Rightarrow> IPNet list" where
  "getLocalSubnets ifaces = (case ifaces of None \<Rightarrow> [] | Some is \<Rightarrow> concat (map local_nets is))"

section \<open>Opening the server (server.go, New)\<close>

record NewOS =
  NO_resolve :: "bytes \<Rightarrow> UDPAddr option"
  NO_listen :: "bytes \<Rightarrow> UDPAddr \<Rightarrow> bool"
  NO_tcp :: "bytes \<Rightarrow> bool"
  NO_now :: int
  NO_order :: "bytes list \<Rightarrow> bytes list"
  NO_locals :: "IPNet list"
  NO_tcpWrite :: "(UDPAddr \<Rightarrow> bytes \<Rightarrow> bool) option"
  NO_disk :: statefile

definition listen_on :: "UDPAddr \<Rightarrow> bytes \<times> UDPAddr" where
  "listen_on u =
     (if UDP_IP u = [] then (lit ''udp'', u\<lparr> UDP_IP := replicate 16 0 \<rparr>)
      else if To4 (UDP_IP u) = None then (lit ''udp6'', u)
      else (lit ''udp'', u))"

text \<open>The server with its state directory, and whether it listens for TCP; None is an error.\<close>

definition open_server :: "NewOS \<Rightarrow> bytes \<Rightarrow> bytes \<Rightarrow> bytes \<Rightarrow> Config \<Rightarrow> (Store \<times> bool) option" where
  "open_server os addr dir tcpAddr cfg =
     (case NO_resolve os addr of
        None \<Rightarrow> None
      | Some u \<Rightarrow>
          (let (network, u1) = listen_on u in
           if \<not> NO_listen os network u1 then None
           else
             (case startServer (NO_now os) (NO_order os) (NO_locals os) (NO_tcpWrite os) cfg dir (NO_disk os) of
                None \<Rightarrow> None
              | Some st \<Rightarrow> Some (st, tcpAddr \<noteq> [] \<and> NO_tcp os tcpAddr))))"

section \<open>The server command (cmd/server/main.go)\<close>

record ServerFlags =
  SF_addr :: bytes
  SF_subnet :: bytes
  SF_max :: int
  SF_password :: bytes
  SF_statusAddr :: bytes
  SF_statusToken :: bytes
  SF_maxPerIP :: int
  SF_stateDir :: bytes
  SF_rooms :: bool
  SF_maxRooms :: int
  SF_bandwidth :: int
  SF_tcpAddr :: bytes
  SF_lang :: bytes
  SF_verbose :: bool
  SF_logFile :: bytes
  SF_pprofAddr :: bytes
  SF_version :: bool

definition default_flags :: ServerFlags where
  "default_flags = \<lparr> SF_addr = lit '':4700'', SF_subnet = lit ''10.10.0.0/24'', SF_max = 10, SF_password = [], SF_statusAddr = [],
     SF_statusToken = [], SF_maxPerIP = 3, SF_stateDir = [], SF_rooms = False, SF_maxRooms = 64, SF_bandwidth = 0,
     SF_tcpAddr = [], SF_lang = lit ''zh'', SF_verbose = False, SF_logFile = [], SF_pprofAddr = [], SF_version = False \<rparr>"

definition flags_config :: "ServerFlags \<Rightarrow> IPNet \<Rightarrow> Config" where
  "flags_config f subnet = \<lparr> Cfg_Subnet = subnet, Cfg_MaxPlayers = SF_max f, Cfg_RoomPass = SF_password f, Cfg_MaxPerIP = SF_maxPerIP f,
     Cfg_MultiRoom = SF_rooms f, Cfg_BandwidthLimit = SF_bandwidth f, Cfg_MaxRooms = SF_maxRooms f, Cfg_Verbose = SF_verbose f \<rparr>"

text \<open>What the process sees at its start and what it leaves behind.\<close>

record World =
  W_files :: FileSys
  W_locks :: LockFS

record MainOS =
  MO_acq :: AcqOS
  MO_new :: NewOS
  MO_pid :: pid
  MO_listen :: "bytes \<Rightarrow> bool"

text \<open>\<open>Overflow\<close> is the end of the recursion of \<open>Acquire\<close> (its fuel); \<open>Serving\<close> is the call of \<open>s.Run\<close>.\<close>

datatype server_end = ShowVersion | LogFileFailed log_err | InstanceRunning acq_err | Overflow | SubnetInvalid | StartFailed
  | PprofFailed | Serving Lang "warning list" Store bool

definition server_main :: "MainOS \<Rightarrow> nat \<Rightarrow> ServerFlags \<Rightarrow> World \<Rightarrow> server_end \<times> World" where
  "server_main os k f w =
     (if SF_version f then (ShowVersion, w)
      else
        (let lang = ParseLang (SF_lang f);
             (r, fs) = (if SF_logFile f \<noteq> [] then setupServerLog (SF_logFile f) (W_files w) else (Inr [], W_files w));
             w1 = w\<lparr> W_files := fs \<rparr>
         in case r of
              Inl e \<Rightarrow> (LogFileFailed e, w1)
            | Inr _ \<Rightarrow>
                (case Acquire (MO_acq os) k (MO_pid os) (W_locks w1) of
                   None \<Rightarrow> (Overflow, w1)
                 | Some (Inl e, l) \<Rightarrow> (InstanceRunning e, w1\<lparr> W_locks := l \<rparr>)
                 | Some (Inr lock, l) \<Rightarrow>
                     (let w2 = w1\<lparr> W_locks := l \<rparr> in
                      case ParseCIDR (SF_subnet f) of
                        None \<Rightarrow> (SubnetInvalid, w2)
                      | Some subnet \<Rightarrow>
                          (case open_server (MO_new os) (SF_addr f) (SF_stateDir f) (SF_tcpAddr f) (flags_config f subnet) of
                             None \<Rightarrow> (StartFailed, w2)
                           | Some (st, tcp) \<Rightarrow>
                               if SF_pprofAddr f \<noteq> [] \<and> \<not> MO_listen os (SF_pprofAddr f) then (PprofFailed, w2)
                               else (Serving lang (snd (CheckPasswordStrength (SF_password f))) st tcp, w2))))))"

section \<open>The client command\<close>

definition parseHostIP :: "bytes \<Rightarrow> ip" where
  "parseHostIP addr =
     (case (case SplitHostPort addr of None \<Rightarrow> ParseIP addr | Some (host, port) \<Rightarrow> ParseIP host) of None \<Rightarrow> [] | Some i \<Rightarrow> i)"

text \<open>The device configuration the factory makes of that of the tunnel.\<close>

definition tun_factory_config :: "ClientConfig \<Rightarrow> TunConfig \<Rightarrow> DevConfig" where
  "tun_factory_config cfg t =
     \<lparr> DC_VirtualIP = TC_VirtualIP t, DC_SubnetMask = TC_SubnetMask t, DC_ServerIP = TC_ServerIP t,
       DC_ServerPublicIP = parseHostIP (CC_ServerAddr cfg), DC_MTU = TC_MTU t \<rparr>"

text \<open>
  \<open>run\<close> on Windows, as a history of calls of the system: \<open>exe\<close> is the answer of os.Executable, \<open>listen\<close> tells whether the pprof
  address can be listened on, \<open>session\<close> is everything from \<open>app.Connect\<close> to the end of \<open>app.Disconnect\<close>.
  The log file is opened first; \<open>log.Fatalf\<close> ends the process without the deferred clean-up.
\<close>

datatype client_end = NoServer | ClientPprofFailed | Disconnected

definition client_run :: "WinOS \<Rightarrow> bytes option \<Rightarrow> (bytes \<Rightarrow> bool) \<Rightarrow> unit wact \<Rightarrow> (bytes \<Rightarrow> bytes) \<Rightarrow> FileSys \<Rightarrow> ClientConfig \<Rightarrow>
    (client_end \<times> FileSys) wact" where
  "client_run os exe listen session env fs0 cfg =
     (let (logPath, fs) = log_Setup env (CC_LogFile cfg) fs0 in
      wbind (SetupFirewall os exe) (\<lambda>active.
      if CC_ServerAddr cfg = [] then wseq (cleanupFirewall os active) (wret (NoServer, fs))
      else if CC_PprofAddr cfg \<noteq> [] \<and> \<not> listen (CC_PprofAddr cfg) then wret (ClientPprofFailed, fs)
      else wseq session (wseq (cleanupFirewall os active) (wret (Disconnected, fs)))))"

text \<open>\<open>requestAdmin\<close>: None is that the process goes on, otherwise its exit code.\<close>

definition requestAdmin :: "bool \<Rightarrow> bytes option \<Rightarrow> (bytes \<Rightarrow> bool) \<Rightarrow> nat option" where
  "requestAdmin elevated exe shellExecute =
     (if elevated then None
      else case exe of None \<Rightarrow> None
           | Some p \<Rightarrow> if \<not> shellExecute p then Some 1 else Some 0)"

text \<open>
  \<open>main\<close> up to the call of \<open>run\<close> (main_other.go): the configuration and the current texts, or the exit code; the lock
  is not kept.
\<close>

definition client_main :: "AcqOS \<Rightarrow> nat \<Rightarrow> pid \<Rightarrow> bytes \<Rightarrow> bytes option \<Rightarrow> 't Texts \<Rightarrow> LockFS \<Rightarrow>
    (nat + ClientConfig \<times> 't Texts) option \<times> LockFS" where
  "client_main acq k p host file x w =
     (case Acquire acq k p w of
        None \<Rightarrow> (None, w)
      | Some (Inl e, w1) \<Rightarrow> (Some (Inl 0), w1)
      | Some (Inr lock, w1) \<Rightarrow>
          (let cfg = LoadConfig host file
           in (Some (Inr (cfg, if CC_Lang cfg \<noteq> [] then Set_lang (ParseLang (CC_Lang cfg)) x else x)), w1)))"

section \<open>Lemmas\<close>

lemma length_CIDRMask [simp]: "length (CIDRMask n bits) = bits div 8"
  by (simp add: CIDRMask_def)

lemma ParseIP_dotted: "ParseIP s = Some a \<Longrightarrow> dotted s \<Longrightarrow> \<exists>x. a = v4prefix @ x \<and> length x = 4"
  by (auto simp: ParseIP_def dotted_def split: list.splits if_splits dest: parseIPv4Fields_length)

lemma IP_Mask_mapped: "length x = 4 \<Longrightarrow> length m = 4 \<Longrightarrow> length (IP_Mask (v4prefix @ x) m) = 4"
  by (simp add: IP_Mask_def)

lemma ParseCIDR_v4:
  assumes "ParseCIDR s = Some n" "Mask_Size (IPNet_Mask n) = (24, 32)"
  shows "To4 (IPNet_IP n) \<noteq> None"
proof -
  have len: "length (IPNet_Mask n) = 4" using assms(2) by (simp add: Mask_Size_def Let_def split: if_splits)
  obtain i a k bits where p: "ParseIP (take i s) = Some a" "bits = (if dotted (take i s) then 32 else 128)"
      "n = \<lparr> IPNet_IP = IP_Mask a (CIDRMask k bits), IPNet_Mask = CIDRMask k bits \<rparr>"
    using assms(1) by (auto simp: ParseCIDR_def Let_def split: option.splits if_splits)
  have b: "dotted (take i s)" "bits = 32" using len p(2,3) by (auto split: if_splits)
  then obtain x where "a = v4prefix @ x" "length x = 4" using ParseIP_dotted p(1) by blast
  then have "length (IPNet_IP n) = 4" using p(3) b(2) IP_Mask_mapped[of x "CIDRMask k 32"] by simp
  then show ?thesis by (simp add: To4_def)
qed

lemma newServer_iff: "newServer now l tw cfg \<noteq> None \<longleftrightarrow> Mask_Size (IPNet_Mask (Cfg_Subnet cfg)) = (24, 32)"
  by (auto simp: newServer_def NewRoom_def default_cfg_def Let_def split: prod.splits option.splits)

lemma open_server_iff:
  "open_server os addr dir tcp cfg \<noteq> None \<longleftrightarrow>
     (\<exists>u. NO_resolve os addr = Some u \<and> (case listen_on u of (network, u1) \<Rightarrow> NO_listen os network u1)) \<and>
     Mask_Size (IPNet_Mask (Cfg_Subnet cfg)) = (24, 32)"
  using newServer_iff[of "NO_now os" "NO_locals os" "NO_tcpWrite os" cfg]
  by (auto simp: open_server_def startServer_def split: option.splits prod.splits)

definition serving :: "server_end \<Rightarrow> bool" where
  "serving e \<longleftrightarrow> (case e of Serving lang ws st tcp \<Rightarrow> True | _ \<Rightarrow> False)"

definition lock_taken :: "MainOS \<Rightarrow> nat \<Rightarrow> World \<Rightarrow> bool" where
  "lock_taken os k w \<longleftrightarrow> (case Acquire (MO_acq os) k (MO_pid os) (W_locks w) of Some (Inr l, w1) \<Rightarrow> True | _ \<Rightarrow> False)"

definition log_ready :: "ServerFlags \<Rightarrow> World \<Rightarrow> bool" where
  "log_ready f w \<longleftrightarrow> SF_logFile f = [] \<or> (\<exists>p. fst (setupServerLog (SF_logFile f) (W_files w)) = Inr p)"

lemma server_main_serving:
  assumes "server_main os k f w = (Serving lang ws st tcp, w')"
  obtains subnet where "ParseCIDR (SF_subnet f) = Some subnet"
    "open_server (MO_new os) (SF_addr f) (SF_stateDir f) (SF_tcpAddr f) (flags_config f subnet) = Some (st, tcp)"
  using assms
  by (auto simp: server_main_def Let_def split: if_splits option.splits sum.splits prod.splits)

lemma server_main_serves:
  "serving (fst (server_main os k f w)) \<longleftrightarrow>
     \<not> SF_version f \<and> log_ready f w \<and> lock_taken os k w \<and>
     (\<exists>n. ParseCIDR (SF_subnet f) = Some n \<and> Mask_Size (IPNet_Mask n) = (24, 32)) \<and>
     (\<exists>u. NO_resolve (MO_new os) (SF_addr f) = Some u \<and>
        (case listen_on u of (network, u1) \<Rightarrow> NO_listen (MO_new os) network u1)) \<and>
     (SF_pprofAddr f = [] \<or> MO_listen os (SF_pprofAddr f))"
proof (cases "SF_version f")
  case False
  obtain r fs where r: "(if SF_logFile f \<noteq> [] then setupServerLog (SF_logFile f) (W_files w) else (Inr [], W_files w)) = (r, fs)"
    by fastforce
  have lr: "log_ready f w \<longleftrightarrow> (\<exists>p. r = Inr p)" using r by (auto simp: log_ready_def split: if_splits)
  note m = server_main_def[of os k f w, unfolded r Let_def prod.case]
  show ?thesis
  proof (cases "log_ready f w \<and> lock_taken os k w")
    case True
    then obtain p lock l where ok: "r = Inr p" "Acquire (MO_acq os) k (MO_pid os) (W_locks w) = Some (Inr lock, l)"
      using lr by (auto simp: lock_taken_def split: option.splits sum.splits)
    show ?thesis
    proof (cases "ParseCIDR (SF_subnet f)")
      case (Some n)
      show ?thesis
        using False True ok Some m open_server_iff[of "MO_new os" "SF_addr f" "SF_stateDir f" "SF_tcpAddr f" "flags_config f n"]
        by (auto simp: serving_def flags_config_def split: option.splits)
    qed (use False True ok m in \<open>simp add: serving_def\<close>)
  next
    case no: False
    then show ?thesis
      using False m lr by (cases r) (auto simp: serving_def lock_taken_def split: option.splits sum.splits)
  qed
qed (simp add: server_main_def serving_def)

section \<open>Properties\<close>

text \<open>
  The server command serves exactly when it should: no version was asked for, the log file (if any) can be opened, the
  instance lock is taken, the subnet is an IPv4 network with a mask of 24 bits, the address resolves
  and can be bound, and the address for profiling (if any) can be listened on.
\<close>

theorem server_serves_iff:
  "serving (fst (server_main os k f w)) \<longleftrightarrow>
     \<not> SF_version f \<and> log_ready f w \<and> lock_taken os k w \<and>
     (\<exists>n. ParseCIDR (SF_subnet f) = Some n \<and> Mask_Size (IPNet_Mask n) = (24, 32)) \<and>
     (\<exists>u. NO_resolve (MO_new os) (SF_addr f) = Some u \<and>
        (case listen_on u of (network, u1) \<Rightarrow> NO_listen (MO_new os) network u1)) \<and>
     (SF_pprofAddr f = [] \<or> MO_listen os (SF_pprofAddr f))"
  by (rule server_main_serves)

text \<open>
  Whatever the flags and whatever the system answers, a server that was started without saved state keeps its guarantees
  along every run: every listed room satisfies its invariant, is within its capacity and has the
  password of the flag, the number of rooms stays within the flag's limit (64 if it is not
  positive), and no virtual address is in use in two rooms.
\<close>

theorem server_command_safe:
  assumes "server_main os k f w = (Serving lang ws st tcp, w')" "SF_stateDir f = []" "server_step\<^sup>*\<^sup>* (P_srv st) s"
  shows "(\<forall>key rr. mget (S_rooms s) key = Some rr \<longrightarrow> room_wf (S_heap s rr) \<and>
       int (ClientCount (S_heap s rr)) \<le> max 0 (R_maxPlayers (S_heap s rr)) \<and> R_roomPass (S_heap s rr) = SF_password f) \<and>
    (SF_rooms f \<longrightarrow> int (length (S_rooms s)) \<le> (if SF_maxRooms f \<le> 0 then 64 else SF_maxRooms f)) \<and>
    (\<forall>k1 k2 r1 r2 v c1 c2. mget (S_rooms s) k1 = Some r1 \<and> mget (S_rooms s) k2 = Some r2 \<and>
       mget (R_clients (S_heap s r1)) v = Some c1 \<and> mget (R_clients (S_heap s r2)) v = Some c2 \<longrightarrow> k1 = k2)"
proof -
  obtain n where n: "ParseCIDR (SF_subnet f) = Some n"
      "open_server (MO_new os) (SF_addr f) (SF_stateDir f) (SF_tcpAddr f) (flags_config f n) = Some (st, tcp)"
    using server_main_serving[OF assms(1)] .
  have "Mask_Size (IPNet_Mask n) = (24, 32)"
    using open_server_iff[of "MO_new os" "SF_addr f" "SF_stateDir f" "SF_tcpAddr f" "flags_config f n"] n(2) by (simp add: flags_config_def)
  then have v4: "To4 (IPNet_IP (Cfg_Subnet (flags_config f n))) \<noteq> None" using ParseCIDR_v4[OF n(1)] by (simp add: flags_config_def)
  have "newServer (NO_now (MO_new os)) (NO_locals (MO_new os)) (NO_tcpWrite (MO_new os)) (flags_config f n) = Some (P_srv st)"
    using n(2) assms(2) by (auto simp: open_server_def startServer_def loadState_def split: option.splits if_splits prod.splits)
  note run = server_runs_safe[OF this v4 assms(3)]
  have fc: "Cfg_RoomPass (flags_config f n) = SF_password f" "Cfg_MultiRoom (flags_config f n) = SF_rooms f"
    "Cfg_MaxRooms (flags_config f n) = SF_maxRooms f" by (simp_all add: flags_config_def)
  show ?thesis using run unfolding server_safe_def fc defaultMaxRooms_def .
qed

definition sample_newos :: NewOS where
  "sample_newos = \<lparr> NO_resolve = (\<lambda>_. Some \<lparr> UDP_IP = [], UDP_Port = 4700 \<rparr>), NO_listen = (\<lambda>_ _. True), NO_tcp = (\<lambda>_. True), NO_now = 0,
     NO_order = id, NO_locals = [], NO_tcpWrite = None, NO_disk = NoFile \<rparr>"

definition sample_mainos :: MainOS where
  "sample_mainos = \<lparr> MO_acq = all_ok, MO_new = sample_newos, MO_pid = 77, MO_listen = (\<lambda>_. True) \<rparr>"

definition sample_world :: World where
  "sample_world = \<lparr> W_files = sample_fs, W_locks = empty_fs \<rparr>"

lemma default_subnet:
  "ParseCIDR (lit ''10.10.0.0/24'') = Some \<lparr> IPNet_IP = [10, 10, 0, 0], IPNet_Mask = [255, 255, 255, 0] \<rparr>"
  by code_simp

lemma default_serves: "\<exists>lang ws st tcp w'. server_main sample_mainos 2 default_flags sample_world = (Serving lang ws st tcp, w')"
proof -
  have "lock_taken sample_mainos 2 sample_world"
    by (simp add: lock_taken_def sample_mainos_def sample_world_def numeral_2_eq_2 all_ok_def open_lock_def flock_def empty_fs_def)
  then have "serving (fst (server_main sample_mainos 2 default_flags sample_world))"
    unfolding server_main_serves
    using default_subnet mask24
    by (simp add: log_ready_def default_flags_def sample_mainos_def sample_newos_def listen_on_def)
  then show ?thesis by (cases "server_main sample_mainos 2 default_flags sample_world") (auto simp: serving_def split: server_end.splits)
qed

theorem server_command_safe_witness:
  "\<exists>st w' lang ws tcp. server_main sample_mainos 2 default_flags sample_world = (Serving lang ws st tcp, w') \<and>
     (\<forall>key rr. mget (S_rooms (P_srv st)) key = Some rr \<longrightarrow> R_roomPass (S_heap (P_srv st) rr) = [])"
proof -
  obtain lang ws st tcp w' where m: "server_main sample_mainos 2 default_flags sample_world = (Serving lang ws st tcp, w')"
    using default_serves by blast
  from server_command_safe[OF this _ rtranclp.rtrancl_refl] m show ?thesis by (auto simp: default_flags_def)
qed

text \<open>
  A room that is created automatically gets a subnet that overlaps no local network with a mask of 24 bits or more.  Wider
  local networks are not looked at: with an interface in 10.0.0.0/8 the first room gets 10.10.2.0/24,
  which lies inside it.
\<close>

lemma room_subnet_free:
  assumes "S_localSubnets s = getLocalSubnets ifaces" "allocateSubnet s = Some n" "m \<in> set (getLocalSubnets ifaces)"
  shows "\<not> ip_equal (IPNet_IP n) (IPNet_IP m) \<and> \<not> IPNet_Contains n (IPNet_IP m) \<and> \<not> IPNet_Contains m (IPNet_IP n)"
proof -
  have "\<not> subnetOverlapsAny n (getLocalSubnets ifaces)"
    using allocateSubnet_Some[OF assms(2)] assms(1) by metis
  then show ?thesis using assms(3) by (auto simp: subnetOverlapsAny_def list_ex_iff)
qed

definition wide_net :: IPNet where
  "wide_net = \<lparr> IPNet_IP = [10, 0, 0, 0], IPNet_Mask = [255, 0, 0, 0] \<rparr>"

lemma wide_local_network_ignored:
  "getLocalSubnets (Some [\<lparr> If_up = True, If_loopback = False, If_addrs = Some [Some wide_net] \<rparr>]) = [] \<and>
   IPNet_Contains wide_net (IPNet_IP (subnet_at [10, 10, 0, 0] 2))"
  by code_simp

section \<open>The client\<close>

definition fw_verb :: "bytes list \<Rightarrow> bytes" where
  "fw_verb c = (if length c < 6 \<or> take 3 c \<noteq> [lit ''netsh'', lit ''advfirewall'', lit ''firewall''] then [] else c ! 3)"

text \<open>The firewall rules of a name after a history: \<open>add rule\<close> adds one, \<open>delete rule\<close> removes all of the name.\<close>

definition rules_step :: "wcall \<Rightarrow> bytes set \<Rightarrow> bytes set" where
  "rules_step c rs =
     (case c of
        W_Cmd a \<Rightarrow> if fw_verb a = lit ''add'' then insert (rule_name_of a) rs
                   else if fw_verb a = lit ''delete'' then rs - {rule_name_of a} else rs
      | _ \<Rightarrow> rs)"

definition rules_after :: "whist \<Rightarrow> bytes set \<Rightarrow> bytes set" where
  "rules_after h rs = fold rules_step h rs"

definition no_firewall :: "wcall \<Rightarrow> bool" where
  "no_firewall c \<longleftrightarrow> (\<forall>a. c = W_Cmd a \<longrightarrow> fw_verb a = [])"

definition own_rules :: "bytes set" where
  "own_rules = (\<lambda>n. lit ''name='' @ n) ` set rule_names"

lemma rules_after_append: "rules_after (h @ h') rs = rules_after h' (rules_after h rs)"
  by (simp add: rules_after_def)

lemma fw_words: "lit ''add'' \<noteq> []" "lit ''delete'' \<noteq> []" "lit ''add'' \<noteq> lit ''delete''" "lit ''delete'' \<noteq> lit ''add''"
  by code_simp+

lemma rules_untouched: "list_all no_firewall cs \<Longrightarrow> rules_after cs rs = rs"
  by (induction cs arbitrary: rs)
    (auto simp: rules_after_def rules_step_def no_firewall_def fw_words[symmetric] split: wcall.splits)

lemma rules_deleted: "rules_after (map W_Cmd (map fw_delete rule_names)) rs = rs - own_rules"
  by (auto simp: rules_after_def rules_step_def fw_verb_def fw_delete_def rule_name_of_def rule_names_def own_rules_def fw_words)

lemma rules_added: "rules_after (map W_Cmd (fw_adds exe)) rs = rs \<union> own_rules"
  by (auto simp: rules_after_def rules_step_def fw_verb_def fw_adds_def fw_add_def rule_name_of_def rule_names_def commonLANPorts_def
      own_rules_def fw_words)

text \<open>
  The client removes the firewall rules it has made, except when it ends in \<open>log.Fatalf\<close>: if the address for profiling cannot be
  listened on, the deferred clean-up does not run and all its rules stay; in every other case none
  of them is left (the session between runs no firewall command).
\<close>

theorem client_firewall_rules:
  assumes "\<And>h. \<exists>cs. session h = Ok ((), h @ cs) \<and> list_all no_firewall cs"
  shows "\<exists>e h1. client_run os (Some exe) listen session env fs cfg h = Ok ((e, snd (log_Setup env (CC_LogFile cfg) fs)), h @ h1) \<and>
    (e = ClientPprofFailed \<longleftrightarrow> CC_ServerAddr cfg \<noteq> [] \<and> CC_PprofAddr cfg \<noteq> [] \<and> \<not> listen (CC_PprofAddr cfg)) \<and>
    rules_after h1 rs \<inter> own_rules = (if e = ClientPprofFailed then own_rules else {})"
proof -
  let ?fs = "snd (log_Setup env (CC_LogFile cfg) fs)" and ?a = "map W_Cmd (map fw_delete rule_names @ fw_adds exe)" and ?d = "map W_Cmd (map fw_delete rule_names)"
  have su: "SetupFirewall os (Some exe) h = Ok (True, h @ ?a)" for h using firewall_rules_removed[of os exe] by blast
  have cl: "cleanupFirewall os True h = Ok ((), h @ ?d)" for h using firewall_rules_removed[of os exe] by blast
  obtain cs where se: "session (h @ ?a) = Ok ((), h @ ?a @ cs)" "list_all no_firewall cs" using assms[of "h @ ?a"] by auto
  have A: "rules_after ?a rs = rs \<union> own_rules" by (simp only: map_append rules_after_append rules_deleted rules_added) auto
  note w = client_run_def case_prod_beta Let_def wbind_def wseq_def wret_def su cl
  consider (none) "CC_ServerAddr cfg = []" | (fatal) "CC_ServerAddr cfg \<noteq> []" "CC_PprofAddr cfg \<noteq> []" "\<not> listen (CC_PprofAddr cfg)"
    | (runs) "CC_ServerAddr cfg \<noteq> []" "\<not> (CC_PprofAddr cfg \<noteq> [] \<and> \<not> listen (CC_PprofAddr cfg))" by blast
  then show ?thesis
  proof cases
    case none
    then have "client_run os (Some exe) listen session env fs cfg h = Ok ((NoServer, ?fs), h @ (?a @ ?d))" by (simp add: w)
    moreover have "rules_after (?a @ ?d) rs \<inter> own_rules = {}" unfolding rules_after_append A rules_deleted by auto
    ultimately show ?thesis using none by (intro exI[of _ NoServer] exI[of _ "?a @ ?d"]) simp
  next
    case fatal
    then have "client_run os (Some exe) listen session env fs cfg h = Ok ((ClientPprofFailed, ?fs), h @ ?a)" by (simp add: w)
    then show ?thesis using fatal A by (intro exI[of _ ClientPprofFailed] exI[of _ ?a]) auto
  next
    case runs
    then have "client_run os (Some exe) listen session env fs cfg h = Ok ((Disconnected, ?fs), h @ (?a @ cs @ ?d))" using se(1) by (auto simp: w)
    moreover have "rules_after (?a @ cs @ ?d) rs \<inter> own_rules = {}"
      unfolding rules_after_append A rules_deleted rules_untouched[OF se(2)] by auto
    ultimately show ?thesis using runs by (intro exI[of _ Disconnected] exI[of _ "?a @ cs @ ?d"]) simp
  qed
qed

definition pprof_conf :: ClientConfig where
  "pprof_conf = (DefaultConfig [65])\<lparr> CC_ServerAddr := lit ''h:1'', CC_PprofAddr := lit ''p'' \<rparr>"

theorem client_firewall_rules_witness:
  "\<exists>h1. client_run home_os (Some [99]) (\<lambda>_. False) (wret ()) (\<lambda>_. []) sample_fs pprof_conf [] =
       Ok ((ClientPprofFailed, snd (log_Setup (\<lambda>_. []) [] sample_fs)), [] @ h1) \<and>
     rules_after h1 {} \<inter> own_rules = own_rules"
proof -
  have "\<exists>cs. wret () h = Ok ((), h @ cs) \<and> list_all no_firewall cs" for h by (simp add: wret_def)
  from client_firewall_rules[of "wret ()", OF this, where os = home_os and exe = "[99]" and listen = "\<lambda>_. False" and cfg = pprof_conf
      and env = "\<lambda>_. []" and fs = sample_fs and h = "[]" and rs = "{}"]
  show ?thesis by (auto simp: pprof_conf_def lit_def DefaultConfig_def)
qed

lemma parseHostIP_literal:
  assumes "length i = 4" "58 \<notin> set p" "91 \<notin> set p" "93 \<notin> set p"
  shows "parseHostIP (JoinHostPort (ip_string i) p) = v4prefix @ i"
proof -
  have t: "ip_string i = ip4_text i" using assms(1) by (auto simp: ip_string_def To4_def)
  have "91 \<notin> set (ip4_text i)" "93 \<notin> set (ip4_text i)" using digits_not_special by (auto simp: ip4_text_def)
  then show ?thesis
    using SplitHostPort_JoinHostPort[of "ip4_text i" p] assms ParseIP_ip4_text[OF assms(1)] by (simp add: parseHostIP_def t)
qed

text \<open>
  A server that is configured by its host name is not kept off the tunnel: the public address of the server is taken from the
  text of the configuration and not from the name's resolution, so the device gets none, and no route for the
  traffic to the server is made, whatever the system answers.
\<close>

theorem hostname_not_excluded:
  assumes "SplitHostPort (CC_ServerAddr cfg) = Some (host, port)" "ParseIP host = None"
    "WD_serverPublicIP d = DC_ServerPublicIP (tun_factory_config cfg t)"
  shows "exclusion_add os forget d h = Ok (d, h)"
  using assms by (simp add: exclusion_add_def tun_factory_config_def parseHostIP_def wret_def)

theorem hostname_not_excluded_witness:
  "ValidateServerAddr (lit ''h.x:1'') = None \<and>
   exclusion_add home_os True (sample_wdev\<lparr> WD_serverPublicIP :=
     DC_ServerPublicIP (tun_factory_config ((DefaultConfig [65])\<lparr> CC_ServerAddr := lit ''h.x:1'' \<rparr>)
       \<lparr> TC_VirtualIP = [10, 10, 0, 2], TC_SubnetMask = [255, 255, 255, 0], TC_ServerIP = [10, 10, 0, 1], TC_MTU = 1400 \<rparr>) \<rparr>) [] =
   Ok (sample_wdev\<lparr> WD_serverPublicIP := [] \<rparr>, [])"
proof -
  have sp: "SplitHostPort (lit ''h.x:1'') = Some (lit ''h.x'', lit ''1'')"
    by (simp add: SplitHostPort_def last_index_of_def index_of_def lit_def)
  have ip: "ParseIP (lit ''h.x'') = None" by (simp add: ParseIP_def lit_def is_digit_def)
  have v: "ValidateServerAddr (lit ''h.x:1'') = None"
    by (simp add: ValidateServerAddr_def sp) (simp add: lit_def is_digit_def digit_val_def)
  let ?c = "(DefaultConfig [65])\<lparr> CC_ServerAddr := lit ''h.x:1'' \<rparr>"
  let ?t = "\<lparr> TC_VirtualIP = [10, 10, 0, 2], TC_SubnetMask = [255, 255, 255, 0], TC_ServerIP = [10, 10, 0, 1], TC_MTU = 1400 \<rparr>"
  let ?d = "sample_wdev\<lparr> WD_serverPublicIP := DC_ServerPublicIP (tun_factory_config ?c ?t) \<rparr>"
  have d: "?d = sample_wdev\<lparr> WD_serverPublicIP := [] \<rparr>" by (simp add: tun_factory_config_def parseHostIP_def sp ip)
  have "exclusion_add home_os True ?d [] = Ok (?d, [])"
    by (rule hostname_not_excluded[of ?c "lit ''h.x''" "lit ''1''" ?d ?t]) (simp_all add: sp ip)
  then show ?thesis using d v by simp
qed

end
