(* ===== verification/Supervisor.thy ===== *)
theory Supervisor
  imports Startup Transport
begin

text \<open>
  Goroutines that are started, supervised and stopped: \<open>Run\<close>, its reading loop, the accepting loop and \<open>Close\<close> of the
  server (server/server.go) with the signal handler of cmd/server/main.go; \<open>startRelayLoops\<close> and
  \<open>stopPreviousRun\<close> of the client (client/tunnel.go) as a step relation.
\<close>

section \<open>Running the server (server.go, status.go)\<close>

datatype goroutine = StatusServer bytes | KeepaliveLoop | RateLimitLoop | PersistLoop | MetricsLoop | BwCleanupLoop | SendQueueRun
  | PeerInfoLoop rref | PingLoop rref | Worker nat | TcpAcceptLoop

text \<open>An address without colon is a port.\<close>

definition status_addr :: "bytes \<Rightarrow> bytes" where
  "status_addr addr = (if 58 \<notin> set addr then 58 # addr else addr)"

definition worker_count :: "int \<Rightarrow> nat" where
  "worker_count maxPlayers =
     (let w = (if 0 \<le> maxPlayers then maxPlayers div 2 else - ((- maxPlayers) div 2));
          w1 = (if w < 16 then 16 else w)
      in nat (if 64 < w1 then 64 else w1))"

definition run_goroutines :: "bytes \<Rightarrow> bool \<Rightarrow> nat \<Rightarrow> Server \<Rightarrow> goroutine list" where
  "run_goroutines statusAddr tcp workers s =
     (if statusAddr = [] then [] else [StatusServer (status_addr statusAddr)]) @
     [KeepaliveLoop, RateLimitLoop, PersistLoop, MetricsLoop, BwCleanupLoop, SendQueueRun] @
     concat (map (\<lambda>(k, rr). [PeerInfoLoop rr, PingLoop rr]) (S_rooms s)) @
     map Worker [0..<workers] @ (if tcp then [TcpAcceptLoop] else [])"

text \<open>The reading loop: it ends at the first error; the buffer has 65535 bytes.\<close>

datatype udp_read = ReadFails | ReadFrom bytes UDPAddr

fun read_loop :: "udp_read list \<Rightarrow> Server \<Rightarrow> Server" where
  "read_loop [] s = s"
| "read_loop (ReadFails # rs) s = s"
| "read_loop (ReadFrom d a # rs) s = read_loop rs (receive (take 65535 d) a s)"

text \<open>The accepting loop: an error is logged and the loop goes on, unless the context is done.\<close>

datatype accept = CtxDone | AcceptFails | Accepted TCPTransport

fun tcpAcceptLoop :: "accept list \<Rightarrow> TcpState \<Rightarrow> UDPTCPBridge list \<times> TcpState" where
  "tcpAcceptLoop [] st = ([], st)"
| "tcpAcceptLoop (CtxDone # as) st = ([], st)"
| "tcpAcceptLoop (AcceptFails # as) st = tcpAcceptLoop as st"
| "tcpAcceptLoop (Accepted tcp # as) st =
     (let (b, st1) = tcp_accept tcp st; (bs, st2) = tcpAcceptLoop as st1
      in ((case b of None \<Rightarrow> bs | Some x \<Rightarrow> x # bs), st2))"

section \<open>Closing the server\<close>

text \<open>
  The running server: its store, bridges, and whether the context is cancelled and the listeners and the socket are open.
\<close>

record Daemon =
  DM_store :: Store
  DM_tcp :: TcpState
  DM_cancelled :: bool
  DM_tcpListener :: bool
  DM_conn :: bool
  DM_pprof :: bool

definition close_clients :: "SEnv \<Rightarrow> Server \<Rightarrow> Server" where
  "close_clients ev s =
     (let s1 = fold (\<lambda>(k, rr). with_room rr (notifyShutdown (V_env ev))) (range_rooms ev s) s
      in s1\<lparr> S_queue := (S_queue s1)\<lparr> RLQ_sq := stop_queue (RLQ_sq (S_queue s1)) \<rparr> \<rparr>)"

definition Daemon_Close :: "SEnv \<Rightarrow> write_outcome \<Rightarrow> Daemon \<Rightarrow> Daemon" where
  "Daemon_Close ev w d =
     (let st1 = (DM_store d)\<lparr> P_srv := close_clients ev (P_srv (DM_store d)) \<rparr>;
          st2 = saveState (V_env ev) w st1;
          s = P_srv st2
      in d\<lparr> DM_store := st2\<lparr> P_srv := fold (\<lambda>(k, rr). on_room rr Room_Stop) (range_rooms ev s) s \<rparr>,
            DM_tcp := (DM_tcp d)\<lparr> TC_bridges := [] \<rparr>,
            DM_cancelled := True, DM_tcpListener := False, DM_conn := False, DM_pprof := False \<rparr>)"

text \<open>
  The handler of a signal cancels the context of \<open>Run\<close> and then calls \<open>Close\<close>; \<open>ended\<close> tells whether the sending
  loop sees the context first.
\<close>

definition queue_ends :: "Server \<Rightarrow> Server" where
  "queue_ends s = s\<lparr> S_queue := (S_queue s)\<lparr> RLQ_sq :=
     (if SQ_drained (RLQ_sq (S_queue s)) then RLQ_sq (S_queue s) else (drain (RLQ_sq (S_queue s)))\<lparr> SQ_drained := True \<rparr>) \<rparr> \<rparr>"

definition on_signal :: "bool \<Rightarrow> SEnv \<Rightarrow> write_outcome \<Rightarrow> Daemon \<Rightarrow> Daemon" where
  "on_signal ended ev w d =
     Daemon_Close ev w (d\<lparr> DM_cancelled := True,
       DM_store := (DM_store d)\<lparr> P_srv := (if ended then queue_ends (P_srv (DM_store d)) else P_srv (DM_store d)) \<rparr> \<rparr>)"

section \<open>The relay loops of the client (tunnel.go)\<close>

datatype gname = SendLoop | ReceiveFromServer | ReceiveFromTUN | TunWorker nat | ClientKeepalive | PeerDiscovery | StalePeerCleanup
  | HolePunchRetry | P2PKeepalive

definition tunWorkers :: nat where "tunWorkers = 4"

definition relay_names :: "gname list" where
  "relay_names = [SendLoop, ReceiveFromServer, ReceiveFromTUN] @ map TunWorker [0..<tunWorkers] @
     [ClientKeepalive, PeerDiscovery, StalePeerCleanup, HolePunchRetry, P2PKeepalive]"

text \<open>
  \<open>RL_running\<close>: goroutines in their loops, of which those in \<open>RL_blocked\<close> wait inside a read of the socket or the device;
  \<open>RL_exiting\<close>: whose loop has returned and that have not yet run the exit function.  Running and exiting ones count
  for the wait group.  \<open>RL_once\<close> is the one that cancelled the run.
\<close>

datatype rl_phase = AwaitCancel | Draining | Ended bool

record Relay =
  RL_running :: "gname list"
  RL_blocked :: "gname list"
  RL_exiting :: "gname list"
  RL_once :: "gname option"
  RL_cancelled :: bool
  RL_phase :: rl_phase

definition start_relay :: Relay where
  "start_relay = \<lparr> RL_running = relay_names, RL_blocked = [], RL_exiting = [], RL_once = None, RL_cancelled = False,
     RL_phase = AwaitCancel \<rparr>"

definition onGoroutineExit :: "gname \<Rightarrow> Relay \<Rightarrow> Relay" where
  "onGoroutineExit g r = (if RL_once r = None then r\<lparr> RL_once := Some g, RL_cancelled := True \<rparr> else r)"

text \<open>
  The two reading loops look at the context and then read, without a deadline; whoever waits in the read does not see the cancelled
  context until the read returns (a packet, an error, the closed socket).  \<open>W\<close> is the set of goroutines whose reads
  may return.  A reading loop may end by itself (too many errors, no device), the keepalive loop gives up when the server is
  silent and cancels the run, and every other loop ends only when the context is done.  \<open>Ended True\<close> is that the five seconds
  have passed.
\<close>

definition reading_loop :: "gname \<Rightarrow> bool" where
  "reading_loop g \<longleftrightarrow> g = ReceiveFromServer \<or> g = ReceiveFromTUN"

inductive relay_step :: "gname set \<Rightarrow> Relay \<Rightarrow> Relay \<Rightarrow> bool" for W where
  reads: "g \<in> set (RL_running r) \<Longrightarrow> reading_loop g \<Longrightarrow> g \<notin> set (RL_blocked r) \<Longrightarrow> \<not> RL_cancelled r \<Longrightarrow>
    relay_step W r (r\<lparr> RL_blocked := g # RL_blocked r \<rparr>)"
| wakes: "g \<in> set (RL_blocked r) \<Longrightarrow> g \<in> W \<Longrightarrow> relay_step W r (r\<lparr> RL_blocked := remove1 g (RL_blocked r) \<rparr>)"
| returns: "g \<in> set (RL_running r) \<Longrightarrow> g \<notin> set (RL_blocked r) \<Longrightarrow> RL_cancelled r \<or> reading_loop g \<Longrightarrow>
    relay_step W r (r\<lparr> RL_running := remove1 g (RL_running r), RL_exiting := g # RL_exiting r \<rparr>)"
| gives_up: "ClientKeepalive \<in> set (RL_running r) \<Longrightarrow> \<not> RL_cancelled r \<Longrightarrow>
    relay_step W r (r\<lparr> RL_running := remove1 ClientKeepalive (RL_running r), RL_exiting := ClientKeepalive # RL_exiting r,
      RL_cancelled := True \<rparr>)"
| exits: "g \<in> set (RL_exiting r) \<Longrightarrow>
    relay_step W r ((onGoroutineExit g r)\<lparr> RL_exiting := remove1 g (RL_exiting r) \<rparr>)"
| parent: "\<not> RL_cancelled r \<Longrightarrow> relay_step W r (r\<lparr> RL_cancelled := True \<rparr>)"
| cancelled: "RL_cancelled r \<Longrightarrow> RL_phase r = AwaitCancel \<Longrightarrow> relay_step W r (r\<lparr> RL_phase := Draining \<rparr>)"
| finished: "RL_phase r = Draining \<Longrightarrow> RL_running r = [] \<Longrightarrow> RL_exiting r = [] \<Longrightarrow>
    relay_step W r (r\<lparr> RL_phase := Ended False \<rparr>)"
| timeout: "RL_phase r = Draining \<Longrightarrow> relay_step W r (r\<lparr> RL_phase := Ended True \<rparr>)"

inductive_cases relay_stepE: "relay_step W r r'"

text \<open>
  \<open>stopPreviousRun\<close>: the earlier run (None if there was none) is cancelled; \<open>late\<close> tells whether its goroutines are still there
  after five seconds, and then the socket is closed.
\<close>

definition stopPreviousRun :: "Relay option \<Rightarrow> bool \<Rightarrow> Relay option \<times> bool" where
  "stopPreviousRun prev late =
     (case prev of None \<Rightarrow> (None, False) | Some r \<Rightarrow> (Some (r\<lparr> RL_cancelled := True \<rparr>), late))"

section \<open>Lemmas on closing\<close>

lemma sendChecked_queue:
  "SQ_drained (RLQ_sq (snd (sendChecked env typ payload a st))) = SQ_drained (RLQ_sq (snd st))"
  "written_pkts (RLQ_sq (snd (sendChecked env typ payload a st))) = written_pkts (RLQ_sq (snd st))"
  by (auto simp: sendChecked_def rlq_send_def sq_send_def Let_def case_prod_beta written_pkts_def)

lemma fold_sendChecked_queue:
  "SQ_drained (RLQ_sq (snd (fold (\<lambda>a. sendChecked env typ payload a) as st))) = SQ_drained (RLQ_sq (snd st))"
  "written_pkts (RLQ_sq (snd (fold (\<lambda>a. sendChecked env typ payload a) as st))) = written_pkts (RLQ_sq (snd st))"
  by (induction as arbitrary: st) (simp_all add: sendChecked_queue)

lemma notify_queue:
  "SQ_drained (RLQ_sq (snd (notifyShutdown env st))) = SQ_drained (RLQ_sq (snd st))"
  "written_pkts (RLQ_sq (snd (notifyShutdown env st))) = written_pkts (RLQ_sq (snd st))"
  by (simp_all add: notifyShutdown_def Let_def fold_sendChecked_queue)

lemma with_room_queue: "S_queue (with_room rr f s) = snd (f (S_heap s rr, S_queue s))"
  by (simp add: with_room_def Let_def case_prod_beta)

abbreviation notify_rooms :: "SEnv \<Rightarrow> (bytes \<times> rref) list \<Rightarrow> Server \<Rightarrow> Server" where
  "notify_rooms ev rs s \<equiv> fold (\<lambda>(k, rr). with_room rr (notifyShutdown (V_env ev))) rs s"

lemma notify_rooms_queue:
  "SQ_drained (RLQ_sq (S_queue (notify_rooms ev rs s))) = SQ_drained (RLQ_sq (S_queue s))"
  "written_pkts (RLQ_sq (S_queue (notify_rooms ev rs s))) = written_pkts (RLQ_sq (S_queue s))"
  by (induction rs arbitrary: s) (auto simp: with_room_queue notify_queue case_prod_beta)

lemma stop_rooms_queue: "S_queue (fold (\<lambda>(k, rr). on_room rr Room_Stop) rs s) = S_queue s"
  by (induction rs arbitrary: s) (auto simp: on_room_def)

lemma saveState_srv [simp]: "P_srv (saveState env w st) = P_srv st"
  by (simp add: saveState_def Let_def split: option.split write_outcome.split)

lemma Daemon_Close_srv: "P_srv (DM_store (Daemon_Close ev w d)) = Close ev (P_srv (DM_store d))"
  by (simp add: Daemon_Close_def Close_def close_clients_def Let_def)

lemma Close_queue: "RLQ_sq (S_queue (Close ev s)) = stop_queue (RLQ_sq (S_queue (notify_rooms ev (range_rooms ev s) s)))"
  by (simp add: Close_def Let_def stop_rooms_queue)

lemma Close_drained: "SQ_drained (RLQ_sq (S_queue s)) \<Longrightarrow> written_pkts (RLQ_sq (S_queue (Close ev s))) = written_pkts (RLQ_sq (S_queue s))"
  by (simp add: Close_queue stop_queue_def Let_def sq_Stop_def notify_rooms_queue)

text \<open>With room in the channel every notice is queued, in order, and the rooms stay as they are.\<close>

definition shutdown_notice :: bytes where
  "shutdown_notice = EncodeChecked TypeKick (Kick_Marshal \<lparr> Kick_Reason = lit ''server shutdown'', Kick_Code = KickCodeShutdown \<rparr>)"

definition notice_entry :: "UDPAddr \<Rightarrow> sendEntry" where
  "notice_entry a = \<lparr> SE_data = shutdown_notice, SE_addr = a, SE_priority = priorityHigh \<rparr>"

definition queue_notices :: "UDPAddr list \<Rightarrow> rateLimitedQueue \<Rightarrow> rateLimitedQueue" where
  "queue_notices as q = q\<lparr> RLQ_sq := (RLQ_sq q)\<lparr> SQ_ch := SQ_ch (RLQ_sq q) @ map notice_entry as \<rparr> \<rparr>"

definition room_targets :: "SEnv \<Rightarrow> Room \<Rightarrow> UDPAddr list" where
  "room_targets ev r = public_addrs r (range_clients (V_env ev) r)"

definition shutdown_targets :: "SEnv \<Rightarrow> Server \<Rightarrow> UDPAddr list" where
  "shutdown_targets ev s = concat (map (\<lambda>(k, rr). room_targets ev (S_heap s rr)) (range_rooms ev s))"

lemma queue_notices_simps [simp]:
  "queue_notices [] q = q" "queue_notices bs (queue_notices as q) = queue_notices (as @ bs) q"
  "SQ_maxSize (RLQ_sq (queue_notices as q)) = SQ_maxSize (RLQ_sq q)"
  "SQ_ch (RLQ_sq (queue_notices as q)) = SQ_ch (RLQ_sq q) @ map notice_entry as"
  by (simp_all add: queue_notices_def)

lemma send_notice:
  assumes "length (SQ_ch (RLQ_sq q)) < SQ_maxSize (RLQ_sq q)"
  shows "sendChecked env TypeKick (Kick_Marshal \<lparr> Kick_Reason = lit ''server shutdown'', Kick_Code = KickCodeShutdown \<rparr>) a (r, q) =
    (r, queue_notices [a] q)"
  using assms
  by (simp add: sendChecked_def rlq_send_def sq_send_def Let_def note_send_def queue_notices_def notice_entry_def shutdown_notice_def)

lemma send_notices:
  "length (SQ_ch (RLQ_sq q)) + length as \<le> SQ_maxSize (RLQ_sq q) \<Longrightarrow>
   fold (\<lambda>a. sendChecked env TypeKick (Kick_Marshal \<lparr> Kick_Reason = lit ''server shutdown'', Kick_Code = KickCodeShutdown \<rparr>) a) as (r, q) =
     (r, queue_notices as q)"
  by (induction as arbitrary: q) (simp_all add: send_notice)

lemma notify_room:
  assumes "length (SQ_ch (RLQ_sq (S_queue s))) + length (room_targets ev (S_heap s rr)) \<le> SQ_maxSize (RLQ_sq (S_queue s))"
  shows "with_room rr (notifyShutdown (V_env ev)) s = s\<lparr> S_queue := queue_notices (room_targets ev (S_heap s rr)) (S_queue s) \<rparr>"
  using assms send_notices[of "S_queue s" "room_targets ev (S_heap s rr)" "V_env ev" "S_heap s rr"]
  by (auto simp: with_room_def notifyShutdown_def Let_def room_targets_def)

lemma notify_rooms_all:
  "length (SQ_ch (RLQ_sq (S_queue s))) + length (concat (map (\<lambda>(k, rr). room_targets ev (S_heap s rr)) rs)) \<le> SQ_maxSize (RLQ_sq (S_queue s)) \<Longrightarrow>
   notify_rooms ev rs s = s\<lparr> S_queue := queue_notices (concat (map (\<lambda>(k, rr). room_targets ev (S_heap s rr)) rs)) (S_queue s) \<rparr>"
  by (induction rs arbitrary: s) (simp_all add: case_prod_beta notify_room)

section \<open>Lemmas on the relay loops\<close>

text \<open>What is left to do after the cancellation; before it the reading loops may go on for ever.\<close>

definition relay_work :: "Relay \<Rightarrow> nat" where
  "relay_work r = length (RL_blocked r) + 2 * length (RL_running r) + length (RL_exiting r) +
     (case RL_phase r of AwaitCancel \<Rightarrow> 2 | Draining \<Rightarrow> 1 | Ended b \<Rightarrow> 0)"

definition relay_wf :: "Relay \<Rightarrow> bool" where
  "relay_wf r \<longleftrightarrow> (RL_phase r \<noteq> AwaitCancel \<longrightarrow> RL_cancelled r) \<and> (RL_once r \<noteq> None \<longrightarrow> RL_cancelled r) \<and>
     (RL_phase r = Ended False \<longrightarrow> RL_running r = [] \<and> RL_exiting r = []) \<and>
     (length (RL_running r) + length (RL_exiting r) < length relay_names \<longrightarrow> RL_once r \<noteq> None) \<and>
     set (RL_blocked r) \<subseteq> set (RL_running r) \<and> (\<forall>g. g \<in> set (RL_blocked r) \<longrightarrow> reading_loop g) \<and> distinct (RL_running r) \<and>
     distinct (RL_blocked r)"

lemma length_remove1_in: "x \<in> set xs \<Longrightarrow> Suc (length (remove1 x xs)) = length xs"
  using length_pos_if_in_set[of x xs] by (simp add: length_remove1)

lemma relay_step_work: "relay_step W r r' \<Longrightarrow> RL_cancelled r \<Longrightarrow> relay_work r' < relay_work r \<and> RL_cancelled r'"
proof (induction rule: relay_step.induct)
  case (wakes g r)
  from length_remove1_in[OF wakes(1)] wakes show ?case by (simp add: relay_work_def)
next
  case (returns g r)
  from length_remove1_in[OF returns(1)] returns show ?case by (simp add: relay_work_def)
next
  case (exits g r)
  from length_remove1_in[OF exits(1)] exits show ?case by (simp add: relay_work_def onGoroutineExit_def)
qed (simp_all add: relay_work_def)

lemma relay_step_wf: "relay_step W r r' \<Longrightarrow> relay_wf r \<Longrightarrow> relay_wf r'"
proof (induction rule: relay_step.induct)
  case (wakes g r)
  then show ?case by (auto simp: relay_wf_def)
next
  case (returns g r)
  then have "length (remove1 g (RL_running r)) + Suc (length (RL_exiting r)) = length (RL_running r) + length (RL_exiting r)"
    using length_remove1_in[OF returns(1)] by simp
  with returns show ?case by (auto simp: relay_wf_def)
next
  case (gives_up r)
  then have "length (remove1 ClientKeepalive (RL_running r)) + Suc (length (RL_exiting r)) = length (RL_running r) + length (RL_exiting r)"
    using length_remove1_in[OF gives_up(1)] by simp
  moreover have "ClientKeepalive \<notin> set (RL_blocked r)" using gives_up(3) by (auto simp: relay_wf_def reading_loop_def)
  ultimately show ?case using gives_up by (auto simp: relay_wf_def)
next
  case (exits g r)
  then show ?case by (auto simp: relay_wf_def onGoroutineExit_def)
qed (auto simp: relay_wf_def)

lemma start_relay_wf: "relay_wf start_relay"
  by (auto simp: relay_wf_def start_relay_def relay_names_def tunWorkers_def distinct_map inj_on_def)

lemma relay_reachable_wf: "(relay_step W)\<^sup>*\<^sup>* start_relay r \<Longrightarrow> relay_wf r"
  by (induction rule: rtranclp_induct) (auto simp: start_relay_wf relay_step_wf)

lemma relay_run_work:
  "(relay_step W ^^ n) r r' \<Longrightarrow> RL_cancelled r \<Longrightarrow> n + relay_work r' \<le> relay_work r \<and> RL_cancelled r'"
proof (induction n arbitrary: r')
  case (Suc n)
  then obtain x where x: "(relay_step W ^^ n) r x" "relay_step W x r'" by auto
  then show ?case using Suc.IH[OF x(1) Suc.prems(2)] relay_step_work[OF x(2)] by simp
qed simp

text \<open>A goroutine whose read never returns stays where it is, and the function cannot return in time.\<close>

lemma relay_blocked_step:
  "relay_step W r r' \<Longrightarrow> g \<in> set (RL_blocked r) \<Longrightarrow> g \<notin> W \<Longrightarrow> relay_wf r \<Longrightarrow>
     g \<in> set (RL_blocked r') \<and> g \<in> set (RL_running r')"
proof -
  assume a: "relay_step W r r'" "g \<in> set (RL_blocked r)" "g \<notin> W" "relay_wf r"
  from a(1-3) have "g \<in> set (RL_blocked r')"
  proof (induction rule: relay_step.induct)
    case (wakes h r)
    then have "g \<noteq> h" by blast
    with wakes show ?case by simp
  qed (simp_all add: onGoroutineExit_def)
  with relay_step_wf[OF a(1,4)] show ?thesis by (auto simp: relay_wf_def)
qed

lemma relay_blocked_stays:
  assumes "(relay_step W)\<^sup>*\<^sup>* r r'" "relay_wf r" "g \<in> set (RL_blocked r)" "g \<notin> W"
  shows "g \<in> set (RL_running r') \<and> RL_phase r' \<noteq> Ended False"
proof -
  from assms(1) have "g \<in> set (RL_blocked r') \<and> relay_wf r'"
    by (induction rule: rtranclp_induct) (use assms relay_blocked_step relay_step_wf in blast)+
  then show ?thesis by (auto simp: relay_wf_def)
qed

lemma relay_stuck:
  assumes "\<forall>r'. \<not> relay_step W r r'" "relay_wf r"
  shows "RL_exiting r = [] \<and> (\<exists>b. RL_phase r = Ended b) \<and>
    (\<forall>g. g \<in> set (RL_running r) \<longrightarrow> reading_loop g \<and> g \<in> set (RL_blocked r) \<and> g \<notin> W)"
proof -
  have c: "RL_cancelled r" using assms(1) relay_step.parent by blast
  have e: "RL_exiting r = []" using assms(1) relay_step.exits[of _ r W] by (meson last_in_set)
  have g: "reading_loop g \<and> g \<in> set (RL_blocked r) \<and> g \<notin> W" if "g \<in> set (RL_running r)" for g
    using that assms c relay_step.returns[of g r W] relay_step.wakes[of g r W] by (auto simp: relay_wf_def)
  have "\<exists>b. RL_phase r = Ended b"
    using assms(1) c relay_step.cancelled[of r W] relay_step.timeout[of r W] by (cases "RL_phase r") auto
  with e g show ?thesis by blast
qed

text \<open>
  The end of a connection: the run is cancelled as soon as one of the twelve goroutines has ended, and after that every step lessens
  \<open>relay_work\<close> (\<open>relay_run_work\<close>); where no step is left \<open>startRelayLoops\<close> has returned, and what is left of its goroutines are reading
  loops that wait in a read.  The function returns in time only if no goroutine is left.
\<close>

lemma relay_loops_end:
  assumes "(relay_step W)\<^sup>*\<^sup>* start_relay r"
  shows "(length (RL_running r) + length (RL_exiting r) < 12 \<longrightarrow> RL_cancelled r) \<and>
    (RL_phase r = Ended False \<longrightarrow> RL_running r = [] \<and> RL_exiting r = []) \<and>
    ((\<forall>r'. \<not> relay_step W r r') \<longrightarrow> (\<exists>b. RL_phase r = Ended b) \<and> RL_exiting r = [] \<and>
       (\<forall>g. g \<in> set (RL_running r) \<longrightarrow> reading_loop g \<and> g \<in> set (RL_blocked r) \<and> g \<notin> W))"
proof -
  have l: "length relay_names = 12" by (simp add: relay_names_def tunWorkers_def)
  have "relay_wf r" using relay_reachable_wf[OF assms] .
  then show ?thesis using relay_stuck[of W r] by (auto simp: relay_wf_def l)
qed

text \<open>
  With a silent device the connection ends only after the five seconds: the goroutine that reads the device is left behind, and it is
  still there whatever happens later, unless a packet or an error comes from the device.
\<close>

lemma silent_device_leaves_reader:
  assumes "ReceiveFromTUN \<notin> W"
  shows "\<exists>r. (relay_step W)\<^sup>*\<^sup>* start_relay r \<and> RL_phase r = Ended True \<and>
    (\<forall>r'. (relay_step W)\<^sup>*\<^sup>* r r' \<longrightarrow> ReceiveFromTUN \<in> set (RL_running r') \<and> RL_phase r' \<noteq> Ended False)"
proof -
  define r1 where "r1 = start_relay\<lparr> RL_blocked := [ReceiveFromTUN] \<rparr>"
  define r2 where "r2 = r1\<lparr> RL_cancelled := True \<rparr>"
  define r3 where "r3 = r2\<lparr> RL_phase := Draining \<rparr>"
  define r4 where "r4 = r3\<lparr> RL_phase := Ended True \<rparr>"
  have "relay_step W start_relay r1" using relay_step.reads[of ReceiveFromTUN start_relay W]
    by (simp add: r1_def start_relay_def relay_names_def reading_loop_def)
  moreover have "relay_step W r1 r2" using relay_step.parent[of r1 W] by (simp add: r2_def r1_def start_relay_def)
  moreover have "relay_step W r2 r3" using relay_step.cancelled[of r2 W] by (simp add: r3_def r2_def r1_def start_relay_def)
  moreover have "relay_step W r3 r4" using relay_step.timeout[of r3 W] by (simp add: r4_def r3_def)
  ultimately have s: "(relay_step W)\<^sup>*\<^sup>* start_relay r4" by (meson r_into_rtranclp rtranclp.rtrancl_into_rtrancl)
  have b: "ReceiveFromTUN \<in> set (RL_blocked r4)" "RL_phase r4 = Ended True" by (simp_all add: r4_def r3_def r2_def r1_def)
  show ?thesis using s b relay_blocked_stays[OF _ relay_reachable_wf[OF s] b(1) assms] by blast
qed

section \<open>Properties\<close>

text \<open>
  C37: Whether the players learn that the server shuts down is a race.  The handler of a signal cancels the context before it calls
  \<open>Close\<close>.  If the sending loop is still there when \<open>Close\<close> queues the notices (and the channel has room
  for them), every player with an endpoint is sent one.  If the loop has seen the cancelled
  context first, it has drained the queue and ended, and no notice is ever sent.
\<close>

theorem shutdown_notice_race:
  assumes "s = P_srv (DM_store d)" "sq = RLQ_sq (S_queue s)" "\<not> SQ_drained sq"
    "length (SQ_ch sq) + length (shutdown_targets ev s) \<le> SQ_maxSize sq"
  shows "written_pkts (RLQ_sq (S_queue (P_srv (DM_store (on_signal False ev w d))))) =
      written_pkts sq @ map pkt (SQ_ch sq) @ map (Pair shutdown_notice) (shutdown_targets ev s) @ map pkt (SQ_broadcastCh sq) \<and>
    written_pkts (RLQ_sq (S_queue (P_srv (DM_store (on_signal True ev w d))))) =
      written_pkts sq @ map pkt (SQ_ch sq) @ map pkt (SQ_broadcastCh sq)"
proof
  have n: "notify_rooms ev (range_rooms ev s) s = s\<lparr> S_queue := queue_notices (shutdown_targets ev s) (S_queue s) \<rparr>"
    using notify_rooms_all[of s ev "range_rooms ev s"] assms(2,4) by (simp add: shutdown_targets_def)
  have p: "map pkt (map notice_entry as) = map (Pair shutdown_notice) as" for as by (simp add: notice_entry_def pkt_def)
  show "written_pkts (RLQ_sq (S_queue (P_srv (DM_store (on_signal False ev w d))))) =
      written_pkts sq @ map pkt (SQ_ch sq) @ map (Pair shutdown_notice) (shutdown_targets ev s) @ map pkt (SQ_broadcastCh sq)"
    using assms(2,3) n p[of "shutdown_targets ev s"]
    by (simp add: on_signal_def Daemon_Close_srv Close_queue stop_queue_def sq_Stop_def Let_def drain_props queue_notices_def
        flip: assms(1))
  have "SQ_drained (RLQ_sq (S_queue (queue_ends s)))" by (simp add: queue_ends_def)
  from Close_drained[OF this, of ev] show "written_pkts (RLQ_sq (S_queue (P_srv (DM_store (on_signal True ev w d))))) =
      written_pkts sq @ map pkt (SQ_ch sq) @ map pkt (SQ_broadcastCh sq)"
    using assms(2,3) by (simp add: on_signal_def Daemon_Close_srv queue_ends_def drain_props flip: assms(1))
qed

definition sample_daemon :: Daemon where
  "sample_daemon = \<lparr> DM_store = sample_store\<lparr> P_srv := busy_server \<rparr>, DM_tcp = \<lparr> TC_portCounter = 0, TC_bridges = [] \<rparr>, DM_cancelled = False,
     DM_tcpListener = False, DM_conn = True, DM_pprof = False \<rparr>"

lemma busy_targets: "shutdown_targets sample_senv busy_server = [sample_addr, addr2]"
proof -
  have "PublicAddr (R_heap room2 0) = Some sample_addr" using room2_state(4) by (simp add: player_def SetLastSeen_def)
  moreover have "IPKey vip3 \<noteq> IPKey vip2" by code_simp
  ultimately show ?thesis
    by (simp add: shutdown_targets_def range_rooms_def range_map_def map_filter_def sample_senv_def busy_server_def room_targets_def
        public_addrs_def range_clients_def room2_state room2_ann sample_env_def)
qed

theorem shutdown_notice_race_witness:
  "written_pkts (RLQ_sq (S_queue (P_srv (DM_store (on_signal False sample_senv MkdirFails sample_daemon))))) =
     [(shutdown_notice, sample_addr), (shutdown_notice, addr2)] \<and>
   written_pkts (RLQ_sq (S_queue (P_srv (DM_store (on_signal True sample_senv MkdirFails sample_daemon))))) = []"
proof -
  have q: "RLQ_sq (S_queue busy_server) = newSendQueue 8192 None" "P_srv (DM_store sample_daemon) = busy_server"
    by (simp_all add: sample_daemon_def busy_server_def sample_server_def server0_def newRateLimitedQueue_def Let_def)
  from shutdown_notice_race[OF refl refl, of sample_daemon sample_senv MkdirFails] show ?thesis
    by (simp add: q busy_targets newSendQueue_def written_pkts_def)
qed

end
