(* ===== verification/Texts.thy ===== *)
theory Texts
  imports LogFiles
begin

text \<open>
  The translated texts (internal/i18n/i18n.go): the fields of \<open>Strings\<close> and the two tables, in the order of the source; a
  text is its bytes in UTF-8.
\<close>

section \<open>Fields and tables\<close>

definition string_fields :: "string list" where
  "string_fields =
     [
      ''ServerBanner'' , ''ServerAddr'' , ''ServerSubnet'' , ''ServerMaxPlayers'' , ''ServerAuth'' ,
        ''ServerVersion'' , ''ServerStatusPage'' , ''ServerNoAuth'' , ''ServerHMACAuth'' , ''ServerSignal'' ,
        ''ServerShutdown'' , ''ServerStartFail'' , ''ServerInstRunning'' , ''ServerSubnetFail'' ,
        ''ServerSubnetMust'' , ''ServerSendFail'' , ''ServerStatusLog'' , ''ServerStatusFail'' , ''ServerTmplFail'' ,
        ''ServerPeerLeave'' , ''LogStateRestored'' , ''StatusTitle'' , ''StatusPlayers'' , ''StatusUptime'' ,
        ''StatusVersion'' , ''StatusNoPlayers'' , ''StatusTablePlayer'' , ''StatusTableVIP'' , ''StatusTableAddr'' ,
        ''StatusTablePing'' , ''StatusTableIdle'' , ''StatusAuthHMAC'' , ''StatusAuthNone'' , ''StatusJustNow'' ,
        ''StatusSecAgo'' , ''StatusMetrics'' , ''StatusTotalRegs'' , ''StatusPeakPlayers'' , ''StatusRelayPkts'' ,
        ''StatusAuthFails'' , ''StatusTotalKicks'' , ''StatusDroppedPkts'' , ''StatusSendErrors'' , ''DlgTitle'' ,
        ''DlgServerAddr'' , ''DlgPlayerName'' , ''DlgRoomID'' , ''DlgPassword'' , ''DlgOK'' , ''DlgCancel'' ,
        ''DlgStatusIdle'' , ''DlgStatusConn'' , ''DlgFirstRun'' , ''DlgConnect'' , ''DlgShowPass'' ,
        ''DlgInvalidAddr'' , ''DlgNameEmpty'' , ''WebUITitle'' , ''WebUISettings'' , ''WebUIStatus'' ,
        ''WebUIServerAddr'' , ''WebUIPlayerName'' , ''WebUIRoomID'' , ''WebUIPassword'' , ''WebUIPasswordHint'' ,
        ''WebUILanguage'' , ''WebUIMTU'' , ''WebUIShowPass'' , ''WebUISave'' , ''WebUIInvalidAddr'' ,
        ''WebUINameEmpty'' , ''AppAutoConnect'' , ''AppSaveFail'' , ''AppDisconnected'' , ''AppDisconnectErr'' ,
        ''RunStartup'' , ''CfgHeader'' , ''CfgServerHint'' , ''CfgNameHint'' , ''CfgRoomHint'' , ''CfgPassHint'' ,
        ''KickInvalidName'' , ''KickInvalidRoom'' , ''KickRateLimit'' , ''KickIPLimit'' , ''KickAuthPending'' ,
        ''KickRoomFull'' , ''KickDuplicateName'' , ''KickServerBusy'' , ''KickIPExhausted'' , ''KickInternalError'' ,
        ''KickAuthAbnormal'' , ''KickAuthTimeout'' , ''KickWrongPassword'' , ''KickVersionMismatch'' ,
        ''UpgradePrompt'' , ''LogPlayerJoin'' , ''LogChallengeFail'' , ''LogAuthFail'' , ''LogAuthPass'' ,
        ''LogPlayerLeave'' , ''ErrInvalidServer'' , ''ErrBindUDP'' , ''ErrRegisterFailed'' , ''ErrTooManyAuth'' ,
        ''ErrRejected'' , ''ErrNeedPassword'' , ''ErrCreateTUN'' , ''ErrDecodeFailed'' , ''ErrParseIPFailed'' ,
        ''ErrParseAuthFailed'' , ''ErrDeriveKeyFailed'' , ''ErrElevateFailed'' , ''LogRecreateTUN'' ,
        ''LogIPChanged'' , ''LogPeerExit'' , ''LogTunnelDisconnect'' , ''LogSendFail'' , ''LogP2PSuccess'' ,
        ''LogP2PFailed'' , ''LogServerTimeout'' , ''LogCleanPeer'' , ''LogRetryPunch'' , ''LogRegTimeout'' ,
        ''LogRegFailed'' , ''LogAuthSent'' , ''LogReadConsecFail'' , ''LogTUNWriteFail'' , ''LogPeerAddrChange'' ,
        ''LogNewPeer'' , ''LogPeerLeave2'' , ''LogTUNConsecFail'']"

definition zhStrings :: "(string \<times> string) list" where
  "zhStrings =
     [
      (''ServerBanner'', [CHR 0xE2, CHR 0x96, CHR 0x8E] @ ''         GameTunnel Server '' @ [CHR 0xE5, CHR 0xB1, CHR
        0x80, CHR 0xE5, CHR 0x9F, CHR 0x9F, CHR 0xE7, CHR 0xBD, CHR 0x91, CHR 0xE6, CHR 0xB8, CHR 0xB8, CHR 0xE6, CHR
        0x88, CHR 0x8F, CHR 0xE9, CHR 0x9A, CHR 0xA7, CHR 0xE9, CHR 0x81, CHR 0x93] @ ''                '' @ [CHR
        0xE2, CHR 0x96, CHR 0x8E]),
      (''ServerAddr'', [CHR 0xE5, CHR 0x9C, CHR 0xB0, CHR 0xE5, CHR 0x9D, CHR 0x80]),
      (''ServerSubnet'', [CHR 0xE5, CHR 0xAD, CHR 0x90, CHR 0xE7, CHR 0xBD, CHR 0x91]),
      (''ServerMaxPlayers'', [CHR 0xE6, CHR 0x9C, CHR 0x80, CHR 0xE5, CHR 0xA4, CHR 0xA7, CHR 0xE7, CHR 0x8E, CHR
        0xA9, CHR 0xE5, CHR 0xAE, CHR 0xB6]),
      (''ServerAuth'', [CHR 0xE8, CHR 0xAE, CHR 0xA4, CHR 0xE8, CHR 0xAF, CHR 0x81]),
      (''ServerVersion'', [CHR 0xE7, CHR 0x89, CHR 0x88, CHR 0xE6, CHR 0x9C, CHR 0xAC]),
      (''ServerStatusPage'', [CHR 0xE7, CHR 0x8A, CHR 0xB6, CHR 0xE6, CHR 0x80, CHR 0x81, CHR 0xE9, CHR 0xA1, CHR
        0xB5]),
      (''ServerNoAuth'', [CHR 0xE6, CHR 0x97, CHR 0xA0, CHR 0xE8, CHR 0xAE, CHR 0xA4, CHR 0xE8, CHR 0xAF, CHR 0x81]),
      (''ServerHMACAuth'', ''HMAC '' @ [CHR 0xE8, CHR 0xAE, CHR 0xA4, CHR 0xE8, CHR 0xAF, CHR 0x81] @ '' ('' @ [CHR
        0xE5, CHR 0x9F, CHR 0xBA, CHR 0xE4, CHR 0xBA, CHR 0x8E, CHR 0xE6, CHR 0x88, CHR 0xBF, CHR 0xE9, CHR 0x97, CHR
        0xB4] @ ''ID)''),
      (''ServerSignal'', [CHR 0xE6, CHR 0x94, CHR 0xB6, CHR 0xE5, CHR 0x88, CHR 0xB0, CHR 0xE4, CHR 0xBF, CHR 0xA1,
        CHR 0xE5, CHR 0x8F, CHR 0xB7] @ '' %v'' @ [CHR 0xEF, CHR 0xBC, CHR 0x8C, CHR 0xE6, CHR 0xAD, CHR 0xA3, CHR
        0xE5, CHR 0x9C, CHR 0xA8, CHR 0xE5, CHR 0x85, CHR 0xB3, CHR 0xE9, CHR 0x97, CHR 0xAD] @ ''...''),
      (''ServerShutdown'', [CHR 0xE6, CHR 0x9C, CHR 0x8D, CHR 0xE5, CHR 0x8A, CHR 0xA1, CHR 0xE5, CHR 0x99, CHR 0xA8,
        CHR 0xE5, CHR 0xB7, CHR 0xB2, CHR 0xE5, CHR 0x85, CHR 0xB3, CHR 0xE9, CHR 0x97, CHR 0xAD]),
      (''ServerStartFail'', [CHR 0xE5, CHR 0x90, CHR 0xAF, CHR 0xE5, CHR 0x8A, CHR 0xA8, CHR 0xE5, CHR 0xA4, CHR
        0xB1, CHR 0xE8, CHR 0xB4, CHR 0xA5] @ '': %v''),
      (''ServerInstRunning'', [CHR 0xE6, CHR 0xA3, CHR 0x80, CHR 0xE6, CHR 0xB5, CHR 0x8B, CHR 0xE5, CHR 0x88, CHR
        0xB0, CHR 0xE5, CHR 0xB7, CHR 0xB2, CHR 0xE6, CHR 0x9C, CHR 0x89, CHR 0xE5, CHR 0xAE, CHR 0x9E, CHR 0xE4, CHR
        0xBE, CHR 0x8B, CHR 0xE8, CHR 0xBF, CHR 0x90, CHR 0xE8, CHR 0xA1, CHR 0x8C, CHR 0xE4, CHR 0xB8, CHR 0xAD] @
        '': %v'' @ [CHR 0x0A, CHR 0xE8, CHR 0xAF, CHR 0xB7, CHR 0xE5, CHR 0x85, CHR 0x88, CHR 0xE5, CHR 0x85, CHR
        0xB3, CHR 0xE9, CHR 0x97, CHR 0xAD, CHR 0xE5, CHR 0xB7, CHR 0xB2, CHR 0xE6, CHR 0x9C, CHR 0x89, CHR 0xE7, CHR
        0x9A, CHR 0x84] @ '' GameTunnel '' @ [CHR 0xE6, CHR 0x9C, CHR 0x8D, CHR 0xE5, CHR 0x8A, CHR 0xA1, CHR 0xE7,
        CHR 0xAB, CHR 0xAF, CHR 0xE5, CHR 0x86, CHR 0x8D, CHR 0xE9, CHR 0x87, CHR 0x8D, CHR 0xE8, CHR 0xAF, CHR 0x95,
        CHR 0xE3, CHR 0x80, CHR 0x82]),
      (''ServerSubnetFail'', [CHR 0xE5, CHR 0xAD, CHR 0x90, CHR 0xE7, CHR 0xBD, CHR 0x91, CHR 0xE8, CHR 0xA7, CHR
        0xA3, CHR 0xE6, CHR 0x9E, CHR 0x90, CHR 0xE5, CHR 0xA4, CHR 0xB1, CHR 0xE8, CHR 0xB4, CHR 0xA5] @ '' %s: %v''
        ),
      (''ServerSubnetMust'', [CHR 0xE5, CHR 0xAD, CHR 0x90, CHR 0xE7, CHR 0xBD, CHR 0x91, CHR 0xE5, CHR 0xBF, CHR
        0x85, CHR 0xE9, CHR 0xA1, CHR 0xBB, CHR 0xE6, CHR 0x98, CHR 0xAF] @ '' /24 ('' @ [CHR 0xE5, CHR 0xBD, CHR
        0x93, CHR 0xE5, CHR 0x89, CHR 0x8D] @ '': /%d)''),
      (''ServerSendFail'', ''[server] '' @ [CHR 0xE5, CHR 0x8F, CHR 0x91, CHR 0xE9, CHR 0x80, CHR 0x81, CHR 0xE5, CHR
        0xA4, CHR 0xB1, CHR 0xE8, CHR 0xB4, CHR 0xA5] @ '' ('' @ [CHR 0xE7, CHR 0xB4, CHR 0xAF, CHR 0xE8, CHR 0xAE,
        CHR 0xA1] @ ''%d'' @ [CHR 0xE6, CHR 0xAC, CHR 0xA1] @ ''): %v''),
      (''ServerStatusLog'', ''[status] '' @ [CHR 0xE7, CHR 0x8A, CHR 0xB6, CHR 0xE6, CHR 0x80, CHR 0x81, CHR 0xE9,
        CHR 0xA1, CHR 0xB5, CHR 0xE9, CHR 0x9D, CHR 0xA2] @ '': http://%s''),
      (''ServerStatusFail'', ''[status] HTTP '' @ [CHR 0xE6, CHR 0x9C, CHR 0x8D, CHR 0xE5, CHR 0x8A, CHR 0xA1, CHR
        0xE5, CHR 0x90, CHR 0xAF, CHR 0xE5, CHR 0x8A, CHR 0xA8, CHR 0xE5, CHR 0xA4, CHR 0xB1, CHR 0xE8, CHR 0xB4, CHR
        0xA5] @ '': %v''),
      (''ServerTmplFail'', ''[status] '' @ [CHR 0xE6, CHR 0xA8, CHR 0xA1, CHR 0xE6, CHR 0x9D, CHR 0xBF, CHR 0xE6, CHR
        0xB8, CHR 0xB2, CHR 0xE6, CHR 0x9F, CHR 0x93, CHR 0xE5, CHR 0xA4, CHR 0xB1, CHR 0xE8, CHR 0xB4, CHR 0xA5] @
        '': %v''),
      (''ServerPeerLeave'', ''[-] %s (%s) '' @ [CHR 0xE8, CHR 0xB6, CHR 0x85, CHR 0xE6, CHR 0x97, CHR 0xB6, CHR 0xE6,
        CHR 0x96, CHR 0xAD, CHR 0xE5, CHR 0xBC, CHR 0x80]),
      (''LogStateRestored'', ''[persist] '' @ [CHR 0xE6, CHR 0x81, CHR 0xA2, CHR 0xE5, CHR 0xA4, CHR 0x8D, CHR 0xE4,
        CHR 0xBA, CHR 0x86] @ '' %d '' @ [CHR 0xE4, CHR 0xB8, CHR 0xAA, CHR 0xE7, CHR 0x8E, CHR 0xA9, CHR 0xE5, CHR
        0xAE, CHR 0xB6, CHR 0xE7, CHR 0x9A, CHR 0x84] @ '' IP '' @ [CHR 0xE5, CHR 0x88, CHR 0x86, CHR 0xE9, CHR 0x85,
        CHR 0x8D]),
      (''StatusTitle'', ''GameTunnel Server''),
      (''StatusPlayers'', [CHR 0xE7, CHR 0x8E, CHR 0xA9, CHR 0xE5, CHR 0xAE, CHR 0xB6]),
      (''StatusUptime'', [CHR 0xE8, CHR 0xBF, CHR 0x90, CHR 0xE8, CHR 0xA1, CHR 0x8C, CHR 0xE6, CHR 0x97, CHR 0xB6,
        CHR 0xE9, CHR 0x97, CHR 0xB4]),
      (''StatusVersion'', [CHR 0xE7, CHR 0x89, CHR 0x88, CHR 0xE6, CHR 0x9C, CHR 0xAC]),
      (''StatusNoPlayers'', [CHR 0xE6, CHR 0x9A, CHR 0x82, CHR 0xE6, CHR 0x97, CHR 0xA0, CHR 0xE7, CHR 0x8E, CHR
        0xA9, CHR 0xE5, CHR 0xAE, CHR 0xB6, CHR 0xE8, CHR 0xBF, CHR 0x9E, CHR 0xE6, CHR 0x8E, CHR 0xA5]),
      (''StatusTablePlayer'', [CHR 0xE7, CHR 0x8E, CHR 0xA9, CHR 0xE5, CHR 0xAE, CHR 0xB6]),
      (''StatusTableVIP'', [CHR 0xE8, CHR 0x99, CHR 0x9A, CHR 0xE6, CHR 0x8B, CHR 0x9F] @ '' IP''),
      (''StatusTableAddr'', [CHR 0xE5, CHR 0x9C, CHR 0xB0, CHR 0xE5, CHR 0x9D, CHR 0x80]),
      (''StatusTablePing'', [CHR 0xE5, CHR 0xBB, CHR 0xB6, CHR 0xE8, CHR 0xBF, CHR 0x9F]),
      (''StatusTableIdle'', [CHR 0xE7, CHR 0xA9, CHR 0xBA, CHR 0xE9, CHR 0x97, CHR 0xB2]),
      (''StatusAuthHMAC'', ''HMAC '' @ [CHR 0xE8, CHR 0xAE, CHR 0xA4, CHR 0xE8, CHR 0xAF, CHR 0x81]),
      (''StatusAuthNone'', [CHR 0xE6, CHR 0x97, CHR 0xA0, CHR 0xE8, CHR 0xAE, CHR 0xA4, CHR 0xE8, CHR 0xAF, CHR
        0x81]),
      (''StatusJustNow'', [CHR 0xE5, CHR 0x88, CHR 0x9A, CHR 0xE5, CHR 0x88, CHR 0x9A]),
      (''StatusSecAgo'', ''%ds'' @ [CHR 0xE5, CHR 0x89, CHR 0x8D]),
      (''StatusMetrics'', [CHR 0xE8, CHR 0xBF, CHR 0x90, CHR 0xE8, CHR 0x90, CHR 0xA5, CHR 0xE6, CHR 0x8C, CHR 0x87,
        CHR 0xE6, CHR 0xA0, CHR 0x87]),
      (''StatusTotalRegs'', [CHR 0xE7, CHR 0xB4, CHR 0xAF, CHR 0xE8, CHR 0xAE, CHR 0xA1, CHR 0xE6, CHR 0xB3, CHR
        0xA8, CHR 0xE5, CHR 0x86, CHR 0x8C]),
      (''StatusPeakPlayers'', [CHR 0xE5, CHR 0xB3, CHR 0xB0, CHR 0xE5, CHR 0x80, CHR 0xBC, CHR 0xE5, CHR 0x9C, CHR
        0xA8, CHR 0xE7, CHR 0xBA, CHR 0xBF]),
      (''StatusRelayPkts'', [CHR 0xE7, CHR 0xB4, CHR 0xAF, CHR 0xE8, CHR 0xAE, CHR 0xA1, CHR 0xE4, CHR 0xB8, CHR
        0xAD, CHR 0xE8, CHR 0xBD, CHR 0xAC, CHR 0xE5, CHR 0x8C, CHR 0x85]),
      (''StatusAuthFails'', [CHR 0xE8, CHR 0xAE, CHR 0xA4, CHR 0xE8, CHR 0xAF, CHR 0x81, CHR 0xE5, CHR 0xA4, CHR
        0xB1, CHR 0xE8, CHR 0xB4, CHR 0xA5]),
      (''StatusTotalKicks'', [CHR 0xE7, CHR 0xB4, CHR 0xAF, CHR 0xE8, CHR 0xAE, CHR 0xA1, CHR 0xE8, CHR 0xB8, CHR
        0xA2, CHR 0xE5, CHR 0x87, CHR 0xBA]),
      (''StatusDroppedPkts'', [CHR 0xE4, CHR 0xB8, CHR 0xA2, CHR 0xE5, CHR 0xBC, CHR 0x83, CHR 0xE5, CHR 0x8C, CHR
        0x85]),
      (''StatusSendErrors'', [CHR 0xE5, CHR 0x8F, CHR 0x91, CHR 0xE9, CHR 0x80, CHR 0x81, CHR 0xE9, CHR 0x94, CHR
        0x99, CHR 0xE8, CHR 0xAF, CHR 0xAF]),
      (''DlgTitle'', ''GameTunnel '' @ [CHR 0xE8, CHR 0xAE, CHR 0xBE, CHR 0xE7, CHR 0xBD, CHR 0xAE]),
      (''DlgServerAddr'', [CHR 0xE6, CHR 0x9C, CHR 0x8D, CHR 0xE5, CHR 0x8A, CHR 0xA1, CHR 0xE5, CHR 0x99, CHR 0xA8,
        CHR 0xE5, CHR 0x9C, CHR 0xB0, CHR 0xE5, CHR 0x9D, CHR 0x80] @ '':''),
      (''DlgPlayerName'', [CHR 0xE7, CHR 0x8E, CHR 0xA9, CHR 0xE5, CHR 0xAE, CHR 0xB6, CHR 0xE5, CHR 0x90, CHR 0x8D,
        CHR 0xE7, CHR 0xA7, CHR 0xB0] @ '':''),
      (''DlgRoomID'', [CHR 0xE6, CHR 0x88, CHR 0xBF, CHR 0xE9, CHR 0x97, CHR 0xB4] @ '' ID:''),
      (''DlgPassword'', [CHR 0xE5, CHR 0xAF, CHR 0x86, CHR 0xE7, CHR 0xA0, CHR 0x81] @ '':''),
      (''DlgOK'', [CHR 0xE7, CHR 0xA1, CHR 0xAE, CHR 0xE5, CHR 0xAE, CHR 0x9A]),
      (''DlgCancel'', [CHR 0xE5, CHR 0x8F, CHR 0x96, CHR 0xE6, CHR 0xB6, CHR 0x88]),
      (''DlgStatusIdle'', [CHR 0xE6, CHR 0x9C, CHR 0xAA, CHR 0xE8, CHR 0xBF, CHR 0x9E, CHR 0xE6, CHR 0x8E, CHR 0xA5]),
      (''DlgStatusConn'', [CHR 0xE5, CHR 0xB7, CHR 0xB2, CHR 0xE8, CHR 0xBF, CHR 0x9E, CHR 0xE6, CHR 0x8E, CHR 0xA5]
        @ '' '' @ [CHR 0xC2, CHR 0xB7] @ '' %s '' @ [CHR 0xC2, CHR 0xB7] @ '' %d'' @ [CHR 0xE4, CHR 0xBA, CHR 0xBA,
        CHR 0xE5, CHR 0x9C, CHR 0xA8, CHR 0xE7, CHR 0xBA, CHR 0xBF]),
      (''DlgFirstRun'', [CHR 0xE9, CHR 0xA6, CHR 0x96, CHR 0xE6, CHR 0xAC, CHR 0xA1, CHR 0xE8, CHR 0xAE, CHR 0xBE,
        CHR 0xE7, CHR 0xBD, CHR 0xAE] @ '' - GameTunnel''),
      (''DlgConnect'', [CHR 0xE8, CHR 0xBF, CHR 0x9E, CHR 0xE6, CHR 0x8E, CHR 0xA5]),
      (''DlgShowPass'', [CHR 0xE6, CHR 0x98, CHR 0xBE, CHR 0xE7, CHR 0xA4, CHR 0xBA, CHR 0xE5, CHR 0xAF, CHR 0x86,
        CHR 0xE7, CHR 0xA0, CHR 0x81]),
      (''DlgInvalidAddr'', [CHR 0xE6, CHR 0x9C, CHR 0x8D, CHR 0xE5, CHR 0x8A, CHR 0xA1, CHR 0xE5, CHR 0x99, CHR 0xA8,
        CHR 0xE5, CHR 0x9C, CHR 0xB0, CHR 0xE5, CHR 0x9D, CHR 0x80, CHR 0xE6, CHR 0xA0, CHR 0xBC, CHR 0xE5, CHR 0xBC,
        CHR 0x8F, CHR 0xE4, CHR 0xB8, CHR 0x8D, CHR 0xE6, CHR 0xAD, CHR 0xA3, CHR 0xE7, CHR 0xA1, CHR 0xAE, CHR 0xEF,
        CHR 0xBC, CHR 0x8C, CHR 0xE5, CHR 0xBA, CHR 0x94, CHR 0xE4, CHR 0xB8, CHR 0xBA] @ '' IP:'' @ [CHR 0xE7, CHR
        0xAB, CHR 0xAF, CHR 0xE5, CHR 0x8F, CHR 0xA3]),
      (''WebUITitle'', ''GameTunnel''),
      (''WebUISettings'', [CHR 0xE8, CHR 0xAE, CHR 0xBE, CHR 0xE7, CHR 0xBD, CHR 0xAE]),
      (''WebUIStatus'', [CHR 0xE7, CHR 0x8A, CHR 0xB6, CHR 0xE6, CHR 0x80, CHR 0x81]),
      (''WebUIServerAddr'', [CHR 0xE6, CHR 0x9C, CHR 0x8D, CHR 0xE5, CHR 0x8A, CHR 0xA1, CHR 0xE5, CHR 0x99, CHR
        0xA8, CHR 0xE5, CHR 0x9C, CHR 0xB0, CHR 0xE5, CHR 0x9D, CHR 0x80]),
      (''WebUIPlayerName'', [CHR 0xE7, CHR 0x8E, CHR 0xA9, CHR 0xE5, CHR 0xAE, CHR 0xB6, CHR 0xE5, CHR 0x90, CHR
        0x8D, CHR 0xE7, CHR 0xA7, CHR 0xB0]),
      (''WebUIRoomID'', [CHR 0xE6, CHR 0x88, CHR 0xBF, CHR 0xE9, CHR 0x97, CHR 0xB4] @ '' ID''),
      (''WebUIPassword'', [CHR 0xE5, CHR 0xAF, CHR 0x86, CHR 0xE7, CHR 0xA0, CHR 0x81]),
      (''WebUIPasswordHint'', [CHR 0xE6, CHR 0x97, CHR 0xA0, CHR 0xE5, CHR 0xAF, CHR 0x86, CHR 0xE7, CHR 0xA0, CHR
        0x81, CHR 0xE7, CHR 0x95, CHR 0x99, CHR 0xE7, CHR 0xA9, CHR 0xBA]),
      (''WebUILanguage'', [CHR 0xE8, CHR 0xAF, CHR 0xAD, CHR 0xE8, CHR 0xA8, CHR 0x80]),
      (''WebUIMTU'', ''MTU''),
      (''WebUIShowPass'', [CHR 0xE6, CHR 0x98, CHR 0xBE, CHR 0xE7, CHR 0xA4, CHR 0xBA, CHR 0xE5, CHR 0xAF, CHR 0x86,
        CHR 0xE7, CHR 0xA0, CHR 0x81]),
      (''WebUISave'', [CHR 0xE4, CHR 0xBF, CHR 0x9D, CHR 0xE5, CHR 0xAD, CHR 0x98, CHR 0xE5, CHR 0xB9, CHR 0xB6, CHR
        0xE5, CHR 0xBA, CHR 0x94, CHR 0xE7, CHR 0x94, CHR 0xA8]),
      (''WebUIInvalidAddr'', [CHR 0xE6, CHR 0x9C, CHR 0x8D, CHR 0xE5, CHR 0x8A, CHR 0xA1, CHR 0xE5, CHR 0x99, CHR
        0xA8, CHR 0xE5, CHR 0x9C, CHR 0xB0, CHR 0xE5, CHR 0x9D, CHR 0x80, CHR 0xE6, CHR 0xA0, CHR 0xBC, CHR 0xE5, CHR
        0xBC, CHR 0x8F, CHR 0xE4, CHR 0xB8, CHR 0x8D, CHR 0xE6, CHR 0xAD, CHR 0xA3, CHR 0xE7, CHR 0xA1, CHR 0xAE]),
      (''WebUINameEmpty'', [CHR 0xE7, CHR 0x8E, CHR 0xA9, CHR 0xE5, CHR 0xAE, CHR 0xB6, CHR 0xE5, CHR 0x90, CHR 0x8D,
        CHR 0xE7, CHR 0xA7, CHR 0xB0, CHR 0xE4, CHR 0xB8, CHR 0x8D, CHR 0xE8, CHR 0x83, CHR 0xBD, CHR 0xE4, CHR 0xB8,
        CHR 0xBA, CHR 0xE7, CHR 0xA9, CHR 0xBA]),
      (''AppAutoConnect'', ''[app] '' @ [CHR 0xE8, CHR 0x87, CHR 0xAA, CHR 0xE5, CHR 0x8A, CHR 0xA8, CHR 0xE8, CHR
        0xBF, CHR 0x9E, CHR 0xE6, CHR 0x8E, CHR 0xA5, CHR 0xE5, CHR 0x88, CHR 0xB0] @ '' %s''),
      (''AppSaveFail'', ''[app] '' @ [CHR 0xE4, CHR 0xBF, CHR 0x9D, CHR 0xE5, CHR 0xAD, CHR 0x98, CHR 0xE9, CHR 0x85,
        CHR 0x8D, CHR 0xE7, CHR 0xBD, CHR 0xAE, CHR 0xE5, CHR 0xA4, CHR 0xB1, CHR 0xE8, CHR 0xB4, CHR 0xA5] @
        '': %v''),
      (''AppDisconnected'', ''[app] '' @ [CHR 0xE8, CHR 0xBF, CHR 0x9E, CHR 0xE6, CHR 0x8E, CHR 0xA5, CHR 0xE6, CHR
        0x96, CHR 0xAD, CHR 0xE5, CHR 0xBC, CHR 0x80]),
      (''AppDisconnectErr'', ''[app] '' @ [CHR 0xE8, CHR 0xBF, CHR 0x9E, CHR 0xE6, CHR 0x8E, CHR 0xA5, CHR 0xE6, CHR
        0x96, CHR 0xAD, CHR 0xE5, CHR 0xBC, CHR 0x80] @ '': %v''),
      (''DlgNameEmpty'', [CHR 0xE7, CHR 0x8E, CHR 0xA9, CHR 0xE5, CHR 0xAE, CHR 0xB6, CHR 0xE5, CHR 0x90, CHR 0x8D,
        CHR 0xE7, CHR 0xA7, CHR 0xB0, CHR 0xE4, CHR 0xB8, CHR 0x8D, CHR 0xE8, CHR 0x83, CHR 0xBD, CHR 0xE4, CHR 0xB8,
        CHR 0xBA, CHR 0xE7, CHR 0xA9, CHR 0xBA]),
      (''RunStartup'', ''=== GameTunnel '' @ [CHR 0xE5, CHR 0x90, CHR 0xAF, CHR 0xE5, CHR 0x8A, CHR 0xA8] @ '' ===''
        ),
      (''CfgHeader'', ''# GameTunnel '' @ [CHR 0xE9, CHR 0x85, CHR 0x8D, CHR 0xE7, CHR 0xBD, CHR 0xAE, CHR 0xE6, CHR
        0x96, CHR 0x87, CHR 0xE4, CHR 0xBB, CHR 0xB6]),
      (''CfgServerHint'', ''# '' @ [CHR 0xE6, CHR 0x9C, CHR 0x8D, CHR 0xE5, CHR 0x8A, CHR 0xA1, CHR 0xE5, CHR 0x99,
        CHR 0xA8, CHR 0xE5, CHR 0x9C, CHR 0xB0, CHR 0xE5, CHR 0x9D, CHR 0x80, CHR 0xEF, CHR 0xBC, CHR 0x88, CHR 0xE5,
        CHR 0xBF, CHR 0x85, CHR 0xE5, CHR 0xA1, CHR 0xAB, CHR 0xEF, CHR 0xBC, CHR 0x8C, CHR 0xE5, CHR 0xA6, CHR 0x82]
        @ '' 1.2.3.4:4700 '' @ [CHR 0xE6, CHR 0x88, CHR 0x96] @ '' [2408::1]:4700'' @ [CHR 0xEF, CHR 0xBC, CHR 0x89]),
      (''CfgNameHint'', ''# '' @ [CHR 0xE7, CHR 0x8E, CHR 0xA9, CHR 0xE5, CHR 0xAE, CHR 0xB6, CHR 0xE5, CHR 0x90, CHR
        0x8D, CHR 0xE7, CHR 0xA7, CHR 0xB0, CHR 0xEF, CHR 0xBC, CHR 0x88, CHR 0xE9, CHR 0xBB, CHR 0x98, CHR 0xE8, CHR
        0xAE, CHR 0xA4, CHR 0xEF, CHR 0xBC, CHR 0x9A, CHR 0xE8, CHR 0xAE, CHR 0xA1, CHR 0xE7, CHR 0xAE, CHR 0x97, CHR
        0xE6, CHR 0x9C, CHR 0xBA, CHR 0xE5, CHR 0x90, CHR 0x8D, CHR 0xEF, CHR 0xBC, CHR 0x89]),
      (''CfgRoomHint'', ''# '' @ [CHR 0xE6, CHR 0x88, CHR 0xBF, CHR 0xE9, CHR 0x97, CHR 0xB4] @ '' ID'' @ [CHR 0xEF,
        CHR 0xBC, CHR 0x88, CHR 0xE9, CHR 0xBB, CHR 0x98, CHR 0xE8, CHR 0xAE, CHR 0xA4, CHR 0xEF, CHR 0xBC, CHR 0x9A]
        @ ''default'' @ [CHR 0xEF, CHR 0xBC, CHR 0x89]),
      (''CfgPassHint'', ''# '' @ [CHR 0xE5, CHR 0xAF, CHR 0x86, CHR 0xE7, CHR 0xA0, CHR 0x81, CHR 0xEF, CHR 0xBC, CHR
        0x88, CHR 0xE6, CHR 0x97, CHR 0xA0, CHR 0xE5, CHR 0xAF, CHR 0x86, CHR 0xE7, CHR 0xA0, CHR 0x81, CHR 0xE7, CHR
        0x95, CHR 0x99, CHR 0xE7, CHR 0xA9, CHR 0xBA, CHR 0xEF, CHR 0xBC, CHR 0x89]),
      (''KickInvalidName'', [CHR 0xE7, CHR 0x94, CHR 0xA8, CHR 0xE6, CHR 0x88, CHR 0xB7, CHR 0xE5, CHR 0x90, CHR
        0x8D, CHR 0xE4, CHR 0xB8, CHR 0x8D, CHR 0xE5, CHR 0x90, CHR 0x88, CHR 0xE6, CHR 0xB3, CHR 0x95]),
      (''KickInvalidRoom'', [CHR 0xE6, CHR 0x88, CHR 0xBF, CHR 0xE9, CHR 0x97, CHR 0xB4] @ ''ID'' @ [CHR 0xE4, CHR
        0xB8, CHR 0x8D, CHR 0xE5, CHR 0x90, CHR 0x88, CHR 0xE6, CHR 0xB3, CHR 0x95]),
      (''KickRateLimit'', [CHR 0xE6, CHR 0xB3, CHR 0xA8, CHR 0xE5, CHR 0x86, CHR 0x8C, CHR 0xE8, CHR 0xBF, CHR 0x87,
        CHR 0xE4, CHR 0xBA, CHR 0x8E, CHR 0xE9, CHR 0xA2, CHR 0x91, CHR 0xE7, CHR 0xB9, CHR 0x81, CHR 0xEF, CHR 0xBC,
        CHR 0x8C, CHR 0xE8, CHR 0xAF, CHR 0xB7, CHR 0xE7, CHR 0xA8, CHR 0x8D, CHR 0xE5, CHR 0x90, CHR 0x8E, CHR 0xE5,
        CHR 0x86, CHR 0x8D, CHR 0xE8, CHR 0xAF, CHR 0x95]),
      (''KickIPLimit'', [CHR 0xE5, CHR 0x90, CHR 0x8C, CHR 0xE4, CHR 0xB8, CHR 0x80] @ ''IP'' @ [CHR 0xE8, CHR 0xBF,
        CHR 0x9E, CHR 0xE6, CHR 0x8E, CHR 0xA5, CHR 0xE6, CHR 0x95, CHR 0xB0, CHR 0xE5, CHR 0xB7, CHR 0xB2, CHR 0xE8,
        CHR 0xBE, CHR 0xBE, CHR 0xE4, CHR 0xB8, CHR 0x8A, CHR 0xE9, CHR 0x99, CHR 0x90]),
      (''KickAuthPending'', [CHR 0xE8, CHR 0xAE, CHR 0xA4, CHR 0xE8, CHR 0xAF, CHR 0x81, CHR 0xE8, CHR 0xBF, CHR
        0x9B, CHR 0xE8, CHR 0xA1, CHR 0x8C, CHR 0xE4, CHR 0xB8, CHR 0xAD, CHR 0xEF, CHR 0xBC, CHR 0x8C, CHR 0xE8, CHR
        0xAF, CHR 0xB7, CHR 0xE7, CHR 0xAD, CHR 0x89, CHR 0xE5, CHR 0xBE, CHR 0x85]),
      (''KickRoomFull'', [CHR 0xE6, CHR 0x88, CHR 0xBF, CHR 0xE9, CHR 0x97, CHR 0xB4, CHR 0xE5, CHR 0xB7, CHR 0xB2,
        CHR 0xE6, CHR 0xBB, CHR 0xA1]),
      (''KickDuplicateName'', [CHR 0xE5, CHR 0x90, CHR 0x8C, CHR 0xE6, CHR 0x88, CHR 0xBF, CHR 0xE9, CHR 0x97, CHR
        0xB4, CHR 0xE5, CHR 0x86, CHR 0x85, CHR 0xE5, CHR 0xB7, CHR 0xB2, CHR 0xE5, CHR 0xAD, CHR 0x98, CHR 0xE5, CHR
        0x9C, CHR 0xA8, CHR 0xE7, CHR 0x9B, CHR 0xB8, CHR 0xE5, CHR 0x90, CHR 0x8C, CHR 0xE7, CHR 0x94, CHR 0xA8, CHR
        0xE6, CHR 0x88, CHR 0xB7, CHR 0xE5, CHR 0x90, CHR 0x8D, CHR 0xE7, CHR 0x9A, CHR 0x84, CHR 0xE7, CHR 0x8E, CHR
        0xA9, CHR 0xE5, CHR 0xAE, CHR 0xB6, CHR 0xEF, CHR 0xBC, CHR 0x8C, CHR 0xE8, CHR 0xAF, CHR 0xB7, CHR 0xE6, CHR
        0x9B, CHR 0xB4, CHR 0xE6, CHR 0x8D, CHR 0xA2, CHR 0xE7, CHR 0x94, CHR 0xA8, CHR 0xE6, CHR 0x88, CHR 0xB7, CHR
        0xE5, CHR 0x90, CHR 0x8D]),
      (''KickServerBusy'', [CHR 0xE6, CHR 0x9C, CHR 0x8D, CHR 0xE5, CHR 0x8A, CHR 0xA1, CHR 0xE5, CHR 0x99, CHR 0xA8,
        CHR 0xE7, CHR 0xB9, CHR 0x81, CHR 0xE5, CHR 0xBF, CHR 0x99, CHR 0xEF, CHR 0xBC, CHR 0x8C, CHR 0xE8, CHR 0xAF,
        CHR 0xB7, CHR 0xE7, CHR 0xA8, CHR 0x8D, CHR 0xE5, CHR 0x90, CHR 0x8E, CHR 0xE9, CHR 0x87, CHR 0x8D, CHR 0xE8,
        CHR 0xAF, CHR 0x95]),
      (''KickIPExhausted'', ''IP'' @ [CHR 0xE5, CHR 0xB7, CHR 0xB2, CHR 0xE5, CHR 0x88, CHR 0x86, CHR 0xE9, CHR 0x85,
        CHR 0x8D, CHR 0xE5, CHR 0xAE, CHR 0x8C]),
      (''KickInternalError'', [CHR 0xE6, CHR 0x9C, CHR 0x8D, CHR 0xE5, CHR 0x8A, CHR 0xA1, CHR 0xE5, CHR 0x99, CHR
        0xA8, CHR 0xE5, CHR 0x86, CHR 0x85, CHR 0xE9, CHR 0x83, CHR 0xA8, CHR 0xE9, CHR 0x94, CHR 0x99, CHR 0xE8, CHR
        0xAF, CHR 0xAF]),
      (''KickAuthAbnormal'', [CHR 0xE8, CHR 0xAE, CHR 0xA4, CHR 0xE8, CHR 0xAF, CHR 0x81, CHR 0xE7, CHR 0x8A, CHR
        0xB6, CHR 0xE6, CHR 0x80, CHR 0x81, CHR 0xE5, CHR 0xBC, CHR 0x82, CHR 0xE5, CHR 0xB8, CHR 0xB8]),
      (''KickAuthTimeout'', [CHR 0xE8, CHR 0xAE, CHR 0xA4, CHR 0xE8, CHR 0xAF, CHR 0x81, CHR 0xE8, CHR 0xB6, CHR
        0x85, CHR 0xE6, CHR 0x97, CHR 0xB6]),
      (''KickWrongPassword'', [CHR 0xE5, CHR 0xAF, CHR 0x86, CHR 0xE7, CHR 0xA0, CHR 0x81, CHR 0xE9, CHR 0x94, CHR
        0x99, CHR 0xE8, CHR 0xAF, CHR 0xAF]),
      (''KickVersionMismatch'', [CHR 0xE7, CHR 0x89, CHR 0x88, CHR 0xE6, CHR 0x9C, CHR 0xAC, CHR 0xE4, CHR 0xB8, CHR
        0x8D, CHR 0xE5, CHR 0x85, CHR 0xBC, CHR 0xE5, CHR 0xAE, CHR 0xB9] @ '': '' @ [CHR 0xE5, CHR 0xAE, CHR 0xA2,
        CHR 0xE6, CHR 0x88, CHR 0xB7, CHR 0xE7, CHR 0xAB, CHR 0xAF] @ '' v%d, '' @ [CHR 0xE6, CHR 0x9C, CHR 0x8D, CHR
        0xE5, CHR 0x8A, CHR 0xA1, CHR 0xE7, CHR 0xAB, CHR 0xAF, CHR 0xE9, CHR 0x9C, CHR 0x80, CHR 0xE8, CHR 0xA6, CHR
        0x81] @ '' v%d''),
      (''UpgradePrompt'', [CHR 0xE5, CHR 0xBD, CHR 0x93, CHR 0xE5, CHR 0x89, CHR 0x8D, CHR 0xE7, CHR 0x89, CHR 0x88,
        CHR 0xE6, CHR 0x9C, CHR 0xAC] @ '' %s'' @ [CHR 0xEF, CHR 0xBC, CHR 0x8C, CHR 0xE6, CHR 0x9C, CHR 0x8D, CHR
        0xE5, CHR 0x8A, CHR 0xA1, CHR 0xE7, CHR 0xAB, CHR 0xAF, CHR 0xE5, CHR 0xB7, CHR 0xB2, CHR 0xE6, CHR 0x98, CHR
        0xAF] @ '' %s'' @ [CHR 0xEF, CHR 0xBC, CHR 0x8C, CHR 0xE5, CHR 0xBB, CHR 0xBA, CHR 0xE8, CHR 0xAE, CHR 0xAE,
        CHR 0xE5, CHR 0x8D, CHR 0x87, CHR 0xE7, CHR 0xBA, CHR 0xA7, CHR 0xE5, CHR 0xAE, CHR 0xA2, CHR 0xE6, CHR 0x88,
        CHR 0xB7, CHR 0xE7, CHR 0xAB, CHR 0xAF]),
      (''LogPlayerJoin'', ''[+] %s (%s) '' @ [CHR 0xE2, CHR 0x86, CHR 0x92] @ '' %s  ['' @ [CHR 0xE5, CHR 0x9C, CHR
        0xA8, CHR 0xE7, CHR 0xBA, CHR 0xBF] @ '': %d]''),
      (''LogChallengeFail'', ''[auth] '' @ [CHR 0xE7, CHR 0x94, CHR 0x9F, CHR 0xE6, CHR 0x88, CHR 0x90] @
        '' challenge '' @ [CHR 0xE5, CHR 0xA4, CHR 0xB1, CHR 0xE8, CHR 0xB4, CHR 0xA5] @ '': %v''),
      (''LogAuthFail'', ''[auth] '' @ [CHR 0xE8, CHR 0xAE, CHR 0xA4, CHR 0xE8, CHR 0xAF, CHR 0x81, CHR 0xE5, CHR
        0xA4, CHR 0xB1, CHR 0xE8, CHR 0xB4, CHR 0xA5] @ '': %s (%s)''),
      (''LogAuthPass'', ''[auth] '' @ [CHR 0xE8, CHR 0xAE, CHR 0xA4, CHR 0xE8, CHR 0xAF, CHR 0x81, CHR 0xE9, CHR
        0x80, CHR 0x9A, CHR 0xE8, CHR 0xBF, CHR 0x87] @ '': %s (%s)''),
      (''LogPlayerLeave'', ''[-] %s (%s) '' @ [CHR 0xE4, CHR 0xB8, CHR 0xBB, CHR 0xE5, CHR 0x8A, CHR 0xA8, CHR 0xE6,
        CHR 0x96, CHR 0xAD, CHR 0xE5, CHR 0xBC, CHR 0x80]),
      (''ErrInvalidServer'', [CHR 0xE6, CHR 0x9C, CHR 0x8D, CHR 0xE5, CHR 0x8A, CHR 0xA1, CHR 0xE5, CHR 0x99, CHR
        0xA8, CHR 0xE5, CHR 0x9C, CHR 0xB0, CHR 0xE5, CHR 0x9D, CHR 0x80, CHR 0xE6, CHR 0x97, CHR 0xA0, CHR 0xE6, CHR
        0x95, CHR 0x88] @ '': %w''),
      (''ErrBindUDP'', [CHR 0xE7, CHR 0xBB, CHR 0x91, CHR 0xE5, CHR 0xAE, CHR 0x9A] @ '' UDP '' @ [CHR 0xE5, CHR
        0xA4, CHR 0xB1, CHR 0xE8, CHR 0xB4, CHR 0xA5] @ '': %w''),
      (''ErrRegisterFailed'', [CHR 0xE6, CHR 0xB3, CHR 0xA8, CHR 0xE5, CHR 0x86, CHR 0x8C, CHR 0xE5, CHR 0xA4, CHR
        0xB1, CHR 0xE8, CHR 0xB4, CHR 0xA5] @ '': %w''),
      (''ErrTooManyAuth'', [CHR 0xE8, CHR 0xAE, CHR 0xA4, CHR 0xE8, CHR 0xAF, CHR 0x81, CHR 0xE5, CHR 0xA4, CHR 0xB1,
        CHR 0xE8, CHR 0xB4, CHR 0xA5, CHR 0xEF, CHR 0xBC, CHR 0x9A, CHR 0xE6, CHR 0x9C, CHR 0x8D, CHR 0xE5, CHR 0x8A,
        CHR 0xA1, CHR 0xE5, CHR 0x99, CHR 0xA8, CHR 0xE5, CHR 0x8F, CHR 0x91, CHR 0xE9, CHR 0x80, CHR 0x81, CHR 0xE4,
        CHR 0xBA, CHR 0x86, CHR 0xE8, CHR 0xBF, CHR 0x87, CHR 0xE5, CHR 0xA4, CHR 0x9A, CHR 0xE7, CHR 0x9A, CHR 0x84,
        CHR 0xE8, CHR 0xAE, CHR 0xA4, CHR 0xE8, CHR 0xAF, CHR 0x81, CHR 0xE8, CHR 0xAF, CHR 0xB7, CHR 0xE6, CHR 0xB1,
        CHR 0x82]),
      (''ErrRejected'', [CHR 0xE8, CHR 0xA2, CHR 0xAB, CHR 0xE6, CHR 0x8B, CHR 0x92, CHR 0xE7, CHR 0xBB, CHR 0x9D] @
        '': %s''),
      (''ErrNeedPassword'', [CHR 0xE6, CHR 0x9C, CHR 0x8D, CHR 0xE5, CHR 0x8A, CHR 0xA1, CHR 0xE5, CHR 0x99, CHR
        0xA8, CHR 0xE9, CHR 0x9C, CHR 0x80, CHR 0xE8, CHR 0xA6, CHR 0x81, CHR 0xE6, CHR 0x88, CHR 0xBF, CHR 0xE9, CHR
        0x97, CHR 0xB4, CHR 0xE5, CHR 0xAF, CHR 0x86, CHR 0xE7, CHR 0xA0, CHR 0x81, CHR 0xEF, CHR 0xBC, CHR 0x8C, CHR
        0xE8, CHR 0xAF, CHR 0xB7, CHR 0xE7, CHR 0x94, CHR 0xA8] @ '' -password '' @ [CHR 0xE5, CHR 0x8F, CHR 0x82,
        CHR 0xE6, CHR 0x95, CHR 0xB0, CHR 0xE6, CHR 0x8C, CHR 0x87, CHR 0xE5, CHR 0xAE, CHR 0x9A]),
      (''ErrCreateTUN'', [CHR 0xE5, CHR 0x88, CHR 0x9B, CHR 0xE5, CHR 0xBB, CHR 0xBA] @ '' TUN '' @ [CHR 0xE5, CHR
        0xA4, CHR 0xB1, CHR 0xE8, CHR 0xB4, CHR 0xA5] @ '': %w''),
      (''ErrDecodeFailed'', [CHR 0xE8, CHR 0xA7, CHR 0xA3, CHR 0xE7, CHR 0xA0, CHR 0x81, CHR 0xE5, CHR 0x93, CHR
        0x8D, CHR 0xE5, CHR 0xBA, CHR 0x94, CHR 0xE5, CHR 0xA4, CHR 0xB1, CHR 0xE8, CHR 0xB4, CHR 0xA5] @ '': %w''),
      (''ErrParseIPFailed'', [CHR 0xE8, CHR 0xA7, CHR 0xA3, CHR 0xE6, CHR 0x9E, CHR 0x90] @ ''IP'' @ [CHR 0xE5, CHR
        0x88, CHR 0x86, CHR 0xE9, CHR 0x85, CHR 0x8D, CHR 0xE5, CHR 0xA4, CHR 0xB1, CHR 0xE8, CHR 0xB4, CHR 0xA5] @
        '': %w''),
      (''ErrParseAuthFailed'', [CHR 0xE8, CHR 0xA7, CHR 0xA3, CHR 0xE6, CHR 0x9E, CHR 0x90, CHR 0xE8, CHR 0xAE, CHR
        0xA4, CHR 0xE8, CHR 0xAF, CHR 0x81, CHR 0xE8, CHR 0xAF, CHR 0xB7, CHR 0xE6, CHR 0xB1, CHR 0x82, CHR 0xE5, CHR
        0xA4, CHR 0xB1, CHR 0xE8, CHR 0xB4, CHR 0xA5] @ '': %w''),
      (''ErrDeriveKeyFailed'', [CHR 0xE6, CHR 0x97, CHR 0xA0, CHR 0xE6, CHR 0xB3, CHR 0x95, CHR 0xE6, CHR 0xB4, CHR
        0xBE, CHR 0xE7, CHR 0x94, CHR 0x9F, CHR 0xE8, CHR 0xAE, CHR 0xA4, CHR 0xE8, CHR 0xAF, CHR 0x81, CHR 0xE5, CHR
        0xAF, CHR 0x86, CHR 0xE9, CHR 0x92, CHR 0xA5]),
      (''ErrElevateFailed'', ''  '' @ [CHR 0xE6, CHR 0x8F, CHR 0x90, CHR 0xE6, CHR 0x9D, CHR 0x83, CHR 0xE5, CHR
        0xA4, CHR 0xB1, CHR 0xE8, CHR 0xB4, CHR 0xA5] @ '': %v'' @ [CHR 0x0A]),
      (''LogRecreateTUN'', ''[tunnel] '' @ [CHR 0xE9, CHR 0x87, CHR 0x8D, CHR 0xE5, CHR 0xBB, CHR 0xBA] @ '' TUN '' @
        [CHR 0xE8, CHR 0xAE, CHR 0xBE, CHR 0xE5, CHR 0xA4, CHR 0x87] @ '' (IP %s '' @ [CHR 0xE6, CHR 0x9C, CHR 0xAA,
        CHR 0xE5, CHR 0x8F, CHR 0x98] @ '')''),
      (''LogIPChanged'', ''[tunnel] IP '' @ [CHR 0xE5, CHR 0x8F, CHR 0x98, CHR 0xE6, CHR 0x9B, CHR 0xB4] @ '' %s '' @
        [CHR 0xE2, CHR 0x86, CHR 0x92] @ '' %s'' @ [CHR 0xEF, CHR 0xBC, CHR 0x8C, CHR 0xE9, CHR 0x87, CHR 0x8D, CHR
        0xE5, CHR 0xBB, CHR 0xBA] @ '' TUN '' @ [CHR 0xE8, CHR 0xAE, CHR 0xBE, CHR 0xE5, CHR 0xA4, CHR 0x87]),
      (''LogPeerExit'', ''[tunnel] %s '' @ [CHR 0xE9, CHR 0x80, CHR 0x80, CHR 0xE5, CHR 0x87, CHR 0xBA, CHR 0xEF, CHR
        0xBC, CHR 0x8C, CHR 0xE6, CHR 0x96, CHR 0xAD, CHR 0xE5, CHR 0xBC, CHR 0x80, CHR 0xE8, CHR 0xBF, CHR 0x9E, CHR
        0xE6, CHR 0x8E, CHR 0xA5]),
      (''LogTunnelDisconnect'', ''[tunnel] '' @ [CHR 0xE6, CHR 0x96, CHR 0xAD, CHR 0xE5, CHR 0xBC, CHR 0x80, CHR
        0xE8, CHR 0xBF, CHR 0x9E, CHR 0xE6, CHR 0x8E, CHR 0xA5]),
      (''LogSendFail'', ''[tunnel] '' @ [CHR 0xE5, CHR 0x8F, CHR 0x91, CHR 0xE9, CHR 0x80, CHR 0x81, CHR 0xE5, CHR
        0xA4, CHR 0xB1, CHR 0xE8, CHR 0xB4, CHR 0xA5] @ '' ('' @ [CHR 0xE7, CHR 0xB4, CHR 0xAF, CHR 0xE8, CHR 0xAE,
        CHR 0xA1] @ ''%d'' @ [CHR 0xE6, CHR 0xAC, CHR 0xA1] @ ''): %v''),
      (''LogP2PSuccess'', ''[tunnel] P2P '' @ [CHR 0xE6, CHR 0x89, CHR 0x93, CHR 0xE6, CHR 0xB4, CHR 0x9E, CHR 0xE6,
        CHR 0x88, CHR 0x90, CHR 0xE5, CHR 0x8A, CHR 0x9F] @ '' (phase %d): %s''),
      (''LogP2PFailed'', ''[tunnel] P2P '' @ [CHR 0xE6, CHR 0x89, CHR 0x93, CHR 0xE6, CHR 0xB4, CHR 0x9E, CHR 0xE5,
        CHR 0xAE, CHR 0x8C, CHR 0xE6, CHR 0x88, CHR 0x90, CHR 0xEF, CHR 0xBC, CHR 0x88, CHR 0xE6, CHR 0x9C, CHR 0xAA,
        CHR 0xE7, CHR 0xA1, CHR 0xAE, CHR 0xE8, CHR 0xAE, CHR 0xA4, CHR 0xE7, CHR 0x9B, CHR 0xB4, CHR 0xE9, CHR 0x80,
        CHR 0x9A, CHR 0xEF, CHR 0xBC, CHR 0x89, CHR 0xEF, CHR 0xBC, CHR 0x8C, CHR 0xE5, CHR 0xB0, CHR 0x86, CHR 0xE9,
        CHR 0x80, CHR 0x9A, CHR 0xE8, CHR 0xBF, CHR 0x87, CHR 0xE4, CHR 0xB8, CHR 0xAD, CHR 0xE7, CHR 0xBB, CHR 0xA7,
        CHR 0xE9, CHR 0x80, CHR 0x9A, CHR 0xE4, CHR 0xBF, CHR 0xA1] @ '': %s''),
      (''LogServerTimeout'', ''[tunnel] '' @ [CHR 0xE6, CHR 0x9C, CHR 0x8D, CHR 0xE5, CHR 0x8A, CHR 0xA1, CHR 0xE5,
        CHR 0x99, CHR 0xA8, CHR 0xE6, CHR 0x97, CHR 0xA0, CHR 0xE5, CHR 0x93, CHR 0x8D, CHR 0xE5, CHR 0xBA, CHR 0x94,
        CHR 0xE8, CHR 0xB6, CHR 0x85, CHR 0xE8, CHR 0xBF, CHR 0x87] @ '' %v'' @ [CHR 0xEF, CHR 0xBC, CHR 0x8C, CHR
        0xE8, CHR 0xBF, CHR 0x9E, CHR 0xE6, CHR 0x8E, CHR 0xA5, CHR 0xE5, CHR 0x8F, CHR 0xAF, CHR 0xE8, CHR 0x83, CHR
        0xBD, CHR 0xE5, CHR 0xB7, CHR 0xB2, CHR 0xE6, CHR 0x96, CHR 0xAD, CHR 0xE5, CHR 0xBC, CHR 0x80]),
      (''LogCleanPeer'', ''[tunnel] '' @ [CHR 0xE6, CHR 0xB8, CHR 0x85, CHR 0xE7, CHR 0x90, CHR 0x86, CHR 0xE8, CHR
        0xBF, CHR 0x87, CHR 0xE6, CHR 0x9C, CHR 0x9F, CHR 0xE7, CHR 0x8E, CHR 0xA9, CHR 0xE5, CHR 0xAE, CHR 0xB6] @
        '': %s (%s) '' @ [CHR 0xE2, CHR 0x80, CHR 0x94] @ '' '' @ [CHR 0xE8, CHR 0xB6, CHR 0x85, CHR 0xE8, CHR 0xBF,
        CHR 0x87] @ '' %v '' @ [CHR 0xE6, CHR 0x9C, CHR 0xAA, CHR 0xE5, CHR 0x93, CHR 0x8D, CHR 0xE5, CHR 0xBA, CHR
        0x94]),
      (''LogRetryPunch'', ''[tunnel] '' @ [CHR 0xE9, CHR 0x87, CHR 0x8D, CHR 0xE8, CHR 0xAF, CHR 0x95, CHR 0xE6, CHR
        0x89, CHR 0x93, CHR 0xE6, CHR 0xB4, CHR 0x9E] @ '': %d '' @ [CHR 0xE4, CHR 0xB8, CHR 0xAA, CHR 0xE6, CHR
        0x9C, CHR 0xAA, CHR 0xE7, CHR 0x9B, CHR 0xB4, CHR 0xE9, CHR 0x80, CHR 0x9A, CHR 0xE7, CHR 0x9A, CHR 0x84, CHR
        0xE7, CHR 0x8E, CHR 0xA9, CHR 0xE5, CHR 0xAE, CHR 0xB6]),
      (''LogRegTimeout'', ''[tunnel] '' @ [CHR 0xE6, CHR 0xB3, CHR 0xA8, CHR 0xE5, CHR 0x86, CHR 0x8C, CHR 0xE8, CHR
        0xB6, CHR 0x85, CHR 0xE6, CHR 0x97, CHR 0xB6, CHR 0xEF, CHR 0xBC, CHR 0x8C, CHR 0xE9, CHR 0x87, CHR 0x8D, CHR
        0xE8, CHR 0xAF, CHR 0x95] @ '' %d/%d...''),
      (''LogRegFailed'', [CHR 0xE6, CHR 0xB3, CHR 0xA8, CHR 0xE5, CHR 0x86, CHR 0x8C, CHR 0xE5, CHR 0xA4, CHR 0xB1,
        CHR 0xE8, CHR 0xB4, CHR 0xA5, CHR 0xEF, CHR 0xBC, CHR 0x88, CHR 0xE9, CHR 0x87, CHR 0x8D, CHR 0xE8, CHR 0xAF,
        CHR 0x95] @ ''%d'' @ [CHR 0xE6, CHR 0xAC, CHR 0xA1, CHR 0xEF, CHR 0xBC, CHR 0x89]),
      (''LogAuthSent'', ''[tunnel] '' @ [CHR 0xE5, CHR 0xB7, CHR 0xB2, CHR 0xE5, CHR 0x8F, CHR 0x91, CHR 0xE9, CHR
        0x80, CHR 0x81, CHR 0xE8, CHR 0xAE, CHR 0xA4, CHR 0xE8, CHR 0xAF, CHR 0x81, CHR 0xE5, CHR 0x93, CHR 0x8D, CHR
        0xE5, CHR 0xBA, CHR 0x94, CHR 0xEF, CHR 0xBC, CHR 0x8C, CHR 0xE7, CHR 0xAD, CHR 0x89, CHR 0xE5, CHR 0xBE, CHR
        0x85, CHR 0xE6, CHR 0x9C, CHR 0x8D, CHR 0xE5, CHR 0x8A, CHR 0xA1, CHR 0xE5, CHR 0x99, CHR 0xA8, CHR 0xE7, CHR
        0xA1, CHR 0xAE, CHR 0xE8, CHR 0xAE, CHR 0xA4] @ ''...''),
      (''LogReadConsecFail'', ''[tunnel] '' @ [CHR 0xE6, CHR 0x9C, CHR 0x8D, CHR 0xE5, CHR 0x8A, CHR 0xA1, CHR 0xE7,
        CHR 0xAB, CHR 0xAF, CHR 0xE8, CHR 0xBF, CHR 0x9E, CHR 0xE6, CHR 0x8E, CHR 0xA5, CHR 0xE8, CHR 0xAF, CHR 0xBB,
        CHR 0xE5, CHR 0x8F, CHR 0x96, CHR 0xE8, CHR 0xBF, CHR 0x9E, CHR 0xE7, CHR 0xBB, CHR 0xAD, CHR 0xE5, CHR 0xA4,
        CHR 0xB1, CHR 0xE8, CHR 0xB4, CHR 0xA5] @ '' %d '' @ [CHR 0xE6, CHR 0xAC, CHR 0xA1, CHR 0xEF, CHR 0xBC, CHR
        0x8C, CHR 0xE9, CHR 0x80, CHR 0x80, CHR 0xE5, CHR 0x87, CHR 0xBA] @ '': %v''),
      (''LogTUNWriteFail'', ''[tunnel] TUN '' @ [CHR 0xE5, CHR 0x86, CHR 0x99, CHR 0xE5, CHR 0x85, CHR 0xA5, CHR
        0xE5, CHR 0xA4, CHR 0xB1, CHR 0xE8, CHR 0xB4, CHR 0xA5] @ '': %v''),
      (''LogPeerAddrChange'', ''[tunnel] '' @ [CHR 0xE7, CHR 0x8E, CHR 0xA9, CHR 0xE5, CHR 0xAE, CHR 0xB6, CHR 0xE5,
        CHR 0x9C, CHR 0xB0, CHR 0xE5, CHR 0x9D, CHR 0x80, CHR 0xE5, CHR 0x8F, CHR 0x98, CHR 0xE6, CHR 0x9B, CHR 0xB4]
        @ '': %s (%s) %s '' @ [CHR 0xE2, CHR 0x86, CHR 0x92] @ '' %s''),
      (''LogNewPeer'', ''[tunnel] '' @ [CHR 0xE6, CHR 0x96, CHR 0xB0, CHR 0xE7, CHR 0x8E, CHR 0xA9, CHR 0xE5, CHR
        0xAE, CHR 0xB6] @ '': %s (%s)''),
      (''LogPeerLeave2'', ''[tunnel] '' @ [CHR 0xE7, CHR 0x8E, CHR 0xA9, CHR 0xE5, CHR 0xAE, CHR 0xB6, CHR 0xE7, CHR
        0xA6, CHR 0xBB, CHR 0xE5, CHR 0xBC, CHR 0x80] @ '': %s (%s)''),
      (''LogTUNConsecFail'', ''[tunnel] TUN '' @ [CHR 0xE8, CHR 0xAE, CHR 0xBE, CHR 0xE5, CHR 0xA4, CHR 0x87, CHR
        0xE8, CHR 0xAF, CHR 0xBB, CHR 0xE5, CHR 0x8F, CHR 0x96, CHR 0xE8, CHR 0xBF, CHR 0x9E, CHR 0xE7, CHR 0xBB, CHR
        0xAD, CHR 0xE5, CHR 0xA4, CHR 0xB1, CHR 0xE8, CHR 0xB4, CHR 0xA5] @ '' %d '' @ [CHR 0xE6, CHR 0xAC, CHR 0xA1,
        CHR 0xEF, CHR 0xBC, CHR 0x8C, CHR 0xE9, CHR 0x80, CHR 0x80, CHR 0xE5, CHR 0x87, CHR 0xBA] @ '': %v'')]"

definition enStrings :: "(string \<times> string) list" where
  "enStrings =
     [
      (''ServerBanner'', [CHR 0xE2, CHR 0x96, CHR 0x8E] @
        ''         GameTunnel Server LAN Gaming Tunnel              '' @ [CHR 0xE2, CHR 0x96, CHR 0x8E]),
      (''ServerAddr'', ''Address''),
      (''ServerSubnet'', ''Subnet''),
      (''ServerMaxPlayers'', ''Max Players''),
      (''ServerAuth'', ''Auth''),
      (''ServerVersion'', ''Version''),
      (''ServerStatusPage'', ''Status''),
      (''ServerNoAuth'', ''None''),
      (''ServerHMACAuth'', ''HMAC (Room-based)''),
      (''ServerSignal'', ''Received signal %v, shutting down...''),
      (''ServerShutdown'', ''Server stopped''),
      (''ServerStartFail'', ''Failed to start: %v''),
      (''ServerInstRunning'', ''Another instance is running: %v'' @ [CHR 0x0A] @
        ''Please stop the existing GameTunnel server first.''),
      (''ServerSubnetFail'', ''Failed to parse subnet %s: %v''),
      (''ServerSubnetMust'', ''Subnet must be /24 (current: /%d)''),
      (''ServerSendFail'', ''[server] Send failed (total %d): %v''),
      (''ServerStatusLog'', ''[status] Status page: http://%s''),
      (''ServerStatusFail'', ''[status] HTTP server failed to start: %v''),
      (''ServerTmplFail'', ''[status] Template render failed: %v''),
      (''ServerPeerLeave'', ''[-] %s (%s) timed out''),
      (''LogStateRestored'', ''[persist] Restored %d player IP allocations''),
      (''StatusTitle'', ''GameTunnel Server''),
      (''StatusPlayers'', ''Players''),
      (''StatusUptime'', ''Uptime''),
      (''StatusVersion'', ''Version''),
      (''StatusNoPlayers'', ''No players connected''),
      (''StatusTablePlayer'', ''Player''),
      (''StatusTableVIP'', ''Virtual IP''),
      (''StatusTableAddr'', ''Address''),
      (''StatusTablePing'', ''Ping''),
      (''StatusTableIdle'', ''Idle''),
      (''StatusAuthHMAC'', ''HMAC Auth''),
      (''StatusAuthNone'', ''No Auth''),
      (''StatusJustNow'', ''just now''),
      (''StatusSecAgo'', ''%ds ago''),
      (''StatusMetrics'', ''Metrics''),
      (''StatusTotalRegs'', ''Registrations''),
      (''StatusPeakPlayers'', ''Peak Online''),
      (''StatusRelayPkts'', ''Relayed Pkts''),
      (''StatusAuthFails'', ''Auth Failures''),
      (''StatusTotalKicks'', ''Kicks''),
      (''StatusDroppedPkts'', ''Dropped Pkts''),
      (''StatusSendErrors'', ''Send Errors''),
      (''DlgTitle'', ''GameTunnel Settings''),
      (''DlgServerAddr'', ''Server:''),
      (''DlgPlayerName'', ''Name:''),
      (''DlgRoomID'', ''Room:''),
      (''DlgPassword'', ''Password:''),
      (''DlgOK'', ''OK''),
      (''DlgCancel'', ''Cancel''),
      (''DlgStatusIdle'', ''Disconnected''),
      (''DlgStatusConn'', ''Connected '' @ [CHR 0xC2, CHR 0xB7] @ '' %s '' @ [CHR 0xC2, CHR 0xB7] @ '' %d online''),
      (''DlgFirstRun'', ''First-Time Setup - GameTunnel''),
      (''DlgConnect'', ''Connect''),
      (''DlgShowPass'', ''Show password''),
      (''DlgInvalidAddr'', ''Invalid server address, should be IP:port''),
      (''WebUITitle'', ''GameTunnel''),
      (''WebUISettings'', ''Settings''),
      (''WebUIStatus'', ''Status''),
      (''WebUIServerAddr'', ''Server Address''),
      (''WebUIPlayerName'', ''Player Name''),
      (''WebUIRoomID'', ''Room ID''),
      (''WebUIPassword'', ''Password''),
      (''WebUIPasswordHint'', ''Leave empty if no password''),
      (''WebUILanguage'', ''Language''),
      (''WebUIMTU'', ''MTU''),
      (''WebUIShowPass'', ''Show''),
      (''WebUISave'', ''Save & Apply''),
      (''WebUIInvalidAddr'', ''Invalid server address format''),
      (''WebUINameEmpty'', ''Player name cannot be empty''),
      (''AppAutoConnect'', ''[app] Auto-connecting to %s''),
      (''AppSaveFail'', ''[app] Failed to save config: %v''),
      (''AppDisconnected'', ''[app] Disconnected''),
      (''AppDisconnectErr'', ''[app] Disconnected: %v''),
      (''DlgNameEmpty'', ''Player name cannot be empty''),
      (''RunStartup'', ''=== GameTunnel Started ===''),
      (''CfgHeader'', ''# GameTunnel Configuration''),
      (''CfgServerHint'', ''# Server address (required, e.g. 1.2.3.4:4700 or [2408::1]:4700)''),
      (''CfgNameHint'', ''# Player name (default: computer name)''),
      (''CfgRoomHint'', ''# Room ID (default: default)''),
      (''CfgPassHint'', ''# Password (leave empty if none)''),
      (''KickInvalidName'', ''Invalid username''),
      (''KickInvalidRoom'', ''Invalid room ID''),
      (''KickRateLimit'', ''Registration too frequent, please try again later''),
      (''KickIPLimit'', ''Too many connections from this IP''),
      (''KickAuthPending'', ''Authentication in progress, please wait''),
      (''KickRoomFull'', ''Room is full''),
      (''KickDuplicateName'', ''A player with the same name already exists in this room, please change your name''),
      (''KickServerBusy'', ''Server is busy, please try again later''),
      (''KickIPExhausted'', ''No available IP addresses''),
      (''KickInternalError'', ''Internal server error''),
      (''KickAuthAbnormal'', ''Invalid authentication state''),
      (''KickAuthTimeout'', ''Authentication timed out''),
      (''KickWrongPassword'', ''Wrong password''),
      (''KickVersionMismatch'', ''Version incompatible: client v%d, server requires v%d''),
      (''UpgradePrompt'', ''Current version %s, server is %s. Please upgrade your client''),
      (''LogPlayerJoin'', ''[+] %s (%s) '' @ [CHR 0xE2, CHR 0x86, CHR 0x92] @ '' %s  [Online: %d]''),
      (''LogChallengeFail'', ''[auth] Failed to generate challenge: %v''),
      (''LogAuthFail'', ''[auth] Authentication failed: %s (%s)''),
      (''LogAuthPass'', ''[auth] Authentication passed: %s (%s)''),
      (''LogPlayerLeave'', ''[-] %s (%s) disconnected''),
      (''ErrInvalidServer'', ''Invalid server address: %w''),
      (''ErrBindUDP'', ''Failed to bind UDP: %w''),
      (''ErrRegisterFailed'', ''Registration failed: %w''),
      (''ErrTooManyAuth'', ''Authentication failed: server sent too many auth requests''),
      (''ErrRejected'', ''Rejected: %s''),
      (''ErrNeedPassword'', ''Server requires a room password, use -password flag''),
      (''ErrCreateTUN'', ''Failed to create TUN: %w''),
      (''ErrDecodeFailed'', ''Failed to decode response: %w''),
      (''ErrParseIPFailed'', ''Failed to parse IP assignment: %w''),
      (''ErrParseAuthFailed'', ''Failed to parse auth challenge: %w''),
      (''ErrDeriveKeyFailed'', ''Failed to derive auth key''),
      (''ErrElevateFailed'', ''  Failed to elevate: %v'' @ [CHR 0x0A]),
      (''LogRecreateTUN'', ''[tunnel] Recreating TUN device (IP %s unchanged)''),
      (''LogIPChanged'', ''[tunnel] IP changed %s '' @ [CHR 0xE2, CHR 0x86, CHR 0x92] @
        '' %s, recreating TUN device''),
      (''LogPeerExit'', ''[tunnel] %s exited, disconnecting''),
      (''LogTunnelDisconnect'', ''[tunnel] Disconnected''),
      (''LogSendFail'', ''[tunnel] Send failed (total %d): %v''),
      (''LogP2PSuccess'', ''[tunnel] P2P hole punch succeeded (phase %d): %s''),
      (''LogP2PFailed'', ''[tunnel] P2P hole punch completed (not confirmed direct), will relay: %s''),
      (''LogServerTimeout'', ''[tunnel] Server unresponsive for over %v, connection may be lost''),
      (''LogCleanPeer'', ''[tunnel] Cleaning stale peer: %s (%s) '' @ [CHR 0xE2, CHR 0x80, CHR 0x94] @
        '' unresponsive for %v''),
      (''LogRetryPunch'', ''[tunnel] Retrying hole punch: %d undirect peers''),
      (''LogRegTimeout'', ''[tunnel] Registration timeout, retry %d/%d...''),
      (''LogRegFailed'', ''Registration failed (retried %d times)''),
      (''LogAuthSent'', ''[tunnel] Auth response sent, waiting for server confirmation...''),
      (''LogReadConsecFail'', ''[tunnel] Server read failed %d times consecutively, exiting: %v''),
      (''LogTUNWriteFail'', ''[tunnel] TUN write failed: %v''),
      (''LogPeerAddrChange'', ''[tunnel] Peer address changed: %s (%s) %s '' @ [CHR 0xE2, CHR 0x86, CHR 0x92] @
        '' %s''),
      (''LogNewPeer'', ''[tunnel] New peer: %s (%s)''),
      (''LogPeerLeave2'', ''[tunnel] Peer left: %s (%s)''),
      (''LogTUNConsecFail'', ''[tunnel] TUN read failed %d times consecutively, exiting: %v'')]"

definition texts :: "(string \<times> string) list Texts" where
  "texts = init_texts zhStrings enStrings"

section \<open>Format verbs\<close>

text \<open>What follows a percent sign up to and with its verb, a letter or a second percent sign (flags, width and precision before it).\<close>

fun flag_char :: "char \<Rightarrow> bool" where
  "flag_char c = (c \<in> set ''+-# .0123456789'')"

fun verbs :: "string \<Rightarrow> string list" and in_verb :: "string \<Rightarrow> string \<Rightarrow> string list" where
  "verbs [] = []"
| "verbs (c # cs) = (if c = CHR 0x25 then in_verb [] cs else verbs cs)"
| "in_verb acc [] = []"
| "in_verb acc (c # cs) = (if flag_char c then in_verb (acc @ [c]) cs else (acc @ [c]) # verbs cs)"

definition sprintf_verb :: "string \<Rightarrow> bool" where
  "sprintf_verb v \<longleftrightarrow> v \<noteq> [] \<and> last v \<in> set ''vTtbcdoOqxXUeEfFgGsp%''"

section \<open>Properties\<close>

lemma en_fields: "map fst enStrings = map fst zhStrings"
  by code_simp

lemma zh_fields: "fst ` set zhStrings = set string_fields"
proof -
  have "remove1 ''DlgNameEmpty'' (map fst zhStrings) = remove1 ''DlgNameEmpty'' string_fields" by code_simp
  moreover have "''DlgNameEmpty'' \<in> set (map fst zhStrings)" "''DlgNameEmpty'' \<in> set string_fields" by code_simp+
  ultimately have "mset (map fst zhStrings) = mset string_fields"
    by (metis insert_DiffM mset_remove1 set_mset_mset)
  then have "set (map fst zhStrings) = set string_fields" by (rule mset_eq_setD)
  then show ?thesis by simp
qed

lemma same_verbs: "map (\<lambda>kt. verbs (snd kt)) enStrings = map (\<lambda>kt. verbs (snd kt)) zhStrings"
  by code_simp

lemma map_of_related:
  "map fst xs = map fst ys \<Longrightarrow> map (\<lambda>kt. f (snd kt)) xs = map (\<lambda>kt. f (snd kt)) ys \<Longrightarrow>
   map_option f (map_of xs k) = map_option f (map_of ys k)"
proof (induction xs arbitrary: ys)
  case (Cons x xs)
  then show ?case by (cases ys) auto
qed simp

text \<open>
  The translations agree: whatever language is set, the current table has a text for exactly the fields of \<open>Strings\<close>, and every text takes the
  same arguments, in the same order, in both languages.  Seven texts use the verb \<open>%w\<close>, which \<open>fmt.Sprintf\<close>,
  by which \<open>Format\<close> expands them, does not know.
\<close>

theorem translations_agree:
  "fst ` set (T_lang (Set_lang l texts)) = set string_fields \<and>
   (\<forall>k. map_option verbs (map_of (T_lang (Set_lang l texts)) k) = map_option verbs (map_of zhStrings k)) \<and>
   map fst (filter (\<lambda>kt. \<not> list_all sprintf_verb (verbs (snd kt))) (T_lang (Set_lang l texts))) =
     [''ErrInvalidServer'', ''ErrBindUDP'', ''ErrRegisterFailed'', ''ErrCreateTUN'', ''ErrDecodeFailed'', ''ErrParseIPFailed'', ''ErrParseAuthFailed'']"
proof -
  have w: "map fst (filter (\<lambda>kt. \<not> list_all sprintf_verb (verbs (snd kt))) t) =
     [''ErrInvalidServer'', ''ErrBindUDP'', ''ErrRegisterFailed'', ''ErrCreateTUN'', ''ErrDecodeFailed'', ''ErrParseIPFailed'', ''ErrParseAuthFailed'']" if "t = zhStrings \<or> t = enStrings" for t
    using that by (elim disjE; hypsubst) code_simp+
  have "fst ` set enStrings = fst ` set zhStrings" using en_fields by (metis set_map)
  moreover have "T_lang (Set_lang l texts) = (case l of ZH \<Rightarrow> zhStrings | EN \<Rightarrow> enStrings)"
    by (cases l) (simp_all add: T_lang_def Set_lang_def texts_def init_texts_def)
  ultimately show ?thesis
    using zh_fields map_of_related[OF en_fields same_verbs] w by (cases l) auto
qed

end
