(* ===== verification/Spec2Isabelle.thy ===== *)
theory Spec2Isabelle
  imports System Broadcast Supervisor Texts Metrics
begin

text \<open>
  \<^bold>\<open>GameTunnel: a verification of the relay server, the client and their protocol.\<close>

  GameTunnel joins players in a virtual LAN.  A client registers with the server over UDP
  (or TCP as a fallback), answers a challenge if the room has a password, gets a virtual
  address and a session token, and then exchanges packets with the other players through
  the server or directly.  The server keeps rooms of players, relays unicast and broadcast
  packets between them, limits rates and bandwidth, removes silent players and saves its
  default room across restarts.  The client moves IP packets between its TUN device and the
  network, keeps a table of its peers, punches holes through NATs and reconnects.

  \<^bold>\<open>The theories and the code\<close> (paths under src/internal/).

  Shared:

  \<^item> \<open>Prelude\<close>: results with errors and panics, byte strings, bounds-checked slices, little- and
    big-endian integers, Go maps with an arbitrary iteration order, ring buffers; the
    collections of simplification rules.
  \<^item> \<open>GoNet\<close>: what the code uses of package net (addresses, text forms, masks) and
    netutil/ipkey.go, netutil/broadcast.go.
  \<^item> \<open>Framing\<close>: protocol/protocol.go, the frame with its CRC-32.  \<open>DecodeChecked\<close> accepts exactly the
    encodings.
  \<^item> \<open>Messages\<close>: protocol/messages*.go and errors.go, every payload codec.  Round trips, no
    decoder panics, the pooled decoder agrees with the plain one, classification of kicks.
  \<^item> \<open>Auth\<close>: auth/auth.go and password.go over SHA-256, HMAC and HKDF written out.
  \<^item> \<open>Crypto\<close>: crypto/crypto.go with ChaCha20-Poly1305 as the parameter \<open>AEAD\<close>; the replay window
    refines the set of counters seen (63 behind, any number ahead), streams round-trip.
  \<^item> \<open>Transport\<close>: netutil/tcptransport.go, pool/buf.go and the TCP side of server/server.go.

  The server:

  \<^item> \<open>RateLimit\<close>: server/ratelimit.go, tokenbucket.go, bandwidth.go.  The locale
    \<open>window_counter\<close> is the contract of a counter per window, with the packet limiter (here) and the
    registration limiter (in \<open>Room\<close>) as instances.
  \<^item> \<open>SendQueue\<close>: server/sendqueue.go; the sending loop is the step relation \<open>run_step\<close>, and the
    locale \<open>conserving_worker\<close> gives that queued packets are written exactly once.
  \<^item> \<open>IPPool\<close>: the bitmap of server/room.go; the locale \<open>allocator\<close> is what the room relies on.
  \<^item> \<open>ClientState\<close>: server/client.go.
  \<^item> \<open>Room\<close>, \<open>RoomAuth\<close>, \<open>RoomRelay\<close>, \<open>RoomLife\<close>: server/room.go, room_auth.go and
    \<open>resolveRestoredClient\<close>, room_relay.go, room_lifecycle.go and room_ping.go: one definition per
    method, ending in the dispatcher \<open>HandlePacket\<close>.
  \<^item> \<open>RoomInv\<close>: the invariant \<open>room_wf\<close> of a room, kept by every operation, and the step relation
    \<open>room_step\<close> of everything that can happen to a room.
  \<^item> \<open>RoomProps\<close>: what each operation does to the player map and that the configuration never
    changes.
  \<^item> \<open>RoomGuarantees\<close>, \<open>RelayGuarantees\<close>, \<open>LifeGuarantees\<close>: the invariant along runs, admission with and
    without password, addresses; who gets a relayed packet, and for whom; exactly what a cleanup removes,
    the registration limit, and three ways around the room's checks.
  \<^item> \<open>Server\<close>, \<open>ServerInv\<close>, \<open>ServerGuarantees\<close>: server/server.go, keepalive_server.go, subnet.go: dispatch,
    routing between rooms, rebinding, subnets, idle rooms; the invariant of all rooms together
    along the runs of the server, isolation of rooms, corrupted packets.
  \<^item> \<open>Persist\<close>: server/persist.go; a restart restores the players that are fresh enough.
  \<^item> \<open>Metrics\<close>: server/metrics.go and the data and access checks of status.go, room_status.go.

  The client:

  \<^item> \<open>NatProbe\<close>: nat/natprobe.go.
  \<^item> \<open>Pacing\<close>: client/ratelimit.go and reconnect.go.
  \<^item> \<open>ConfigFile\<close>: client/config.go, the file as its bytes; what is saved is loaded again.
  \<^item> \<open>Tunnel\<close>: client/tunnel_types.go, the sending half of tunnel.go, and route.go.
  \<^item> \<open>TunnelRecv\<close>: client/recv.go, recv_data.go, recv_peer.go, peer.go, holepunch.go, keepalive.go,
    p2p_keepalive.go, rebind.go.
  \<^item> \<open>TunnelConn\<close>: client/register.go and the connection half of tunnel.go.
  \<^item> \<open>App\<close>: client/app.go with the reconnect loop.
  \<^item> \<open>TunnelGuarantees\<close>, \<open>ClientGuarantees\<close>, \<open>Broadcast\<close>: where a packet is sent, delivery from one
    client through the room to another, who may write to the TUN device, the valid
    rewriting of broadcasts (\<open>wire_packet\<close> is a specification of \<open>buildPacket\<close>, which \<open>route_eq\<close>
    proves to be what \<open>routePacket\<close> sends); and the client together with the server: the peer table, joining a
    room with a password, a silent server, NAT detection, the shared packet cipher.
  \<^item> \<open>ClientRun\<close>: everything that can happen to a client as events (\<open>cevent\<close>) and its invariant along every
    sequence of them; the locale \<open>safe_machine\<close> lifts an invariant of a step to runs.  No panic, bounded
    channels, a consistent session; every datagram that a client with a password writes is a control message
    or the encryption of a packet of its device.

  Server and clients together:

  \<^item> \<open>ServerOuts\<close>: whatever it is sent, the server sends only control messages of its own and
    datagrams it received.
  \<^item> \<open>System\<close>: one server, any number of clients and a network that loses, repeats, reorders, misdelivers and
    damages datagrams, as the step relation \<open>sys_step\<close>: without password no packet is invented.

  Devices, commands and start-up:

  \<^item> \<open>TunLinux\<close>, \<open>TunWindows\<close>: tun/.  A program is a function of the answers of the system to the history of its
    calls; the system (\<open>LinOS\<close>, \<open>WinOS\<close>) is a parameter.  \<open>wspec\<close> is the calculus for such programs.
    What is set up is removed on Linux; on Windows three defects of the routes.
  \<^item> \<open>SingleInstance\<close>: singleinstance/.  \<open>Acquire\<close> as one step (at most one instance if the lock file can be
    written, \<open>lock_conditions_needed\<close>) and as interleaved system calls (two instances).
  \<^item> \<open>LogFiles\<close>: i18n (languages), paths/, logfile/, crashlog/ and the log of cmd/server; the log and one backup are kept.
  \<^item> \<open>Texts\<close>: the two tables of i18n/i18n.go; the translations take the same arguments.
  \<^item> \<open>Startup\<close>: cmd/server/main.go, cmd/client/, the opening of sockets in server/server.go, netutil/socketbuf: when the
    server serves, that a server so started is safe, which firewall rules the client leaves.
  \<^item> \<open>Supervisor\<close>: the goroutines of server/server.go and client/tunnel.go: \<open>Run\<close>, \<open>Close\<close>, the signal
    handler, and the supervision of a connection as the step relation \<open>relay_step\<close>, in which
    the reading loops may wait in a read after the cancellation (\<open>silent_device_leaves_reader\<close>).

  \<^bold>\<open>How the state corresponds.\<close>  A struct is a record with the source's fields; \<open>R_\<close>, \<open>SQ_\<close>, \<open>T_\<close> and similar
  prefixes keep the field names of different records apart.  The players of a room are cells of a heap
  (\<open>R_heap\<close>), so that the two maps of a room share them as the Go pointers do.  The peers of a client
  are values of one map: its published snapshot has the same pointers.  A Go map is an
  association list with distinct keys, a loop over it takes the order the run time picks from
  the environment (\<open>Env\<close> of a room, \<open>SEnv\<close> of the server, \<open>CEnv\<close> of a client), and the
  theorems hold for every order.  The environment also holds the clock, the bytes
  of rand.Read, name resolution, recycled buffers and whether system calls succeed.  A socket is
  the list of packets written to it (\<open>T_wire\<close>), a TUN device likewise (\<open>Dev_written\<close>); what a read
  returns is an argument.  A file is its content: bytes for config.ini, the JSON document for the
  saved state.  Errors are values, panics are \<open>Panic\<close>.

  \<^bold>\<open>Granularity.\<close>  A handler is one atomic step at one instant: the code releases and retakes the
  room's mutex inside some handlers and re-checks afterwards, which always succeeds here.  A
  goroutine that a handler starts to broadcast the peer list runs at the end of the
  handler.  A high-priority send that blocks up to 50 ms is modelled when it ends.
  Tickers are single steps that may happen at any time.  The goroutines of the client that punch
  holes are work lists (\<open>T_punches\<close>) that advance one packet at a time; a rebind is a request and
  a later result.

  \<^bold>\<open>Integers.\<close>  Fields of the wire format, counters, checksums and hashes have their width (\<open>word\<close>); lengths are
  naturals; times and durations are unbounded integers of nanoseconds; the float64
  quantities of the token bucket, the metrics and the loss rate are exact rationals.

  \<^bold>\<open>Loops.\<close>  Every definition is total.  The scan of the bitmap, the folding of a checksum and the
  trimming of a line are \<open>function\<close>s with a measure.  Loops over a socket run over the list of what is
  read, whose end is an error of the read, be it the end of the stream or the deadline of 30 seconds; the parser of IPv6 texts counts its groups down from eight, which is the most an
  address has.  \<open>Acquire\<close> has fuel for its recursion: two levels are enough when the lock file can
  be removed (\<open>acquire_returns\<close>), no amount is when it cannot (\<open>acquire_endless\<close>).

  \<^bold>\<open>Not modelled\<close>: the inside of the operating system, of the wireguard device and of ChaCha20-Poly1305 (parameters);
  the parsing of flags by package flag; HTTP, JSON and HTML rendering; mutexes, logging and
  printing; the scoped-address zone of IPv6 endpoints; the timer pool of the send queue; the
  options of TCP sockets and the thin wrappers of package net in netutil/tcptransport.go.

  \<^bold>\<open>Plan\<close>, in order: a system with a password in \<open>System\<close> (no packet is readable on the network), TCP clients as
  part of the system, the handlers of a room split at the points where the code releases its mutex.
\<close>

end
